(* ===== verification/Trace_Context.thy ===== *)
theory Trace_Context
  imports Prelude "HOL-Library.Word"
begin

text \<open>
  The W3C \<open>traceparent\<close> header of \<open>api/trace_propagation.py\<close>, by which a job carries the trace of
  the request that queued it to the worker: its format from a span context and its parser, with
  the identifiers at their widths.
\<close>

record span_context =
  sx_trace_id :: "128 word"
  sx_span_id :: "64 word"
  sx_flags :: "8 word"

definition context_is_valid :: "span_context \<Rightarrow> bool" where
  "context_is_valid c \<longleftrightarrow> sx_trace_id c \<noteq> 0 \<and> sx_span_id c \<noteq> 0"

definition hex_chars :: string where "hex_chars = ''0123456789abcdef''"

definition is_hex :: "char \<Rightarrow> bool" where "is_hex c \<longleftrightarrow> c \<in> set hex_chars"

definition hex_char :: "nat \<Rightarrow> char" where "hex_char n = hex_chars ! n"

fun hex_index :: "char \<Rightarrow> string \<Rightarrow> nat" where
  "hex_index c [] = 0"
| "hex_index c (d # ds) = (if c = d then 0 else Suc (hex_index c ds))"

text \<open>\<open>f"{v:0kx}"\<close> for a value of at most \<open>k\<close> digits, and \<open>int(s, 16)\<close>.\<close>

fun hex_pad :: "nat \<Rightarrow> nat \<Rightarrow> string" where
  "hex_pad 0 v = []"
| "hex_pad (Suc k) v = hex_pad k (v div 16) @ [hex_char (v mod 16)]"

definition hex_value :: "string \<Rightarrow> nat" where
  "hex_value s = foldl (\<lambda>a c. a * 16 + hex_index c hex_chars) 0 s"

definition format_w3c_traceparent :: "span_context \<Rightarrow> string option" where
  "format_w3c_traceparent c =
     (if \<not> context_is_valid c then None
      else Some (''00-'' @ hex_pad 32 (unat (sx_trace_id c)) @ ''-''
                 @ hex_pad 16 (unat (sx_span_id c)) @ ''-'' @ hex_pad 2 (unat (sx_flags c))))"

definition current_trace_id :: "span_context \<Rightarrow> string option" where
  "current_trace_id c =
     (if \<not> context_is_valid c then None else Some (hex_pad 32 (unat (sx_trace_id c))))"

record traceparent_parts =
  tp_version :: string
  tp_trace_id :: string
  tp_span_id :: string
  tp_trace_flags :: string

text \<open>The groups of the regular expression: hex fields of 2, 32, 16 and 2 characters.\<close>

definition match_traceparent :: "string \<Rightarrow> traceparent_parts option" where
  "match_traceparent s =
     (let v = take 2 s; t = take 32 (drop 3 s); p = take 16 (drop 36 s); f = drop 53 s
      in if length s = 55 \<and> s ! 2 = CHR ''-'' \<and> s ! 35 = CHR ''-'' \<and> s ! 52 = CHR ''-''
            \<and> list_all is_hex (v @ t @ p @ f)
         then Some \<lparr>tp_version = v, tp_trace_id = t, tp_span_id = p, tp_trace_flags = f\<rparr>
         else None)"

definition parse_traceparent :: "string option \<Rightarrow> traceparent_parts option" where
  "parse_traceparent h =
     (case h of None \<Rightarrow> None
      | Some s \<Rightarrow> if s = [] then None else match_traceparent (py_strip s))"

definition span_context_from_traceparent :: "string option \<Rightarrow> span_context option" where
  "span_context_from_traceparent h =
     map_option (\<lambda>p. \<lparr>sx_trace_id = of_nat (hex_value (tp_trace_id p)),
                      sx_span_id = of_nat (hex_value (tp_span_id p)),
                      sx_flags = of_nat (hex_value (tp_trace_flags p))\<rparr>)
       (parse_traceparent h)"

section \<open>Hexadecimal digits\<close>

lemma hex_char_cases:
  "n < 16 \<Longrightarrow> hex_index (hex_char n) hex_chars = n \<and> is_hex (hex_char n) \<and> \<not> is_space (hex_char n)"
proof -
  have "list_all (\<lambda>n. hex_index (hex_char n) hex_chars = n \<and> is_hex (hex_char n)
      \<and> \<not> is_space (hex_char n)) [0..<16]" by code_simp
  moreover assume "n < 16"
  ultimately show ?thesis by (simp add: list_all_iff)
qed

lemma length_hex_pad [simp]: "length (hex_pad k v) = k"
  by (induction k v rule: hex_pad.induct) auto

lemma hex_pad_hex [simp]: "list_all is_hex (hex_pad k v)"
  by (induction k v rule: hex_pad.induct) (auto simp: hex_char_cases)

lemma hex_value_snoc [simp]: "hex_value (s @ [c]) = hex_value s * 16 + hex_index c hex_chars"
  by (simp add: hex_value_def)

lemma hex_value_pad: "v < 16 ^ k \<Longrightarrow> hex_value (hex_pad k v) = v"
proof (induction k v rule: hex_pad.induct)
  case (1 v)
  then show ?case by (simp add: hex_value_def)
next
  case (2 k v)
  have "v div 16 < 16 ^ k" using "2.prems" by (simp add: less_mult_imp_div_less mult.commute)
  with "2.IH" show ?case by (simp add: hex_char_cases)
qed

lemma of_nat_hex_value:
  "unat w < 16 ^ k \<Longrightarrow> of_nat (hex_value (hex_pad k (unat w))) = (w :: 'a :: len word)"
  by (simp add: hex_value_pad)

lemma word_below:
  "unat (t :: 128 word) < 16 ^ 32" "unat (p :: 64 word) < 16 ^ 16" "unat (f :: 8 word) < 16 ^ 2"
  using unsigned_less [of t] unsigned_less [of p] unsigned_less [of f] by simp_all

lemma strip_hex_ends:
  assumes "s \<noteq> []" "\<not> is_space (hd s)" "\<not> is_space (last s)"
  shows "py_strip s = s"
proof -
  have "dropWhile is_space s = s" using assms(1,2) by (cases s) auto
  moreover have "dropWhile is_space (rev s) = rev s"
    using assms(1,3) by (cases "rev s") (auto simp: last_rev [symmetric] hd_rev)
  ultimately show ?thesis by (simp add: py_strip_def)
qed

lemma match_formatted:
  assumes "length t = 32" "length p = 16" "length f = 2" "list_all is_hex (t @ p @ f)"
  shows "match_traceparent (''00-'' @ t @ ''-'' @ p @ ''-'' @ f)
    = Some \<lparr>tp_version = ''00'', tp_trace_id = t, tp_span_id = p, tp_trace_flags = f\<rparr>"
proof -
  let ?s = "''00-'' @ t @ ''-'' @ p @ ''-'' @ f"
  have parts: "take 2 ?s = ''00''" "take 32 (drop 3 ?s) = t" "take 16 (drop 36 ?s) = p"
    "drop 53 ?s = f" "length ?s = 55" "?s ! 2 = CHR ''-''" "?s ! 35 = CHR ''-''"
    "?s ! 52 = CHR ''-''"
    using assms(1-3) by (simp_all add: nth_append numeral_2_eq_2)
  have "is_hex (CHR ''0'')" by (simp add: is_hex_def hex_chars_def)
  with assms(4) show ?thesis
    unfolding match_traceparent_def Let_def parts by simp
qed

section \<open>Properties\<close>

text \<open>C8: The worker recovers exactly the span context the request was traced under: parsing the
  header a valid context is formatted to gives that context back.\<close>

theorem traceparent_roundtrip:
  assumes "context_is_valid c"
  shows "\<exists>h. format_w3c_traceparent c = Some h \<and> length h = 55
     \<and> span_context_from_traceparent (Some h) = Some c"
proof -
  let ?t = "hex_pad 32 (unat (sx_trace_id c))" and ?p = "hex_pad 16 (unat (sx_span_id c))"
    and ?f = "hex_pad 2 (unat (sx_flags c))"
  let ?h = "''00-'' @ ?t @ ''-'' @ ?p @ ''-'' @ ?f"
  have "last ?h = hex_char (unat (sx_flags c) mod 16)"
    by (simp add: numeral_2_eq_2)
  then have "\<not> is_space (last ?h)" using hex_char_cases by (metis mod_less_divisor zero_less_numeral)
  moreover have "\<not> is_space (hd ?h)" by (simp add: is_space_def)
  ultimately have "py_strip ?h = ?h" by (intro strip_hex_ends) simp_all
  then have "parse_traceparent (Some ?h)
      = Some \<lparr>tp_version = ''00'', tp_trace_id = ?t, tp_span_id = ?p, tp_trace_flags = ?f\<rparr>"
    unfolding parse_traceparent_def by (simp add: match_formatted [simplified])
  moreover note of_nat_hex_value [OF word_below(1)] of_nat_hex_value [OF word_below(2)]
    of_nat_hex_value [OF word_below(3)]
  ultimately show ?thesis
    using assms by (simp add: format_w3c_traceparent_def span_context_from_traceparent_def)
qed

theorem traceparent_roundtrip_witness:
  "\<exists>h. format_w3c_traceparent \<lparr>sx_trace_id = 255, sx_span_id = 7, sx_flags = 1\<rparr> = Some h
     \<and> span_context_from_traceparent (Some h) = Some \<lparr>sx_trace_id = 255, sx_span_id = 7, sx_flags = 1\<rparr>"
  using traceparent_roundtrip [of "\<lparr>sx_trace_id = 255, sx_span_id = 7, sx_flags = 1\<rparr>"]
  by (auto simp: context_is_valid_def)

end
