(* ===== verification/Outbox.thy ===== *)
theory Outbox
  imports Trace_Context
begin

text \<open>
  The transactional outbox: the \<open>pipeline_jobs\<close> table of \<open>models/pipeline_job.py\<close>, its operations
  in \<open>workers/outbox.py\<close>, the dispatcher of \<open>workers/dispatcher.py\<close> and the task wrapper of
  \<open>workers/tasks.py\<close>. The table is a list of rows; the SQL statements are functions on it with the
  transaction's time as argument. arq's queue is an argument of the dispatcher, and a step relation
  interleaves requests, dispatchers, workers, crashes and the recovery loop.
\<close>

section \<open>Jobs\<close>

datatype pipeline_job_type =
    Job_case_pipeline
  | Job_whatif_scenario
  | Job_stability_computation
  | Job_gate_run
  | Job_intake_extraction
  | Job_document_parse

datatype pipeline_job_status = Job_pending | Job_dispatched | Job_completed | Job_failed

record pipeline_job =
  jb_id :: uuid
  jb_case_id :: uuid
  jb_type :: pipeline_job_type
  jb_target_id :: "uuid option"
  jb_status :: pipeline_job_status
  jb_attempts :: nat
  jb_payload :: "pydict option"
  jb_traceparent :: "string option"
  jb_error_message :: "string option"
  jb_created_at :: int
  jb_dispatched_at :: "int option"
  jb_completed_at :: "int option"

type_synonym job_table = "pipeline_job list"

definition find_job :: "uuid \<Rightarrow> job_table \<Rightarrow> pipeline_job option" where
  "find_job jid jobs = find (\<lambda>j. jb_id j = jid) jobs"

text \<open>The header of the request's span, unless the caller passes one.\<close>

definition enqueue_outbox_job ::
  "span_context \<Rightarrow> int \<Rightarrow> uuid \<Rightarrow> uuid \<Rightarrow> pipeline_job_type \<Rightarrow> uuid option \<Rightarrow> pydict option
   \<Rightarrow> string option \<Rightarrow> job_table \<Rightarrow> job_table \<times> pipeline_job" where
  "enqueue_outbox_job req_span now jid case_id jt target payload traceparent jobs =
     (let tp = (case traceparent of None \<Rightarrow> format_w3c_traceparent req_span | Some h \<Rightarrow> Some h);
          job = \<lparr>jb_id = jid, jb_case_id = case_id, jb_type = jt, jb_target_id = target,
                 jb_status = Job_pending, jb_attempts = 0, jb_payload = payload,
                 jb_traceparent = tp, jb_error_message = None, jb_created_at = now,
                 jb_dispatched_at = None, jb_completed_at = None\<rparr>
      in (jobs @ [job], job))"

text \<open>
  \<open>SELECT ... WHERE status = 'pending' ORDER BY created_at FOR UPDATE SKIP LOCKED LIMIT n\<close>: the
  rows other transactions hold locked are skipped.
\<close>

definition pending_unlocked :: "uuid set \<Rightarrow> job_table \<Rightarrow> job_table" where
  "pending_unlocked locked jobs =
     sort_key jb_created_at (filter (\<lambda>j. jb_status j = Job_pending \<and> jb_id j \<notin> locked) jobs)"

definition claim_pending_jobs :: "uuid set \<Rightarrow> nat \<Rightarrow> job_table \<Rightarrow> job_table" where
  "claim_pending_jobs locked batch_size jobs = take batch_size (pending_unlocked locked jobs)"

definition mark_dispatched :: "int \<Rightarrow> uuid list \<Rightarrow> job_table \<Rightarrow> job_table" where
  "mark_dispatched now job_ids jobs =
     map (\<lambda>j. if jb_id j \<in> set job_ids \<and> jb_status j = Job_pending
              then j\<lparr>jb_status := Job_dispatched, jb_dispatched_at := Some now\<rparr> else j) jobs"

definition mark_completed :: "int \<Rightarrow> uuid \<Rightarrow> job_table \<Rightarrow> job_table" where
  "mark_completed now jid jobs =
     map (\<lambda>j. if jb_id j = jid
              then j\<lparr>jb_status := Job_completed, jb_completed_at := Some now,
                     jb_error_message := None\<rparr> else j) jobs"

definition mark_failed :: "int \<Rightarrow> uuid \<Rightarrow> string \<Rightarrow> job_table \<Rightarrow> job_table" where
  "mark_failed now jid msg jobs =
     map (\<lambda>j. if jb_id j = jid
              then j\<lparr>jb_status := Job_failed, jb_attempts := jb_attempts j + 1,
                     jb_error_message := Some (take 1000 msg), jb_completed_at := Some now\<rparr>
              else j) jobs"

text \<open>Times are in microseconds, thresholds in seconds.\<close>

definition is_stuck :: "int \<Rightarrow> int \<Rightarrow> pipeline_job \<Rightarrow> bool" where
  "is_stuck now threshold_secs j \<longleftrightarrow> jb_status j = Job_dispatched
     \<and> (case jb_dispatched_at j of None \<Rightarrow> False
        | Some t \<Rightarrow> t < now - threshold_secs * 1000000)"

definition recover_stuck_jobs :: "int \<Rightarrow> int \<Rightarrow> job_table \<Rightarrow> job_table \<times> uuid list" where
  "recover_stuck_jobs now threshold_secs jobs =
     (map (\<lambda>j. if is_stuck now threshold_secs j
               then j\<lparr>jb_status := Job_pending, jb_dispatched_at := None\<rparr> else j) jobs,
      map jb_id (filter (is_stuck now threshold_secs) jobs))"

section \<open>Dispatcher\<close>

fun task_by_job_type :: "pipeline_job_type \<Rightarrow> string" where
  "task_by_job_type Job_case_pipeline = ''run_case_pipeline_job''"
| "task_by_job_type Job_whatif_scenario = ''run_whatif_scenario_job''"
| "task_by_job_type Job_stability_computation = ''run_stability_computation_job''"
| "task_by_job_type Job_gate_run = ''run_gate_job''"
| "task_by_job_type Job_intake_extraction = ''run_intake_extraction_job''"
| "task_by_job_type Job_document_parse = ''run_document_parse_job''"

definition dispatch_batch_size :: nat where "dispatch_batch_size = 10"
definition stuck_threshold_seconds :: int where "stuck_threshold_seconds = 1200"

text \<open>\<open>arq_redis.enqueue_job(task, id, _job_id=id)\<close>, an argument: queue, task and key.\<close>

type_synonym 'q arq_enqueue = "'q \<Rightarrow> string \<Rightarrow> uuid \<Rightarrow> 'q result"

fun enqueue_claimed ::
  "'q arq_enqueue \<Rightarrow> 'q \<Rightarrow> uuid list \<Rightarrow> job_table \<Rightarrow> 'q \<times> uuid list result" where
  "enqueue_claimed enq q ids [] = (q, Inr ids)"
| "enqueue_claimed enq q ids (j # js) =
     (case enq q (task_by_job_type (jb_type j)) (jb_id j) of
        Inl e \<Rightarrow> (q, Inl e)
      | Inr q' \<Rightarrow> enqueue_claimed enq q' (ids @ [jb_id j]) js)"

definition dispatch_batch ::
  "'q arq_enqueue \<Rightarrow> uuid set \<Rightarrow> int \<Rightarrow> 'q \<Rightarrow> job_table \<Rightarrow> 'q \<times> job_table \<times> nat result" where
  "dispatch_batch enq locked now q jobs =
     (let claimed = claim_pending_jobs locked dispatch_batch_size jobs
      in if claimed = [] then (q, jobs, Inr 0)
         else case enqueue_claimed enq q [] claimed of
             (q', Inl e) \<Rightarrow> (q', jobs, Inl e)
           | (q', Inr ids) \<Rightarrow> (q', mark_dispatched now ids jobs, Inr (length ids)))"

section \<open>Task wrapper\<close>

datatype run_report = Not_found | Already_completed | Type_mismatch | Succeeded | Raised py_error

text \<open>The text of an exception: its class, a colon and its message.\<close>

fun error_text :: "py_error \<Rightarrow> string" where
  "error_text (HttpError n msg) = ''HTTPException: '' @ msg"
| "error_text ValueError = ''ValueError: ''"
| "error_text (KeyErr k) = ''KeyError: '' @ k"
| "error_text (RuntimeErr msg) = ''RuntimeError: '' @ msg"
| "error_text (RetiredDomain msg) = ''RetiredDomainError: '' @ msg"
| "error_text (OtherError msg) = msg"

text \<open>
  A runner works on the rest of the system, \<open>'w\<close>, and may fail after having changed it.
\<close>

type_synonym 'w runner = "pipeline_job \<Rightarrow> string option \<Rightarrow> 'w \<Rightarrow> 'w \<times> py_error option"

definition run_with_outbox ::
  "'w runner \<Rightarrow> pipeline_job_type \<Rightarrow> int \<Rightarrow> uuid \<Rightarrow> job_table \<Rightarrow> 'w \<Rightarrow> job_table \<times> 'w \<times> run_report" where
  "run_with_outbox runner expected now jid jobs w =
     (case find_job jid jobs of
        None \<Rightarrow> (jobs, w, Not_found)
      | Some job \<Rightarrow>
          if jb_status job = Job_completed then (jobs, w, Already_completed)
          else if jb_type job \<noteq> expected then (jobs, w, Type_mismatch)
          else
            let trace_id = map_option tp_trace_id (parse_traceparent (jb_traceparent job))
            in case runner job trace_id w of
                 (w', Some e) \<Rightarrow> (mark_failed now jid (error_text e) jobs, w', Raised e)
               | (w', None) \<Rightarrow> (mark_completed now jid jobs, w', Succeeded))"

section \<open>Look-up laws\<close>

lemma find_job_id: "find_job jid jobs = Some j \<Longrightarrow> jb_id j = jid \<and> j \<in> set jobs"
  unfolding find_job_def by (drule find_Some_in) simp

lemma find_job_map:
  "(\<And>j. jb_id (f j) = jb_id j) \<Longrightarrow> find_job jid (map f jobs) = map_option f (find_job jid jobs)"
  unfolding find_job_def by (induction jobs) auto

lemma find_job_append:
  "find_job jid (jobs @ [j]) = (case find_job jid jobs of Some k \<Rightarrow> Some k
     | None \<Rightarrow> if jb_id j = jid then Some j else None)"
  unfolding find_job_def by (induction jobs) auto

lemma find_marked [simp]:
  "find_job jid (mark_dispatched now ids jobs) = map_option (\<lambda>j.
     if jb_id j \<in> set ids \<and> jb_status j = Job_pending
     then j\<lparr>jb_status := Job_dispatched, jb_dispatched_at := Some now\<rparr> else j) (find_job jid jobs)"
  "find_job jid (mark_completed now k jobs) = map_option (\<lambda>j. if jb_id j = k
     then j\<lparr>jb_status := Job_completed, jb_completed_at := Some now, jb_error_message := None\<rparr>
     else j) (find_job jid jobs)"
  "find_job jid (mark_failed now k msg jobs) = map_option (\<lambda>j. if jb_id j = k
     then j\<lparr>jb_status := Job_failed, jb_attempts := jb_attempts j + 1,
            jb_error_message := Some (take 1000 msg), jb_completed_at := Some now\<rparr> else j)
     (find_job jid jobs)"
  "find_job jid (fst (recover_stuck_jobs now secs jobs)) = map_option (\<lambda>j. if is_stuck now secs j
     then j\<lparr>jb_status := Job_pending, jb_dispatched_at := None\<rparr> else j) (find_job jid jobs)"
  unfolding mark_dispatched_def mark_completed_def mark_failed_def recover_stuck_jobs_def fst_conv
  by (rule find_job_map; simp)+

lemma ids_marked [simp]:
  "map jb_id (mark_dispatched now ids jobs) = map jb_id jobs"
  "map jb_id (mark_completed now k jobs) = map jb_id jobs"
  "map jb_id (mark_failed now k msg jobs) = map jb_id jobs"
  "map jb_id (fst (recover_stuck_jobs now secs jobs)) = map jb_id jobs"
  by (simp_all add: mark_dispatched_def mark_completed_def mark_failed_def recover_stuck_jobs_def)

lemma enqueue_claimed_ids:
  "enqueue_claimed enq q ids js = (q', Inr ids') \<Longrightarrow> ids' = ids @ map jb_id js"
  by (induction enq q ids js rule: enqueue_claimed.induct) (auto split: sum.splits)

section \<open>The dispatcher's contract\<close>

text \<open>
  A store hands out its pending rows in order, and marking rows takes exactly them out of the
  pending ones; so a dispatcher that keeps succeeding drains the store in order, a batch at a
  time.
\<close>

locale job_store =
  fixes ok :: "'s \<Rightarrow> bool" and pending_ids :: "'s \<Rightarrow> uuid list"
    and claim :: "nat \<Rightarrow> 's \<Rightarrow> uuid list" and mark :: "uuid list \<Rightarrow> 's \<Rightarrow> 's"
  assumes claim_prefix: "claim n s = take n (pending_ids s)"
    and mark_removes: "pending_ids (mark ids s) = filter (\<lambda>i. i \<notin> set ids) (pending_ids s)"
    and mark_ok: "ok s \<Longrightarrow> ok (mark ids s)"
    and pending_distinct: "ok s \<Longrightarrow> distinct (pending_ids s)"
begin

lemma filter_take_distinct: "distinct xs \<Longrightarrow> filter (\<lambda>x. x \<notin> set (take n xs)) xs = drop n xs"
proof -
  assume d: "distinct xs"
  have "filter (\<lambda>x. x \<notin> set (take n xs)) (take n xs @ drop n xs) = drop n xs"
    unfolding filter_append using set_take_disj_set_drop_if_distinct [OF d, of n n]
    by (auto simp: filter_id_conv filter_empty_conv)
  then show ?thesis by simp
qed

lemma batch: "ok s \<Longrightarrow> pending_ids (mark (claim n s) s) = drop n (pending_ids s)"
  by (simp add: mark_removes claim_prefix filter_take_distinct pending_distinct)

lemma drains:
  "ok s \<Longrightarrow> pending_ids (((\<lambda>s. mark (claim n s) s) ^^ k) s) = drop (n * k) (pending_ids s)
     \<and> ok (((\<lambda>s. mark (claim n s) s) ^^ k) s)"
  by (induction k) (simp_all add: batch mark_ok add.commute)

end

definition pending_ids_of :: "job_table \<Rightarrow> uuid list" where
  "pending_ids_of jobs = map jb_id (pending_unlocked {} jobs)"

definition claim_ids :: "nat \<Rightarrow> job_table \<Rightarrow> uuid list" where
  "claim_ids n jobs = map jb_id (claim_pending_jobs {} n jobs)"

lemma filter_pending_marked:
  "filter (\<lambda>j. jb_status j = Job_pending) (mark_dispatched now ids jobs)
     = filter (\<lambda>j. jb_id j \<notin> set ids) (filter (\<lambda>j. jb_status j = Job_pending) jobs)"
  by (induction jobs) (auto simp: mark_dispatched_def)

interpretation outbox: job_store "\<lambda>jobs. distinct (map jb_id jobs)" pending_ids_of claim_ids
  "mark_dispatched now" for now
proof
  fix n s ids
  show "claim_ids n s = take n (pending_ids_of s)"
    by (simp add: claim_ids_def pending_ids_of_def claim_pending_jobs_def take_map)
  show "pending_ids_of (mark_dispatched now ids s)
      = filter (\<lambda>i. i \<notin> set ids) (pending_ids_of s)"
    by (simp add: pending_ids_of_def pending_unlocked_def filter_pending_marked filter_map comp_def
        filter_sort)
  show "distinct (map jb_id s) \<Longrightarrow> distinct (map jb_id (mark_dispatched now ids s))" by simp
  show "distinct (map jb_id s) \<Longrightarrow> distinct (pending_ids_of s)"
    by (auto simp: pending_ids_of_def pending_unlocked_def distinct_map inj_on_def)
qed

section \<open>Interleaving\<close>

record outbox_system =
  sy_jobs :: job_table
  sy_queue :: "uuid list"
  sy_running :: "uuid list"
  sy_now :: int

text \<open>
  arq accepts a key once: a key that is queued or in progress is not queued again, and a key may
  also be refused with an error.
\<close>

definition arq_law :: "uuid list \<Rightarrow> uuid list arq_enqueue \<Rightarrow> bool" where
  "arq_law running enq \<longleftrightarrow> (\<forall>q task jid q'. enq q task jid = Inr q' \<longrightarrow>
     q' = (if jid \<in> set q \<union> set running then q else q @ [jid]))"

definition startable :: "pipeline_job_type \<Rightarrow> pipeline_job \<Rightarrow> bool" where
  "startable expected job \<longleftrightarrow> jb_status job \<noteq> Job_completed \<and> jb_type job = expected"

inductive outbox_step :: "outbox_system \<Rightarrow> outbox_system \<Rightarrow> bool" where
  request: "find_job jid (sy_jobs s) = None \<Longrightarrow>
     outbox_step s (s\<lparr>sy_jobs := fst (enqueue_outbox_job req_span (sy_now s) jid cid jt target payload
                                     traceparent (sy_jobs s))\<rparr>)"
| dispatch: "arq_law (sy_running s) enq \<Longrightarrow>
     dispatch_batch enq locked (sy_now s) (sy_queue s) (sy_jobs s) = (q', jobs', r) \<Longrightarrow>
     outbox_step s (s\<lparr>sy_queue := q', sy_jobs := jobs'\<rparr>)"
| take_task: "jid \<in> set (sy_queue s) \<Longrightarrow>
     outbox_step s (s\<lparr>sy_queue := remove1 jid (sy_queue s),
       sy_running := (case find_job jid (sy_jobs s) of
          Some job \<Rightarrow> if startable expected job then jid # sy_running s else sy_running s
        | None \<Rightarrow> sy_running s)\<rparr>)"
| succeed: "jid \<in> set (sy_running s) \<Longrightarrow>
     outbox_step s (s\<lparr>sy_jobs := mark_completed (sy_now s) jid (sy_jobs s),
                      sy_running := remove1 jid (sy_running s)\<rparr>)"
| fail: "jid \<in> set (sy_running s) \<Longrightarrow>
     outbox_step s (s\<lparr>sy_jobs := mark_failed (sy_now s) jid msg (sy_jobs s),
                      sy_running := remove1 jid (sy_running s)\<rparr>)"
| crash: "jid \<in> set (sy_running s) \<Longrightarrow>
     outbox_step s (s\<lparr>sy_running := remove1 jid (sy_running s)\<rparr>)"
| recover: "outbox_step s (s\<lparr>sy_jobs := fst (recover_stuck_jobs (sy_now s) secs (sy_jobs s))\<rparr>)"
| clock: "0 \<le> d \<Longrightarrow> outbox_step s (s\<lparr>sy_now := sy_now s + d\<rparr>)"

text \<open>What holds of each row, and of the system.\<close>

definition job_ok :: "pipeline_job \<Rightarrow> bool" where
  "job_ok j \<longleftrightarrow> (case jb_status j of
      Job_pending \<Rightarrow> jb_dispatched_at j = None
    | Job_dispatched \<Rightarrow> jb_dispatched_at j \<noteq> None
    | Job_completed \<Rightarrow> jb_completed_at j \<noteq> None \<and> jb_error_message j = None
    | Job_failed \<Rightarrow> jb_completed_at j \<noteq> None \<and> 0 < jb_attempts j
        \<and> (\<exists>m. jb_error_message j = Some m \<and> length m \<le> 1000))"

definition is_completed :: "uuid \<Rightarrow> job_table \<Rightarrow> bool" where
  "is_completed jid jobs \<longleftrightarrow> (case find_job jid jobs of None \<Rightarrow> False
     | Some j \<Rightarrow> jb_status j = Job_completed)"

definition outbox_ok :: "outbox_system \<Rightarrow> bool" where
  "outbox_ok s \<longleftrightarrow> distinct (map jb_id (sy_jobs s)) \<and> list_all job_ok (sy_jobs s)
     \<and> distinct (sy_queue s) \<and> distinct (sy_running s)
     \<and> set (sy_queue s) \<inter> set (sy_running s) = {}
     \<and> (\<forall>jid \<in> set (sy_running s). \<not> is_completed jid (sy_jobs s))"

lemma enqueue_claimed_queue:
  assumes "arq_law running enq" "enqueue_claimed enq q ids js = (q', r)"
    and "distinct q" "set q \<inter> set running = {}"
  shows "distinct q' \<and> set q' \<inter> set running = {}"
  using assms
proof (induction enq q ids js rule: enqueue_claimed.induct)
  case (2 enq q ids j js)
  show ?case
  proof (cases "enq q (task_by_job_type (jb_type j)) (jb_id j)")
    case (Inl e)
    with "2.prems" show ?thesis by simp
  next
    case (Inr q1)
    then have "q1 = (if jb_id j \<in> set q \<union> set running then q else q @ [jb_id j])"
      using "2.prems"(1) unfolding arq_law_def by blast
    then have "distinct q1" "set q1 \<inter> set running = {}" using "2.prems" by auto
    with "2.IH" [OF Inr] "2.prems"(1,2) Inr show ?thesis by simp
  qed
qed simp

text \<open>A batch changes the table in one way only.\<close>

lemma dispatch_batch_table:
  assumes "dispatch_batch enq locked now q jobs = (q', jobs', r)"
  shows "jobs' = jobs \<or> jobs' = mark_dispatched now (map jb_id (claim_pending_jobs locked dispatch_batch_size jobs)) jobs"
  using assms
  by (auto simp: dispatch_batch_def Let_def dest: enqueue_claimed_ids
      split: if_splits prod.splits sum.splits)

lemma dispatch_batch_queue:
  assumes "arq_law running enq" "dispatch_batch enq locked now q jobs = (q', jobs', r)"
    and "distinct q" "set q \<inter> set running = {}"
  shows "distinct q' \<and> set q' \<inter> set running = {}"
  using assms(2-4) enqueue_claimed_queue [OF assms(1)]
  by (auto simp: dispatch_batch_def Let_def split: if_splits prod.splits sum.splits)

lemma job_ok_marked:
  "list_all job_ok jobs \<Longrightarrow> list_all job_ok (mark_dispatched now ids jobs)"
  "list_all job_ok jobs \<Longrightarrow> list_all job_ok (mark_completed now k jobs)"
  "list_all job_ok jobs \<Longrightarrow> list_all job_ok (mark_failed now k msg jobs)"
  "list_all job_ok jobs \<Longrightarrow> list_all job_ok (fst (recover_stuck_jobs now secs jobs))"
  by (auto simp: list_all_iff mark_dispatched_def mark_completed_def mark_failed_def
      recover_stuck_jobs_def job_ok_def split: pipeline_job_status.splits)

lemma is_completed_marked [simp]:
  "is_completed jid (mark_dispatched now ids jobs) = is_completed jid jobs"
  "is_completed jid (fst (recover_stuck_jobs now secs jobs)) = is_completed jid jobs"
  "jid \<noteq> k \<Longrightarrow> is_completed jid (mark_completed now k jobs) = is_completed jid jobs"
  "jid \<noteq> k \<Longrightarrow> is_completed jid (mark_failed now k msg jobs) = is_completed jid jobs"
  by (auto simp: is_completed_def is_stuck_def dest: find_job_id split: option.split)

lemma find_job_None: "find_job jid jobs = None \<longleftrightarrow> jid \<notin> jb_id ` set jobs"
  by (auto simp: find_job_def find_None_iff)

lemma outbox_ok_step: "outbox_step s s' \<Longrightarrow> outbox_ok s \<Longrightarrow> outbox_ok s'"
proof (induction rule: outbox_step.induct)
  case (request jid s req_span cid jt target payload traceparent)
  then show ?case
    by (auto simp: outbox_ok_def enqueue_outbox_job_def Let_def job_ok_def is_completed_def
        find_job_append find_job_None split: option.splits if_splits)
next
  case (dispatch s enq locked q' jobs' r)
  have "distinct q' \<and> set q' \<inter> set (sy_running s) = {}"
    using dispatch_batch_queue [OF dispatch.hyps(1,2)] dispatch.prems by (auto simp: outbox_ok_def)
  then show ?case
    using dispatch_batch_table [OF dispatch.hyps(2)] dispatch.prems
    by (auto simp: outbox_ok_def job_ok_marked)
next
  case (take_task jid s expected)
  then show ?case
    by (auto simp: outbox_ok_def startable_def is_completed_def dest: notin_set_remove1
        split: option.split)
next
  case (succeed jid s)
  then show ?case by (auto simp: outbox_ok_def job_ok_marked dest: notin_set_remove1)
next
  case (fail jid s msg)
  then show ?case by (auto simp: outbox_ok_def job_ok_marked dest: notin_set_remove1)
next
  case (crash jid s)
  then show ?case by (auto simp: outbox_ok_def dest: notin_set_remove1)
next
  case (recover s secs)
  then show ?case by (auto simp: outbox_ok_def job_ok_marked)
next
  case (clock d s)
  then show ?case by (auto simp: outbox_ok_def)
qed

lemma outbox_ok_steps: "outbox_step\<^sup>*\<^sup>* s s' \<Longrightarrow> outbox_ok s \<Longrightarrow> outbox_ok s'"
  by (induction rule: rtranclp_induct) (auto intro: outbox_ok_step)

section \<open>Properties\<close>

definition sample_job :: "uuid \<Rightarrow> int \<Rightarrow> pipeline_job" where
  "sample_job jid t = \<lparr>jb_id = jid, jb_case_id = ''c'', jb_type = Job_case_pipeline,
     jb_target_id = None, jb_status = Job_pending, jb_attempts = 0, jb_payload = None,
     jb_traceparent = None, jb_error_message = None, jb_created_at = t, jb_dispatched_at = None,
     jb_completed_at = None\<rparr>"

definition append_key :: "uuid list arq_enqueue" where
  "append_key q task jid = Inr (if jid \<in> set q then q else q @ [jid])"

text \<open>Once a job is completed it stays completed and is never started again, whatever
  requests, dispatchers, workers, crashes and recovery rounds follow and however they interleave.\<close>

lemma completed_job_is_final:
  assumes "outbox_ok s" and "is_completed jid (sy_jobs s)" and "outbox_step\<^sup>*\<^sup>* s s'"
  shows "is_completed jid (sy_jobs s') \<and> jid \<notin> set (sy_running s') \<and> outbox_ok s'"
proof -
  have "is_completed jid (sy_jobs s') \<and> outbox_ok s'"
    using assms(3,1,2)
  proof (induction rule: rtranclp_induct)
    case (step u v)
    then have u: "is_completed jid (sy_jobs u)" "outbox_ok u" by auto
    have "is_completed jid (sy_jobs v)"
      using step.hyps(2) u
    proof (cases rule: outbox_step.cases)
      case (request k req_span cid jt target payload tp)
      then show ?thesis using u
        by (auto simp: is_completed_def enqueue_outbox_job_def Let_def find_job_append
            split: option.splits)
    next
      case (dispatch enq locked q' jobs' r)
      then show ?thesis using u dispatch_batch_table [OF dispatch(3)] by auto
    next
      case (succeed k)
      then have "jid \<noteq> k" using u by (auto simp: outbox_ok_def)
      with succeed u show ?thesis by simp
    next
      case (fail k msg)
      then have "jid \<noteq> k" using u by (auto simp: outbox_ok_def)
      with fail u show ?thesis by simp
    qed auto
    then show ?case using step u outbox_ok_step by blast
  qed auto
  then show ?thesis by (auto simp: outbox_ok_def)
qed

lemma completed_job_is_final_witness:
  "is_completed ''j'' (sy_jobs (\<lparr>sy_jobs = fst (recover_stuck_jobs 9 0
        [(sample_job ''j'' 0)\<lparr>jb_status := Job_completed, jb_completed_at := Some 5\<rparr>]),
      sy_queue = [], sy_running = [], sy_now = 9\<rparr>))"
proof -
  let ?s = "\<lparr>sy_jobs = [(sample_job ''j'' 0)\<lparr>jb_status := Job_completed, jb_completed_at := Some 5\<rparr>],
             sy_queue = [], sy_running = [], sy_now = 9\<rparr>"
  have "outbox_ok ?s" "is_completed ''j'' (sy_jobs ?s)"
    by (simp_all add: outbox_ok_def job_ok_def is_completed_def find_job_def sample_job_def)
  moreover have "outbox_step\<^sup>*\<^sup>* ?s (?s\<lparr>sy_jobs := fst (recover_stuck_jobs (sy_now ?s) 0 (sy_jobs ?s))\<rparr>)"
    by (rule r_into_rtranclp) (rule outbox_step.recover)
  ultimately have "is_completed ''j''
      (sy_jobs (?s\<lparr>sy_jobs := fst (recover_stuck_jobs (sy_now ?s) 0 (sy_jobs ?s))\<rparr>))"
    using completed_job_is_final by blast
  then show ?thesis by simp
qed

text \<open>A dispatch batch is all or nothing: when the queue refuses a job the table is unchanged,
  and otherwise exactly the claimed rows are dispatched, stamped with the batch's time, at most ten
  of them, none younger than a pending row that was left.\<close>

lemma dispatch_batch_is_atomic:
  assumes "dispatch_batch enq locked now q jobs = (q', jobs', r)" and "distinct (map jb_id jobs)"
  shows "(\<forall>e. r = Inl e \<longrightarrow> jobs' = jobs)
    \<and> (\<forall>n. r = Inr n \<longrightarrow> n \<le> 10
        \<and> jobs' = mark_dispatched now (map jb_id (claim_pending_jobs locked 10 jobs)) jobs
        \<and> n = length (claim_pending_jobs locked 10 jobs)
        \<and> (\<forall>a \<in> set (claim_pending_jobs locked 10 jobs).
             \<forall>b \<in> set (drop 10 (pending_unlocked locked jobs)). jb_created_at a \<le> jb_created_at b))"
proof -
  have sorted: "sorted (map jb_created_at (pending_unlocked locked jobs))"
    by (simp add: pending_unlocked_def)
  have "jb_created_at a \<le> jb_created_at b"
    if "a \<in> set (take 10 (pending_unlocked locked jobs))"
      and "b \<in> set (drop 10 (pending_unlocked locked jobs))" for a b
    using sorted that sorted_append [of "map jb_created_at (take 10 (pending_unlocked locked jobs))"
        "map jb_created_at (drop 10 (pending_unlocked locked jobs))"]
    by (simp add: map_append [symmetric] del: map_append)
  moreover have "mark_dispatched now [] jobs = jobs"
    by (simp add: mark_dispatched_def)
  ultimately show ?thesis
    using assms(1)
    by (auto simp: dispatch_batch_def claim_pending_jobs_def dispatch_batch_size_def Let_def
        dest: enqueue_claimed_ids split: if_splits prod.splits sum.splits)
qed

lemma dispatch_batch_is_atomic_witness:
  "jb_status (hd (fst (snd (dispatch_batch append_key {} 7 [] [sample_job ''j'' 0])))) = Job_dispatched"
proof -
  obtain q' jobs' r where d: "dispatch_batch append_key {} 7 [] [sample_job ''j'' 0] = (q', jobs', r)"
    by (metis prod.exhaust)
  have "r = Inr 1" using d
    by (auto simp: dispatch_batch_def claim_pending_jobs_def pending_unlocked_def sample_job_def
        append_key_def dispatch_batch_size_def Let_def)
  with dispatch_batch_is_atomic [OF d] have
    "jobs' = mark_dispatched 7 (map jb_id (claim_pending_jobs {} 10 [sample_job ''j'' 0]))
               [sample_job ''j'' 0]" by simp
  with d show ?thesis
    by (simp add: mark_dispatched_def claim_pending_jobs_def pending_unlocked_def sample_job_def)
qed

text \<open>Dispatchers that run at the same time never claim the same row: rows another transaction
  holds locked are skipped.\<close>

lemma concurrent_claims_are_disjoint:
  "set (map jb_id (claim_pending_jobs locked n jobs))
     \<inter> set (map jb_id (claim_pending_jobs (locked \<union> set (map jb_id (claim_pending_jobs locked n jobs)))
                        m jobs)) = {}"
proof -
  have "set (map jb_id (claim_pending_jobs L m jobs)) \<inter> L = {}" for L
    using set_take_subset [of m "pending_unlocked L jobs"]
    by (auto simp: claim_pending_jobs_def pending_unlocked_def)
  from this [of "locked \<union> set (map jb_id (claim_pending_jobs locked n jobs))"]
  show ?thesis by blast
qed

text \<open>The table after \<open>k\<close> batches in a row.\<close>

fun after_batches :: "'q arq_enqueue \<Rightarrow> int \<Rightarrow> nat \<Rightarrow> 'q \<Rightarrow> job_table \<Rightarrow> job_table" where
  "after_batches enq now 0 q jobs = jobs"
| "after_batches enq now (Suc k) q jobs =
     (case dispatch_batch enq {} now q jobs of (q', jobs', _) \<Rightarrow> after_batches enq now k q' jobs')"

definition accepts_all :: "'q arq_enqueue \<Rightarrow> bool" where
  "accepts_all enq \<longleftrightarrow> (\<forall>q task jid. \<exists>q'. enq q task jid = Inr q')"

lemma enqueue_claimed_accepts:
  "accepts_all enq \<Longrightarrow> \<exists>q'. enqueue_claimed enq q ids js = (q', Inr (ids @ map jb_id js))"
proof (induction js arbitrary: q ids)
  case (Cons j js)
  obtain q1 where "enq q (task_by_job_type (jb_type j)) (jb_id j) = Inr q1" using Cons.prems unfolding accepts_all_def by blast
  with Cons.IH [OF Cons.prems, of q1 "ids @ [jb_id j]"] show ?case by simp
qed simp

lemma dispatch_batch_accepted:
  assumes "accepts_all enq"
  shows "\<exists>q' r. dispatch_batch enq {} now q jobs
     = (q', mark_dispatched now (claim_ids 10 jobs) jobs, r)"
proof (cases "claim_pending_jobs {} 10 jobs = []")
  case True
  then show ?thesis
    by (simp add: dispatch_batch_def dispatch_batch_size_def claim_ids_def mark_dispatched_def)
next
  case False
  obtain q' where "enqueue_claimed enq q [] (claim_pending_jobs {} 10 jobs)
      = (q', Inr ([] @ map jb_id (claim_pending_jobs {} 10 jobs)))"
    using enqueue_claimed_accepts [OF assms] by blast
  with False show ?thesis
    by (simp add: dispatch_batch_def dispatch_batch_size_def claim_ids_def Let_def)
qed

lemma after_batches_power:
  assumes "accepts_all enq"
  shows "after_batches enq now k q jobs
     = ((\<lambda>s. mark_dispatched now (claim_ids 10 s) s) ^^ k) jobs"
proof (induction k arbitrary: q jobs)
  case (Suc k)
  obtain q' r where "dispatch_batch enq {} now q jobs
      = (q', mark_dispatched now (claim_ids 10 jobs) jobs, r)"
    using dispatch_batch_accepted [OF assms] by blast
  with Suc show ?case by (simp add: funpow_Suc_right del: funpow.simps)
qed simp



text \<open>A redelivered job that has completed is not run again and nothing changes; a job of the
  task's type is run once, and its row then says completed or failed, with the attempt counted and
  the error cut to a thousand characters.\<close>

lemma task_wrapper_outcome:
  assumes "find_job jid jobs = Some job"
  shows "if jb_status job = Job_completed \<or> jb_type job \<noteq> expected
     then \<exists>rep. run_with_outbox runner expected now jid jobs w = (jobs, w, rep)
     else (case runner job (map_option tp_trace_id (parse_traceparent (jb_traceparent job))) w of
        (w', None) \<Rightarrow>
          \<exists>jobs'. run_with_outbox runner expected now jid jobs w = (jobs', w', Succeeded)
            \<and> is_completed jid jobs'
      | (w', Some e) \<Rightarrow>
          \<exists>jobs' job'. run_with_outbox runner expected now jid jobs w = (jobs', w', Raised e)
            \<and> find_job jid jobs' = Some job' \<and> jb_status job' = Job_failed
            \<and> jb_attempts job' = jb_attempts job + 1
            \<and> jb_error_message job' = Some (take 1000 (error_text e)))"
  using assms find_job_id [OF assms]
  by (auto simp: run_with_outbox_def is_completed_def Let_def split: prod.split option.split)

lemma task_wrapper_outcome_witness:
  "\<exists>jobs'. run_with_outbox (\<lambda>_ _ w. (w + 1, None)) Job_case_pipeline 5 ''j'' [sample_job ''j'' 0] (0 :: nat)
      = (jobs', 1, Succeeded) \<and> is_completed ''j'' jobs'"
  using task_wrapper_outcome [of "''j''" "[sample_job ''j'' 0]" "sample_job ''j'' 0" Job_case_pipeline
      "\<lambda>_ _ w. (w + 1, None)" 5 "0 :: nat"]
  by (simp add: find_job_def sample_job_def)

text \<open>A job whose worker died is queued again: after twenty minutes the recovery round puts
  the row back to pending, where the next claim sees it, and it touches no row that is younger or
  not dispatched.\<close>

lemma stuck_job_is_recovered:
  assumes "find_job jid jobs = Some job" and "jb_status job = Job_dispatched"
    and "jb_dispatched_at job = Some t" and "distinct (map jb_id jobs)"
  shows "(t + 1200 * 1000000 < now \<longleftrightarrow> jid \<in> set (snd (recover_stuck_jobs now stuck_threshold_seconds jobs)))
    \<and> (t + 1200 * 1000000 < now \<longrightarrow>
        jid \<in> set (pending_ids_of (fst (recover_stuck_jobs now stuck_threshold_seconds jobs))))
    \<and> (\<forall>k other. find_job k jobs = Some other \<longrightarrow> jb_status other \<noteq> Job_dispatched \<longrightarrow>
        find_job k (fst (recover_stuck_jobs now stuck_threshold_seconds jobs)) = Some other)"
proof -
  have job: "job \<in> set jobs" "jb_id job = jid" using find_job_id [OF assms(1)] by auto
  have same: "j = job" if "j \<in> set jobs" "jb_id j = jid" for j
    using assms(4) job that by (auto simp: distinct_map dest: inj_onD)
  have "is_stuck now stuck_threshold_seconds job \<longleftrightarrow> t + 1200 * 1000000 < now"
    using assms(2,3) by (auto simp: is_stuck_def stuck_threshold_seconds_def)
  moreover have "jid \<in> set (snd (recover_stuck_jobs now stuck_threshold_seconds jobs))
      \<longleftrightarrow> is_stuck now stuck_threshold_seconds job"
    unfolding recover_stuck_jobs_def snd_conv set_map set_filter using job same by blast
  moreover have "jid \<in> set (pending_ids_of (fst (recover_stuck_jobs now stuck_threshold_seconds jobs)))"
    if "is_stuck now stuck_threshold_seconds job"
  proof -
    have "job\<lparr>jb_status := Job_pending, jb_dispatched_at := None\<rparr>
        \<in> set (fst (recover_stuck_jobs now stuck_threshold_seconds jobs))"
      using job(1) that unfolding recover_stuck_jobs_def fst_conv set_map
      by (intro image_eqI [where x = job]) simp_all
    then have "job\<lparr>jb_status := Job_pending, jb_dispatched_at := None\<rparr>
        \<in> set (pending_unlocked {} (fst (recover_stuck_jobs now stuck_threshold_seconds jobs)))"
      by (simp add: pending_unlocked_def)
    then show ?thesis using job(2) unfolding pending_ids_of_def set_map
      by (intro image_eqI [where x = "job\<lparr>jb_status := Job_pending, jb_dispatched_at := None\<rparr>"])
        simp_all
  qed
  moreover have "find_job k (fst (recover_stuck_jobs now stuck_threshold_seconds jobs)) = Some other"
    if "find_job k jobs = Some other" "jb_status other \<noteq> Job_dispatched" for k other
    using that by (simp add: is_stuck_def)
  ultimately show ?thesis by blast
qed

lemma stuck_job_is_recovered_witness:
  "''j'' \<in> set (pending_ids_of (fst (recover_stuck_jobs 1200000005 stuck_threshold_seconds
      [(sample_job ''j'' 0)\<lparr>jb_status := Job_dispatched, jb_dispatched_at := Some 4\<rparr>])))"
  using stuck_job_is_recovered [of "''j''"
      "[(sample_job ''j'' 0)\<lparr>jb_status := Job_dispatched, jb_dispatched_at := Some 4\<rparr>]"
      "(sample_job ''j'' 0)\<lparr>jb_status := Job_dispatched, jb_dispatched_at := Some 4\<rparr>" 4 1200000005]
  by (simp add: find_job_def sample_job_def)

end
