(* ===== verification/Case_State.thy ===== *)
theory Case_State
  imports Prelude
begin

text \<open>
  The data model of \<open>shared/case_state.py\<close> and the channel reducers of
  \<open>pipeline/graph/state.py\<close>: the enumerations, the nested analysis models, \<open>CaseState\<close>
  itself, the field-wise merge of parallel branch outputs, and the keyed reducers together with
  the interface (\<open>keyed_reducer\<close>) that the parallel branches of the graph rely on.
\<close>

section \<open>Enumerations\<close>

datatype case_status_enum =
    E_pending
  | E_processing
  | E_ready_for_review
  | E_escalated
  | E_closed
  | E_failed
  | E_failed_retryable
  | E_awaiting_review_gate1
  | E_awaiting_review_gate2
  | E_awaiting_review_gate3
  | E_awaiting_review_gate4

datatype case_domain_enum = small_claims | traffic_violation

text \<open>The string values of the enumeration members.\<close>

fun case_status_value :: "case_status_enum \<Rightarrow> string" where
  "case_status_value E_pending = ''pending''"
| "case_status_value E_processing = ''processing''"
| "case_status_value E_ready_for_review = ''ready_for_review''"
| "case_status_value E_escalated = ''escalated''"
| "case_status_value E_closed = ''closed''"
| "case_status_value E_failed = ''failed''"
| "case_status_value E_failed_retryable = ''failed_retryable''"
| "case_status_value E_awaiting_review_gate1 = ''awaiting_review_gate1''"
| "case_status_value E_awaiting_review_gate2 = ''awaiting_review_gate2''"
| "case_status_value E_awaiting_review_gate3 = ''awaiting_review_gate3''"
| "case_status_value E_awaiting_review_gate4 = ''awaiting_review_gate4''"

section \<open>Nested models\<close>

record fairness_check =
  fc_critical_issues_found :: bool
  fc_audit_passed :: bool
  fc_issues :: "string list"
  fc_recommendations :: "string list"

text \<open>Models with \<open>extra="allow"\<close> carry the additional fields in an \<open>extra\<close> dictionary.\<close>

record hearing_analysis =
  ha_preliminary_conclusion :: "string option"
  ha_confidence_score :: "int option"
  ha_reasoning_chain :: "pyval list"
  ha_uncertainty_flags :: "pyval list"
  ha_extra :: pydict

record evidence_analysis =
  ea_evidence_items :: "pyval list"
  ea_exhibits :: "pyval list"
  ea_credibility_scores :: pydict
  ea_extra :: pydict

record extracted_facts =
  ef_facts :: "pyval list"
  ef_timeline :: "pyval list"
  ef_extra :: pydict

record witnesses_model =
  wm_witnesses :: "pyval list"
  wm_statements :: "pyval list"
  wm_credibility :: pydict
  wm_extra :: pydict

text \<open>Time stamps are microseconds since the epoch, \<open>Decimal\<close> amounts rational numbers.\<close>

record audit_entry =
  ae_agent :: string
  ae_timestamp :: int
  ae_action :: string
  ae_input_payload :: "pydict option"
  ae_output_payload :: "pydict option"
  ae_system_prompt :: "string option"
  ae_llm_response :: "pydict option"
  ae_tool_calls :: "pyval list option"
  ae_model :: "string option"
  ae_token_usage :: "pydict option"
  ae_trace_id :: "string option"
  ae_span_id :: "string option"
  ae_retrieved_source_ids :: "string list option"
  ae_cost_usd :: "rat option"
  ae_redaction_applied :: bool

section \<open>The case state\<close>

record case_state =
  cs_schema_version :: int
  cs_case_id :: string
  cs_run_id :: string
  cs_parent_run_id :: "string option"
  cs_domain :: "case_domain_enum option"
  cs_domain_vector_store_id :: "string option"
  cs_status :: case_status_enum
  cs_parties :: "pyval list"
  cs_case_metadata :: pydict
  cs_intake_extraction :: "pydict option"
  cs_raw_documents :: "pyval list"
  cs_evidence_analysis :: "evidence_analysis option"
  cs_extracted_facts :: "extracted_facts option"
  cs_witnesses :: "witnesses_model option"
  cs_legal_rules :: "pyval list"
  cs_precedents :: "pyval list"
  cs_precedent_source_metadata :: "pydict option"
  cs_legal_elements_checklist :: "pyval list"
  cs_suppressed_citations :: "pyval list"
  cs_arguments :: "pydict option"
  cs_hearing_analysis :: "hearing_analysis option"
  cs_fairness_check :: "fairness_check option"
  cs_audit_log :: "audit_entry list"

text \<open>A \<open>CaseState\<close> built from its identifiers, every other field at its default.\<close>

definition new_case_state :: "string \<Rightarrow> string \<Rightarrow> case_state" where
  "new_case_state cid rid =
     \<lparr>cs_schema_version = 3, cs_case_id = cid, cs_run_id = rid, cs_parent_run_id = None, cs_domain = None,
      cs_domain_vector_store_id = None, cs_status = E_pending, cs_parties = [], cs_case_metadata = [],
      cs_intake_extraction = None, cs_raw_documents = [], cs_evidence_analysis = None,
      cs_extracted_facts = None, cs_witnesses = None, cs_legal_rules = [], cs_precedents = [],
      cs_precedent_source_metadata = None, cs_legal_elements_checklist = [],
      cs_suppressed_citations = [], cs_arguments = None, cs_hearing_analysis = None,
      cs_fairness_check = None, cs_audit_log = []\<rparr>"

section \<open>Equality of dumped fields\<close>

definition opt_eq :: "('a \<Rightarrow> 'a \<Rightarrow> bool) \<Rightarrow> 'a option \<Rightarrow> 'a option \<Rightarrow> bool" where
  "opt_eq eq x y = (case (x, y) of (None, None) \<Rightarrow> True | (Some a, Some b) \<Rightarrow> eq a b | _ \<Rightarrow> False)"

definition list_eq :: "pyval list \<Rightarrow> pyval list \<Rightarrow> bool" where
  "list_eq xs ys = py_eq (PList xs) (PList ys)"

definition dict_eq :: "pydict \<Rightarrow> pydict \<Rightarrow> bool" where
  "dict_eq d e = py_eq (PDict d) (PDict e)"

definition evidence_eq :: "evidence_analysis \<Rightarrow> evidence_analysis \<Rightarrow> bool" where
  "evidence_eq a b \<longleftrightarrow> list_eq (ea_evidence_items a) (ea_evidence_items b)
     \<and> list_eq (ea_exhibits a) (ea_exhibits b)
     \<and> dict_eq (ea_credibility_scores a) (ea_credibility_scores b) \<and> dict_eq (ea_extra a) (ea_extra b)"

definition facts_eq :: "extracted_facts \<Rightarrow> extracted_facts \<Rightarrow> bool" where
  "facts_eq a b \<longleftrightarrow> list_eq (ef_facts a) (ef_facts b) \<and> list_eq (ef_timeline a) (ef_timeline b)
     \<and> dict_eq (ef_extra a) (ef_extra b)"

definition witnesses_eq :: "witnesses_model \<Rightarrow> witnesses_model \<Rightarrow> bool" where
  "witnesses_eq a b \<longleftrightarrow> list_eq (wm_witnesses a) (wm_witnesses b)
     \<and> list_eq (wm_statements a) (wm_statements b)
     \<and> dict_eq (wm_credibility a) (wm_credibility b) \<and> dict_eq (wm_extra a) (wm_extra b)"

definition hearing_eq :: "hearing_analysis \<Rightarrow> hearing_analysis \<Rightarrow> bool" where
  "hearing_eq a b \<longleftrightarrow> ha_preliminary_conclusion a = ha_preliminary_conclusion b
     \<and> ha_confidence_score a = ha_confidence_score b
     \<and> list_eq (ha_reasoning_chain a) (ha_reasoning_chain b)
     \<and> list_eq (ha_uncertainty_flags a) (ha_uncertainty_flags b) \<and> dict_eq (ha_extra a) (ha_extra b)"

definition entry_eq :: "audit_entry \<Rightarrow> audit_entry \<Rightarrow> bool" where
  "entry_eq a b \<longleftrightarrow> ae_agent a = ae_agent b \<and> ae_timestamp a = ae_timestamp b \<and> ae_action a = ae_action b
     \<and> opt_eq dict_eq (ae_input_payload a) (ae_input_payload b)
     \<and> opt_eq dict_eq (ae_output_payload a) (ae_output_payload b)
     \<and> ae_system_prompt a = ae_system_prompt b \<and> opt_eq dict_eq (ae_llm_response a) (ae_llm_response b)
     \<and> opt_eq list_eq (ae_tool_calls a) (ae_tool_calls b) \<and> ae_model a = ae_model b
     \<and> opt_eq dict_eq (ae_token_usage a) (ae_token_usage b) \<and> ae_trace_id a = ae_trace_id b
     \<and> ae_span_id a = ae_span_id b \<and> ae_retrieved_source_ids a = ae_retrieved_source_ids b
     \<and> ae_cost_usd a = ae_cost_usd b \<and> ae_redaction_applied a = ae_redaction_applied b"

section \<open>The reducer of the case channel\<close>

text \<open>
  \<open>Overwrite\<close> replaces the case wholesale; a plain update is merged field by field. A field
  counts as unset when its dumped value is one of \<open>None\<close>, \<open>[]\<close> and \<open>{}\<close>: a nested model
  never dumps to an empty dictionary, identifiers and the status are never unset.
\<close>

datatype case_update = Overwrite case_state | Update case_state

definition merge_field ::
  "('a \<Rightarrow> bool) \<Rightarrow> ('a \<Rightarrow> 'a \<Rightarrow> bool) \<Rightarrow> 'a \<Rightarrow> 'a \<Rightarrow> 'a" where
  "merge_field unset eq base upd =
     (if eq upd base then base
      else if unset base then upd
      else if unset upd then base
      else upd)"

definition never :: "'a \<Rightarrow> bool" where "never _ = False"
definition is_none :: "'a option \<Rightarrow> bool" where "is_none x \<longleftrightarrow> x = None"
definition is_nil :: "'a list \<Rightarrow> bool" where "is_nil xs \<longleftrightarrow> xs = []"
definition is_none_or_nil :: "'a list option \<Rightarrow> bool" where
  "is_none_or_nil x \<longleftrightarrow> x = None \<or> x = Some []"

definition merge_audit_log :: "audit_entry list \<Rightarrow> audit_entry list \<Rightarrow> audit_entry list" where
  "merge_audit_log base upd = base @ filter (\<lambda>e. \<not> list_ex (entry_eq e) base) upd"

definition merge_case_fields :: "case_state \<Rightarrow> case_state \<Rightarrow> case_state" where
  "merge_case_fields b u =
     \<lparr>cs_schema_version = merge_field never (=) (cs_schema_version b) (cs_schema_version u),
      cs_case_id = merge_field never (=) (cs_case_id b) (cs_case_id u),
      cs_run_id = merge_field never (=) (cs_run_id b) (cs_run_id u),
      cs_parent_run_id = merge_field is_none (=) (cs_parent_run_id b) (cs_parent_run_id u),
      cs_domain = merge_field is_none (=) (cs_domain b) (cs_domain u),
      cs_domain_vector_store_id =
        merge_field is_none (=) (cs_domain_vector_store_id b) (cs_domain_vector_store_id u),
      cs_status = merge_field never (=) (cs_status b) (cs_status u),
      cs_parties = merge_field is_nil list_eq (cs_parties b) (cs_parties u),
      cs_case_metadata = merge_field is_nil dict_eq (cs_case_metadata b) (cs_case_metadata u),
      cs_intake_extraction =
        merge_field is_none_or_nil (opt_eq dict_eq) (cs_intake_extraction b) (cs_intake_extraction u),
      cs_raw_documents = merge_field is_nil list_eq (cs_raw_documents b) (cs_raw_documents u),
      cs_evidence_analysis =
        merge_field is_none (opt_eq evidence_eq) (cs_evidence_analysis b) (cs_evidence_analysis u),
      cs_extracted_facts =
        merge_field is_none (opt_eq facts_eq) (cs_extracted_facts b) (cs_extracted_facts u),
      cs_witnesses = merge_field is_none (opt_eq witnesses_eq) (cs_witnesses b) (cs_witnesses u),
      cs_legal_rules = merge_field is_nil list_eq (cs_legal_rules b) (cs_legal_rules u),
      cs_precedents = merge_field is_nil list_eq (cs_precedents b) (cs_precedents u),
      cs_precedent_source_metadata =
        merge_field is_none_or_nil (opt_eq dict_eq)
          (cs_precedent_source_metadata b) (cs_precedent_source_metadata u),
      cs_legal_elements_checklist =
        merge_field is_nil list_eq (cs_legal_elements_checklist b) (cs_legal_elements_checklist u),
      cs_suppressed_citations =
        merge_field is_nil list_eq (cs_suppressed_citations b) (cs_suppressed_citations u),
      cs_arguments = merge_field is_none_or_nil (opt_eq dict_eq) (cs_arguments b) (cs_arguments u),
      cs_hearing_analysis =
        merge_field is_none (opt_eq hearing_eq) (cs_hearing_analysis b) (cs_hearing_analysis u),
      cs_fairness_check = merge_field is_none (=) (cs_fairness_check b) (cs_fairness_check u),
      cs_audit_log = merge_audit_log (cs_audit_log b) (cs_audit_log u)\<rparr>"

fun merge_case :: "case_state \<Rightarrow> case_update \<Rightarrow> case_state" where
  "merge_case base (Overwrite v) = v"
| "merge_case base (Update u) = merge_case_fields base u"

subsection \<open>Laws of the field merge\<close>

text \<open>A field that holds a value is never cleared, and an update that owns nothing keeps it.\<close>

lemma merge_field_keeps: "unset upd \<Longrightarrow> \<not> unset base \<Longrightarrow> merge_field unset eq base upd = base"
  by (simp add: merge_field_def)

lemma merge_field_never_clears:
  "\<not> unset base \<Longrightarrow> \<not> unset (merge_field unset eq base upd)"
  by (simp add: merge_field_def)

lemma merge_field_takes:
  "\<not> unset upd \<Longrightarrow> \<not> eq upd base \<Longrightarrow> merge_field unset eq base upd = upd"
  by (simp add: merge_field_def)

lemma merge_field_origin:
  "merge_field unset eq base upd = base \<or> merge_field unset eq base upd = upd"
  by (simp add: merge_field_def)

lemma merge_field_replay:
  "eq upd upd \<Longrightarrow> merge_field unset eq (merge_field unset eq base upd) upd
     = merge_field unset eq base upd"
  by (auto simp: merge_field_def)

lemma merge_field_same [simp]: "eq x x \<Longrightarrow> merge_field unset eq x x = x"
  by (simp add: merge_field_def)

lemmas merge_field_laws = merge_field_keeps merge_field_never_clears merge_field_takes

subsection \<open>Laws of the audit log merge\<close>

lemma merge_audit_log_extends: "\<exists>new. merge_audit_log base upd = base @ new \<and> set new \<subseteq> set upd"
  by (auto simp: merge_audit_log_def)

lemma merge_audit_log_covers:
  "e \<in> set upd \<Longrightarrow> e \<in> set (merge_audit_log base upd) \<or> list_ex (entry_eq e) base"
  by (auto simp: merge_audit_log_def)

text \<open>Well-formed states: every dictionary inside has distinct keys.\<close>

definition wf_dict :: "pydict \<Rightarrow> bool" where "wf_dict d = wf_val (PDict d)"
definition wf_list :: "pyval list \<Rightarrow> bool" where "wf_list xs = wf_val (PList xs)"

lemma list_eq_refl [simp]: "wf_list xs \<Longrightarrow> list_eq xs xs"
  unfolding list_eq_def wf_list_def by (rule py_eq_refl)

lemma dict_eq_refl [simp]: "wf_dict d \<Longrightarrow> dict_eq d d"
  unfolding dict_eq_def wf_dict_def by (rule py_eq_refl)

lemma opt_eq_refl: "pred_option P x \<Longrightarrow> (\<And>y. P y \<Longrightarrow> eq y y) \<Longrightarrow> opt_eq eq x x"
  by (cases x) (auto simp: opt_eq_def)

lemma opt_dict_refl [simp]: "pred_option wf_dict x \<Longrightarrow> opt_eq dict_eq x x"
  by (erule opt_eq_refl) simp

lemma opt_list_refl [simp]: "pred_option wf_list x \<Longrightarrow> opt_eq list_eq x x"
  by (erule opt_eq_refl) simp

definition wf_entry :: "audit_entry \<Rightarrow> bool" where
  "wf_entry e \<longleftrightarrow> pred_option wf_dict (ae_input_payload e) \<and> pred_option wf_dict (ae_output_payload e)
     \<and> pred_option wf_dict (ae_llm_response e) \<and> pred_option wf_list (ae_tool_calls e)
     \<and> pred_option wf_dict (ae_token_usage e)"

lemma entry_eq_refl [simp]: "wf_entry e \<Longrightarrow> entry_eq e e"
  by (auto simp: entry_eq_def wf_entry_def)

definition wf_case :: "case_state \<Rightarrow> bool" where
  "wf_case c \<longleftrightarrow> wf_list (cs_parties c) \<and> wf_dict (cs_case_metadata c)
     \<and> pred_option wf_dict (cs_intake_extraction c) \<and> wf_list (cs_raw_documents c)
     \<and> pred_option (\<lambda>e. wf_list (ea_evidence_items e) \<and> wf_list (ea_exhibits e)
          \<and> wf_dict (ea_credibility_scores e) \<and> wf_dict (ea_extra e)) (cs_evidence_analysis c)
     \<and> pred_option (\<lambda>f. wf_list (ef_facts f) \<and> wf_list (ef_timeline f) \<and> wf_dict (ef_extra f))
          (cs_extracted_facts c)
     \<and> pred_option (\<lambda>w. wf_list (wm_witnesses w) \<and> wf_list (wm_statements w)
          \<and> wf_dict (wm_credibility w) \<and> wf_dict (wm_extra w)) (cs_witnesses c)
     \<and> wf_list (cs_legal_rules c) \<and> wf_list (cs_precedents c)
     \<and> pred_option wf_dict (cs_precedent_source_metadata c) \<and> wf_list (cs_legal_elements_checklist c)
     \<and> wf_list (cs_suppressed_citations c) \<and> pred_option wf_dict (cs_arguments c)
     \<and> pred_option (\<lambda>h. wf_list (ha_reasoning_chain h) \<and> wf_list (ha_uncertainty_flags h)
          \<and> wf_dict (ha_extra h)) (cs_hearing_analysis c)
     \<and> list_all wf_entry (cs_audit_log c)"

lemma evidence_eq_refl [simp]:
  "wf_list (ea_evidence_items e) \<Longrightarrow> wf_list (ea_exhibits e) \<Longrightarrow> wf_dict (ea_credibility_scores e)
   \<Longrightarrow> wf_dict (ea_extra e) \<Longrightarrow> evidence_eq e e"
  by (simp add: evidence_eq_def)

lemma facts_eq_refl [simp]:
  "wf_list (ef_facts f) \<Longrightarrow> wf_list (ef_timeline f) \<Longrightarrow> wf_dict (ef_extra f) \<Longrightarrow> facts_eq f f"
  by (simp add: facts_eq_def)

lemma witnesses_eq_refl [simp]:
  "wf_list (wm_witnesses w) \<Longrightarrow> wf_list (wm_statements w) \<Longrightarrow> wf_dict (wm_credibility w)
   \<Longrightarrow> wf_dict (wm_extra w) \<Longrightarrow> witnesses_eq w w"
  by (simp add: witnesses_eq_def)

lemma hearing_eq_refl [simp]:
  "wf_list (ha_reasoning_chain h) \<Longrightarrow> wf_list (ha_uncertainty_flags h) \<Longrightarrow> wf_dict (ha_extra h)
   \<Longrightarrow> hearing_eq h h"
  by (simp add: hearing_eq_def)

lemma merge_audit_log_replay:
  assumes "list_all wf_entry upd"
  shows "merge_audit_log (merge_audit_log base upd) upd = merge_audit_log base upd"
proof -
  have "list_ex (entry_eq e) (merge_audit_log base upd)" if "e \<in> set upd" for e
  proof (cases "list_ex (entry_eq e) base")
    case False
    then have "e \<in> set (merge_audit_log base upd)" using that by (simp add: merge_audit_log_def)
    moreover have "entry_eq e e" using assms that by (simp add: list_all_iff)
    ultimately show ?thesis unfolding list_ex_iff by blast
  qed (auto simp: merge_audit_log_def)
  then have "filter (\<lambda>e. \<not> list_ex (entry_eq e) (merge_audit_log base upd)) upd = []"
    by (simp add: filter_empty_conv)
  then show ?thesis by (subst (1) merge_audit_log_def) simp
qed

section \<open>Keyed reducers\<close>

text \<open>
  \<open>_merge_retry_counts\<close> keeps the maximum per key; \<open>_merge_research_parts\<close> and
  \<open>_merge_source_ids\<close> are the dictionary union in which the update wins.
\<close>

fun merge_retry_counts :: "int dict \<Rightarrow> int dict \<Rightarrow> int dict" where
  "merge_retry_counts merged [] = merged"
| "merge_retry_counts merged ((k, v) # upd) =
     merge_retry_counts
       (dict_set k (max (case map_of merged k of None \<Rightarrow> 0 | Some n \<Rightarrow> n) v) merged) upd"

definition merge_research_parts :: "'p dict \<Rightarrow> 'p dict \<Rightarrow> 'p dict" where
  "merge_research_parts base upd = dict_merge base upd"

definition merge_source_ids ::
  "string list dict \<Rightarrow> string list dict \<Rightarrow> string list dict" where
  "merge_source_ids base upd = dict_merge base upd"

text \<open>
  What the graph relies on: a reducer acts key by key, so a branch changes only the keys it
  writes, branches with disjoint keys may be folded in any order, and replaying a branch
  changes nothing.
\<close>

locale keyed_reducer =
  fixes merge :: "'v dict \<Rightarrow> 'v dict \<Rightarrow> 'v dict"
    and comb :: "'v option \<Rightarrow> 'v \<Rightarrow> 'v"
  assumes merge_lookup: "distinct (map fst u) \<Longrightarrow>
      map_of (merge b u) k
      = (case map_of u k of None \<Rightarrow> map_of b k | Some v \<Rightarrow> Some (comb (map_of b k) v))"
    and merge_distinct: "distinct (map fst b) \<Longrightarrow> distinct (map fst (merge b u))"
    and comb_absorb: "comb (Some (comb x v)) v = comb x v"
begin

lemma untouched: "distinct (map fst u) \<Longrightarrow> k \<notin> fst ` set u \<Longrightarrow> map_of (merge b u) k = map_of b k"
  by (simp add: merge_lookup map_of_eq_None_iff [THEN iffD2])

lemma replay:
  "distinct (map fst u) \<Longrightarrow> map_of (merge (merge b u) u) = map_of (merge b u)"
  by (rule ext) (simp add: merge_lookup comb_absorb split: option.split)

lemma branches_commute:
  assumes "distinct (map fst u)" "distinct (map fst w)" "fst ` set u \<inter> fst ` set w = {}"
  shows "map_of (merge (merge b u) w) = map_of (merge (merge b w) u)"
proof (rule ext)
  fix k
  have "map_of u k = None \<or> map_of w k = None"
    using assms(3) by (auto simp: map_of_eq_None_iff)
  then show "map_of (merge (merge b u) w) k = map_of (merge (merge b w) u) k"
    using assms(1,2) by (auto simp: merge_lookup split: option.split)
qed

lemma fold_untouched:
  assumes "\<forall>u \<in> set us. distinct (map fst u) \<and> k \<notin> fst ` set u"
  shows "map_of (foldl merge b us) k = map_of b k"
  using assms by (induction us arbitrary: b) (auto simp: untouched)

text \<open>The slot of a branch holds that branch's value, whatever the others wrote and when.\<close>

lemma fold_owner:
  assumes "us = xs @ u # ys"
    and "\<forall>w \<in> set xs \<union> set ys. distinct (map fst w) \<and> k \<notin> fst ` set w"
    and "distinct (map fst u)" and "map_of u k = Some v"
  shows "map_of (foldl merge b us) k = Some (comb (map_of b k) v)"
  using assms by (simp add: fold_untouched merge_lookup)

end

locale monotone_reducer = keyed_reducer merge comb
  for merge :: "('v :: linorder) dict \<Rightarrow> 'v dict \<Rightarrow> 'v dict" and comb +
  assumes comb_increases: "x \<le> comb (Some x) v" "v \<le> comb y v"
begin

lemma never_decreases:
  assumes "distinct (map fst u)" "map_of b k = Some x"
  shows "\<exists>y. map_of (merge b u) k = Some y \<and> x \<le> y"
  using assms comb_increases(1) by (auto simp: merge_lookup split: option.split)

lemma fold_never_decreases:
  assumes "\<forall>u \<in> set us. distinct (map fst u)" "map_of b k = Some x"
  shows "\<exists>y. map_of (foldl merge b us) k = Some y \<and> x \<le> y"
  using assms
proof (induction us arbitrary: b x)
  case (Cons u us)
  then obtain z where z: "map_of (merge b u) k = Some z" "x \<le> z"
    using never_decreases [of u b k x] by auto
  with Cons.IH [of "merge b u" z] Cons.prems show ?case by (auto intro: order_trans)
qed simp

end

definition retry_comb :: "int option \<Rightarrow> int \<Rightarrow> int" where
  "retry_comb x v = max (case x of None \<Rightarrow> 0 | Some n \<Rightarrow> n) v"

lemma merge_retry_counts_lookup:
  "distinct (map fst u) \<Longrightarrow> map_of (merge_retry_counts b u) k
     = (case map_of u k of None \<Rightarrow> map_of b k | Some v \<Rightarrow> Some (retry_comb (map_of b k) v))"
proof (induction b u rule: merge_retry_counts.induct)
  case (2 merged j v upd)
  then have "map_of upd j = None" by (simp add: map_of_eq_None_iff)
  with "2" show ?case by (auto simp: retry_comb_def split: option.split)
qed simp

lemma merge_retry_counts_distinct:
  "distinct (map fst b) \<Longrightarrow> distinct (map fst (merge_retry_counts b u))"
  by (induction b u rule: merge_retry_counts.induct) auto

interpretation retry: monotone_reducer merge_retry_counts retry_comb
proof
  show "retry_comb (Some (retry_comb x v)) v = retry_comb x v" for x v
    by (simp add: retry_comb_def)
qed (auto simp: merge_retry_counts_lookup merge_retry_counts_distinct retry_comb_def)

interpretation parts: keyed_reducer merge_research_parts "\<lambda>_ v. v"
  by unfold_locales
    (auto simp: merge_research_parts_def map_of_dict_merge map_add_def split: option.split)

interpretation sources: keyed_reducer merge_source_ids "\<lambda>_ v. v"
  by unfold_locales
    (auto simp: merge_source_ids_def map_of_dict_merge map_add_def split: option.split)

section \<open>Properties\<close>

lemma opt_evidence_refl:
  "pred_option (\<lambda>e. wf_list (ea_evidence_items e) \<and> wf_list (ea_exhibits e)
     \<and> wf_dict (ea_credibility_scores e) \<and> wf_dict (ea_extra e)) x \<Longrightarrow> opt_eq evidence_eq x x"
  by (erule opt_eq_refl) simp

lemma opt_facts_refl:
  "pred_option (\<lambda>f. wf_list (ef_facts f) \<and> wf_list (ef_timeline f) \<and> wf_dict (ef_extra f)) x
   \<Longrightarrow> opt_eq facts_eq x x"
  by (erule opt_eq_refl) simp

lemma opt_witnesses_refl:
  "pred_option (\<lambda>w. wf_list (wm_witnesses w) \<and> wf_list (wm_statements w)
     \<and> wf_dict (wm_credibility w) \<and> wf_dict (wm_extra w)) x \<Longrightarrow> opt_eq witnesses_eq x x"
  by (erule opt_eq_refl) simp

lemma opt_hearing_refl:
  "pred_option (\<lambda>h. wf_list (ha_reasoning_chain h) \<and> wf_list (ha_uncertainty_flags h)
     \<and> wf_dict (ha_extra h)) x \<Longrightarrow> opt_eq hearing_eq x x"
  by (erule opt_eq_refl) simp

lemmas opt_model_refl = opt_evidence_refl opt_facts_refl opt_witnesses_refl opt_hearing_refl

text \<open>Replaying a branch's case update changes nothing: the reducer of the case channel is
  idempotent in its update, the audit log included.\<close>

lemma merge_case_replay:
  assumes "wf_case u"
  shows "merge_case (merge_case b (Update u)) (Update u) = merge_case b (Update u)"
  using assms
  by (simp add: wf_case_def merge_case_fields_def merge_field_replay merge_audit_log_replay
      opt_model_refl)

lemma merge_case_replay_witness:
  "merge_case (merge_case (new_case_state ''c'' ''r'')
       (Update ((new_case_state ''c'' ''r'')\<lparr>cs_legal_rules := [PDict [(''rule_id'', PStr ''R1'')]]\<rparr>)))
     (Update ((new_case_state ''c'' ''r'')\<lparr>cs_legal_rules := [PDict [(''rule_id'', PStr ''R1'')]]\<rparr>))
   = merge_case (new_case_state ''c'' ''r'')
       (Update ((new_case_state ''c'' ''r'')\<lparr>cs_legal_rules := [PDict [(''rule_id'', PStr ''R1'')]]\<rparr>))"
  by (rule merge_case_replay)
    (simp add: wf_case_def new_case_state_def wf_list_def wf_dict_def)

text \<open>A branch that updates the case can only add to it: no analysis the case holds is
  cleared, list fields it holds stay non-empty, and the audit log is extended at its end with
  entries of the update.\<close>

lemma merge_case_never_loses:
  assumes "c = merge_case b (Update u)"
  shows "(cs_evidence_analysis c = None \<longrightarrow> cs_evidence_analysis b = None)
    \<and> (cs_extracted_facts c = None \<longrightarrow> cs_extracted_facts b = None)
    \<and> (cs_witnesses c = None \<longrightarrow> cs_witnesses b = None)
    \<and> (cs_hearing_analysis c = None \<longrightarrow> cs_hearing_analysis b = None)
    \<and> (cs_fairness_check c = None \<longrightarrow> cs_fairness_check b = None)
    \<and> (cs_domain c = None \<longrightarrow> cs_domain b = None)
    \<and> (cs_legal_rules c = [] \<longrightarrow> cs_legal_rules b = [])
    \<and> (cs_precedents c = [] \<longrightarrow> cs_precedents b = [])
    \<and> (cs_parties c = [] \<longrightarrow> cs_parties b = [])
    \<and> (cs_raw_documents c = [] \<longrightarrow> cs_raw_documents b = [])
    \<and> (\<exists>new. cs_audit_log c = cs_audit_log b @ new \<and> set new \<subseteq> set (cs_audit_log u))"
  unfolding assms
  by (intro conjI; simp add: merge_case_fields_def merge_field_def is_none_def is_nil_def
      merge_audit_log_extends; auto?)

lemma merge_case_never_loses_witness:
  "cs_fairness_check (merge_case
       ((new_case_state ''c'' ''r'')\<lparr>cs_fairness_check := Some \<lparr>fc_critical_issues_found = False,
          fc_audit_passed = True, fc_issues = [], fc_recommendations = []\<rparr>\<rparr>)
       (Update (new_case_state ''c'' ''r''))) \<noteq> None"
  using merge_case_never_loses [OF refl, of
      "(new_case_state ''c'' ''r'')\<lparr>cs_fairness_check := Some \<lparr>fc_critical_issues_found = False,
          fc_audit_passed = True, fc_issues = [], fc_recommendations = []\<rparr>\<rparr>"
      "new_case_state ''c'' ''r''"]
  by auto

text \<open>Parallel branches that write different keys may be folded into the research parts in
  either order, and a retry counter never goes down whatever is folded in.\<close>

lemma parallel_branches_fold_in_any_order:
  assumes "distinct (map fst u)" "distinct (map fst w)" "fst ` set u \<inter> fst ` set w = {}"
    and "\<forall>d \<in> set ds. distinct (map fst d)" and "map_of counts k = Some n"
  shows "map_of (merge_research_parts (merge_research_parts b u) w)
           = map_of (merge_research_parts (merge_research_parts b w) u)
       \<and> (\<exists>m. map_of (foldl merge_retry_counts counts ds) k = Some m \<and> n \<le> m)"
  using parts.branches_commute [OF assms(1-3)] retry.fold_never_decreases [OF assms(4,5)] by blast

lemma parallel_branches_fold_in_any_order_witness:
  "map_of (merge_research_parts (merge_research_parts [] [(''law'', 1 :: nat)]) [(''facts'', 2)])
     = map_of (merge_research_parts (merge_research_parts [] [(''facts'', 2)]) [(''law'', 1)])
   \<and> (\<exists>m. map_of (foldl merge_retry_counts [(''intake'', 3)] [[(''intake'', 1)], [(''audit'', 5)]])
          ''intake'' = Some m \<and> 3 \<le> m)"
  by (rule parallel_branches_fold_in_any_order) simp_all

end
