(* ===== verification/Schemas.thy ===== *)
theory Schemas
  imports Case_State
begin

text \<open>
  The phase output schemas of \<open>pipeline/graph/schemas.py\<close>: one record per Pydantic model, one
  datatype per \<open>Literal\<close>, the field constraints as validity predicates, the dictionaries the
  models dump to, and the fold of research parts into \<open>ResearchOutput\<close>.
\<close>

section \<open>Literals\<close>

datatype confidence_level = LOW | MED | HIGH
datatype complexity_level = Simple | Moderate_complexity | Complex
datatype route_decision = Route_gate2 | Route_escalate | Route_halt
datatype fact_status = Fact_agreed | Fact_disputed | Fact_contradicted
datatype evidence_strength = Str_weak | Str_moderate | Str_strong
datatype evidence_type = Ev_document | Ev_testimony | Ev_physical | Ev_digital | Ev_other
datatype suppression_reason = no_source_match | low_score | expired_statute | out_of_jurisdiction
datatype rerun_target_phase = Phase_intake | Phase_research | Phase_synthesis
datatype party_role = Role_claimant | Role_respondent | Role_witness | Role_counsel | Role_other
datatype doc_type = Doc_complaint | Doc_evidence | Doc_pleading | Doc_correspondence | Doc_other
datatype witness_role = Wit_eyewitness | Wit_expert | Wit_character | Wit_other
datatype precedent_origin = Pair | Vector_store | Degraded
datatype vulnerability_type =
    SELF_REPRESENTED | ELDERLY | LANGUAGE_BARRIER | COGNITIVE_CONCERN
  | FINANCIAL_VULNERABILITY | POWER_IMBALANCE
datatype question_type =
    factual_clarification | evidence_gap | credibility_probe | legal_interpretation
datatype argument_party = Arg_claimant | Arg_respondent

text \<open>The case status literal; \<open>models/case.py\<close> declares the same fourteen members.\<close>

datatype case_status =
    S_draft
  | S_extracting
  | S_awaiting_intake_confirmation
  | S_pending
  | S_processing
  | S_ready_for_review
  | S_escalated
  | S_closed
  | S_failed
  | S_failed_retryable
  | S_awaiting_review_gate1
  | S_awaiting_review_gate2
  | S_awaiting_review_gate3
  | S_awaiting_review_gate4

fun confidence_value :: "confidence_level \<Rightarrow> string" where
  "confidence_value LOW = ''low''"
| "confidence_value MED = ''med''"
| "confidence_value HIGH = ''high''"

fun fact_status_value :: "fact_status \<Rightarrow> string" where
  "fact_status_value Fact_agreed = ''agreed''"
| "fact_status_value Fact_disputed = ''disputed''"
| "fact_status_value Fact_contradicted = ''contradicted''"

fun evidence_strength_value :: "evidence_strength \<Rightarrow> string" where
  "evidence_strength_value Str_weak = ''weak''"
| "evidence_strength_value Str_moderate = ''moderate''"
| "evidence_strength_value Str_strong = ''strong''"

fun evidence_type_value :: "evidence_type \<Rightarrow> string" where
  "evidence_type_value Ev_document = ''document''"
| "evidence_type_value Ev_testimony = ''testimony''"
| "evidence_type_value Ev_physical = ''physical''"
| "evidence_type_value Ev_digital = ''digital''"
| "evidence_type_value Ev_other = ''other''"

fun suppression_reason_value :: "suppression_reason \<Rightarrow> string" where
  "suppression_reason_value no_source_match = ''no_source_match''"
| "suppression_reason_value low_score = ''low_score''"
| "suppression_reason_value expired_statute = ''expired_statute''"
| "suppression_reason_value out_of_jurisdiction = ''out_of_jurisdiction''"

fun rerun_target_phase_value :: "rerun_target_phase \<Rightarrow> string" where
  "rerun_target_phase_value Phase_intake = ''intake''"
| "rerun_target_phase_value Phase_research = ''research''"
| "rerun_target_phase_value Phase_synthesis = ''synthesis''"

fun witness_role_value :: "witness_role \<Rightarrow> string" where
  "witness_role_value Wit_eyewitness = ''eyewitness''"
| "witness_role_value Wit_expert = ''expert''"
| "witness_role_value Wit_character = ''character''"
| "witness_role_value Wit_other = ''other''"

fun precedent_origin_value :: "precedent_origin \<Rightarrow> string" where
  "precedent_origin_value Pair = ''pair''"
| "precedent_origin_value Vector_store = ''vector_store''"
| "precedent_origin_value Degraded = ''degraded''"

section \<open>Shared sub-models\<close>

record credibility_score =
  cr_value :: rat
  cr_rationale :: string

definition valid_credibility_score :: "credibility_score \<Rightarrow> bool" where
  "valid_credibility_score c \<longleftrightarrow> 0 \<le> cr_value c \<and> cr_value c \<le> 1 \<and> cr_rationale c \<noteq> []"

record source_ref =
  sr_doc_id :: string
  sr_span :: "int list option"
  sr_exhibit_id :: "string option"

definition valid_source_ref :: "source_ref \<Rightarrow> bool" where
  "valid_source_ref s \<longleftrightarrow> sr_doc_id s \<noteq> [] \<and> pred_option (\<lambda>xs. length xs = 2) (sr_span s)"

record party =
  py_party_id :: string
  py_role :: party_role
  py_name :: string
  py_contact :: "string option"

record raw_document =
  rd_doc_id :: string
  rd_doc_type :: doc_type
  rd_filename :: string
  rd_content_hash :: string
  rd_ingested_at :: int

record case_metadata_model =
  md_jurisdiction :: string
  md_claim_amount :: "rat option"
  md_filed_at :: "int option"
  md_offence_code :: "string option"

record routing_factor =
  rf_factor :: string
  rf_weight :: rat
  rf_rationale :: string

record vulnerability_assessment =
  va_party_name :: string
  va_types :: "vulnerability_type list"
  va_safeguards :: "string list"
  va_notes :: "string option"

record routing_decision =
  ro_complexity :: complexity_level
  ro_complexity_score :: int
  ro_route :: route_decision
  ro_routing_factors :: "routing_factor list"
  ro_vulnerability_assessment :: "vulnerability_assessment list"
  ro_escalation_reason :: "string option"
  ro_pipeline_halt :: bool

definition valid_routing_decision :: "routing_decision \<Rightarrow> bool" where
  "valid_routing_decision r \<longleftrightarrow> 0 \<le> ro_complexity_score r \<and> ro_complexity_score r \<le> 100
     \<and> list_all (\<lambda>f. 0 \<le> rf_weight f) (ro_routing_factors r)"

record intake_output =
  io_domain :: case_domain_enum
  io_parties :: "party list"
  io_case_metadata :: case_metadata_model
  io_raw_documents :: "raw_document list"
  io_routing_decision :: routing_decision

definition valid_intake_output :: "intake_output \<Rightarrow> bool" where
  "valid_intake_output i \<longleftrightarrow> pred_option (\<lambda>x. 0 \<le> x) (md_claim_amount (io_case_metadata i))
     \<and> valid_routing_decision (io_routing_decision i)"

section \<open>Research phase\<close>

record evidence_item =
  ei_evidence_id :: string
  ei_evidence_type :: evidence_type
  ei_strength :: evidence_strength
  ei_description :: string
  ei_source_ref :: "source_ref option"
  ei_admissibility_flags :: "bool dict"
  ei_linked_claims :: "string list"

record evidence_research =
  er_evidence_items :: "evidence_item list"
  er_credibility_scores :: "credibility_score dict"

record extracted_fact_item =
  fi_fact_id :: string
  fi_description :: string
  fi_event_date :: "int option"
  fi_confidence :: confidence_level
  fi_status :: fact_status
  fi_source_refs :: "source_ref list"
  fi_corroboration :: "string dict"

record timeline_event =
  te_event_date :: int
  te_description :: string
  te_source_refs :: "source_ref list"

record facts_research =
  fr_facts :: "extracted_fact_item list"
  fr_timeline :: "timeline_event list"

record statement =
  st_statement_id :: string
  st_text :: string
  st_made_at :: "int option"
  st_source_ref :: "source_ref option"

record witness =
  wi_witness_id :: string
  wi_name :: string
  wi_role :: witness_role
  wi_statements :: "statement list"
  wi_credibility :: credibility_score

record witnesses_research =
  wr_witnesses :: "witness list"
  wr_credibility :: "credibility_score dict"

record legal_rule =
  lr_rule_id :: string
  lr_jurisdiction :: string
  lr_citation :: string
  lr_text :: string
  lr_applicability :: string
  lr_supporting_sources :: "string list"

record precedent =
  pc_case_name :: string
  pc_citation :: string
  pc_jurisdiction :: string
  pc_holding :: string
  pc_relevance_rationale :: string
  pc_supporting_sources :: "string list"

record precedent_provenance =
  pp_source :: precedent_origin
  pp_query :: string
  pp_retrieved_at :: int
  pp_degraded_reason :: "string option"

record legal_element =
  le_element :: string
  le_satisfied :: bool
  le_rationale :: string

record suppressed_citation =
  sc_citation_text :: string
  sc_reason :: suppression_reason

record law_research =
  legal_rules_of :: "legal_rule list"
  precedents_of :: "precedent list"
  precedent_source_metadata_of :: precedent_provenance
  legal_elements_checklist_of :: "legal_element list"
  suppressed_citations_of :: "suppressed_citation list"

section \<open>Research parts and their fold\<close>

record research_part =
  rp_scope :: string
  rp_evidence :: "evidence_research option"
  rp_facts :: "facts_research option"
  rp_witnesses :: "witnesses_research option"
  rp_law :: "law_research option"

record research_output =
  ro_evidence :: "evidence_research option"
  ro_facts :: "facts_research option"
  ro_witnesses :: "witnesses_research option"
  ro_law :: "law_research option"
  ro_partial :: bool

definition expected_scopes :: "string list" where
  "expected_scopes = [''evidence'', ''facts'', ''witnesses'', ''law'']"

definition from_parts :: "research_part dict \<Rightarrow> research_output" where
  "from_parts ps =
     \<lparr>ro_evidence = (case map_of ps ''evidence'' of Some p \<Rightarrow> rp_evidence p | None \<Rightarrow> None),
      ro_facts = (case map_of ps ''facts'' of Some p \<Rightarrow> rp_facts p | None \<Rightarrow> None),
      ro_witnesses = (case map_of ps ''witnesses'' of Some p \<Rightarrow> rp_witnesses p | None \<Rightarrow> None),
      ro_law = (case map_of ps ''law'' of Some p \<Rightarrow> rp_law p | None \<Rightarrow> None),
      ro_partial = list_ex (\<lambda>s. \<not> dict_has s ps) expected_scopes\<rparr>"

lemma from_parts_partial_iff:
  "ro_partial (from_parts ps) \<longleftrightarrow> (\<exists>s \<in> set expected_scopes. map_of ps s = None)"
  by (auto simp: from_parts_def list_ex_iff dict_has_map_of)

text \<open>The fold depends on the look-ups only, so equal accumulators give equal outputs.\<close>

lemma from_parts_cong: "map_of ps = map_of qs \<Longrightarrow> from_parts ps = from_parts qs"
  by (simp add: from_parts_def dict_has_map_of)

section \<open>Synthesis phase\<close>

record suggested_question =
  sq_question :: string
  sq_rationale :: "string option"
  sq_question_type :: question_type
  sq_targets_weakness :: "string option"

record argument =
  ar_party :: argument_party
  ar_title :: string
  ar_text :: string
  ar_legal_basis :: string
  ar_supporting_refs :: "source_ref list"
  ar_weaknesses :: "string list"
  ar_strength_score :: "int option"
  ar_suggested_questions :: "suggested_question list"

definition valid_argument :: "argument \<Rightarrow> bool" where
  "valid_argument a \<longleftrightarrow> ar_title a \<noteq> [] \<and> ar_text a \<noteq> [] \<and> ar_legal_basis a \<noteq> []
     \<and> list_all valid_source_ref (ar_supporting_refs a) \<and> ar_weaknesses a \<noteq> []
     \<and> pred_option (\<lambda>n. 0 \<le> n \<and> n \<le> 100) (ar_strength_score a)
     \<and> list_all (\<lambda>q. sq_question q \<noteq> []) (ar_suggested_questions a)"

record contested_point =
  cp_description :: string
  cp_claimant_view :: string
  cp_respondent_view :: string

record argument_set =
  as_claimant_arguments :: "argument list"
  as_respondent_arguments :: "argument list"
  as_contested_points :: "contested_point list"
  as_counter_arguments :: "string list"

definition valid_argument_set :: "argument_set \<Rightarrow> bool" where
  "valid_argument_set s \<longleftrightarrow> as_claimant_arguments s \<noteq> [] \<and> as_respondent_arguments s \<noteq> []
     \<and> list_all valid_argument (as_claimant_arguments s)
     \<and> list_all valid_argument (as_respondent_arguments s)"

record reasoning_step =
  rs_step_no :: int
  rs_description :: string
  rs_supports :: "string list"

record uncertainty_flag =
  uf_topic :: string
  uf_rationale :: string
  uf_severity :: confidence_level

record synthesis_output =
  so_arguments :: argument_set
  so_preliminary_conclusion :: "string option"
  so_confidence :: "confidence_level option"
  so_reasoning_chain :: "reasoning_step list"
  so_uncertainty_flags :: "uncertainty_flag list"

definition valid_synthesis_output :: "synthesis_output \<Rightarrow> bool" where
  "valid_synthesis_output s \<longleftrightarrow> valid_argument_set (so_arguments s) \<and> so_reasoning_chain s \<noteq> []
     \<and> list_all (\<lambda>r. 1 \<le> rs_step_no r) (so_reasoning_chain s)"

section \<open>Audit phase\<close>

record send_back_recommendation =
  sb_to_phase :: rerun_target_phase
  sb_reason :: string

record audit_output =
  ao_fairness_check :: fairness_check
  ao_status :: case_status
  ao_should_rerun :: bool
  ao_target_phase :: "rerun_target_phase option"
  ao_reason :: "string option"
  ao_recommend_send_back :: "send_back_recommendation option"

section \<open>Dumps\<close>

definition dump_opt :: "('a \<Rightarrow> pyval) \<Rightarrow> 'a option \<Rightarrow> pyval" where
  "dump_opt f x = (case x of None \<Rightarrow> PNone | Some y \<Rightarrow> f y)"

definition dump_strs :: "string list \<Rightarrow> pyval" where
  "dump_strs xs = PList (map PStr xs)"

definition dump_dict :: "('a \<Rightarrow> pyval) \<Rightarrow> 'a dict \<Rightarrow> pydict" where
  "dump_dict f d = map (\<lambda>(k, v). (k, f v)) d"

definition dump_source_ref :: "source_ref \<Rightarrow> pyval" where
  "dump_source_ref s = PDict
     [(''doc_id'', PStr (sr_doc_id s)),
      (''span'', dump_opt (\<lambda>xs. PList (map PInt xs)) (sr_span s)),
      (''exhibit_id'', dump_opt PStr (sr_exhibit_id s))]"

definition dump_credibility_score :: "credibility_score \<Rightarrow> pyval" where
  "dump_credibility_score c = PDict
     [(''value'', PFloat (cr_value c)), (''rationale'', PStr (cr_rationale c))]"

definition dump_evidence_item :: "evidence_item \<Rightarrow> pyval" where
  "dump_evidence_item e = PDict
     [(''evidence_id'', PStr (ei_evidence_id e)),
      (''evidence_type'', PStr (evidence_type_value (ei_evidence_type e))),
      (''strength'', PStr (evidence_strength_value (ei_strength e))),
      (''description'', PStr (ei_description e)),
      (''source_ref'', dump_opt dump_source_ref (ei_source_ref e)),
      (''admissibility_flags'', PDict (dump_dict PBool (ei_admissibility_flags e))),
      (''linked_claims'', dump_strs (ei_linked_claims e))]"

definition dump_fact_item :: "extracted_fact_item \<Rightarrow> pyval" where
  "dump_fact_item f = PDict
     [(''fact_id'', PStr (fi_fact_id f)),
      (''description'', PStr (fi_description f)),
      (''event_date'', dump_opt PDate (fi_event_date f)),
      (''confidence'', PStr (confidence_value (fi_confidence f))),
      (''status'', PStr (fact_status_value (fi_status f))),
      (''source_refs'', PList (map dump_source_ref (fi_source_refs f))),
      (''corroboration'', PDict (dump_dict PStr (fi_corroboration f)))]"

definition dump_timeline_event :: "timeline_event \<Rightarrow> pyval" where
  "dump_timeline_event t = PDict
     [(''event_date'', PDate (te_event_date t)),
      (''description'', PStr (te_description t)),
      (''source_refs'', PList (map dump_source_ref (te_source_refs t)))]"

definition dump_statement :: "statement \<Rightarrow> pyval" where
  "dump_statement s = PDict
     [(''statement_id'', PStr (st_statement_id s)),
      (''text'', PStr (st_text s)),
      (''made_at'', dump_opt PDateTime (st_made_at s)),
      (''source_ref'', dump_opt dump_source_ref (st_source_ref s))]"

definition dump_witness :: "witness \<Rightarrow> pyval" where
  "dump_witness w = PDict
     [(''witness_id'', PStr (wi_witness_id w)),
      (''name'', PStr (wi_name w)),
      (''role'', PStr (witness_role_value (wi_role w))),
      (''statements'', PList (map dump_statement (wi_statements w))),
      (''credibility'', dump_credibility_score (wi_credibility w))]"

definition dump_legal_rule :: "legal_rule \<Rightarrow> pyval" where
  "dump_legal_rule r = PDict
     [(''rule_id'', PStr (lr_rule_id r)),
      (''jurisdiction'', PStr (lr_jurisdiction r)),
      (''citation'', PStr (lr_citation r)),
      (''text'', PStr (lr_text r)),
      (''applicability'', PStr (lr_applicability r)),
      (''supporting_sources'', dump_strs (lr_supporting_sources r))]"

definition dump_precedent :: "precedent \<Rightarrow> pyval" where
  "dump_precedent p = PDict
     [(''case_name'', PStr (pc_case_name p)),
      (''citation'', PStr (pc_citation p)),
      (''jurisdiction'', PStr (pc_jurisdiction p)),
      (''holding'', PStr (pc_holding p)),
      (''relevance_rationale'', PStr (pc_relevance_rationale p)),
      (''supporting_sources'', dump_strs (pc_supporting_sources p))]"

definition dump_precedent_provenance :: "precedent_provenance \<Rightarrow> pydict" where
  "dump_precedent_provenance p =
     [(''source'', PStr (precedent_origin_value (pp_source p))),
      (''query'', PStr (pp_query p)),
      (''retrieved_at'', PDateTime (pp_retrieved_at p)),
      (''degraded_reason'', dump_opt PStr (pp_degraded_reason p))]"

definition dump_legal_element :: "legal_element \<Rightarrow> pyval" where
  "dump_legal_element e = PDict
     [(''element'', PStr (le_element e)), (''satisfied'', PBool (le_satisfied e)),
      (''rationale'', PStr (le_rationale e))]"

definition dump_suppressed_citation :: "suppressed_citation \<Rightarrow> pyval" where
  "dump_suppressed_citation s = PDict
     [(''citation_text'', PStr (sc_citation_text s)),
      (''reason'', PStr (suppression_reason_value (sc_reason s)))]"

text \<open>Dumped facts and evidence items carry their own identifier keys, and no key \<open>id\<close>.\<close>

lemma dumped_items_have_no_id:
  "\<exists>d. dump_fact_item f = PDict d \<and> map_of d ''id'' = None
     \<and> map_of d ''fact_id'' = Some (PStr (fi_fact_id f))"
  "\<exists>d. dump_evidence_item e = PDict d \<and> map_of d ''id'' = None
     \<and> map_of d ''evidence_id'' = Some (PStr (ei_evidence_id e))"
  by (simp_all add: dump_fact_item_def dump_evidence_item_def)

end
