(* ===== verification/Citations.thy ===== *)
theory Citations
  imports Schemas
begin

text \<open>
  Citation provenance: the extraction of \<open>source_id\<close>s from tool messages
  (\<open>pipeline/graph/citation_provenance.py\<close>) and the suppression of citations that no retrieved
  source supports (\<open>pipeline/graph/output_validator.py\<close>).
\<close>

section \<open>Source identifiers of tool messages\<close>

text \<open>
  A tool message carries an optional artifact, a list of documents; a document carries an
  optional metadata dictionary.
\<close>

type_synonym tool_doc = "pydict option"
type_synonym tool_message = "tool_doc list option"

definition source_id_of_doc :: "(pyval \<Rightarrow> string) \<Rightarrow> tool_doc \<Rightarrow> string list" where
  "source_id_of_doc rep doc =
     (let sid = pget (case doc of None \<Rightarrow> [] | Some m \<Rightarrow> m) ''source_id''
      in if truthy sid then [py_str rep sid] else [])"

definition source_ids_from_artifact :: "(pyval \<Rightarrow> string) \<Rightarrow> tool_message \<Rightarrow> string list" where
  "source_ids_from_artifact rep artifact =
     (case artifact of None \<Rightarrow> [] | Some docs \<Rightarrow> concat (map (source_id_of_doc rep) docs))"

fun add_unseen :: "string list \<Rightarrow> string list \<Rightarrow> string list" where
  "add_unseen out [] = out"
| "add_unseen out (sid # sids) = add_unseen (if sid \<in> set out then out else out @ [sid]) sids"

fun collect_source_ids :: "(pyval \<Rightarrow> string) \<Rightarrow> string list \<Rightarrow> tool_message list \<Rightarrow> string list" where
  "collect_source_ids rep out [] = out"
| "collect_source_ids rep out (m # ms) =
     collect_source_ids rep (add_unseen out (source_ids_from_artifact rep m)) ms"

definition source_ids_from_messages :: "(pyval \<Rightarrow> string) \<Rightarrow> tool_message list \<Rightarrow> string list" where
  "source_ids_from_messages rep ms = collect_source_ids rep [] ms"

lemma add_unseen_set [simp]: "set (add_unseen out sids) = set out \<union> set sids"
  by (induction out sids rule: add_unseen.induct) auto

lemma add_unseen_distinct [simp]: "distinct out \<Longrightarrow> distinct (add_unseen out sids)"
  by (induction out sids rule: add_unseen.induct) auto

lemma collect_source_ids_set:
  "set (collect_source_ids rep out ms) = set out \<union> (\<Union>m \<in> set ms. set (source_ids_from_artifact rep m))"
  by (induction rep out ms rule: collect_source_ids.induct) auto

lemma collect_source_ids_distinct:
  "distinct out \<Longrightarrow> distinct (collect_source_ids rep out ms)"
  by (induction rep out ms rule: collect_source_ids.induct) auto

section \<open>Citation validation\<close>

definition is_supported :: "string list \<Rightarrow> string set \<Rightarrow> bool" where
  "is_supported supporting retrieved \<longleftrightarrow> list_ex (\<lambda>src. src \<in> retrieved) supporting"

definition suppress :: "string \<Rightarrow> suppressed_citation" where
  "suppress c = \<lparr>sc_citation_text = c, sc_reason = no_source_match\<rparr>"

text \<open>The two loops: kept items in order, and a suppression record for each dropped one.\<close>

fun keep_supported ::
  "('c \<Rightarrow> string list) \<Rightarrow> ('c \<Rightarrow> string) \<Rightarrow> string set
   \<Rightarrow> 'c list \<times> suppressed_citation list \<Rightarrow> 'c list \<Rightarrow> 'c list \<times> suppressed_citation list" where
  "keep_supported src cit retrieved acc [] = acc"
| "keep_supported src cit retrieved (kept, suppressed) (c # cs) =
     keep_supported src cit retrieved
       (if is_supported (src c) retrieved then (kept @ [c], suppressed)
        else (kept, suppressed @ [suppress (cit c)])) cs"

definition validate_law_citations :: "law_research \<Rightarrow> string list \<Rightarrow> law_research" where
  "validate_law_citations law retrieved_source_ids =
     (let retrieved = set retrieved_source_ids;
          (kept_rules, sup1) = keep_supported lr_supporting_sources lr_citation retrieved
             ([], suppressed_citations_of law) (legal_rules_of law);
          (kept_precedents, sup2) = keep_supported pc_supporting_sources pc_citation retrieved
             ([], sup1) (precedents_of law)
      in law\<lparr>legal_rules_of := kept_rules, precedents_of := kept_precedents,
             suppressed_citations_of := sup2\<rparr>)"

text \<open>The loops compute a filter and the suppression records of its complement.\<close>

lemma keep_supported_eq:
  "keep_supported src cit R (kept, supd) cs =
     (kept @ filter (\<lambda>c. is_supported (src c) R) cs,
      supd @ map (\<lambda>c. suppress (cit c)) (filter (\<lambda>c. \<not> is_supported (src c) R) cs))"
  by (induction cs arbitrary: kept supd) auto

lemma validate_law_citations_eq:
  "validate_law_citations law ids = law\<lparr>
     legal_rules_of := filter (\<lambda>r. is_supported (lr_supporting_sources r) (set ids)) (legal_rules_of law),
     precedents_of := filter (\<lambda>p. is_supported (pc_supporting_sources p) (set ids)) (precedents_of law),
     suppressed_citations_of := suppressed_citations_of law
       @ map (\<lambda>r. suppress (lr_citation r))
           (filter (\<lambda>r. \<not> is_supported (lr_supporting_sources r) (set ids)) (legal_rules_of law))
       @ map (\<lambda>p. suppress (pc_citation p))
           (filter (\<lambda>p. \<not> is_supported (pc_supporting_sources p) (set ids)) (precedents_of law))\<rparr>"
  by (simp add: validate_law_citations_def keep_supported_eq Let_def)

lemma is_supported_mono: "is_supported s R \<Longrightarrow> R \<subseteq> R' \<Longrightarrow> is_supported s R'"
  by (auto simp: is_supported_def list_ex_iff)

lemma is_supported_iff: "is_supported s R \<longleftrightarrow> set s \<inter> R \<noteq> {}"
  by (auto simp: is_supported_def list_ex_iff)

end
