(* ===== verification/Graph_State.thy ===== *)
theory Graph_State
  imports Citations
begin

text \<open>
  The graph state of \<open>pipeline/graph/state.py\<close> and the update a node of
  \<open>pipeline/graph/agents/factory.py\<close> writes once its agent has answered: the phase output slot,
  the mirror of the output on the case, and the retrieved source identifiers.
\<close>

section \<open>Graph state\<close>

record graph_state =
  gs_case :: case_state
  gs_run_id :: string
  gs_extra_instructions :: pydict
  gs_retry_counts :: "int dict"
  gs_halt :: "pydict option"
  gs_research_parts :: "research_part dict"
  gs_retrieved_source_ids :: "string list dict"
  gs_research_output :: "research_output option"
  gs_intake_output :: "intake_output option"
  gs_synthesis_output :: "synthesis_output option"
  gs_audit_output :: "audit_output option"
  gs_pending_action :: pyval
  gs_is_resume :: bool
  gs_start_agent :: "string option"
  gs_judge_messages :: "pyval list"

section \<open>Agent answers\<close>

text \<open>The structured response of an agent: an instance of the schema of its phase, or nothing.\<close>

datatype structured =
    St_none
  | St_intake intake_output
  | St_evidence evidence_research
  | St_facts facts_research
  | St_witnesses witnesses_research
  | St_law law_research
  | St_synthesis synthesis_output
  | St_audit audit_output

record node_result =
  nr_phase :: string
  nr_structured :: structured
  nr_case :: "case_state option"
  nr_source_ids :: "string list dict option"

text \<open>The corrective instructions a node looks up in the graph state, under its own name.\<close>

definition node_corrections :: "string \<Rightarrow> graph_state \<Rightarrow> pyval" where
  "node_corrections phase_or_scope s = pget (gs_extra_instructions s) phase_or_scope"

subsection \<open>Mirrors of the phase outputs on the case\<close>

fun confidence_level_to_score :: "confidence_level \<Rightarrow> int" where
  "confidence_level_to_score LOW = 25"
| "confidence_level_to_score MED = 60"
| "confidence_level_to_score HIGH = 90"

definition question_type_value :: "question_type \<Rightarrow> string" where
  "question_type_value q = (case q of
      factual_clarification \<Rightarrow> ''factual_clarification''
    | evidence_gap \<Rightarrow> ''evidence_gap''
    | credibility_probe \<Rightarrow> ''credibility_probe''
    | legal_interpretation \<Rightarrow> ''legal_interpretation'')"

definition dump_suggested_question :: "suggested_question \<Rightarrow> pyval" where
  "dump_suggested_question q = PDict
     [(''question'', PStr (sq_question q)), (''rationale'', dump_opt PStr (sq_rationale q)),
      (''question_type'', PStr (question_type_value (sq_question_type q))),
      (''targets_weakness'', dump_opt PStr (sq_targets_weakness q))]"

definition argument_to_dict :: "argument \<Rightarrow> pyval" where
  "argument_to_dict a = PDict
     [(''title'', PStr (ar_title a)),
      (''text'', PStr (ar_text a)),
      (''legal_basis'', PStr (ar_legal_basis a)),
      (''supporting_evidence'', PList (map dump_source_ref (ar_supporting_refs a))),
      (''weaknesses'', dump_strs (ar_weaknesses a)),
      (''strength_score'', dump_opt PInt (ar_strength_score a)),
      (''suggested_questions'', PList (map dump_suggested_question (ar_suggested_questions a)))]"

definition dump_contested_point :: "contested_point \<Rightarrow> pyval" where
  "dump_contested_point p = PDict
     [(''description'', PStr (cp_description p)), (''claimant_view'', PStr (cp_claimant_view p)),
      (''respondent_view'', PStr (cp_respondent_view p))]"

definition dump_reasoning_step :: "reasoning_step \<Rightarrow> pyval" where
  "dump_reasoning_step r = PDict
     [(''step_no'', PInt (rs_step_no r)), (''description'', PStr (rs_description r)),
      (''supports'', dump_strs (rs_supports r))]"

definition dump_uncertainty_flag :: "uncertainty_flag \<Rightarrow> pyval" where
  "dump_uncertainty_flag u = PDict
     [(''topic'', PStr (uf_topic u)), (''rationale'', PStr (uf_rationale u)),
      (''severity'', PStr (confidence_value (uf_severity u)))]"

definition case_arguments :: "argument_set \<Rightarrow> pydict" where
  "case_arguments s =
     (if as_claimant_arguments s = [] then []
      else [(''claimant'', PList (map argument_to_dict (as_claimant_arguments s)))])
     @ (if as_respondent_arguments s = [] then []
        else [(''respondent'', PList (map argument_to_dict (as_respondent_arguments s)))])
     @ (if as_counter_arguments s = [] then []
        else [(''counter_arguments'', dump_strs (as_counter_arguments s))])
     @ (if as_contested_points s = [] then []
        else [(''contested_points'', PList (map dump_contested_point (as_contested_points s)))])"

definition mirror_synthesis_to_case :: "synthesis_output \<Rightarrow> case_state \<Rightarrow> case_state" where
  "mirror_synthesis_to_case so c =
     (let hearing =
            \<lparr>ha_preliminary_conclusion = so_preliminary_conclusion so,
             ha_confidence_score = map_option confidence_level_to_score (so_confidence so),
             ha_reasoning_chain = map dump_reasoning_step (so_reasoning_chain so),
             ha_uncertainty_flags = map dump_uncertainty_flag (so_uncertainty_flags so),
             ha_extra = []\<rparr>;
          args = case_arguments (so_arguments so);
          c' = c\<lparr>cs_hearing_analysis := Some hearing\<rparr>
      in if args = [] then c' else c'\<lparr>cs_arguments := Some args\<rparr>)"

definition mirror_audit_to_case :: "audit_output \<Rightarrow> case_state \<Rightarrow> case_state" where
  "mirror_audit_to_case ao c = c\<lparr>cs_fairness_check := Some (ao_fairness_check ao)\<rparr>"

definition mirror_phase_output_to_case ::
  "string \<Rightarrow> structured \<Rightarrow> case_state \<Rightarrow> case_state option" where
  "mirror_phase_output_to_case phase_or_scope st c =
     (case st of
        St_synthesis so \<Rightarrow>
          if phase_or_scope = ''synthesis'' then Some (mirror_synthesis_to_case so c) else None
      | St_audit ao \<Rightarrow>
          if phase_or_scope = ''audit'' then Some (mirror_audit_to_case ao c) else None
      | _ \<Rightarrow> None)"

text \<open>What a node returns once its agent has answered with a response and its messages.\<close>

definition node_update ::
  "(pyval \<Rightarrow> string) \<Rightarrow> string \<Rightarrow> structured \<Rightarrow> tool_message list \<Rightarrow> graph_state \<Rightarrow> node_result" where
  "node_update rep phase_or_scope st messages s =
     (let ids = source_ids_from_messages rep messages
      in \<lparr>nr_phase = phase_or_scope, nr_structured = st,
          nr_case = mirror_phase_output_to_case phase_or_scope st (gs_case s),
          nr_source_ids = (if ids = [] then None else Some [(phase_or_scope, ids)])\<rparr>)"

lemma mirror_synthesis_frame:
  "cs_evidence_analysis (mirror_synthesis_to_case so c) = cs_evidence_analysis c"
  "cs_extracted_facts (mirror_synthesis_to_case so c) = cs_extracted_facts c"
  "cs_legal_rules (mirror_synthesis_to_case so c) = cs_legal_rules c"
  "cs_status (mirror_synthesis_to_case so c) = cs_status c"
  "cs_audit_log (mirror_synthesis_to_case so c) = cs_audit_log c"
  by (simp_all add: mirror_synthesis_to_case_def Let_def)

text \<open>
  The slots a phase node's result is written to: the output slot of its phase, also when there is
  no response, the case and the source identifiers.
\<close>

definition apply_phase_result :: "node_result \<Rightarrow> graph_state \<Rightarrow> graph_state" where
  "apply_phase_result r s =
     (let s1 =
            if nr_phase r = ''intake'' then
              s\<lparr>gs_intake_output := (case nr_structured r of St_intake x \<Rightarrow> Some x | _ \<Rightarrow> None)\<rparr>
            else if nr_phase r = ''synthesis'' then
              s\<lparr>gs_synthesis_output :=
                  (case nr_structured r of St_synthesis x \<Rightarrow> Some x | _ \<Rightarrow> None)\<rparr>
            else if nr_phase r = ''audit'' then
              s\<lparr>gs_audit_output := (case nr_structured r of St_audit x \<Rightarrow> Some x | _ \<Rightarrow> None)\<rparr>
            else s;
          s2 = (case nr_case r of None \<Rightarrow> s1
                | Some c \<Rightarrow> s1\<lparr>gs_case := merge_case (gs_case s1) (Update c)\<rparr>)
      in case nr_source_ids r of None \<Rightarrow> s2
         | Some d \<Rightarrow> s2\<lparr>gs_retrieved_source_ids :=
                        merge_source_ids (gs_retrieved_source_ids s2) d\<rparr>)"

lemma apply_phase_result_frame [simp]:
  "gs_extra_instructions (apply_phase_result r s) = gs_extra_instructions s"
  "gs_research_parts (apply_phase_result r s) = gs_research_parts s"
  "gs_halt (apply_phase_result r s) = gs_halt s"
  "gs_research_output (apply_phase_result r s) = gs_research_output s"
  "gs_pending_action (apply_phase_result r s) = gs_pending_action s"
  by (auto simp: apply_phase_result_def Let_def split: structured.split option.split)

end
