(* ===== verification/Research.thy ===== *)
theory Research
  imports Graph_State
begin

text \<open>
  The research fan-out of \<open>pipeline/graph/research.py\<close>: the router that picks the scopes, the
  node of a scope, and the join that folds the parts, validates citations and mirrors the result
  on the case.
\<close>

definition research_scopes :: "string list" where
  "research_scopes = [''evidence'', ''facts'', ''witnesses'', ''law'']"

definition research_subagent_node :: "string \<Rightarrow> string" where
  "research_subagent_node scope = ''research_'' @ scope"

definition research_dispatch_node :: "graph_state \<Rightarrow> graph_state" where
  "research_dispatch_node s = s"

section \<open>Routing\<close>

definition routed_scopes :: "pydict \<Rightarrow> string list" where
  "routed_scopes extra =
     (let target_scopes = filter (\<lambda>scope. dict_has scope extra) research_scopes
      in if target_scopes \<noteq> [] then target_scopes else research_scopes)"

record send =
  send_node :: string
  send_case :: case_state
  send_extra :: pydict

definition route_to_research_subagents :: "graph_state \<Rightarrow> send list" where
  "route_to_research_subagents s =
     map (\<lambda>scope. \<lparr>send_node = research_subagent_node scope, send_case = gs_case s,
                   send_extra = gs_extra_instructions s\<rparr>)
         (routed_scopes (gs_extra_instructions s))"

lemma routed_scopes_subset: "set (routed_scopes extra) \<subseteq> set research_scopes"
  by (auto simp: routed_scopes_def Let_def)

lemma routed_scopes_nonempty: "routed_scopes extra \<noteq> []"
  by (simp add: routed_scopes_def Let_def research_scopes_def)

lemma routed_scopes_distinct: "distinct (routed_scopes extra)"
  by (simp add: routed_scopes_def Let_def research_scopes_def)

lemma routed_scopes_all:
  "(\<And>scope. scope \<in> set research_scopes \<Longrightarrow> \<not> dict_has scope extra)
   \<Longrightarrow> routed_scopes extra = research_scopes"
  by (auto simp: routed_scopes_def Let_def filter_empty_conv)

lemma routed_scopes_single:
  "scope \<in> set research_scopes \<Longrightarrow> routed_scopes [(scope, v)] = [scope]"
  by (auto simp: routed_scopes_def research_scopes_def dict_has_def)

section \<open>Scope nodes\<close>

text \<open>
  \<open>ResearchPart(scope=scope, **{scope: structured})\<close>: a response of another scope's schema is a
  validation error.
\<close>

definition make_part :: "string \<Rightarrow> structured \<Rightarrow> research_part result" where
  "make_part scope st =
     (let empty = \<lparr>rp_scope = scope, rp_evidence = None, rp_facts = None, rp_witnesses = None,
                   rp_law = None\<rparr>
      in case st of
           St_none \<Rightarrow> Inr empty
         | St_evidence x \<Rightarrow>
             if scope = ''evidence'' then Inr (empty\<lparr>rp_evidence := Some x\<rparr>) else Inl ValueError
         | St_facts x \<Rightarrow>
             if scope = ''facts'' then Inr (empty\<lparr>rp_facts := Some x\<rparr>) else Inl ValueError
         | St_witnesses x \<Rightarrow>
             if scope = ''witnesses'' then Inr (empty\<lparr>rp_witnesses := Some x\<rparr>) else Inl ValueError
         | St_law x \<Rightarrow>
             if scope = ''law'' then Inr (empty\<lparr>rp_law := Some x\<rparr>) else Inl ValueError
         | _ \<Rightarrow> Inl ValueError)"

record research_update =
  ru_parts :: "research_part dict"
  ru_source_ids :: "string list dict option"

text \<open>
  The wrapper reads \<open>retrieved_source_ids\<close> off the inner node's result, where it is a dictionary,
  and stores \<open>list(...)\<close> of it: the list of the dictionary's keys.
\<close>

definition make_research_node ::
  "(pyval \<Rightarrow> string) \<Rightarrow> string \<Rightarrow> structured \<Rightarrow> tool_message list \<Rightarrow> graph_state
   \<Rightarrow> research_update result" where
  "make_research_node rep scope st messages s =
     (if scope \<notin> set research_scopes then Inl ValueError
      else
        let result = node_update rep (''research-'' @ scope) st messages s
        in bind_result (make_part scope (nr_structured result)) (\<lambda>part.
             let source_ids = (case nr_source_ids result of None \<Rightarrow> [] | Some d \<Rightarrow> d)
             in Inr \<lparr>ru_parts = [(scope, part)],
                     ru_source_ids = (if source_ids = [] then None
                                      else Some [(scope, map fst source_ids)])\<rparr>))"

definition apply_research_update :: "research_update \<Rightarrow> graph_state \<Rightarrow> graph_state" where
  "apply_research_update u s =
     (let s1 = s\<lparr>gs_research_parts := merge_research_parts (gs_research_parts s) (ru_parts u)\<rparr>
      in case ru_source_ids u of None \<Rightarrow> s1
         | Some d \<Rightarrow> s1\<lparr>gs_retrieved_source_ids :=
                        merge_source_ids (gs_retrieved_source_ids s1) d\<rparr>)"

section \<open>Join\<close>

definition merged_research :: "graph_state \<Rightarrow> research_output" where
  "merged_research s =
     (let ps = gs_research_parts s; merged = from_parts ps
      in case ro_law merged of
           Some law \<Rightarrow>
             merged\<lparr>ro_law := Some (validate_law_citations law
                                     (concat (map snd (gs_retrieved_source_ids s))))\<rparr>
         | None \<Rightarrow> if dict_has ''law'' ps then merged\<lparr>ro_partial := True\<rparr> else merged)"

definition mirror_evidence :: "evidence_research option \<Rightarrow> case_state \<Rightarrow> case_state" where
  "mirror_evidence x c = (case x of None \<Rightarrow> c | Some e \<Rightarrow>
     c\<lparr>cs_evidence_analysis := Some
         \<lparr>ea_evidence_items = map dump_evidence_item (er_evidence_items e), ea_exhibits = [],
          ea_credibility_scores = dump_dict dump_credibility_score (er_credibility_scores e),
          ea_extra = []\<rparr>\<rparr>)"

definition mirror_facts :: "facts_research option \<Rightarrow> case_state \<Rightarrow> case_state" where
  "mirror_facts x c = (case x of None \<Rightarrow> c | Some f \<Rightarrow>
     c\<lparr>cs_extracted_facts := Some
         \<lparr>ef_facts = map dump_fact_item (fr_facts f),
          ef_timeline = map dump_timeline_event (fr_timeline f), ef_extra = []\<rparr>\<rparr>)"

definition mirror_witnesses :: "witnesses_research option \<Rightarrow> case_state \<Rightarrow> case_state" where
  "mirror_witnesses x c = (case x of None \<Rightarrow> c | Some w \<Rightarrow>
     c\<lparr>cs_witnesses := Some
         \<lparr>wm_witnesses = map dump_witness (wr_witnesses w), wm_statements = [],
          wm_credibility = dump_dict dump_credibility_score (wr_credibility w), wm_extra = []\<rparr>\<rparr>)"

definition mirror_law :: "law_research option \<Rightarrow> case_state \<Rightarrow> case_state" where
  "mirror_law x c = (case x of None \<Rightarrow> c | Some l \<Rightarrow>
     c\<lparr>cs_legal_rules := map dump_legal_rule (legal_rules_of l),
       cs_precedents := map dump_precedent (precedents_of l),
       cs_precedent_source_metadata :=
         Some (dump_precedent_provenance (precedent_source_metadata_of l)),
       cs_legal_elements_checklist := map dump_legal_element (legal_elements_checklist_of l),
       cs_suppressed_citations :=
         map dump_suppressed_citation (suppressed_citations_of l)\<rparr>)"

definition mirror_research :: "research_output \<Rightarrow> case_state \<Rightarrow> case_state" where
  "mirror_research m c =
     mirror_law (ro_law m) (mirror_witnesses (ro_witnesses m)
       (mirror_facts (ro_facts m) (mirror_evidence (ro_evidence m) c)))"

definition has_research :: "research_output \<Rightarrow> bool" where
  "has_research m \<longleftrightarrow> ro_evidence m \<noteq> None \<or> ro_facts m \<noteq> None \<or> ro_witnesses m \<noteq> None
     \<or> ro_law m \<noteq> None"

definition research_join_node :: "graph_state \<Rightarrow> research_output \<times> case_state option" where
  "research_join_node s =
     (let merged = merged_research s
      in (merged, if has_research merged then Some (mirror_research merged (gs_case s)) else None))"

definition apply_research_join :: "graph_state \<Rightarrow> graph_state" where
  "apply_research_join s =
     (case research_join_node s of (merged, new_case) \<Rightarrow>
        let s1 = s\<lparr>gs_research_output := Some merged\<rparr>
        in case new_case of None \<Rightarrow> s1
           | Some c \<Rightarrow> s1\<lparr>gs_case := merge_case (gs_case s1) (Update c)\<rparr>)"

lemma apply_research_join_frame [simp]:
  "gs_extra_instructions (apply_research_join s) = gs_extra_instructions s"
  "gs_research_parts (apply_research_join s) = gs_research_parts s"
  "gs_halt (apply_research_join s) = gs_halt s"
  "gs_pending_action (apply_research_join s) = gs_pending_action s"
  "gs_retrieved_source_ids (apply_research_join s) = gs_retrieved_source_ids s"
  "gs_research_output (apply_research_join s) = Some (merged_research s)"
  by (auto simp: apply_research_join_def research_join_node_def Let_def split: option.split)

lemma apply_research_update_frame [simp]:
  "gs_extra_instructions (apply_research_update u s) = gs_extra_instructions s"
  "gs_case (apply_research_update u s) = gs_case s"
  "gs_halt (apply_research_update u s) = gs_halt s"
  "gs_pending_action (apply_research_update u s) = gs_pending_action s"
  "gs_research_output (apply_research_update u s) = gs_research_output s"
  "gs_research_parts (apply_research_update u s)
     = merge_research_parts (gs_research_parts s) (ru_parts u)"
  by (auto simp: apply_research_update_def Let_def split: option.split)

lemma merged_research_law:
  "ro_law (merged_research s) = map_option
     (\<lambda>law. validate_law_citations law (concat (map snd (gs_retrieved_source_ids s))))
     (ro_law (from_parts (gs_research_parts s)))"
  by (auto simp: merged_research_def Let_def split: option.split)

lemma merged_research_partial_iff:
  "ro_partial (merged_research s) \<longleftrightarrow>
     (\<exists>scope \<in> set research_scopes. map_of (gs_research_parts s) scope = None)
     \<or> (\<exists>p. map_of (gs_research_parts s) ''law'' = Some p \<and> rp_law p = None)"
  by (auto simp: merged_research_def Let_def from_parts_partial_iff from_parts_def
      expected_scopes_def research_scopes_def dict_has_map_of split: option.splits)

text \<open>What a scope node writes: its own part, and the name of the inner node as its sources.\<close>

lemma make_research_node_Inr:
  assumes "make_research_node rep scope st messages s = Inr u"
  shows "scope \<in> set research_scopes"
    and "\<exists>part. make_part scope st = Inr part \<and> ru_parts u = [(scope, part)]"
    and "ru_source_ids u = (if source_ids_from_messages rep messages = [] then None
                            else Some [(scope, [''research-'' @ scope])])"
  using assms
  by (auto simp: make_research_node_def node_update_def Let_def bind_result_Inr split: if_splits)

lemma make_part_scope: "make_part scope st = Inr p \<Longrightarrow> rp_scope p = scope"
  by (auto simp: make_part_def Let_def split: structured.splits if_splits)

section \<open>Branch order\<close>

lemma retrieved_after_update:
  "gs_retrieved_source_ids (apply_research_update u s)
     = merge_source_ids (gs_retrieved_source_ids s)
         (case ru_source_ids u of None \<Rightarrow> [] | Some d \<Rightarrow> d)"
  by (simp add: apply_research_update_def Let_def merge_source_ids_def split: option.split)

lemma set_of_values:
  "distinct (map fst d) \<Longrightarrow> set (concat (map snd d)) = (\<Union>v \<in> ran (map_of d). set v)"
  by (simp add: ran_distinct)

lemma merged_research_cong:
  assumes "map_of (gs_research_parts s) = map_of (gs_research_parts t)"
    and "set (concat (map snd (gs_retrieved_source_ids s)))
       = set (concat (map snd (gs_retrieved_source_ids t)))"
  shows "merged_research s = merged_research t"
proof -
  have fp: "from_parts (gs_research_parts s) = from_parts (gs_research_parts t)"
    using assms(1) by (rule from_parts_cong)
  have v: "validate_law_citations law (concat (map snd (gs_retrieved_source_ids s)))
      = validate_law_citations law (concat (map snd (gs_retrieved_source_ids t)))" for law
    unfolding validate_law_citations_def assms(2) ..
  show ?thesis unfolding merged_research_def Let_def dict_has_map_of assms(1) fp v ..
qed

section \<open>Properties\<close>

text \<open>The states of the examples.\<close>

definition empty_state :: graph_state where
  "empty_state =
     \<lparr>gs_case = new_case_state ''c'' ''r'', gs_run_id = ''r'', gs_extra_instructions = [],
      gs_retry_counts = [], gs_halt = None, gs_research_parts = [], gs_retrieved_source_ids = [],
      gs_research_output = None, gs_intake_output = None, gs_synthesis_output = None,
      gs_audit_output = None, gs_pending_action = PNone, gs_is_resume = False,
      gs_start_agent = None, gs_judge_messages = []\<rparr>"

definition one_rule_law :: law_research where
  "one_rule_law =
     \<lparr>legal_rules_of = [\<lparr>lr_rule_id = ''R1'', lr_jurisdiction = ''SG'', lr_citation = ''RTA s 64'',
        lr_text = ''t'', lr_applicability = ''a'', lr_supporting_sources = [''f1:h1'']\<rparr>],
      precedents_of = [],
      precedent_source_metadata_of = \<lparr>pp_source = Vector_store, pp_query = ''q'',
        pp_retrieved_at = 0, pp_degraded_reason = None\<rparr>,
      legal_elements_checklist_of = [], suppressed_citations_of = []\<rparr>"

definition law_part :: research_part where
  "law_part = \<lparr>rp_scope = ''law'', rp_evidence = None, rp_facts = None, rp_witnesses = None,
               rp_law = Some one_rule_law\<rparr>"

definition one_source :: "tool_message list" where
  "one_source = [Some [Some [(''source_id'', PStr ''f1:h1'')]]]"






text \<open>The source identifiers an agent retrieved never reach the join: a scope node stores the
  name of the inner node in their place.\<close>

lemma scope_node_loses_source_ids:
  assumes "make_research_node rep scope st messages s = Inr u"
    and "source_ids_from_messages rep messages \<noteq> []"
  shows "map_of (gs_retrieved_source_ids (apply_research_update u s)) scope
           = Some [''research-'' @ scope]"
  using assms(2) make_research_node_Inr(3) [OF assms(1)]
  by (simp add: retrieved_after_update sources.merge_lookup)

lemma scope_node_loses_source_ids_witness:
  "\<exists>u. make_research_node (\<lambda>_. []) ''law'' (St_law one_rule_law) one_source empty_state = Inr u
     \<and> map_of (gs_retrieved_source_ids (apply_research_update u empty_state)) ''law''
         = Some [''research-law'']"
proof -
  obtain u where u:
      "make_research_node (\<lambda>_. []) ''law'' (St_law one_rule_law) one_source empty_state = Inr u"
    by (simp add: make_research_node_def research_scopes_def make_part_def node_update_def Let_def)
  have "source_ids_from_messages (\<lambda>_. []) one_source \<noteq> []"
    by (simp add: source_ids_from_messages_def source_ids_from_artifact_def source_id_of_doc_def
        pget_def one_source_def)
  from u scope_node_loses_source_ids [OF u this] show ?thesis by simp
qed

end
