(* ===== verification/Database.thy ===== *)
theory Database
  imports Outbox Research
begin

text \<open>
  The relational tables the program writes, \<open>models/case.py\<close>, \<open>models/audit.py\<close> and the checkpoint
  table of \<open>db/pipeline_state.py\<close>, as lists of rows; the status values, the coercion of raw values
  to enumerations, and the checkpoint operations.
\<close>

section \<open>Case status values\<close>

fun status_value :: "case_status \<Rightarrow> string" where
  "status_value S_draft = ''draft''"
| "status_value S_extracting = ''extracting''"
| "status_value S_awaiting_intake_confirmation = ''awaiting_intake_confirmation''"
| "status_value S_pending = ''pending''"
| "status_value S_processing = ''processing''"
| "status_value S_ready_for_review = ''ready_for_review''"
| "status_value S_escalated = ''escalated''"
| "status_value S_closed = ''closed''"
| "status_value S_failed = ''failed''"
| "status_value S_failed_retryable = ''failed_retryable''"
| "status_value S_awaiting_review_gate1 = ''awaiting_review_gate1''"
| "status_value S_awaiting_review_gate2 = ''awaiting_review_gate2''"
| "status_value S_awaiting_review_gate3 = ''awaiting_review_gate3''"
| "status_value S_awaiting_review_gate4 = ''awaiting_review_gate4''"

definition all_statuses :: "case_status list" where
  "all_statuses =
     [S_draft, S_extracting, S_awaiting_intake_confirmation, S_pending, S_processing,
      S_ready_for_review, S_escalated, S_closed, S_failed, S_failed_retryable,
      S_awaiting_review_gate1, S_awaiting_review_gate2, S_awaiting_review_gate3,
      S_awaiting_review_gate4]"

text \<open>\<open>CaseStatus(value)\<close>, which raises on an unknown value.\<close>

definition parse_status :: "string \<Rightarrow> case_status option" where
  "parse_status v = find (\<lambda>s. status_value s = v) all_statuses"

lemma parse_status_value [simp]: "parse_status (status_value s) = Some s"
  by (cases s) (simp_all add: parse_status_def all_statuses_def)

section \<open>Enumerated columns\<close>

definition evidence_type_column :: "string list" where
  "evidence_type_column = [''documentary'', ''testimonial'', ''physical'', ''digital'', ''expert'']"
definition evidence_strength_column :: "string list" where
  "evidence_strength_column = [''strong'', ''medium'', ''weak'']"
definition fact_confidence_column :: "string list" where
  "fact_confidence_column = [''high'', ''medium'', ''low'', ''disputed'']"
definition fact_status_column :: "string list" where
  "fact_status_column = [''agreed'', ''disputed'']"
definition precedent_source_column :: "string list" where
  "precedent_source_column = [''curated'', ''live_search'']"
definition argument_side_column :: "string list" where
  "argument_side_column = [''prosecution'', ''defense'', ''claimant'', ''respondent'']"
definition complexity_column :: "string list" where
  "complexity_column = [''low'', ''medium'', ''high'']"
definition route_column :: "string list" where
  "route_column = [''proceed_automated'', ''proceed_with_review'', ''escalate_human'']"

definition coerce_enum :: "string list \<Rightarrow> pyval \<Rightarrow> string option" where
  "coerce_enum allowed v = (case v of PStr s \<Rightarrow> if s \<in> set allowed then Some s else None | _ \<Rightarrow> None)"

section \<open>Rows\<close>

record domain_row =
  do_id :: uuid
  do_code :: string
  do_is_active :: bool
  do_vector_store_id :: "string option"

record party_row =
  pa_case :: uuid
  pa_name :: string
  pa_role :: string
  pa_contact_info :: "pydict option"

record document_row =
  dc_id :: uuid
  dc_case :: uuid
  dc_openai_file_id :: "string option"
  dc_filename :: string
  dc_file_type :: "string option"
  dc_kind :: string
  dc_pages :: "pyval option"
  dc_parsed_text :: "pydict option"

record case_row =
  ca_id :: uuid
  ca_domain :: case_domain_enum
  ca_title :: "string option"
  ca_description :: "string option"
  ca_filed_date :: "int option"
  ca_claim_amount :: "rat option"
  ca_consent_to_higher_claim_limit :: bool
  ca_offence_code :: "string option"
  ca_status :: case_status
  ca_jurisdiction_valid :: "bool option"
  ca_complexity :: "string option"
  ca_route :: "string option"
  ca_domain_id :: "uuid option"
  ca_latest_run_id :: "string option"
  ca_gate_state :: "pydict option"
  ca_judicial_decision :: "pydict option"
  ca_intake_extraction :: "pydict option"
  ca_created_by :: uuid
  ca_created_at :: int
  ca_updated_at :: "int option"

record evidence_row =
  ev_case :: uuid
  ev_type :: string
  ev_strength :: "string option"
  ev_admissibility_flags :: pyval
  ev_linked_claims :: "pyval option"

record fact_row =
  fa_case :: uuid
  fa_event_date :: "int option"
  fa_event_time :: "int option"
  fa_description :: string
  fa_confidence :: "string option"
  fa_status :: "string option"
  fa_corroboration :: "pyval option"

record witness_row =
  wt_case :: uuid
  wt_name :: string
  wt_role :: pyval
  wt_credibility_score :: "int option"
  wt_bias_indicators :: "pyval option"
  wt_simulated_testimony :: pyval

record legal_rule_row =
  lw_case :: uuid
  lw_statute_name :: string
  lw_section :: pyval
  lw_verbatim_text :: pyval
  lw_relevance_score :: "rat option"
  lw_application :: pyval

record precedent_row =
  pr_case :: uuid
  pr_citation :: string
  pr_court :: pyval
  pr_outcome :: pyval
  pr_reasoning_summary :: pyval
  pr_similarity_score :: "rat option"
  pr_distinguishing_factors :: pyval
  pr_source :: "string option"
  pr_url :: pyval

record argument_row =
  ag_case :: uuid
  ag_side :: string
  ag_legal_basis :: string
  ag_supporting_evidence :: "pyval option"
  ag_weaknesses :: "string option"
  ag_suggested_questions :: "pyval option"

record hearing_row =
  hr_case :: uuid
  hr_reasoning_chain :: "pyval list"
  hr_preliminary_conclusion :: "string option"
  hr_uncertainty_flags :: "pyval list"
  hr_confidence_score :: "int option"

record audit_row =
  al_case :: uuid
  al_entry :: audit_entry

record checkpoint_row =
  ck_case :: uuid
  ck_run :: string
  ck_agent :: string
  ck_state :: pyval

record database =
  db_cases :: "case_row list"
  db_domains :: "domain_row list"
  db_parties :: "party_row list"
  db_documents :: "document_row list"
  db_jobs :: job_table
  db_evidence :: "evidence_row list"
  db_facts :: "fact_row list"
  db_witnesses :: "witness_row list"
  db_legal_rules :: "legal_rule_row list"
  db_precedents :: "precedent_row list"
  db_arguments :: "argument_row list"
  db_hearing :: "hearing_row list"
  db_audit :: "audit_row list"
  db_checkpoints :: "checkpoint_row list"

definition find_case :: "uuid \<Rightarrow> database \<Rightarrow> case_row option" where
  "find_case cid db = find (\<lambda>c. ca_id c = cid) (db_cases db)"

definition update_case :: "uuid \<Rightarrow> (case_row \<Rightarrow> case_row) \<Rightarrow> database \<Rightarrow> database" where
  "update_case cid f db =
     db\<lparr>db_cases := map (\<lambda>c. if ca_id c = cid then f c else c) (db_cases db)\<rparr>"

definition find_domain :: "uuid option \<Rightarrow> database \<Rightarrow> domain_row option" where
  "find_domain d db = (case d of None \<Rightarrow> None | Some i \<Rightarrow> find (\<lambda>r. do_id r = i) (db_domains db))"

text \<open>An audit row a handler writes: agent, action and input, every other column empty.\<close>

definition audit_of :: "uuid \<Rightarrow> int \<Rightarrow> string \<Rightarrow> string \<Rightarrow> pydict \<Rightarrow> audit_row" where
  "audit_of cid now agent action inp =
     \<lparr>al_case = cid, al_entry = \<lparr>ae_agent = agent, ae_timestamp = now, ae_action = action,
        ae_input_payload = Some inp, ae_output_payload = None, ae_system_prompt = None,
        ae_llm_response = None, ae_tool_calls = None, ae_model = None, ae_token_usage = None,
        ae_trace_id = None, ae_span_id = None, ae_retrieved_source_ids = None,
        ae_cost_usd = None, ae_redaction_applied = False\<rparr>\<rparr>"

definition add_audit :: "audit_row \<Rightarrow> database \<Rightarrow> database" where
  "add_audit a db = db\<lparr>db_audit := db_audit db @ [a]\<rparr>"

lemma find_case_id: "find_case cid db = Some c \<Longrightarrow> ca_id c = cid \<and> c \<in> set (db_cases db)"
  unfolding find_case_def by (drule find_Some_in) simp

lemma find_case_update [simp]:
  assumes "\<And>c. ca_id (f c) = ca_id c"
  shows "find_case k (update_case cid f db)
     = map_option (\<lambda>c. if k = cid then f c else c) (find_case k db)"
proof -
  have "find (\<lambda>c. ca_id c = k) (map (\<lambda>c. if ca_id c = cid then f c else c) cs)
      = map_option (\<lambda>c. if k = cid then f c else c) (find (\<lambda>c. ca_id c = k) cs)" for cs
    by (induction cs) (auto simp: assms)
  then show ?thesis by (simp add: find_case_def update_case_def)
qed

lemma update_case_frame [simp]:
  "db_jobs (update_case cid f db) = db_jobs db" "db_audit (update_case cid f db) = db_audit db"
  "db_domains (update_case cid f db) = db_domains db"
  "db_parties (update_case cid f db) = db_parties db"
  "db_documents (update_case cid f db) = db_documents db"
  "db_checkpoints (update_case cid f db) = db_checkpoints db"
  by (simp_all add: update_case_def)

lemma add_audit_frame [simp]:
  "db_cases (add_audit a db) = db_cases db" "db_jobs (add_audit a db) = db_jobs db"
  "db_audit (add_audit a db) = db_audit db @ [a]" "db_domains (add_audit a db) = db_domains db"
  "find_case k (add_audit a db) = find_case k db"
  "db_parties (add_audit a db) = db_parties db" "db_documents (add_audit a db) = db_documents db"
  by (simp_all add: add_audit_def find_case_def)

lemma find_case_frame [simp]:
  "find_case k (db\<lparr>db_jobs := js\<rparr>) = find_case k db"
  "find_case k (db\<lparr>db_checkpoints := cks\<rparr>) = find_case k db"
  by (simp_all add: find_case_def)

section \<open>Checkpoints\<close>

definition current_schema_version :: int where "current_schema_version = 3"
definition supported_read_schema_versions :: "int list" where
  "supported_read_schema_versions = [2, 3]"
definition checkpoint_max_retries :: nat where "checkpoint_max_retries = 3"

definition upsert_checkpoint :: "checkpoint_row \<Rightarrow> checkpoint_row list \<Rightarrow> checkpoint_row list" where
  "upsert_checkpoint row cks =
     (if list_ex (\<lambda>r. ck_case r = ck_case row \<and> ck_run r = ck_run row) cks
      then map (\<lambda>r. if ck_case r = ck_case row \<and> ck_run r = ck_run row
                    then r\<lparr>ck_agent := ck_agent row, ck_state := ck_state row\<rparr> else r) cks
      else cks @ [row])"

text \<open>What the database answers to an attempt: done, a constraint violation, a transient
  connectivity error, or an unknown error.\<close>

datatype write_outcome = Written | Integrity_error | Transient_error | Unknown_error

fun upsert_attempts ::
  "nat \<Rightarrow> nat \<Rightarrow> (nat \<Rightarrow> write_outcome) \<Rightarrow> checkpoint_row \<Rightarrow> checkpoint_row list
   \<Rightarrow> checkpoint_row list result \<times> nat" where
  "upsert_attempts 0 attempt answers row cks = (Inr cks, attempt)"
| "upsert_attempts (Suc m) attempt answers row cks =
     (case answers attempt of
        Written \<Rightarrow> (Inr (upsert_checkpoint row cks), attempt)
      | Integrity_error \<Rightarrow> (Inl (OtherError ''IntegrityError''), attempt)
      | Transient_error \<Rightarrow>
          if attempt < checkpoint_max_retries
          then upsert_attempts m (attempt + 1) answers row cks
          else (Inr cks, attempt)
      | Unknown_error \<Rightarrow> (Inr cks, attempt))"

definition persist_case_state ::
  "(case_state \<Rightarrow> pyval) \<Rightarrow> (nat \<Rightarrow> write_outcome) \<Rightarrow> uuid \<Rightarrow> string \<Rightarrow> string \<Rightarrow> case_state
   \<Rightarrow> checkpoint_row list \<Rightarrow> checkpoint_row list result \<times> nat" where
  "persist_case_state serialize answers cid run_id agent state cks =
     upsert_attempts checkpoint_max_retries 1 answers
       \<lparr>ck_case = cid, ck_run = run_id, ck_agent = agent, ck_state = serialize state\<rparr> cks"

datatype load_error = Schema_mismatch pyval | Corrupt | Unhashable_version

text \<open>
  The JSON decoder and the validation of a \<open>CaseState\<close> are arguments; the version is compared
  with \<open>in\<close> on a set, by Python equality; a list or a dictionary has no hash.
\<close>

definition version_supported :: "pyval \<Rightarrow> bool" where
  "version_supported v \<longleftrightarrow> list_ex (\<lambda>n. py_eq v (PInt n)) supported_read_schema_versions"

definition unhashable :: "pyval \<Rightarrow> bool" where
  "unhashable v = (case v of PList _ \<Rightarrow> True | PDict _ \<Rightarrow> True | _ \<Rightarrow> False)"

definition load_case_state ::
  "(string \<Rightarrow> pyval option) \<Rightarrow> (pyval \<Rightarrow> case_state option) \<Rightarrow> uuid \<Rightarrow> string
   \<Rightarrow> checkpoint_row list \<Rightarrow> load_error + case_state option" where
  "load_case_state loads validate cid run_id cks =
     (case find (\<lambda>r. ck_case r = cid \<and> ck_run r = run_id) cks of
        None \<Rightarrow> Inr None
      | Some row \<Rightarrow>
          (case (case ck_state row of PStr s \<Rightarrow> loads s | v \<Rightarrow> Some v) of
             Some (PDict d) \<Rightarrow>
               (case map_of d ''schema_version'' of
                  None \<Rightarrow> Inl Corrupt
                | Some v \<Rightarrow>
                    if unhashable v then Inl Unhashable_version
                    else if \<not> version_supported v then Inl (Schema_mismatch v)
                    else (case validate (PDict d) of None \<Rightarrow> Inl Corrupt | Some s \<Rightarrow> Inr (Some s)))
           | _ \<Rightarrow> Inl Corrupt))"

lemma find_upsert:
  "find (\<lambda>r. ck_case r = cid \<and> ck_run r = run) (upsert_checkpoint row cks)
     = (if cid = ck_case row \<and> run = ck_run row
        then (case find (\<lambda>r. ck_case r = cid \<and> ck_run r = run) cks of
                None \<Rightarrow> Some row
              | Some r \<Rightarrow> Some (r\<lparr>ck_agent := ck_agent row, ck_state := ck_state row\<rparr>))
        else find (\<lambda>r. ck_case r = cid \<and> ck_run r = run) cks)"
proof -
  have none: "find P xs = None" if "\<not> list_ex P xs" for P and xs :: "checkpoint_row list"
    using that by (induction xs) auto
  have mapped: "find (\<lambda>r. ck_case r = cid \<and> ck_run r = run) (map (\<lambda>r.
      if ck_case r = ck_case row \<and> ck_run r = ck_run row
      then r\<lparr>ck_agent := ck_agent row, ck_state := ck_state row\<rparr> else r) xs)
    = map_option (\<lambda>r. if cid = ck_case row \<and> run = ck_run row
        then r\<lparr>ck_agent := ck_agent row, ck_state := ck_state row\<rparr> else r)
      (find (\<lambda>r. ck_case r = cid \<and> ck_run r = run) xs)" for xs
    by (induction xs) auto
  have appended: "find P (xs @ [r]) = (case find P xs of None \<Rightarrow> if P r then Some r else None | y \<Rightarrow> y)"
    for P and xs :: "checkpoint_row list" and r by (induction xs) auto
  have found: "find P xs \<noteq> None" if "list_ex P xs" for P and xs :: "checkpoint_row list"
    using that by (induction xs) auto
  have here: "find (\<lambda>r. ck_case r = ck_case row \<and> ck_run r = ck_run row) (map (\<lambda>r.
      if ck_case r = ck_case row \<and> ck_run r = ck_run row
      then r\<lparr>ck_agent := ck_agent row, ck_state := ck_state row\<rparr> else r) xs)
    = map_option (\<lambda>r. r\<lparr>ck_agent := ck_agent row, ck_state := ck_state row\<rparr>)
      (find (\<lambda>r. ck_case r = ck_case row \<and> ck_run r = ck_run row) xs)" for xs
    by (induction xs) auto
  show ?thesis
    using none [of "\<lambda>r. ck_case r = ck_case row \<and> ck_run r = ck_run row" cks]
      found [of "\<lambda>r. ck_case r = ck_case row \<and> ck_run r = ck_run row" cks]
    by (cases "cid = ck_case row \<and> run = ck_run row")
      (auto simp: upsert_checkpoint_def mapped here appended split: option.splits)
qed

lemma upsert_attempts_bound:
  "attempt + m = 4 \<Longrightarrow> 0 < m \<Longrightarrow> snd (upsert_attempts m attempt answers row cks) \<le> 3"
proof (induction m attempt answers row cks rule: upsert_attempts.induct)
  case (2 m attempt answers row cks)
  then show ?case
    by (cases "m = 0") (auto simp: checkpoint_max_retries_def split: write_outcome.split)
qed simp

lemma upsert_attempts_result:
  "fst (upsert_attempts m attempt answers row cks)
     \<in> {Inr cks, Inr (upsert_checkpoint row cks), Inl (OtherError ''IntegrityError'')}"
  by (induction m attempt answers row cks rule: upsert_attempts.induct)
    (auto split: write_outcome.split)

section \<open>Properties\<close>

text \<open>A checkpoint write makes at most three attempts, whatever the database answers, and leaves
  the table either unchanged or with exactly the row upserted; only a constraint violation is
  reported.\<close>

lemma checkpoint_write_is_bounded:
  "snd (persist_case_state serialize answers cid run agent st cks) \<le> 3
   \<and> fst (persist_case_state serialize answers cid run agent st cks)
     \<in> {Inr cks,
        Inr (upsert_checkpoint \<lparr>ck_case = cid, ck_run = run, ck_agent = agent,
               ck_state = serialize st\<rparr> cks),
        Inl (OtherError ''IntegrityError'')}"
  using upsert_attempts_bound [of 1 3] upsert_attempts_result
  by (simp add: persist_case_state_def checkpoint_max_retries_def)

text \<open>A state that was checkpointed is loaded back for its case and run, whatever was stored
  there before, and no other checkpoint is affected.\<close>

lemma checkpoint_roundtrip:
  assumes "serialize st = PDict d" and "map_of d ''schema_version'' = Some (PInt (cs_schema_version st))"
    and "validate (PDict d) = Some st" and "cs_schema_version st \<in> {2, 3}"
    and "answers 1 = Written"
    and "fst (persist_case_state serialize answers cid run agent st cks) = Inr cks'"
  shows "load_case_state loads validate cid run cks' = Inr (Some st)
    \<and> (\<forall>cid' run'. (cid', run') \<noteq> (cid, run) \<longrightarrow>
         load_case_state loads validate cid' run' cks' = load_case_state loads validate cid' run' cks)"
proof -
  have cks': "cks' = upsert_checkpoint \<lparr>ck_case = cid, ck_run = run, ck_agent = agent,
      ck_state = PDict d\<rparr> cks"
    using assms(1,5,6) by (simp add: persist_case_state_def checkpoint_max_retries_def numeral_3_eq_3)
  have "version_supported (PInt (cs_schema_version st))"
    using assms(4) by (auto simp: version_supported_def supported_read_schema_versions_def)
  then show ?thesis
    using assms(2,3)
    by (auto simp: load_case_state_def cks' find_upsert unhashable_def split: option.split)
qed

lemma checkpoint_roundtrip_witness:
  "\<exists>cks. fst (persist_case_state (\<lambda>_. PDict [(''schema_version'', PInt 3)]) (\<lambda>_. Written)
        ''c1'' ''r1'' ''terminal'' (new_case_state ''c1'' ''r1'') []) = Inr cks
     \<and> load_case_state (\<lambda>_. None) (\<lambda>_. Some (new_case_state ''c1'' ''r1'')) ''c1'' ''r1'' cks
         = Inr (Some (new_case_state ''c1'' ''r1''))"
proof -
  let ?ser = "\<lambda>_. PDict [(''schema_version'', PInt 3)]"
  obtain cks where p: "fst (persist_case_state ?ser (\<lambda>_. Written) ''c1'' ''r1'' ''terminal''
      (new_case_state ''c1'' ''r1'') []) = Inr cks"
    by (simp add: persist_case_state_def checkpoint_max_retries_def numeral_3_eq_3)
  have v: "cs_schema_version (new_case_state ''c1'' ''r1'') = 3" by (simp add: new_case_state_def)
  show ?thesis
    using p checkpoint_roundtrip [where serialize = ?ser and st = "new_case_state ''c1'' ''r1''"
        and d = "[(''schema_version'', PInt 3)]" and answers = "\<lambda>_. Written" and cid = "''c1''"
        and run = "''r1''" and agent = "''terminal''" and cks = "[]" and cks' = cks
        and validate = "\<lambda>_. Some (new_case_state ''c1'' ''r1'')" and loads = "\<lambda>_. None"]
    by (simp add: v)
qed

text \<open>A checkpoint is only ever read at a supported version: a load that returns a state found
  version 2 or 3 in the stored row.\<close>

lemma loaded_checkpoint_has_supported_version:
  assumes "load_case_state loads validate cid run cks = Inr (Some st)"
  shows "\<exists>row d v. row \<in> set cks \<and> ck_case row = cid \<and> ck_run row = run
     \<and> (ck_state row = PDict d \<or> (\<exists>s. ck_state row = PStr s \<and> loads s = Some (PDict d)))
     \<and> map_of d ''schema_version'' = Some v \<and> (py_eq v (PInt 2) \<or> py_eq v (PInt 3))
     \<and> validate (PDict d) = Some st"
proof -
  obtain row where row: "find (\<lambda>r. ck_case r = cid \<and> ck_run r = run) cks = Some row"
    using assms by (auto simp: load_case_state_def split: option.splits)
  then have mem: "row \<in> set cks" "ck_case row = cid" "ck_run row = run"
    using find_Some_in by fastforce+
  obtain d where d: "(case ck_state row of PStr s \<Rightarrow> loads s | v \<Rightarrow> Some v) = Some (PDict d)"
    using assms row by (auto simp: load_case_state_def split: option.splits pyval.splits)
  then have src: "ck_state row = PDict d \<or> (\<exists>s. ck_state row = PStr s \<and> loads s = Some (PDict d))"
    by (auto split: pyval.splits)
  show ?thesis
    using assms row d mem src
    by (auto simp: load_case_state_def version_supported_def supported_read_schema_versions_def
        split: option.splits if_splits)
qed

lemma loaded_checkpoint_has_supported_version_witness:
  "\<exists>v. map_of [(''schema_version'', PInt 2)] ''schema_version'' = Some v
     \<and> (py_eq v (PInt 2) \<or> py_eq v (PInt 3))"
proof -
  have "load_case_state (\<lambda>_. None) (\<lambda>_. Some (new_case_state ''c'' ''r'')) ''c'' ''r''
      [\<lparr>ck_case = ''c'', ck_run = ''r'', ck_agent = ''a'', ck_state = PDict [(''schema_version'', PInt 2)]\<rparr>]
      = Inr (Some (new_case_state ''c'' ''r''))"
    by (simp add: load_case_state_def version_supported_def supported_read_schema_versions_def
        unhashable_def)
  from loaded_checkpoint_has_supported_version [OF this] show ?thesis by auto
qed

end
