(* ===== verification/Persist.thy ===== *)
theory Persist
  imports Database
begin

text \<open>
  \<open>db/persist_case_results.py\<close>: the projection of a \<open>CaseState\<close> to the relational tables. Each
  inserter turns raw dictionaries into rows or raises; the whole write is one transaction. The ISO
  date and time parsers, the product with 100 in binary floating point and the text of values are
  arguments.
\<close>

record parsers =
  ps_date :: "string \<Rightarrow> int option"
  ps_time :: "string \<Rightarrow> int option"
  ps_times100 :: "rat \<Rightarrow> rat"
  ps_rep :: "pyval \<Rightarrow> string"

section \<open>Coercions\<close>

definition py_or :: "pyval \<Rightarrow> pyval \<Rightarrow> pyval" where
  "py_or a b = (if truthy a then a else b)"

text \<open>\<open>(v or "").strip()\<close>: a truthy value that is not a string has no \<open>strip\<close>.\<close>

definition stripped_text :: "pyval \<Rightarrow> string result" where
  "stripped_text v =
     (if \<not> truthy v then Inr []
      else case v of PStr s \<Rightarrow> Inr (py_strip s) | _ \<Rightarrow> Inl (OtherError ''AttributeError''))"

text \<open>\<open>ALIASES.get(v, v)\<close>, which needs a hashable value.\<close>

definition alias_of :: "string dict \<Rightarrow> pyval \<Rightarrow> pyval result" where
  "alias_of aliases v =
     (case v of
        PStr s \<Rightarrow> Inr (case map_of aliases s of None \<Rightarrow> v | Some t \<Rightarrow> PStr t)
      | PList _ \<Rightarrow> Inl (OtherError ''TypeError'')
      | PDict _ \<Rightarrow> Inl (OtherError ''TypeError'')
      | _ \<Rightarrow> Inr v)"

definition as_jsonb :: "pyval \<Rightarrow> pyval option" where
  "as_jsonb v = (case v of PNone \<Rightarrow> None | PDate _ \<Rightarrow> None | PDateTime _ \<Rightarrow> None | _ \<Rightarrow> Some v)"

definition parse_date :: "parsers \<Rightarrow> pyval \<Rightarrow> int option" where
  "parse_date ps v =
     (case v of
        PDate n \<Rightarrow> Some n
      | PDateTime us \<Rightarrow> Some (us div 86400000000 + 719163)
      | PStr s \<Rightarrow> if s = [] then None else ps_date ps (take 10 s)
      | _ \<Rightarrow> None)"

definition parse_time :: "parsers \<Rightarrow> pyval \<Rightarrow> int option" where
  "parse_time ps v = (case v of PStr s \<Rightarrow> if s = [] then None else ps_time ps s | _ \<Rightarrow> None)"

text \<open>\<open>round\<close>: to the nearest integer, ties to the even one; \<open>int\<close> of a float truncates.\<close>

definition py_round :: "rat \<Rightarrow> int" where
  "py_round r =
     (let f = floor r; d = r - of_int f
      in if d < 1 / 2 then f else if 1 / 2 < d then f + 1
         else if even f then f else f + 1)"

definition truncate_rat :: "rat \<Rightarrow> int" where
  "truncate_rat r = (if 0 \<le> r then floor r else ceiling r)"

definition weaknesses_to_text :: "parsers \<Rightarrow> pyval \<Rightarrow> string option" where
  "weaknesses_to_text ps v =
     (case v of
        PNone \<Rightarrow> None
      | PList vs \<Rightarrow>
          let parts = filter (\<lambda>s. s \<noteq> []) (map (\<lambda>x. py_strip (py_str (ps_rep ps) x)) vs);
              joined = (case parts of [] \<Rightarrow> []
                        | p # qs \<Rightarrow> p @ concat (map (\<lambda>s. CHR 0x0A # s) qs))
          in if joined = [] then None else Some joined
      | _ \<Rightarrow> let t = py_strip (py_str (ps_rep ps) v) in if t = [] then None else Some t)"

text \<open>The rows of the dictionaries of a list, in order; the first error ends the loop.\<close>

fun rows_of :: "(pydict \<Rightarrow> 'r option result) \<Rightarrow> pyval list \<Rightarrow> 'r list result" where
  "rows_of f [] = Inr []"
| "rows_of f (PDict d # vs) =
     bind_result (f d) (\<lambda>r. bind_result (rows_of f vs) (\<lambda>rs.
       Inr (case r of None \<Rightarrow> rs | Some x \<Rightarrow> x # rs)))"
| "rows_of f (v # vs) = rows_of f vs"

section \<open>Inserters\<close>

definition evidence_type_aliases :: "string dict" where
  "evidence_type_aliases =
     [(''document'', ''documentary''), (''testimony'', ''testimonial''), (''other'', ''documentary'')]"
definition evidence_strength_aliases :: "string dict" where
  "evidence_strength_aliases = [(''moderate'', ''medium'')]"
definition fact_confidence_aliases :: "string dict" where
  "fact_confidence_aliases = [(''med'', ''medium'')]"
definition argument_side_aliases :: "string dict" where
  "argument_side_aliases = [(''claimant'', ''prosecution''), (''respondent'', ''defense'')]"

definition evidence_of_item :: "uuid \<Rightarrow> pydict \<Rightarrow> evidence_row option result" where
  "evidence_of_item cid item =
     bind_result (alias_of evidence_type_aliases (pget item ''evidence_type'')) (\<lambda>ty.
       case coerce_enum evidence_type_column ty of
         None \<Rightarrow> Inr None
       | Some ev_t \<Rightarrow>
           bind_result (alias_of evidence_strength_aliases (pget item ''strength'')) (\<lambda>st.
             Inr (Some \<lparr>ev_case = cid, ev_type = ev_t,
                        ev_strength = coerce_enum evidence_strength_column st,
                        ev_admissibility_flags = pget item ''admissibility_flags'',
                        ev_linked_claims = as_jsonb (pget item ''linked_claims'')\<rparr>)))"

definition insert_evidence :: "uuid \<Rightarrow> case_state \<Rightarrow> evidence_row list result" where
  "insert_evidence cid st =
     (case cs_evidence_analysis st of None \<Rightarrow> Inr []
      | Some data \<Rightarrow> rows_of (evidence_of_item cid) (ea_evidence_items data))"

definition conflict_keys :: "string list" where
  "conflict_keys = [''conflicts'', ''contradictions'', ''contests'']"

definition normalize_fact_status :: "pydict \<Rightarrow> pyval" where
  "normalize_fact_status item =
     (let raw = pget item ''status''
      in if raw \<noteq> PStr ''disputed'' then raw
         else if truthy (pget item ''dispute_reason'') then raw
         else case pget item ''corroboration'' of
           PDict c \<Rightarrow> if list_ex (\<lambda>k. truthy (pget c k)) conflict_keys then raw else PStr ''agreed''
         | _ \<Rightarrow> PStr ''agreed'')"

definition fact_of_item :: "parsers \<Rightarrow> uuid \<Rightarrow> pydict \<Rightarrow> fact_row option result" where
  "fact_of_item ps cid item =
     bind_result (stripped_text (pget item ''description'')) (\<lambda>description.
       if description = [] then Inr None
       else bind_result (alias_of fact_confidence_aliases (pget item ''confidence'')) (\<lambda>conf.
         Inr (Some \<lparr>fa_case = cid,
                    fa_event_date = parse_date ps (py_or (pget item ''event_date'') (pget item ''date'')),
                    fa_event_time = parse_time ps (py_or (pget item ''event_time'') (pget item ''time'')),
                    fa_description = description,
                    fa_confidence = coerce_enum fact_confidence_column conf,
                    fa_status = coerce_enum fact_status_column (normalize_fact_status item),
                    fa_corroboration = as_jsonb (pget item ''corroboration'')\<rparr>)))"

definition insert_facts :: "parsers \<Rightarrow> uuid \<Rightarrow> case_state \<Rightarrow> fact_row list result" where
  "insert_facts ps cid st =
     (case cs_extracted_facts st of None \<Rightarrow> Inr []
      | Some data \<Rightarrow> rows_of (fact_of_item ps cid) (ef_facts data))"

definition witness_credibility :: "parsers \<Rightarrow> pydict \<Rightarrow> int option" where
  "witness_credibility ps item =
     (case pget item ''credibility'' of
        PDict c \<Rightarrow> (case num_of (pget c ''value'') of
            Some r \<Rightarrow> Some (py_round (ps_times100 ps r))
          | None \<Rightarrow> map_option truncate_rat (num_of (pget item ''credibility_score'')))
      | _ \<Rightarrow> map_option truncate_rat (num_of (pget item ''credibility_score'')))"

definition witness_of_item :: "parsers \<Rightarrow> uuid \<Rightarrow> pydict \<Rightarrow> witness_row option result" where
  "witness_of_item ps cid item =
     bind_result (stripped_text (pget item ''name'')) (\<lambda>name.
       if name = [] then Inr None
       else Inr (Some \<lparr>wt_case = cid, wt_name = name, wt_role = pget item ''role'',
                       wt_credibility_score = witness_credibility ps item,
                       wt_bias_indicators = as_jsonb (pget item ''bias_indicators''),
                       wt_simulated_testimony = pget item ''simulated_testimony''\<rparr>))"

definition insert_witnesses :: "parsers \<Rightarrow> uuid \<Rightarrow> case_state \<Rightarrow> witness_row list result" where
  "insert_witnesses ps cid st =
     (case cs_witnesses st of None \<Rightarrow> Inr []
      | Some data \<Rightarrow> rows_of (witness_of_item ps cid)
          (if wm_witnesses data \<noteq> [] then wm_witnesses data else wm_statements data))"

definition legal_rule_of_item :: "uuid \<Rightarrow> pydict \<Rightarrow> legal_rule_row option result" where
  "legal_rule_of_item cid item =
     bind_result (stripped_text (py_or (pget item ''statute_name'')
                    (py_or (pget item ''citation'') (pget item ''name'')))) (\<lambda>statute.
       if statute = [] then Inr None
       else Inr (Some \<lparr>lw_case = cid, lw_statute_name = statute,
              lw_section = py_or (pget item ''section'') (pget item ''jurisdiction''),
              lw_verbatim_text = py_or (pget item ''verbatim_text'') (pget item ''text''),
              lw_relevance_score = num_of (pget item ''relevance_score''),
              lw_application = py_or (pget item ''application'') (pget item ''applicability'')\<rparr>))"

definition insert_legal_rules :: "uuid \<Rightarrow> case_state \<Rightarrow> legal_rule_row list result" where
  "insert_legal_rules cid st = rows_of (legal_rule_of_item cid) (cs_legal_rules st)"

definition precedent_of_item :: "uuid \<Rightarrow> pydict \<Rightarrow> precedent_row option result" where
  "precedent_of_item cid item =
     bind_result (stripped_text (py_or (pget item ''citation'') (pget item ''case_name''))) (\<lambda>citation.
       if citation = [] then Inr None
       else Inr (Some \<lparr>pr_case = cid, pr_citation = citation, pr_court = pget item ''court'',
              pr_outcome = pget item ''outcome'',
              pr_reasoning_summary = py_or (pget item ''reasoning_summary'') (pget item ''reasoning''),
              pr_similarity_score = num_of (pget item ''similarity_score''),
              pr_distinguishing_factors = pget item ''distinguishing_factors'',
              pr_source = coerce_enum precedent_source_column (pget item ''source''),
              pr_url = pget item ''url''\<rparr>))"

definition insert_precedents :: "uuid \<Rightarrow> case_state \<Rightarrow> precedent_row list result" where
  "insert_precedents cid st = rows_of (precedent_of_item cid) (cs_precedents st)"

definition argument_of_item :: "parsers \<Rightarrow> uuid \<Rightarrow> string \<Rightarrow> pydict \<Rightarrow> argument_row option result" where
  "argument_of_item ps cid side item =
     bind_result (stripped_text (py_or (pget item ''legal_basis'')
                    (py_or (pget item ''text'') (pget item ''claim'')))) (\<lambda>basis.
       if basis = [] then Inr None
       else Inr (Some \<lparr>ag_case = cid, ag_side = side, ag_legal_basis = basis,
              ag_supporting_evidence = as_jsonb (pget item ''supporting_evidence''),
              ag_weaknesses = weaknesses_to_text ps (pget item ''weaknesses''),
              ag_suggested_questions = as_jsonb (pget item ''suggested_questions'')\<rparr>))"

fun arguments_of_sides :: "parsers \<Rightarrow> uuid \<Rightarrow> pydict \<Rightarrow> argument_row list result" where
  "arguments_of_sides ps cid [] = Inr []"
| "arguments_of_sides ps cid ((side_key, values) # sides) =
     bind_result
       (case values of
          PList items \<Rightarrow>
            (case coerce_enum argument_side_column
                    (PStr (case map_of argument_side_aliases side_key of None \<Rightarrow> side_key
                           | Some k \<Rightarrow> k)) of
               None \<Rightarrow> Inr []
             | Some side \<Rightarrow> rows_of (argument_of_item ps cid side) items)
        | _ \<Rightarrow> Inr [])
       (\<lambda>rows. bind_result (arguments_of_sides ps cid sides) (\<lambda>rest. Inr (rows @ rest)))"

definition insert_arguments :: "parsers \<Rightarrow> uuid \<Rightarrow> case_state \<Rightarrow> argument_row list result" where
  "insert_arguments ps cid st =
     arguments_of_sides ps cid (case cs_arguments st of None \<Rightarrow> [] | Some d \<Rightarrow> d)"

definition insert_hearing_analysis :: "uuid \<Rightarrow> case_state \<Rightarrow> hearing_row list" where
  "insert_hearing_analysis cid st =
     (case cs_hearing_analysis st of None \<Rightarrow> []
      | Some h \<Rightarrow> [\<lparr>hr_case = cid, hr_reasoning_chain = ha_reasoning_chain h,
                    hr_preliminary_conclusion = ha_preliminary_conclusion h,
                    hr_uncertainty_flags = ha_uncertainty_flags h,
                    hr_confidence_score = ha_confidence_score h\<rparr>])"

definition insert_audit_log :: "uuid \<Rightarrow> case_state \<Rightarrow> audit_row list" where
  "insert_audit_log cid st = map (\<lambda>e. \<lparr>al_case = cid, al_entry = e\<rparr>) (cs_audit_log st)"

section \<open>The case row\<close>

definition map_case_status :: "string \<Rightarrow> case_status" where
  "map_case_status v = (case parse_status v of None \<Rightarrow> S_processing | Some s \<Rightarrow> s)"

definition metadata_choice :: "string list \<Rightarrow> pyval \<Rightarrow> string option \<Rightarrow> string option result" where
  "metadata_choice allowed v old =
     (if unhashable v then Inl (OtherError ''TypeError'')
      else Inr (case coerce_enum allowed v of None \<Rightarrow> old | Some s \<Rightarrow> Some s))"

definition updated_case_row :: "case_state \<Rightarrow> pydict option \<Rightarrow> case_row \<Rightarrow> case_row result" where
  "updated_case_row st gate_state c =
     bind_result (metadata_choice complexity_column (pget (cs_case_metadata st) ''complexity'')
                    (ca_complexity c)) (\<lambda>complexity.
     bind_result (metadata_choice route_column (pget (cs_case_metadata st) ''route'')
                    (ca_route c)) (\<lambda>route.
       Inr (c\<lparr>ca_status := map_case_status (case_status_value (cs_status st)),
              ca_latest_run_id := (if cs_run_id st = [] then ca_latest_run_id c
                                   else Some (cs_run_id st)),
              ca_gate_state := (case gate_state of None \<Rightarrow> ca_gate_state c | Some g \<Rightarrow> Some g),
              ca_complexity := complexity, ca_route := route,
              ca_jurisdiction_valid :=
                (case pget (cs_case_metadata st) ''jurisdiction_valid'' of
                   PBool b \<Rightarrow> Some b | _ \<Rightarrow> ca_jurisdiction_valid c)\<rparr>)))"

section \<open>The transaction\<close>

record child_rows =
  cw_evidence :: "evidence_row list"
  cw_facts :: "fact_row list"
  cw_witnesses :: "witness_row list"
  cw_legal_rules :: "legal_rule_row list"
  cw_precedents :: "precedent_row list"
  cw_arguments :: "argument_row list"
  cw_hearing :: "hearing_row list"

definition child_rows_of :: "parsers \<Rightarrow> uuid \<Rightarrow> case_state \<Rightarrow> child_rows result" where
  "child_rows_of ps cid st =
     bind_result (insert_evidence cid st) (\<lambda>ev.
     bind_result (insert_facts ps cid st) (\<lambda>fa.
     bind_result (insert_witnesses ps cid st) (\<lambda>wt.
     bind_result (insert_legal_rules cid st) (\<lambda>lw.
     bind_result (insert_precedents cid st) (\<lambda>pr.
     bind_result (insert_arguments ps cid st) (\<lambda>ag.
       Inr \<lparr>cw_evidence = ev, cw_facts = fa, cw_witnesses = wt, cw_legal_rules = lw,
            cw_precedents = pr, cw_arguments = ag,
            cw_hearing = insert_hearing_analysis cid st\<rparr>))))))"

definition replace_child_rows :: "uuid \<Rightarrow> child_rows \<Rightarrow> database \<Rightarrow> database" where
  "replace_child_rows cid rows db =
     db\<lparr>db_evidence := filter (\<lambda>r. ev_case r \<noteq> cid) (db_evidence db) @ cw_evidence rows,
        db_facts := filter (\<lambda>r. fa_case r \<noteq> cid) (db_facts db) @ cw_facts rows,
        db_witnesses := filter (\<lambda>r. wt_case r \<noteq> cid) (db_witnesses db) @ cw_witnesses rows,
        db_legal_rules := filter (\<lambda>r. lw_case r \<noteq> cid) (db_legal_rules db) @ cw_legal_rules rows,
        db_precedents := filter (\<lambda>r. pr_case r \<noteq> cid) (db_precedents db) @ cw_precedents rows,
        db_arguments := filter (\<lambda>r. ag_case r \<noteq> cid) (db_arguments db) @ cw_arguments rows,
        db_hearing := filter (\<lambda>r. hr_case r \<noteq> cid) (db_hearing db) @ cw_hearing rows\<rparr>"

definition no_rows :: "child_rows \<Rightarrow> bool" where
  "no_rows rows \<longleftrightarrow> cw_evidence rows = [] \<and> cw_facts rows = [] \<and> cw_witnesses rows = []
     \<and> cw_legal_rules rows = [] \<and> cw_precedents rows = [] \<and> cw_arguments rows = []
     \<and> cw_hearing rows = []"

text \<open>
  The tables after the transaction, or its error with the tables as they were. A case that does
  not exist has no row to update, and rows that refer to it violate the foreign key.
\<close>

definition persist_tables ::
  "parsers \<Rightarrow> uuid \<Rightarrow> case_state \<Rightarrow> pydict option \<Rightarrow> database \<Rightarrow> database result" where
  "persist_tables ps cid st gate_state db =
     bind_result (child_rows_of ps cid st) (\<lambda>rows.
       let audit = insert_audit_log cid st;
           db1 = (replace_child_rows cid rows db)\<lparr>db_audit := db_audit db @ audit\<rparr>
       in case find_case cid db of
            None \<Rightarrow> if no_rows rows \<and> audit = [] then Inr db1
                    else Inl (OtherError ''IntegrityError'')
          | Some c \<Rightarrow> bind_result (updated_case_row st gate_state c) (\<lambda>c'.
              Inr (update_case cid (\<lambda>_. c') db1)))"

text \<open>\<open>persist_case_results\<close>: the transaction, then the terminal checkpoint.\<close>

definition persist_case_results ::
  "parsers \<Rightarrow> (case_state \<Rightarrow> pyval) \<Rightarrow> (nat \<Rightarrow> write_outcome) \<Rightarrow> uuid \<Rightarrow> case_state \<Rightarrow> pydict option
   \<Rightarrow> database \<Rightarrow> database \<times> py_error option" where
  "persist_case_results ps serialize answers cid st gate_state db =
     (case persist_tables ps cid st gate_state db of
        Inl e \<Rightarrow> (db, Some e)
      | Inr db1 \<Rightarrow>
          if cs_run_id st = [] then (db1, None)
          else case fst (persist_case_state serialize answers cid (cs_run_id st) ''terminal'' st
                           (db_checkpoints db1)) of
              Inl e \<Rightarrow> (db1, Some e)
            | Inr cks \<Rightarrow> (db1\<lparr>db_checkpoints := cks\<rparr>, None))"

section \<open>Rows of the transaction\<close>

lemma rows_of_source:
  "rows_of f vs = Inr rs \<Longrightarrow> r \<in> set rs \<Longrightarrow> \<exists>d. PDict d \<in> set vs \<and> f d = Inr (Some r)"
proof (induction f vs arbitrary: rs rule: rows_of.induct)
  case (2 f d vs)
  then show ?case by (fastforce simp: bind_result_Inr split: option.splits)
qed auto

lemma rows_of_dicts:
  assumes "\<And>x. x \<in> set xs \<Longrightarrow> \<exists>d r. g x = PDict d \<and> f d = Inr (Some r)"
  shows "\<exists>rs. rows_of f (map g xs) = Inr rs \<and> length rs = length xs"
  using assms by (induction xs) fastforce+

lemma rows_of_key:
  "rows_of f vs = Inr rs \<Longrightarrow> r \<in> set rs \<Longrightarrow> (\<And>d r. f d = Inr (Some r) \<Longrightarrow> key r = cid)
   \<Longrightarrow> key r = cid"
  using rows_of_source by metis

lemma item_case:
  "evidence_of_item cid d = Inr (Some r1) \<Longrightarrow> ev_case r1 = cid"
  "fact_of_item ps cid d = Inr (Some r2) \<Longrightarrow> fa_case r2 = cid"
  "witness_of_item ps cid d = Inr (Some r3) \<Longrightarrow> wt_case r3 = cid"
  "legal_rule_of_item cid d = Inr (Some r4) \<Longrightarrow> lw_case r4 = cid"
  "precedent_of_item cid d = Inr (Some r5) \<Longrightarrow> pr_case r5 = cid"
  "argument_of_item ps cid side d = Inr (Some r6) \<Longrightarrow> ag_case r6 = cid"
  by (auto simp: evidence_of_item_def fact_of_item_def witness_of_item_def legal_rule_of_item_def
      precedent_of_item_def argument_of_item_def bind_result_Inr split: option.splits if_splits)

lemma insert_case:
  "insert_evidence cid st = Inr ev \<Longrightarrow> r1 \<in> set ev \<Longrightarrow> ev_case r1 = cid"
  "insert_facts ps cid st = Inr fa \<Longrightarrow> r2 \<in> set fa \<Longrightarrow> fa_case r2 = cid"
  "insert_witnesses ps cid st = Inr wt \<Longrightarrow> r3 \<in> set wt \<Longrightarrow> wt_case r3 = cid"
  "insert_legal_rules cid st = Inr lw \<Longrightarrow> r4 \<in> set lw \<Longrightarrow> lw_case r4 = cid"
  "insert_precedents cid st = Inr pr \<Longrightarrow> r5 \<in> set pr \<Longrightarrow> pr_case r5 = cid"
  "r7 \<in> set (insert_hearing_analysis cid st) \<Longrightarrow> hr_case r7 = cid"
proof -
  show "insert_evidence cid st = Inr ev \<Longrightarrow> r1 \<in> set ev \<Longrightarrow> ev_case r1 = cid"
    by (auto simp: insert_evidence_def split: option.splits elim: rows_of_key item_case)
  show "insert_facts ps cid st = Inr fa \<Longrightarrow> r2 \<in> set fa \<Longrightarrow> fa_case r2 = cid"
    by (auto simp: insert_facts_def split: option.splits elim: rows_of_key item_case)
  show "insert_witnesses ps cid st = Inr wt \<Longrightarrow> r3 \<in> set wt \<Longrightarrow> wt_case r3 = cid"
    by (auto simp: insert_witnesses_def split: option.splits if_splits elim: rows_of_key item_case)
  show "insert_legal_rules cid st = Inr lw \<Longrightarrow> r4 \<in> set lw \<Longrightarrow> lw_case r4 = cid"
    by (auto simp: insert_legal_rules_def elim: rows_of_key item_case)
  show "insert_precedents cid st = Inr pr \<Longrightarrow> r5 \<in> set pr \<Longrightarrow> pr_case r5 = cid"
    by (auto simp: insert_precedents_def elim: rows_of_key item_case)
  show "r7 \<in> set (insert_hearing_analysis cid st) \<Longrightarrow> hr_case r7 = cid"
    by (auto simp: insert_hearing_analysis_def split: option.splits)
qed

lemma child_rows_case:
  assumes "child_rows_of ps cid st = Inr rows"
  shows "r1 \<in> set (cw_evidence rows) \<Longrightarrow> ev_case r1 = cid"
    and "r2 \<in> set (cw_facts rows) \<Longrightarrow> fa_case r2 = cid"
    and "r3 \<in> set (cw_witnesses rows) \<Longrightarrow> wt_case r3 = cid"
    and "r4 \<in> set (cw_legal_rules rows) \<Longrightarrow> lw_case r4 = cid"
    and "r5 \<in> set (cw_precedents rows) \<Longrightarrow> pr_case r5 = cid"
    and "r7 \<in> set (cw_hearing rows) \<Longrightarrow> hr_case r7 = cid"
  using assms by (auto simp: child_rows_of_def bind_result_Inr dest: insert_case)

lemma arguments_case:
  "arguments_of_sides ps cid sides = Inr rows \<Longrightarrow> r \<in> set rows \<Longrightarrow> ag_case r = cid"
proof (induction ps cid sides arbitrary: rows rule: arguments_of_sides.induct)
  case (2 ps cid side_key vals sides)
  then obtain rows1 rows2 where rows: "rows = rows1 @ rows2"
      "arguments_of_sides ps cid sides = Inr rows2"
      "\<forall>r \<in> set rows1. \<exists>side d. argument_of_item ps cid side d = Inr (Some r)"
    by (fastforce simp: bind_result_Inr split: pyval.splits option.splits dest: rows_of_source)
  have "ag_case x = cid" if "argument_of_item ps cid side d = Inr (Some x)" for x side d
    using that by (auto simp: argument_of_item_def bind_result_Inr split: if_splits)
  with rows "2" show ?case by auto
qed simp

lemma child_arguments_case:
  "child_rows_of ps cid st = Inr rows \<Longrightarrow> r \<in> set (cw_arguments rows) \<Longrightarrow> ag_case r = cid"
  by (auto simp: child_rows_of_def bind_result_Inr insert_arguments_def arguments_case)

lemmas child_rows_cases = child_rows_case child_arguments_case

lemma replace_child_rows_frame [simp]:
  "db_cases (replace_child_rows cid rows db) = db_cases db"
  "db_audit (replace_child_rows cid rows db) = db_audit db"
  "find_case k (replace_child_rows cid rows db) = find_case k db"
  by (simp_all add: replace_child_rows_def find_case_def)

lemma refilled: "\<forall>r \<in> set rows. key r = cid \<Longrightarrow>
   filter (\<lambda>r. key r \<noteq> cid) (filter (\<lambda>r. key r \<noteq> cid) xs @ rows) @ rows
     = filter (\<lambda>r. key r \<noteq> cid) xs @ rows"
  by simp

lemma replace_twice:
  assumes "child_rows_of ps cid st = Inr rows"
  shows "replace_child_rows cid rows (replace_child_rows cid rows db) = replace_child_rows cid rows db"
  using child_rows_cases [OF assms] by (simp add: replace_child_rows_def)

lemma find_case_set:
  "ca_id c' = cid \<Longrightarrow> find_case k (update_case cid (\<lambda>_. c') db)
     = (if k = cid then map_option (\<lambda>_. c') (find_case k db) else find_case k db)"
proof -
  assume id: "ca_id c' = cid"
  have "find (\<lambda>c. ca_id c = k) (map (\<lambda>c. if ca_id c = cid then c' else c) cs)
      = (if k = cid then map_option (\<lambda>_. c') (find (\<lambda>c. ca_id c = k) cs)
         else find (\<lambda>c. ca_id c = k) cs)" for cs
    using id by (induction cs) auto
  then show ?thesis by (simp add: find_case_def update_case_def)
qed

lemma updated_row_id: "updated_case_row st g c = Inr c' \<Longrightarrow> ca_id c' = ca_id c"
  by (auto simp: updated_case_row_def bind_result_Inr)

lemma updated_row_status:
  "updated_case_row st g c = Inr c' \<Longrightarrow> status_value (ca_status c') = case_status_value (cs_status st)"
  by (cases "cs_status st")
    (auto simp: updated_case_row_def bind_result_Inr map_case_status_def parse_status_def
      all_statuses_def)

text \<open>The successful transaction, taken apart.\<close>

lemma persist_tables_Inr:
  assumes "persist_tables ps cid st g db = Inr db1" "find_case cid db = Some c"
  obtains rows c' where "child_rows_of ps cid st = Inr rows" "updated_case_row st g c = Inr c'"
    "ca_id c' = cid"
    "db1 = update_case cid (\<lambda>_. c')
       ((replace_child_rows cid rows db)\<lparr>db_audit := db_audit db @ insert_audit_log cid st\<rparr>)"
proof -
  obtain rows where rows: "child_rows_of ps cid st = Inr rows"
    using assms(1) by (auto simp: persist_tables_def bind_result_Inr)
  obtain c' where c': "updated_case_row st g c = Inr c'"
    "db1 = update_case cid (\<lambda>_. c')
       ((replace_child_rows cid rows db)\<lparr>db_audit := db_audit db @ insert_audit_log cid st\<rparr>)"
    using assms rows by (auto simp: persist_tables_def bind_result_Inr Let_def)
  then have "ca_id c' = cid" using updated_row_id find_case_id [OF assms(2)] by auto
  with rows c' that show ?thesis by blast
qed

section \<open>Properties\<close>

definition plain_parsers :: parsers where
  "plain_parsers = \<lparr>ps_date = (\<lambda>_. None), ps_time = (\<lambda>_. None), ps_times100 = (\<lambda>r. r * 100),
                    ps_rep = (\<lambda>_. [])\<rparr>"

definition case_row1 :: case_row where
  "case_row1 = \<lparr>ca_id = ''c1'', ca_domain = small_claims, ca_title = None, ca_description = None,
     ca_filed_date = None, ca_claim_amount = None,
     ca_consent_to_higher_claim_limit = False, ca_offence_code = None,
     ca_status = S_processing, ca_jurisdiction_valid = None, ca_complexity = None, ca_route = None,
     ca_domain_id = None, ca_latest_run_id = None, ca_gate_state = None,
     ca_judicial_decision = None, ca_intake_extraction = None, ca_created_by = ''judge1'',
     ca_created_at = 0, ca_updated_at = None\<rparr>"

definition database1 :: database where
  "database1 = \<lparr>db_cases = [case_row1], db_domains = [], db_parties = [], db_documents = [],
     db_jobs = [], db_evidence = [], db_facts = [], db_witnesses = [], db_legal_rules = [],
     db_precedents = [], db_arguments = [], db_hearing = [], db_audit = [], db_checkpoints = []\<rparr>"

definition state1 :: case_state where
  "state1 = (new_case_state ''c1'' ''r1'')\<lparr>cs_extracted_facts := Some \<lparr>
     ef_facts = [PDict [(''description'', PStr ''the light was red''), (''status'', PStr ''disputed'')]],
     ef_timeline = [], ef_extra = []\<rparr>\<rparr>"

lemma persist_state1:
  "\<exists>db1. persist_tables plain_parsers ''c1'' state1 None database1 = Inr db1"
  by (simp add: persist_tables_def child_rows_of_def insert_evidence_def insert_facts_def
      insert_witnesses_def insert_legal_rules_def insert_precedents_def insert_arguments_def
      insert_hearing_analysis_def insert_audit_log_def state1_def new_case_state_def
      fact_of_item_def stripped_text_def pget_def alias_of_def database1_def case_row1_def
      find_case_def updated_case_row_def metadata_choice_def unhashable_def coerce_enum_def)

lemma metadata_choice_again:
  "metadata_choice allowed v old = Inr x \<Longrightarrow> metadata_choice allowed v x = Inr x"
  by (auto simp: metadata_choice_def split: if_splits option.splits)

lemma updated_row_again:
  assumes "updated_case_row st g c = Inr c'" shows "updated_case_row st g c' = Inr c'"
proof -
  obtain x y where xy:
    "metadata_choice complexity_column (pget (cs_case_metadata st) ''complexity'') (ca_complexity c) = Inr x"
    "metadata_choice route_column (pget (cs_case_metadata st) ''route'') (ca_route c) = Inr y"
    using assms by (auto simp: updated_case_row_def bind_result_Inr)
  note again = metadata_choice_again [OF xy(1)] metadata_choice_again [OF xy(2)]
  show ?thesis
    using assms xy again by (auto simp: updated_case_row_def split: option.splits pyval.splits)
qed

text \<open>Persisting the same state twice leaves every child table and the case row as the first
  time: rows are replaced, not appended; only the audit log grows, by a second copy of the state's
  whole audit trail.\<close>

lemma repeated_persist_duplicates_only_the_audit_log:
  assumes "persist_tables ps cid st g db = Inr db1" and "find_case cid db = Some c"
  shows "\<exists>db2. persist_tables ps cid st g db1 = Inr db2
     \<and> (db_evidence db2, db_facts db2, db_witnesses db2, db_legal_rules db2, db_precedents db2,
        db_arguments db2, db_hearing db2)
       = (db_evidence db1, db_facts db1, db_witnesses db1, db_legal_rules db1, db_precedents db1,
          db_arguments db1, db_hearing db1)
     \<and> find_case cid db2 = find_case cid db1
     \<and> db_audit db2 = db_audit db1 @ insert_audit_log cid st"
proof -
  obtain rows c' where r: "child_rows_of ps cid st = Inr rows" "updated_case_row st g c = Inr c'"
    "ca_id c' = cid"
    "db1 = update_case cid (\<lambda>_. c')
       ((replace_child_rows cid rows db)\<lparr>db_audit := db_audit db @ insert_audit_log cid st\<rparr>)"
    using persist_tables_Inr [OF assms] .
  have one: "find_case cid db1 = Some c'"
    using assms(2) r(3) by (simp add: r(4) find_case_set) (simp add: find_case_def)
  let ?db2 = "update_case cid (\<lambda>_. c')
      ((replace_child_rows cid rows db1)\<lparr>db_audit := db_audit db1 @ insert_audit_log cid st\<rparr>)"
  have "persist_tables ps cid st g db1 = Inr ?db2"
    using r(1) one updated_row_again [OF r(2)] by (simp add: persist_tables_def)
  moreover have "find_case cid ?db2 = find_case cid db1"
    using one r(3) by (simp add: find_case_set) (simp add: find_case_def)
  moreover have "(db_evidence ?db2, db_facts ?db2, db_witnesses ?db2, db_legal_rules ?db2,
      db_precedents ?db2, db_arguments ?db2, db_hearing ?db2)
    = (db_evidence db1, db_facts db1, db_witnesses db1, db_legal_rules db1, db_precedents db1,
       db_arguments db1, db_hearing db1)"
    using child_rows_cases [OF r(1)] by (simp add: r(4) replace_child_rows_def update_case_def)
  ultimately show ?thesis by auto
qed

lemma repeated_persist_duplicates_only_the_audit_log_witness:
  "\<exists>db1 db2. persist_tables plain_parsers ''c1'' state1 None database1 = Inr db1
     \<and> persist_tables plain_parsers ''c1'' state1 None db1 = Inr db2 \<and> db_facts db2 = db_facts db1"
proof -
  obtain db1 where db1: "persist_tables plain_parsers ''c1'' state1 None database1 = Inr db1"
    using persist_state1 by blast
  have "find_case ''c1'' database1 = Some case_row1"
    by (simp add: find_case_def database1_def case_row1_def)
  from repeated_persist_duplicates_only_the_audit_log [OF db1 this] db1 show ?thesis by auto
qed



text \<open>A fact is stored as disputed only when the agent gave a dispute reason or flagged a
  contradiction; a bare disputed status is stored as agreed.\<close>

lemma disputed_facts_carry_a_conflict:
  assumes "fact_of_item ps cid item = Inr (Some row)" and "pget item ''status'' = PStr ''disputed''"
  shows "fa_status row = Some (if truthy (pget item ''dispute_reason'')
            \<or> (\<exists>c. pget item ''corroboration'' = PDict c \<and> (\<exists>k \<in> set conflict_keys. truthy (pget c k)))
          then ''disputed'' else ''agreed'')"
proof -
  have row: "fa_status row = coerce_enum fact_status_column (normalize_fact_status item)"
    using assms(1) by (auto simp: fact_of_item_def bind_result_Inr split: if_splits)
  show ?thesis
    unfolding row normalize_fact_status_def assms(2) Let_def
    by (cases "pget item ''corroboration''")
      (simp_all add: coerce_enum_def fact_status_column_def list_ex_iff)
qed

lemma disputed_facts_carry_a_conflict_witness:
  "\<exists>row. fact_of_item plain_parsers ''c1''
        [(''description'', PStr ''the light was red''), (''status'', PStr ''disputed'')] = Inr (Some row)
     \<and> fa_status row = Some ''agreed''"
proof -
  obtain row where row: "fact_of_item plain_parsers ''c1''
      [(''description'', PStr ''the light was red''), (''status'', PStr ''disputed'')] = Inr (Some row)"
    by (simp add: fact_of_item_def stripped_text_def pget_def py_strip_def is_space_def alias_of_def)
  from disputed_facts_carry_a_conflict [OF row] row show ?thesis by (simp add: pget_def)
qed

lemma evidence_item_row:
  "\<exists>d r. dump_evidence_item e = PDict d \<and> evidence_of_item cid d = Inr (Some r)"
  by (cases "ei_evidence_type e"; cases "ei_strength e")
    (simp_all add: dump_evidence_item_def evidence_of_item_def pget_def alias_of_def
      evidence_type_aliases_def evidence_strength_aliases_def coerce_enum_def
      evidence_type_column_def)

text \<open>Every evidence item of the research phase reaches the database: the aliases cover every
  type of the pipeline schema, so the mirrored case is stored with one row per item.\<close>

lemma every_evidence_item_is_stored:
  "\<exists>rows. insert_evidence cid (mirror_evidence (Some e) c) = Inr rows
     \<and> length rows = length (er_evidence_items e)"
  using rows_of_dicts [of "er_evidence_items e" dump_evidence_item "evidence_of_item cid"]
    evidence_item_row
  by (auto simp: insert_evidence_def mirror_evidence_def)

end
