(* ===== verification/Gates.thy ===== *)
theory Gates
  imports Graph_State
begin

text \<open>
  The human review gates of \<open>pipeline/graph/nodes/gates.py\<close>: the interrupt payload a pause node
  builds and the command an apply node derives from the judge's decision. A command is the raw
  update dictionary together with the node to go to; the serialisation of a phase output is an
  argument, as it is Pydantic's.
\<close>

definition gate_names :: "string list" where
  "gate_names = [''gate1'', ''gate2'', ''gate3'', ''gate4'']"

definition gate_actions :: "string list" where
  "gate_actions = [''advance'', ''rerun'', ''halt'']"

definition gate_phase_slot :: "string dict" where
  "gate_phase_slot =
     [(''gate1'', ''intake_output''), (''gate2'', ''research_output''),
      (''gate3'', ''synthesis_output''), (''gate4'', ''audit_output'')]"

section \<open>Pause nodes\<close>

text \<open>
  \<open>_serialize_phase_output\<close>: the dumped model when the slot is set. The argument \<open>dump\<close>
  gives the JSON dictionary of the set slots.
\<close>

definition serialize_phase_output ::
  "(string \<Rightarrow> graph_state \<Rightarrow> pydict option) \<Rightarrow> string \<Rightarrow> graph_state \<Rightarrow> pydict option" where
  "serialize_phase_output dump slot s = dump slot s"

definition audit_summary_keys :: "string list" where
  "audit_summary_keys =
     [''recommend_send_back'', ''fairness_check'', ''should_rerun'', ''target_phase'', ''reason'']"

definition gate4_audit_summary :: "pydict option \<Rightarrow> pydict option" where
  "gate4_audit_summary data =
     (case data of None \<Rightarrow> None
      | Some d \<Rightarrow>
          let summary = concat (map (\<lambda>k. case map_of d k of None \<Rightarrow> [] | Some v \<Rightarrow> [(k, v)])
                                    audit_summary_keys)
          in if summary = [] then None else Some summary)"

definition opt_entry :: "string \<Rightarrow> pyval option \<Rightarrow> pydict" where
  "opt_entry k v = (case v of None \<Rightarrow> [] | Some x \<Rightarrow> [(k, x)])"

definition make_gate_pause ::
  "(string \<Rightarrow> graph_state \<Rightarrow> pydict option) \<Rightarrow> string option \<Rightarrow> string \<Rightarrow> graph_state \<Rightarrow> pydict result" where
  "make_gate_pause dump trace gate s =
     (case map_of gate_phase_slot gate of
        None \<Rightarrow> Inl ValueError
      | Some slot \<Rightarrow> Inr
          ([(''gate'', PStr gate), (''case_id'', PStr (cs_case_id (gs_case s))),
            (''actions'', dump_strs gate_actions)]
           @ opt_entry ''phase_output'' (map_option PDict (serialize_phase_output dump slot s))
           @ (if gate = ''gate4''
              then opt_entry ''audit_summary''
                     (map_option PDict (gate4_audit_summary
                        (serialize_phase_output dump ''audit_output'' s)))
              else [])
           @ opt_entry ''trace_id'' (map_option PStr trace)))"

section \<open>Apply nodes\<close>

record command =
  cmd_update :: pydict
  cmd_goto :: string

text \<open>The action, notes and field corrections read off the pending decision.\<close>

fun decision_parts :: "pyval \<Rightarrow> pyval \<times> pyval \<times> pyval" where
  "decision_parts (PDict d) =
     (pget_def d ''action'' (PStr ''advance''), pget d ''notes'', pget d ''field_corrections'')"
| "decision_parts (PStr a) = (PStr a, PNone, PNone)"
| "decision_parts _ = (PStr ''advance'', PNone, PNone)"

definition rerun_instructions :: "(pyval \<Rightarrow> string) \<Rightarrow> string \<Rightarrow> pyval \<Rightarrow> pydict" where
  "rerun_instructions rep gate notes =
     (case notes of PDict d \<Rightarrow> d | _ \<Rightarrow> [(gate, PStr (py_str rep notes))])"

definition make_gate_apply ::
  "(pyval \<Rightarrow> string) \<Rightarrow> string \<Rightarrow> string \<Rightarrow> string \<Rightarrow> graph_state \<Rightarrow> command result" where
  "make_gate_apply rep gate advance_target rerun_target s =
     (if gate \<notin> set gate_names then Inl ValueError
      else
        let (action, notes, field_corrections) = decision_parts (gs_pending_action s)
        in if action = PStr ''rerun'' then
             let u0 = [(''pending_action'', PNone)];
                 u1 = (if truthy notes
                       then dict_set ''extra_instructions''
                              (PDict (rerun_instructions rep gate notes)) u0
                       else u0);
                 u2 = (case field_corrections of PDict d \<Rightarrow> dict_merge u1 d | _ \<Rightarrow> u1)
             in Inr \<lparr>cmd_update = u2, cmd_goto = rerun_target\<rparr>
           else if action = PStr ''halt'' then
             let reason = [(''reason'', PStr ''judge_halt''), (''gate'', PStr gate)]
                          @ (if truthy notes then [(''notes'', PStr (py_str rep notes))] else [])
             in Inr \<lparr>cmd_update = [(''pending_action'', PNone), (''halt'', PDict reason)],
                     cmd_goto = ''terminal''\<rparr>
           else Inr \<lparr>cmd_update = [(''pending_action'', PNone)], cmd_goto = advance_target\<rparr>)"

text \<open>
  Writing a raw update into the typed state. The slots the apply node writes itself are exact;
  a judge's correction of any other slot goes through \<open>coerce\<close>, the framework's conversion of a
  raw value to the slot's type.
\<close>

definition write_slot ::
  "(string \<Rightarrow> pyval \<Rightarrow> graph_state \<Rightarrow> graph_state) \<Rightarrow> string \<times> pyval \<Rightarrow> graph_state \<Rightarrow> graph_state" where
  "write_slot coerce kv s =
     (case kv of (k, v) \<Rightarrow>
        if k = ''pending_action'' then s\<lparr>gs_pending_action := v\<rparr>
        else if k = ''extra_instructions'' then
          (case v of PDict d \<Rightarrow> s\<lparr>gs_extra_instructions := d\<rparr> | _ \<Rightarrow> coerce k v s)
        else if k = ''halt'' then
          (case v of PNone \<Rightarrow> s\<lparr>gs_halt := None\<rparr> | PDict d \<Rightarrow> s\<lparr>gs_halt := Some d\<rparr>
           | _ \<Rightarrow> coerce k v s)
        else coerce k v s)"

definition apply_update ::
  "(string \<Rightarrow> pyval \<Rightarrow> graph_state \<Rightarrow> graph_state) \<Rightarrow> pydict \<Rightarrow> graph_state \<Rightarrow> graph_state" where
  "apply_update coerce upd s = fold (write_slot coerce) upd s"

subsection \<open>Branches\<close>

text \<open>The target depends on the action alone.\<close>

definition decided_action :: "pyval \<Rightarrow> pyval" where
  "decided_action v = fst (decision_parts v)"

lemma gate_apply_goto:
  assumes "gate \<in> set gate_names"
  shows "\<exists>u. make_gate_apply rep gate adv rer s = Inr \<lparr>cmd_update = u, cmd_goto =
    (if decided_action (gs_pending_action s) = PStr ''rerun'' then rer
     else if decided_action (gs_pending_action s) = PStr ''halt'' then ''terminal'' else adv)\<rparr>"
  using assms
  by (cases "decision_parts (gs_pending_action s)")
    (auto simp: make_gate_apply_def decided_action_def Let_def)

lemma gate_apply_advance:
  assumes "gate \<in> set gate_names"
    and "decided_action (gs_pending_action s) \<notin> {PStr ''rerun'', PStr ''halt''}"
  shows "make_gate_apply rep gate adv rer s
           = Inr \<lparr>cmd_update = [(''pending_action'', PNone)], cmd_goto = adv\<rparr>"
  using assms
  by (cases "decision_parts (gs_pending_action s)")
    (auto simp: make_gate_apply_def decided_action_def Let_def)

lemma gate_apply_halt:
  assumes "gate \<in> set gate_names" and "decided_action (gs_pending_action s) = PStr ''halt''"
  shows "\<exists>r. make_gate_apply rep gate adv rer s
           = Inr \<lparr>cmd_update = [(''pending_action'', PNone), (''halt'', PDict r)],
                  cmd_goto = ''terminal''\<rparr>
         \<and> map_of r ''reason'' = Some (PStr ''judge_halt'') \<and> map_of r ''gate'' = Some (PStr gate)"
  using assms
  by (cases "decision_parts (gs_pending_action s)")
    (auto simp: make_gate_apply_def decided_action_def Let_def)

text \<open>A rerun without field corrections.\<close>

lemma gate_apply_rerun:
  assumes "gate \<in> set gate_names"
    and "gs_pending_action s = PDict d" "map_of d ''action'' = Some (PStr ''rerun'')"
    and "\<forall>c. map_of d ''field_corrections'' \<noteq> Some (PDict c)"
  shows "make_gate_apply rep gate adv rer s = Inr \<lparr>cmd_update =
      (''pending_action'', PNone) #
      (if truthy (pget d ''notes'')
       then [(''extra_instructions'', PDict (rerun_instructions rep gate (pget d ''notes'')))]
       else []), cmd_goto = rer\<rparr>"
proof -
  have "\<forall>c. pget d ''field_corrections'' \<noteq> PDict c"
    using assms(4) by (auto simp: pget_def split: option.split)
  then show ?thesis
    using assms(1-3)
    by (auto simp: make_gate_apply_def Let_def pget_def_def split: pyval.split)
qed

lemma apply_update_simps [simp]:
  "apply_update co [] s = s"
  "apply_update co (kv # u) s = apply_update co u (write_slot co kv s)"
  by (simp_all add: apply_update_def)

lemma write_slot_simps [simp]:
  "write_slot co (''pending_action'', v) s = s\<lparr>gs_pending_action := v\<rparr>"
  "write_slot co (''extra_instructions'', PDict d) s = s\<lparr>gs_extra_instructions := d\<rparr>"
  "write_slot co (''halt'', PDict d) s = s\<lparr>gs_halt := Some d\<rparr>"
  "write_slot co (''halt'', PNone) s = s\<lparr>gs_halt := None\<rparr>"
  by (simp_all add: write_slot_def)

end
