(* ===== verification/Pipeline_Graph.thy ===== *)
theory Pipeline_Graph
  imports Gates Research
begin

text \<open>
  The pipeline graph of \<open>pipeline/graph/builder.py\<close> as data, its runs as a step relation, and an
  executor of those steps. The agents are the environment: a step of a phase or research node
  takes any response of the node's schema. A run keeps, beside its position and its state, the
  log of the nodes it has run and of the judge's decisions.
\<close>

section \<open>Topology\<close>

abbreviation end_node :: string where "end_node \<equiv> ''__end__''"

definition graph_edges :: "string dict" where
  "graph_edges =
     [(''intake'', ''gate1_pause''), (''gate1_pause'', ''gate1_apply''),
      (''research_evidence'', ''research_join''), (''research_facts'', ''research_join''),
      (''research_witnesses'', ''research_join''), (''research_law'', ''research_join''),
      (''research_join'', ''gate2_pause''), (''gate2_pause'', ''gate2_apply''),
      (''synthesis'', ''gate3_pause''), (''gate3_pause'', ''gate3_apply''),
      (''auditor'', ''gate4_pause''), (''gate4_pause'', ''gate4_apply''),
      (''terminal'', end_node)]"

definition start_node :: string where "start_node = ''intake''"

text \<open>Phase nodes with the phase their factory is given.\<close>

definition phase_nodes :: "string dict" where
  "phase_nodes = [(''intake'', ''intake''), (''synthesis'', ''synthesis''), (''auditor'', ''audit'')]"

text \<open>Gates with their advance and rerun targets.\<close>

definition gate_targets :: "(string \<times> string) dict" where
  "gate_targets =
     [(''gate1'', (''research_dispatch'', ''intake'')),
      (''gate2'', (''synthesis'', ''research_dispatch'')),
      (''gate3'', (''auditor'', ''synthesis'')),
      (''gate4'', (end_node, ''auditor''))]"

definition declared_destinations :: "string list dict" where
  "declared_destinations =
     [(''gate1_apply'', [''research_dispatch'', ''intake'', ''terminal'']),
      (''gate2_apply'', [''synthesis'', ''research_dispatch'', ''terminal'']),
      (''gate3_apply'', [''auditor'', ''synthesis'', ''terminal'']),
      (''gate4_apply'', [end_node, ''auditor'', ''terminal''])]"

definition graph_nodes :: "string list" where
  "graph_nodes =
     [''intake'', ''research_dispatch''] @ map research_subagent_node research_scopes
     @ [''research_join'', ''synthesis'', ''auditor'', ''gate1_pause'', ''gate1_apply'',
        ''gate2_pause'', ''gate2_apply'', ''gate3_pause'', ''gate3_apply'', ''gate4_pause'',
        ''gate4_apply'', ''terminal'']"

definition pause_node :: "string \<Rightarrow> string" where "pause_node g = g @ ''_pause''"
definition apply_node :: "string \<Rightarrow> string" where "apply_node g = g @ ''_apply''"

lemma gate_names_cases:
  "g \<in> set gate_names \<Longrightarrow> g = ''gate1'' \<or> g = ''gate2'' \<or> g = ''gate3'' \<or> g = ''gate4''"
  by (auto simp: gate_names_def)

lemma gate_targets_dom: "map_of gate_targets g = Some t \<Longrightarrow> g \<in> set gate_names"
  by (auto simp: gate_targets_def gate_names_def split: if_splits)

section \<open>Runs\<close>

datatype position =
    At string
  | Branches "string list"
  | Paused string pydict

datatype event = Ran string | Judge string pyval

record run =
  r_pos :: position
  r_state :: graph_state
  r_log :: "event list"

text \<open>The schema a phase is bound to.\<close>

fun answers_phase :: "string \<Rightarrow> structured \<Rightarrow> bool" where
  "answers_phase ph St_none = True"
| "answers_phase ph (St_intake _) = (ph = ''intake'')"
| "answers_phase ph (St_synthesis _) = (ph = ''synthesis'')"
| "answers_phase ph (St_audit _) = (ph = ''audit'')"
| "answers_phase ph _ = False"

text \<open>What surrounds the graph: text of values, slot conversion, serialisation, trace id.\<close>

record environment =
  env_rep :: "pyval \<Rightarrow> string"
  env_coerce :: "string \<Rightarrow> pyval \<Rightarrow> graph_state \<Rightarrow> graph_state"
  env_dump :: "string \<Rightarrow> graph_state \<Rightarrow> pydict option"
  env_trace :: "string option"

definition follow :: "string \<Rightarrow> run \<Rightarrow> graph_state \<Rightarrow> run" where
  "follow n r s = \<lparr>r_pos = At (the (map_of graph_edges n)), r_state = s, r_log = r_log r @ [Ran n]\<rparr>"

inductive graph_step :: "environment \<Rightarrow> run \<Rightarrow> run \<Rightarrow> bool" for env where
  phase: "r_pos r = At n \<Longrightarrow> map_of phase_nodes n = Some ph \<Longrightarrow> answers_phase ph st \<Longrightarrow>
     graph_step env r
       (follow n r (apply_phase_result (node_update (env_rep env) ph st msgs (r_state r)) (r_state r)))"
| dispatch: "r_pos r = At ''research_dispatch'' \<Longrightarrow>
     graph_step env r
       \<lparr>r_pos = Branches (map send_node (route_to_research_subagents (r_state r))),
        r_state = research_dispatch_node (r_state r), r_log = r_log r @ [Ran ''research_dispatch'']\<rparr>"
| branch: "r_pos r = Branches ns \<Longrightarrow> research_subagent_node scope \<in> set ns \<Longrightarrow>
     make_research_node (env_rep env) scope st msgs (r_state r) = Inr u \<Longrightarrow>
     graph_step env r
       \<lparr>r_pos = Branches (remove1 (research_subagent_node scope) ns),
        r_state = apply_research_update u (r_state r),
        r_log = r_log r @ [Ran (research_subagent_node scope)]\<rparr>"
| join: "r_pos r = Branches [] \<Longrightarrow>
     graph_step env r (follow ''research_join'' r (apply_research_join (r_state r)))"
| pause: "r_pos r = At (pause_node g) \<Longrightarrow>
     make_gate_pause (env_dump env) (env_trace env) g (r_state r) = Inr payload \<Longrightarrow>
     graph_step env r \<lparr>r_pos = Paused g payload, r_state = r_state r, r_log = r_log r\<rparr>"
| resume: "r_pos r = Paused g payload \<Longrightarrow>
     graph_step env r
       \<lparr>r_pos = At (the (map_of graph_edges (pause_node g))),
        r_state = (r_state r)\<lparr>gs_pending_action := v\<rparr>, r_log = r_log r @ [Judge g v]\<rparr>"
| decide: "r_pos r = At (apply_node g) \<Longrightarrow> map_of gate_targets g = Some (adv, rer) \<Longrightarrow>
     make_gate_apply (env_rep env) g adv rer (r_state r) = Inr cmd \<Longrightarrow>
     graph_step env r
       \<lparr>r_pos = At (cmd_goto cmd),
        r_state = apply_update (env_coerce env) (cmd_update cmd) (r_state r),
        r_log = r_log r @ [Ran (apply_node g)]\<rparr>"
| finish: "r_pos r = At ''terminal'' \<Longrightarrow> graph_step env r (follow ''terminal'' r (r_state r))"

inductive reachable :: "environment \<Rightarrow> graph_state \<Rightarrow> run \<Rightarrow> bool" for env s0 where
  start: "reachable env s0 \<lparr>r_pos = At start_node, r_state = s0, r_log = []\<rparr>"
| step: "reachable env s0 r \<Longrightarrow> graph_step env r r' \<Longrightarrow> reachable env s0 r'"

section \<open>The review invariant\<close>

text \<open>The gates the judge has let pass, in order, and whether a halt was decided.\<close>

fun advances :: "event \<Rightarrow> string list" where
  "advances (Judge g v) =
     (if decided_action v = PStr ''rerun'' \<or> decided_action v = PStr ''halt'' then [] else [g])"
| "advances (Ran n) = []"

definition advanced :: "event list \<Rightarrow> string list" where
  "advanced trail = concat (map advances trail)"

definition halt_decided :: "event list \<Rightarrow> bool" where
  "halt_decided trail \<longleftrightarrow> (\<exists>g v. Judge g v \<in> set trail \<and> decided_action v = PStr ''halt'')"

lemma advanced_simps [simp]:
  "advanced [] = []" "advanced (trail @ [e]) = advanced trail @ advances e"
  by (simp_all add: advanced_def)

lemma halt_decided_snoc [simp]:
  "\<not> halt_decided []"
  "halt_decided (trail @ [Ran n]) = halt_decided trail"
  "halt_decided (trail @ [Judge g v]) = (halt_decided trail \<or> decided_action v = PStr ''halt'')"
  by (auto simp: halt_decided_def)

text \<open>How many gates lie before a node that is not an apply node.\<close>

definition stage_table :: "nat dict" where
  "stage_table =
     [(''intake'', 0), (''gate1_pause'', 0),
      (''research_dispatch'', 1), (''research_evidence'', 1), (''research_facts'', 1),
      (''research_witnesses'', 1), (''research_law'', 1), (''research_join'', 1),
      (''gate2_pause'', 1), (''synthesis'', 2), (''gate3_pause'', 2),
      (''auditor'', 3), (''gate4_pause'', 3)]"

definition apply_table :: "string dict" where
  "apply_table = map (\<lambda>g. (apply_node g, g)) gate_names"

definition gate_index :: "string \<Rightarrow> nat" where
  "gate_index g = (if g = ''gate1'' then 0 else if g = ''gate2'' then 1
                   else if g = ''gate3'' then 2 else 3)"

text \<open>The nodes a run passes through inside the fan-out.\<close>

definition fan_nodes :: "string list" where
  "fan_nodes = ''research_join'' # map research_subagent_node research_scopes"

text \<open>What holds of the log and the pending decision when a run stands at a node.\<close>

definition node_ok :: "string \<Rightarrow> event list \<Rightarrow> pyval \<Rightarrow> bool" where
  "node_ok n trail v =
     (case map_of stage_table n of
        Some k \<Rightarrow> n \<notin> set fan_nodes \<and> advanced trail = take k gate_names
             \<and> \<not> halt_decided trail
      | None \<Rightarrow> (case map_of apply_table n of
          Some g \<Rightarrow> advanced trail = take (gate_index g) gate_names @ advances (Judge g v)
             \<and> (halt_decided trail \<longleftrightarrow> decided_action v = PStr ''halt'')
        | None \<Rightarrow>
            n = ''terminal'' \<and> halt_decided trail
            \<or> n = end_node \<and> (advanced trail = gate_names \<or> halt_decided trail)))"

definition pos_ok :: "run \<Rightarrow> bool" where
  "pos_ok r = (case r_pos r of
      At n \<Rightarrow> node_ok n (r_log r) (gs_pending_action (r_state r))
    | Branches ns \<Rightarrow>
        set ns \<subseteq> set (map research_subagent_node research_scopes)
        \<and> advanced (r_log r) = take 1 gate_names \<and> \<not> halt_decided (r_log r)
    | Paused g _ \<Rightarrow>
        g \<in> set gate_names \<and> advanced (r_log r) = take (gate_index g) gate_names
        \<and> \<not> halt_decided (r_log r))"

text \<open>
  Every staged node in the log ran when exactly the gates before it had been passed and no halt
  had been decided.
\<close>

definition log_ok :: "event list \<Rightarrow> bool" where
  "log_ok trail \<longleftrightarrow> (\<forall>pre n post k. trail = pre @ Ran n # post \<longrightarrow> map_of stage_table n = Some k
     \<longrightarrow> advanced pre = take k gate_names \<and> \<not> halt_decided pre)"

lemma log_ok_Nil [simp]: "log_ok []"
  by (simp add: log_ok_def)

lemma log_ok_snoc [simp]:
  "log_ok (trail @ [Judge g v]) \<longleftrightarrow> log_ok trail"
  "log_ok (trail @ [Ran n]) \<longleftrightarrow> log_ok trail \<and>
     (\<forall>k. map_of stage_table n = Some k
        \<longrightarrow> advanced trail = take k gate_names \<and> \<not> halt_decided trail)"
proof -
  have split: "trail @ [e] = pre @ Ran n # post \<longleftrightarrow>
      (post = [] \<and> pre = trail \<and> e = Ran n)
      \<or> (\<exists>post'. post = post' @ [e] \<and> trail = pre @ Ran n # post')"
    for e pre n post by (cases post rule: rev_cases) auto
  show "log_ok (trail @ [Judge g v]) \<longleftrightarrow> log_ok trail"
    unfolding log_ok_def split by auto
  show "log_ok (trail @ [Ran n]) \<longleftrightarrow> log_ok trail \<and>
     (\<forall>k. map_of stage_table n = Some k
        \<longrightarrow> advanced trail = take k gate_names \<and> \<not> halt_decided trail)"
    unfolding log_ok_def split by auto
qed

text \<open>The invariant at each node, computed.\<close>

lemma node_ok_at:
  "node_ok ''intake'' t v \<longleftrightarrow> advanced t = [] \<and> \<not> halt_decided t"
  "node_ok ''gate1_pause'' t v \<longleftrightarrow> advanced t = [] \<and> \<not> halt_decided t"
  "node_ok ''research_dispatch'' t v \<longleftrightarrow> advanced t = [''gate1''] \<and> \<not> halt_decided t"
  "node_ok ''gate2_pause'' t v \<longleftrightarrow> advanced t = [''gate1''] \<and> \<not> halt_decided t"
  "node_ok ''synthesis'' t v \<longleftrightarrow> advanced t = [''gate1'', ''gate2''] \<and> \<not> halt_decided t"
  "node_ok ''gate3_pause'' t v \<longleftrightarrow> advanced t = [''gate1'', ''gate2''] \<and> \<not> halt_decided t"
  "node_ok ''auditor'' t v \<longleftrightarrow> advanced t = [''gate1'', ''gate2'', ''gate3''] \<and> \<not> halt_decided t"
  "node_ok ''gate4_pause'' t v \<longleftrightarrow> advanced t = [''gate1'', ''gate2'', ''gate3''] \<and> \<not> halt_decided t"
  "node_ok ''terminal'' t v \<longleftrightarrow> halt_decided t"
  "node_ok end_node t v \<longleftrightarrow> advanced t = gate_names \<or> halt_decided t"
  by (simp_all add: node_ok_def stage_table_def apply_table_def apply_node_def gate_names_def
      eval_nat_numeral fan_nodes_def research_scopes_def research_subagent_node_def)

lemma node_ok_apply:
  assumes "g \<in> set gate_names"
  shows "node_ok (apply_node g) t v \<longleftrightarrow>
     advanced t = take (gate_index g) gate_names @ advances (Judge g v)
     \<and> (halt_decided t \<longleftrightarrow> decided_action v = PStr ''halt'')"
  using gate_names_cases [OF assms]
  by (elim disjE) (simp_all add: node_ok_def stage_table_def apply_table_def apply_node_def
      gate_names_def)

definition run_ok :: "run \<Rightarrow> bool" where
  "run_ok r \<longleftrightarrow> pos_ok r \<and> log_ok (r_log r)"

lemma phase_nodes_cases:
  "map_of phase_nodes n = Some ph \<Longrightarrow>
     n = ''intake'' \<and> ph = ''intake'' \<or> n = ''synthesis'' \<and> ph = ''synthesis''
     \<or> n = ''auditor'' \<and> ph = ''audit''"
  by (simp add: phase_nodes_def split: if_splits)

lemma stage_at [simp]:
  "map_of stage_table ''intake'' = Some 0" "map_of stage_table ''research_dispatch'' = Some 1"
  "map_of stage_table ''research_join'' = Some 1" "map_of stage_table ''synthesis'' = Some 2"
  "map_of stage_table ''auditor'' = Some 3" "map_of stage_table ''terminal'' = None"
  by (simp_all add: stage_table_def)

lemma stage_of_branch:
  "scope \<in> set research_scopes \<Longrightarrow> map_of stage_table (research_subagent_node scope) = Some 1"
  by (auto simp: research_scopes_def research_subagent_node_def stage_table_def)

lemma stage_of_apply:
  "g \<in> set gate_names \<Longrightarrow> map_of stage_table (apply_node g) = None"
  using gate_names_cases [of g] by (auto simp: apply_node_def stage_table_def)

lemma take_gate_names [simp]:
  "take (Suc 0) gate_names = [''gate1'']" "take 2 gate_names = [''gate1'', ''gate2'']"
  "take 3 gate_names = [''gate1'', ''gate2'', ''gate3'']"
  by (simp_all add: gate_names_def eval_nat_numeral)

lemma run_ok_phase:
  assumes "r_pos r = At n" "map_of phase_nodes n = Some ph" "run_ok r"
  shows "run_ok (follow n r s)"
  using phase_nodes_cases [OF assms(2)]
proof (elim disjE conjE)
  assume "n = ''intake''"
  with assms show ?thesis
    by (simp add: run_ok_def pos_ok_def follow_def node_ok_at graph_edges_def)
next
  assume "n = ''synthesis''"
  with assms show ?thesis
    by (simp add: run_ok_def pos_ok_def follow_def node_ok_at graph_edges_def)
next
  assume "n = ''auditor''"
  with assms show ?thesis
    by (simp add: run_ok_def pos_ok_def follow_def node_ok_at graph_edges_def)
qed

lemma run_ok_dispatch:
  assumes "r_pos r = At ''research_dispatch''" "run_ok r"
    and "set scopes \<subseteq> set research_scopes"
  shows "run_ok \<lparr>r_pos = Branches (map research_subagent_node scopes), r_state = s,
                 r_log = r_log r @ [Ran ''research_dispatch'']\<rparr>"
  using assms by (auto simp: run_ok_def pos_ok_def node_ok_at)

lemma run_ok_branch:
  assumes "r_pos r = Branches ns" "run_ok r" "scope \<in> set research_scopes"
  shows "run_ok \<lparr>r_pos = Branches (remove1 m ns), r_state = s,
                 r_log = r_log r @ [Ran (research_subagent_node scope)]\<rparr>"
  using assms set_remove1_subset [of m ns]
  by (auto simp: run_ok_def pos_ok_def stage_of_branch)

lemma run_ok_join:
  assumes "r_pos r = Branches []" "run_ok r"
  shows "run_ok (follow ''research_join'' r s)"
  using assms by (simp add: run_ok_def pos_ok_def follow_def graph_edges_def node_ok_at)

lemma pause_node_ok:
  assumes "g \<in> set gate_names" "node_ok (pause_node g) t v"
  shows "advanced t = take (gate_index g) gate_names \<and> \<not> halt_decided t"
  using gate_names_cases [OF assms(1)] assms(2)
  by (elim disjE) (simp_all add: pause_node_def gate_index_def node_ok_at)

lemma pause_node_names:
  "map_of gate_phase_slot g = Some slot \<Longrightarrow> g \<in> set gate_names"
  by (auto simp: gate_phase_slot_def gate_names_def split: if_splits)

lemma run_ok_pause:
  assumes "r_pos r = At (pause_node g)" "run_ok r" "g \<in> set gate_names"
  shows "run_ok \<lparr>r_pos = Paused g payload, r_state = r_state r, r_log = r_log r\<rparr>"
  using assms by (auto simp: run_ok_def pos_ok_def pause_node_ok)

lemma edge_of_pause:
  "g \<in> set gate_names \<Longrightarrow> map_of graph_edges (pause_node g) = Some (apply_node g)"
  using gate_names_cases [of g] by (auto simp: graph_edges_def pause_node_def apply_node_def)

lemma run_ok_resume:
  assumes "r_pos r = Paused g payload" "run_ok r"
  shows "run_ok \<lparr>r_pos = At (the (map_of graph_edges (pause_node g))),
                 r_state = (r_state r)\<lparr>gs_pending_action := v\<rparr>,
                 r_log = r_log r @ [Judge g v]\<rparr>"
proof -
  have "g \<in> set gate_names" and "advanced (r_log r) = take (gate_index g) gate_names"
    and "\<not> halt_decided (r_log r)" and "log_ok (r_log r)"
    using assms by (auto simp: run_ok_def pos_ok_def)
  then show ?thesis by (simp add: run_ok_def pos_ok_def edge_of_pause node_ok_apply)
qed

text \<open>The three targets of a gate satisfy the invariant for their decisions.\<close>

lemma gate_target_ok:
  assumes "map_of gate_targets g = Some (adv, rer)"
  shows "advanced t = take (gate_index g) gate_names @ [g] \<Longrightarrow> \<not> halt_decided t \<Longrightarrow> node_ok adv t v"
    and "advanced t = take (gate_index g) gate_names \<Longrightarrow> \<not> halt_decided t \<Longrightarrow> node_ok rer t v"
  using assms
  by (auto simp: gate_targets_def gate_index_def node_ok_at gate_names_def eval_nat_numeral
      split: if_splits)

lemma run_ok_apply:
  assumes "r_pos r = At (apply_node g)" "map_of gate_targets g = Some (adv, rer)"
    and "make_gate_apply rep g adv rer (r_state r) = Inr cmd" and "run_ok r"
  shows "run_ok \<lparr>r_pos = At (cmd_goto cmd), r_state = s, r_log = r_log r @ [Ran (apply_node g)]\<rparr>"
proof -
  let ?v = "gs_pending_action (r_state r)"
  let ?t = "r_log r @ [Ran (apply_node g)]"
  have g: "g \<in> set gate_names" using assms(2) by (rule gate_targets_dom)
  then have inv: "advanced ?t = take (gate_index g) gate_names @ advances (Judge g ?v)"
    "halt_decided ?t \<longleftrightarrow> decided_action ?v = PStr ''halt''" "log_ok ?t"
    using assms(1,4) by (simp_all add: run_ok_def pos_ok_def node_ok_apply stage_of_apply)
  have goto: "cmd_goto cmd = (if decided_action ?v = PStr ''rerun'' then rer
      else if decided_action ?v = PStr ''halt'' then ''terminal'' else adv)"
    using gate_apply_goto [OF g, of rep adv rer "r_state r"] assms(3) by auto
  have "node_ok (cmd_goto cmd) ?t (gs_pending_action s)"
    using inv gate_target_ok [OF assms(2), of ?t] goto
    by (auto simp: node_ok_at split: if_splits)
  then show ?thesis using inv stage_of_apply [OF g] by (simp add: run_ok_def pos_ok_def)
qed

lemma run_ok_finish:
  assumes "r_pos r = At ''terminal''" "run_ok r"
  shows "run_ok (follow ''terminal'' r s)"
  using assms by (simp add: run_ok_def pos_ok_def follow_def graph_edges_def node_ok_at)

lemma run_ok_step: "graph_step env r r' \<Longrightarrow> run_ok r \<Longrightarrow> run_ok r'"
proof (induction rule: graph_step.induct)
  case (phase r n ph st msgs)
  then show ?case by (blast intro: run_ok_phase)
next
  case (dispatch r)
  have "map send_node (route_to_research_subagents (r_state r))
     = map research_subagent_node (routed_scopes (gs_extra_instructions (r_state r)))"
    by (simp add: route_to_research_subagents_def)
  then show ?case using dispatch by (simp add: run_ok_dispatch routed_scopes_subset)
next
  case (branch r ns scope st msgs u)
  then show ?case using make_research_node_Inr(1) by (blast intro: run_ok_branch)
next
  case (join r)
  then show ?case by (rule run_ok_join)
next
  case (pause r g payload)
  then show ?case
    by (auto simp: make_gate_pause_def split: option.splits intro!: run_ok_pause
        dest: pause_node_names)
next
  case (resume r g payload v)
  then show ?case by (rule run_ok_resume)
next
  case (decide r g adv rer cmd)
  then show ?case by (blast intro: run_ok_apply)
next
  case (finish r)
  then show ?case by (rule run_ok_finish)
qed

lemma run_ok_reachable: "reachable env s0 r \<Longrightarrow> run_ok r"
proof (induction rule: reachable.induct)
  case start
  show ?case by (simp add: run_ok_def pos_ok_def start_node_def node_ok_at)
next
  case (step r r')
  then show ?case by (blast intro: run_ok_step)
qed

end
