(* ===== verification/Pipeline_Exec.thy ===== *)
theory Pipeline_Exec
  imports Pipeline_Graph
begin

text \<open>
  An executor of the graph: one super-step after another until the run is paused at a gate or has
  ended. The agents are a function of the phase and the state. The lemmas show that every step of
  the executor is a step of the relation, that it stops within eight steps from any position a
  run can reach, and what a session of decisions leads to.
\<close>

section \<open>Steps\<close>

text \<open>What the agent of a phase or scope answers in a state: its response and its tool messages.\<close>

type_synonym agents = "string \<Rightarrow> graph_state \<Rightarrow> structured \<times> tool_message list"

text \<open>The schema of a research scope.\<close>

fun answers_scope :: "string \<Rightarrow> structured \<Rightarrow> bool" where
  "answers_scope sc St_none = True"
| "answers_scope sc (St_evidence _) = (sc = ''evidence'')"
| "answers_scope sc (St_facts _) = (sc = ''facts'')"
| "answers_scope sc (St_witnesses _) = (sc = ''witnesses'')"
| "answers_scope sc (St_law _) = (sc = ''law'')"
| "answers_scope sc _ = False"

definition well_behaved :: "agents \<Rightarrow> bool" where
  "well_behaved ag \<longleftrightarrow> (\<forall>s.
     (\<forall>ph \<in> set (map snd phase_nodes). answers_phase ph (fst (ag ph s)))
     \<and> (\<forall>sc \<in> set research_scopes. answers_scope sc (fst (ag sc s))))"

definition scope_of_node :: "string \<Rightarrow> string option" where
  "scope_of_node n = find (\<lambda>sc. research_subagent_node sc = n) research_scopes"

definition gate_of_pause :: "string \<Rightarrow> string option" where
  "gate_of_pause n = find (\<lambda>g. pause_node g = n) gate_names"

definition gate_of_apply :: "string \<Rightarrow> string option" where
  "gate_of_apply n = find (\<lambda>g. apply_node g = n) gate_names"

definition settled :: "run \<Rightarrow> bool" where
  "settled r = (case r_pos r of Paused _ _ \<Rightarrow> True | At n \<Rightarrow> n = end_node | Branches _ \<Rightarrow> False)"

text \<open>The node the run stands at, executed; a schema mismatch is the framework's error.\<close>

definition exec_phase :: "environment \<Rightarrow> agents \<Rightarrow> string \<Rightarrow> string \<Rightarrow> run \<Rightarrow> run result" where
  "exec_phase env ag n ph r =
     (case ag ph (r_state r) of (st, msgs) \<Rightarrow>
        if answers_phase ph st
        then Inr (follow n r (apply_phase_result
               (node_update (env_rep env) ph st msgs (r_state r)) (r_state r)))
        else Inl (OtherError ''structured output''))"

definition exec_pause :: "environment \<Rightarrow> string \<Rightarrow> run \<Rightarrow> run result" where
  "exec_pause env g r =
     bind_result (make_gate_pause (env_dump env) (env_trace env) g (r_state r))
       (\<lambda>payload. Inr \<lparr>r_pos = Paused g payload, r_state = r_state r, r_log = r_log r\<rparr>)"

definition exec_apply :: "environment \<Rightarrow> string \<Rightarrow> run \<Rightarrow> run result" where
  "exec_apply env g r =
     (case map_of gate_targets g of
        None \<Rightarrow> Inl ValueError
      | Some (adv, rer) \<Rightarrow>
          bind_result (make_gate_apply (env_rep env) g adv rer (r_state r)) (\<lambda>cmd.
            Inr \<lparr>r_pos = At (cmd_goto cmd),
                 r_state = apply_update (env_coerce env) (cmd_update cmd) (r_state r),
                 r_log = r_log r @ [Ran (apply_node g)]\<rparr>))"

definition exec_dispatch :: "run \<Rightarrow> run result" where
  "exec_dispatch r = Inr
     \<lparr>r_pos = Branches (map send_node (route_to_research_subagents (r_state r))),
      r_state = research_dispatch_node (r_state r), r_log = r_log r @ [Ran ''research_dispatch'']\<rparr>"

definition exec_branch :: "environment \<Rightarrow> agents \<Rightarrow> string \<Rightarrow> string list \<Rightarrow> run \<Rightarrow> run result" where
  "exec_branch env ag n ns r =
     (case scope_of_node n of
        None \<Rightarrow> Inl (OtherError ''unknown node'')
      | Some sc \<Rightarrow> (case ag sc (r_state r) of (st, msgs) \<Rightarrow>
          bind_result (make_research_node (env_rep env) sc st msgs (r_state r)) (\<lambda>u.
            Inr \<lparr>r_pos = Branches (remove1 n ns),
                 r_state = apply_research_update u (r_state r),
                 r_log = r_log r @ [Ran n]\<rparr>)))"

definition exec_node :: "environment \<Rightarrow> agents \<Rightarrow> string \<Rightarrow> run \<Rightarrow> run result" where
  "exec_node env ag n r =
     (case map_of phase_nodes n of
        Some ph \<Rightarrow> exec_phase env ag n ph r
      | None \<Rightarrow> (case gate_of_pause n of
          Some g \<Rightarrow> exec_pause env g r
        | None \<Rightarrow> (case gate_of_apply n of
            Some g \<Rightarrow> exec_apply env g r
          | None \<Rightarrow>
              if n = ''research_dispatch'' then exec_dispatch r
              else if n = ''terminal'' then Inr (follow ''terminal'' r (r_state r))
              else Inl (OtherError ''unknown node''))))"

definition exec_step :: "environment \<Rightarrow> agents \<Rightarrow> run \<Rightarrow> run result" where
  "exec_step env ag r =
     (case r_pos r of
        At n \<Rightarrow> exec_node env ag n r
      | Branches [] \<Rightarrow> Inr (follow ''research_join'' r (apply_research_join (r_state r)))
      | Branches (n # ns) \<Rightarrow> exec_branch env ag n (n # ns) r
      | Paused _ _ \<Rightarrow> Inr r)"

fun run_to_pause :: "nat \<Rightarrow> environment \<Rightarrow> agents \<Rightarrow> run \<Rightarrow> run result" where
  "run_to_pause n env ag r =
     (if settled r then Inr r
      else case n of
        0 \<Rightarrow> Inl (OtherError ''recursion limit'')
      | Suc m \<Rightarrow> bind_result (exec_step env ag r) (run_to_pause m env ag))"

declare run_to_pause.simps [simp del]

text \<open>\<open>Command(resume=v)\<close> on a paused run, and a whole session of decisions.\<close>

definition resume_with :: "pyval \<Rightarrow> run \<Rightarrow> run result" where
  "resume_with v r =
     (case r_pos r of
        Paused g payload \<Rightarrow> Inr
          \<lparr>r_pos = At (the (map_of graph_edges (pause_node g))),
           r_state = (r_state r)\<lparr>gs_pending_action := v\<rparr>, r_log = r_log r @ [Judge g v]\<rparr>
      | _ \<Rightarrow> Inl (OtherError ''no pending interrupt''))"

definition step_limit :: nat where "step_limit = 8"

definition answer :: "environment \<Rightarrow> agents \<Rightarrow> pyval \<Rightarrow> run \<Rightarrow> run result" where
  "answer env ag v r = bind_result (resume_with v r) (run_to_pause step_limit env ag)"

definition first_run :: "graph_state \<Rightarrow> run" where
  "first_run s0 = \<lparr>r_pos = At start_node, r_state = s0, r_log = []\<rparr>"

fun decide_all :: "environment \<Rightarrow> agents \<Rightarrow> pyval list \<Rightarrow> run \<Rightarrow> run result" where
  "decide_all env ag [] r = Inr r"
| "decide_all env ag (v # vs) r = bind_result (answer env ag v r) (decide_all env ag vs)"

definition session :: "environment \<Rightarrow> agents \<Rightarrow> graph_state \<Rightarrow> pyval list \<Rightarrow> run result" where
  "session env ag s0 vs =
     bind_result (run_to_pause step_limit env ag (first_run s0)) (decide_all env ag vs)"

section \<open>Steps of the executor are steps of the graph\<close>

lemma scope_of_nodeD: "scope_of_node n = Some sc \<Longrightarrow> sc \<in> set research_scopes \<and> n = research_subagent_node sc"
  unfolding scope_of_node_def using find_Some_in by fastforce

lemma gate_of_pauseD: "gate_of_pause n = Some g \<Longrightarrow> g \<in> set gate_names \<and> n = pause_node g"
  unfolding gate_of_pause_def using find_Some_in by fastforce

lemma gate_of_applyD: "gate_of_apply n = Some g \<Longrightarrow> g \<in> set gate_names \<and> n = apply_node g"
  unfolding gate_of_apply_def using find_Some_in by fastforce

lemma exec_node_sound:
  assumes "exec_node env ag n r = Inr r'" "r_pos r = At n"
  shows "graph_step env r r'"
proof (cases "map_of phase_nodes n")
  case (Some ph)
  obtain st msgs where "ag ph (r_state r) = (st, msgs)" by fastforce
  then show ?thesis
    using assms Some graph_step.phase [OF assms(2) Some]
    by (auto simp: exec_node_def exec_phase_def split: if_splits)
next
  case no_phase: None
  show ?thesis
  proof (cases "gate_of_pause n")
    case (Some g)
    then show ?thesis
      using assms no_phase gate_of_pauseD [OF Some]
      by (auto simp: exec_node_def exec_pause_def bind_result_Inr intro: graph_step.pause)
  next
    case no_pause: None
    show ?thesis
    proof (cases "gate_of_apply n")
      case (Some g)
      then show ?thesis
        using assms no_phase no_pause gate_of_applyD [OF Some]
        by (auto simp: exec_node_def exec_apply_def bind_result_Inr split: option.splits
            intro: graph_step.decide)
    next
      case None
      then show ?thesis
        using assms no_phase no_pause
        by (auto simp: exec_node_def exec_dispatch_def split: if_splits
            intro: graph_step.dispatch graph_step.finish)
    qed
  qed
qed

lemma exec_branch_sound:
  assumes "exec_branch env ag n ns r = Inr r'" "r_pos r = Branches ns" "n \<in> set ns"
  shows "graph_step env r r'"
proof -
  obtain sc where sc: "scope_of_node n = Some sc"
    using assms(1) by (auto simp: exec_branch_def split: option.splits)
  obtain st msgs where "ag sc (r_state r) = (st, msgs)" by fastforce
  then show ?thesis
    using assms sc scope_of_nodeD [OF sc]
    by (auto simp: exec_branch_def bind_result_Inr intro: graph_step.branch)
qed

lemma exec_step_sound:
  assumes "exec_step env ag r = Inr r'" "\<not> settled r"
  shows "graph_step env r r'"
proof (cases "r_pos r")
  case (At n)
  then show ?thesis using assms by (simp add: exec_step_def exec_node_sound)
next
  case (Branches ns)
  show ?thesis
  proof (cases ns)
    case Nil
    then show ?thesis using assms Branches by (auto simp: exec_step_def intro: graph_step.join)
  next
    case (Cons n ms)
    then show ?thesis
      using assms(1) Branches by (auto simp: exec_step_def intro: exec_branch_sound)
  qed
next
  case Paused
  then show ?thesis using assms by (simp add: settled_def)
qed

section \<open>Progress\<close>

definition steps_table :: "nat dict" where
  "steps_table =
     [(''intake'', 2), (''gate1_pause'', 1), (''gate1_apply'', 8), (''research_dispatch'', 7),
      (''gate2_pause'', 1), (''gate2_apply'', 8), (''synthesis'', 2), (''gate3_pause'', 1),
      (''gate3_apply'', 3), (''auditor'', 2), (''gate4_pause'', 1), (''gate4_apply'', 3),
      (''terminal'', 1), (end_node, 0)]"

fun steps_left :: "position \<Rightarrow> nat" where
  "steps_left (At n) = (case map_of steps_table n of None \<Rightarrow> 0 | Some k \<Rightarrow> k)"
| "steps_left (Branches ns) = length ns + 2"
| "steps_left (Paused _ _) = 0"

lemma well_behaved_phase:
  "well_behaved ag \<Longrightarrow> ph \<in> set (map snd phase_nodes) \<Longrightarrow> answers_phase ph (fst (ag ph s))"
  unfolding well_behaved_def by (drule spec [of _ s], elim conjE, erule bspec)

lemma well_behaved_scope:
  "well_behaved ag \<Longrightarrow> sc \<in> set research_scopes \<Longrightarrow> answers_scope sc (fst (ag sc s))"
  unfolding well_behaved_def by (drule spec [of _ s], elim conjE, erule bspec)

lemma gate_targets_cases:
  "map_of gate_targets g = Some (adv, rer) \<Longrightarrow>
     g = ''gate1'' \<and> adv = ''research_dispatch'' \<and> rer = ''intake''
     \<or> g = ''gate2'' \<and> adv = ''synthesis'' \<and> rer = ''research_dispatch''
     \<or> g = ''gate3'' \<and> adv = ''auditor'' \<and> rer = ''synthesis''
     \<or> g = ''gate4'' \<and> adv = end_node \<and> rer = ''auditor''"
  by (auto simp: gate_targets_def split: if_splits)

lemma exec_phase_progress:
  assumes "well_behaved ag" "map_of phase_nodes n = Some ph"
  shows "\<exists>r'. exec_phase env ag n ph r = Inr r' \<and> steps_left (r_pos r') < steps_left (At n)"
proof -
  have "ph \<in> set (map snd phase_nodes)" using assms(2) by (force dest: map_of_SomeD)
  then have "answers_phase ph (fst (ag ph (r_state r)))"
    by (rule well_behaved_phase [OF assms(1)])
  moreover have "steps_left (At (the (map_of graph_edges n))) < steps_left (At n)"
    using phase_nodes_cases [OF assms(2)]
    by (elim disjE conjE) (simp_all add: graph_edges_def steps_table_def)
  ultimately show ?thesis
    by (simp add: exec_phase_def follow_def split_beta del: steps_left.simps)
qed

lemma exec_apply_progress:
  assumes "g \<in> set gate_names"
  shows "\<exists>r'. exec_apply env g r = Inr r' \<and> steps_left (r_pos r') < steps_left (At (apply_node g))"
proof -
  obtain adv rer where t: "map_of gate_targets g = Some (adv, rer)"
    using gate_names_cases [OF assms] by (auto simp: gate_targets_def)
  obtain u where u: "make_gate_apply (env_rep env) g adv rer (r_state r)
      = Inr \<lparr>cmd_update = u, cmd_goto =
         (if decided_action (gs_pending_action (r_state r)) = PStr ''rerun'' then rer
          else if decided_action (gs_pending_action (r_state r)) = PStr ''halt'' then ''terminal''
          else adv)\<rparr>"
    using gate_apply_goto [OF assms, of "env_rep env" adv rer "r_state r"] by (elim exE)
  have "steps_left (At adv) < steps_left (At (apply_node g))"
    "steps_left (At rer) < steps_left (At (apply_node g))"
    "steps_left (At ''terminal'') < steps_left (At (apply_node g))"
    using gate_targets_cases [OF t]
    by (elim disjE conjE; simp add: apply_node_def steps_table_def)+
  with u show ?thesis unfolding exec_apply_def t by (simp del: steps_left.simps)
qed

lemma exec_pause_progress:
  assumes "g \<in> set gate_names"
  shows "\<exists>r'. exec_pause env g r = Inr r' \<and> steps_left (r_pos r') < steps_left (At (pause_node g))"
  using gate_names_cases [OF assms]
  by (elim disjE) (auto simp: exec_pause_def make_gate_pause_def gate_phase_slot_def pause_node_def
      steps_table_def)

lemma node_ok_cases:
  "node_ok n t v \<Longrightarrow> n = end_node \<or> (\<exists>ph. map_of phase_nodes n = Some ph)
     \<or> (map_of phase_nodes n = None \<and> (\<exists>g \<in> set gate_names. n = pause_node g \<and> gate_of_pause n = Some g
          \<or> n = apply_node g \<and> gate_of_pause n = None \<and> gate_of_apply n = Some g))
     \<or> n = ''research_dispatch'' \<or> n = ''terminal''"
  by (auto simp: node_ok_def stage_table_def apply_table_def gate_names_def phase_nodes_def
      pause_node_def apply_node_def gate_of_pause_def gate_of_apply_def fan_nodes_def
      research_scopes_def research_subagent_node_def split: if_splits option.splits)

lemma exec_dispatch_progress:
  "\<exists>r'. exec_dispatch r = Inr r' \<and> steps_left (r_pos r') < steps_left (At ''research_dispatch'')"
proof -
  have "length (routed_scopes (gs_extra_instructions (r_state r))) \<le> length research_scopes"
    by (simp add: routed_scopes_def Let_def)
  then show ?thesis
    by (simp add: exec_dispatch_def route_to_research_subagents_def steps_table_def
        research_scopes_def)
qed

lemma exec_node_progress:
  assumes "well_behaved ag" "node_ok n t v" "n \<noteq> end_node"
  shows "\<exists>r'. exec_node env ag n r = Inr r' \<and> steps_left (r_pos r') < steps_left (At n)"
proof -
  from node_ok_cases [OF assms(2)] assms(3) consider
      (phase) ph where "map_of phase_nodes n = Some ph"
    | (pause) g where "g \<in> set gate_names" "n = pause_node g" "map_of phase_nodes n = None"
        "gate_of_pause n = Some g"
    | (decide) g where "g \<in> set gate_names" "n = apply_node g" "map_of phase_nodes n = None"
        "gate_of_pause n = None" "gate_of_apply n = Some g"
    | (dispatch) "n = ''research_dispatch''" | (finish) "n = ''terminal''"
    by blast
  then show ?thesis
  proof cases
    case phase
    then show ?thesis using exec_phase_progress [OF assms(1) phase] by (simp add: exec_node_def)
  next
    case pause
    then show ?thesis using exec_pause_progress [OF pause(1)] by (simp add: exec_node_def)
  next
    case decide
    then show ?thesis using exec_apply_progress [OF decide(1)] by (simp add: exec_node_def)
  next
    case dispatch
    then show ?thesis
      using exec_dispatch_progress
      by (simp add: exec_node_def phase_nodes_def gate_of_pause_def gate_of_apply_def
          gate_names_def pause_node_def apply_node_def)
  next
    case finish
    then show ?thesis
      by (simp add: exec_node_def phase_nodes_def gate_of_pause_def gate_of_apply_def
          gate_names_def pause_node_def apply_node_def follow_def graph_edges_def steps_table_def)
  qed
qed

lemma scope_of_node_Some:
  "n \<in> set (map research_subagent_node research_scopes) \<Longrightarrow> \<exists>sc. scope_of_node n = Some sc"
  by (auto simp: scope_of_node_def research_scopes_def research_subagent_node_def)

lemma make_part_total: "answers_scope sc st \<Longrightarrow> \<exists>p. make_part sc st = Inr p"
  by (cases st) (auto simp: make_part_def Let_def)

lemma exec_branch_progress:
  assumes "well_behaved ag" "n \<in> set ns" "n \<in> set (map research_subagent_node research_scopes)"
  shows "\<exists>r'. exec_branch env ag n ns r = Inr r' \<and> steps_left (r_pos r') < steps_left (Branches ns)"
proof -
  obtain sc where sc: "scope_of_node n = Some sc" using scope_of_node_Some [OF assms(3)] by blast
  then have mem: "sc \<in> set research_scopes" by (simp add: scope_of_nodeD)
  obtain st msgs where ag: "ag sc (r_state r) = (st, msgs)" by fastforce
  have "answers_scope sc (fst (ag sc (r_state r)))"
    by (rule well_behaved_scope [OF assms(1) mem])
  then obtain p where p: "make_part sc st = Inr p"
    using make_part_total [of sc st] ag by auto
  have "0 < length ns" using assms(2) by auto
  with sc mem ag p assms(2) show ?thesis
    by (auto simp: exec_branch_def make_research_node_def node_update_def Let_def length_remove1)
qed

lemma exec_step_progress:
  assumes "well_behaved ag" "run_ok r" "\<not> settled r"
  shows "\<exists>r'. exec_step env ag r = Inr r' \<and> steps_left (r_pos r') < steps_left (r_pos r)"
proof (cases "r_pos r")
  case (At n)
  then have "node_ok n (r_log r) (gs_pending_action (r_state r))" "n \<noteq> end_node"
    using assms(2,3) by (auto simp: run_ok_def pos_ok_def settled_def)
  then show ?thesis using exec_node_progress [OF assms(1)] At by (simp add: exec_step_def)
next
  case (Branches ns)
  show ?thesis
  proof (cases ns)
    case Nil
    then show ?thesis
      using Branches by (simp add: exec_step_def follow_def graph_edges_def steps_table_def)
  next
    case (Cons n ms)
    then have "n \<in> set (map research_subagent_node research_scopes)" "n \<in> set (n # ms)"
      using assms(2) Branches by (auto simp: run_ok_def pos_ok_def)
    from exec_branch_progress [OF assms(1) this(2,1)] show ?thesis
      using Branches Cons by (simp add: exec_step_def)
  qed
next
  case Paused
  then show ?thesis using assms(3) by (simp add: settled_def)
qed

text \<open>The executor reaches a gate or the end, along steps of the graph.\<close>

lemma run_to_pause_settles:
  assumes "well_behaved ag" "run_ok r" "steps_left (r_pos r) \<le> n"
  shows "\<exists>r'. run_to_pause n env ag r = Inr r' \<and> settled r' \<and> (graph_step env)\<^sup>*\<^sup>* r r'"
  using assms(2,3)
proof (induction n arbitrary: r)
  case 0
  then have "settled r" using exec_step_progress [OF assms(1) 0(1)] by fastforce
  then show ?case by (auto simp: run_to_pause.simps)
next
  case (Suc n)
  show ?case
  proof (cases "settled r")
    case True
    then show ?thesis by (auto simp: run_to_pause.simps)
  next
    case False
    obtain r1 where r1: "exec_step env ag r = Inr r1" "steps_left (r_pos r1) < steps_left (r_pos r)"
      using exec_step_progress [OF assms(1) Suc.prems(1) False] by blast
    have step: "graph_step env r r1" using r1(1) False by (rule exec_step_sound)
    then have "run_ok r1" using Suc.prems(1) by (rule run_ok_step)
    then obtain r' where "run_to_pause n env ag r1 = Inr r'" "settled r'" "(graph_step env)\<^sup>*\<^sup>* r1 r'"
      using Suc.IH [of r1] r1(2) Suc.prems(2) by auto
    with step False r1(1) show ?thesis
      by (subst run_to_pause.simps) (auto intro: converse_rtranclp_into_rtranclp)
  qed
qed

section \<open>Sessions\<close>

text \<open>The executor itself decides nothing.\<close>

lemma exec_step_log:
  assumes "exec_step env ag r = Inr r'"
  shows "advanced (r_log r') = advanced (r_log r) \<and> halt_decided (r_log r') = halt_decided (r_log r)"
  using assms
  by (auto simp: exec_step_def exec_node_def exec_phase_def exec_pause_def exec_apply_def
      exec_dispatch_def exec_branch_def follow_def bind_result_Inr
      split: position.splits list.splits option.splits prod.splits if_splits)

lemma run_to_pause_log:
  "run_to_pause n env ag r = Inr r' \<Longrightarrow>
     advanced (r_log r') = advanced (r_log r) \<and> halt_decided (r_log r') = halt_decided (r_log r)"
proof (induction n arbitrary: r)
  case 0
  then show ?case by (auto simp: run_to_pause.simps split: if_splits)
next
  case (Suc n)
  show ?case
  proof (cases "settled r")
    case True
    with Suc.prems show ?thesis by (simp add: run_to_pause.simps)
  next
    case False
    with Suc.prems obtain r1 where "exec_step env ag r = Inr r1" "run_to_pause n env ag r1 = Inr r'"
      by (subst (asm) run_to_pause.simps) (auto simp: bind_result_Inr)
    with exec_step_log [of env ag r r1] Suc.IH [of r1] show ?thesis by simp
  qed
qed

lemma run_ok_steps: "(graph_step env)\<^sup>*\<^sup>* r r' \<Longrightarrow> run_ok r \<Longrightarrow> run_ok r'"
  by (induction rule: rtranclp_induct) (auto intro: run_ok_step)

lemma steps_left_apply: "g \<in> set gate_names \<Longrightarrow> steps_left (At (apply_node g)) \<le> step_limit"
  by (drule gate_names_cases, elim disjE)
    (simp_all add: apply_node_def steps_table_def step_limit_def)

text \<open>One decision on a paused run.\<close>

lemma answer_settles:
  assumes "well_behaved ag" "run_ok r" "r_pos r = Paused g payload"
  shows "\<exists>r'. answer env ag v r = Inr r' \<and> settled r' \<and> run_ok r' \<and> (graph_step env)\<^sup>*\<^sup>* r r'
     \<and> advanced (r_log r') = advanced (r_log r) @ advances (Judge g v)
     \<and> (halt_decided (r_log r') \<longleftrightarrow> decided_action v = PStr ''halt'')"
proof -
  let ?r1 = "\<lparr>r_pos = At (the (map_of graph_edges (pause_node g))),
              r_state = (r_state r)\<lparr>gs_pending_action := v\<rparr>, r_log = r_log r @ [Judge g v]\<rparr>"
  have g: "g \<in> set gate_names" "\<not> halt_decided (r_log r)"
    using assms(2,3) by (auto simp: run_ok_def pos_ok_def)
  have step: "graph_step env r ?r1" using assms(3) by (rule graph_step.resume)
  then have ok: "run_ok ?r1" using assms(2) by (rule run_ok_step)
  have "steps_left (r_pos ?r1) \<le> step_limit"
    using steps_left_apply [OF g(1)] by (simp add: edge_of_pause [OF g(1)] del: steps_left.simps)
  from run_to_pause_settles [OF assms(1) ok this] obtain r' where
    r': "run_to_pause step_limit env ag ?r1 = Inr r'" "settled r'" "(graph_step env)\<^sup>*\<^sup>* ?r1 r'"
    by blast
  have "answer env ag v r = Inr r'" using r'(1) assms(3) by (simp add: answer_def resume_with_def)
  moreover have "run_ok r'" using run_ok_steps [OF r'(3) ok] .
  moreover have "advanced (r_log r') = advanced (r_log r) @ advances (Judge g v)"
    "halt_decided (r_log r') \<longleftrightarrow> decided_action v = PStr ''halt''"
    using run_to_pause_log [OF r'(1)] g(2) by simp_all
  ultimately show ?thesis using r'(2,3) step by (blast intro: converse_rtranclp_into_rtranclp)
qed

text \<open>Where a settled run stands follows from its log.\<close>

lemma settled_position:
  assumes "run_ok r" "settled r"
  shows "r_pos r = At end_node \<and> (advanced (r_log r) = gate_names \<or> halt_decided (r_log r))
     \<or> (\<exists>g payload. r_pos r = Paused g payload \<and> g \<in> set gate_names \<and> \<not> halt_decided (r_log r)
          \<and> advanced (r_log r) = take (gate_index g) gate_names)"
  using assms by (auto simp: settled_def run_ok_def pos_ok_def node_ok_at split: position.splits)

lemma gate_index_less: "gate_index g < length gate_names"
  by (simp add: gate_index_def gate_names_def)

lemma settled_unhalted:
  assumes "run_ok r" "settled r" "\<not> halt_decided (r_log r)"
    and "advanced (r_log r) = take k gate_names" "k < length gate_names"
  shows "\<exists>payload. r_pos r = Paused (gate_names ! k) payload"
proof -
  have "length (take k gate_names) = k" using assms(5) by simp
  then have "take k gate_names \<noteq> gate_names" using assms(5) by auto
  then obtain g payload where g: "r_pos r = Paused g payload" "g \<in> set gate_names"
      "take k gate_names = take (gate_index g) gate_names"
    using settled_position [OF assms(1,2)] assms(3,4) by auto
  then have "k = gate_index g"
    using assms(5) gate_index_less [of g] by (drule_tac arg_cong [where f = length]) simp
  then have "gate_names ! k = g"
    using gate_names_cases [OF g(2)] by (auto simp: gate_index_def gate_names_def)
  with g(1) show ?thesis by blast
qed

lemma first_run_settles:
  assumes "well_behaved ag"
  shows "\<exists>r payload. run_to_pause step_limit env ag (first_run s0) = Inr r
     \<and> r_pos r = Paused ''gate1'' payload \<and> run_ok r \<and> (graph_step env)\<^sup>*\<^sup>* (first_run s0) r
     \<and> advanced (r_log r) = []"
proof -
  have ok: "run_ok (first_run s0)"
    unfolding first_run_def by (rule run_ok_reachable) (rule reachable.start)
  have "steps_left (r_pos (first_run s0)) \<le> step_limit"
    by (simp add: first_run_def start_node_def steps_table_def step_limit_def)
  from run_to_pause_settles [OF assms ok this] obtain r where
    r: "run_to_pause step_limit env ag (first_run s0) = Inr r" "settled r"
       "(graph_step env)\<^sup>*\<^sup>* (first_run s0) r" by blast
  have "advanced (r_log r) = take 0 gate_names" "\<not> halt_decided (r_log r)" and ok': "run_ok r"
    using run_to_pause_log [OF r(1)] run_ok_steps [OF r(3) ok] by (auto simp: first_run_def)
  with settled_unhalted [OF ok' r(2), of 0] r show ?thesis by (auto simp: gate_names_def)
qed

lemma decide_all_advances:
  assumes "well_behaved ag" "run_ok r" "settled r" "\<not> halt_decided (r_log r)"
    and "advanced (r_log r) = take k gate_names" "k + length vs \<le> length gate_names"
    and "\<forall>v \<in> set vs. decided_action v \<notin> {PStr ''rerun'', PStr ''halt''}"
  shows "\<exists>r'. decide_all env ag vs r = Inr r' \<and> run_ok r' \<and> settled r' \<and> \<not> halt_decided (r_log r')
     \<and> advanced (r_log r') = take (k + length vs) gate_names"
  using assms(2-)
proof (induction vs arbitrary: r k)
  case Nil
  then show ?case by simp
next
  case (Cons v vs)
  have k: "k < length gate_names" using Cons.prems(5) by simp
  obtain payload where p: "r_pos r = Paused (gate_names ! k) payload"
    using settled_unhalted [OF Cons.prems(1-4) k] by blast
  have v: "decided_action v \<noteq> PStr ''rerun''" "decided_action v \<noteq> PStr ''halt''"
    using Cons.prems(6) by auto
  obtain r1 where r1: "answer env ag v r = Inr r1" "settled r1" "run_ok r1"
      "advanced (r_log r1) = take (Suc k) gate_names" "\<not> halt_decided (r_log r1)"
    using answer_settles [OF assms(1) Cons.prems(1) p, of env v] v k
    by (auto simp: Cons.prems(4) take_Suc_conv_app_nth)
  from Cons.IH [OF r1(3,2,5,4)] Cons.prems(5,6) r1(1) show ?case by auto
qed

lemma session_advances:
  assumes "well_behaved ag" "length vs \<le> length gate_names"
    and "\<forall>v \<in> set vs. decided_action v \<notin> {PStr ''rerun'', PStr ''halt''}"
  shows "\<exists>r'. session env ag s0 vs = Inr r' \<and> run_ok r' \<and> settled r' \<and> \<not> halt_decided (r_log r')
     \<and> advanced (r_log r') = take (length vs) gate_names"
proof -
  obtain r payload where r: "run_to_pause step_limit env ag (first_run s0) = Inr r"
      "r_pos r = Paused ''gate1'' payload" "run_ok r" "advanced (r_log r) = []"
    using first_run_settles [OF assms(1), of env s0] by blast
  then have "settled r" "\<not> halt_decided (r_log r)"
    by (auto simp: settled_def run_ok_def pos_ok_def)
  from decide_all_advances [OF assms(1) r(3) this, of 0 vs env] assms(2,3) r(1,4)
  show ?thesis by (simp add: session_def)
qed

end
