(* ===== verification/Runner.thy ===== *)
theory Runner
  imports Pipeline_Exec
begin

text \<open>
  The public surface of \<open>pipeline/graph/runner.py\<close> over the executor: the initial state of a run,
  the input of a run on a thread that may already hold a checkpoint, and \<open>run\<close>, \<open>run_gate\<close> and
  \<open>run_what_if\<close>; and the properties of the pipeline as a whole.
\<close>

definition build_initial_state ::
  "case_state \<Rightarrow> string \<Rightarrow> string option \<Rightarrow> string dict \<Rightarrow> bool \<Rightarrow> graph_state" where
  "build_initial_state c run_id start_agent extra is_resume =
     \<lparr>gs_case = c, gs_run_id = run_id,
      gs_extra_instructions = map (\<lambda>(k, v). (k, PStr v)) extra,
      gs_retry_counts = [], gs_halt = None, gs_research_parts = [],
      gs_retrieved_source_ids = [], gs_research_output = None, gs_intake_output = None,
      gs_synthesis_output = None, gs_audit_output = None, gs_pending_action = PNone,
      gs_is_resume = is_resume, gs_start_agent = start_agent, gs_judge_messages = []\<rparr>"

text \<open>
  The input of a run goes through the channel reducers of the thread's checkpoint: the case, the
  retry counts, the research parts and the source identifiers are merged, the other slots are
  replaced. \<open>retrieved_source_ids\<close> is not part of the input.
\<close>

definition start_input :: "graph_state option \<Rightarrow> graph_state \<Rightarrow> graph_state" where
  "start_input checkpoint s =
     (case checkpoint of None \<Rightarrow> s
      | Some old \<Rightarrow> s
          \<lparr>gs_case := merge_case (gs_case old) (Update (gs_case s)),
           gs_retry_counts := merge_retry_counts (gs_retry_counts old) (gs_retry_counts s),
           gs_research_parts := merge_research_parts (gs_research_parts old) (gs_research_parts s),
           gs_retrieved_source_ids := gs_retrieved_source_ids old\<rparr>)"

datatype runtime = in_process | cloud

definition parse_runtime :: "string \<Rightarrow> runtime result" where
  "parse_runtime m =
     (if m = ''in_process'' then Inr in_process
      else if m = ''cloud'' then Inr cloud else Inl ValueError)"

definition invoke ::
  "environment \<Rightarrow> agents \<Rightarrow> runtime \<Rightarrow> graph_state option \<Rightarrow> graph_state \<Rightarrow> (case_state \<times> run) result" where
  "invoke env ag mode checkpoint s =
     (case mode of
        cloud \<Rightarrow> Inl (OtherError ''NotImplementedError'')
      | in_process \<Rightarrow>
          bind_result (run_to_pause step_limit env ag (first_run (start_input checkpoint s)))
            (\<lambda>r. Inr (gs_case (r_state r), r)))"

definition run_id_or :: "case_state \<Rightarrow> string \<Rightarrow> string" where
  "run_id_or c fresh = (if cs_run_id c = [] then fresh else cs_run_id c)"

definition runner_run ::
  "environment \<Rightarrow> agents \<Rightarrow> runtime \<Rightarrow> graph_state option \<Rightarrow> string \<Rightarrow> case_state
   \<Rightarrow> (case_state \<times> run) result" where
  "runner_run env ag mode checkpoint fresh c =
     invoke env ag mode checkpoint (build_initial_state c (run_id_or c fresh) None [] False)"

definition gate_entry_node :: "string dict" where
  "gate_entry_node =
     [(''gate1'', ''intake''), (''gate2'', ''research_dispatch''), (''gate3'', ''synthesis''),
      (''gate4'', ''auditor'')]"

definition gate_pause_status :: "case_status_enum dict" where
  "gate_pause_status =
     [(''gate1'', E_awaiting_review_gate1), (''gate2'', E_awaiting_review_gate2),
      (''gate3'', E_awaiting_review_gate3), (''gate4'', E_awaiting_review_gate4)]"

definition run_gate_state ::
  "case_state \<Rightarrow> string \<Rightarrow> string option \<Rightarrow> string option \<Rightarrow> string \<Rightarrow> graph_state" where
  "run_gate_state c gate start_agent extra fresh =
     (let entry_node = (case start_agent of
                Some a \<Rightarrow> if a = [] then map_of gate_entry_node gate else Some a
              | None \<Rightarrow> map_of gate_entry_node gate);
          extra_map = (case (extra, start_agent) of
                (Some e, Some a) \<Rightarrow> if e \<noteq> [] \<and> a \<noteq> [] then [(a, e)] else []
              | _ \<Rightarrow> [])
      in build_initial_state c (run_id_or c fresh) entry_node extra_map (start_agent \<noteq> None))"

definition run_gate ::
  "environment \<Rightarrow> agents \<Rightarrow> runtime \<Rightarrow> graph_state option \<Rightarrow> string \<Rightarrow> case_state \<Rightarrow> string
   \<Rightarrow> string option \<Rightarrow> string option \<Rightarrow> (case_state \<times> run) result" where
  "run_gate env ag mode checkpoint fresh c gate start_agent extra =
     bind_result (invoke env ag mode checkpoint (run_gate_state c gate start_agent extra fresh))
       (\<lambda>(c', r). case map_of gate_pause_status gate of
          None \<Rightarrow> Inl (KeyErr (''awaiting_review_'' @ gate))
        | Some st \<Rightarrow> Inr (c'\<lparr>cs_status := st\<rparr>, r))"

definition run_what_if ::
  "environment \<Rightarrow> agents \<Rightarrow> runtime \<Rightarrow> graph_state option \<Rightarrow> string \<Rightarrow> case_state \<Rightarrow> string
   \<Rightarrow> string option \<Rightarrow> (case_state \<times> run) result" where
  "run_what_if env ag mode checkpoint fresh c start_agent run_id =
     invoke env ag mode checkpoint
       (build_initial_state c (case run_id of Some i \<Rightarrow> if i = [] then fresh else i | None \<Rightarrow> fresh)
          (Some start_agent) [] True)"

section \<open>Reachability of executed runs\<close>

lemma reachable_steps: "(graph_step env)\<^sup>*\<^sup>* r r' \<Longrightarrow> reachable env s0 r \<Longrightarrow> reachable env s0 r'"
  by (induction rule: rtranclp_induct) (auto intro: reachable.step)

lemma reachable_first: "reachable env s0 (first_run s0)"
  unfolding first_run_def by (rule reachable.start)

lemma run_to_pause_reaches:
  assumes "run_to_pause n env ag r = Inr r'"
  shows "(graph_step env)\<^sup>*\<^sup>* r r'"
  using assms
proof (induction n arbitrary: r)
  case 0
  then show ?case by (auto simp: run_to_pause.simps split: if_splits)
next
  case (Suc n)
  show ?case
  proof (cases "settled r")
    case True
    with Suc.prems show ?thesis by (simp add: run_to_pause.simps)
  next
    case False
    with Suc.prems obtain r1 where r1: "exec_step env ag r = Inr r1" "run_to_pause n env ag r1 = Inr r'"
      by (subst (asm) run_to_pause.simps) (auto simp: bind_result_Inr)
    then show ?thesis
      using Suc.IH exec_step_sound [OF r1(1) False] by (blast intro: converse_rtranclp_into_rtranclp)
  qed
qed

lemma resume_with_step: "resume_with v r = Inr r' \<Longrightarrow> graph_step env r r'"
  by (auto simp: resume_with_def split: position.splits intro: graph_step.resume)

lemma answer_reaches: "answer env ag v r = Inr r' \<Longrightarrow> (graph_step env)\<^sup>*\<^sup>* r r'"
  unfolding answer_def bind_result_Inr
  by (blast intro: converse_rtranclp_into_rtranclp resume_with_step run_to_pause_reaches)

lemma decide_all_reaches: "decide_all env ag vs r = Inr r' \<Longrightarrow> (graph_step env)\<^sup>*\<^sup>* r r'"
proof (induction vs arbitrary: r)
  case (Cons v vs)
  then obtain r1 where "answer env ag v r = Inr r1" "decide_all env ag vs r1 = Inr r'"
    by (auto simp: bind_result_Inr)
  with Cons.IH show ?case by (blast intro: rtranclp_trans answer_reaches)
qed simp

lemma session_reachable:
  assumes "session env ag s0 vs = Inr r" shows "reachable env s0 r"
proof -
  obtain r0 where "run_to_pause step_limit env ag (first_run s0) = Inr r0"
      "decide_all env ag vs r0 = Inr r"
    using assms by (auto simp: session_def bind_result_Inr)
  then have "(graph_step env)\<^sup>*\<^sup>* (first_run s0) r"
    by (blast intro: rtranclp_trans run_to_pause_reaches decide_all_reaches)
  then show ?thesis by (blast intro: reachable_steps reachable_first)
qed

section \<open>A concrete pipeline\<close>

text \<open>The environment, agents and start state of the examples below.\<close>

definition plain_env :: environment where
  "plain_env = \<lparr>env_rep = (\<lambda>_. ''?''), env_coerce = (\<lambda>_ _ s. s), env_dump = (\<lambda>_ _. None),
                env_trace = None\<rparr>"

definition silent_agents :: agents where
  "silent_agents = (\<lambda>_ _. (St_none, []))"

definition case7 :: graph_state where
  "case7 = build_initial_state (new_case_state ''case7'' ''run1'') ''run1'' None [] False"

lemma silent_agents_behave: "well_behaved silent_agents"
  by (simp add: well_behaved_def silent_agents_def)

text \<open>The log of a session, evaluated.\<close>

definition session_log :: "pyval list \<Rightarrow> event list option" where
  "session_log vs =
     (case session plain_env silent_agents case7 vs of Inl _ \<Rightarrow> None | Inr r \<Rightarrow> Some (r_log r))"

definition session_at_end :: "pyval list \<Rightarrow> bool" where
  "session_at_end vs =
     (case session plain_env silent_agents case7 vs of
        Inl _ \<Rightarrow> False
      | Inr r \<Rightarrow> (case r_pos r of At n \<Rightarrow> n = end_node | _ \<Rightarrow> False))"

lemma session_logD:
  "session_log vs = Some t \<Longrightarrow> \<exists>r. session plain_env silent_agents case7 vs = Inr r \<and> r_log r = t"
  by (auto simp: session_log_def split: sum.splits)

lemma session_at_endD:
  "session_at_end vs \<Longrightarrow>
     \<exists>r. session plain_env silent_agents case7 vs = Inr r \<and> r_pos r = At end_node"
  by (auto simp: session_at_end_def split: sum.splits position.splits)

section \<open>Properties\<close>

text \<open>C2: In every reachable run, whatever the agents answered and whatever the judge decided, a
  stage node ran only after the judge had let exactly the gates before it pass, in order, and
  before any halt.\<close>

theorem judge_orders_the_stages:
  assumes "reachable env s0 r" and "r_log r = pre @ Ran n # post"
    and "map_of stage_table n = Some k"
  shows "advanced pre = take k gate_names \<and> \<not> halt_decided pre"
  using run_ok_reachable [OF assms(1)] assms(2,3) unfolding run_ok_def log_ok_def by blast

theorem judge_orders_the_stages_witness:
  "advanced [Ran ''intake'', Judge ''gate1'' (PStr ''advance''), Ran ''gate1_apply''] = [''gate1'']"
proof -
  have "session_log [PStr ''advance''] =
      Some ([Ran ''intake'', Judge ''gate1'' (PStr ''advance''), Ran ''gate1_apply'']
        @ Ran ''research_dispatch'' #
        [Ran ''research_evidence'', Ran ''research_facts'', Ran ''research_witnesses'',
         Ran ''research_law'', Ran ''research_join''])"
    by code_simp
  then obtain r where r: "session plain_env silent_agents case7 [PStr ''advance''] = Inr r"
      "r_log r = [Ran ''intake'', Judge ''gate1'' (PStr ''advance''), Ran ''gate1_apply'']
        @ Ran ''research_dispatch'' #
        [Ran ''research_evidence'', Ran ''research_facts'', Ran ''research_witnesses'',
         Ran ''research_law'', Ran ''research_join'']"
    using session_logD by blast
  show ?thesis
    using judge_orders_the_stages [OF session_reachable [OF r(1)] r(2) stage_at(2)]
    by (simp add: gate_names_def)
qed

text \<open>C3: A run that has ended was either let through all four gates, in order, or halted by the
  judge.\<close>

theorem ended_run_was_reviewed:
  assumes "reachable env s0 r" and "r_pos r = At end_node"
  shows "advanced (r_log r) = gate_names \<or> halt_decided (r_log r)"
  using run_ok_reachable [OF assms(1)] assms(2) by (simp add: run_ok_def pos_ok_def node_ok_at)

theorem ended_run_was_reviewed_witness:
  "\<exists>r. reachable plain_env case7 r \<and> r_pos r = At end_node
     \<and> (advanced (r_log r) = gate_names \<or> halt_decided (r_log r))"
proof -
  have "session_at_end [PStr ''advance'', PStr ''rerun'', PStr ''halt'']" by code_simp
  then obtain r where r: "session plain_env silent_agents case7 [PStr ''advance'', PStr ''rerun'', PStr ''halt''] = Inr r"
      "r_pos r = At end_node"
    using session_at_endD by blast
  have "reachable plain_env case7 r" using r(1) by (rule session_reachable)
  with r(2) ended_run_was_reviewed [OF this r(2)] show ?thesis by blast
qed



text \<open>\<open>k\<close> decisions that neither rerun nor halt take a fresh run past exactly the first \<open>k\<close>
  gates: it waits at the next one, and after four it has ended.\<close>

lemma advancing_session:
  assumes "well_behaved ag" and "length vs \<le> 4"
    and "\<forall>v \<in> set vs. decided_action v \<notin> {PStr ''rerun'', PStr ''halt''}"
  shows "\<exists>r. session env ag s0 vs = Inr r \<and> advanced (r_log r) = take (length vs) gate_names
     \<and> (if length vs = 4 then r_pos r = At end_node
        else \<exists>payload. r_pos r = Paused (gate_names ! length vs) payload)"
proof -
  have len: "length vs \<le> length gate_names" using assms(2) by (simp add: gate_names_def)
  from session_advances [OF assms(1) len assms(3)] obtain r where
    r: "session env ag s0 vs = Inr r" "run_ok r" "settled r" "\<not> halt_decided (r_log r)"
       "advanced (r_log r) = take (length vs) gate_names" by blast
  show ?thesis
  proof (cases "length vs = 4")
    case True
    then have "r_pos r = At end_node"
      using settled_position [OF r(2,3)] r(5) gate_index_less
      by (auto simp: gate_names_def gate_index_def split: if_splits)
    with True r show ?thesis by auto
  next
    case False
    then have "length vs < length gate_names" using assms(2) by (simp add: gate_names_def)
    with False r settled_unhalted [OF r(2-5)] show ?thesis by auto
  qed
qed

lemma advancing_session_witness:
  "\<exists>r. session plain_env silent_agents case7 [PStr ''advance'', PNone, PDict []] = Inr r
     \<and> (\<exists>payload. r_pos r = Paused ''gate4'' payload)"
  using advancing_session [OF silent_agents_behave, of "[PStr ''advance'', PNone, PDict []]"
      plain_env case7]
  by (auto simp: decided_action_def pget_def_def gate_names_def)

text \<open>A decision to halt ends the run from whichever gate it is given, without passing that
  gate and without running another stage; a decision to rerun never passes a gate.\<close>

lemma halt_and_rerun_at_a_gate:
  assumes "well_behaved ag" and "reachable env s0 r" and "r_pos r = Paused g payload"
    and "decided_action v = PStr ''halt'' \<or> decided_action v = PStr ''rerun''"
  shows "\<exists>r'. answer env ag v r = Inr r' \<and> advanced (r_log r') = advanced (r_log r)
     \<and> (decided_action v = PStr ''halt'' \<longrightarrow> r_pos r' = At end_node)
     \<and> (decided_action v = PStr ''rerun'' \<longrightarrow> (\<exists>payload'. r_pos r' = Paused g payload'))"
proof -
  have ok: "run_ok r" using assms(2) by (rule run_ok_reachable)
  then have g: "g \<in> set gate_names" "advanced (r_log r) = take (gate_index g) gate_names"
    using assms(3) by (auto simp: run_ok_def pos_ok_def)
  obtain r' where r': "answer env ag v r = Inr r'" "settled r'" "run_ok r'"
      "advanced (r_log r') = advanced (r_log r)"
      "halt_decided (r_log r') \<longleftrightarrow> decided_action v = PStr ''halt''"
    using answer_settles [OF assms(1) ok assms(3), of env v] assms(4) by auto
  have "r_pos r' = At end_node" if "decided_action v = PStr ''halt''"
    using settled_position [OF r'(3,2)] r'(5) that by auto
  moreover have "\<exists>payload'. r_pos r' = Paused g payload'" if "decided_action v = PStr ''rerun''"
  proof -
    have "gate_names ! gate_index g = g"
      using gate_names_cases [OF g(1)] by (auto simp: gate_index_def gate_names_def)
    then show ?thesis
      using settled_unhalted [OF r'(3,2), of "gate_index g"] r'(4,5) g(2) gate_index_less that
      by auto
  qed
  ultimately show ?thesis using r' by blast
qed

lemma halt_and_rerun_at_a_gate_witness:
  "\<exists>r r'. session plain_env silent_agents case7 [] = Inr r
     \<and> answer plain_env silent_agents (PStr ''halt'') r = Inr r' \<and> r_pos r' = At end_node"
proof -
  obtain r payload where r: "run_to_pause step_limit plain_env silent_agents (first_run case7) = Inr r"
      "r_pos r = Paused ''gate1'' payload"
    using first_run_settles [OF silent_agents_behave] by blast
  then have s: "session plain_env silent_agents case7 [] = Inr r" by (simp add: session_def)
  from halt_and_rerun_at_a_gate [OF silent_agents_behave session_reachable [OF s] r(2),
      of "PStr ''halt''"] s
  show ?thesis by (auto simp: decided_action_def)
qed

end
