(* ===== verification/Resume.thy ===== *)
theory Resume
  imports Runner
begin

text \<open>
  Resuming a paused run, \<open>pipeline/graph/resume.py\<close>: the translation of a response job into a
  resume value, the inspection of pending interrupts, the send-back to an earlier phase and the
  cancellation. The compiled graph with its checkpointer is LangGraph's: the functions take its
  operations as a record of functions, the locale \<open>gate_thread\<close> states what they rely on, and the
  executor of the pipeline is an instance of it.
\<close>

section \<open>Pending interrupts\<close>

record task =
  tk_name :: string
  tk_interrupts :: "pyval list"

definition gate_from_pause_node :: "string \<Rightarrow> string option" where
  "gate_from_pause_node node_name =
     (if \<not> starts_with ''gate'' node_name \<or> \<not> ends_with ''_pause'' node_name then None
      else
        let middle = drop 4 (take (length node_name - 6) node_name)
        in if middle = [] \<or> \<not> list_all is_digit middle then None
           else Some (''gate'' @ middle))"

definition has_pending_interrupt :: "task list \<Rightarrow> bool" where
  "has_pending_interrupt tasks = list_ex (\<lambda>t. tk_interrupts t \<noteq> []) tasks"

fun find_pending_interrupt :: "task list \<Rightarrow> (string \<times> pydict) option" where
  "find_pending_interrupt [] = None"
| "find_pending_interrupt (t # ts) =
     (case tk_interrupts t of
        [] \<Rightarrow> find_pending_interrupt ts
      | v # _ \<Rightarrow> (case gate_from_pause_node (tk_name t) of
          None \<Rightarrow> find_pending_interrupt ts
        | Some gate \<Rightarrow> Some (gate, case v of PDict d \<Rightarrow> d | _ \<Rightarrow> [])))"

definition is_ask_judge :: "pyval \<Rightarrow> bool" where
  "is_ask_judge v = (case v of PDict d \<Rightarrow> map_of d ''kind'' = Some (PStr ''ask_judge'') | _ \<Rightarrow> False)"

definition find_pending_chat_interrupt :: "task list \<Rightarrow> pydict option" where
  "find_pending_chat_interrupt tasks =
     (case find is_ask_judge (concat (map tk_interrupts tasks)) of
        Some (PDict d) \<Rightarrow> Some d
      | _ \<Rightarrow> None)"

section \<open>The resume value\<close>

definition build_resume_payload :: "(pyval \<Rightarrow> string) \<Rightarrow> pydict \<Rightarrow> pydict result" where
  "build_resume_payload rep payload =
     (case pget payload ''resume_action'' of
        PStr action \<Rightarrow>
          if action \<notin> {''advance'', ''rerun'', ''halt''} then Inl ValueError
          else
            let notes = pget payload ''notes''; subagent = pget payload ''subagent'';
                r0 = [(''action'', PStr action)];
                r1 = (if action = ''rerun'' \<and> truthy subagent then
                        dict_set ''notes''
                          (PDict [(py_str rep subagent,
                                   PStr (if truthy notes then py_str rep notes else []))]) r0
                      else if truthy notes then dict_set ''notes'' notes r0
                      else r0)
            in Inr (case pget payload ''field_corrections'' of
                      PDict d \<Rightarrow> dict_set ''field_corrections'' (PDict d) r1
                    | _ \<Rightarrow> r1)
      | PList _ \<Rightarrow> Inl (OtherError ''TypeError'')
      | PDict _ \<Rightarrow> Inl (OtherError ''TypeError'')
      | _ \<Rightarrow> Inl ValueError)"

section \<open>Operations of a checkpointed graph\<close>

text \<open>
  \<open>aget_state(config).tasks\<close>, \<open>aget_state_history\<close> newest first with the tasks of each
  checkpoint, \<open>aupdate_state\<close> at a checkpoint (or the head), and \<open>ainvoke(Command(resume=v))\<close> there.
\<close>

record ('t, 'c) graph_ops =
  op_tasks :: "'t \<Rightarrow> task list"
  op_history :: "'t \<Rightarrow> ('c \<times> task list) list"
  op_update :: "'t \<Rightarrow> 'c option \<Rightarrow> pydict \<Rightarrow> 't \<times> 'c"
  op_resume :: "'t \<Rightarrow> 'c option \<Rightarrow> pydict \<Rightarrow> 't result"

datatype resume_outcome =
    Interrupted string pydict
  | Chat pydict
  | Terminal

definition drive_resume ::
  "(pyval \<Rightarrow> string) \<Rightarrow> ('t, 'c) graph_ops \<Rightarrow> 't \<Rightarrow> pydict \<Rightarrow> ('t \<times> resume_outcome) result" where
  "drive_resume rep ops t payload =
     (if \<not> has_pending_interrupt (op_tasks ops t)
      then Inl (RuntimeErr ''drive_resume invoked but the saver has no pending interrupt'')
      else bind_result (build_resume_payload rep payload) (\<lambda>resume.
           bind_result (op_resume ops t None resume) (\<lambda>t'.
             Inr (t', case find_pending_chat_interrupt (op_tasks ops t') of
                        Some chat \<Rightarrow> Chat chat
                      | None \<Rightarrow> (case find_pending_interrupt (op_tasks ops t') of
                          None \<Rightarrow> Terminal
                        | Some (gate, p) \<Rightarrow> Interrupted gate p)))))"

definition phase_following_gate :: "string dict" where
  "phase_following_gate =
     [(''intake'', ''gate1''), (''research'', ''gate2''), (''synthesis'', ''gate3'')]"

definition pause_checkpoint :: "string \<Rightarrow> 'c \<times> task list \<Rightarrow> bool" where
  "pause_checkpoint node snap =
     list_ex (\<lambda>t. tk_name t = node \<and> tk_interrupts t \<noteq> []) (snd snap)"

definition send_back_to_phase ::
  "('t, 'c) graph_ops \<Rightarrow> 't \<Rightarrow> string \<Rightarrow> string option \<Rightarrow> ('t \<times> string option) result" where
  "send_back_to_phase ops t to_phase notes =
     (case map_of phase_following_gate to_phase of
        None \<Rightarrow> Inl ValueError
      | Some target_gate \<Rightarrow>
          (case find (pause_checkpoint (target_gate @ ''_pause'')) (op_history ops t) of
             None \<Rightarrow> Inl (RuntimeErr ''send_back: no interrupted checkpoint'')
           | Some (target_config, _) \<Rightarrow>
               let (t1, forked_config) =
                     (case notes of
                        Some (c # cs) \<Rightarrow>
                          op_update ops t (Some target_config)
                            [(''extra_instructions'', PDict [(to_phase, PStr (c # cs))])]
                      | _ \<Rightarrow> (t, target_config))
               in bind_result
                    (op_resume ops t1 (Some forked_config) [(''action'', PStr ''rerun'')])
                    (\<lambda>t2. Inr (t2, map_option fst (find_pending_interrupt (op_tasks ops t2))))))"

definition non_empty :: "string option \<Rightarrow> bool" where
  "non_empty x = (case x of None \<Rightarrow> False | Some s \<Rightarrow> s \<noteq> [])"

definition cancel_halt_payload :: "string option \<Rightarrow> string option \<Rightarrow> pydict" where
  "cancel_halt_payload reason by =
     [(''reason'', PStr ''cancelled'')]
     @ (if non_empty by then [(''by'', PStr (the by))] else [])
     @ (if non_empty reason then [(''notes'', PStr (the reason))] else [])"

definition cancel_via_halt ::
  "('t, 'c) graph_ops \<Rightarrow> 't \<Rightarrow> string option \<Rightarrow> string option \<Rightarrow> 't result" where
  "cancel_via_halt ops t reason by =
     (let halt_update = [(''halt'', PDict (cancel_halt_payload reason by))]
      in if has_pending_interrupt (op_tasks ops t) then
           bind_result
             (op_resume ops t None
                ((''action'', PStr ''halt'')
                 # (if non_empty reason then [(''notes'', PStr (the reason))] else [])))
             (\<lambda>t'. Inr (fst (op_update ops t' None halt_update)))
         else Inr (fst (op_update ops t None halt_update)))"

section \<open>What the functions rely on\<close>

text \<open>
  A live thread is paused at one gate or has no task; resuming it, or a checkpoint paused at a
  gate, leaves it live; an advance goes on to the following gate or the end, a rerun comes back to
  the gate it was given at and a halt ends the run; writing slots moves nothing.
\<close>

definition following_gate :: "string \<Rightarrow> string option" where
  "following_gate g = (if Suc (gate_index g) < length gate_names
     then Some (gate_names ! Suc (gate_index g)) else None)"

definition rerun_value :: pydict where "rerun_value = [(''action'', PStr ''rerun'')]"

definition pause_tasks :: "string option \<Rightarrow> pydict \<Rightarrow> task list" where
  "pause_tasks gate payload =
     (case gate of None \<Rightarrow> []
      | Some g \<Rightarrow> [\<lparr>tk_name = g @ ''_pause'', tk_interrupts = [PDict payload]\<rparr>])"

locale gate_thread =
  fixes ops :: "('t, 'c) graph_ops" and live :: "'t \<Rightarrow> bool"
    and paused_at :: "'t \<Rightarrow> string option" and payload_of :: "'t \<Rightarrow> pydict"
  assumes tasks_of_thread: "live t \<Longrightarrow> op_tasks ops t = pause_tasks (paused_at t) (payload_of t)"
    and known_gate: "live t \<Longrightarrow> paused_at t = Some g \<Longrightarrow> g \<in> set gate_names"
    and gate_payload: "live t \<Longrightarrow> \<not> is_ask_judge (PDict (payload_of t))"
    and resume_live: "live t \<Longrightarrow> paused_at t = Some g \<Longrightarrow>
          \<exists>t'. op_resume ops t None d = Inr t' \<and> live t'"
    and halt_ends: "live t \<Longrightarrow> paused_at t = Some g \<Longrightarrow> op_resume ops t None d = Inr t' \<Longrightarrow>
          map_of d ''action'' = Some (PStr ''halt'') \<Longrightarrow> paused_at t' = None"
    and advance_moves_on: "live t \<Longrightarrow> paused_at t = Some g \<Longrightarrow> op_resume ops t None d = Inr t' \<Longrightarrow>
          map_of d ''action'' = Some (PStr ''advance'') \<Longrightarrow> paused_at t' = following_gate g"
    and head_reruns: "live t \<Longrightarrow> paused_at t = Some g \<Longrightarrow> op_resume ops t None d = Inr t' \<Longrightarrow>
          map_of d ''action'' = Some (PStr ''rerun'') \<Longrightarrow> paused_at t' = Some g"
    and fork_reruns: "live t \<Longrightarrow> snap \<in> set (op_history ops t) \<Longrightarrow> g \<in> set gate_names \<Longrightarrow>
          pause_checkpoint (g @ ''_pause'') snap \<Longrightarrow>
          \<exists>t'. op_resume ops t (Some (fst snap)) rerun_value = Inr t' \<and> live t'
             \<and> paused_at t' = Some g"
    and update_head: "live t \<Longrightarrow> live (fst (op_update ops t None u))
          \<and> paused_at (fst (op_update ops t None u)) = paused_at t"
    and update_fork: "live t \<Longrightarrow> snap \<in> set (op_history ops t) \<Longrightarrow>
          op_update ops t (Some (fst snap)) u = (t1, c1) \<Longrightarrow>
          live t1 \<and> (c1, snd snap) \<in> set (op_history ops t1)"
begin

lemma gate_pause_node: "g \<in> set gate_names \<Longrightarrow> gate_from_pause_node (g @ ''_pause'') = Some g"
  by (drule gate_names_cases, elim disjE)
    (simp_all add: gate_from_pause_node_def starts_with_def ends_with_def is_digit_def Let_def)

lemma pending: "live t \<Longrightarrow> has_pending_interrupt (op_tasks ops t) \<longleftrightarrow> paused_at t \<noteq> None"
  by (auto simp: tasks_of_thread pause_tasks_def has_pending_interrupt_def split: option.split)

lemma pending_gate:
  "live t \<Longrightarrow> find_pending_interrupt (op_tasks ops t)
     = map_option (\<lambda>g. (g, payload_of t)) (paused_at t)"
  using known_gate
  by (auto simp: tasks_of_thread pause_tasks_def gate_pause_node split: option.split)

lemma no_chat: "live t \<Longrightarrow> find_pending_chat_interrupt (op_tasks ops t) = None"
  using gate_payload
  by (auto simp: tasks_of_thread pause_tasks_def find_pending_chat_interrupt_def split: option.split)

lemma drive_resume_not_pending:
  "live t \<Longrightarrow> paused_at t = None \<Longrightarrow> \<exists>e. drive_resume rep ops t payload = Inl (RuntimeErr e)"
  by (simp add: drive_resume_def pending)

lemma drive_resume_outcome:
  assumes "live t" "paused_at t = Some g" "build_resume_payload rep payload = Inr d"
  shows "\<exists>t' out. drive_resume rep ops t payload = Inr (t', out) \<and> op_resume ops t None d = Inr t'
     \<and> live t' \<and> out = (case paused_at t' of None \<Rightarrow> Terminal
                        | Some g' \<Rightarrow> Interrupted g' (payload_of t'))"
proof -
  obtain t' where t': "op_resume ops t None d = Inr t'" "live t'"
    using resume_live [OF assms(1,2)] by blast
  then show ?thesis
    using assms
    by (auto simp: drive_resume_def pending no_chat pending_gate split: option.split)
qed

lemma send_back_outcome:
  assumes "live t" "map_of phase_following_gate ph = Some g"
    and "\<exists>snap \<in> set (op_history ops t). pause_checkpoint (g @ ''_pause'') snap"
  shows "\<exists>t'. send_back_to_phase ops t ph notes = Inr (t', Some g) \<and> live t' \<and> paused_at t' = Some g"
proof -
  have g: "g \<in> set gate_names" using assms(2)
    by (auto simp: phase_following_gate_def gate_names_def split: if_splits)
  obtain c ts where snap: "find (pause_checkpoint (g @ ''_pause'')) (op_history ops t) = Some (c, ts)"
    using assms(3) by (cases "find (pause_checkpoint (g @ ''_pause'')) (op_history ops t)")
      (auto simp: find_None_iff)
  then have mem: "(c, ts) \<in> set (op_history ops t)" "pause_checkpoint (g @ ''_pause'') (c, ts)"
    using find_Some_in by fastforce+
  define f where "f = (case notes of Some (x # xs) \<Rightarrow>
      op_update ops t (Some c) [(''extra_instructions'', PDict [(ph, PStr (x # xs))])] | _ \<Rightarrow> (t, c))"
  obtain t1 c1 where f: "f = (t1, c1)" by fastforce
  have "live t1 \<and> (c1, ts) \<in> set (op_history ops t1)"
    using f mem(1) assms(1) update_fork [OF assms(1) mem(1)]
    by (auto simp: f_def split: option.splits list.splits)
  moreover have "pause_checkpoint (g @ ''_pause'') (c1, ts)"
    using mem(2) by (simp add: pause_checkpoint_def)
  ultimately obtain t2 where t2: "op_resume ops t1 (Some c1) rerun_value = Inr t2" "live t2"
      "paused_at t2 = Some g"
    using fork_reruns [of t1 "(c1, ts)" g] g by auto
  then have "send_back_to_phase ops t ph notes = Inr (t2, Some g)"
    using assms(2) snap f unfolding send_back_to_phase_def f_def rerun_value_def
    by (simp add: pending_gate)
  with t2 show ?thesis by blast
qed

lemma send_back_sound:
  assumes "live t" "send_back_to_phase ops t ph notes = Inr (t', ng)"
  shows "\<exists>g. map_of phase_following_gate ph = Some g \<and> ng = Some g \<and> live t' \<and> paused_at t' = Some g"
proof -
  obtain g where g: "map_of phase_following_gate ph = Some g"
    using assms(2) by (auto simp: send_back_to_phase_def split: option.splits)
  then obtain snap where "find (pause_checkpoint (g @ ''_pause'')) (op_history ops t) = Some snap"
    using assms(2) by (auto simp: send_back_to_phase_def split: option.splits)
  then have "\<exists>snap \<in> set (op_history ops t). pause_checkpoint (g @ ''_pause'') snap"
    using find_Some_in by fastforce
  from send_back_outcome [OF assms(1) g this, of "notes"] assms(2) g show ?thesis by auto
qed

lemma cancel_outcome:
  assumes "live t"
  shows "\<exists>t'. cancel_via_halt ops t reason by = Inr t' \<and> live t' \<and> paused_at t' = None
     \<and> (\<exists>t1. live t1 \<and> t' = fst (op_update ops t1 None
                [(''halt'', PDict (cancel_halt_payload reason by))]))"
proof (cases "paused_at t")
  case None
  then show ?thesis
    using assms update_head by (auto simp: cancel_via_halt_def pending Let_def)
next
  case (Some g)
  let ?d = "(''action'', PStr ''halt'')
              # (if non_empty reason then [(''notes'', PStr (the reason))] else [])"
  obtain t1 where t1: "op_resume ops t None ?d = Inr t1" "live t1"
    using resume_live [OF assms Some] by blast
  have "paused_at t1 = None" using halt_ends [OF assms Some t1(1)] by simp
  with t1 Some assms update_head show ?thesis
    by (auto simp: cancel_via_halt_def pending Let_def)
qed

end

section \<open>The pipeline's thread\<close>

text \<open>
  A thread of the pipeline: its checkpoints, oldest first, each a settled run, and the head. A
  checkpoint's configuration is its index; resuming or updating one makes the result the new head
  and extends the history.
\<close>

record thread =
  th_env :: environment
  th_agents :: agents
  th_head :: run
  th_checkpoints :: "run list"

definition run_gate_of :: "run \<Rightarrow> string option" where
  "run_gate_of r = (case r_pos r of Paused g _ \<Rightarrow> Some g | _ \<Rightarrow> None)"

definition run_payload :: "run \<Rightarrow> pydict" where
  "run_payload r = (case r_pos r of Paused _ p \<Rightarrow> p | _ \<Rightarrow> [])"

definition run_tasks :: "run \<Rightarrow> task list" where
  "run_tasks r = pause_tasks (run_gate_of r) (run_payload r)"

definition thread_run :: "thread \<Rightarrow> nat option \<Rightarrow> run option" where
  "thread_run t c =
     (case c of None \<Rightarrow> Some (th_head t)
      | Some i \<Rightarrow> if i < length (th_checkpoints t) then Some (th_checkpoints t ! i) else None)"

definition push_run :: "run \<Rightarrow> thread \<Rightarrow> thread" where
  "push_run r t = t\<lparr>th_head := r, th_checkpoints := th_checkpoints t @ [r]\<rparr>"

definition thread_update :: "thread \<Rightarrow> nat option \<Rightarrow> pydict \<Rightarrow> thread \<times> nat" where
  "thread_update t c u =
     (case thread_run t c of
        None \<Rightarrow> (t, length (th_checkpoints t))
      | Some r \<Rightarrow>
          (push_run (r\<lparr>r_state := apply_update (env_coerce (th_env t)) u (r_state r)\<rparr>) t,
           length (th_checkpoints t)))"

definition thread_resume :: "thread \<Rightarrow> nat option \<Rightarrow> pydict \<Rightarrow> thread result" where
  "thread_resume t c d =
     (case thread_run t c of
        None \<Rightarrow> Inl (OtherError ''unknown checkpoint'')
      | Some r \<Rightarrow> bind_result (answer (th_env t) (th_agents t) (PDict d) r)
                    (\<lambda>r'. Inr (push_run r' t)))"

definition thread_history :: "thread \<Rightarrow> (nat \<times> task list) list" where
  "thread_history t = rev (zip [0..<length (th_checkpoints t)] (map run_tasks (th_checkpoints t)))"

definition pipeline_ops :: "(thread, nat) graph_ops" where
  "pipeline_ops = \<lparr>op_tasks = (\<lambda>t. run_tasks (th_head t)), op_history = thread_history,
                   op_update = thread_update, op_resume = thread_resume\<rparr>"

definition payload_ok :: "run \<Rightarrow> bool" where
  "payload_ok r \<longleftrightarrow> map_of (run_payload r) ''kind'' = None"

definition checkpoint_ok :: "run \<Rightarrow> bool" where
  "checkpoint_ok r \<longleftrightarrow> run_ok r \<and> settled r \<and> payload_ok r"

definition thread_live :: "thread \<Rightarrow> bool" where
  "thread_live t \<longleftrightarrow> well_behaved (th_agents t) \<and> checkpoint_ok (th_head t)
     \<and> list_all checkpoint_ok (th_checkpoints t)"

definition start_thread :: "environment \<Rightarrow> agents \<Rightarrow> graph_state \<Rightarrow> thread result" where
  "start_thread env ag s0 =
     bind_result (run_to_pause step_limit env ag (first_run s0)) (\<lambda>r.
       Inr \<lparr>th_env = env, th_agents = ag, th_head = r, th_checkpoints = [r]\<rparr>)"

lemma pause_payload_kind:
  "make_gate_pause dump trace g s = Inr p \<Longrightarrow> map_of p ''kind'' = None"
  by (auto simp: make_gate_pause_def opt_entry_def map_add_def split: option.splits if_splits)

lemma payload_ok_step: "graph_step env r r' \<Longrightarrow> payload_ok r'"
  by (induction rule: graph_step.induct)
    (auto simp: payload_ok_def run_payload_def follow_def dest: pause_payload_kind)

lemma payload_ok_steps: "(graph_step env)\<^sup>*\<^sup>* r r' \<Longrightarrow> payload_ok r \<Longrightarrow> payload_ok r'"
  by (induction rule: rtranclp_induct) (auto intro: payload_ok_step)

lemma checkpoint_gate:
  "checkpoint_ok r \<Longrightarrow> run_gate_of r = Some g \<Longrightarrow>
     g \<in> set gate_names \<and> r_pos r = Paused g (run_payload r)"
  by (auto simp: checkpoint_ok_def run_gate_of_def run_payload_def run_ok_def pos_ok_def
      split: position.splits)

lemma checkpoint_update [simp]: "checkpoint_ok r \<Longrightarrow> checkpoint_ok (r\<lparr>r_state := s\<rparr>)"
  by (auto simp: checkpoint_ok_def settled_def run_ok_def pos_ok_def payload_ok_def run_payload_def
      node_ok_at split: position.splits)

lemma run_gate_update [simp]:
  "run_gate_of (r\<lparr>r_state := s\<rparr>) = run_gate_of r" "run_tasks (r\<lparr>r_state := s\<rparr>) = run_tasks r"
  by (simp_all add: run_gate_of_def run_tasks_def run_payload_def)

lemma answer_checkpoint:
  assumes "well_behaved ag" "checkpoint_ok r" "run_gate_of r = Some g"
  shows "\<exists>r'. answer env ag (PDict d) r = Inr r' \<and> checkpoint_ok r'
     \<and> (map_of d ''action'' = Some (PStr ''halt'') \<longrightarrow> run_gate_of r' = None)
     \<and> (map_of d ''action'' = Some (PStr ''rerun'') \<longrightarrow> run_gate_of r' = Some g)
     \<and> (map_of d ''action'' = Some (PStr ''advance'') \<longrightarrow> run_gate_of r' = following_gate g)"
proof -
  have r: "run_ok r" "payload_ok r" "r_pos r = Paused g (run_payload r)" "g \<in> set gate_names"
    using assms(2,3) checkpoint_gate by (auto simp: checkpoint_ok_def)
  obtain r' where r': "answer env ag (PDict d) r = Inr r'" "settled r'" "run_ok r'"
      "(graph_step env)\<^sup>*\<^sup>* r r'"
      "advanced (r_log r') = advanced (r_log r) @ advances (Judge g (PDict d))"
      "halt_decided (r_log r') \<longleftrightarrow> decided_action (PDict d) = PStr ''halt''"
    using answer_settles [OF assms(1) r(1,3)] by blast
  have "payload_ok r'" using payload_ok_steps [OF r'(4) r(2)] .
  moreover have "run_gate_of r' = None" if "map_of d ''action'' = Some (PStr ''halt'')"
    using settled_position [OF r'(3,2)] r'(6) that
    by (auto simp: decided_action_def pget_def_def run_gate_of_def)
  moreover have "run_gate_of r' = Some g" if "map_of d ''action'' = Some (PStr ''rerun'')"
  proof -
    have "advanced (r_log r') = take (gate_index g) gate_names" "\<not> halt_decided (r_log r')"
      using r'(5,6) that r(1,3)
      by (simp_all add: decided_action_def pget_def_def run_ok_def pos_ok_def)
    moreover have "gate_names ! gate_index g = g"
      using gate_names_cases [OF r(4)] by (auto simp: gate_index_def gate_names_def)
    ultimately show ?thesis
      using settled_unhalted [OF r'(3,2), of "gate_index g"] gate_index_less [of g]
      by (auto simp: run_gate_of_def)
  qed
  moreover have "run_gate_of r' = following_gate g" if "map_of d ''action'' = Some (PStr ''advance'')"
  proof -
    have "advanced (r_log r') = take (gate_index g) gate_names @ [g]" and unhalted: "\<not> halt_decided (r_log r')"
      using r'(5,6) that r(1,3)
      by (simp_all add: decided_action_def pget_def_def run_ok_def pos_ok_def)
    moreover have "gate_names ! gate_index g = g"
      using gate_names_cases [OF r(4)] by (auto simp: gate_index_def gate_names_def)
    ultimately have adv: "advanced (r_log r') = take (Suc (gate_index g)) gate_names"
      using gate_index_less [of g] by (simp add: take_Suc_conv_app_nth)
    show ?thesis
    proof (cases "Suc (gate_index g) < length gate_names")
      case True
      with settled_unhalted [OF r'(3,2) unhalted adv] show ?thesis
        by (auto simp: run_gate_of_def following_gate_def)
    next
      case False
      then have "length (advanced (r_log r')) = length gate_names" using adv by simp
      then have "\<not> (\<exists>h. advanced (r_log r') = take (gate_index h) gate_names)"
        using gate_index_less by (metis length_take min_less_iff_conj nat_neq_iff)
      with settled_position [OF r'(3,2)] False show ?thesis
        by (auto simp: run_gate_of_def following_gate_def)
    qed
  qed
  ultimately show ?thesis using r' by (auto simp: checkpoint_ok_def)
qed

lemma history_entry:
  "snap \<in> set (thread_history t) \<Longrightarrow> fst snap < length (th_checkpoints t)
     \<and> snd snap = run_tasks (th_checkpoints t ! fst snap)"
  by (auto simp: thread_history_def in_set_zip)

lemma history_nth:
  "i < length (th_checkpoints t) \<Longrightarrow> (i, run_tasks (th_checkpoints t ! i)) \<in> set (thread_history t)"
  by (auto simp: thread_history_def in_set_zip intro!: exI [of _ i])

lemma pause_checkpoint_run:
  "pause_checkpoint (g @ ''_pause'') (c, run_tasks r) \<Longrightarrow> run_gate_of r = Some g"
  by (auto simp: pause_checkpoint_def run_tasks_def pause_tasks_def split: option.splits)

interpretation pipeline: gate_thread pipeline_ops thread_live "\<lambda>t. run_gate_of (th_head t)"
  "\<lambda>t. run_payload (th_head t)"
proof
  fix t :: thread and g d t' u snap t1 c1
  assume live: "thread_live t"
  then have ok: "checkpoint_ok (th_head t)" "well_behaved (th_agents t)"
    by (auto simp: thread_live_def)
  show "op_tasks pipeline_ops t = pause_tasks (run_gate_of (th_head t)) (run_payload (th_head t))"
    by (simp add: pipeline_ops_def run_tasks_def)
  show "\<not> is_ask_judge (PDict (run_payload (th_head t)))"
    using ok(1) by (simp add: is_ask_judge_def checkpoint_ok_def payload_ok_def)
  show "thread_live (fst (op_update pipeline_ops t None u))
      \<and> run_gate_of (th_head (fst (op_update pipeline_ops t None u))) = run_gate_of (th_head t)"
    using live by (simp add: pipeline_ops_def thread_update_def thread_run_def push_run_def
        thread_live_def)
  show "thread_live t1 \<and> (c1, snd snap) \<in> set (op_history pipeline_ops t1)"
    if "snap \<in> set (op_history pipeline_ops t)"
      and "op_update pipeline_ops t (Some (fst snap)) u = (t1, c1)"
  proof -
    have snap: "fst snap < length (th_checkpoints t)"
      "snd snap = run_tasks (th_checkpoints t ! fst snap)"
      using that(1) history_entry by (auto simp: pipeline_ops_def)
    let ?r = "th_checkpoints t ! fst snap"
    let ?r' = "?r\<lparr>r_state := apply_update (env_coerce (th_env t)) u (r_state ?r)\<rparr>"
    have t1: "t1 = push_run ?r' t" "c1 = length (th_checkpoints t)"
      using that(2) snap(1) by (auto simp: pipeline_ops_def thread_update_def thread_run_def)
    have "checkpoint_ok ?r" using live snap(1) by (simp add: thread_live_def list_all_length)
    with live t1 have "thread_live t1" by (simp add: thread_live_def push_run_def)
    moreover have "(c1, run_tasks (th_checkpoints t1 ! c1)) \<in> set (thread_history t1)"
      by (rule history_nth) (simp add: t1 push_run_def)
    ultimately show ?thesis using snap(2) t1 by (simp add: pipeline_ops_def push_run_def)
  qed
  show "\<exists>t'. op_resume pipeline_ops t (Some (fst snap)) rerun_value = Inr t' \<and> thread_live t'
      \<and> run_gate_of (th_head t') = Some g"
    if "snap \<in> set (op_history pipeline_ops t)" "pause_checkpoint (g @ ''_pause'') snap"
  proof -
    have snap: "fst snap < length (th_checkpoints t)"
      "snd snap = run_tasks (th_checkpoints t ! fst snap)"
      using that(1) history_entry by (auto simp: pipeline_ops_def)
    then have g: "run_gate_of (th_checkpoints t ! fst snap) = Some g"
      using that(2) pause_checkpoint_run [of g "fst snap"] by (metis prod.collapse)
    have "checkpoint_ok (th_checkpoints t ! fst snap)"
      using live snap(1) by (simp add: thread_live_def list_all_length)
    from answer_checkpoint [OF ok(2) this g, of "th_env t" rerun_value] live snap(1)
    show ?thesis
      by (auto simp: pipeline_ops_def thread_resume_def thread_run_def push_run_def thread_live_def
          rerun_value_def)
  qed
  assume g: "run_gate_of (th_head t) = Some g"
  show "g \<in> set gate_names" using checkpoint_gate [OF ok(1) g] by simp
  note ans = answer_checkpoint [OF ok(2,1) g, of "th_env t" d]
  show "\<exists>t'. op_resume pipeline_ops t None d = Inr t' \<and> thread_live t'"
    using ans live
    by (auto simp: pipeline_ops_def thread_resume_def thread_run_def push_run_def thread_live_def)
  show "run_gate_of (th_head t') = None"
    if "op_resume pipeline_ops t None d = Inr t'" "map_of d ''action'' = Some (PStr ''halt'')"
    using ans that
    by (auto simp: pipeline_ops_def thread_resume_def thread_run_def push_run_def)
  show "run_gate_of (th_head t') = following_gate g"
    if "op_resume pipeline_ops t None d = Inr t'" "map_of d ''action'' = Some (PStr ''advance'')"
    using ans that
    by (auto simp: pipeline_ops_def thread_resume_def thread_run_def push_run_def)
  show "run_gate_of (th_head t') = Some g"
    if "op_resume pipeline_ops t None d = Inr t'" "map_of d ''action'' = Some (PStr ''rerun'')"
    using ans that
    by (auto simp: pipeline_ops_def thread_resume_def thread_run_def push_run_def)
qed

section \<open>Properties\<close>

lemma start_thread_live:
  assumes "well_behaved ag"
  shows "\<exists>t. start_thread env ag s0 = Inr t \<and> thread_live t \<and> run_gate_of (th_head t) = Some ''gate1''
     \<and> (0, run_tasks (th_head t)) \<in> set (thread_history t)"
proof -
  obtain r payload where r: "run_to_pause step_limit env ag (first_run s0) = Inr r"
      "r_pos r = Paused ''gate1'' payload" "run_ok r" "(graph_step env)\<^sup>*\<^sup>* (first_run s0) r"
    using first_run_settles [OF assms] by blast
  have "payload_ok (first_run s0)" by (simp add: payload_ok_def run_payload_def first_run_def)
  then have "payload_ok r" by (rule payload_ok_steps [OF r(4)])
  with r assms show ?thesis
    by (auto simp: start_thread_def thread_live_def checkpoint_ok_def settled_def run_gate_of_def
        thread_history_def)
qed

lemma resume_payload_shape:
  assumes "map_of payload ''resume_action'' = Some (PStr a)" "a \<in> set gate_actions"
  shows "\<exists>d. build_resume_payload rep payload = Inr d \<and> map_of d ''action'' = Some (PStr a)
     \<and> fst ` set d \<subseteq> {''action'', ''notes'', ''field_corrections''}"
proof -
  have "a = ''advance'' \<or> a = ''rerun'' \<or> a = ''halt''"
    using assms(2) by (auto simp: gate_actions_def)
  then show ?thesis
    using assms(1) unfolding build_resume_payload_def pget_def
    by (simp add: Let_def split: pyval.split)
qed

lemma resume_payload_action:
  assumes "build_resume_payload rep payload = Inr d"
  shows "\<exists>a. map_of payload ''resume_action'' = Some (PStr a) \<and> a \<in> set gate_actions"
proof (cases "map_of payload ''resume_action''")
  case None
  then show ?thesis using assms by (simp add: build_resume_payload_def pget_def)
next
  case (Some v)
  then show ?thesis using assms
    by (cases v) (auto simp: build_resume_payload_def pget_def gate_actions_def split: if_splits)
qed

text \<open>A response job is translated exactly when its action is one of the three gate actions,
  and the resume value carries that action and no other keys than notes and field corrections.\<close>

lemma resume_payload_carries_the_action:
  "(\<exists>d. build_resume_payload rep payload = Inr d
        \<and> map_of d ''action'' = Some (PStr a) \<and> fst ` set d \<subseteq> {''action'', ''notes'', ''field_corrections''})
   \<longleftrightarrow> map_of payload ''resume_action'' = Some (PStr a) \<and> a \<in> set gate_actions"
proof
  assume "\<exists>d. build_resume_payload rep payload = Inr d \<and> map_of d ''action'' = Some (PStr a)
      \<and> fst ` set d \<subseteq> {''action'', ''notes'', ''field_corrections''}"
  then obtain d where d: "build_resume_payload rep payload = Inr d"
    "map_of d ''action'' = Some (PStr a)" by blast
  obtain b where b: "map_of payload ''resume_action'' = Some (PStr b)" "b \<in> set gate_actions"
    using resume_payload_action [OF d(1)] by blast
  with resume_payload_shape [OF b, of rep] d show "map_of payload ''resume_action'' = Some (PStr a)
      \<and> a \<in> set gate_actions" by auto
next
  assume "map_of payload ''resume_action'' = Some (PStr a) \<and> a \<in> set gate_actions"
  then show "\<exists>d. build_resume_payload rep payload = Inr d \<and> map_of d ''action'' = Some (PStr a)
      \<and> fst ` set d \<subseteq> {''action'', ''notes'', ''field_corrections''}"
    using resume_payload_shape by blast
qed

text \<open>A rerun of gate 2 that names a research scope fans out to that scope alone: through the
  job's resume value, the gate's command, the state it writes and the router.\<close>

lemma targeted_rerun_runs_one_scope:
  assumes "scope \<in> set research_scopes"
    and "map_of payload ''resume_action'' = Some (PStr ''rerun'')"
    and "map_of payload ''subagent'' = Some (PStr scope)"
    and "map_of payload ''field_corrections'' = None"
  shows "\<exists>d cmd. build_resume_payload rep payload = Inr d
     \<and> make_gate_apply rep ''gate2'' ''synthesis'' ''research_dispatch''
           (s\<lparr>gs_pending_action := PDict d\<rparr>) = Inr cmd
     \<and> cmd_goto cmd = ''research_dispatch''
     \<and> map send_node (route_to_research_subagents
           (apply_update co (cmd_update cmd) (s\<lparr>gs_pending_action := PDict d\<rparr>)))
         = [research_subagent_node scope]"
proof -
  let ?note = "PStr (if truthy (pget payload ''notes'') then py_str rep (pget payload ''notes'') else [])"
  let ?d = "[(''action'', PStr ''rerun''), (''notes'', PDict [(scope, ?note)])]"
  have "scope \<noteq> []" using assms(1) by (auto simp: research_scopes_def)
  then have d: "build_resume_payload rep payload = Inr ?d"
    using assms(2-4) by (simp add: build_resume_payload_def Let_def pget_def)
  have "make_gate_apply rep ''gate2'' ''synthesis'' ''research_dispatch''
      (s\<lparr>gs_pending_action := PDict ?d\<rparr>) = Inr \<lparr>cmd_update =
        [(''pending_action'', PNone), (''extra_instructions'', PDict [(scope, ?note)])],
        cmd_goto = ''research_dispatch''\<rparr>"
    by (simp add: make_gate_apply_def gate_names_def Let_def pget_def pget_def_def
        rerun_instructions_def)
  with d show ?thesis
    by (simp add: route_to_research_subagents_def routed_scopes_single [OF assms(1)])
qed

lemma targeted_rerun_runs_one_scope_witness:
  "\<exists>d cmd. build_resume_payload (\<lambda>_. []) [(''resume_action'', PStr ''rerun''), (''subagent'', PStr ''law'')]
      = Inr d
     \<and> make_gate_apply (\<lambda>_. []) ''gate2'' ''synthesis'' ''research_dispatch''
           (case7\<lparr>gs_pending_action := PDict d\<rparr>) = Inr cmd
     \<and> cmd_goto cmd = ''research_dispatch''
     \<and> map send_node (route_to_research_subagents
           (apply_update (\<lambda>_ _ s. s) (cmd_update cmd) (case7\<lparr>gs_pending_action := PDict d\<rparr>)))
         = [''research_law'']"
  using targeted_rerun_runs_one_scope [of "''law''"
      "[(''resume_action'', PStr ''rerun''), (''subagent'', PStr ''law'')]"]
  by (simp add: research_scopes_def research_subagent_node_def)

text \<open>Notes the judge gives with a rerun are written under the gate's name, where no agent
  looks: after the command, no phase and no research scope finds corrective instructions.\<close>

lemma rerun_notes_reach_no_agent:
  assumes "gate \<in> set gate_names" and "gs_pending_action s = PDict d"
    and "map_of d ''action'' = Some (PStr ''rerun'')" and "map_of d ''notes'' = Some (PStr n)" "n \<noteq> []"
    and "map_of d ''field_corrections'' = None"
    and "ph \<in> set (map snd phase_nodes) \<union> (\<lambda>sc. ''research-'' @ sc) ` set research_scopes"
  shows "\<exists>cmd. make_gate_apply rep gate adv rer s = Inr cmd
     \<and> gs_extra_instructions (apply_update co (cmd_update cmd) s) = [(gate, PStr n)]
     \<and> node_corrections ph (apply_update co (cmd_update cmd) s) = PNone"
proof -
  have "make_gate_apply rep gate adv rer s = Inr \<lparr>cmd_update =
      [(''pending_action'', PNone), (''extra_instructions'', PDict [(gate, PStr n)])],
      cmd_goto = rer\<rparr>"
    using gate_apply_rerun [OF assms(1-3)] assms(4-6)
    by (simp add: pget_def rerun_instructions_def)
  moreover have "ph \<noteq> gate"
    using assms(7) gate_names_cases [OF assms(1)]
    by (auto simp: phase_nodes_def research_scopes_def)
  ultimately show ?thesis by (simp add: node_corrections_def pget_def)
qed

lemma rerun_notes_reach_no_agent_witness:
  "\<exists>cmd. make_gate_apply (\<lambda>_. []) ''gate3'' ''auditor'' ''synthesis''
       (case7\<lparr>gs_pending_action := PDict [(''action'', PStr ''rerun''), (''notes'', PStr ''weigh E2'')]\<rparr>)
       = Inr cmd
     \<and> node_corrections ''synthesis'' (apply_update (\<lambda>_ _ s. s) (cmd_update cmd)
          (case7\<lparr>gs_pending_action := PDict [(''action'', PStr ''rerun''), (''notes'', PStr ''weigh E2'')]\<rparr>))
       = PNone"
  using rerun_notes_reach_no_agent [of "''gate3''"
      "case7\<lparr>gs_pending_action := PDict [(''action'', PStr ''rerun''), (''notes'', PStr ''weigh E2'')]\<rparr>"
      "[(''action'', PStr ''rerun''), (''notes'', PStr ''weigh E2'')]" "''weigh E2''" "''synthesis''"
      "\<lambda>_. []" "''auditor''" "''synthesis''" "\<lambda>_ _ s. s"]
  by (auto simp: gate_names_def phase_nodes_def)

text \<open>Driving a resume on the pipeline's thread refuses a thread with nothing pending, and
  otherwise reports where the resumed run stands: the gate it paused at with its payload, or the
  end.\<close>

lemma drive_resume_reports_the_next_stop:
  assumes "thread_live t"
  shows "case run_gate_of (th_head t) of
      None \<Rightarrow> \<exists>e. drive_resume rep pipeline_ops t payload = Inl (RuntimeErr e)
    | Some g \<Rightarrow> \<forall>d. build_resume_payload rep payload = Inr d \<longrightarrow>
        (\<exists>t'. thread_resume t None d = Inr t' \<and> thread_live t'
           \<and> drive_resume rep pipeline_ops t payload
             = Inr (t', case run_gate_of (th_head t') of None \<Rightarrow> Terminal
                        | Some g' \<Rightarrow> Interrupted g' (run_payload (th_head t'))))"
proof (cases "run_gate_of (th_head t)")
  case None
  then show ?thesis using pipeline.drive_resume_not_pending [OF assms] by simp
next
  case (Some g)
  have "op_resume pipeline_ops t None d = thread_resume t None d" for d
    by (simp add: pipeline_ops_def)
  with pipeline.drive_resume_outcome [OF assms Some] Some show ?thesis by fastforce
qed

lemma drive_resume_reports_the_next_stop_witness:
  "\<exists>t t'. start_thread plain_env silent_agents case7 = Inr t
     \<and> (\<exists>out. drive_resume (\<lambda>_. []) pipeline_ops t [(''resume_action'', PStr ''advance'')] = Inr (t', out))
     \<and> thread_live t'"
proof -
  obtain t where t: "start_thread plain_env silent_agents case7 = Inr t" "thread_live t"
      "run_gate_of (th_head t) = Some ''gate1''"
    using start_thread_live [OF silent_agents_behave] by blast
  have "build_resume_payload (\<lambda>_. []) [(''resume_action'', PStr ''advance'')]
      = Inr [(''action'', PStr ''advance'')]"
    by (simp add: build_resume_payload_def pget_def Let_def)
  with drive_resume_reports_the_next_stop [OF t(2)] t show ?thesis by fastforce
qed

text \<open>Sending a case back to a phase whose gate it has paused at rewinds to that gate and
  pauses there again, whatever later checkpoints exist; the audit phase and unknown phases are
  refused.\<close>

lemma send_back_pauses_at_the_phase_gate:
  assumes "thread_live t" and "(ph, g) \<in> {(''intake'', ''gate1''), (''research'', ''gate2''), (''synthesis'', ''gate3'')}"
    and "(i, run_tasks (th_checkpoints t ! i)) \<in> set (thread_history t)"
    and "run_gate_of (th_checkpoints t ! i) = Some g"
  shows "(\<exists>t'. send_back_to_phase pipeline_ops t ph notes = Inr (t', Some g) \<and> thread_live t'
        \<and> run_gate_of (th_head t') = Some g)
     \<and> send_back_to_phase pipeline_ops t ''audit'' notes = Inl ValueError"
proof
  have "map_of phase_following_gate ph = Some g"
    using assms(2) by (auto simp: phase_following_gate_def)
  moreover have "pause_checkpoint (g @ ''_pause'') (i, run_tasks (th_checkpoints t ! i))"
    by (simp add: pause_checkpoint_def run_tasks_def pause_tasks_def assms(4))
  then have "\<exists>snap \<in> set (op_history pipeline_ops t). pause_checkpoint (g @ ''_pause'') snap"
    using assms(3) by (auto simp: pipeline_ops_def)
  ultimately show "\<exists>t'. send_back_to_phase pipeline_ops t ph notes = Inr (t', Some g) \<and> thread_live t'
      \<and> run_gate_of (th_head t') = Some g"
    by (rule pipeline.send_back_outcome [OF assms(1)])
  show "send_back_to_phase pipeline_ops t ''audit'' notes = Inl ValueError"
    by (simp add: send_back_to_phase_def phase_following_gate_def)
qed

lemma send_back_pauses_at_the_phase_gate_witness:
  "\<exists>t t'. start_thread plain_env silent_agents case7 = Inr t
     \<and> send_back_to_phase pipeline_ops t ''intake'' (Some ''check the plate'') = Inr (t', Some ''gate1'')"
proof -
  obtain t where t: "start_thread plain_env silent_agents case7 = Inr t" "thread_live t"
      "run_gate_of (th_head t) = Some ''gate1''" "(0, run_tasks (th_head t)) \<in> set (thread_history t)"
    using start_thread_live [OF silent_agents_behave] by blast
  then have "th_checkpoints t ! 0 = th_head t" by (auto simp: start_thread_def bind_result_Inr)
  with t send_back_pauses_at_the_phase_gate [OF t(2), of "''intake''" "''gate1''" 0] show ?thesis
    by auto
qed

text \<open>After a cancellation the thread waits at no gate and its halt slot holds the
  cancellation, not the gate's judge halt.\<close>

lemma cancel_leaves_a_cancelled_thread:
  assumes "thread_live t"
  shows "\<exists>t'. cancel_via_halt pipeline_ops t reason by = Inr t' \<and> thread_live t'
     \<and> run_gate_of (th_head t') = None
     \<and> gs_halt (r_state (th_head t')) = Some (cancel_halt_payload reason by)
     \<and> map_of (cancel_halt_payload reason by) ''reason'' = Some (PStr ''cancelled'')"
proof -
  obtain t' t1 where t': "cancel_via_halt pipeline_ops t reason by = Inr t'" "thread_live t'"
      "run_gate_of (th_head t') = None"
      "t' = fst (op_update pipeline_ops t1 None [(''halt'', PDict (cancel_halt_payload reason by))])"
    using pipeline.cancel_outcome [OF assms] by blast
  then have "gs_halt (r_state (th_head t')) = Some (cancel_halt_payload reason by)"
    by (simp add: pipeline_ops_def thread_update_def thread_run_def push_run_def)
  with t' show ?thesis by (simp add: cancel_halt_payload_def)
qed

lemma cancel_leaves_a_cancelled_thread_witness:
  "\<exists>t t'. start_thread plain_env silent_agents case7 = Inr t
     \<and> cancel_via_halt pipeline_ops t None (Some ''judge7'') = Inr t'
     \<and> run_gate_of (th_head t') = None"
proof -
  obtain t where t: "start_thread plain_env silent_agents case7 = Inr t" "thread_live t"
    using start_thread_live [OF silent_agents_behave] by blast
  with cancel_leaves_a_cancelled_thread [OF t(2), of None "Some ''judge7''"] show ?thesis by blast
qed

end
