(* ===== verification/Worker.thy ===== *)
theory Worker
  imports Persist Resume
begin

text \<open>
  The jobs that drive the graph: the first run of a case (\<open>_run_case_pipeline\<close> of
  \<open>api/routes/cases.py\<close> with the hydration of its state), the gate runs of \<open>workers/tasks.py\<close>, the
  publication of an interrupt with its status write (\<open>services/pipeline_events.py\<close>), and the
  watchdog of \<open>services/stuck_case_watchdog.py\<close>.
\<close>

section \<open>World\<close>

datatype sse_event =
    Interrupt_event uuid string pydict
  | Progress_event uuid string string pydict
  | Agent_event uuid pydict

record 't world =
  w_db :: database
  w_threads :: "uuid \<Rightarrow> 't option"
  w_events :: "sse_event list"
  w_cancelled :: "uuid list"

text \<open>
  The runner over checkpointed threads: a first run, a legacy gate run, the operations of a
  thread, and the \<open>case\<close> and \<open>halt\<close> slots of its state. The other fields are the environment of
  the worker's writes.
\<close>

record ('t, 'c) runtime_env =
  re_run :: "'t option \<Rightarrow> case_state \<Rightarrow> ('t \<times> case_state) result"
  re_run_gate :: "'t option \<Rightarrow> case_state \<Rightarrow> string \<Rightarrow> string option \<Rightarrow> string option
                   \<Rightarrow> ('t \<times> case_state) result"
  re_ops :: "('t, 'c) graph_ops"
  re_case :: "'t \<Rightarrow> case_state"
  re_halt :: "'t \<Rightarrow> pydict option"
  re_parsers :: parsers
  re_serialize :: "case_state \<Rightarrow> pyval"
  re_answers :: "nat \<Rightarrow> write_outcome"
  re_now :: int

definition publish :: "sse_event \<Rightarrow> 't world \<Rightarrow> 't world" where
  "publish ev w = w\<lparr>w_events := w_events w @ [ev]\<rparr>"

definition set_thread :: "uuid \<Rightarrow> 't \<Rightarrow> 't world \<Rightarrow> 't world" where
  "set_thread cid t w = w\<lparr>w_threads := (w_threads w)(cid \<mapsto> t)\<rparr>"

text \<open>A write of case columns stamps \<open>updated_at\<close>.\<close>

definition set_status :: "int \<Rightarrow> uuid \<Rightarrow> case_status \<Rightarrow> database \<Rightarrow> database" where
  "set_status now cid s db = update_case cid (\<lambda>c. c\<lparr>ca_status := s, ca_updated_at := Some now\<rparr>) db"

definition gate_state_of :: "int \<Rightarrow> pydict" where
  "gate_state_of gate_num =
     [(''current_gate'', PInt gate_num), (''awaiting_review'', PBool True), (''rerun_agent'', PNone)]"

definition gate_number :: "string \<Rightarrow> int" where
  "gate_number gate = digit_val (last gate)"

definition upsert_legacy_gate_status :: "int \<Rightarrow> uuid \<Rightarrow> string \<Rightarrow> database \<Rightarrow> database" where
  "upsert_legacy_gate_status now cid gate db =
     (if gate \<notin> {''gate1'', ''gate2'', ''gate3'', ''gate4''} then db
      else case parse_status (''awaiting_review_'' @ gate) of
        None \<Rightarrow> db
      | Some s \<Rightarrow> update_case cid
          (\<lambda>c. c\<lparr>ca_status := s, ca_gate_state := Some (gate_state_of (gate_number gate)),
                 ca_updated_at := Some now\<rparr>) db)"

definition publish_interrupt :: "int \<Rightarrow> uuid \<Rightarrow> string \<Rightarrow> pydict \<Rightarrow> 't world \<Rightarrow> 't world" where
  "publish_interrupt now cid gate payload w =
     (publish (Interrupt_event cid gate payload) w)
       \<lparr>w_db := upsert_legacy_gate_status now cid gate (w_db w)\<rparr>"

text \<open>\<open>persist_case_results\<close> in a session of its own.\<close>

definition persist_world ::
  "('t, 'c) runtime_env \<Rightarrow> uuid \<Rightarrow> case_state \<Rightarrow> pydict option \<Rightarrow> 't world \<Rightarrow> 't world \<times> py_error option" where
  "persist_world env cid st g w =
     (case persist_case_results (re_parsers env) (re_serialize env) (re_answers env) cid st g (w_db w) of
        (db, err) \<Rightarrow> (w\<lparr>w_db := db\<rparr>, err))"

section \<open>The state of a first run\<close>

definition optional_text :: "pyval \<Rightarrow> string option" where
  "optional_text v =
     (case v of PStr s \<Rightarrow> if py_strip s = [] then None else Some (py_strip s) | _ \<Rightarrow> None)"

text \<open>
  One document of \<open>_hydrate_raw_documents\<close>: the cached parse, or the outcome of a back-fill when
  there is a file to parse.
\<close>

definition hydrate_document ::
  "(uuid \<Rightarrow> pydict option) \<Rightarrow> document_row \<Rightarrow> pyval" where
  "hydrate_document backfill d =
     (let parsed = (case dc_parsed_text d of
            Some p \<Rightarrow> Some p
          | None \<Rightarrow> if non_empty (dc_openai_file_id d) then backfill (dc_id d) else None);
          p = (case parsed of None \<Rightarrow> [] | Some x \<Rightarrow> x);
          txt = pget p ''text''
      in PDict [(''document_id'', PStr (dc_id d)), (''filename'', PStr (dc_filename d)),
                (''file_type'', dump_opt PStr (optional_text (dump_opt PStr (dc_file_type d)))),
                (''openai_file_id'', dump_opt PStr (optional_text (dump_opt PStr (dc_openai_file_id d)))),
                (''pages'', if pget p ''pages'' = PNone then dump_opt (\<lambda>v. v) (dc_pages d)
                             else pget p ''pages''),
                (''parsed_text'', if truthy txt then txt else PStr [])])"

definition hydrate_raw_documents :: "(uuid \<Rightarrow> pydict option) \<Rightarrow> document_row list \<Rightarrow> pyval list" where
  "hydrate_raw_documents backfill ds = map (hydrate_document backfill) ds"

definition bridged_metadata_fields :: "string list" where
  "bridged_metadata_fields =
     [''title'', ''description'', ''filed_date'', ''claim_amount'',
      ''consent_to_higher_claim_limit'', ''offence_code'']"

definition case_column :: "(int \<Rightarrow> string) \<Rightarrow> case_row \<Rightarrow> string \<Rightarrow> pyval" where
  "case_column isoformat c field =
     (if field = ''title'' then dump_opt PStr (ca_title c)
      else if field = ''description'' then dump_opt PStr (ca_description c)
      else if field = ''filed_date'' then dump_opt (\<lambda>d. PStr (isoformat d)) (ca_filed_date c)
      else if field = ''claim_amount'' then dump_opt PFloat (ca_claim_amount c)
      else if field = ''consent_to_higher_claim_limit'' then
        PBool (ca_consent_to_higher_claim_limit c)
      else if field = ''offence_code'' then dump_opt PStr (ca_offence_code c)
      else PNone)"

definition extraction_fields :: "case_row \<Rightarrow> pydict" where
  "extraction_fields c =
     (case ca_intake_extraction c of None \<Rightarrow> []
      | Some e \<Rightarrow> (case pget e ''fields'' of PDict d \<Rightarrow> d | _ \<Rightarrow> []))"

definition bridged_parties :: "party_row list \<Rightarrow> pydict \<Rightarrow> pyval list" where
  "bridged_parties parties extracted =
     (if parties \<noteq> [] then
        map (\<lambda>p. PDict [(''name'', PStr (pa_name p)), (''role'', PStr (pa_role p)),
                        (''contact_info'', dump_opt PDict (pa_contact_info p))]) parties
      else case pget extracted ''parties'' of
        PList ps \<Rightarrow> concat (map (\<lambda>p. case p of
            PDict d \<Rightarrow> [PDict [(''name'', pget d ''name''), (''role'', pget d ''role''),
                          (''contact_info'', pget d ''contact_info'')]]
          | _ \<Rightarrow> []) ps)
      | _ \<Rightarrow> [])"

definition bridged_metadata :: "(int \<Rightarrow> string) \<Rightarrow> case_row \<Rightarrow> pydict" where
  "bridged_metadata isoformat c =
     map (\<lambda>f. (f, if truthy (case_column isoformat c f) then case_column isoformat c f
                  else pget (extraction_fields c) f)) bridged_metadata_fields"

definition initial_case_state ::
  "(int \<Rightarrow> string) \<Rightarrow> (uuid \<Rightarrow> pydict option) \<Rightarrow> uuid \<Rightarrow> case_row \<Rightarrow> database \<Rightarrow> case_state" where
  "initial_case_state isoformat backfill fresh_run c db =
     (new_case_state (ca_id c) fresh_run)
       \<lparr>cs_domain := Some (ca_domain c),
        cs_domain_vector_store_id :=
          (case find_domain (ca_domain_id c) db of None \<Rightarrow> None
           | Some d \<Rightarrow> if do_is_active d then do_vector_store_id d else None),
        cs_raw_documents := hydrate_raw_documents backfill
          (filter (\<lambda>d. dc_case d = ca_id c) (db_documents db)),
        cs_parties := bridged_parties (filter (\<lambda>p. pa_case p = ca_id c) (db_parties db))
          (extraction_fields c),
        cs_case_metadata := bridged_metadata isoformat c,
        cs_intake_extraction := ca_intake_extraction c\<rparr>"

section \<open>First run\<close>

definition close_event :: "uuid \<Rightarrow> string \<Rightarrow> sse_event" where
  "close_event cid stopped_at = Progress_event cid ''pipeline'' ''awaiting_review''
     [(''reason'', PStr ''gate_pause''), (''stopped_at'', PStr stopped_at)]"

text \<open>The checkpoint of a finished gate, keyed by the case and the gate.\<close>

definition gate_checkpoint ::
  "('t, 'c) runtime_env \<Rightarrow> uuid \<Rightarrow> string \<Rightarrow> case_state \<Rightarrow> 't world \<Rightarrow> 't world \<times> py_error option" where
  "gate_checkpoint env cid gate st w =
     (if cs_run_id st = [] then (w, None)
      else case fst (persist_case_state (re_serialize env) (re_answers env) cid
                       (cid @ ''-'' @ gate) ''gate_complete'' st (db_checkpoints (w_db w))) of
          Inl e \<Rightarrow> (w, Some e)
        | Inr cks \<Rightarrow> (w\<lparr>w_db := (w_db w)\<lparr>db_checkpoints := cks\<rparr>\<rparr>, None))"

text \<open>
  \<open>cancelled_meanwhile\<close>: whether the cancel flag was set while the graph ran. The gate of a pause
  comes from the thread, or from a status the run itself has set.
\<close>

definition run_case_pipeline ::
  "('t, 'c) runtime_env \<Rightarrow> (int \<Rightarrow> string) \<Rightarrow> (uuid \<Rightarrow> pydict option) \<Rightarrow> uuid \<Rightarrow> bool \<Rightarrow> uuid
   \<Rightarrow> 't world \<Rightarrow> 't world \<times> py_error option" where
  "run_case_pipeline env isoformat backfill fresh_run cancelled_meanwhile cid w0 =
     (let w = w0\<lparr>w_cancelled := removeAll cid (w_cancelled w0)\<rparr>
      in case find_case cid (w_db w) of
        None \<Rightarrow> (w, None)
      | Some c \<Rightarrow>
          (case re_run env (w_threads w cid)
                  (initial_case_state isoformat backfill fresh_run c (w_db w)) of
             Inl e \<Rightarrow>
               ((publish (Progress_event cid ''pipeline'' ''failed''
                   [(''reason'', PStr ''orchestrator_exception'')]) w)
                  \<lparr>w_db := set_status (re_now env) cid S_failed (w_db w)\<rparr>, None)
           | Inr (t, final_state) \<Rightarrow>
               let w1 = set_thread cid t w
               in if cancelled_meanwhile \<and> cs_status final_state = E_processing then
                    (w1\<lparr>w_db := set_status (re_now env) cid S_failed (w_db w1)\<rparr>, None)
                  else
                    let pending = find_pending_interrupt (op_tasks (re_ops env) t);
                        status_val = case_status_value (cs_status final_state);
                        gate = (case pending of
                              Some (g, _) \<Rightarrow> Some g
                            | None \<Rightarrow> if starts_with ''awaiting_review_gate'' status_val
                                      then Some (drop 16 status_val) else None)
                    in case persist_world env cid final_state
                              (map_option (\<lambda>g. gate_state_of (gate_number g)) gate) w1 of
                         (w2, Some e) \<Rightarrow> (w2, Some e)
                       | (w2, None) \<Rightarrow>
                           let w3 = (case pending of
                                 Some (g, payload) \<Rightarrow> publish_interrupt (re_now env) cid g payload w2
                               | None \<Rightarrow> w2)
                           in case gate of
                                None \<Rightarrow> (w3, None)
                              | Some g \<Rightarrow>
                                  (case gate_checkpoint env cid g final_state w3 of
                                     (w4, Some e) \<Rightarrow> (w4, Some e)
                                   | (w4, None) \<Rightarrow>
                                       (publish (close_event cid (''awaiting_review_'' @ g)) w4, None))))"

section \<open>Gate runs\<close>

text \<open>The domain is read again before every gate run.\<close>

definition live_domain :: "uuid \<Rightarrow> database \<Rightarrow> domain_row result" where
  "live_domain cid db =
     (case find_case cid db of
        None \<Rightarrow> Inl ValueError
      | Some c \<Rightarrow>
          (case find_domain (ca_domain_id c) db of
             None \<Rightarrow> Inl (RetiredDomain ''Case has no linked domain; cannot resume'')
           | Some d \<Rightarrow>
               if \<not> do_is_active d \<or> \<not> non_empty (do_vector_store_id d)
               then Inl (RetiredDomain ''Domain retired mid-case; aborting gate resume'')
               else Inr d))"

definition halted :: "pydict option \<Rightarrow> bool" where
  "halted h = (case h of None \<Rightarrow> False | Some d \<Rightarrow> d \<noteq> [])"

definition terminal_detail :: "pydict option \<Rightarrow> pydict" where
  "terminal_detail h =
     (if halted h then
        [(''reason'', pget_def (the h) ''reason'' (PStr ''completed'')), (''stopped_at'', pget (the h) ''gate'')]
      else [(''reason'', PStr ''completed''), (''stopped_at'', PStr ''end'')])"

definition run_gate_via_resume ::
  "('t, 'c) runtime_env \<Rightarrow> uuid \<Rightarrow> pydict \<Rightarrow> 't world \<Rightarrow> 't world \<times> py_error option" where
  "run_gate_via_resume env cid payload w =
     (case live_domain cid (w_db w) of
        Inl e \<Rightarrow> (w, Some e)
      | Inr d \<Rightarrow>
          (case w_threads w cid of
             None \<Rightarrow> (w, Some (RuntimeErr ''no pending interrupt''))
           | Some t0 \<Rightarrow>
               (case drive_resume (ps_rep (re_parsers env)) (re_ops env) t0 payload of
                  Inl e \<Rightarrow> (w, Some e)
                | Inr (t, outcome) \<Rightarrow>
                    let w1 = set_thread cid t w; final_state = re_case env t
                    in case outcome of
                         Chat c \<Rightarrow> (w1, None)
                       | Interrupted gate ipayload \<Rightarrow>
                           (case persist_world env cid final_state
                                   (Some (gate_state_of (gate_number gate))) w1 of
                              (w2, Some e) \<Rightarrow> (w2, Some e)
                            | (w2, None) \<Rightarrow>
                                (publish (Progress_event cid ''pipeline'' ''awaiting_review''
                                     [(''gate'', PStr gate),
                                      (''stopped_at'', PStr (''awaiting_review_'' @ gate))])
                                   (publish_interrupt (re_now env) cid gate ipayload w2), None))
                       | Terminal \<Rightarrow>
                           (case persist_world env cid
                                   (final_state\<lparr>cs_status := (if halted (re_halt env t) then E_failed
                                                              else E_closed)\<rparr>) None w1 of
                              (w2, Some e) \<Rightarrow> (w2, Some e)
                            | (w2, None) \<Rightarrow>
                                (publish (Progress_event cid ''pipeline'' ''terminal''
                                     (terminal_detail (re_halt env t))) w2, None)))))"

definition legacy_start_state ::
  "('t, 'c) runtime_env \<Rightarrow> uuid \<Rightarrow> uuid \<Rightarrow> int \<Rightarrow> 't world \<Rightarrow> case_state result" where
  "legacy_start_state env fresh_run cid gate_num w =
     (let from_row = (case find_case cid (w_db w) of
            None \<Rightarrow> Inl ValueError
          | Some c \<Rightarrow> Inr ((new_case_state cid fresh_run)
                             \<lparr>cs_domain := Some (ca_domain c), cs_status := E_processing\<rparr>))
      in if 1 < gate_num then
           (case w_threads w cid of None \<Rightarrow> from_row | Some t \<Rightarrow> Inr (re_case env t))
         else from_row)"

text \<open>\<open>payload.get(key)\<close> of an optional text.\<close>

definition payload_text :: "pydict \<Rightarrow> string \<Rightarrow> string option" where
  "payload_text p k = (case pget p k of PStr s \<Rightarrow> Some s | _ \<Rightarrow> None)"

definition run_gate_via_legacy ::
  "('t, 'c) runtime_env \<Rightarrow> uuid \<Rightarrow> uuid \<Rightarrow> pydict \<Rightarrow> 't world \<Rightarrow> 't world \<times> py_error option" where
  "run_gate_via_legacy env fresh_run cid payload w =
     (case payload_text payload ''gate_name'' of
        None \<Rightarrow> (w, Some ValueError)
      | Some gate_name \<Rightarrow>
          if gate_name = [] \<or> \<not> is_digit (last gate_name) then (w, Some ValueError)
          else
            (case legacy_start_state env fresh_run cid (gate_number gate_name) w of
               Inl e \<Rightarrow> (w, Some e)
             | Inr st \<Rightarrow>
                 (case live_domain cid (w_db w) of
                    Inl e \<Rightarrow> (w, Some e)
                  | Inr d \<Rightarrow>
                      (case re_run_gate env (w_threads w cid)
                              (st\<lparr>cs_domain_vector_store_id := do_vector_store_id d,
                                  cs_status := E_processing\<rparr>)
                              gate_name (payload_text payload ''start_agent'')
                              (payload_text payload ''instructions'') of
                         Inl e \<Rightarrow> (w, Some e)
                       | Inr (t, final_state) \<Rightarrow>
                           (case persist_world env cid final_state
                                   (Some (gate_state_of (gate_number gate_name))) (set_thread cid t w) of
                              (w2, Some e) \<Rightarrow> (w2, Some e)
                            | (w2, None) \<Rightarrow>
                                (publish (Progress_event cid ''pipeline'' ''awaiting_review''
                                   [(''gate'', PStr gate_name)]) w2, None))))))"

definition run_gate_job ::
  "('t, 'c) runtime_env \<Rightarrow> uuid \<Rightarrow> 't world runner" where
  "run_gate_job env fresh_run job trace_id w =
     (let payload = (case jb_payload job of None \<Rightarrow> [] | Some p \<Rightarrow> p)
      in if truthy (pget payload ''resume_action'')
         then run_gate_via_resume env (jb_case_id job) payload w
         else run_gate_via_legacy env fresh_run (jb_case_id job) payload w)"

section \<open>Watchdog\<close>

definition default_threshold_seconds :: int where "default_threshold_seconds = 1800"

definition is_stuck_case :: "int \<Rightarrow> int \<Rightarrow> case_row \<Rightarrow> bool" where
  "is_stuck_case now secs c \<longleftrightarrow> ca_status c = S_processing
     \<and> (case ca_updated_at c of Some t \<Rightarrow> t | None \<Rightarrow> ca_created_at c) < now - secs * 1000000"

definition find_stuck_cases :: "int \<Rightarrow> int \<Rightarrow> database \<Rightarrow> uuid list" where
  "find_stuck_cases now secs db = map ca_id (filter (is_stuck_case now secs) (db_cases db))"

text \<open>The update names the rows found before, whatever their status is by then.\<close>

definition mark_stuck_cases :: "int \<Rightarrow> uuid list \<Rightarrow> database \<Rightarrow> database" where
  "mark_stuck_cases now ids db =
     db\<lparr>db_cases := map (\<lambda>c. if ca_id c \<in> set ids
          then c\<lparr>ca_status := S_failed_retryable, ca_updated_at := Some now\<rparr> else c) (db_cases db)\<rparr>"

definition find_and_mark_stuck_cases :: "int \<Rightarrow> int \<Rightarrow> bool \<Rightarrow> database \<Rightarrow> database \<times> uuid list" where
  "find_and_mark_stuck_cases now secs dry_run db =
     (let ids = find_stuck_cases now secs db
      in if ids = [] then (db, []) else if dry_run then (db, ids)
         else (mark_stuck_cases now ids db, ids))"

section \<open>The pipeline as the runtime\<close>

definition pipeline_first_run :: "environment \<Rightarrow> agents \<Rightarrow> case_state \<Rightarrow> (thread \<times> case_state) result" where
  "pipeline_first_run penv ag c =
     bind_result (start_thread penv ag (build_initial_state c (run_id_or c []) None [] False))
       (\<lambda>t. Inr (t, gs_case (r_state (th_head t))))"

definition drives_pipeline :: "(thread, nat) runtime_env \<Rightarrow> bool" where
  "drives_pipeline env \<longleftrightarrow> re_ops env = pipeline_ops
     \<and> re_case env = (\<lambda>t. gs_case (r_state (th_head t)))
     \<and> re_halt env = (\<lambda>t. gs_halt (r_state (th_head t)))
     \<and> (\<exists>penv ag. well_behaved ag \<and> (\<forall>c. re_run env None c = pipeline_first_run penv ag c))"

lemma status_value_inj: "status_value a = status_value b \<longleftrightarrow> a = b"
  by (metis option.inject parse_status_value)

lemma persist_world_row:
  assumes "persist_world env cid st g w = (w', None)" and "find_case cid (w_db w) = Some c"
  shows "\<exists>c'. find_case cid (w_db w') = Some c'
     \<and> status_value (ca_status c') = case_status_value (cs_status st)"
    and "w_threads w' = w_threads w" and "w_events w' = w_events w"
proof -
  obtain db1 where db1: "persist_tables (re_parsers env) cid st g (w_db w) = Inr db1"
    using assms(1) by (auto simp: persist_world_def persist_case_results_def split: sum.splits)
  obtain rows c' where r: "updated_case_row st g c = Inr c'" "ca_id c' = cid"
    "db1 = update_case cid (\<lambda>_. c') ((replace_child_rows cid rows (w_db w))
             \<lparr>db_audit := db_audit (w_db w) @ insert_audit_log cid st\<rparr>)"
    using persist_tables_Inr [OF db1 assms(2)] .
  have "find_case cid db1 = Some c'"
    using assms(2) r(2) by (simp add: r(3) find_case_set) (simp add: find_case_def)
  moreover have "\<exists>cks. w_db w' = db1 \<or> w_db w' = db1\<lparr>db_checkpoints := cks\<rparr>"
    using assms(1) db1
    by (auto simp: persist_world_def persist_case_results_def split: if_splits sum.splits)
  ultimately show "\<exists>c'. find_case cid (w_db w') = Some c'
     \<and> status_value (ca_status c') = case_status_value (cs_status st)"
    using updated_row_status [OF r(1)] by auto
  show "w_threads w' = w_threads w" "w_events w' = w_events w"
    using assms(1) by (auto simp: persist_world_def split: prod.splits)
qed

lemma upsert_gate_row:
  assumes "g \<in> set gate_names" "find_case cid db = Some c"
  shows "\<exists>c' s. find_case cid (upsert_legacy_gate_status now cid g db) = Some c'
     \<and> parse_status (''awaiting_review_'' @ g) = Some s \<and> ca_status c' = s"
proof -
  have g: "g \<in> {''gate1'', ''gate2'', ''gate3'', ''gate4''}" using gate_names_cases [OF assms(1)] by auto
  moreover have "\<exists>s. parse_status (''awaiting_review_'' @ g) = Some s"
    using g by (auto simp: parse_status_def all_statuses_def)
  ultimately show ?thesis using assms(2) by (auto simp: upsert_legacy_gate_status_def)
qed

lemma settled_first_run:
  assumes "run_to_pause step_limit env ag (first_run s0) = Inr r"
  shows "gs_case (r_state r) = gs_case s0 \<and> gs_halt (r_state r) = gs_halt s0"
proof -
  have two: "step_limit = Suc (Suc 6)" by (simp add: step_limit_def)
  have "\<not> settled (first_run s0)" by (simp add: settled_def first_run_def start_node_def)
  then obtain r1 where r1: "exec_step env ag (first_run s0) = Inr r1"
      "run_to_pause (Suc 6) env ag r1 = Inr r"
    using assms unfolding two by (subst (asm) run_to_pause.simps) (auto simp: bind_result_Inr)
  have first: "r_pos r1 = At ''gate1_pause''" "gs_case (r_state r1) = gs_case s0"
      "gs_halt (r_state r1) = gs_halt s0"
    using r1(1)
    by (auto simp: exec_step_def first_run_def start_node_def exec_node_def phase_nodes_def
        exec_phase_def follow_def graph_edges_def node_update_def mirror_phase_output_to_case_def
        apply_phase_result_def Let_def split: prod.splits if_splits option.splits structured.splits)
  have "\<not> settled r1" using first by (simp add: settled_def)
  then obtain r2 where r2: "exec_step env ag r1 = Inr r2" "run_to_pause 6 env ag r2 = Inr r"
    using r1(2) by (subst (asm) run_to_pause.simps) (auto simp: bind_result_Inr)
  have "settled r2 \<and> r_state r2 = r_state r1"
    using r2(1) first(1)
    by (auto simp: exec_step_def exec_node_def phase_nodes_def gate_of_pause_def gate_names_def
        pause_node_def exec_pause_def bind_result_Inr settled_def)
  then have "r = r2" using r2(2) by (simp add: run_to_pause.simps)
  with \<open>settled r2 \<and> r_state r2 = r_state r1\<close> first show ?thesis by simp
qed

lemma pipeline_first_run_result:
  assumes "well_behaved ag"
  shows "\<exists>t. pipeline_first_run penv ag c = Inr (t, c) \<and> thread_live t
     \<and> run_gate_of (th_head t) = Some ''gate1''"
proof -
  let ?s = "build_initial_state c (run_id_or c []) None [] False"
  obtain t where t: "start_thread penv ag ?s = Inr t" "thread_live t"
      "run_gate_of (th_head t) = Some ''gate1''"
    using start_thread_live [OF assms] by blast
  then have "gs_case (r_state (th_head t)) = c"
    using settled_first_run [of penv ag ?s]
    by (auto simp: start_thread_def bind_result_Inr build_initial_state_def)
  with t show ?thesis by (auto simp: pipeline_first_run_def)
qed

section \<open>Properties\<close>

definition plain_runtime :: "(thread, nat) runtime_env" where
  "plain_runtime = \<lparr>re_run = (\<lambda>_ c. pipeline_first_run plain_env silent_agents c),
     re_run_gate = (\<lambda>_ _ _ _ _. Inl ValueError), re_ops = pipeline_ops,
     re_case = (\<lambda>t. gs_case (r_state (th_head t))), re_halt = (\<lambda>t. gs_halt (r_state (th_head t))),
     re_parsers = plain_parsers, re_serialize = (\<lambda>_. PNone), re_answers = (\<lambda>_. Written), re_now = 5\<rparr>"

lemma plain_runtime_drives: "drives_pipeline plain_runtime"
  unfolding drives_pipeline_def plain_runtime_def using silent_agents_behave by auto

lemma drives_pipelineD:
  assumes "drives_pipeline env"
  shows "re_ops env = pipeline_ops" "re_case env t = gs_case (r_state (th_head t))"
    "re_halt env t = gs_halt (r_state (th_head t))"
    "\<exists>penv ag. well_behaved ag \<and> (\<forall>c. re_run env None c = pipeline_first_run penv ag c)"
  using assms by (simp_all add: drives_pipeline_def)

lemma gate1_pending:
  "thread_live t \<Longrightarrow> run_gate_of (th_head t) = Some g \<Longrightarrow>
     find_pending_interrupt (op_tasks pipeline_ops t) = Some (g, run_payload (th_head t))"
  using pipeline.pending_gate by simp

text \<open>The first run of a case leaves its thread waiting at gate 1 and its row awaiting the review
  of gate 1, and closes the event stream with that; a cancellation requested meanwhile changes
  nothing, because no run ever reports the status the cancellation check asks for.\<close>

lemma first_run_waits_at_gate1:
  assumes "drives_pipeline env" and "find_case cid (w_db w) = Some c" and "w_threads w cid = None"
    and "run_case_pipeline env isof backfill fresh cancelled cid w = (w', None)"
  shows "\<exists>t c'. w_threads w' cid = Some t \<and> run_gate_of (th_head t) = Some ''gate1''
     \<and> find_case cid (w_db w') = Some c' \<and> ca_status c' = S_awaiting_review_gate1
     \<and> last (w_events w') = close_event cid ''awaiting_review_gate1''"
proof -
  let ?st = "initial_case_state isof backfill fresh c (w_db w)"
  let ?w = "w\<lparr>w_cancelled := removeAll cid (w_cancelled w)\<rparr>"
  obtain penv ag where ag: "well_behaved ag" "re_run env None ?st = pipeline_first_run penv ag ?st"
    using drives_pipelineD(4) [OF assms(1)] by blast
  obtain t where t: "re_run env None ?st = Inr (t, ?st)" "thread_live t"
      "run_gate_of (th_head t) = Some ''gate1''"
    using pipeline_first_run_result [OF ag(1)] ag(2) by metis
  have status: "cs_status ?st = E_pending" by (simp add: initial_case_state_def new_case_state_def)
  note pending = gate1_pending [OF t(2,3)]
  obtain w2 where w2: "persist_world env cid ?st (Some (gate_state_of (gate_number ''gate1'')))
      (set_thread cid t ?w) = (w2, None)"
    using assms t status pending drives_pipelineD(1) [OF assms(1)]
    by (cases "persist_world env cid ?st (Some (gate_state_of (gate_number ''gate1''))) (set_thread cid t ?w)")
      (auto simp: run_case_pipeline_def Let_def split: option.splits)
  let ?w3 = "publish_interrupt (re_now env) cid ''gate1'' (run_payload (th_head t)) w2"
  obtain w4 where w4: "gate_checkpoint env cid ''gate1'' ?st ?w3 = (w4, None)"
      "w' = publish (close_event cid ''awaiting_review_gate1'') w4"
    using assms t status pending drives_pipelineD(1) [OF assms(1)] w2
    by (cases "gate_checkpoint env cid ''gate1'' ?st ?w3")
      (auto simp: run_case_pipeline_def Let_def split: option.splits)
  have frame: "w_threads w4 = w_threads ?w3" "find_case cid (w_db w4) = find_case cid (w_db ?w3)"
    using w4(1) by (auto simp: gate_checkpoint_def split: if_splits sum.splits)
  have "find_case cid (w_db (set_thread cid t ?w)) = Some c" using assms(2) by (simp add: set_thread_def)
  note row = persist_world_row [OF w2 this]
  obtain c1 where c1: "find_case cid (w_db w2) = Some c1" using row(1) by blast
  have "''gate1'' \<in> set gate_names" by (simp add: gate_names_def)
  from upsert_gate_row [OF this c1, of "re_now env"] obtain c2 s where c2:
      "find_case cid (upsert_legacy_gate_status (re_now env) cid ''gate1'' (w_db w2)) = Some c2"
      "parse_status ''awaiting_review_gate1'' = Some s" "ca_status c2 = s" by auto
  have "s = S_awaiting_review_gate1" using c2(2) by (simp add: parse_status_def all_statuses_def)
  with c2 w4(2) frame row(2) t(3) show ?thesis
    by (simp add: publish_def publish_interrupt_def set_thread_def)
qed

definition world1 :: "thread world" where
  "world1 = \<lparr>w_db = database1, w_threads = (\<lambda>_. None), w_events = [], w_cancelled = []\<rparr>"

lemma plain_writes:
  "\<exists>cks. fst (persist_case_state (re_serialize plain_runtime) (re_answers plain_runtime) cid run agent st old)
     = Inr cks"
  by (simp add: plain_runtime_def persist_case_state_def checkpoint_max_retries_def numeral_3_eq_3)

lemma plain_persist:
  assumes "persist_tables plain_parsers cid st g (w_db w) = Inr db1"
  shows "\<exists>w2. persist_world plain_runtime cid st g w = (w2, None)"
proof -
  obtain cks where "fst (persist_case_state (re_serialize plain_runtime) (re_answers plain_runtime) cid
      (cs_run_id st) ''terminal'' st (db_checkpoints db1)) = Inr cks"
    using plain_writes by blast
  moreover have "re_parsers plain_runtime = plain_parsers" by (simp add: plain_runtime_def)
  ultimately show ?thesis
    using assms by (simp add: persist_world_def persist_case_results_def)
qed

lemma plain_gate_checkpoint: "\<exists>w4. gate_checkpoint plain_runtime cid gate st w = (w4, None)"
proof -
  obtain cks where "fst (persist_case_state (re_serialize plain_runtime) (re_answers plain_runtime) cid
      (cid @ ''-'' @ gate) ''gate_complete'' st (db_checkpoints (w_db w))) = Inr cks"
    using plain_writes by blast
  then show ?thesis by (simp add: gate_checkpoint_def)
qed

lemma first_run_of_case1:
  "\<exists>w'. run_case_pipeline plain_runtime (\<lambda>_. []) (\<lambda>_. None) ''r1'' True ''c1'' world1 = (w', None)"
proof -
  let ?st = "initial_case_state (\<lambda>_. []) (\<lambda>_. None) ''r1'' case_row1 database1"
  obtain t where t: "re_run plain_runtime None ?st = Inr (t, ?st)" "thread_live t"
      "run_gate_of (th_head t) = Some ''gate1''"
    using pipeline_first_run_result [OF silent_agents_behave] by (auto simp: plain_runtime_def)
  have row: "find_case ''c1'' database1 = Some case_row1"
    by (simp add: find_case_def database1_def case_row1_def)
  have md: "pget (bridged_metadata isof c) ''complexity'' = PNone"
    "pget (bridged_metadata isof c) ''route'' = PNone" for isof c
    by (simp_all add: bridged_metadata_def bridged_metadata_fields_def pget_def)
  have "\<exists>db1. persist_tables plain_parsers ''c1'' ?st g database1 = Inr db1" for g
    using row
    by (simp add: persist_tables_def child_rows_of_def insert_evidence_def insert_facts_def
        insert_witnesses_def insert_legal_rules_def insert_precedents_def insert_arguments_def
        initial_case_state_def new_case_state_def updated_case_row_def metadata_choice_def
        unhashable_def md)
  then have persisted: "\<exists>w2. persist_world plain_runtime ''c1'' ?st g w = (w2, None)"
    if "w_db w = database1" for g w
    using plain_persist [of "''c1''" ?st g w] that by auto
  have status: "cs_status ?st = E_pending" by (simp add: initial_case_state_def new_case_state_def)
  let ?w1 = "set_thread ''c1'' t (world1\<lparr>w_cancelled := []\<rparr>)"
  obtain w2 where w2: "persist_world plain_runtime ''c1'' ?st
      (Some (gate_state_of (gate_number ''gate1''))) ?w1 = (w2, None)"
    using persisted [of ?w1] by (auto simp: set_thread_def world1_def)
  obtain w4 where w4: "gate_checkpoint plain_runtime ''c1'' ''gate1'' ?st
      (publish_interrupt (re_now plain_runtime) ''c1'' ''gate1'' (run_payload (th_head t)) w2) = (w4, None)"
    using plain_gate_checkpoint by blast
  have ops: "re_ops plain_runtime = pipeline_ops" by (simp add: plain_runtime_def)
  have w: "w_db world1 = database1" "w_threads world1 ''c1'' = None" "w_cancelled world1 = []"
    by (simp_all add: world1_def)
  show ?thesis
    using t(1) status w2 w4 row
    by (simp add: run_case_pipeline_def w ops gate1_pending [OF t(2,3)])
qed

lemma first_run_waits_at_gate1_witness:
  "\<exists>w' c'. run_case_pipeline plain_runtime (\<lambda>_. []) (\<lambda>_. None) ''r1'' True ''c1'' world1 = (w', None)
     \<and> find_case ''c1'' (w_db w') = Some c' \<and> ca_status c' = S_awaiting_review_gate1"
proof -
  obtain w' where w': "run_case_pipeline plain_runtime (\<lambda>_. []) (\<lambda>_. None) ''r1'' True ''c1'' world1
      = (w', None)" using first_run_of_case1 by blast
  have "find_case ''c1'' (w_db world1) = Some case_row1" "w_threads world1 ''c1'' = None"
    by (simp_all add: find_case_def world1_def database1_def case_row1_def)
  from first_run_waits_at_gate1 [OF plain_runtime_drives this w'] w' show ?thesis by blast
qed


definition database7 :: database where
  "database7 = database1\<lparr>
     db_cases := [case_row1\<lparr>ca_id := ''case7'', ca_domain_id := Some ''d1''\<rparr>],
     db_domains := [\<lparr>do_id = ''d1'', do_code = ''small_claims'', do_is_active = True,
                     do_vector_store_id = Some ''vs1''\<rparr>]\<rparr>"

definition halt_session_case :: "case_state option" where
  "halt_session_case =
     (case session plain_env silent_agents case7 [PDict [(''action'', PStr ''halt'')]] of
        Inl _ \<Rightarrow> None | Inr r \<Rightarrow> Some (gs_case (r_state r)))"

lemma halt_session_case_eval: "halt_session_case = Some (new_case_state ''case7'' ''run1'')"
  by code_simp

lemma persist_blank:
  assumes "find_case cid db = Some c"
  shows "\<exists>db1. persist_tables ps cid ((new_case_state a b)\<lparr>cs_status := s\<rparr>) g db = Inr db1"
  using assms
  by (simp add: persist_tables_def child_rows_of_def insert_evidence_def insert_facts_def
      insert_witnesses_def insert_legal_rules_def insert_precedents_def insert_arguments_def
      new_case_state_def updated_case_row_def metadata_choice_def unhashable_def pget_def)

lemma halted_gate_job:
  "\<exists>t0 w'. start_thread plain_env silent_agents case7 = Inr t0 \<and> thread_live t0
     \<and> run_gate_via_resume plain_runtime ''case7'' [(''resume_action'', PStr ''halt'')]
         \<lparr>w_db = database7, w_threads = (\<lambda>_. Some t0), w_events = [], w_cancelled = []\<rparr> = (w', None)"
proof -
  obtain t0 where t0: "start_thread plain_env silent_agents case7 = Inr t0" "thread_live t0"
      "run_gate_of (th_head t0) = Some ''gate1''"
    using start_thread_live [OF silent_agents_behave] by blast
  let ?w = "\<lparr>w_db = database7, w_threads = (\<lambda>_. Some t0), w_events = [], w_cancelled = []\<rparr>"
  let ?d = "[(''action'', PStr ''halt'')]"
  have d: "build_resume_payload (ps_rep plain_parsers) [(''resume_action'', PStr ''halt'')] = Inr ?d"
    by (simp add: build_resume_payload_def pget_def Let_def)
  obtain t out where t: "drive_resume (ps_rep plain_parsers) pipeline_ops t0
      [(''resume_action'', PStr ''halt'')] = Inr (t, out)" "op_resume pipeline_ops t0 None ?d = Inr t"
      "thread_live t" "out = (case run_gate_of (th_head t) of None \<Rightarrow> Terminal
        | Some g' \<Rightarrow> Interrupted g' (run_payload (th_head t)))"
    using pipeline.drive_resume_outcome [OF t0(2,3) d] by blast
  have "run_gate_of (th_head t) = None"
    by (rule pipeline.halt_ends [OF t0(2,3) t(2)]) simp
  then have out: "out = Terminal" using t(4) by simp
  have "gs_case (r_state (th_head t)) = new_case_state ''case7'' ''run1''"
    using t(2) t0(1) halt_session_case_eval
    by (auto simp: halt_session_case_def session_def start_thread_def pipeline_ops_def
        thread_resume_def thread_run_def push_run_def bind_result_Inr split: sum.splits)
  then have thread_case: "re_case plain_runtime t = new_case_state ''case7'' ''run1''"
    by (simp add: plain_runtime_def)
  have dom: "\<exists>dom. live_domain ''case7'' database7 = Inr dom"
    by (simp add: live_domain_def database7_def find_case_def find_domain_def non_empty_def)
  have row: "\<exists>c. find_case ''case7'' database7 = Some c" by (simp add: find_case_def database7_def)
  let ?st = "(new_case_state ''case7'' ''run1'')
      \<lparr>cs_status := (if halted (re_halt plain_runtime t) then E_failed else E_closed)\<rparr>"
  obtain db1 where "persist_tables plain_parsers ''case7'' ?st None database7 = Inr db1"
    using persist_blank row by blast
  then obtain w2 where w2: "persist_world plain_runtime ''case7'' ?st None (set_thread ''case7'' t ?w)
      = (w2, None)"
    using plain_persist [of "''case7''" ?st None "set_thread ''case7'' t ?w"] by (auto simp: set_thread_def)
  have env: "re_ops plain_runtime = pipeline_ops" "re_parsers plain_runtime = plain_parsers"
    by (simp_all add: plain_runtime_def)
  have "\<exists>w'. run_gate_via_resume plain_runtime ''case7'' [(''resume_action'', PStr ''halt'')] ?w = (w', None)"
    using dom t(1) out w2 by (auto simp: run_gate_via_resume_def env thread_case)
  with t0 show ?thesis by blast
qed


text \<open>A gate job whose domain was retired meanwhile fails in the outbox but leaves the case row as
  it was: a case that was processing stays processing and no handler accepts a retry until the
  watchdog finds it.\<close>

lemma retired_domain_leaves_the_case_processing:
  assumes "find_job jid jobs = Some job" and "jb_type job = Job_gate_run" and "jb_status job \<noteq> Job_completed"
    and "jb_payload job = Some payload" and "truthy (pget payload ''resume_action'')"
    and "find_case (jb_case_id job) (w_db w) = Some c"
    and "find_domain (ca_domain_id c) (w_db w) = Some d" and "\<not> do_is_active d"
  shows "\<exists>jobs' msg. run_with_outbox (run_gate_job env fresh) Job_gate_run now jid jobs w
       = (jobs', w, Raised (RetiredDomain msg))
     \<and> (\<exists>job'. find_job jid jobs' = Some job' \<and> jb_status job' = Job_failed)
     \<and> find_case (jb_case_id job) (w_db w) = Some c"
proof -
  have "run_gate_job env fresh job tid w
      = (w, Some (RetiredDomain ''Domain retired mid-case; aborting gate resume''))" for tid
    using assms(4-8) by (simp add: run_gate_job_def run_gate_via_resume_def live_domain_def)
  then show ?thesis
    using assms(1-3,6) find_job_id [OF assms(1)] by (simp add: run_with_outbox_def Let_def)
qed

definition retired_database :: database where
  "retired_database = database7\<lparr>db_domains := [\<lparr>do_id = ''d1'', do_code = ''small_claims'',
     do_is_active = False, do_vector_store_id = Some ''vs1''\<rparr>]\<rparr>"

definition gate_job :: pipeline_job where
  "gate_job = (sample_job ''j'' 0)\<lparr>jb_type := Job_gate_run, jb_case_id := ''case7'',
     jb_payload := Some [(''resume_action'', PStr ''advance'')]\<rparr>"

lemma retired_domain_leaves_the_case_processing_witness:
  "\<exists>jobs' msg. run_with_outbox (run_gate_job plain_runtime ''r'') Job_gate_run 5 ''j'' [gate_job]
       \<lparr>w_db = retired_database, w_threads = (\<lambda>_. None), w_events = [], w_cancelled = []\<rparr>
     = (jobs', \<lparr>w_db = retired_database, w_threads = (\<lambda>_. None), w_events = [], w_cancelled = []\<rparr>,
        Raised (RetiredDomain msg))"
proof -
  let ?w = "\<lparr>w_db = retired_database, w_threads = (\<lambda>_. None :: thread option), w_events = [],
             w_cancelled = []\<rparr>"
  have j: "find_job ''j'' [gate_job] = Some gate_job" "jb_type gate_job = Job_gate_run"
    "jb_status gate_job \<noteq> Job_completed" "jb_payload gate_job = Some [(''resume_action'', PStr ''advance'')]"
    "truthy (pget [(''resume_action'', PStr ''advance'')] ''resume_action'')"
    "jb_case_id gate_job = ''case7''"
    by (simp_all add: gate_job_def sample_job_def find_job_def pget_def)
  obtain c d where "find_case (jb_case_id gate_job) (w_db ?w) = Some c"
      "find_domain (ca_domain_id c) (w_db ?w) = Some d" "\<not> do_is_active d"
    by (auto simp: j retired_database_def database7_def find_case_def find_domain_def)
  from retired_domain_leaves_the_case_processing [OF j(1-5) this] show ?thesis by blast
qed

lemma find_marked_case:
  "find (\<lambda>x. ca_id x = cid) (map (\<lambda>x. if ca_id x \<in> set xs
      then x\<lparr>ca_status := S_failed_retryable, ca_updated_at := Some now\<rparr> else x) rows)
   = map_option (\<lambda>x. if ca_id x \<in> set xs
      then x\<lparr>ca_status := S_failed_retryable, ca_updated_at := Some now\<rparr> else x)
       (find (\<lambda>x. ca_id x = cid) rows)"
  by (induction rows) auto

text \<open>The watchdog marks exactly the cases that are processing and have not been touched for
  longer than the threshold, changes no other row, finds nothing more when run again at the same
  time, and in a dry run changes nothing.\<close>

lemma watchdog_marks_exactly_the_stuck_cases:
  assumes "find_and_mark_stuck_cases now secs dry_run db = (db', ids)" and "find_case cid db = Some c"
    and "distinct (map ca_id (db_cases db))"
  shows "(cid \<in> set ids \<longleftrightarrow> is_stuck_case now secs c)
    \<and> (dry_run \<longrightarrow> db' = db)
    \<and> (\<not> dry_run \<longrightarrow> find_case cid db' = Some (if is_stuck_case now secs c
          then c\<lparr>ca_status := S_failed_retryable, ca_updated_at := Some now\<rparr> else c)
        \<and> find_stuck_cases now secs db' = [])"
proof -
  have c: "c \<in> set (db_cases db)" "ca_id c = cid" using find_case_id [OF assms(2)] by auto
  have same: "x = c" if "x \<in> set (db_cases db)" "ca_id x = cid" for x
    using assms(3) c that by (auto simp: distinct_map dest: inj_onD)
  have mem: "cid \<in> set (find_stuck_cases now secs db) \<longleftrightarrow> is_stuck_case now secs c"
    unfolding find_stuck_cases_def set_map set_filter using c same by blast
  have ids: "ids = find_stuck_cases now secs db"
    using assms(1) by (auto simp: find_and_mark_stuck_cases_def Let_def split: if_splits)
  have marked: "db' = mark_stuck_cases now ids db" if "\<not> dry_run"
    using assms(1) that
    by (auto simp: find_and_mark_stuck_cases_def Let_def mark_stuck_cases_def split: if_splits)
  have found: "find_case cid (mark_stuck_cases now xs db) = Some (if cid \<in> set xs
      then c\<lparr>ca_status := S_failed_retryable, ca_updated_at := Some now\<rparr> else c)" for xs
    using find_marked_case [of cid xs now "db_cases db"] assms(2) c(2)
    by (simp add: find_case_def mark_stuck_cases_def)
  have "find_case cid (mark_stuck_cases now ids db) = Some (if is_stuck_case now secs c
      then c\<lparr>ca_status := S_failed_retryable, ca_updated_at := Some now\<rparr> else c)"
    unfolding found mem [folded ids] by (rule refl)
  moreover have "find_stuck_cases now secs (mark_stuck_cases now ids db) = []"
    unfolding ids
    by (auto simp: find_stuck_cases_def mark_stuck_cases_def filter_empty_conv is_stuck_case_def)
  moreover have "db' = db" if dry_run
    using assms(1) that by (auto simp: find_and_mark_stuck_cases_def Let_def split: if_splits)
  ultimately show ?thesis using mem ids marked by auto
qed

lemma watchdog_marks_exactly_the_stuck_cases_witness:
  "find_case ''c1'' (fst (find_and_mark_stuck_cases 1800000001 1800 False database1))
     = Some (case_row1\<lparr>ca_status := S_failed_retryable, ca_updated_at := Some 1800000001\<rparr>)"
proof -
  obtain db' ids where w: "find_and_mark_stuck_cases 1800000001 1800 False database1 = (db', ids)"
    by fastforce
  have "find_case ''c1'' database1 = Some case_row1" "distinct (map ca_id (db_cases database1))"
    by (simp_all add: find_case_def database1_def case_row1_def)
  from watchdog_marks_exactly_the_stuck_cases [OF w this] w show ?thesis
    by (simp add: is_stuck_case_def case_row1_def)
qed

end
