(* ===== verification/Case_Api.thy ===== *)
theory Case_Api
  imports Worker
begin

text \<open>
  The handlers of \<open>api/routes/cases.py\<close> that start, cancel, restart and steer a case, with the
  resume payload of \<open>api/schemas/resume.py\<close>. A handler runs in one transaction: the result is the
  new state with the response message, or the HTTP error, after which \<open>get_db\<close> has rolled back and
  the state is the old one. The request carries what FastAPI and the database supply: the
  authenticated user, the time, the key of a new job row and the active span.
\<close>

section \<open>Requests\<close>

datatype user_role = Judge | Admin | Senior_judge

fun role_value :: "user_role \<Rightarrow> string" where
  "role_value Judge = ''judge''"
| "role_value Admin = ''admin''"
| "role_value Senior_judge = ''senior_judge''"

record user =
  us_id :: uuid
  us_role :: user_role

record request =
  rq_user :: user
  rq_now :: int
  rq_job_id :: uuid
  rq_span :: span_context

definition quote :: "string \<Rightarrow> string" where
  "quote s = CHR 0x27 # s @ [CHR 0x27]"

definition require_role :: "user_role list \<Rightarrow> request \<Rightarrow> unit result" where
  "require_role roles rq =
     (if us_role (rq_user rq) \<in> set roles then Inr ()
      else Inl (HttpError 403 (''Role '' @ quote (role_value (us_role (rq_user rq)))
                               @ '' not permitted'')))"

definition not_found :: py_error where "not_found = HttpError 404 ''Case not found''"
definition not_authorized :: py_error where "not_authorized = HttpError 403 ''Not authorized''"

text \<open>The case, for handlers that tell its owner from others and for those that do not.\<close>

definition owned_case :: "request \<Rightarrow> uuid \<Rightarrow> database \<Rightarrow> case_row result" where
  "owned_case rq cid db =
     (case find_case cid db of
        None \<Rightarrow> Inl not_found
      | Some c \<Rightarrow> if ca_created_by c \<noteq> us_id (rq_user rq) then Inl not_authorized else Inr c)"

definition own_case_only :: "request \<Rightarrow> uuid \<Rightarrow> database \<Rightarrow> case_row result" where
  "own_case_only rq cid db =
     (case find_case cid db of
        None \<Rightarrow> Inl not_found
      | Some c \<Rightarrow> if ca_created_by c \<noteq> us_id (rq_user rq) then Inl not_found else Inr c)"

section \<open>Status columns\<close>

definition startable_statuses :: "case_status list" where
  "startable_statuses = [S_pending, S_ready_for_review, S_failed_retryable]"

definition restartable_statuses :: "case_status list" where
  "restartable_statuses = [S_failed, S_failed_retryable, S_escalated]"

definition gate_pause_statuses :: "case_status list" where
  "gate_pause_statuses = [S_awaiting_review_gate1, S_awaiting_review_gate2,
                          S_awaiting_review_gate3, S_awaiting_review_gate4]"

definition status_group :: "case_status \<Rightarrow> string" where
  "status_group s =
     (if s \<in> {S_pending, S_processing, S_failed_retryable} then ''processing''
      else if s \<in> set gate_pause_statuses then ''awaiting_review''
      else if s = S_ready_for_review then ''completed''
      else if s = S_escalated then ''escalated''
      else if s = S_closed then ''closed''
      else if s = S_failed then ''failed''
      else status_value s)"

definition map_status_filter :: "string \<Rightarrow> case_status list result" where
  "map_status_filter status_filter =
     (let raw = py_lower (py_strip status_filter)
      in if raw = ''completed'' then Inr [S_ready_for_review]
         else if raw = ''processing'' then Inr [S_pending, S_processing, S_failed_retryable]
         else (case parse_status raw of
                 Some s \<Rightarrow> Inr [s]
               | None \<Rightarrow> Inl (HttpError 422 (''Unknown case status filter: '' @ status_filter))))"

text \<open>
  \<open>UPDATE cases SET status = s WHERE id = cid AND status IN (...) RETURNING id\<close>, and the assignment
  of the column of a loaded row, which issues an update only when the value changes.
\<close>

definition flip_status :: "case_status list \<Rightarrow> int \<Rightarrow> uuid \<Rightarrow> case_status \<Rightarrow> database \<Rightarrow> database option" where
  "flip_status allowed now cid s db =
     (case find_case cid db of
        None \<Rightarrow> None
      | Some c \<Rightarrow> if ca_status c \<in> set allowed then Some (set_status now cid s db) else None)"

definition assign_status :: "int \<Rightarrow> uuid \<Rightarrow> case_status \<Rightarrow> case_row \<Rightarrow> database \<Rightarrow> database" where
  "assign_status now cid s loaded db =
     (if ca_status loaded = s then db else set_status now cid s db)"

definition enqueue_job ::
  "request \<Rightarrow> uuid \<Rightarrow> pipeline_job_type \<Rightarrow> pydict option \<Rightarrow> database \<Rightarrow> database" where
  "enqueue_job rq cid jt payload db =
     db\<lparr>db_jobs := fst (enqueue_outbox_job (rq_span rq) (rq_now rq) (rq_job_id rq) cid jt None
                          payload None (db_jobs db))\<rparr>"

definition judge_audit :: "request \<Rightarrow> uuid \<Rightarrow> string \<Rightarrow> pydict \<Rightarrow> database \<Rightarrow> database" where
  "judge_audit rq cid action inp = add_audit (audit_of cid (rq_now rq) ''judge'' action inp)"

section \<open>Starting, restarting, cancelling\<close>

definition has_intake :: "uuid \<Rightarrow> case_row \<Rightarrow> database \<Rightarrow> bool" where
  "has_intake cid c db \<longleftrightarrow> (\<exists>p \<in> set (db_parties db). pa_case p = cid)
     \<or> (case ca_intake_extraction c of None \<Rightarrow> False | Some e \<Rightarrow> truthy (pget e ''fields''))"

definition has_documents :: "uuid \<Rightarrow> database \<Rightarrow> bool" where
  "has_documents cid db \<longleftrightarrow> (\<exists>d \<in> set (db_documents db). dc_case d = cid)"

definition process_case :: "request \<Rightarrow> uuid \<Rightarrow> database \<Rightarrow> (database \<times> string) result" where
  "process_case rq cid db =
     (case find_case cid db of
        None \<Rightarrow> Inl not_found
      | Some c \<Rightarrow>
          if \<not> has_documents cid db then Inl (HttpError 400 ''Case has no uploaded documents'')
          else if \<not> has_intake cid c db then
            Inl (HttpError 409 ''Intake confirmation incomplete: complete the intake review before processing'')
          else (case flip_status startable_statuses (rq_now rq) cid S_processing db of
                  None \<Rightarrow> Inl (HttpError 409 ''Case is not in a startable state'')
                | Some db1 \<Rightarrow> Inr (enqueue_job rq cid Job_case_pipeline None db1, ''Pipeline started'')))"

text \<open>
  The audit row of a restart names the status of the loaded row, read after the bulk update: what
  the session shows then is the argument \<open>orm_view\<close>, of the old and the new status.
\<close>

definition restart_case_pipeline ::
  "(case_status \<Rightarrow> case_status \<Rightarrow> case_status) \<Rightarrow> request \<Rightarrow> uuid \<Rightarrow> database \<Rightarrow> (database \<times> string) result" where
  "restart_case_pipeline orm_view rq cid db =
     bind_result (require_role [Judge] rq) (\<lambda>_.
     bind_result (owned_case rq cid db) (\<lambda>c.
       if \<not> has_documents cid db
       then Inl (HttpError 400 ''Case has no uploaded documents -- cannot restart pipeline'')
       else (case flip_status restartable_statuses (rq_now rq) cid S_processing db of
               None \<Rightarrow> Inl (HttpError 409 ''Case cannot be restarted from its current state.'')
             | Some db1 \<Rightarrow> Inr
                 (enqueue_job rq cid Job_case_pipeline None
                    (judge_audit rq cid ''pipeline_restarted''
                       [(''restarted_by'', PStr (us_id (rq_user rq))),
                        (''previous_status'', PStr (status_value (orm_view (ca_status c) S_processing)))] db1),
                  ''Pipeline restarted''))))"

text \<open>The thread of a case that has none is \<open>blank\<close>; \<open>local\<close> is whether a graph is compiled here.\<close>

definition cancel_case_pipeline ::
  "('t, 'c) graph_ops \<Rightarrow> 't \<Rightarrow> bool \<Rightarrow> request \<Rightarrow> uuid \<Rightarrow> 't world \<Rightarrow> ('t world \<times> string) result" where
  "cancel_case_pipeline ops blank local rq cid w =
     bind_result (require_role [Judge] rq) (\<lambda>_.
     bind_result (own_case_only rq cid (w_db w)) (\<lambda>c.
       if ca_status c \<noteq> S_processing then Inl (HttpError 409 ''Case is not currently processing'')
       else bind_result
         (if local then
            bind_result (cancel_via_halt ops (case w_threads w cid of None \<Rightarrow> blank | Some t \<Rightarrow> t)
                           (Some ''cancelled by user'') (Some (us_id (rq_user rq))))
              (\<lambda>t. Inr (set_thread cid t w))
          else Inr w)
         (\<lambda>w1. Inr (w1\<lparr>w_cancelled := List.insert cid (w_cancelled w1)\<rparr>, ''Cancellation requested''))))"

section \<open>The gate endpoints\<close>

definition valid_gate_names :: "string list" where
  "valid_gate_names = [''gate1'', ''gate2'', ''gate3'', ''gate4'']"

definition next_gate :: "string option dict" where
  "next_gate = [(''gate1'', Some ''gate2''), (''gate2'', Some ''gate3''),
                (''gate3'', Some ''gate4''), (''gate4'', None)]"

definition gate_to_phase :: "string dict" where
  "gate_to_phase = [(''gate1'', ''intake''), (''gate2'', ''research''),
                    (''gate3'', ''synthesis''), (''gate4'', ''audit'')]"

definition agent_to_subagent :: "string dict" where
  "agent_to_subagent =
     [(''evidence-analysis'', ''evidence''), (''fact-reconstruction'', ''facts''),
      (''witness-analysis'', ''witnesses''), (''legal-knowledge'', ''law''),
      (''research-evidence'', ''evidence''), (''research-facts'', ''facts''),
      (''research-witnesses'', ''witnesses''), (''research-law'', ''law'')]"

text \<open>The agents of a gate, by their display names and by their nodes.\<close>

definition legacy_gate_agents :: "string list dict" where
  "legacy_gate_agents =
     [(''gate1'', [''case-processing'', ''complexity-routing'']),
      (''gate2'', [''evidence-analysis'', ''fact-reconstruction'', ''witness-analysis'', ''legal-knowledge'']),
      (''gate3'', [''argument-construction'', ''hearing-analysis'']),
      (''gate4'', [''hearing-governance''])]"

definition manifest_gate_agents :: "string list dict" where
  "manifest_gate_agents =
     [(''gate1'', [''intake'']),
      (''gate2'', [''research-evidence'', ''research-facts'', ''research-witnesses'', ''research-law'']),
      (''gate3'', [''synthesis'']), (''gate4'', [''audit''])]"

definition agents_of_gate :: "string \<Rightarrow> string list" where
  "agents_of_gate gate =
     (case map_of legacy_gate_agents gate of None \<Rightarrow> [] | Some xs \<Rightarrow> xs)
     @ (case map_of manifest_gate_agents gate of None \<Rightarrow> [] | Some xs \<Rightarrow> xs)"

definition text_entry :: "string \<Rightarrow> string option \<Rightarrow> pydict" where
  "text_entry k v = (if non_empty v then [(k, PStr (the v))] else [])"

definition paused_at :: "string \<Rightarrow> case_row \<Rightarrow> unit result" where
  "paused_at gate c =
     (if parse_status (''awaiting_review_'' @ gate) = Some (ca_status c) then Inr ()
      else Inl (HttpError 409 (''Case is not paused at '' @ gate)))"

definition final_gate :: py_error where
  "final_gate = HttpError 409 ''Gate 4 is the final gate; record a decision instead''"

definition advance_gate ::
  "request \<Rightarrow> uuid \<Rightarrow> string \<Rightarrow> string option \<Rightarrow> database \<Rightarrow> (database \<times> string) result" where
  "advance_gate rq cid gate_name notes db =
     bind_result (require_role [Judge] rq) (\<lambda>_.
       if gate_name \<notin> set valid_gate_names then Inl (HttpError 422 ''Invalid gate'')
       else bind_result (owned_case rq cid db) (\<lambda>c.
            bind_result (paused_at gate_name c) (\<lambda>_.
              case map_of next_gate gate_name of
                Some (Some ng) \<Rightarrow>
                  Inr (enqueue_job rq cid Job_gate_run
                         (Some ([(''gate_name'', PStr ng), (''resume_action'', PStr ''advance'')]
                                @ text_entry ''notes'' notes))
                         (assign_status (rq_now rq) cid S_processing c
                            (judge_audit rq cid ''gate_advanced''
                               ([(''gate_name'', PStr gate_name), (''next_gate'', PStr ng)]
                                @ text_entry ''notes'' notes) db)),
                       ''Advancing to '' @ ng)
              | _ \<Rightarrow> Inl final_gate)))"

definition rerun_gate ::
  "request \<Rightarrow> uuid \<Rightarrow> string \<Rightarrow> string option \<Rightarrow> string option \<Rightarrow> database \<Rightarrow> (database \<times> string) result" where
  "rerun_gate rq cid gate_name agent_name instructions db =
     bind_result (require_role [Judge] rq) (\<lambda>_.
       if gate_name \<notin> set valid_gate_names then Inl (HttpError 422 ''Invalid gate'')
       else bind_result (owned_case rq cid db) (\<lambda>c.
            bind_result (paused_at gate_name c) (\<lambda>_.
              if non_empty agent_name \<and> the agent_name \<notin> set (agents_of_gate gate_name)
              then Inl (HttpError 422 (''Agent '' @ quote (the agent_name) @ '' is not in '' @ gate_name))
              else
                let phase = PStr (the (map_of gate_to_phase gate_name));
                    subagent = (if non_empty agent_name then map_of agent_to_subagent (the agent_name)
                                else None)
                in Inr (enqueue_job rq cid Job_gate_run
                          (Some ([(''gate_name'', PStr gate_name), (''resume_action'', PStr ''rerun''),
                                  (''phase'', phase)]
                                 @ (case subagent of None \<Rightarrow> [] | Some s \<Rightarrow> [(''subagent'', PStr s)])
                                 @ text_entry ''instructions'' instructions
                                 @ text_entry ''notes'' instructions
                                 @ text_entry ''start_agent'' agent_name))
                          (assign_status (rq_now rq) cid S_processing c
                             (judge_audit rq cid ''gate_rerun_requested''
                                [(''gate_name'', PStr gate_name), (''phase'', phase),
                                 (''subagent'', dump_opt PStr subagent),
                                 (''start_agent'', dump_opt PStr agent_name),
                                 (''has_instructions'', PBool (non_empty instructions))] db)),
                        ''Re-running '' @ gate_name))))"

section \<open>The unified endpoint\<close>

datatype respond_action = Advance | Rerun | Halt | Send_back | Message

fun action_value :: "respond_action \<Rightarrow> string" where
  "action_value Advance = ''advance''"
| "action_value Rerun = ''rerun''"
| "action_value Halt = ''halt''"
| "action_value Send_back = ''send_back''"
| "action_value Message = ''message''"

datatype judge_phase = Ph_intake | Ph_research | Ph_synthesis | Ph_audit

fun phase_value :: "judge_phase \<Rightarrow> string" where
  "phase_value Ph_intake = ''intake''"
| "phase_value Ph_research = ''research''"
| "phase_value Ph_synthesis = ''synthesis''"
| "phase_value Ph_audit = ''audit''"

datatype subagent = Sub_evidence | Sub_facts | Sub_witnesses | Sub_law

fun subagent_value :: "subagent \<Rightarrow> string" where
  "subagent_value Sub_evidence = ''evidence''"
| "subagent_value Sub_facts = ''facts''"
| "subagent_value Sub_witnesses = ''witnesses''"
| "subagent_value Sub_law = ''law''"

record resume_payload =
  rp_action :: respond_action
  rp_notes :: "string option"
  rp_text :: "string option"
  rp_interrupt_id :: "string option"
  rp_phase :: "judge_phase option"
  rp_subagent :: "subagent option"
  rp_field_corrections :: "pydict option"
  rp_to_phase :: "judge_phase option"

text \<open>The truthiness tests \<open>any(...)\<close> of the validator.\<close>

definition rerun_only :: "resume_payload \<Rightarrow> bool" where
  "rerun_only p \<longleftrightarrow> rp_phase p \<noteq> None \<or> rp_subagent p \<noteq> None
     \<or> (case rp_field_corrections p of None \<Rightarrow> False | Some d \<Rightarrow> d \<noteq> [])"

definition message_only :: "resume_payload \<Rightarrow> bool" where
  "message_only p \<longleftrightarrow> non_empty (rp_text p) \<or> non_empty (rp_interrupt_id p)"

definition valid_resume_payload :: "resume_payload \<Rightarrow> bool" where
  "valid_resume_payload p \<longleftrightarrow> rp_to_phase p \<noteq> Some Ph_audit \<and>
     (case rp_action p of
        Advance \<Rightarrow> \<not> rerun_only p \<and> rp_to_phase p = None \<and> \<not> message_only p
      | Halt \<Rightarrow> \<not> rerun_only p \<and> rp_to_phase p = None \<and> \<not> message_only p
      | Rerun \<Rightarrow> rp_phase p \<noteq> None \<and> rp_to_phase p = None \<and> \<not> message_only p
          \<and> (rp_subagent p \<noteq> None \<longrightarrow> rp_phase p = Some Ph_research)
      | Send_back \<Rightarrow> rp_to_phase p \<noteq> None \<and> \<not> rerun_only p \<and> \<not> message_only p
      | Message \<Rightarrow> (case rp_text p of None \<Rightarrow> False | Some t \<Rightarrow> py_strip t \<noteq> [])
          \<and> rp_interrupt_id p \<noteq> None \<and> \<not> rerun_only p \<and> rp_to_phase p = None)"

definition current_gate :: "case_status \<Rightarrow> string" where
  "current_gate s =
     (if starts_with ''awaiting_review_'' (status_value s) then drop 16 (status_value s)
      else status_value s)"

text \<open>
  The send-back branch. A \<open>RuntimeError\<close> of the rewind is a conflict; any other error of it is the
  server's. The gate state column is left as it is.
\<close>

definition respond_send_back ::
  "('t, 'c) graph_ops \<Rightarrow> 't \<Rightarrow> bool \<Rightarrow> request \<Rightarrow> uuid \<Rightarrow> resume_payload \<Rightarrow> case_row \<Rightarrow> 't world
   \<Rightarrow> ('t world \<times> string) result" where
  "respond_send_back ops blank local rq cid p c w =
     (if \<not> local then Inl (HttpError 503 ''Graph runtime is in cloud mode; send_back not yet wired'')
      else
        let to_phase = (case rp_to_phase p of None \<Rightarrow> [] | Some ph \<Rightarrow> phase_value ph)
        in case send_back_to_phase ops (case w_threads w cid of None \<Rightarrow> blank | Some t \<Rightarrow> t)
                  to_phase (rp_notes p) of
             Inl (RuntimeErr msg) \<Rightarrow> Inl (HttpError 409 msg)
           | Inl e \<Rightarrow> Inl e
           | Inr (t, new_pause_gate) \<Rightarrow>
               let s = (case new_pause_gate of
                      Some g \<Rightarrow> if starts_with ''gate'' g
                                then (case parse_status (''awaiting_review_'' @ g) of
                                        None \<Rightarrow> S_processing | Some s \<Rightarrow> s)
                                else S_processing
                    | None \<Rightarrow> S_processing)
               in Inr ((set_thread cid t w)\<lparr>w_db := assign_status (rq_now rq) cid s c
                          (judge_audit rq cid ''gate_send_back''
                             [(''from_gate'', PStr (current_gate (ca_status c))),
                              (''to_phase'', PStr to_phase), (''notes'', dump_opt PStr (rp_notes p)),
                              (''new_pause_gate'', dump_opt PStr new_pause_gate)] (w_db w))\<rparr>,
                       ''Sent back to '' @ to_phase @ ''; paused at ''
                         @ (if non_empty new_pause_gate then the new_pause_gate else ''end'')))"

text \<open>Advance, rerun and halt: one transaction on the tables.\<close>

definition rerun_payload :: "string \<Rightarrow> resume_payload \<Rightarrow> pydict" where
  "rerun_payload gate p =
     [(''gate_name'', PStr gate), (''resume_action'', PStr ''rerun''),
      (''phase'', dump_opt (\<lambda>ph. PStr (phase_value ph)) (rp_phase p)),
      (''notes'', dump_opt PStr (rp_notes p))]
     @ (case rp_subagent p of None \<Rightarrow> [] | Some s \<Rightarrow> [(''subagent'', PStr (subagent_value s))])
     @ (case rp_field_corrections p of None \<Rightarrow> [] | Some d \<Rightarrow> [(''field_corrections'', PDict d)])
     @ text_entry ''instructions'' (rp_notes p)"

definition respond_in_tables ::
  "request \<Rightarrow> uuid \<Rightarrow> resume_payload \<Rightarrow> case_row \<Rightarrow> database \<Rightarrow> (database \<times> string) result" where
  "respond_in_tables rq cid p c db =
     (let gate = current_gate (ca_status c)
      in if rp_action p = Halt then
           Inr (assign_status (rq_now rq) cid S_failed c
                  (judge_audit rq cid ''gate_halt''
                     [(''gate'', PStr gate), (''notes'', dump_opt PStr (rp_notes p))] db),
                ''Halted at '' @ gate)
         else
           let audit_input = [(''gate'', PStr gate), (''action'', PStr (action_value (rp_action p))),
                              (''notes'', dump_opt PStr (rp_notes p))];
               db1 = (if rp_action p = Advance
                      then assign_status (rq_now rq) cid S_processing c
                             (judge_audit rq cid ''gate_advanced'' audit_input db)
                      else assign_status (rq_now rq) cid S_processing c
                             (judge_audit rq cid ''gate_rerun_requested'' (audit_input @
                                [(''phase'', dump_opt (\<lambda>ph. PStr (phase_value ph)) (rp_phase p)),
                                 (''subagent'', dump_opt (\<lambda>s. PStr (subagent_value s)) (rp_subagent p)),
                                 (''has_field_corrections'', PBool (rp_field_corrections p \<noteq> None))]) db))
           in if rp_action p = Advance then
                (case map_of next_gate gate of
                   Some (Some ng) \<Rightarrow>
                     Inr (enqueue_job rq cid Job_gate_run
                            (Some [(''gate_name'', PStr ng), (''resume_action'', PStr ''advance''),
                                   (''notes'', dump_opt PStr (rp_notes p))]) db1,
                          ''Advancing to '' @ ng)
                 | _ \<Rightarrow> Inl final_gate)
              else Inr (enqueue_job rq cid Job_gate_run (Some (rerun_payload gate p)) db1,
                        ''Re-running '' @ gate))"

section \<open>Chat replies\<close>

definition matching_ask :: "string \<Rightarrow> task list \<Rightarrow> pydict option" where
  "matching_ask interrupt_id tasks =
     (case find (\<lambda>v. is_ask_judge v
                  \<and> (case v of PDict d \<Rightarrow> map_of d ''interrupt_id'' = Some (PStr interrupt_id) | _ \<Rightarrow> False))
            (concat (map tk_interrupts tasks)) of
        Some (PDict d) \<Rightarrow> Some d
      | _ \<Rightarrow> None)"

text \<open>
  The part of \<open>_handle_message_resume\<close> that answers the request. The reply itself is delivered by the
  background task \<open>chat_drive_resume\<close>, over \<open>resume_text\<close>, the graph's
  \<open>ainvoke(Command(update={judge_messages}, resume={text}))\<close>.
\<close>

definition handle_message_resume ::
  "('t, 'c) graph_ops \<Rightarrow> 't \<Rightarrow> bool \<Rightarrow> request \<Rightarrow> uuid \<Rightarrow> resume_payload \<Rightarrow> 't world
   \<Rightarrow> ('t world \<times> string) result" where
  "handle_message_resume ops blank local rq cid p w =
     (case (rp_text p, rp_interrupt_id p) of
        (Some txt, Some iid) \<Rightarrow>
          if \<not> local then
            Inl (HttpError 503 ''Graph runtime is in cloud mode; chat-steering not yet wired'')
          else
            (case matching_ask iid
                    (op_tasks ops (case w_threads w cid of None \<Rightarrow> blank | Some t \<Rightarrow> t)) of
               None \<Rightarrow> Inl (HttpError 409 ''No pending ask_judge interrupt matches that interrupt_id'')
             | Some _ \<Rightarrow>
                 Inr (publish (Agent_event cid
                        [(''kind'', PStr ''agent''), (''case_id'', PStr cid), (''agent'', PStr ''synthesis''),
                         (''event'', PStr ''agent_resumed''), (''interrupt_id'', PStr iid)])
                      (w\<lparr>w_db := judge_audit rq cid ''agent_message''
                           [(''interrupt_id'', PStr iid), (''text_chars'', PInt (int (length txt)))]
                           (w_db w)\<rparr>),
                      ''Reply delivered; agent resumed''))
      | _ \<Rightarrow> Inl (OtherError ''AssertionError''))"

definition chat_drive_resume ::
  "('t, 'c) runtime_env \<Rightarrow> ('t \<Rightarrow> string \<Rightarrow> 't result) \<Rightarrow> uuid \<Rightarrow> string \<Rightarrow> 't world \<Rightarrow> 't world" where
  "chat_drive_resume env resume_text cid txt w =
     (case w_threads w cid of
        None \<Rightarrow> w
      | Some t0 \<Rightarrow>
          (case resume_text t0 txt of
             Inl _ \<Rightarrow> w
           | Inr t \<Rightarrow>
               let w1 = set_thread cid t w; tasks = op_tasks (re_ops env) t; st = re_case env t
               in if find_pending_chat_interrupt tasks \<noteq> None then w1
                  else case find_pending_interrupt tasks of
                    None \<Rightarrow>
                      (case persist_world env cid
                              (st\<lparr>cs_status := (if halted (re_halt env t) then E_failed else E_closed)\<rparr>)
                              None w1 of
                         (w2, Some _) \<Rightarrow> w2
                       | (w2, None) \<Rightarrow> publish (Progress_event cid ''pipeline'' ''terminal''
                                         (terminal_detail (re_halt env t))) w2)
                  | Some (gate, ipayload) \<Rightarrow>
                      (case persist_world env cid st (Some (gate_state_of (gate_number gate))) w1 of
                         (w2, Some _) \<Rightarrow> w2
                       | (w2, None) \<Rightarrow>
                           publish (Progress_event cid ''pipeline'' ''awaiting_review''
                              [(''gate'', PStr gate), (''stopped_at'', PStr (''awaiting_review_'' @ gate))])
                             (publish_interrupt (re_now env) cid gate ipayload w2))))"

definition respond_to_gate ::
  "('t, 'c) graph_ops \<Rightarrow> 't \<Rightarrow> bool \<Rightarrow> request \<Rightarrow> uuid \<Rightarrow> resume_payload \<Rightarrow> 't world
   \<Rightarrow> ('t world \<times> string) result" where
  "respond_to_gate ops blank local rq cid p w =
     bind_result (require_role [Judge] rq) (\<lambda>_.
       if \<not> valid_resume_payload p then Inl (HttpError 422 ''Invalid payload'')
       else bind_result (own_case_only rq cid (w_db w)) (\<lambda>c.
         if rp_action p = Message then handle_message_resume ops blank local rq cid p w
         else if ca_status c \<notin> set gate_pause_statuses
         then Inl (HttpError 409 ''Case is not paused at any gate'')
         else if current_gate (ca_status c) \<notin> set valid_gate_names
         then Inl (HttpError 409 (''Unrecognised pause status '' @ quote (status_value (ca_status c))))
         else if rp_action p = Advance \<and> current_gate (ca_status c) = ''gate4'' then Inl final_gate
         else if rp_action p = Send_back then respond_send_back ops blank local rq cid p c w
         else bind_result (respond_in_tables rq cid p c (w_db w))
                (\<lambda>(db, msg). Inr (w\<lparr>w_db := db\<rparr>, msg))))"

section \<open>Decisions and questions\<close>

record ai_engagement =
  en_conclusion_type :: string
  en_conclusion_id :: "string option"
  en_agreed :: bool
  en_reasoning :: "string option"

definition valid_engagement :: "ai_engagement \<Rightarrow> bool" where
  "valid_engagement e \<longleftrightarrow> en_agreed e \<or> (case en_reasoning e of None \<Rightarrow> False | Some r \<Rightarrow> py_strip r \<noteq> [])"

definition engagement_dump :: "ai_engagement \<Rightarrow> pyval" where
  "engagement_dump e = PDict
     [(''conclusion_type'', PStr (en_conclusion_type e)),
      (''conclusion_id'', dump_opt PStr (en_conclusion_id e)), (''agreed'', PBool (en_agreed e)),
      (''reasoning'', dump_opt PStr (en_reasoning e))]"

definition record_decision ::
  "(int \<Rightarrow> string) \<Rightarrow> request \<Rightarrow> uuid \<Rightarrow> string \<Rightarrow> ai_engagement list \<Rightarrow> database \<Rightarrow> (database \<times> string) result" where
  "record_decision isoformat rq cid verdict engagements db =
     bind_result (require_role [Judge] rq) (\<lambda>_.
       if verdict = [] \<or> \<not> list_all valid_engagement engagements
       then Inl (HttpError 422 ''Invalid decision'')
       else bind_result (owned_case rq cid db) (\<lambda>c.
         Inr (judge_audit rq cid ''judicial_decision_recorded''
                [(''verdict_text'', PStr (take 200 verdict)),
                 (''engagements_count'', PInt (int (length engagements)))]
                (update_case cid (\<lambda>r. r\<lparr>ca_judicial_decision := Some
                     [(''verdict_text'', PStr verdict),
                      (''ai_engagements'', PList (map engagement_dump engagements)),
                      (''recorded_at'', PStr (isoformat (rq_now rq))),
                      (''judge_id'', PStr (us_id (rq_user rq)))],
                    ca_updated_at := Some (rq_now rq)\<rparr>) db),
              ''Decision recorded'')))"

text \<open>\<open>scalar_one_or_none\<close> raises when there are several rows.\<close>

definition update_suggested_questions ::
  "request \<Rightarrow> uuid \<Rightarrow> string \<Rightarrow> pyval list \<Rightarrow> database \<Rightarrow> (database \<times> string) result" where
  "update_suggested_questions rq cid side questions db =
     bind_result (require_role [Judge] rq) (\<lambda>_.
     bind_result (owned_case rq cid db) (\<lambda>c.
       if side \<notin> set argument_side_column then Inl (HttpError 422 (''Invalid side: '' @ side))
       else case filter (\<lambda>a. ag_case a = cid \<and> ag_side a = side) (db_arguments db) of
              [] \<Rightarrow> Inl (HttpError 404 (''No argument found for side '' @ side))
            | [_] \<Rightarrow> Inr (judge_audit rq cid ''suggested_questions_edit''
                       [(''side'', PStr side), (''questions_count'', PInt (int (length questions)))]
                       (db\<lparr>db_arguments := map (\<lambda>a. if ag_case a = cid \<and> ag_side a = side
                             then a\<lparr>ag_suggested_questions := Some (PList questions)\<rparr> else a)
                             (db_arguments db)\<rparr>),
                     ''Suggested questions updated'')
            | _ \<Rightarrow> Inl (OtherError ''MultipleResultsFound'')))"

end
