(* ===== verification/System.thy ===== *)
theory System
  imports Case_Api
begin

text \<open>
  The deployed system: requests of the judge, the outbox dispatcher and the worker, as steps on one
  world of tables and threads. The invariant couples them: a case has at most one live job of its
  pipeline, and only while it is processing, and a case that awaits the review of a gate has a
  thread that is paused at that gate.
\<close>

section \<open>Steps\<close>

definition put_jobs :: "job_table \<Rightarrow> 't world \<Rightarrow> 't world" where
  "put_jobs jobs w = w\<lparr>w_db := (w_db w)\<lparr>db_jobs := jobs\<rparr>\<rparr>"

definition case_runner ::
  "(thread, nat) runtime_env \<Rightarrow> (int \<Rightarrow> string) \<Rightarrow> (uuid \<Rightarrow> pydict option) \<Rightarrow> uuid \<Rightarrow> bool \<Rightarrow> thread world runner" where
  "case_runner env isoformat backfill fresh cancelled job trace_id w =
     run_case_pipeline env isoformat backfill fresh cancelled (jb_case_id job) w"

text \<open>
  \<open>blank\<close> is the thread of a case without one. The worker runs rows that were dispatched; requests
  on one case do not overlap.
\<close>

inductive system_step :: "(thread, nat) runtime_env \<Rightarrow> thread \<Rightarrow> thread world \<Rightarrow> thread world \<Rightarrow> bool"
  for env blank where
  start: "process_case rq cid (w_db w) = Inr (db, msg) \<Longrightarrow> system_step env blank w (w\<lparr>w_db := db\<rparr>)"
| restart: "restart_case_pipeline orm_view rq cid (w_db w) = Inr (db, msg) \<Longrightarrow>
    system_step env blank w (w\<lparr>w_db := db\<rparr>)"
| advance: "advance_gate rq cid gate_name remark (w_db w) = Inr (db, msg) \<Longrightarrow>
    system_step env blank w (w\<lparr>w_db := db\<rparr>)"
| rerun: "rerun_gate rq cid gate_name agent_name remark (w_db w) = Inr (db, msg) \<Longrightarrow>
    system_step env blank w (w\<lparr>w_db := db\<rparr>)"
| respond: "respond_to_gate pipeline_ops blank is_local rq cid p w = Inr (w', msg) \<Longrightarrow>
    system_step env blank w w'"
| cancel: "w_threads w cid \<noteq> None \<Longrightarrow>
    cancel_case_pipeline pipeline_ops blank is_local rq cid w = Inr (w', msg) \<Longrightarrow>
    system_step env blank w w'"
| decide: "record_decision isoformat rq cid verdict engagements (w_db w) = Inr (db, msg) \<Longrightarrow>
    system_step env blank w (w\<lparr>w_db := db\<rparr>)"
| dispatch: "dispatch_batch (enq :: uuid list arq_enqueue) locked now q (db_jobs (w_db w)) = (q', jobs', n) \<Longrightarrow>
    system_step env blank w (put_jobs jobs' w)"
| recover: "system_step env blank w
    (put_jobs (fst (recover_stuck_jobs now secs (db_jobs (w_db w)))) w)"
| work_gate: "find_job jid (db_jobs (w_db w)) = Some job \<Longrightarrow> jb_status job = Job_dispatched \<Longrightarrow>
    run_with_outbox (run_gate_job env fresh) Job_gate_run now jid (db_jobs (w_db w)) w
      = (jobs', w', report) \<Longrightarrow>
    system_step env blank w (put_jobs jobs' w')"
| work_case: "find_job jid (db_jobs (w_db w)) = Some job \<Longrightarrow> jb_status job = Job_dispatched \<Longrightarrow>
    run_with_outbox (case_runner env isoformat backfill fresh cancelled) Job_case_pipeline now jid
      (db_jobs (w_db w)) w = (jobs', w', report) \<Longrightarrow>
    system_step env blank w (put_jobs jobs' w')"

section \<open>Invariant\<close>

definition is_live_job :: "uuid \<Rightarrow> pipeline_job \<Rightarrow> bool" where
  "is_live_job cid j \<longleftrightarrow> jb_case_id j = cid \<and> jb_type j \<in> {Job_case_pipeline, Job_gate_run}
     \<and> jb_status j \<in> {Job_pending, Job_dispatched}"

definition live_jobs :: "uuid \<Rightarrow> job_table \<Rightarrow> job_table" where
  "live_jobs cid jobs = filter (is_live_job cid) jobs"

definition awaiting :: "string \<Rightarrow> case_status option" where
  "awaiting g = parse_status (''awaiting_review_'' @ g)"

definition waits_at :: "uuid \<Rightarrow> thread world \<Rightarrow> string \<Rightarrow> bool" where
  "waits_at cid w g \<longleftrightarrow> (case w_threads w cid of None \<Rightarrow> False
     | Some t \<Rightarrow> run_gate_of (th_head t) = Some g)"

definition row_ok :: "uuid \<Rightarrow> thread world \<Rightarrow> case_row \<Rightarrow> bool" where
  "row_ok cid w c \<longleftrightarrow> length (live_jobs cid (db_jobs (w_db w))) \<le> 1
     \<and> (live_jobs cid (db_jobs (w_db w)) \<noteq> [] \<longrightarrow> ca_status c = S_processing)
     \<and> (\<forall>g \<in> set gate_names. awaiting g = Some (ca_status c) \<longrightarrow> waits_at cid w g)"

definition jobs_carry_actions :: "job_table \<Rightarrow> bool" where
  "jobs_carry_actions jobs \<longleftrightarrow> (\<forall>j \<in> set jobs. jb_type j = Job_gate_run \<longrightarrow>
     (\<exists>p. jb_payload j = Some p \<and> truthy (pget p ''resume_action'')))"

definition system_ok :: "thread world \<Rightarrow> bool" where
  "system_ok w \<longleftrightarrow> (\<forall>cid t. w_threads w cid = Some t \<longrightarrow> thread_live t)
     \<and> jobs_carry_actions (db_jobs (w_db w))
     \<and> (\<forall>cid c. find_case cid (w_db w) = Some c \<longrightarrow> row_ok cid w c)"

text \<open>What the runtime promises beside driving the pipeline: a checkpoint row violates no constraint, and
  a run, on a new or an old thread, leaves a live one and does not write the status of its case.\<close>

definition runs_leave_live_threads :: "(thread, nat) runtime_env \<Rightarrow> bool" where
  "runs_leave_live_threads env \<longleftrightarrow> (\<forall>n. re_answers env n \<noteq> Integrity_error)
     \<and> (\<forall>t0 c t c'. re_run env t0 c = Inr (t, c') \<longrightarrow> thread_live t \<and> cs_status c' = cs_status c)"

lemma system_okD:
  assumes "system_ok w"
  shows "w_threads w cid = Some t \<Longrightarrow> thread_live t"
    and "jobs_carry_actions (db_jobs (w_db w))"
    and "find_case cid (w_db w) = Some c \<Longrightarrow> row_ok cid w c"
  using assms by (auto simp: system_ok_def)

text \<open>A step that concerns one case.\<close>

lemma system_ok_one_case:
  assumes "system_ok w"
    and "\<And>k. k \<noteq> cid \<Longrightarrow> w_threads w' k = w_threads w k"
    and "\<And>t. w_threads w' cid = Some t \<Longrightarrow> thread_live t"
    and "\<And>k. k \<noteq> cid \<Longrightarrow> find_case k (w_db w') = find_case k (w_db w)"
    and "\<And>k. k \<noteq> cid \<Longrightarrow>
           length (live_jobs k (db_jobs (w_db w'))) \<le> length (live_jobs k (db_jobs (w_db w)))"
    and "jobs_carry_actions (db_jobs (w_db w'))"
    and "\<And>c. find_case cid (w_db w') = Some c \<Longrightarrow> row_ok cid w' c"
  shows "system_ok w'"
  unfolding system_ok_def
proof (intro conjI allI impI)
  fix k t assume "w_threads w' k = Some t"
  then show "thread_live t"
    using assms(2,3) system_okD(1) [OF assms(1)] by (cases "k = cid") auto
next
  fix k c assume c: "find_case k (w_db w') = Some c"
  show "row_ok k w' c"
  proof (cases "k = cid")
    case True
    with assms(7) c show ?thesis by simp
  next
    case False
    then have "row_ok k w c" using system_okD(3) [OF assms(1)] c assms(4) by simp
    moreover have "length (live_jobs k (db_jobs (w_db w'))) \<le> length (live_jobs k (db_jobs (w_db w)))"
      using False assms(5) by simp
    ultimately show ?thesis using False by (auto simp: row_ok_def waits_at_def assms(2))
  qed
qed (rule assms(6))

section \<open>Effects of requests on rows and jobs\<close>

definition with_status :: "int \<Rightarrow> uuid \<Rightarrow> case_status \<Rightarrow> case_row \<Rightarrow> case_row" where
  "with_status now cid s c =
     (if ca_id c = cid then c\<lparr>ca_status := s, ca_updated_at := Some now\<rparr> else c)"

lemma find_set_status [simp]:
  "find_case k (set_status now cid s db) = map_option (with_status now cid s) (find_case k db)"
proof -
  have "(if k = cid then c\<lparr>ca_status := s, ca_updated_at := Some now\<rparr> else c) = with_status now cid s c"
    if "find_case k db = Some c" for c
    using find_case_id [OF that] by (simp add: with_status_def)
  then show ?thesis by (auto simp: set_status_def split: option.splits intro: option.map_cong)
qed

lemma request_frame [simp]:
  "db_jobs (set_status now cid s db) = db_jobs db"
  "db_jobs (judge_audit rq cid a inp db) = db_jobs db"
  "find_case k (judge_audit rq cid a inp db) = find_case k db"
  "find_case k (enqueue_job rq cid jt payload db) = find_case k db"
  "find_domain d (set_status now cid s db) = find_domain d db"
  "find_domain d (judge_audit rq cid a inp db) = find_domain d db"
  "find_domain d (enqueue_job rq cid jt payload db) = find_domain d db"
  by (simp_all add: set_status_def judge_audit_def enqueue_job_def find_domain_def split: option.split)

lemma enqueue_job_jobs:
  "\<exists>job. db_jobs (enqueue_job rq cid jt payload db) = db_jobs db @ [job]
     \<and> jb_case_id job = cid \<and> jb_type job = jt \<and> jb_payload job = payload \<and> jb_status job = Job_pending
     \<and> jb_id job = rq_job_id rq"
  by (simp add: enqueue_job_def enqueue_outbox_job_def Let_def)

lemma live_jobs_simps [simp]:
  "live_jobs cid (jobs @ [j]) = live_jobs cid jobs @ (if is_live_job cid j then [j] else [])"
  by (simp add: live_jobs_def)

lemma live_jobs_map:
  assumes "\<And>j. is_live_job cid (f j) = is_live_job cid j"
  shows "live_jobs cid (map f jobs) = map f (live_jobs cid jobs)"
  unfolding live_jobs_def filter_map comp_def assms ..

lemma with_status_simps [simp]:
  "ca_id (with_status now cid s c) = ca_id c"
  "ca_id c = cid \<Longrightarrow> ca_status (with_status now cid s c) = s"
  "ca_id c \<noteq> cid \<Longrightarrow> with_status now cid s c = c"
  by (simp_all add: with_status_def)

lemma awaiting_status:
  "awaiting g = Some s \<Longrightarrow> s \<in> set gate_pause_statuses"
  "g \<in> set gate_names \<Longrightarrow> awaiting g = Some (ca_status c) \<longleftrightarrow>
     ca_status c \<in> set gate_pause_statuses \<and> current_gate (ca_status c) = g"
proof -
  have parse: "status_value s = v" if "parse_status v = Some s" for v s
    using that unfolding parse_status_def by (drule_tac find_Some_in) simp
  show "awaiting g = Some s \<Longrightarrow> s \<in> set gate_pause_statuses"
    unfolding awaiting_def by (drule parse, cases s) (auto simp: gate_pause_statuses_def)
  show "g \<in> set gate_names \<Longrightarrow> awaiting g = Some (ca_status c) \<longleftrightarrow>
     ca_status c \<in> set gate_pause_statuses \<and> current_gate (ca_status c) = g"
    unfolding awaiting_def
    by (drule gate_names_cases, cases "ca_status c")
      (auto simp: gate_pause_statuses_def current_gate_def starts_with_def parse_status_def
        all_statuses_def)
qed

lemma no_live_jobs:
  assumes "system_ok w" "find_case cid (w_db w) = Some c" "ca_status c \<noteq> S_processing"
  shows "live_jobs cid (db_jobs (w_db w)) = []"
  using system_okD(3) [OF assms(1,2)] assms(3) by (auto simp: row_ok_def)

text \<open>A request that starts or resumes a case: status and job together.\<close>

lemma system_ok_enqueued:
  assumes ok: "system_ok w" and c: "find_case cid (w_db w) = Some c" "ca_status c \<noteq> S_processing"
    and rows: "\<And>k. find_case k db = map_option (with_status now cid S_processing) (find_case k (w_db w))"
    and jobs: "db_jobs db = db_jobs (w_db w) @ [job]" "jb_case_id job = cid"
    and action: "jb_type job = Job_gate_run \<Longrightarrow> \<exists>p. jb_payload job = Some p \<and> truthy (pget p ''resume_action'')"
  shows "system_ok (w\<lparr>w_db := db\<rparr>)"
proof (rule system_ok_one_case [OF ok, of cid])
  show "find_case k (w_db (w\<lparr>w_db := db\<rparr>)) = find_case k (w_db w)" if "k \<noteq> cid" for k
    using that find_case_id [of k "w_db w"] by (auto simp: rows split: option.splits intro!: option.map_ident_strong)
  show "length (live_jobs k (db_jobs (w_db (w\<lparr>w_db := db\<rparr>)))) \<le> length (live_jobs k (db_jobs (w_db w)))"
    if "k \<noteq> cid" for k
    using that jobs by (simp add: is_live_job_def)
  show "jobs_carry_actions (db_jobs (w_db (w\<lparr>w_db := db\<rparr>)))"
    using system_okD(2) [OF ok] action by (auto simp: jobs_carry_actions_def jobs)
  fix c' assume "find_case cid (w_db (w\<lparr>w_db := db\<rparr>)) = Some c'"
  then have "ca_status c' = S_processing" using c(1) find_case_id [OF c(1)] by (auto simp: rows)
  then show "row_ok cid (w\<lparr>w_db := db\<rparr>) c'"
    using no_live_jobs [OF ok c] by (auto simp: row_ok_def jobs dest: awaiting_status(1) simp: gate_pause_statuses_def)
qed (use system_okD(1) [OF ok] in auto)

text \<open>A request that leaves the jobs alone.\<close>

lemma system_ok_restatus:
  assumes ok: "system_ok w" and c: "find_case cid (w_db w) = Some c" "ca_status c \<noteq> S_processing"
    and rows: "\<And>k. find_case k (w_db w') = map_option (with_status now cid s) (find_case k (w_db w))"
    and jobs: "db_jobs (w_db w') = db_jobs (w_db w)"
    and others: "\<And>k. k \<noteq> cid \<Longrightarrow> w_threads w' k = w_threads w k"
    and live: "\<And>t. w_threads w' cid = Some t \<Longrightarrow> thread_live t"
    and waits: "\<And>g. g \<in> set gate_names \<Longrightarrow> awaiting g = Some s \<Longrightarrow> waits_at cid w' g"
  shows "system_ok w'"
proof (rule system_ok_one_case [OF ok others live])
  show "find_case k (w_db w') = find_case k (w_db w)" if "k \<noteq> cid" for k
    using that find_case_id [of k "w_db w"] by (auto simp: rows split: option.splits intro!: option.map_ident_strong)
  show "jobs_carry_actions (db_jobs (w_db w'))" using system_okD(2) [OF ok] by (simp add: jobs)
  fix c' assume "find_case cid (w_db w') = Some c'"
  then have "ca_status c' = s" using c(1) find_case_id [OF c(1)] by (auto simp: rows)
  then show "row_ok cid w' c'"
    using no_live_jobs [OF ok c] waits by (simp add: row_ok_def jobs)
qed (simp_all add: jobs)

section \<open>Effects of the worker\<close>

lemma checkpoint_written:
  assumes "\<forall>n. answers n \<noteq> Integrity_error"
  shows "\<exists>cks'. fst (persist_case_state serialize answers cid run agent st cks) = Inr cks'"
proof -
  have "\<exists>cks'. fst (upsert_attempts m k answers row cks) = Inr cks'" for m k row
    using assms by (induction m k answers row cks rule: upsert_attempts.induct)
      (auto split: write_outcome.split)
  then show ?thesis by (simp add: persist_case_state_def)
qed

lemma persist_world_effect:
  assumes "\<forall>n. re_answers env n \<noteq> Integrity_error" and "persist_world env cid st g w = (w', e)"
  shows "w_threads w' = w_threads w" and "db_jobs (w_db w') = db_jobs (w_db w)"
    and "k \<noteq> cid \<Longrightarrow> find_case k (w_db w') = find_case k (w_db w)"
    and "e \<noteq> None \<Longrightarrow> w' = w"
    and "find_case cid (w_db w) = None \<Longrightarrow> find_case cid (w_db w') = None"
proof -
  let ?same = "w_threads w' = w_threads w \<and> db_jobs (w_db w') = db_jobs (w_db w)
    \<and> (k \<noteq> cid \<longrightarrow> find_case k (w_db w') = find_case k (w_db w)) \<and> (e \<noteq> None \<longrightarrow> w' = w)
    \<and> (find_case cid (w_db w) = None \<longrightarrow> find_case cid (w_db w') = None)"
  have ?same
  proof (cases "persist_tables (re_parsers env) cid st g (w_db w)")
    case (Inl err)
    then show ?thesis using assms(2) by (auto simp: persist_world_def persist_case_results_def)
  next
    case (Inr db1)
    have jobs: "db_jobs db1 = db_jobs (w_db w)"
      using Inr by (auto simp: persist_tables_def bind_result_Inr Let_def replace_child_rows_def
          split: option.splits if_splits)
    have rows: "k \<noteq> cid \<longrightarrow> find_case k db1 = find_case k (w_db w)"
      "find_case cid (w_db w) = None \<longrightarrow> find_case cid db1 = None"
    proof -
      have "(k \<noteq> cid \<longrightarrow> find_case k db1 = find_case k (w_db w))
          \<and> (find_case cid (w_db w) = None \<longrightarrow> find_case cid db1 = None)"
      proof (cases "find_case cid (w_db w)")
        case None
        then have "\<exists>rows. db1 = (replace_child_rows cid rows (w_db w))
            \<lparr>db_audit := db_audit (w_db w) @ insert_audit_log cid st\<rparr>"
          using Inr by (auto simp: persist_tables_def bind_result_Inr Let_def split: if_splits)
        then show ?thesis by (auto simp: find_case_def)
      next
        case (Some c)
        from persist_tables_Inr [OF Inr Some] obtain rows c' where "ca_id c' = cid"
          "db1 = update_case cid (\<lambda>_. c') ((replace_child_rows cid rows (w_db w))
             \<lparr>db_audit := db_audit (w_db w) @ insert_audit_log cid st\<rparr>)" by metis
        with Some show ?thesis by (simp add: find_case_set) (simp add: find_case_def)
      qed
      then show "k \<noteq> cid \<longrightarrow> find_case k db1 = find_case k (w_db w)"
        "find_case cid (w_db w) = None \<longrightarrow> find_case cid db1 = None" by auto
    qed
    obtain cks where cks: "fst (persist_case_state (re_serialize env) (re_answers env) cid (cs_run_id st)
        ''terminal'' st (db_checkpoints db1)) = Inr cks"
      using checkpoint_written [OF assms(1)] by blast
    have "e = None" "w' = w\<lparr>w_db := db1\<rparr> \<or> w' = w\<lparr>w_db := db1\<lparr>db_checkpoints := cks\<rparr>\<rparr>"
      using assms(2) Inr cks
      by (auto simp: persist_world_def persist_case_results_def split: if_splits)
    with jobs rows show ?thesis by auto
  qed
  then show "w_threads w' = w_threads w" "db_jobs (w_db w') = db_jobs (w_db w)"
    "k \<noteq> cid \<Longrightarrow> find_case k (w_db w') = find_case k (w_db w)"
    "e \<noteq> None \<Longrightarrow> w' = w"
    "find_case cid (w_db w) = None \<Longrightarrow> find_case cid (w_db w') = None" by simp_all
qed

text \<open>
  What a job of a case that is processing may do: nothing, or leave it where its thread is.
\<close>

definition job_effect :: "uuid \<Rightarrow> thread world \<Rightarrow> thread world \<Rightarrow> bool" where
  "job_effect cid w w' \<longleftrightarrow> db_jobs (w_db w') = db_jobs (w_db w)
     \<and> (\<forall>k. k \<noteq> cid \<longrightarrow> w_threads w' k = w_threads w k \<and> find_case k (w_db w') = find_case k (w_db w))
     \<and> (\<forall>t. w_threads w' cid = Some t \<longrightarrow> thread_live t)
     \<and> (find_case cid (w_db w) = None \<longrightarrow> find_case cid (w_db w') = None)
     \<and> (\<forall>c c'. find_case cid (w_db w) = Some c \<longrightarrow> ca_status c = S_processing \<longrightarrow>
          find_case cid (w_db w') = Some c' \<longrightarrow>
          (\<forall>g \<in> set gate_names. awaiting g = Some (ca_status c') \<longrightarrow> waits_at cid w' g))"

lemma job_effect_refl:
  "(\<And>t. w_threads w cid = Some t \<Longrightarrow> thread_live t) \<Longrightarrow> job_effect cid w w"
  by (auto simp: job_effect_def dest: awaiting_status(1) simp: gate_pause_statuses_def)

text \<open>The persisted status of a state decides what is left to show.\<close>

lemma job_effect_persisted:
  assumes "\<forall>n. re_answers env n \<noteq> Integrity_error"
    and "persist_world env cid st gs (set_thread cid t w) = (w', e)" "thread_live t"
    and "e = None \<Longrightarrow> cs_status st \<in> {E_failed, E_closed, E_pending}"
  shows "job_effect cid w w'"
proof -
  note eff = persist_world_effect [OF assms(1,2)]
  have "\<forall>g \<in> set gate_names. awaiting g = Some (ca_status c') \<longrightarrow> waits_at cid w' g"
    if c: "find_case cid (w_db w) = Some c" "ca_status c = S_processing"
      and c': "find_case cid (w_db w') = Some c'" for c c'
  proof (cases e)
    case None
    have "find_case cid (w_db (set_thread cid t w)) = Some c" using c(1) by (simp add: set_thread_def)
    with persist_world_row(1) [of env cid st gs "set_thread cid t w" w' c] assms(2) None c'
    have "status_value (ca_status c') = case_status_value (cs_status st)" by auto
    then have "ca_status c' \<in> {S_failed, S_closed, S_pending}"
      using assms(4) [OF None] by (cases "ca_status c'") auto
    then show ?thesis by (auto dest!: awaiting_status(1) simp: gate_pause_statuses_def)
  next
    case (Some err)
    then have "w' = set_thread cid t w" using eff(4) by simp
    then have "c' = c" using c(1) c' by (simp add: set_thread_def)
    then show ?thesis using c(2) by (auto dest!: awaiting_status(1) simp: gate_pause_statuses_def)
  qed
  then show ?thesis
    using eff(1-3,5) assms(3) by (auto simp: job_effect_def set_thread_def)
qed

lemma upsert_frame:
  "db_jobs (upsert_legacy_gate_status now cid g db) = db_jobs db"
  "k \<noteq> cid \<Longrightarrow> find_case k (upsert_legacy_gate_status now cid g db) = find_case k db"
  "find_case k db = None \<Longrightarrow> find_case k (upsert_legacy_gate_status now cid g db) = None"
  by (auto simp: upsert_legacy_gate_status_def split: option.splits intro!: option.map_ident_strong)

lemma awaiting_unique: "awaiting g = Some s \<Longrightarrow> awaiting h = Some s \<Longrightarrow> g = h"
  unfolding awaiting_def parse_status_def
  by (drule find_Some_in, drule find_Some_in) simp

lemma upsert_awaits:
  assumes "g \<in> set gate_names" "find_case cid (upsert_legacy_gate_status now cid g db) = Some c'"
  shows "awaiting g = Some (ca_status c')"
proof -
  have "find_case cid db \<noteq> None" using assms(2) upsert_frame(3) by fastforce
  with upsert_gate_row [OF assms(1), of cid db _ now] assms(2) show ?thesis
    unfolding awaiting_def by fastforce
qed

lemma job_effect_gate:
  assumes "\<forall>n. re_answers env n \<noteq> Integrity_error"
    and "persist_world env cid st gs (set_thread cid t w) = (w2, None)" "thread_live t"
    and "run_gate_of (th_head t) = Some g" "g \<in> set gate_names"
    and "w_threads w' = w_threads w2"
    and "db_jobs (w_db w') = db_jobs (w_db w2)"
    and "\<And>k. find_case k (w_db w') = find_case k (upsert_legacy_gate_status now cid g (w_db w2))"
  shows "job_effect cid w w'"
proof -
  note eff = persist_world_effect [OF assms(1,2)]
  have "waits_at cid w' h" if "find_case cid (w_db w') = Some c'" "awaiting h = Some (ca_status c')" for c' h
  proof -
    have "awaiting g = Some (ca_status c')" using that(1) assms(5,8) upsert_awaits by simp
    then have "h = g" using that(2) awaiting_unique by blast
    then show ?thesis using assms(4,6) eff(1) by (simp add: waits_at_def set_thread_def)
  qed
  moreover have "find_case k (w_db w') = find_case k (w_db w)" if "k \<noteq> cid" for k
    using eff(3) [OF that] assms(8) upsert_frame(2) [OF that] by (simp add: set_thread_def)
  moreover have "db_jobs (w_db w') = db_jobs (w_db w)" using eff(2) assms(7) by (simp add: set_thread_def)
  moreover have "find_case cid (w_db w') = None" if "find_case cid (w_db w) = None"
    using eff(5) assms(8) upsert_frame(3) that by (simp add: set_thread_def)
  ultimately show ?thesis
    using eff(1) assms(3,6) by (auto simp: job_effect_def set_thread_def)
qed

lemma gate_job_effect:
  assumes env: "drives_pipeline env" "runs_leave_live_threads env"
    and live: "\<And>t. w_threads w cid = Some t \<Longrightarrow> thread_live t"
    and run: "run_gate_via_resume env cid payload w = (w', e)"
  shows "job_effect cid w w'"
proof -
  let ?rep = "ps_rep (re_parsers env)"
  have written: "\<forall>n. re_answers env n \<noteq> Integrity_error"
    using env(2) by (simp add: runs_leave_live_threads_def)
  have ops: "re_ops env = pipeline_ops" using drives_pipelineD(1) [OF env(1)] .
  show ?thesis
  proof (cases "w' = w")
    case True
    then show ?thesis using job_effect_refl live by simp
  next
    case False
    then obtain dom where dom: "live_domain cid (w_db w) = Inr dom"
      using run by (auto simp: run_gate_via_resume_def split: sum.splits)
    obtain t0 where t0: "w_threads w cid = Some t0"
      using run dom False by (auto simp: run_gate_via_resume_def split: option.splits)
    obtain t out where t: "drive_resume ?rep pipeline_ops t0 payload = Inr (t, out)"
      using run dom t0 False ops
      by (cases "drive_resume ?rep pipeline_ops t0 payload") (auto simp: run_gate_via_resume_def)
    note l0 = live [OF t0]
    obtain g d where g: "run_gate_of (th_head t0) = Some g" "build_resume_payload ?rep payload = Inr d"
      using pipeline.drive_resume_not_pending [OF l0, of ?rep payload] t
      by (fastforce simp: drive_resume_def bind_result_Inr split: if_splits)
    have lt: "thread_live t" and out: "out = (case run_gate_of (th_head t) of None \<Rightarrow> Terminal
        | Some g' \<Rightarrow> Interrupted g' (run_payload (th_head t)))"
      using pipeline.drive_resume_outcome [OF l0 g] t by auto
    show ?thesis
    proof (cases "run_gate_of (th_head t)")
      case (Some g')
      obtain w2 e2 where p: "persist_world env cid (re_case env t) (Some (gate_state_of (gate_number g')))
          (set_thread cid t w) = (w2, e2)" by fastforce
      show ?thesis
      proof (cases e2)
        case None
        have w': "w_threads w' = w_threads w2"
            "w_db w' = upsert_legacy_gate_status (re_now env) cid g' (w_db w2)"
          using run dom t0 t out Some p None ops
          by (auto simp: run_gate_via_resume_def Let_def publish_def publish_interrupt_def)
        have "g' \<in> set gate_names" using pipeline.known_gate [OF lt Some] .
        with job_effect_gate [OF written p [unfolded None] lt Some, of w' "re_now env"] w'
        show ?thesis by (simp add: upsert_frame)
      next
        case (Some err)
        have "w' = w2" using run dom t0 t out \<open>run_gate_of (th_head t) = Some g'\<close> p Some ops
          by (auto simp: run_gate_via_resume_def Let_def)
        then show ?thesis using job_effect_persisted [OF written p lt] Some by simp
      qed
    next
      case None
      let ?st = "(re_case env t)\<lparr>cs_status := (if halted (re_halt env t) then E_failed else E_closed)\<rparr>"
      obtain w2 e2 where p: "persist_world env cid ?st None (set_thread cid t w) = (w2, e2)" by fastforce
      have "\<exists>evs. w' = w2\<lparr>w_events := evs\<rparr>"
        using run dom t0 t out None p ops
        by (auto simp: run_gate_via_resume_def Let_def publish_def split: option.splits
            intro: exI [of _ "w_events w2"])
      moreover have "job_effect cid w w2" using job_effect_persisted [OF written p lt] by simp
      ultimately show ?thesis by (auto simp: job_effect_def waits_at_def)
    qed
  qed
qed

lemma gate_checkpoint_effect:
  assumes "\<forall>n. re_answers env n \<noteq> Integrity_error"
  shows "\<exists>w4. gate_checkpoint env cid g st w = (w4, None) \<and> w_threads w4 = w_threads w
     \<and> db_jobs (w_db w4) = db_jobs (w_db w) \<and> (\<forall>k. find_case k (w_db w4) = find_case k (w_db w))"
proof -
  obtain cks where "fst (persist_case_state (re_serialize env) (re_answers env) cid (cid @ ''-'' @ g)
      ''gate_complete'' st (db_checkpoints (w_db w))) = Inr cks"
    using checkpoint_written [OF assms] by blast
  then show ?thesis by (cases "cs_run_id st = []") (simp_all add: gate_checkpoint_def)
qed

lemma case_job_effect:
  assumes env: "drives_pipeline env" "runs_leave_live_threads env"
    and live: "\<And>t. w_threads w cid = Some t \<Longrightarrow> thread_live t"
    and run: "run_case_pipeline env isoformat backfill fresh cancelled cid w = (w', e)"
  shows "job_effect cid w w'"
proof -
  let ?w = "w\<lparr>w_cancelled := removeAll cid (w_cancelled w)\<rparr>"
  have written: "\<forall>n. re_answers env n \<noteq> Integrity_error"
    using env(2) by (simp add: runs_leave_live_threads_def)
  have ops: "re_ops env = pipeline_ops" using drives_pipelineD(1) [OF env(1)] .
  have not_failed: "awaiting g \<noteq> Some S_failed" for g
    using awaiting_status(1) [of g S_failed] by (auto simp: gate_pause_statuses_def)
  have start: "job_effect cid w x" if "job_effect cid ?w x" for x
    using that by (simp add: job_effect_def)
  have stay: "job_effect cid ?w ?w" by (rule job_effect_refl) (simp add: live)
  have failed: "job_effect cid ?w x"
    if "w_threads x = w_threads ?w" "w_db x = set_status now cid S_failed (w_db ?w)" for x now
    using that live not_failed find_case_id
    by (fastforce simp: job_effect_def with_status_def intro: option.map_ident_strong)
  show ?thesis
  proof (rule start, cases "find_case cid (w_db ?w)")
    case None
    then have "w' = ?w" using run by (simp add: run_case_pipeline_def)
    then show "job_effect cid ?w w'" using stay by simp
  next
    case (Some c)
    let ?s0 = "initial_case_state isoformat backfill fresh c (w_db ?w)"
    have row: "find_case cid (w_db w) = Some c" using Some by simp
    show "job_effect cid ?w w'"
    proof (cases "re_run env (w_threads w cid) ?s0")
      case (Inl err)
      have "w_threads w' = w_threads ?w" "w_db w' = set_status (re_now env) cid S_failed (w_db ?w)"
        using run row Inl by (auto simp: run_case_pipeline_def Let_def publish_def)
      then show ?thesis by (rule failed)
    next
      case (Inr res)
      obtain t fs where res: "res = (t, fs)" by fastforce
      have lt: "thread_live t" and fs: "cs_status fs = E_pending"
        using env(2) Inr res
        by (auto simp: runs_leave_live_threads_def initial_case_state_def new_case_state_def)
      let ?gate = "run_gate_of (th_head t)"
      have pend: "find_pending_interrupt (op_tasks (re_ops env) t)
          = map_option (\<lambda>g. (g, run_payload (th_head t))) ?gate"
        using pipeline.pending_gate [OF lt] ops by simp
      obtain w2 e2 where p: "persist_world env cid fs (map_option (\<lambda>g. gate_state_of (gate_number g)) ?gate)
          (set_thread cid t ?w) = (w2, e2)" by fastforce
      have run2: "run_case_pipeline env isoformat backfill fresh cancelled cid w = (case e2 of
          Some x \<Rightarrow> (w2, Some x)
        | None \<Rightarrow> (case ?gate of None \<Rightarrow> (w2, None)
          | Some g \<Rightarrow> (case gate_checkpoint env cid g fs
                 (publish_interrupt (re_now env) cid g (run_payload (th_head t)) w2) of
                (w4, Some x) \<Rightarrow> (w4, Some x)
              | (w4, None) \<Rightarrow> (publish (close_event cid (''awaiting_review_'' @ g)) w4, None))))"
        using row Inr res pend p fs
        by (cases ?gate) (simp_all add: run_case_pipeline_def Let_def starts_with_def split: option.split)
      show ?thesis
      proof (cases "e2 = None \<and> ?gate \<noteq> None")
        case False
        then have "w' = w2" using run run2 by (auto split: option.splits)
        then show ?thesis using job_effect_persisted [OF written p lt] fs by simp
      next
        case True
        then obtain g where g: "?gate = Some g" by blast
        let ?w3 = "publish_interrupt (re_now env) cid g (run_payload (th_head t)) w2"
        obtain w4 where w4: "gate_checkpoint env cid g fs ?w3 = (w4, None)"
            "w_threads w4 = w_threads ?w3" "db_jobs (w_db w4) = db_jobs (w_db ?w3)"
            "\<And>k. find_case k (w_db w4) = find_case k (w_db ?w3)"
          using gate_checkpoint_effect [OF written] by blast
        have "w' = publish (close_event cid (''awaiting_review_'' @ g)) w4"
          using run run2 True g w4(1) by simp
        then have "w_threads w' = w_threads w2" "db_jobs (w_db w') = db_jobs (w_db w2)"
            "\<And>k. find_case k (w_db w') = find_case k (upsert_legacy_gate_status (re_now env) cid g (w_db w2))"
          using w4(2-4) by (simp_all add: publish_def publish_interrupt_def upsert_frame)
        moreover have "g \<in> set gate_names" using pipeline.known_gate [OF lt g] .
        ultimately show ?thesis
          using job_effect_gate [OF written _ lt g, of cid fs _ ?w w2 w' "re_now env"] p True g by auto
      qed
    qed
  qed
qed

section \<open>Every step keeps the invariant\<close>

lemma live_jobs_shrink:
  assumes "\<And>j. is_live_job k (f j) \<Longrightarrow> is_live_job k j"
  shows "length (live_jobs k (map f jobs)) \<le> length (live_jobs k jobs)"
  unfolding live_jobs_def by (induction jobs) (auto dest: assms)

lemma jobs_carry_map:
  assumes "jobs_carry_actions jobs" "\<And>j. jb_type (f j) = jb_type j \<and> jb_payload (f j) = jb_payload j"
  shows "jobs_carry_actions (map f jobs)"
  using assms by (auto simp: jobs_carry_actions_def)

text \<open>A step of the outbox that neither adds nor revives a job.\<close>

lemma system_ok_jobs:
  assumes ok: "system_ok w"
    and f: "\<And>j. jb_type (f j) = jb_type j \<and> jb_payload (f j) = jb_payload j"
    and shrink: "\<And>k j. is_live_job k (f j) \<Longrightarrow> is_live_job k j"
  shows "system_ok (put_jobs (map f (db_jobs (w_db w))) w)"
proof -
  have "row_ok k (put_jobs (map f (db_jobs (w_db w))) w) c" if "row_ok k w c" for k c
  proof -
    have "length (live_jobs k (map f (db_jobs (w_db w)))) \<le> length (live_jobs k (db_jobs (w_db w)))"
      by (rule live_jobs_shrink) (rule shrink)
    with that show ?thesis by (auto simp: row_ok_def put_jobs_def waits_at_def)
  qed
  with ok jobs_carry_map [OF system_okD(2) [OF ok] f] show ?thesis
    by (simp add: system_ok_def put_jobs_def)
qed

lemma system_ok_worked:
  assumes ok: "system_ok w"
    and job: "find_job jid (db_jobs (w_db w)) = Some job" "jb_status job = Job_dispatched"
    and expected: "expected \<in> {Job_case_pipeline, Job_gate_run}"
    and effect: "\<And>tid x e. jb_type job = expected \<Longrightarrow> runner job tid w = (x, e) \<Longrightarrow>
                   job_effect (jb_case_id job) w x"
    and run: "run_with_outbox runner expected now jid (db_jobs (w_db w)) w = (jobs', w', report)"
  shows "system_ok (put_jobs jobs' w')"
proof (cases "jb_type job = expected")
  case False
  then have "jobs' = db_jobs (w_db w)" "w' = w" using run job by (auto simp: run_with_outbox_def)
  then show ?thesis using ok by (simp add: put_jobs_def)
next
  case True
  let ?jobs = "db_jobs (w_db w)" and ?cid = "jb_case_id job"
  obtain tid e where r: "runner job tid w = (w', e)"
      "jobs' = (case e of Some x \<Rightarrow> mark_failed now jid (error_text x) ?jobs
                        | None \<Rightarrow> mark_completed now jid ?jobs)"
    using run job True
    by (auto simp: run_with_outbox_def Let_def split: prod.splits option.splits)
  note eff = effect [OF True r(1), unfolded job_effect_def]
  define f where "f = (\<lambda>j :: pipeline_job. if jb_id j = jid then (case e of
      Some x \<Rightarrow> j\<lparr>jb_status := Job_failed, jb_attempts := jb_attempts j + 1,
                 jb_error_message := Some (take 1000 (error_text x)), jb_completed_at := Some now\<rparr>
    | None \<Rightarrow> j\<lparr>jb_status := Job_completed, jb_completed_at := Some now, jb_error_message := None\<rparr>) else j)"
  have jobs': "jobs' = map f ?jobs"
    using r(2) by (cases e) (simp_all add: mark_failed_def mark_completed_def f_def)
  have f: "jb_type (f j) = jb_type j \<and> jb_payload (f j) = jb_payload j" for j
    by (simp add: f_def split: option.split)
  have shrink: "is_live_job k (f j) \<Longrightarrow> is_live_job k j \<and> jb_id j \<noteq> jid" for k j
    by (auto simp: f_def is_live_job_def split: if_splits option.splits)
  have mine: "jb_id job = jid" "job \<in> set ?jobs" using find_job_id [OF job(1)] by auto
  show ?thesis
  proof (rule system_ok_one_case [OF ok, of ?cid])
    show "length (live_jobs k (db_jobs (w_db (put_jobs jobs' w')))) \<le> length (live_jobs k ?jobs)" for k
      using live_jobs_shrink [of k f ?jobs] shrink by (simp add: put_jobs_def jobs')
    show "jobs_carry_actions (db_jobs (w_db (put_jobs jobs' w')))"
      using jobs_carry_map [OF system_okD(2) [OF ok] f] by (simp add: put_jobs_def jobs')
    fix c' assume c': "find_case ?cid (w_db (put_jobs jobs' w')) = Some c'"
    show "row_ok ?cid (put_jobs jobs' w') c'"
    proof (cases "find_case ?cid (w_db w)")
      case None
      then show ?thesis using c' eff by (simp add: put_jobs_def)
    next
      case (Some c)
      have live: "job \<in> set (live_jobs ?cid ?jobs)"
        using mine(2) job(2) True expected by (auto simp: live_jobs_def is_live_job_def)
      have row: "length (live_jobs ?cid ?jobs) \<le> 1" "ca_status c = S_processing"
        using system_okD(3) [OF ok Some] live by (auto simp: row_ok_def)
      have "live_jobs ?cid ?jobs = [job]"
        using live row(1) by (cases "live_jobs ?cid ?jobs") auto
      then have "set (live_jobs ?cid ?jobs) = {job}" by simp
      then have only: "j = job" if "j \<in> set ?jobs" "is_live_job ?cid j" for j
        using that unfolding live_jobs_def set_filter by blast
      have "\<not> is_live_job ?cid (f j)" if "j \<in> set ?jobs" for j
        using shrink [of ?cid j] only [OF that] mine(1) by auto
      then have "live_jobs ?cid (map f ?jobs) = []" by (auto simp: live_jobs_def filter_empty_conv)
      moreover have "\<forall>g \<in> set gate_names. awaiting g = Some (ca_status c') \<longrightarrow> waits_at ?cid w' g"
        using eff Some row(2) c' by (simp add: put_jobs_def)
      ultimately show ?thesis by (simp add: row_ok_def put_jobs_def jobs' waits_at_def)
    qed
  qed (use eff in \<open>auto simp: put_jobs_def\<close>)
qed

lemma processing_row:
  "ca_id c = cid \<Longrightarrow> ca_status c \<noteq> s \<Longrightarrow> assign_status now cid s c db = set_status now cid s db"
  by (simp add: assign_status_def)

lemma startableD:
  "s \<in> set startable_statuses \<Longrightarrow> s \<noteq> S_processing" "s \<in> set restartable_statuses \<Longrightarrow> s \<noteq> S_processing"
  "s \<in> set gate_pause_statuses \<Longrightarrow> s \<noteq> S_processing \<and> s \<noteq> S_failed"
  by (auto simp: startable_statuses_def restartable_statuses_def gate_pause_statuses_def)

lemma flip_statusD:
  assumes "flip_status allowed now cid s db = Some db1"
  shows "\<exists>c. find_case cid db = Some c \<and> ca_status c \<in> set allowed \<and> db1 = set_status now cid s db"
  using assms by (auto simp: flip_status_def split: option.splits if_splits)

text \<open>A handler that sets the case processing and enqueues a job for it.\<close>

lemma system_ok_resumed:
  assumes ok: "system_ok w" and c: "find_case cid (w_db w) = Some c" "ca_status c \<noteq> S_processing"
    and rows: "\<And>k. find_case k db0 = map_option (with_status now cid S_processing) (find_case k (w_db w))"
    and jobs: "db_jobs db0 = db_jobs (w_db w)"
    and action: "jt = Job_gate_run \<Longrightarrow> \<exists>p. payload = Some p \<and> truthy (pget p ''resume_action'')"
  shows "system_ok (w\<lparr>w_db := enqueue_job rq cid jt payload db0\<rparr>)"
proof -
  obtain job where "db_jobs (enqueue_job rq cid jt payload db0) = db_jobs db0 @ [job]"
      "jb_case_id job = cid" "jb_type job = jt" "jb_payload job = payload"
    using enqueue_job_jobs by blast
  with system_ok_enqueued [OF ok c, of "enqueue_job rq cid jt payload db0" now job] rows jobs action
  show ?thesis by simp
qed

lemma owned_caseD:
  "owned_case rq cid db = Inr c \<Longrightarrow> find_case cid db = Some c \<and> ca_created_by c = us_id (rq_user rq)"
  "own_case_only rq cid db = Inr c \<Longrightarrow> find_case cid db = Some c \<and> ca_created_by c = us_id (rq_user rq)"
  by (auto simp: owned_case_def own_case_only_def split: option.splits if_splits)

lemma paused_atD: "paused_at g c = Inr u \<Longrightarrow> awaiting g = Some (ca_status c)"
  by (simp add: paused_at_def awaiting_def split: if_splits)

lemma start_ok:
  assumes "system_ok w" "process_case rq cid (w_db w) = Inr (db, msg)"
  shows "system_ok (w\<lparr>w_db := db\<rparr>)"
proof -
  obtain db1 where db1: "flip_status startable_statuses (rq_now rq) cid S_processing (w_db w) = Some db1"
      "db = enqueue_job rq cid Job_case_pipeline None db1"
    using assms(2) by (auto simp: process_case_def split: option.splits if_splits)
  from flip_statusD [OF db1(1)] startableD(1) obtain c where "find_case cid (w_db w) = Some c"
      "ca_status c \<noteq> S_processing" "db1 = set_status (rq_now rq) cid S_processing (w_db w)" by blast
  then show ?thesis unfolding db1(2) by (intro system_ok_resumed [OF assms(1)]) simp_all
qed

lemma restart_ok:
  assumes "system_ok w" "restart_case_pipeline orm_view rq cid (w_db w) = Inr (db, msg)"
  shows "system_ok (w\<lparr>w_db := db\<rparr>)"
proof -
  obtain db1 a where db1: "flip_status restartable_statuses (rq_now rq) cid S_processing (w_db w) = Some db1"
      "db = enqueue_job rq cid Job_case_pipeline None (judge_audit rq cid ''pipeline_restarted'' a db1)"
    using assms(2) by (auto simp: restart_case_pipeline_def bind_result_Inr split: option.splits if_splits)
  from flip_statusD [OF db1(1)] startableD(2) obtain c where "find_case cid (w_db w) = Some c"
      "ca_status c \<noteq> S_processing" "db1 = set_status (rq_now rq) cid S_processing (w_db w)" by blast
  then show ?thesis unfolding db1(2) by (intro system_ok_resumed [OF assms(1)]) simp_all
qed

lemma advance_ok:
  assumes "system_ok w" "advance_gate rq cid g remark (w_db w) = Inr (db, msg)"
  shows "system_ok (w\<lparr>w_db := db\<rparr>)"
proof -
  obtain ng where "map_of next_gate g = Some (Some ng)"
    using assms(2)
    by (cases "map_of next_gate g") (auto simp: advance_gate_def bind_result_Inr split: option.splits if_splits)
  then obtain c u p a where c: "owned_case rq cid (w_db w) = Inr c" "paused_at g c = Inr u"
      "db = enqueue_job rq cid Job_gate_run (Some p) (assign_status (rq_now rq) cid S_processing c
              (judge_audit rq cid ''gate_advanced'' a (w_db w)))"
      "pget p ''resume_action'' = PStr ''advance''"
    using assms(2) by (auto simp: advance_gate_def bind_result_Inr pget_def split: if_splits)
  have "find_case cid (w_db w) = Some c" "ca_status c \<noteq> S_processing" "ca_id c = cid"
    using owned_caseD(1) [OF c(1)] find_case_id awaiting_status(1) [OF paused_atD [OF c(2)]] startableD(3)
    by blast+
  then show ?thesis
    unfolding c(3) by (intro system_ok_resumed [OF assms(1)]) (simp_all add: processing_row c(4))
qed

lemma rerun_ok:
  assumes "system_ok w" "rerun_gate rq cid g agent remark (w_db w) = Inr (db, msg)"
  shows "system_ok (w\<lparr>w_db := db\<rparr>)"
proof -
  obtain c u p a where c: "owned_case rq cid (w_db w) = Inr c" "paused_at g c = Inr u"
      "db = enqueue_job rq cid Job_gate_run (Some p) (assign_status (rq_now rq) cid S_processing c
              (judge_audit rq cid ''gate_rerun_requested'' a (w_db w)))"
      "pget p ''resume_action'' = PStr ''rerun''"
    using assms(2)
    by (auto simp: rerun_gate_def bind_result_Inr pget_def Let_def split: option.splits if_splits)
  have "find_case cid (w_db w) = Some c" "ca_status c \<noteq> S_processing" "ca_id c = cid"
    using owned_caseD(1) [OF c(1)] find_case_id awaiting_status(1) [OF paused_atD [OF c(2)]] startableD(3)
    by blast+
  then show ?thesis
    unfolding c(3) by (intro system_ok_resumed [OF assms(1)]) (simp_all add: processing_row c(4))
qed

lemma no_ask_pending:
  assumes "thread_live t \<or> run_gate_of (th_head t) = None"
  shows "matching_ask iid (op_tasks pipeline_ops t) = None"
proof (cases "run_gate_of (th_head t)")
  case None
  then show ?thesis by (simp add: matching_ask_def pipeline_ops_def run_tasks_def pause_tasks_def)
next
  case (Some g)
  then have "\<not> is_ask_judge (PDict (run_payload (th_head t)))"
    using assms pipeline.gate_payload by simp
  then show ?thesis
    by (simp add: matching_ask_def pipeline_ops_def run_tasks_def pause_tasks_def Some)
qed

lemma awaiting_table:
  "awaiting ''gate1'' = Some S_awaiting_review_gate1" "awaiting ''gate2'' = Some S_awaiting_review_gate2"
  "awaiting ''gate3'' = Some S_awaiting_review_gate3" "awaiting ''gate4'' = Some S_awaiting_review_gate4"
  by (simp_all add: awaiting_def parse_status_def all_statuses_def)

lemma pause_status_gate:
  "s \<in> set gate_pause_statuses \<Longrightarrow> \<exists>g \<in> set gate_names. awaiting g = Some s"
  by (auto simp: gate_pause_statuses_def gate_names_def awaiting_table)

lemma gate_awaits: "g \<in> set gate_names \<Longrightarrow> \<exists>s. awaiting g = Some s \<and> starts_with ''gate'' g"
  by (auto simp: gate_names_def awaiting_table starts_with_def)

lemma paused_thread:
  assumes "system_ok w" "find_case cid (w_db w) = Some c" "g \<in> set gate_names"
    and "awaiting g = Some (ca_status c)"
  shows "\<exists>t. w_threads w cid = Some t \<and> thread_live t \<and> run_gate_of (th_head t) = Some g"
proof -
  have "waits_at cid w g" using system_okD(3) [OF assms(1,2)] assms(3,4) by (simp add: row_ok_def)
  then obtain t where "w_threads w cid = Some t" "run_gate_of (th_head t) = Some g"
    by (auto simp: waits_at_def split: option.splits)
  with system_okD(1) [OF assms(1)] show ?thesis by blast
qed

lemma send_back_ok:
  assumes ok: "system_ok w" and c: "find_case cid (w_db w) = Some c" "ca_status c \<in> set gate_pause_statuses"
    and run: "respond_send_back pipeline_ops blank is_local rq cid p c w = Inr (w', msg)"
  shows "system_ok w'"
proof -
  have busy: "ca_status c \<noteq> S_processing" using startableD(3) [OF c(2)] by simp
  obtain g0 where "g0 \<in> set gate_names" "awaiting g0 = Some (ca_status c)"
    using pause_status_gate [OF c(2)] by blast
  then obtain t0 where t0: "w_threads w cid = Some t0" "thread_live t0"
    using paused_thread [OF ok c(1)] by blast
  define ph where "ph = (case rp_to_phase p of None \<Rightarrow> [] | Some ph \<Rightarrow> phase_value ph)"
  obtain t ng where t: "send_back_to_phase pipeline_ops t0 ph (rp_notes p) = Inr (t, ng)"
    using run t0(1)
    by (cases "send_back_to_phase pipeline_ops t0 ph (rp_notes p)")
      (auto simp: respond_send_back_def ph_def Let_def split: if_splits py_error.splits)
  from pipeline.send_back_sound [OF t0(2) t] obtain g where
    g: "ng = Some g" "thread_live t" "run_gate_of (th_head t) = Some g" by blast
  then have "g \<in> set gate_names" using pipeline.known_gate by blast
  then obtain s where s: "awaiting g = Some s" "starts_with ''gate'' g"
    using gate_awaits by blast
  obtain a where w': "w' = (set_thread cid t w)\<lparr>w_db := assign_status (rq_now rq) cid s c
      (judge_audit rq cid ''gate_send_back'' a (w_db w))\<rparr>"
    using run t0(1) t g(1) s
    by (auto simp: respond_send_back_def ph_def Let_def awaiting_def split: if_splits)
  have row: "find_case k (w_db w') = map_option (\<lambda>r. if k = cid \<and> ca_status c \<noteq> s
      then with_status (rq_now rq) cid s r else r) (find_case k (w_db w))" for k
    using find_case_id [of k "w_db w"]
    by (cases "find_case k (w_db w)") (auto simp: w' assign_status_def set_thread_def with_status_def)
  have jobs: "db_jobs (w_db w') = db_jobs (w_db w)" by (simp add: w' assign_status_def set_thread_def)
  show ?thesis
  proof (rule system_ok_one_case [OF ok, of cid])
    show "find_case k (w_db w') = find_case k (w_db w)" if "k \<noteq> cid" for k
      using that row [of k] by (cases "find_case k (w_db w)") auto
    fix c' assume c': "find_case cid (w_db w') = Some c'"
    have "ca_status c' = s"
      using c' row [of cid] c(1) find_case_id [OF c(1)] by (auto split: if_splits)
    moreover have "waits_at cid w' h" if "awaiting h = Some s" for h
      using awaiting_unique [OF s(1) that] g(3) by (simp add: waits_at_def w' set_thread_def)
    ultimately show "row_ok cid w' c'"
      using no_live_jobs [OF ok c(1) busy] by (simp add: row_ok_def jobs)
  qed (use system_okD(2) [OF ok] g(2) in \<open>simp_all add: jobs, simp_all add: w' set_thread_def\<close>)
qed

lemma respond_ok:
  assumes ok: "system_ok w" and blank: "run_gate_of (th_head blank) = None"
    and run: "respond_to_gate pipeline_ops blank is_local rq cid p w = Inr (w', msg)"
  shows "system_ok w'"
proof -
  obtain c where own: "own_case_only rq cid (w_db w) = Inr c" "require_role [Judge] rq = Inr ()"
      "valid_resume_payload p"
    using run by (auto simp: respond_to_gate_def bind_result_Inr split: if_splits)
  have c: "find_case cid (w_db w) = Some c" "ca_id c = cid"
    using owned_caseD(2) [OF own(1)] find_case_id by blast+
  have "rp_action p \<noteq> Message"
  proof
    assume m: "rp_action p = Message"
    have "matching_ask iid (op_tasks pipeline_ops
        (case w_threads w cid of None \<Rightarrow> blank | Some t \<Rightarrow> t)) = None" for iid
      using no_ask_pending blank system_okD(1) [OF ok] by (auto split: option.split)
    then show False
      using run own m
      by (auto simp: respond_to_gate_def handle_message_resume_def split: option.splits if_splits)
  qed
  then have paused: "ca_status c \<in> set gate_pause_statuses"
    using run own by (auto simp: respond_to_gate_def split: if_splits)
  note busy = startableD(3) [OF paused]
  show ?thesis
  proof (cases "rp_action p = Send_back")
    case True
    then have "respond_send_back pipeline_ops blank is_local rq cid p c w = Inr (w', msg)"
      using run own by (simp add: respond_to_gate_def split: if_splits)
    then show ?thesis by (rule send_back_ok [OF ok c(1) paused])
  next
    case False
    then obtain db where db: "respond_in_tables rq cid p c (w_db w) = Inr (db, msg)" "w' = w\<lparr>w_db := db\<rparr>"
      using run own \<open>rp_action p \<noteq> Message\<close>
      by (auto simp: respond_to_gate_def bind_result_Inr split: if_splits)
    show ?thesis
    proof (cases "rp_action p = Halt")
      case True
      then obtain a where "db = assign_status (rq_now rq) cid S_failed c
          (judge_audit rq cid ''gate_halt'' a (w_db w))"
        using db(1) by (auto simp: respond_in_tables_def Let_def)
      moreover have "awaiting g \<noteq> Some S_failed" for g
        using awaiting_status(1) [of g S_failed] by (auto simp: gate_pause_statuses_def)
      ultimately show ?thesis
        using system_okD(1) [OF ok] busy c db(2)
        by (intro system_ok_restatus [OF ok c(1), of w' "rq_now rq" S_failed])
          (auto simp: processing_row)
    next
      case False
      let ?g = "current_gate (ca_status c)"
      obtain a b q where db': "db = enqueue_job rq cid Job_gate_run (Some q)
          (assign_status (rq_now rq) cid S_processing c (judge_audit rq cid a b (w_db w)))"
          "truthy (pget q ''resume_action'')"
        using db(1) False
        by (cases "map_of next_gate ?g")
          (auto simp: respond_in_tables_def Let_def pget_def rerun_payload_def split: if_splits option.splits)
      then show ?thesis
        unfolding db(2) db' using c busy
        by (intro system_ok_resumed [OF ok c(1), where now = "rq_now rq"]) (simp_all add: processing_row)
    qed
  qed
qed

lemma cancel_ok:
  assumes ok: "system_ok w" and t0: "w_threads w cid = Some t0"
    and run: "cancel_case_pipeline pipeline_ops blank is_local rq cid w = Inr (w', msg)"
  shows "system_ok w'"
proof -
  obtain c where c: "find_case cid (w_db w) = Some c" "ca_status c = S_processing"
    using run owned_caseD(2)
    by (auto simp: cancel_case_pipeline_def bind_result_Inr split: if_splits)
  have l0: "thread_live t0" using system_okD(1) [OF ok t0] .
  obtain t where t: "cancel_via_halt pipeline_ops t0 (Some ''cancelled by user'') (Some (us_id (rq_user rq))) = Inr t"
      "thread_live t"
    using pipeline.cancel_outcome [OF l0] by blast
  have w': "w_db w' = w_db w" "w_threads w' = w_threads w \<or> w_threads w' = (w_threads w)(cid \<mapsto> t)"
    using run t0 t(1)
    by (auto simp: cancel_case_pipeline_def bind_result_Inr set_thread_def split: if_splits)
  show ?thesis
  proof (rule system_ok_one_case [OF ok, of cid])
    fix c' assume "find_case cid (w_db w') = Some c'"
    then have "c' = c" using c w'(1) by simp
    then show "row_ok cid w' c'"
      using system_okD(3) [OF ok c(1)] c(2) w'(1) awaiting_status(1) startableD(3)
      by (fastforce simp: row_ok_def)
  qed (use system_okD(1,2) [OF ok] t(2) w' in \<open>auto split: if_splits\<close>)
qed

lemma decide_ok:
  assumes ok: "system_ok w" and run: "record_decision isoformat rq cid verdict es (w_db w) = Inr (db, msg)"
  shows "system_ok (w\<lparr>w_db := db\<rparr>)"
proof -
  obtain f a where db: "db = judge_audit rq cid ''judicial_decision_recorded'' a (update_case cid f (w_db w))"
      "\<And>r. ca_id (f r) = ca_id r" "\<And>r. ca_status (f r) = ca_status r"
    using run by (auto simp: record_decision_def bind_result_Inr split: if_splits)
  have "row_ok k (w\<lparr>w_db := db\<rparr>) c'" if found: "find_case k db = Some c'" for k c'
  proof -
    have "find_case k db = map_option (\<lambda>c. if k = cid then f c else c) (find_case k (w_db w))"
      by (simp add: db(1) find_case_update [OF db(2)])
    then obtain c where "find_case k (w_db w) = Some c" "ca_status c' = ca_status c"
      using found db(3) by (cases "find_case k (w_db w)") (auto split: if_splits)
    with system_okD(3) [OF ok] show ?thesis by (simp add: row_ok_def waits_at_def db(1))
  qed
  with ok show ?thesis by (simp add: system_ok_def db(1))
qed

lemma system_ok_step:
  assumes env: "drives_pipeline env" "runs_leave_live_threads env" "run_gate_of (th_head blank) = None"
  shows "system_step env blank w w' \<Longrightarrow> system_ok w \<Longrightarrow> system_ok w'"
proof (induction rule: system_step.induct)
  case (start rq cid w db msg)
  then show ?case using start_ok by blast
next
  case (restart orm_view rq cid w db msg)
  then show ?case using restart_ok by blast
next
  case (advance rq cid gate_name remark w db msg)
  then show ?case using advance_ok by blast
next
  case (rerun rq cid gate_name agent_name remark w db msg)
  then show ?case using rerun_ok by blast
next
  case (respond is_local rq cid p w w' msg)
  then show ?case using respond_ok [OF _ env(3)] by blast
next
  case (cancel w cid is_local rq w' msg)
  then show ?case using cancel_ok by blast
next
  case (decide isoformat rq cid verdict engagements w db msg)
  then show ?case using decide_ok by blast
next
  case (dispatch enq locked now q w q' jobs' n)
  obtain ids where "jobs' = db_jobs (w_db w) \<or> jobs' = mark_dispatched now ids (db_jobs (w_db w))"
    using dispatch_batch_table [OF dispatch.hyps] by blast
  moreover have "put_jobs (db_jobs (w_db w)) w = w" by (simp add: put_jobs_def)
  moreover have "system_ok (put_jobs (mark_dispatched now ids (db_jobs (w_db w))) w)"
    unfolding mark_dispatched_def
    by (rule system_ok_jobs [OF dispatch.prems]) (auto simp: is_live_job_def split: if_splits)
  ultimately show ?case using dispatch.prems by auto
next
  case (recover w now secs)
  show ?case
    unfolding recover_stuck_jobs_def fst_conv
    by (rule system_ok_jobs [OF recover.prems])
      (auto simp: is_live_job_def is_stuck_def split: if_splits)
next
  case (work_gate jid w job fresh now jobs' w' report)
  show ?case
  proof (rule system_ok_worked [OF work_gate.prems work_gate.hyps(1,2) _ _ work_gate.hyps(3)])
    fix tid x e
    assume r: "jb_type job = Job_gate_run" "run_gate_job env fresh job tid w = (x, e)"
    then obtain p where "jb_payload job = Some p" "truthy (pget p ''resume_action'')"
      using system_okD(2) [OF work_gate.prems] find_job_id [OF work_gate.hyps(1)]
      by (auto simp: jobs_carry_actions_def)
    then have "run_gate_via_resume env (jb_case_id job) p w = (x, e)"
      using r(2) by (simp add: run_gate_job_def)
    then show "job_effect (jb_case_id job) w x"
      by (rule gate_job_effect [OF env(1,2) system_okD(1) [OF work_gate.prems], rotated])
  qed simp
next
  case (work_case jid w job isoformat backfill fresh cancelled now jobs' w' report)
  show ?case
  proof (rule system_ok_worked [OF work_case.prems work_case.hyps(1,2) _ _ work_case.hyps(3)])
    fix tid x e
    assume "case_runner env isoformat backfill fresh cancelled job tid w = (x, e)"
    then show "job_effect (jb_case_id job) w x"
      unfolding case_runner_def
      by (rule case_job_effect [OF env(1,2) system_okD(1) [OF work_case.prems], rotated])
  qed simp
qed

section \<open>Properties\<close>

text \<open>Whatever the order of requests, dispatcher rounds and job runs, failing ones included, a
  case has at most one live pipeline job, it has one only while its row says processing, and a row
  that awaits the review of a gate has a thread paused at exactly that gate.\<close>

lemma system_stays_consistent:
  assumes "drives_pipeline env" and "runs_leave_live_threads env" and "run_gate_of (th_head blank) = None"
    and "system_ok w0" and "(system_step env blank)\<^sup>*\<^sup>* w0 w" and "find_case cid (w_db w) = Some c"
  shows "length (live_jobs cid (db_jobs (w_db w))) \<le> 1
    \<and> (live_jobs cid (db_jobs (w_db w)) \<noteq> [] \<longrightarrow> ca_status c = S_processing)
    \<and> (\<forall>g \<in> set gate_names. awaiting g = Some (ca_status c) \<longrightarrow>
         (\<exists>t. w_threads w cid = Some t \<and> thread_live t \<and> run_gate_of (th_head t) = Some g))"
proof -
  have "system_ok w"
    using assms(5,4) by (induction rule: rtranclp_induct) (auto intro: system_ok_step [OF assms(1-3)])
  then have "row_ok cid w c" and live: "\<And>t. w_threads w cid = Some t \<Longrightarrow> thread_live t"
    using system_okD(1,3) assms(6) by auto
  then show ?thesis by (auto simp: row_ok_def waits_at_def split: option.splits)
qed

definition judge1 :: request where
  "judge1 = \<lparr>rq_user = \<lparr>us_id = ca_created_by case_row1, us_role = Judge\<rparr>, rq_now = 7, rq_job_id = ''j1'',
     rq_span = \<lparr>sx_trace_id = 0, sx_span_id = 0, sx_flags = 0\<rparr>\<rparr>"

definition blank_thread :: thread where
  "blank_thread = \<lparr>th_env = plain_env, th_agents = silent_agents, th_head = first_run case7,
                   th_checkpoints = []\<rparr>"

lemma blank_thread_waits_nowhere: "run_gate_of (th_head blank_thread) = None"
  by (simp add: blank_thread_def run_gate_of_def first_run_def)

lemma plain_runtime_runs: "runs_leave_live_threads plain_runtime"
proof -
  have "thread_live t \<and> cs_status c' = cs_status c"
    if "pipeline_first_run plain_env silent_agents c = Inr (t, c')" for c t c'
    using pipeline_first_run_result [OF silent_agents_behave, of plain_env c] that by auto
  then show ?thesis unfolding runs_leave_live_threads_def plain_runtime_def by auto
qed

definition ready_world :: "thread world" where
  "ready_world = world1\<lparr>w_db := database1\<lparr>
     db_cases := [case_row1\<lparr>ca_status := S_pending\<rparr>],
     db_documents := [\<lparr>dc_id = ''d1'', dc_case = ''c1'', dc_openai_file_id = None, dc_filename = ''a.pdf'',
        dc_file_type = None, dc_kind = ''other'', dc_pages = None, dc_parsed_text = None\<rparr>],
     db_parties := [\<lparr>pa_case = ''c1'', pa_name = ''A'', pa_role = ''claimant'', pa_contact_info = None\<rparr>],
     db_jobs := []\<rparr>\<rparr>"

lemma ready_world_ok: "system_ok ready_world"
proof -
  have "find_case cid (w_db ready_world) = Some c \<Longrightarrow> ca_status c = S_pending" for cid c
    by (auto simp: ready_world_def find_case_def split: if_splits)
  moreover have "awaiting g \<noteq> Some S_pending" for g
    using awaiting_status(1) [of g S_pending] by (auto simp: gate_pause_statuses_def)
  ultimately show ?thesis
    by (auto simp: system_ok_def row_ok_def jobs_carry_actions_def live_jobs_def ready_world_def world1_def)
qed

lemma system_stays_consistent_witness:
  "\<exists>db msg c. process_case judge1 ''c1'' (w_db ready_world) = Inr (db, msg)
     \<and> find_case ''c1'' db = Some c \<and> live_jobs ''c1'' (db_jobs db) \<noteq> [] \<and> ca_status c = S_processing"
proof -
  obtain db msg where p: "process_case judge1 ''c1'' (w_db ready_world) = Inr (db, msg)"
      "\<exists>c. find_case ''c1'' db = Some c" "live_jobs ''c1'' (db_jobs db) \<noteq> []"
    by (auto simp: process_case_def ready_world_def find_case_def has_documents_def has_intake_def
        flip_status_def startable_statuses_def case_row1_def enqueue_job_def enqueue_outbox_job_def
        live_jobs_def is_live_job_def set_status_def update_case_def Let_def)
  then have "(system_step plain_runtime blank_thread)\<^sup>*\<^sup>* ready_world (ready_world\<lparr>w_db := db\<rparr>)"
    by (auto intro: system_step.start)
  with p system_stays_consistent [OF plain_runtime_drives plain_runtime_runs blank_thread_waits_nowhere
      ready_world_ok, of "ready_world\<lparr>w_db := db\<rparr>" "''c1''"]
  show ?thesis by auto
qed

section \<open>A request through the whole stack\<close>

definition advance_payload :: "string option \<Rightarrow> resume_payload" where
  "advance_payload remark = \<lparr>rp_action = Advance, rp_notes = remark, rp_text = None, rp_interrupt_id = None,
     rp_phase = None, rp_subagent = None, rp_field_corrections = None, rp_to_phase = None\<rparr>"

lemma valid_advance_payload [simp]:
  "valid_resume_payload (advance_payload remark)" "rp_action (advance_payload remark) = Advance"
  by (simp_all add: valid_resume_payload_def advance_payload_def rerun_only_def message_only_def non_empty_def)

lemma next_gate_following: "g \<in> set gate_names \<Longrightarrow> map_of next_gate g = Some (following_gate g)"
  by (auto simp: gate_names_def next_gate_def following_gate_def gate_index_def)

lemma following_gate_name: "following_gate g = Some h \<Longrightarrow> h \<in> set gate_names"
  by (auto simp: following_gate_def split: if_splits)

text \<open>The job an advance enqueues, and what it does to a thread.\<close>

definition advance_job_payload :: "string \<Rightarrow> string option \<Rightarrow> pydict" where
  "advance_job_payload h remark =
     [(''gate_name'', PStr h), (''resume_action'', PStr ''advance''), (''notes'', dump_opt PStr remark)]"

lemma advance_in_tables:
  assumes "ca_status c \<in> set gate_pause_statuses" "awaiting g = Some (ca_status c)" "g \<in> set gate_names"
    and "following_gate g = Some h"
  shows "\<exists>a. respond_in_tables rq cid (advance_payload remark) c db
    = Inr (enqueue_job rq cid Job_gate_run (Some (advance_job_payload h remark))
        (set_status (rq_now rq) cid S_processing (judge_audit rq cid ''gate_advanced'' a db)),
      ''Advancing to '' @ h)"
proof -
  have "current_gate (ca_status c) = g" using awaiting_status(2) [OF assms(3)] assms(2) by blast
  moreover have "ca_status c \<noteq> S_processing" using startableD(3) [OF assms(1)] by simp
  ultimately show ?thesis
    using next_gate_following [OF assms(3)] assms(4)
    by (auto simp: respond_in_tables_def advance_payload_def advance_job_payload_def assign_status_def Let_def)
qed

lemma advance_answer:
  "\<exists>d. build_resume_payload rep (advance_job_payload h remark) = Inr d
     \<and> map_of d ''action'' = Some (PStr ''advance'')"
  using resume_payload_shape [of "advance_job_payload h remark" "''advance''" rep]
  by (auto simp: advance_job_payload_def gate_actions_def)

lemma advance_thread:
  assumes "thread_live t0" "run_gate_of (th_head t0) = Some g" "following_gate g = Some h"
  shows "\<exists>t. drive_resume rep pipeline_ops t0 (advance_job_payload x remark)
      = Inr (t, Interrupted h (run_payload (th_head t))) \<and> thread_live t \<and> run_gate_of (th_head t) = Some h"
proof -
  obtain d where d: "build_resume_payload rep (advance_job_payload x remark) = Inr d"
      "map_of d ''action'' = Some (PStr ''advance'')" using advance_answer by blast
  obtain t out where t: "drive_resume rep pipeline_ops t0 (advance_job_payload x remark) = Inr (t, out)"
      "op_resume pipeline_ops t0 None d = Inr t" "thread_live t"
      "out = (case run_gate_of (th_head t) of None \<Rightarrow> Terminal
                | Some g' \<Rightarrow> Interrupted g' (run_payload (th_head t)))"
    using pipeline.drive_resume_outcome [OF assms(1,2) d(1)] by blast
  then show ?thesis
    using pipeline.advance_moves_on [OF assms(1,2) t(2) d(2)] assms(3) by simp
qed

lemma advance_gate_job:
  assumes env: "drives_pipeline env" "runs_leave_live_threads env"
    and t0: "w_threads w cid = Some t0" "thread_live t0" "run_gate_of (th_head t0) = Some g"
    and h: "following_gate g = Some h" and dom: "live_domain cid (w_db w) = Inr dmn"
    and c: "find_case cid (w_db w) = Some c"
  shows "\<exists>w' e t. run_gate_via_resume env cid (advance_job_payload x remark) w = (w', e)
     \<and> w_threads w' cid = Some t \<and> run_gate_of (th_head t) = Some h
     \<and> (e = None \<longrightarrow> (\<exists>c'. find_case cid (w_db w') = Some c' \<and> awaiting h = Some (ca_status c')))
     \<and> (e \<noteq> None \<longrightarrow> w_db w' = w_db w)"
proof -
  obtain t where t: "drive_resume (ps_rep (re_parsers env)) pipeline_ops t0 (advance_job_payload x remark)
      = Inr (t, Interrupted h (run_payload (th_head t)))" "run_gate_of (th_head t) = Some h"
    using advance_thread [OF t0(2,3) h] by blast
  have ops: "re_ops env = pipeline_ops" using drives_pipelineD(1) [OF env(1)] .
  have written: "\<forall>n. re_answers env n \<noteq> Integrity_error"
    using env(2) by (simp add: runs_leave_live_threads_def)
  obtain w2 e where p: "persist_world env cid (re_case env t) (Some (gate_state_of (gate_number h)))
      (set_thread cid t w) = (w2, e)" by fastforce
  note eff = persist_world_effect [OF written p]
  have thread: "w_threads w2 cid = Some t" using eff(1) by (simp add: set_thread_def)
  show ?thesis
  proof (cases e)
    case None
    have row: "find_case cid (w_db (set_thread cid t w)) = Some c" using c by (simp add: set_thread_def)
    obtain c1 where "find_case cid (w_db w2) = Some c1"
      using persist_world_row(1) [OF p [unfolded None] row] by blast
    from upsert_gate_row [OF following_gate_name [OF h] this, of "re_now env"]
    have "\<exists>c'. find_case cid (upsert_legacy_gate_status (re_now env) cid h (w_db w2)) = Some c'
        \<and> awaiting h = Some (ca_status c')" unfolding awaiting_def by blast
    with dom t0(1) t p None thread show ?thesis
      by (simp add: run_gate_via_resume_def ops Let_def publish_def publish_interrupt_def)
  next
    case (Some err)
    have "w_db w2 = w_db w" using eff(4) Some by (simp add: set_thread_def)
    with dom t0(1) t p Some thread show ?thesis
      by (simp add: run_gate_via_resume_def ops Let_def)
  qed
qed


definition paused_row :: case_row where
  "paused_row = case_row1\<lparr>ca_id := ''case7'', ca_domain_id := Some ''d1'',
     ca_status := S_awaiting_review_gate1\<rparr>"

definition paused_world :: "thread \<Rightarrow> thread world" where
  "paused_world t = \<lparr>w_db = database7\<lparr>db_cases := [paused_row]\<rparr>,
     w_threads = (\<lambda>k. if k = ''case7'' then Some t else None), w_events = [], w_cancelled = []\<rparr>"

lemma paused_world_ok:
  assumes "thread_live t" "run_gate_of (th_head t) = Some ''gate1''"
  shows "system_ok (paused_world t)"
proof -
  have "row_ok k (paused_world t) c" if "find_case k (w_db (paused_world t)) = Some c" for k c
  proof -
    have k: "k = ''case7''" "c = paused_row"
      using that by (auto simp: paused_world_def find_case_def paused_row_def split: if_splits)
    have "g = ''gate1''" if "awaiting g = Some (ca_status paused_row)" for g
      using awaiting_unique [OF that] awaiting_table(1) by (simp add: paused_row_def)
    then show ?thesis
      using assms(2)
      by (auto simp: k row_ok_def paused_world_def waits_at_def live_jobs_def database7_def database1_def)
  qed
  then show ?thesis
    using assms(1)
    by (auto simp: system_ok_def paused_world_def jobs_carry_actions_def database7_def database1_def
        split: if_splits)
qed

lemma paused_world_start:
  "\<exists>t. thread_live t \<and> run_gate_of (th_head t) = Some ''gate1'' \<and> system_ok (paused_world t)"
  using start_thread_live [OF silent_agents_behave, of plain_env case7] paused_world_ok by blast

lemma paused_world_facts:
  "find_case ''case7'' (w_db (paused_world t)) = Some paused_row"
  "awaiting ''gate1'' = Some (ca_status paused_row)" "''gate1'' \<in> set gate_names"
  "following_gate ''gate1'' = Some ''gate2''" "following_gate ''gate2'' = Some ''gate3''"
  "\<exists>dmn. live_domain ''case7'' (w_db (paused_world t)) = Inr dmn"
  "rq_user judge1 = \<lparr>us_id = ca_created_by paused_row, us_role = Judge\<rparr>"
  "find_job k (db_jobs (w_db (paused_world t))) = None"
  by (simp_all add: paused_world_def paused_row_def find_case_def awaiting_table gate_names_def
      following_gate_def gate_index_def live_domain_def find_domain_def database7_def database1_def
      non_empty_def judge1_def find_job_def)


text \<open>C7: Two advances of one gate whose reads overlap are both accepted: each handler tests the
  status it loaded, unlike the start of a case, whose update tests the stored one. The case then has
  two live jobs, and running both takes its thread past the following gate, which nobody reviewed.\<close>

theorem overlapping_advances_skip_a_review:
  assumes "find_case cid db = Some c" and "awaiting g = Some (ca_status c)" and "g \<in> set gate_names"
    and "following_gate g = Some h" and "following_gate h = Some k"
    and "live_jobs cid (db_jobs db) = []"
    and "thread_live t0" and "run_gate_of (th_head t0) = Some g"
  shows "\<exists>db1 db2 m1 m2 p t1 t2.
      respond_in_tables rq1 cid (advance_payload n1) c db = Inr (db1, m1)
    \<and> respond_in_tables rq2 cid (advance_payload n2) c db1 = Inr (db2, m2)
    \<and> length (live_jobs cid (db_jobs db2)) = 2
    \<and> map jb_payload (live_jobs cid (db_jobs db2)) = map Some p
    \<and> drive_resume rep pipeline_ops t0 (p ! 0) = Inr (t1, Interrupted h (run_payload (th_head t1)))
    \<and> drive_resume rep pipeline_ops t1 (p ! 1) = Inr (t2, Interrupted k (run_payload (th_head t2)))"
proof -
  have paused: "ca_status c \<in> set gate_pause_statuses" using awaiting_status(1) [OF assms(2)] .
  note writes = advance_in_tables [OF paused assms(2-4)]
  obtain a where r1: "respond_in_tables rq1 cid (advance_payload n1) c db
      = Inr (enqueue_job rq1 cid Job_gate_run (Some (advance_job_payload h n1))
          (set_status (rq_now rq1) cid S_processing (judge_audit rq1 cid ''gate_advanced'' a db)),
        ''Advancing to '' @ h)" (is "_ = Inr (?db1, _)")
    using writes by blast
  obtain b where r2: "respond_in_tables rq2 cid (advance_payload n2) c ?db1
      = Inr (enqueue_job rq2 cid Job_gate_run (Some (advance_job_payload h n2))
          (set_status (rq_now rq2) cid S_processing (judge_audit rq2 cid ''gate_advanced'' b ?db1)),
        ''Advancing to '' @ h)" (is "_ = Inr (?db2, _)")
    using writes by blast
  have live: "map jb_payload (live_jobs cid (db_jobs (enqueue_job rq cid Job_gate_run (Some q) x)))
      = map jb_payload (live_jobs cid (db_jobs x)) @ [Some q]" for rq q x
    using enqueue_job_jobs [of rq cid Job_gate_run "Some q" x] by (auto simp: is_live_job_def)
  let ?p = "[advance_job_payload h n1, advance_job_payload h n2]"
  have jobs: "map jb_payload (live_jobs cid (db_jobs ?db2)) = map Some ?p"
    using assms(6) by (simp add: live)
  then have two: "length (live_jobs cid (db_jobs ?db2)) = 2"
    by (drule_tac arg_cong [where f = length]) simp
  obtain t1 where t1: "drive_resume rep pipeline_ops t0 (advance_job_payload h n1)
      = Inr (t1, Interrupted h (run_payload (th_head t1)))" "thread_live t1" "run_gate_of (th_head t1) = Some h"
    using advance_thread [OF assms(7,8,4)] by blast
  obtain t2 where "drive_resume rep pipeline_ops t1 (advance_job_payload h n2)
      = Inr (t2, Interrupted k (run_payload (th_head t2)))"
    using advance_thread [OF t1(2,3) assms(5)] by blast
  with r1 r2 two jobs t1(1) show ?thesis by (intro exI conjI) (assumption | simp)+
qed

theorem overlapping_advances_skip_a_review_witness:
  "\<exists>db1 db2 m1 m2. respond_in_tables judge1 ''case7'' (advance_payload None) paused_row
        (database7\<lparr>db_cases := [paused_row]\<rparr>) = Inr (db1, m1)
    \<and> respond_in_tables (judge1\<lparr>rq_job_id := ''j2''\<rparr>) ''case7'' (advance_payload None) paused_row db1
        = Inr (db2, m2)
    \<and> length (live_jobs ''case7'' (db_jobs db2)) = 2"
proof -
  obtain t where t: "thread_live t" "run_gate_of (th_head t) = Some ''gate1''"
    using paused_world_start by blast
  have w: "w_db (paused_world t) = database7\<lparr>db_cases := [paused_row]\<rparr>" by (simp add: paused_world_def)
  have "live_jobs ''case7'' (db_jobs (w_db (paused_world t))) = []"
    by (simp add: paused_world_def live_jobs_def database7_def database1_def)
  from overlapping_advances_skip_a_review [OF paused_world_facts(1-5) this t, unfolded w]
  show ?thesis by blast
qed

text \<open>The legacy advance endpoint and the unified one agree on a case the caller owns: they refuse
  with the same error or answer with the same message, leave the same case rows, and enqueue jobs
  the worker translates to the same resume value.\<close>

lemma advance_endpoints_agree:
  assumes "find_case cid (w_db w) = Some c" and "ca_created_by c = us_id (rq_user rq)"
    and "g \<in> set gate_names" and "awaiting g = Some (ca_status c)"
  shows "case advance_gate rq cid g remark (w_db w) of
      Inl e \<Rightarrow> respond_to_gate ops blank is_local rq cid (advance_payload remark) w = Inl e
    | Inr (db, msg) \<Rightarrow> \<exists>w' j j'. respond_to_gate ops blank is_local rq cid (advance_payload remark) w
          = Inr (w', msg)
        \<and> db_cases db = db_cases (w_db w')
        \<and> db_jobs db = db_jobs (w_db w) @ [j] \<and> db_jobs (w_db w') = db_jobs (w_db w) @ [j']
        \<and> build_resume_payload rep (the (jb_payload j)) = build_resume_payload rep (the (jb_payload j'))"
proof -
  have paused: "ca_status c \<in> set gate_pause_statuses" "current_gate (ca_status c) = g"
    "ca_status c \<noteq> S_processing"
    using awaiting_status [of g] assms(3,4) startableD(3) by blast+
  have g: "g \<in> set valid_gate_names" using assms(3) by (simp add: gate_names_def valid_gate_names_def)
  have gate: "paused_at g c = Inr ()" using assms(4) by (simp add: paused_at_def awaiting_def)
  show ?thesis
  proof (cases "us_role (rq_user rq) = Judge")
    case False
    then show ?thesis by (simp add: advance_gate_def respond_to_gate_def require_role_def)
  next
    case True
    show ?thesis
    proof (cases "following_gate g")
      case None
      then have "g = ''gate4''"
        using assms(3) by (auto simp: following_gate_def gate_index_def gate_names_def split: if_splits)
      then show ?thesis
        using None True assms(1,2) paused g gate next_gate_following [OF assms(3)]
        by (simp add: advance_gate_def respond_to_gate_def require_role_def owned_case_def
            own_case_only_def)
    next
      case (Some h)
      then have "g \<noteq> ''gate4''" by (auto simp: following_gate_def gate_index_def gate_names_def)
      moreover obtain a where "respond_in_tables rq cid (advance_payload remark) c (w_db w)
          = Inr (enqueue_job rq cid Job_gate_run (Some (advance_job_payload h remark))
              (set_status (rq_now rq) cid S_processing (judge_audit rq cid ''gate_advanced'' a (w_db w))),
            ''Advancing to '' @ h)"
        using advance_in_tables [OF paused(1) assms(4,3) Some] by blast
      moreover have "build_resume_payload rep ([(''gate_name'', PStr h), (''resume_action'', PStr ''advance'')]
            @ text_entry ''notes'' remark) = build_resume_payload rep (advance_job_payload h remark)"
        by (cases remark)
          (auto simp: build_resume_payload_def advance_job_payload_def text_entry_def pget_def Let_def
            non_empty_def dump_opt_def)
      ultimately show ?thesis
        using Some True assms(1,2) paused g gate next_gate_following [OF assms(3)]
        by (simp add: advance_gate_def respond_to_gate_def require_role_def owned_case_def
            own_case_only_def assign_status_def enqueue_job_def enqueue_outbox_job_def Let_def
            judge_audit_def set_status_def update_case_def add_audit_def)
    qed
  qed
qed

lemma advance_endpoints_agree_witness:
  "\<exists>db msg w' t. advance_gate judge1 ''case7'' ''gate1'' None (w_db (paused_world t)) = Inr (db, msg)
     \<and> respond_to_gate pipeline_ops t True judge1 ''case7'' (advance_payload None) (paused_world t)
        = Inr (w', msg)
     \<and> db_cases db = db_cases (w_db w')"
proof -
  obtain t where "thread_live t" using paused_world_start by blast
  have owner: "ca_created_by paused_row = us_id (rq_user judge1)" by (simp add: paused_row_def judge1_def)
  have "paused_at ''gate1'' paused_row = Inr ()"
    using paused_world_facts(2) by (simp add: paused_at_def awaiting_def)
  then have "\<exists>db msg. advance_gate judge1 ''case7'' ''gate1'' None (w_db (paused_world t)) = Inr (db, msg)"
    using paused_world_facts(1) owner
    by (simp add: advance_gate_def require_role_def owned_case_def valid_gate_names_def next_gate_def)
      (simp add: judge1_def)
  then obtain db msg where adv: "advance_gate judge1 ''case7'' ''gate1'' None (w_db (paused_world t))
      = Inr (db, msg)" by blast
  from advance_endpoints_agree [OF paused_world_facts(1) [of t] owner paused_world_facts(3,2),
      where ops = pipeline_ops and blank = t and is_local = True and remark = None and rep = "\<lambda>_. []"] adv
  show ?thesis by auto
qed

text \<open>A halt request marks the row failed but does not reach the graph: nothing is enqueued, and
  the thread stays paused at the gate with its interrupt pending and its halt slot as it was.\<close>

lemma halt_request_leaves_the_gate_pending:
  assumes "system_ok w" and "find_case cid (w_db w) = Some c"
    and "rq_user rq = \<lparr>us_id = ca_created_by c, us_role = Judge\<rparr>"
    and "g \<in> set gate_names" and "awaiting g = Some (ca_status c)"
    and "valid_resume_payload p" and "rp_action p = Halt"
  shows "\<exists>w' msg c' t. respond_to_gate pipeline_ops blank is_local rq cid p w = Inr (w', msg)
    \<and> find_case cid (w_db w') = Some c' \<and> ca_status c' = S_failed
    \<and> db_jobs (w_db w') = db_jobs (w_db w)
    \<and> w_threads w' = w_threads w \<and> w_threads w cid = Some t \<and> run_gate_of (th_head t) = Some g
    \<and> has_pending_interrupt (op_tasks pipeline_ops t)"
proof -
  have paused: "ca_status c \<in> set gate_pause_statuses" "current_gate (ca_status c) = g"
    "ca_status c \<noteq> S_failed"
    using awaiting_status [of g] assms(4,5) startableD(3) by blast+
  have g: "g \<in> set valid_gate_names" using assms(4) by (simp add: gate_names_def valid_gate_names_def)
  have cid: "ca_id c = cid" using find_case_id [OF assms(2)] by simp
  obtain t where t: "w_threads w cid = Some t" "thread_live t" "run_gate_of (th_head t) = Some g"
    using paused_thread [OF assms(1,2,4,5)] by blast
  obtain a where "respond_in_tables rq cid p c (w_db w) = Inr (set_status (rq_now rq) cid S_failed
      (judge_audit rq cid ''gate_halt'' a (w_db w)), ''Halted at '' @ g)"
    using assms(7) paused(2,3) by (simp add: respond_in_tables_def Let_def assign_status_def)
  then have "respond_to_gate pipeline_ops blank is_local rq cid p w
      = Inr (w\<lparr>w_db := set_status (rq_now rq) cid S_failed (judge_audit rq cid ''gate_halt'' a (w_db w))\<rparr>,
             ''Halted at '' @ g)"
    using assms(2,3,6,7) paused g by (simp add: respond_to_gate_def require_role_def own_case_only_def)
  moreover have "has_pending_interrupt (op_tasks pipeline_ops t)"
    using pipeline.pending [OF t(2)] t(3) by simp
  ultimately show ?thesis using t assms(2) cid by auto
qed

lemma halt_request_leaves_the_gate_pending_witness:
  "\<exists>t w' msg. respond_to_gate pipeline_ops t True judge1 ''case7''
       ((advance_payload None)\<lparr>rp_action := Halt\<rparr>) (paused_world t) = Inr (w', msg)
     \<and> has_pending_interrupt (op_tasks pipeline_ops t)"
proof -
  obtain t where t: "system_ok (paused_world t)" using paused_world_start by blast
  have "valid_resume_payload ((advance_payload None)\<lparr>rp_action := Halt\<rparr>)"
    by (simp add: valid_resume_payload_def advance_payload_def rerun_only_def message_only_def non_empty_def)
  moreover have "w_threads (paused_world t) ''case7'' = Some t" by (simp add: paused_world_def)
  ultimately show ?thesis
    using halt_request_leaves_the_gate_pending [OF t paused_world_facts(1,7,3,2), where
        p = "(advance_payload None)\<lparr>rp_action := Halt\<rparr>" and blank = t and is_local = True]
    by fastforce
qed

end
