(* ===== verification/Resilience.thy ===== *)
theory Resilience
  imports Prelude
begin

text \<open>
  The components that guard calls to and from the outside: the circuit breaker on three Redis keys
  (\<open>shared/circuit_breaker.py\<close>), the retry decorator (\<open>shared/retry.py\<close>) and the request
  limiter of the API (\<open>api/middleware/rate_limit.py\<close>). The locale \<open>simulation\<close> states once what
  it takes for a detailed state to follow an abstract one; the breaker is interpreted against its
  automaton, the limiter against a counter that keeps every accepted request.
\<close>

section \<open>Simulations\<close>

locale simulation =
  fixes cstep :: "'op \<Rightarrow> 's \<Rightarrow> 'out \<times> 's"
    and astep :: "'op \<Rightarrow> 'a \<Rightarrow> 'out \<times> 'a"
    and rel :: "'s \<Rightarrow> 'a \<Rightarrow> bool"
    and enabled :: "'op \<Rightarrow> 'a \<Rightarrow> bool"
  assumes same_reply: "rel s a \<Longrightarrow> enabled op a \<Longrightarrow> fst (cstep op s) = fst (astep op a)"
    and rel_step: "rel s a \<Longrightarrow> enabled op a \<Longrightarrow> rel (snd (cstep op s)) (snd (astep op a))"

text \<open>A run performs the operations in order and collects the replies.\<close>

fun run_ops :: "('op \<Rightarrow> 's \<Rightarrow> 'out \<times> 's) \<Rightarrow> 'op list \<Rightarrow> 's \<Rightarrow> 'out list \<times> 's" where
  "run_ops step [] s = ([], s)"
| "run_ops step (op # ops) s =
     (let (r, s') = step op s; (rs, t) = run_ops step ops s' in (r # rs, t))"

lemma run_ops_Cons:
  "run_ops step (op # ops) s =
     (fst (step op s) # fst (run_ops step ops (snd (step op s))), snd (run_ops step ops (snd (step op s))))"
  by (simp split: prod.splits)

fun all_enabled :: "('op \<Rightarrow> 'a \<Rightarrow> bool) \<Rightarrow> ('op \<Rightarrow> 'a \<Rightarrow> 'out \<times> 'a) \<Rightarrow> 'op list \<Rightarrow> 'a \<Rightarrow> bool" where
  "all_enabled en step [] a = True"
| "all_enabled en step (op # ops) a \<longleftrightarrow> en op a \<and> all_enabled en step ops (snd (step op a))"

context simulation
begin

lemma runs_agree:
  assumes "rel s a" "all_enabled enabled astep ops a"
  shows "fst (run_ops cstep ops s) = fst (run_ops astep ops a)
         \<and> rel (snd (run_ops cstep ops s)) (snd (run_ops astep ops a))"
  using assms
proof (induction ops arbitrary: s a)
  case (Cons op ops)
  obtain r s' where c: "cstep op s = (r, s')" by fastforce
  obtain r' a' where d: "astep op a = (r', a')" by fastforce
  have "r = r'" "rel s' a'"
    using same_reply [of s a op] rel_step [of s a op] Cons.prems c d by auto
  then show ?case using Cons.IH [of s' a'] Cons.prems c d by (auto split: prod.splits)
qed simp

end

section \<open>The circuit breaker\<close>

datatype circuit_state = Circuit_closed | Circuit_open | Circuit_half_open

fun circuit_value :: "circuit_state \<Rightarrow> string" where
  "circuit_value Circuit_closed = ''closed''"
| "circuit_value Circuit_open = ''open''"
| "circuit_value Circuit_half_open = ''half_open''"

text \<open>
  The keys \<open>vc:circuit:<service>:failures\<close>, \<open>:state\<close> and \<open>:opened_at\<close>, each absent until first
  set. The time stamp is written with \<open>str\<close> and read with \<open>float\<close>, which give the number back.
\<close>

record breaker_keys =
  bk_failures :: "int option"
  bk_state :: "string option"
  bk_opened_at :: "rat option"

definition no_keys :: breaker_keys where
  "no_keys = \<lparr>bk_failures = None, bk_state = None, bk_opened_at = None\<rparr>"

record breaker_config =
  bc_threshold :: int
  bc_timeout :: rat

text \<open>
  \<open>up\<close> says whether Redis answers; a \<open>RedisError\<close> from any call of an operation is caught and
  answered with the closed state, and only the last call of an operation writes.
\<close>

definition get_state :: "bool \<Rightarrow> breaker_keys \<Rightarrow> circuit_state" where
  "get_state up k =
     (if \<not> up then Circuit_closed
      else if bk_state k = Some (circuit_value Circuit_open) then Circuit_open
      else if bk_state k = Some (circuit_value Circuit_half_open) then Circuit_half_open
      else Circuit_closed)"

definition check_recovery ::
  "breaker_config \<Rightarrow> bool \<Rightarrow> rat \<Rightarrow> breaker_keys \<Rightarrow> circuit_state \<times> breaker_keys" where
  "check_recovery cfg up now k =
     (if \<not> up then (Circuit_closed, k)
      else if bk_state k = Some (circuit_value Circuit_open)
      then (case bk_opened_at k of
              None \<Rightarrow> (Circuit_open, k)
            | Some t \<Rightarrow>
                if now - t \<ge> bc_timeout cfg
                then (Circuit_half_open, k\<lparr>bk_state := Some (circuit_value Circuit_half_open)\<rparr>)
                else (Circuit_open, k))
      else if bk_state k = Some (circuit_value Circuit_half_open) then (Circuit_half_open, k)
      else (Circuit_closed, k))"

definition record_success :: "bool \<Rightarrow> breaker_keys \<Rightarrow> breaker_keys" where
  "record_success up k =
     (if \<not> up then k
      else \<lparr>bk_failures = Some 0, bk_state = Some (circuit_value Circuit_closed),
            bk_opened_at = None\<rparr>)"

text \<open>The Lua script, which Redis runs as one step: \<open>INCR\<close> counts an absent key from zero.\<close>

definition lua_record_failure :: "int \<Rightarrow> rat \<Rightarrow> breaker_keys \<Rightarrow> string \<times> breaker_keys" where
  "lua_record_failure threshold now k =
     (let n = (case bk_failures k of None \<Rightarrow> 0 | Some f \<Rightarrow> f) + 1;
          k1 = k\<lparr>bk_failures := Some n\<rparr>;
          state = (case bk_state k1 of None \<Rightarrow> ''closed'' | Some s \<Rightarrow> s);
          opened = k1\<lparr>bk_state := Some ''open'', bk_opened_at := Some now\<rparr>
      in if state = ''half_open'' then (''open'', opened)
         else if n \<ge> threshold then (''open'', opened)
         else (''closed'', k1))"

definition circuit_of_value :: "string \<Rightarrow> circuit_state" where
  "circuit_of_value s =
     (if s = ''open'' then Circuit_open
      else if s = ''half_open'' then Circuit_half_open else Circuit_closed)"

definition record_failure ::
  "breaker_config \<Rightarrow> bool \<Rightarrow> rat \<Rightarrow> breaker_keys \<Rightarrow> circuit_state \<times> breaker_keys" where
  "record_failure cfg up now k =
     (if \<not> up then (Circuit_closed, k)
      else let (s, k') = lua_record_failure (bc_threshold cfg) now k in (circuit_of_value s, k'))"

text \<open>The status of the health endpoint: state, failure count and opening time, or unknown.\<close>

definition get_status :: "breaker_config \<Rightarrow> string \<Rightarrow> bool \<Rightarrow> breaker_keys \<Rightarrow> pydict" where
  "get_status cfg service up k =
     (if up
      then [(''service'', PStr service), (''state'', PStr (circuit_value (get_state up k))),
            (''failure_count'', PInt (case bk_failures k of None \<Rightarrow> 0 | Some f \<Rightarrow> f)),
            (''failure_threshold'', PInt (bc_threshold cfg)),
            (''recovery_timeout_seconds'', PFloat (bc_timeout cfg)),
            (''opened_at'', case bk_opened_at k of None \<Rightarrow> PNone | Some t \<Rightarrow> PFloat t)]
      else [(''service'', PStr service), (''state'', PStr ''unknown''),
            (''failure_count'', PInt (- 1)), (''error'', PStr ''Redis unavailable'')])"

subsection \<open>The automaton it implements\<close>

text \<open>
  Closed with the number of failures since the last success, open since a time, or probing. An
  operation names whether Redis answers it and when it happens.
\<close>

datatype breaker = Closed int | Open_since rat | Probing

datatype breaker_op = Check bool rat | Success bool | Failure bool rat

fun breaker_step :: "breaker_config \<Rightarrow> breaker_op \<Rightarrow> breaker_keys \<Rightarrow> circuit_state \<times> breaker_keys" where
  "breaker_step cfg (Check up now) k = check_recovery cfg up now k"
| "breaker_step cfg (Success up) k = (Circuit_closed, record_success up k)"
| "breaker_step cfg (Failure up now) k = record_failure cfg up now k"

fun automaton_step :: "breaker_config \<Rightarrow> breaker_op \<Rightarrow> breaker \<Rightarrow> circuit_state \<times> breaker" where
  "automaton_step cfg (Check True now) (Open_since t) =
     (if now - t \<ge> bc_timeout cfg then (Circuit_half_open, Probing)
      else (Circuit_open, Open_since t))"
| "automaton_step cfg (Check True now) (Closed n) = (Circuit_closed, Closed n)"
| "automaton_step cfg (Check True now) Probing = (Circuit_half_open, Probing)"
| "automaton_step cfg (Success True) b = (Circuit_closed, Closed 0)"
| "automaton_step cfg (Failure True now) (Closed n) =
     (if n + 1 \<ge> bc_threshold cfg then (Circuit_open, Open_since now)
      else (Circuit_closed, Closed (n + 1)))"
| "automaton_step cfg (Failure True now) b = (Circuit_open, Open_since now)"
| "automaton_step cfg _ b = (Circuit_closed, b)"

fun keys_show :: "breaker_config \<Rightarrow> breaker_keys \<Rightarrow> breaker \<Rightarrow> bool" where
  "keys_show cfg k (Closed n) \<longleftrightarrow>
     bk_state k \<in> {None, Some ''closed''} \<and> (case bk_failures k of None \<Rightarrow> 0 | Some f \<Rightarrow> f) = n
     \<and> n < bc_threshold cfg"
| "keys_show cfg k (Open_since t) \<longleftrightarrow>
     bk_state k = Some ''open'' \<and> bk_opened_at k = Some t
     \<and> (\<exists>f. bk_failures k = Some f \<and> f \<ge> bc_threshold cfg)"
| "keys_show cfg k Probing \<longleftrightarrow>
     bk_state k = Some ''half_open'' \<and> (\<exists>f. bk_failures k = Some f \<and> f \<ge> bc_threshold cfg)"

lemmas breaker_defs =
  check_recovery_def record_success_def record_failure_def lua_record_failure_def circuit_of_value_def

lemma breaker_simulation:
  assumes "keys_show cfg k b" "0 < bc_threshold cfg"
  shows "fst (breaker_step cfg op k) = fst (automaton_step cfg op b)
         \<and> keys_show cfg (snd (breaker_step cfg op k)) (snd (automaton_step cfg op b))"
proof (cases op)
  case (Check up now)
  then show ?thesis using assms by (cases up; cases b) (auto simp: breaker_defs)
next
  case (Success up)
  then show ?thesis using assms by (cases up; cases b) (auto simp: breaker_defs)
next
  case (Failure up now)
  then show ?thesis using assms
    by (cases up; cases b) (auto simp: breaker_defs Let_def split: option.splits)
qed

text \<open>Any configuration with a positive threshold, as the settings have, is an instance.\<close>

definition breaker_config_ok :: "breaker_config \<Rightarrow> bool" where
  "breaker_config_ok cfg \<longleftrightarrow> 0 < bc_threshold cfg"

interpretation breaker_sim: simulation
  "breaker_step cfg" "automaton_step cfg" "\<lambda>k b. keys_show cfg k b \<and> breaker_config_ok cfg" "\<lambda>op b. True"
  for cfg
  by unfold_locales (simp_all add: breaker_simulation breaker_config_ok_def)

lemma all_enabled_True [simp]: "all_enabled (\<lambda>op b. True) st ops a"
  by (induction ops arbitrary: a) auto

text \<open>C12: The circuit breaker on its three Redis keys, started without any key, answers every
  sequence of checks, successes and failures, with Redis answering or not, as the automaton does
  that counts failures since the last success, opens at the threshold, probes after the recovery
  timeout and closes on success; the keys show the state of the automaton throughout.\<close>

theorem breaker_refines_its_automaton:
  assumes "0 < bc_threshold cfg"
  shows "fst (run_ops (breaker_step cfg) ops no_keys) = fst (run_ops (automaton_step cfg) ops (Closed 0))
         \<and> keys_show cfg (snd (run_ops (breaker_step cfg) ops no_keys))
                         (snd (run_ops (automaton_step cfg) ops (Closed 0)))"
proof -
  have "keys_show cfg no_keys (Closed 0) \<and> breaker_config_ok cfg"
    using assms by (simp add: no_keys_def breaker_config_ok_def)
  from breaker_sim.runs_agree [OF this] show ?thesis by simp
qed

theorem breaker_refines_its_automaton_witness:
  "run_ops (breaker_step \<lparr>bc_threshold = 2, bc_timeout = 60\<rparr>)
     [Failure True 5, Check True 6, Failure True 7, Check True 8, Check True 67, Failure True 68]
     no_keys
   = ([Circuit_closed, Circuit_closed, Circuit_open, Circuit_open, Circuit_half_open, Circuit_open],
      \<lparr>bk_failures = Some 3, bk_state = Some ''open'', bk_opened_at = Some 68\<rparr>)
   \<and> fst (run_ops (automaton_step \<lparr>bc_threshold = 2, bc_timeout = 60\<rparr>)
       [Failure True 5, Check True 6, Failure True 7, Check True 8, Check True 67, Failure True 68]
       (Closed 0))
     = [Circuit_closed, Circuit_closed, Circuit_open, Circuit_open, Circuit_half_open, Circuit_open]"
  using breaker_refines_its_automaton [of "\<lparr>bc_threshold = 2, bc_timeout = 60\<rparr>"
    "[Failure True 5, Check True 6, Failure True 7, Check True 8, Check True 67, Failure True 68]"]
  by (simp add: breaker_defs no_keys_def Let_def)

section \<open>The request limiter\<close>

record client_headers =
  ch_real_ip :: "string option"
  ch_forwarded_for :: "string option"
  ch_host :: "string option"

definition before_comma :: "string \<Rightarrow> string" where
  "before_comma s = takeWhile (\<lambda>c. c \<noteq> CHR '','') s"

text \<open>An empty header counts as absent.\<close>

definition client_ip :: "client_headers \<Rightarrow> string" where
  "client_ip h =
     (case ch_real_ip h of
        Some (c # s) \<Rightarrow> py_strip (c # s)
      | _ \<Rightarrow>
          (case ch_forwarded_for h of
             Some (c # s) \<Rightarrow> py_strip (before_comma (c # s))
           | _ \<Rightarrow> (case ch_host h of Some host \<Rightarrow> host | None \<Rightarrow> ''unknown'')))"

text \<open>
  The time stamps kept per client, a \<open>defaultdict\<close> whose missing keys read as the empty list, and
  the time of the last clean-up. Times are seconds of the monotonic clock.
\<close>

record limiter =
  lm_requests :: "string \<Rightarrow> rat list option"
  lm_last_cleanup :: rat

definition window_seconds :: rat where "window_seconds = 60"
definition cleanup_interval :: rat where "cleanup_interval = 300"

definition requests_of :: "limiter \<Rightarrow> string \<Rightarrow> rat list" where
  "requests_of l ip = (case lm_requests l ip of None \<Rightarrow> [] | Some ts \<Rightarrow> ts)"

definition cleanup_expired :: "rat \<Rightarrow> limiter \<Rightarrow> limiter" where
  "cleanup_expired now l =
     (if now - lm_last_cleanup l < cleanup_interval then l
      else \<lparr>lm_requests =
              (\<lambda>ip. case lm_requests l ip of
                 None \<Rightarrow> None
               | Some ts \<Rightarrow>
                   (let kept = filter (\<lambda>t. t > now - window_seconds) ts
                    in if kept = [] then None else Some kept)),
            lm_last_cleanup = now\<rparr>)"

text \<open>
  The reply to a request: passed on, refused with the seconds to wait, or an \<open>IndexError\<close>, which
  a limit of zero raises when it looks for the oldest request of an empty list. \<open>int\<close> truncates
  towards zero.
\<close>

datatype limiter_reply = Passed_on | Too_many_requests int | Index_error

definition py_int_of :: "rat \<Rightarrow> int" where
  "py_int_of r = (if r < 0 then \<lceil>r\<rceil> else \<lfloor>r\<rfloor>)"

definition admit :: "nat \<Rightarrow> rat \<times> string \<Rightarrow> limiter \<Rightarrow> limiter_reply \<times> limiter" where
  "admit limit req l =
     (let (now, ip) = req;
          l1 = cleanup_expired now l;
          kept = filter (\<lambda>t. t > now - window_seconds) (requests_of l1 ip);
          l2 = l1\<lparr>lm_requests := (lm_requests l1)(ip \<mapsto> kept)\<rparr>
      in if length kept \<ge> limit
         then (case kept of
                 [] \<Rightarrow> (Index_error, l2)
               | oldest # _ \<Rightarrow> (Too_many_requests (py_int_of (oldest + window_seconds - now) + 1), l2))
         else (Passed_on, l2\<lparr>lm_requests := (lm_requests l2)(ip \<mapsto> kept @ [now])\<rparr>))"

definition dispatch_request ::
  "bool \<Rightarrow> nat \<Rightarrow> rat \<times> client_headers \<Rightarrow> limiter \<Rightarrow> limiter_reply \<times> limiter" where
  "dispatch_request on limit req l =
     (if on then admit limit (fst req, client_ip (snd req)) l else (Passed_on, l))"

definition new_limiter :: "rat \<Rightarrow> limiter" where
  "new_limiter now = \<lparr>lm_requests = (\<lambda>_. None), lm_last_cleanup = now\<rparr>"

subsection \<open>The history it stands for\<close>

text \<open>
  The reference keeps every request it ever passed on and decides by counting those of the last
  window; nothing is trimmed or cleaned up.
\<close>

record request_history =
  rh_passed :: "string \<Rightarrow> rat list"
  rh_now :: rat

definition in_window :: "rat \<Rightarrow> rat list \<Rightarrow> rat list" where
  "in_window now = filter (\<lambda>t. t > now - window_seconds)"

definition admit_by_history ::
  "nat \<Rightarrow> rat \<times> string \<Rightarrow> request_history \<Rightarrow> limiter_reply \<times> request_history" where
  "admit_by_history limit req h =
     (let (now, ip) = req; recent = in_window now (rh_passed h ip)
      in if length recent \<ge> limit
         then (if recent = [] then Index_error
               else Too_many_requests (\<lfloor>hd recent + window_seconds - now\<rfloor> + 1),
               h\<lparr>rh_now := now\<rparr>)
         else (Passed_on, h\<lparr>rh_now := now, rh_passed := (rh_passed h)(ip := rh_passed h ip @ [now])\<rparr>))"

definition limiter_shows :: "limiter \<Rightarrow> request_history \<Rightarrow> bool" where
  "limiter_shows l h \<longleftrightarrow>
     (\<forall>ip now. rh_now h \<le> now \<longrightarrow> in_window now (requests_of l ip) = in_window now (rh_passed h ip))"

definition clock_advances :: "rat \<times> string \<Rightarrow> request_history \<Rightarrow> bool" where
  "clock_advances req h \<longleftrightarrow> rh_now h \<le> fst req"

lemma in_window_append [simp]: "in_window now (xs @ ys) = in_window now xs @ in_window now ys"
  by (simp add: in_window_def)

lemma in_window_twice: "t \<le> now \<Longrightarrow> in_window now (in_window t xs) = in_window now xs"
  by (auto simp: in_window_def intro!: filter_cong)

lemma requests_of_cleanup:
  "requests_of (cleanup_expired now l) ip =
     (if now - lm_last_cleanup l < cleanup_interval then requests_of l ip
      else in_window now (requests_of l ip))"
  by (auto simp: cleanup_expired_def requests_of_def in_window_def Let_def split: option.splits)

lemma requests_after_cleanup:
  "now \<le> later \<Longrightarrow>
   in_window later (requests_of (cleanup_expired now l) ip) = in_window later (requests_of l ip)"
  by (simp add: requests_of_cleanup in_window_twice)

lemma hd_in_window: "in_window now xs \<noteq> [] \<Longrightarrow> 0 \<le> hd (in_window now xs) + window_seconds - now"
  using hd_in_set [of "in_window now xs"] by (auto simp: in_window_def window_seconds_def)

lemma py_int_of_nonneg: "0 \<le> r \<Longrightarrow> py_int_of r = \<lfloor>r\<rfloor>"
  by (simp add: py_int_of_def)

lemma requests_of_upd [simp]:
  "requests_of (l\<lparr>lm_requests := (lm_requests l)(ip \<mapsto> ts)\<rparr>) ip' =
     (if ip' = ip then ts else requests_of l ip')"
  by (simp add: requests_of_def)

text \<open>The limiter in terms of the recent requests of a client.\<close>

lemma admit_reply:
  "fst (admit limit (now, ip) l) =
     (let recent = in_window now (requests_of l ip)
      in if length recent \<ge> limit
         then (if recent = [] then Index_error
               else Too_many_requests (\<lfloor>hd recent + window_seconds - now\<rfloor> + 1))
         else Passed_on)"
  using requests_after_cleanup [of now now l ip] hd_in_window [of now "requests_of l ip"]
  by (auto simp: admit_def Let_def in_window_def py_int_of_nonneg split: list.splits)

lemma admit_requests:
  assumes "now \<le> later"
  shows "in_window later (requests_of (snd (admit limit (now, ip) l)) ip') =
     (if ip' = ip \<and> length (in_window now (requests_of l ip)) < limit
      then in_window later (requests_of l ip @ [now]) else in_window later (requests_of l ip'))"
proof -
  have kept: "filter (\<lambda>t. t > now - window_seconds) (requests_of (cleanup_expired now l) ip)
      = in_window now (requests_of l ip)"
    using requests_after_cleanup [of now now l ip] by (simp add: in_window_def)
  have "in_window later (in_window now (requests_of l ip)) = in_window later (requests_of l ip)"
    by (rule in_window_twice [OF assms])
  then show ?thesis
    using assms by (auto simp: admit_def Let_def kept requests_after_cleanup split: list.splits)
qed

lemma admit_by_history_passed:
  "rh_passed (snd (admit_by_history limit (now, ip) h)) ip' =
     (if ip' = ip \<and> length (in_window now (rh_passed h ip)) < limit
      then rh_passed h ip @ [now] else rh_passed h ip')"
  "rh_now (snd (admit_by_history limit (now, ip) h)) = now"
  by (auto simp: admit_by_history_def Let_def)

interpretation limiter_sim: simulation "admit limit" "admit_by_history limit" limiter_shows clock_advances
  for limit
proof
  fix l h and req :: "rat \<times> string"
  assume shown: "limiter_shows l h" and clock: "clock_advances req h"
  obtain now ip where req: "req = (now, ip)" by fastforce
  have now: "rh_now h \<le> now" using clock by (simp add: clock_advances_def req)
  have recent: "in_window now (requests_of l ip) = in_window now (rh_passed h ip)"
    using shown now by (simp add: limiter_shows_def)
  show "fst (admit limit req l) = fst (admit_by_history limit req h)"
    unfolding req admit_reply recent by (simp add: admit_by_history_def Let_def)
  show "limiter_shows (snd (admit limit req l)) (snd (admit_by_history limit req h))"
    unfolding req limiter_shows_def admit_by_history_passed
    using shown now by (auto simp: admit_requests recent limiter_shows_def)
qed

subsection \<open>The bound\<close>

text \<open>In every window of the history at most \<open>limit\<close> requests of a client were passed on.\<close>

definition window_count :: "rat \<Rightarrow> rat list \<Rightarrow> nat" where
  "window_count t xs = length (filter (\<lambda>u. t - window_seconds < u \<and> u \<le> t) xs)"

definition history_ok :: "nat \<Rightarrow> request_history \<Rightarrow> bool" where
  "history_ok limit h \<longleftrightarrow>
     (\<forall>ip. (\<forall>u \<in> set (rh_passed h ip). u \<le> rh_now h) \<and> (\<forall>t. window_count t (rh_passed h ip) \<le> limit))"

lemma window_count_le: "t \<ge> now \<Longrightarrow> window_count t xs \<le> length (in_window now xs)"
  unfolding window_count_def in_window_def by (induction xs) auto

lemma history_step_ok:
  assumes ok: "history_ok limit h" and clock: "rh_now h \<le> now"
  shows "history_ok limit (snd (admit_by_history limit (now, ip) h))"
proof -
  have "window_count t (rh_passed h ip @ [now]) \<le> limit"
    if "length (in_window now (rh_passed h ip)) < limit" for t
  proof (cases "now \<le> t")
    case True
    have "window_count t (rh_passed h ip @ [now]) \<le> Suc (window_count t (rh_passed h ip))"
      by (simp add: window_count_def)
    then show ?thesis using window_count_le [OF True, of "rh_passed h ip"] that by simp
  next
    case False
    then have "window_count t (rh_passed h ip @ [now]) = window_count t (rh_passed h ip)"
      by (simp add: window_count_def)
    then show ?thesis using ok by (simp add: history_ok_def)
  qed
  then show ?thesis
    using ok clock unfolding history_ok_def admit_by_history_passed by (auto intro: order_trans)
qed

lemma history_run_ok:
  "history_ok limit h \<Longrightarrow> all_enabled clock_advances (admit_by_history limit) reqs h \<Longrightarrow>
   history_ok limit (snd (run_ops (admit_by_history limit) reqs h))"
proof (induction reqs arbitrary: h)
  case (Cons req reqs)
  obtain now ip where req: "req = (now, ip)" by fastforce
  from Cons.prems have "history_ok limit (snd (admit_by_history limit req h))"
    unfolding req by (simp add: history_step_ok clock_advances_def)
  then show ?case
    using Cons.IH [of "snd (admit_by_history limit req h)"] Cons.prems
    by (simp add: run_ops_Cons del: run_ops.simps)
qed simp

text \<open>The times at which a client's requests were passed on in a run.\<close>

fun passed_times :: "string \<Rightarrow> (rat \<times> string) list \<Rightarrow> limiter_reply list \<Rightarrow> rat list" where
  "passed_times ip ((now, ip') # reqs) (r # rs) =
     (if ip' = ip \<and> r = Passed_on then [now] else []) @ passed_times ip reqs rs"
| "passed_times ip _ _ = []"

lemma passed_times_history:
  "rh_passed (snd (run_ops (admit_by_history limit) reqs h)) ip =
     rh_passed h ip @ passed_times ip reqs (fst (run_ops (admit_by_history limit) reqs h))"
proof (induction reqs arbitrary: h)
  case (Cons req reqs)
  obtain now ip' where req: "req = (now, ip')" by fastforce
  show ?case
    using Cons.IH [of "snd (admit_by_history limit req h)"]
    by (auto simp: req admit_by_history_def Let_def split: prod.splits if_splits)
qed simp

text \<open>The clock of a run never goes back.\<close>

lemma all_enabled_sorted:
  "sorted (map fst reqs) \<Longrightarrow> \<forall>r \<in> set reqs. rh_now h \<le> fst r \<Longrightarrow>
   all_enabled clock_advances (admit_by_history limit) reqs h"
proof (induction reqs arbitrary: h)
  case (Cons req reqs)
  obtain now ip where req: "req = (now, ip)" by fastforce
  show ?case using Cons by (simp add: req clock_advances_def admit_by_history_passed)
qed simp

lemma new_limiter_shows: "limiter_shows (new_limiter now) \<lparr>rh_passed = (\<lambda>_. []), rh_now = now\<rparr>"
  by (simp add: limiter_shows_def new_limiter_def requests_of_def)

lemma empty_history_ok: "history_ok limit \<lparr>rh_passed = (\<lambda>_. []), rh_now = now\<rparr>"
  by (simp add: history_ok_def window_count_def)

text \<open>C13: However the requests of the clients interleave, and whatever the periodic clean-up has
  dropped, at most \<open>limit\<close> requests of a client are passed on in any span of sixty seconds, as
  long as the clock does not go back.\<close>

theorem limiter_bounds_every_window:
  assumes "sorted (map fst reqs)" "\<forall>r \<in> set reqs. start \<le> fst r"
  shows "window_count t (passed_times ip reqs (fst (run_ops (admit limit) reqs (new_limiter start)))) \<le> limit"
proof -
  let ?h = "\<lparr>rh_passed = (\<lambda>_. []), rh_now = start\<rparr>"
  have en: "all_enabled clock_advances (admit_by_history limit) reqs ?h"
    using assms by (intro all_enabled_sorted) auto
  have "fst (run_ops (admit limit) reqs (new_limiter start)) = fst (run_ops (admit_by_history limit) reqs ?h)"
    using limiter_sim.runs_agree [OF new_limiter_shows en] by simp
  moreover have "window_count t (rh_passed (snd (run_ops (admit_by_history limit) reqs ?h)) ip) \<le> limit"
    using history_run_ok [OF empty_history_ok en] by (simp add: history_ok_def)
  ultimately show ?thesis using passed_times_history [of limit reqs ?h ip] by simp
qed

theorem limiter_bounds_every_window_witness:
  "window_count 61 (passed_times ''a''
     [(1, ''a''), (2, ''b''), (3, ''a''), (4, ''a''), (61, ''a''), (62, ''a'')]
     (fst (run_ops (admit 2)
       [(1, ''a''), (2, ''b''), (3, ''a''), (4, ''a''), (61, ''a''), (62, ''a'')] (new_limiter 0)))) \<le> 2"
  by (rule limiter_bounds_every_window [where start = 0]) simp_all

text \<open>
  A refused client that waits as long as its reply says is passed on, if nothing else of it came
  in between.
\<close>

lemma window_after_wait:
  assumes "xs \<noteq> []" "length xs \<le> limit" "hd xs + window_seconds \<le> later"
  shows "length (in_window later xs) < limit"
proof -
  obtain x ys where "xs = x # ys" using assms(1) by (cases xs) auto
  then have "length (in_window later xs) \<le> length ys"
    using assms(3) by (simp add: in_window_def)
  then show ?thesis using assms(2) \<open>xs = x # ys\<close> by simp
qed

text \<open>The states a limiter passes through while the clock does not go back, up to a time \<open>now\<close>.\<close>

definition limiter_reached :: "nat \<Rightarrow> rat \<Rightarrow> limiter \<Rightarrow> bool" where
  "limiter_reached limit now l \<longleftrightarrow>
     (\<exists>start reqs. sorted (map fst reqs) \<and> (\<forall>r \<in> set reqs. start \<le> fst r \<and> fst r \<le> now) \<and> start \<le> now
        \<and> l = snd (run_ops (admit limit) reqs (new_limiter start)))"

lemma run_now:
  "rh_now h \<le> now \<Longrightarrow> \<forall>r \<in> set reqs. fst r \<le> now \<Longrightarrow>
   rh_now (snd (run_ops (admit_by_history limit) reqs h)) \<le> now"
proof (induction reqs arbitrary: h)
  case (Cons req reqs)
  obtain t ip where req: "req = (t, ip)" by fastforce
  show ?case using Cons
    by (simp add: req run_ops_Cons admit_by_history_passed del: run_ops.simps)
qed simp

lemma reached_recent_le:
  assumes "limiter_reached limit now l"
  shows "length (in_window now (requests_of l ip)) \<le> limit"
    and "\<forall>t \<in> set (in_window now (requests_of l ip)). t \<le> now"
proof -
  obtain start reqs where reqs: "sorted (map fst reqs)" "\<forall>r \<in> set reqs. start \<le> fst r \<and> fst r \<le> now"
      "start \<le> now" and l: "l = snd (run_ops (admit limit) reqs (new_limiter start))"
    using assms by (auto simp: limiter_reached_def)
  let ?start = "\<lparr>rh_passed = (\<lambda>_. []), rh_now = start\<rparr>"
  let ?h = "snd (run_ops (admit_by_history limit) reqs ?start)"
  have en: "all_enabled clock_advances (admit_by_history limit) reqs ?start"
    by (rule all_enabled_sorted) (use reqs in auto)
  have "limiter_shows l ?h" using limiter_sim.runs_agree [OF new_limiter_shows en] l by simp
  moreover have "rh_now ?h \<le> now" by (rule run_now) (use reqs in auto)
  ultimately have recent: "in_window now (requests_of l ip) = in_window now (rh_passed ?h ip)"
    by (simp add: limiter_shows_def)
  have ok: "history_ok limit ?h" using history_run_ok [OF empty_history_ok en] .
  then have before: "\<forall>u \<in> set (rh_passed ?h ip). u \<le> now"
    using \<open>rh_now ?h \<le> now\<close> unfolding history_ok_def by (meson order_trans)
  then have "in_window now (rh_passed ?h ip)
      = filter (\<lambda>u. now - window_seconds < u \<and> u \<le> now) (rh_passed ?h ip)"
    unfolding in_window_def by (intro filter_cong) auto
  moreover have "window_count now (rh_passed ?h ip) \<le> limit" using ok by (simp add: history_ok_def)
  ultimately show "length (in_window now (requests_of l ip)) \<le> limit"
    by (simp add: recent window_count_def)
  show "\<forall>t \<in> set (in_window now (requests_of l ip)). t \<le> now"
    unfolding recent using before by (simp add: in_window_def)
qed

lemma wait_covers: "wait = \<lfloor>x\<rfloor> + 1 \<Longrightarrow> x \<le> of_int wait" for x :: rat
  using floor_correct [of x] by simp

text \<open>The reply to a refused client names a wait of 1 to 61 seconds, and a client that waits so
  long and sends nothing else meanwhile is passed on.\<close>

lemma refused_client_is_passed_after_waiting:
  assumes "limiter_reached limit now l"
    and "admit limit (now, ip) l = (Too_many_requests wait, l')"
    and "now + of_int wait \<le> later"
  shows "1 \<le> wait \<and> wait \<le> 61 \<and> fst (admit limit (later, ip) l') = Passed_on"
proof -
  let ?recent = "in_window now (requests_of l ip)"
  have refused: "fst (admit limit (now, ip) l) = Too_many_requests wait"
    and l': "l' = snd (admit limit (now, ip) l)"
    using assms(2) by simp_all
  have full: "limit \<le> length ?recent" and ne: "?recent \<noteq> []"
    and wait: "wait = \<lfloor>hd ?recent + window_seconds - now\<rfloor> + 1"
    using refused by (auto simp: admit_reply Let_def split: if_splits)
  have "hd ?recent \<le> now" using hd_in_set [OF ne] reached_recent_le(2) [OF assms(1), of ip] by blast
  then have bounds: "1 \<le> wait" "wait \<le> 61"
    using wait hd_in_window [OF ne] by (auto simp: window_seconds_def floor_le_iff)
  then have le: "now \<le> later" using assms(3) by simp
  have "hd ?recent + window_seconds \<le> later"
    using wait_covers [OF wait] assms(3) by linarith
  then have "length (in_window later ?recent) < limit"
    using window_after_wait [OF ne reached_recent_le(1) [OF assms(1)]] by simp
  then have "length (in_window later (requests_of l' ip)) < limit"
    using full by (simp add: l' admit_requests [OF le] in_window_twice [OF le])
  then show ?thesis using bounds by (simp add: admit_reply Let_def)
qed

lemma refused_client_is_passed_after_waiting_witness:
  "fst (admit 1 (62, ''a'') (snd (admit 1 (10, ''a'') (snd (admit 1 (1, ''a'') (new_limiter 0)))))) = Passed_on"
proof -
  let ?l = "snd (admit 1 (1, ''a'') (new_limiter 0))"
  have reached: "limiter_reached 1 10 ?l"
    unfolding limiter_reached_def
    by (rule exI [of _ 0], rule exI [of _ "[(1, ''a'')]"]) (simp split: prod.splits)
  have "fst (admit 1 (10, ''a'') ?l) = Too_many_requests 52"
    by (simp add: admit_reply)
      (simp add: admit_def new_limiter_def requests_of_def cleanup_expired_def in_window_def window_seconds_def cleanup_interval_def)
  then have "admit 1 (10, ''a'') ?l = (Too_many_requests 52, snd (admit 1 (10, ''a'') ?l))"
    by (metis prod.collapse)
  from refused_client_is_passed_after_waiting [OF reached this, where later = 62]
  show ?thesis by simp
qed

section \<open>Retries with backoff\<close>

text \<open>
  A raised exception is known by the names of the classes it is an instance of, its own first; an
  \<open>except\<close> clause looks whether one of its classes is among them.
\<close>

datatype exn = Exn "string list"

fun instance_of :: "string list \<Rightarrow> exn \<Rightarrow> bool" where
  "instance_of classes (Exn cs) \<longleftrightarrow> list_ex (\<lambda>c. c \<in> set classes) cs"

definition max_retries_error :: exn where
  "max_retries_error = Exn [''MaxRetriesError'', ''Exception'']"

text \<open>
  The decorated function maps a state to its outcome and the next state. The loop starts an attempt,
  returns its value, lets any other exception pass, and sleeps before the next attempt; the delays
  slept are part of the result.
\<close>

record retry_config =
  rc_max_retries :: nat
  rc_base_delay :: rat
  rc_max_delay :: rat
  rc_retryable :: "string list"

definition backoff_delay :: "retry_config \<Rightarrow> nat \<Rightarrow> rat" where
  "backoff_delay cfg attempt = min (rc_base_delay cfg * 2 ^ attempt) (rc_max_delay cfg)"

function retry_from ::
  "retry_config \<Rightarrow> ('w \<Rightarrow> (exn + 'a) \<times> 'w) \<Rightarrow> nat \<Rightarrow> 'w \<Rightarrow> (exn + 'a) \<times> rat list \<times> 'w" where
  "retry_from cfg func attempt w =
     (if attempt \<le> rc_max_retries cfg
      then (case func w of
              (Inr v, w') \<Rightarrow> (Inr v, [], w')
            | (Inl e, w') \<Rightarrow>
                if \<not> instance_of (rc_retryable cfg) e then (Inl e, [], w')
                else if attempt = rc_max_retries cfg then (Inl max_retries_error, [], w')
                else (let (r, ds, w'') = retry_from cfg func (attempt + 1) w'
                      in (r, backoff_delay cfg attempt # ds, w'')))
      else (Inl max_retries_error, [], w))"
  by pat_completeness auto
termination by (relation "measure (\<lambda>(cfg, func, attempt, w). Suc (rc_max_retries cfg) - attempt)") auto

declare retry_from.simps [simp del]

definition retry_with_backoff ::
  "retry_config \<Rightarrow> ('w \<Rightarrow> (exn + 'a) \<times> 'w) \<Rightarrow> 'w \<Rightarrow> (exn + 'a) \<times> rat list \<times> 'w" where
  "retry_with_backoff cfg func w = retry_from cfg func 0 w"

text \<open>Counting the calls of the function beside its state.\<close>

definition counting :: "('w \<Rightarrow> (exn + 'a) \<times> 'w) \<Rightarrow> nat \<times> 'w \<Rightarrow> (exn + 'a) \<times> nat \<times> 'w" where
  "counting func nw = (let (r, w') = func (snd nw) in (r, Suc (fst nw), w'))"

lemma retry_from_counts:
  assumes "attempt \<le> rc_max_retries cfg" "retry_from cfg (counting func) attempt (n, w) = (r, ds, m, w')"
  shows "m = n + length ds + 1 \<and> length ds + attempt \<le> rc_max_retries cfg
         \<and> ds = map (backoff_delay cfg) [attempt ..< attempt + length ds]
         \<and> ((r = Inl max_retries_error \<and> length ds + attempt = rc_max_retries cfg)
            \<or> (\<exists>w0. func w0 = (r, w') \<and> (\<forall>e. r = Inl e \<longrightarrow> \<not> instance_of (rc_retryable cfg) e)))"
  using assms
proof (induction "rc_max_retries cfg - attempt" arbitrary: attempt n w ds)
  case (0 attempt n w ds)
  then show ?case
    by (subst (asm) retry_from.simps)
      (auto simp: counting_def Let_def split: sum.splits prod.splits if_splits)
next
  case (Suc k attempt n w ds)
  obtain out w1 where call: "func w = (out, w1)" by fastforce
  from Suc.hyps(2) have less: "attempt < rc_max_retries cfg" by simp
  show ?case
  proof (cases "\<exists>e. out = Inl e \<and> instance_of (rc_retryable cfg) e")
    case False
    with Suc.prems call show ?thesis
      by (subst (asm) retry_from.simps)
        (auto simp: counting_def split: sum.splits)
  next
    case True
    then obtain e where e: "out = Inl e" "instance_of (rc_retryable cfg) e" by blast
    obtain ds' where rest: "retry_from cfg (counting func) (attempt + 1) (Suc n, w1) = (r, ds', m, w')"
        and ds: "ds = backoff_delay cfg attempt # ds'"
      using Suc.prems(2) call e less
      by (subst (asm) retry_from.simps) (auto simp: counting_def Let_def split: prod.splits)
    have "[attempt ..< attempt + length ds] = attempt # [attempt + 1 ..< attempt + 1 + length ds']"
      using upt_conv_Cons [of attempt "attempt + length ds"] by (simp add: ds)
    then show ?thesis using Suc.hyps(1) [OF _ _ rest] Suc.hyps(2) less by (auto simp: ds)
  qed
qed

text \<open>A decorated call ends after at most \<open>max_retries + 1\<close> calls of the function, one more than
  the delays slept, which are the doubled base delay cut at the maximum; it returns what the last
  call returned, raises what is not retryable, and raises \<open>MaxRetriesError\<close>, whatever the last
  exception was, exactly after the last attempt.\<close>

lemma retry_is_bounded:
  assumes "retry_with_backoff cfg (counting func) (0, w) = (r, ds, n, w')"
  shows "n = length ds + 1 \<and> n \<le> rc_max_retries cfg + 1
         \<and> ds = map (backoff_delay cfg) [0 ..< length ds] \<and> (\<forall>d \<in> set ds. d \<le> rc_max_delay cfg)
         \<and> ((r = Inl max_retries_error \<and> n = rc_max_retries cfg + 1)
            \<or> (\<exists>w0. func w0 = (r, w') \<and> (\<forall>e. r = Inl e \<longrightarrow> \<not> instance_of (rc_retryable cfg) e)))"
proof -
  have run: "retry_from cfg (counting func) 0 (0, w) = (r, ds, n, w')"
    using assms by (simp add: retry_with_backoff_def)
  have ds: "ds = map (backoff_delay cfg) [0 ..< length ds]"
    using retry_from_counts [OF _ run] by simp
  have "\<forall>d \<in> set (map (backoff_delay cfg) [0 ..< length ds]). d \<le> rc_max_delay cfg"
    by (simp add: backoff_delay_def)
  then have "\<forall>d \<in> set ds. d \<le> rc_max_delay cfg" using ds by simp
  then show ?thesis using retry_from_counts [OF _ run] ds by auto
qed

definition pair_retries :: retry_config where
  "pair_retries = \<lparr>rc_max_retries = 2, rc_base_delay = 1, rc_max_delay = 30,
                   rc_retryable = [''TransportError'', ''TimeoutException'']\<rparr>"

lemma retry_is_bounded_witness:
  "retry_with_backoff pair_retries (counting (\<lambda>k. (Inl (Exn [''ConnectError'', ''TransportError'']) :: exn + nat, Suc k))) (0, 0)
     = (Inl max_retries_error, [1, 2], 3, 3)
   \<and> 2 \<le> rc_max_delay pair_retries"
proof -
  have run: "retry_with_backoff pair_retries (counting (\<lambda>k. (Inl (Exn [''ConnectError'', ''TransportError'']) :: exn + nat, Suc k))) (0, 0)
     = (Inl max_retries_error, [1, 2], 3, 3)"
    by (simp add: retry_with_backoff_def retry_from.simps pair_retries_def counting_def backoff_delay_def)
  have "\<forall>d \<in> set [1, 2]. d \<le> rc_max_delay pair_retries" using retry_is_bounded [OF run] by blast
  then show ?thesis using run by simp
qed

end
