(* ===== verification/Precedent_Search.thy ===== *)
theory Precedent_Search
  imports Resilience "HOL-Library.Multiset"
begin

text \<open>
  The precedent search (\<open>tools/search_precedents.py\<close>): a cache in Redis, a distributed limit on
  the calls of the PAIR service, the retried call itself, the circuit breaker around it and the
  vector store behind it. The replies of PAIR and of the vector store, the times and whether Redis
  answers are arguments of the search.
\<close>

section \<open>State\<close>

text \<open>
  A cache entry is the JSON value its text denotes, or a text that is not JSON. The counter of the
  rate limit carries the time it expires, once it has one.
\<close>

datatype cached_text = Json pyval | Not_json string

record search_store =
  ss_cache :: "string \<Rightarrow> cached_text option"
  ss_breaker :: breaker_keys
  ss_limit :: "(int \<times> rat option) option"

record search_result =
  sr_precedents :: pyval
  sr_metadata :: pyval

text \<open>One attempt at PAIR: its time, whether Redis answers, and the decoded reply or the exception.\<close>

record pair_attempt =
  pa_now :: rat
  pa_redis :: bool
  pa_reply :: "exn + pydict"

record search_env =
  se_api_key :: bool
  se_read_up :: bool
  se_check :: "bool \<times> rat"
  se_attempt :: "nat \<Rightarrow> pair_attempt"
  se_record :: "bool \<times> rat"
  se_vector :: "exn + pydict list"
  se_write_up :: bool

definition redis_error :: exn where
  "redis_error = Exn [''ConnectionError'', ''RedisError'', ''Exception'']"

definition attribute_error :: exn where
  "attribute_error = Exn [''AttributeError'', ''Exception'']"

definition type_error :: exn where
  "type_error = Exn [''TypeError'', ''Exception'']"

section \<open>Operations\<close>

text \<open>The JSON of the key data has its keys sorted; \<open>digest\<close> is the hash of that text.\<close>

definition cache_key :: "(pydict \<Rightarrow> string) \<Rightarrow> string \<Rightarrow> string \<Rightarrow> string option \<Rightarrow> nat \<Rightarrow> string" where
  "cache_key digest query domain vs_id max_results =
     ''vc:precedents:'' @ digest
       [(''domain'', PStr domain), (''max_results'', PInt (int max_results)), (''query'', PStr query),
        (''vector_store_id'', case vs_id of None \<Rightarrow> PNone | Some v \<Rightarrow> PStr v)]"

text \<open>\<open>INCR\<close> on the limit key, its one-second life when it is new, and the seconds slept.\<close>

definition rate_limit :: "rat \<Rightarrow> (int \<times> rat option) option \<Rightarrow> rat \<times> (int \<times> rat option) option" where
  "rate_limit now key =
     (let (n, ex) = (case key of
            None \<Rightarrow> (1, None)
          | Some (c, Some t) \<Rightarrow> if t \<le> now then (1, None) else (c + 1, Some t)
          | Some (c, None) \<Rightarrow> (c + 1, None));
          ex' = (if n = 1 then Some (now + 1) else ex)
      in (if n > 2 then 1 else 0, Some (n, ex')))"

definition pair_item :: "pyval \<Rightarrow> exn + pydict" where
  "pair_item v =
     (case v of
        PDict item \<Rightarrow>
          (case pget_def item ''matchScore'' (PDict []) of
             PDict ms \<Rightarrow>
               Inr [(''citation'', pget_def item ''citationNum'' (PStr [])),
                    (''court'', pget_def item ''court'' (PStr [])), (''outcome'', PStr []),
                    (''reasoning_summary'', pget_def item ''snippet'' (PStr [])),
                    (''similarity_score'', pget_def ms ''score'' (PInt 0)),
                    (''url'', pget_def item ''url'' (PStr [])), (''source'', PStr ''live_search'')]
           | _ \<Rightarrow> Inl attribute_error)
      | _ \<Rightarrow> Inl attribute_error)"

fun pair_items :: "pyval list \<Rightarrow> exn + pydict list" where
  "pair_items [] = Inr []"
| "pair_items (v # vs) =
     (case pair_item v of Inl e \<Rightarrow> Inl e
      | Inr d \<Rightarrow> (case pair_items vs of Inl e \<Rightarrow> Inl e | Inr ds \<Rightarrow> Inr (d # ds)))"

text \<open>One attempt; the state counts the attempts and holds the limit key.\<close>

definition call_pair_once ::
  "search_env \<Rightarrow> nat \<Rightarrow> nat \<times> (int \<times> rat option) option
   \<Rightarrow> (exn + pydict list) \<times> nat \<times> (int \<times> rat option) option" where
  "call_pair_once env max_results st =
     (let (i, key) = st; a = se_attempt env i
      in if \<not> pa_redis a then (Inl redis_error, Suc i, key)
         else let (_, key') = rate_limit (pa_now a) key
              in (case pa_reply a of
                    Inl e \<Rightarrow> (Inl e, Suc i, key')
                  | Inr data \<Rightarrow>
                      (case pget_def data ''searchResults'' (PList []) of
                         PList vs \<Rightarrow> (pair_items (take max_results vs), Suc i, key')
                       | _ \<Rightarrow> (Inl type_error, Suc i, key'))))"

definition call_pair_api ::
  "search_env \<Rightarrow> nat \<Rightarrow> (int \<times> rat option) option \<Rightarrow> (exn + pydict list) \<times> (int \<times> rat option) option" where
  "call_pair_api env max_results key =
     (let (r, _, _, key') = retry_with_backoff pair_retries (call_pair_once env max_results) (0, key)
      in (r, key'))"

definition initial_search_metadata :: pydict where
  "initial_search_metadata =
     [(''source_failed'', PBool False), (''fallback_used'', PBool False), (''pair_status'', PStr ''ok'')]"

text \<open>
  The cached value, if there is a text and it can be used: a dictionary with the precedents, or the
  older plain value. A read that fails, or a text that is not JSON, goes on with the search.
\<close>

definition cached_result :: "cached_text option \<Rightarrow> search_result option" where
  "cached_result entry =
     (case entry of
        Some (Json v) \<Rightarrow>
          (case v of
             PDict d \<Rightarrow>
               if dict_has ''precedents'' d
               then Some \<lparr>sr_precedents = pget d ''precedents'',
                          sr_metadata = pget_def d ''metadata'' (PDict initial_search_metadata)\<rparr>
               else Some \<lparr>sr_precedents = v, sr_metadata = PDict initial_search_metadata\<rparr>
           | _ \<Rightarrow> Some \<lparr>sr_precedents = v, sr_metadata = PDict initial_search_metadata\<rparr>)
      | _ \<Rightarrow> None)"

text \<open>The vector store: its own error marks the sources as failed, any other is raised.\<close>

definition vector_fallback :: "search_env \<Rightarrow> pydict \<Rightarrow> exn + pydict list \<times> pydict" where
  "vector_fallback env md =
     (case se_vector env of
        Inr rs \<Rightarrow> Inr (rs, md)
      | Inl e \<Rightarrow>
          if instance_of [''VectorStoreError''] e
          then Inr ([], dict_set ''source_failed'' (PBool True) md) else Inl e)"

definition similarity_of :: "pydict \<Rightarrow> pyval" where
  "similarity_of d = pget_def d ''similarity_score'' (PInt 0)"

text \<open>The stable sort by falling score; scores that are not numbers do not compare.\<close>

definition sort_by_similarity :: "pydict list \<Rightarrow> exn + pydict list" where
  "sort_by_similarity rs =
     (if list_all (\<lambda>d. num_of (similarity_of d) \<noteq> None) rs
      then Inr (sort_key (\<lambda>d. - the (num_of (similarity_of d))) rs)
      else if length rs \<le> 1 then Inr rs else Inl type_error)"

definition cache_entry :: "pydict list \<Rightarrow> pydict \<Rightarrow> cached_text" where
  "cache_entry rs md = Json (PDict [(''precedents'', PList (map PDict rs)), (''metadata'', PDict md)])"

definition search_result_of :: "pydict list \<Rightarrow> pydict \<Rightarrow> search_result" where
  "search_result_of rs md = \<lparr>sr_precedents = PList (map PDict rs), sr_metadata = PDict md\<rparr>"

text \<open>Without a PAIR key the vector store answers; what it finds is cached.\<close>

definition search_without_key ::
  "search_env \<Rightarrow> string \<Rightarrow> search_store \<Rightarrow> (exn + search_result) \<times> search_store" where
  "search_without_key env key st =
     (let md = dict_set ''fallback_used'' (PBool True)
                 (dict_set ''pair_status'' (PStr ''disabled'') initial_search_metadata)
      in (case vector_fallback env md of
            Inl e \<Rightarrow> (Inl e, st)
          | Inr (rs, md') \<Rightarrow>
              (Inr (search_result_of rs md'),
               if rs \<noteq> [] \<and> se_write_up env
               then st\<lparr>ss_cache := (ss_cache st)(key \<mapsto> cache_entry rs md')\<rparr> else st)))"

text \<open>The results, the metadata and whether the fallback was used, with the breaker's new keys.\<close>

definition query_sources ::
  "breaker_config \<Rightarrow> search_env \<Rightarrow> nat \<Rightarrow> search_store
   \<Rightarrow> (exn + pydict list \<times> pydict \<times> bool) \<times> search_store" where
  "query_sources cfg env max_results st =
     (let (up, now) = se_check env;
          (state, keys) = check_recovery cfg up now (ss_breaker st);
          st1 = st\<lparr>ss_breaker := keys\<rparr>;
          md = initial_search_metadata
      in if state = Circuit_open
         then (case vector_fallback env (dict_set ''pair_status'' (PStr ''circuit_open'') md) of
                 Inl e \<Rightarrow> (Inl e, st1)
               | Inr (rs, md') \<Rightarrow>
                   (Inr (rs, if rs = [] then dict_set ''source_failed'' (PBool True) md' else md', True), st1))
         else let (reply, key) = call_pair_api env max_results (ss_limit st1);
                  st2 = st1\<lparr>ss_limit := key\<rparr>;
                  (up', now') = se_record env
              in (case reply of
                    Inr rs \<Rightarrow>
                      (Inr (rs, md, False), st2\<lparr>ss_breaker := record_success up' (ss_breaker st2)\<rparr>)
                  | Inl e \<Rightarrow>
                      if instance_of [''HTTPError'', ''TimeoutException''] e
                      then (let (new, keys') = record_failure cfg up' now' (ss_breaker st2);
                                st3 = st2\<lparr>ss_breaker := keys'\<rparr>;
                                md' = dict_set ''pair_status'' (PStr (''failed ('' @ circuit_value new @ '')'')) md
                            in (case vector_fallback env md' of
                                  Inl e' \<Rightarrow> (Inl e', st3)
                                | Inr (rs, md'') \<Rightarrow> (Inr (rs, md'', True), st3)))
                      else (Inl e, st2)))"

definition search_precedents_impl ::
  "breaker_config \<Rightarrow> search_env \<Rightarrow> string \<Rightarrow> nat \<Rightarrow> search_store \<Rightarrow> (exn + search_result) \<times> search_store" where
  "search_precedents_impl cfg env key max_results st =
     (case (if se_read_up env then cached_result (ss_cache st key) else None) of
        Some found \<Rightarrow> (Inr found, st)
      | None \<Rightarrow>
          if \<not> se_api_key env then search_without_key env key st
          else (case query_sources cfg env max_results st of
                  (Inl e, st1) \<Rightarrow> (Inl e, st1)
                | (Inr (rs, md, used), st1) \<Rightarrow>
                    let md1 = dict_set ''fallback_used'' (PBool used) md;
                        rs1 = (if used then map (dict_set ''fallback_used'' (PBool True)) rs else rs)
                    in (case sort_by_similarity rs1 of
                          Inl e \<Rightarrow> (Inl e, st1)
                        | Inr rs2 \<Rightarrow>
                            (Inr (search_result_of rs2 md1),
                             if \<not> truthy (pget md1 ''source_failed'') \<and> se_write_up env
                             then st1\<lparr>ss_cache := (ss_cache st1)(key \<mapsto> cache_entry rs2 md1)\<rparr>
                             else st1))))"

definition search_precedents ::
  "breaker_config \<Rightarrow> search_env \<Rightarrow> string \<Rightarrow> nat \<Rightarrow> search_store \<Rightarrow> (exn + pyval) \<times> search_store" where
  "search_precedents cfg env key max_results st =
     (case search_precedents_impl cfg env key max_results st of
        (Inl e, st') \<Rightarrow> (Inl e, st')
      | (Inr r, st') \<Rightarrow> (Inr (sr_precedents r), st'))"

section \<open>Outages\<close>

text \<open>A search that reaches PAIR: nothing usable in the cache, a key, and a circuit that lets it pass.\<close>

definition asks_pair :: "breaker_config \<Rightarrow> search_env \<Rightarrow> string \<Rightarrow> search_store \<Rightarrow> bool" where
  "asks_pair cfg env key st \<longleftrightarrow>
     (if se_read_up env then cached_result (ss_cache st key) else None) = None \<and> se_api_key env
     \<and> fst (check_recovery cfg (fst (se_check env)) (snd (se_check env)) (ss_breaker st)) \<noteq> Circuit_open"

text \<open>PAIR cannot be reached: each of the three attempts ends in a transport error or a time-out.\<close>

definition pair_unreachable :: "search_env \<Rightarrow> bool" where
  "pair_unreachable env \<longleftrightarrow>
     list_all (\<lambda>i. pa_redis (se_attempt env i)
                 \<and> (case pa_reply (se_attempt env i) of
                      Inl e \<Rightarrow> instance_of [''TransportError'', ''TimeoutException''] e
                    | Inr _ \<Rightarrow> False)) [0, 1, 2]"

lemma unreachable_call:
  assumes "pair_unreachable env"
  shows "fst (call_pair_api env n key) = Inl max_retries_error"
proof -
  have once: "\<exists>e k'. call_pair_once env n (i, k) = (Inl e, Suc i, k')
      \<and> instance_of [''TransportError'', ''TimeoutException''] e" if "i \<in> {0, 1, 2}" for i k
    using assms that
    by (auto simp: pair_unreachable_def call_pair_once_def split: sum.splits prod.splits)
  obtain e0 k0 where a0: "call_pair_once env n (0, key) = (Inl e0, 1, k0)"
      "instance_of [''TransportError'', ''TimeoutException''] e0" using once [of 0 key] by auto
  obtain e1 k1 where a1: "call_pair_once env n (1, k0) = (Inl e1, 2, k1)"
      "instance_of [''TransportError'', ''TimeoutException''] e1" using once [of 1 k0] by auto
  obtain e2 k2 where a2: "call_pair_once env n (2, k1) = (Inl e2, 3, k2)"
      "instance_of [''TransportError'', ''TimeoutException''] e2" using once [of 2 k1] by auto
  show ?thesis
    using a0 a1 a2
    by (simp add: call_pair_api_def retry_with_backoff_def retry_from.simps [of pair_retries]
        pair_retries_def retry_from.simps)
qed

lemma max_retries_is_not_caught: "\<not> instance_of [''HTTPError'', ''TimeoutException''] max_retries_error"
  by (simp add: max_retries_error_def)

lemma unreachable_search:
  assumes "asks_pair cfg env key st" "pair_unreachable env"
  shows "fst (search_precedents_impl cfg env key n st) = Inl max_retries_error"
    and "ss_breaker (snd (search_precedents_impl cfg env key n st))
         = snd (check_recovery cfg (fst (se_check env)) (snd (se_check env)) (ss_breaker st))"
    and "ss_cache (snd (search_precedents_impl cfg env key n st)) = ss_cache st"
proof -
  obtain up now where c: "se_check env = (up, now)" by fastforce
  obtain state keys where d: "check_recovery cfg up now (ss_breaker st) = (state, keys)" by fastforce
  obtain k' where e: "call_pair_api env n (ss_limit st) = (Inl max_retries_error, k')"
    using unreachable_call [OF assms(2), of n "ss_limit st"] by (metis prod.collapse)
  have q: "query_sources cfg env n st
      = (Inl max_retries_error, st\<lparr>ss_breaker := keys, ss_limit := k'\<rparr>)"
    using assms(1) by (simp add: query_sources_def asks_pair_def c d e max_retries_is_not_caught split: prod.splits)
  then have "search_precedents_impl cfg env key n st
      = (Inl max_retries_error, st\<lparr>ss_breaker := keys, ss_limit := k'\<rparr>)"
    using assms(1) by (simp add: search_precedents_impl_def asks_pair_def)
  then show "fst (search_precedents_impl cfg env key n st) = Inl max_retries_error"
    and "ss_breaker (snd (search_precedents_impl cfg env key n st))
         = snd (check_recovery cfg (fst (se_check env)) (snd (se_check env)) (ss_breaker st))"
    and "ss_cache (snd (search_precedents_impl cfg env key n st)) = ss_cache st"
    by (simp_all add: c d)
qed

text \<open>Searches one after the other, each with its own environment.\<close>

fun searches ::
  "breaker_config \<Rightarrow> string \<Rightarrow> nat \<Rightarrow> search_env list \<Rightarrow> search_store
   \<Rightarrow> (exn + search_result) list \<times> search_store" where
  "searches cfg key n [] st = ([], st)"
| "searches cfg key n (env # envs) st =
     (let (r, st') = search_precedents_impl cfg env key n st; (rs, st'') = searches cfg key n envs st'
      in (r # rs, st''))"

lemma closed_check: "bk_state k \<in> {None, Some ''closed''} \<Longrightarrow> check_recovery cfg up now k = (Circuit_closed, k)"
  by (auto simp: check_recovery_def)

text \<open>While PAIR cannot be reached, no number of searches opens a closed circuit: the retries
  turn the transport error into \<open>MaxRetriesError\<close>, which the search neither counts as a failure
  nor answers from the vector store, so every one of the searches is raised to its caller and the
  breaker's keys stay as they were.\<close>

lemma outage_never_opens_the_breaker:
  assumes "bk_state (ss_breaker st) \<in> {None, Some ''closed''}" "ss_cache st key = None"
    and "list_all (\<lambda>env. se_api_key env \<and> pair_unreachable env) envs"
  shows "fst (searches cfg key n envs st) = replicate (length envs) (Inl max_retries_error)
         \<and> ss_breaker (snd (searches cfg key n envs st)) = ss_breaker st"
  using assms
proof (induction envs arbitrary: st)
  case (Cons env envs)
  have asks: "asks_pair cfg env key st"
    using Cons.prems by (simp add: asks_pair_def cached_result_def closed_check)
  obtain r st' where run: "search_precedents_impl cfg env key n st = (r, st')" by fastforce
  have "r = Inl max_retries_error" "ss_breaker st' = ss_breaker st" "ss_cache st' = ss_cache st"
    using unreachable_search [OF asks, where n = n] Cons.prems run by (simp_all add: closed_check)
  then show ?case using Cons.IH [of st'] Cons.prems by (simp add: run case_prod_unfold)
qed simp

definition unreachable_env :: search_env where
  "unreachable_env =
     \<lparr>se_api_key = True, se_read_up = True, se_check = (True, 0),
      se_attempt = (\<lambda>_. \<lparr>pa_now = 0, pa_redis = True, pa_reply = Inl (Exn [''ConnectError'', ''TransportError'', ''HTTPError''])\<rparr>),
      se_record = (True, 0), se_vector = Inr [[(''similarity_score'', PInt 1)]], se_write_up = True\<rparr>"

definition fresh_store :: search_store where
  "fresh_store = \<lparr>ss_cache = (\<lambda>_. None), ss_breaker = no_keys, ss_limit = None\<rparr>"

lemma outage_never_opens_the_breaker_witness:
  "fst (searches \<lparr>bc_threshold = 3, bc_timeout = 60\<rparr> ''k'' 5 (replicate 4 unreachable_env) fresh_store)
     = replicate 4 (Inl max_retries_error)
   \<and> ss_breaker (snd (searches \<lparr>bc_threshold = 3, bc_timeout = 60\<rparr> ''k'' 5 (replicate 4 unreachable_env) fresh_store))
     = no_keys"
proof -
  have "list_all (\<lambda>env. se_api_key env \<and> pair_unreachable env) (replicate 4 unreachable_env)"
    by (simp add: list_all_iff pair_unreachable_def unreachable_env_def)
  from outage_never_opens_the_breaker [OF _ _ this, where st = fresh_store]
  show ?thesis by (simp add: fresh_store_def no_keys_def)
qed

text \<open>Redis is needed for the limit: a search goes on after a failed read only to fail there.\<close>

lemma redis_outage_fails_the_search:
  assumes "se_api_key env" "\<not> se_read_up env" "\<not> pa_redis (se_attempt env 0)"
    and "bk_state (ss_breaker st) \<in> {None, Some ''closed''}"
  shows "fst (search_precedents_impl cfg env key n st) = Inl redis_error"
  using assms
  by (simp add: search_precedents_impl_def query_sources_def closed_check call_pair_api_def
      retry_with_backoff_def retry_from.simps call_pair_once_def pair_retries_def redis_error_def
      split: prod.splits)

section \<open>What a search reports\<close>

definition by_similarity :: "pydict list \<Rightarrow> bool" where
  "by_similarity rs \<longleftrightarrow>
     length rs \<le> 1
     \<or> sorted_wrt (\<lambda>a b. the (num_of (similarity_of a)) \<ge> the (num_of (similarity_of b))) rs"

lemma sort_by_similarity_Inr:
  assumes "sort_by_similarity rs = Inr ts"
  shows "mset ts = mset rs \<and> by_similarity ts"
proof (cases "list_all (\<lambda>d. num_of (similarity_of d) \<noteq> None) rs")
  case True
  have "sorted (map (\<lambda>d. - the (num_of (similarity_of d)))
      (sort_key (\<lambda>d. - the (num_of (similarity_of d))) rs))" by simp
  then show ?thesis using assms True
    by (auto simp: sort_by_similarity_def by_similarity_def sorted_map)
next
  case False
  then show ?thesis using assms by (simp add: sort_by_similarity_def by_similarity_def split: if_splits)
qed

definition tag_fallback :: "pydict list \<Rightarrow> pydict list" where
  "tag_fallback = map (dict_set ''fallback_used'' (PBool True))"

text \<open>What the vector store contributes: its results, or none when it failed with its own error.\<close>

definition vector_results :: "search_env \<Rightarrow> pydict list" where
  "vector_results env = (case se_vector env of Inr rs \<Rightarrow> rs | Inl _ \<Rightarrow> [])"

lemma vector_fallback_Inr:
  "vector_fallback env md = Inr (rs, md') \<Longrightarrow>
   rs = vector_results env \<and> pget md' ''fallback_used'' = pget md ''fallback_used''"
  by (auto simp: vector_fallback_def vector_results_def pget_def split: sum.splits if_splits)

lemma query_sources_Inr:
  assumes "query_sources cfg env n st = (Inr (rs, md, used), st')"
  shows "(used \<longrightarrow> rs = vector_results env)
         \<and> (\<not> used \<longrightarrow> fst (call_pair_api env n (ss_limit st)) = Inr rs \<and> md = initial_search_metadata)
         \<and> ss_cache st' = ss_cache st"
  using assms
  by (auto simp: query_sources_def Let_def dest: vector_fallback_Inr split: prod.splits sum.splits if_splits)

lemma pget_dict_set [simp]: "pget (dict_set k v d) k' = (if k' = k then v else pget d k')"
  by (simp add: pget_def)

text \<open>A search that finds nothing usable in the cache and returns says where its results come
  from: with \<open>fallback_used\<close> they are the tagged results of the vector store, without it the
  results of PAIR, in both cases by falling similarity; only a result whose sources did not fail is
  put into the cache.\<close>

lemma search_reports_its_source:
  assumes "(if se_read_up env then cached_result (ss_cache st key) else None) = None" "se_api_key env"
    and "search_precedents_impl cfg env key n st = (Inr r, st')"
  shows "\<exists>rs md used. r = search_result_of rs md \<and> pget md ''fallback_used'' = PBool used
         \<and> by_similarity rs
         \<and> (if used then mset rs = mset (tag_fallback (vector_results env))
            else \<exists>found. fst (call_pair_api env n (ss_limit st)) = Inr found \<and> mset rs = mset found
                   \<and> pget md ''source_failed'' = PBool False)
         \<and> (ss_cache st' = ss_cache st
            \<or> \<not> truthy (pget md ''source_failed'') \<and> ss_cache st' = (ss_cache st)(key \<mapsto> cache_entry rs md))"
proof -
  obtain rs md used st1 where q: "query_sources cfg env n st = (Inr (rs, md, used), st1)"
    using assms by (auto simp: search_precedents_impl_def split: prod.splits sum.splits)
  let ?rs = "if used then tag_fallback rs else rs"
  let ?md = "dict_set ''fallback_used'' (PBool used) md"
  obtain ts where ts: "sort_by_similarity ?rs = Inr ts"
    using assms unfolding search_precedents_impl_def q Let_def tag_fallback_def [symmetric]
    by (cases "sort_by_similarity ?rs") simp_all
  have r: "r = search_result_of ts ?md"
    and cache: "ss_cache st' = ss_cache st1
       \<or> \<not> truthy (pget ?md ''source_failed'') \<and> ss_cache st' = (ss_cache st1)(key \<mapsto> cache_entry ts ?md)"
    using assms ts by (auto simp: search_precedents_impl_def q tag_fallback_def Let_def split: if_splits)
  have "pget initial_search_metadata ''source_failed'' = PBool False"
    by (simp add: initial_search_metadata_def pget_def)
  then show ?thesis
    using r cache sort_by_similarity_Inr [OF ts] query_sources_Inr [OF q]
    by (intro exI [of _ ts] exI [of _ ?md] exI [of _ used]) (auto split: if_splits)
qed

definition fallback_env :: search_env where
  "fallback_env = unreachable_env
     \<lparr>se_attempt := (\<lambda>_. \<lparr>pa_now = 0, pa_redis = True, pa_reply = Inl (Exn [''HTTPStatusError'', ''HTTPError''])\<rparr>),
      se_vector := Inr [[(''similarity_score'', PInt 1)], [(''similarity_score'', PInt 2)]]\<rparr>"

definition fallback_search :: "(exn + search_result) \<times> search_store" where
  "fallback_search =
     search_precedents_impl \<lparr>bc_threshold = 3, bc_timeout = 60\<rparr> fallback_env ''k'' 5 fresh_store"

lemma fallback_search_run:
  "fst fallback_search = Inr (search_result_of
     [[(''similarity_score'', PInt 2), (''fallback_used'', PBool True)],
      [(''similarity_score'', PInt 1), (''fallback_used'', PBool True)]]
     [(''source_failed'', PBool False), (''fallback_used'', PBool True),
      (''pair_status'', PStr ''failed (closed)'')])"
  by code_simp

lemma search_reports_its_source_witness:
  "\<exists>rs md. fst fallback_search = Inr (search_result_of rs md) \<and> by_similarity rs
     \<and> pget md ''fallback_used'' = PBool True"
proof -
  obtain r st' where run: "search_precedents_impl \<lparr>bc_threshold = 3, bc_timeout = 60\<rparr> fallback_env ''k'' 5 fresh_store
      = (Inr r, st')" and r: "fst fallback_search = Inr r"
    using fallback_search_run unfolding fallback_search_def by (metis prod.collapse)
  have "(if se_read_up fallback_env then cached_result (ss_cache fresh_store ''k'') else None) = None"
      "se_api_key fallback_env"
    by (simp_all add: fresh_store_def cached_result_def fallback_env_def unreachable_env_def)
  from search_reports_its_source [OF this run] obtain rs md used where
    s: "r = search_result_of rs md" "pget md ''fallback_used'' = PBool used" "by_similarity rs"
    by blast
  have "PDict md = PDict [(''source_failed'', PBool False), (''fallback_used'', PBool True),
      (''pair_status'', PStr ''failed (closed)'')]"
    using r fallback_search_run s(1) by (simp add: search_result_of_def)
  then have "pget md ''fallback_used'' = PBool True" by (simp add: pget_def)
  then show ?thesis using r s by blast
qed

section \<open>The rate limit\<close>

text \<open>The seconds slept by calls that arrive at the same time.\<close>

fun limit_delays :: "nat \<Rightarrow> rat \<Rightarrow> (int \<times> rat option) option \<Rightarrow> rat list" where
  "limit_delays 0 now key = []"
| "limit_delays (Suc n) now key =
     (let (d, key') = rate_limit now key in d # limit_delays n now key')"

lemma limit_delays_from:
  "2 \<le> c \<Longrightarrow> now < t \<Longrightarrow> limit_delays n now (Some (c, Some t)) = replicate n 1"
  by (induction n arbitrary: c) (simp_all add: rate_limit_def)

text \<open>
  All calls beyond the second sleep the same second and then go out together: the limit delays a
  burst, it does not spread it.
\<close>

lemma burst_goes_out_together: "limit_delays (n + 2) now None = [0, 0] @ replicate n 1"
  by (cases n) (simp_all add: eval_nat_numeral rate_limit_def limit_delays_from)

end
