(* ===== verification/Tools.thy ===== *)
theory Tools
  imports Precedent_Search
begin

text \<open>
  The other tools an agent can call (\<open>tools/\<close>) and the wrappers that give them to it
  (\<open>pipeline/graph/tools.py\<close>): the confidence score, the timeline, the comparison of documents,
  the questions, the two vector-store searches and the health probe, the projection of search
  results to documents with a source id, and the worst-of merge of the search metadata. Replies of
  the OpenAI client, date parsing and the rounding of binary floating point are arguments.
\<close>

section \<open>The confidence score\<close>

text \<open>
  A float operation rounds its exact result with \<open>fl_round\<close>; \<open>fl_sum\<close> is \<open>sum\<close> on floats and
  \<open>fl_decimal\<close> is \<open>round(x, 1)\<close>.
\<close>

record float_lib =
  fl_round :: "rat \<Rightarrow> rat"
  fl_sum :: "rat list \<Rightarrow> rat"
  fl_decimal :: "rat \<Rightarrow> rat"

definition default_weights :: "float_lib \<Rightarrow> rat dict" where
  "default_weights fl =
     [(''evidence'', fl_round fl (30 / 100)), (''facts'', fl_round fl (25 / 100)),
      (''witnesses'', fl_round fl (20 / 100)), (''precedents'', fl_round fl (25 / 100))]"

definition evidence_strength_map :: "rat dict" where
  "evidence_strength_map = [(''strong'', 90), (''moderate'', 65), (''weak'', 35), (''insufficient'', 10)]"

definition fact_status_map :: "rat dict" where
  "fact_status_map =
     [(''verified'', 95), (''corroborated'', 85), (''disputed'', 40), (''unverified'', 20),
      (''contradicted'', 5)]"

definition label_to_score :: "rat dict \<Rightarrow> string \<Rightarrow> rat option" where
  "label_to_score mapping label = map_of mapping (py_strip (py_lower label))"

definition safe_average :: "float_lib \<Rightarrow> rat list \<Rightarrow> rat" where
  "safe_average fl scores =
     (let valid = filter (\<lambda>s. 0 \<le> s \<and> s \<le> 100) scores
      in if valid = [] then 0 else fl_round fl (fl_sum fl valid / of_nat (length valid)))"

definition precedent_scores :: "float_lib \<Rightarrow> rat list \<Rightarrow> rat list" where
  "precedent_scores fl sims =
     concat (map (\<lambda>v. if 0 \<le> v \<and> v \<le> 1 then [fl_round fl (v * 100)]
                       else if 0 \<le> v \<and> v \<le> 100 then [v] else []) sims)"

text \<open>\<open>round\<close> to an integer: halves go to the even neighbour.\<close>

definition py_round :: "rat \<Rightarrow> int" where
  "py_round r =
     (let f = \<lfloor>r\<rfloor>; d = r - of_int f
      in if d < 1 / 2 then f else if d > 1 / 2 then f + 1 else if even f then f else f + 1)"

definition weighted_sum :: "float_lib \<Rightarrow> rat \<Rightarrow> rat \<Rightarrow> rat \<Rightarrow> rat \<Rightarrow> rat" where
  "weighted_sum fl e f w p =
     (let rnd = fl_round fl; wt = (\<lambda>k. the (map_of (default_weights fl) k))
      in rnd (rnd (rnd (rnd (e * wt ''evidence'') + rnd (f * wt ''facts'')) + rnd (w * wt ''witnesses''))
              + rnd (p * wt ''precedents'')))"

record confidence_result =
  cr_score :: int
  cr_breakdown :: "rat dict"
  cr_classification :: string

definition classify_score :: "int \<Rightarrow> string" where
  "classify_score s = (if s \<ge> 80 then ''High'' else if s \<ge> 60 then ''Medium'' else ''Low'')"

definition confidence_calc ::
  "float_lib \<Rightarrow> string list \<Rightarrow> string list \<Rightarrow> rat list \<Rightarrow> rat list \<Rightarrow> confidence_result" where
  "confidence_calc fl evidence_strengths fact_statuses witness_scores precedent_similarities =
     (let evidence_avg = safe_average fl (List.map_filter (label_to_score evidence_strength_map) evidence_strengths);
          facts_avg = safe_average fl (List.map_filter (label_to_score fact_status_map) fact_statuses);
          witnesses_avg = safe_average fl witness_scores;
          precedents_avg = safe_average fl (precedent_scores fl precedent_similarities);
          raw = weighted_sum fl evidence_avg facts_avg witnesses_avg precedents_avg;
          score = max 0 (min 100 (py_round raw))
      in \<lparr>cr_score = score,
          cr_breakdown = [(''evidence'', fl_decimal fl evidence_avg), (''facts'', fl_decimal fl facts_avg),
            (''witnesses'', fl_decimal fl witnesses_avg), (''precedents'', fl_decimal fl precedents_avg)],
          cr_classification = classify_score score\<rparr>)"

text \<open>Documented behaviour of floating point: rounding keeps the order and the sign.\<close>

definition float_laws :: "float_lib \<Rightarrow> bool" where
  "float_laws fl \<longleftrightarrow>
     (\<forall>x y. x \<le> y \<longrightarrow> fl_round fl x \<le> fl_round fl y) \<and> fl_round fl 0 = 0
     \<and> (\<forall>xs ys. list_all2 (\<le>) xs ys \<longrightarrow> fl_sum fl xs \<le> fl_sum fl ys)"

lemma py_round_mono: "x \<le> y \<Longrightarrow> py_round x \<le> py_round y"
proof -
  assume le: "x \<le> y"
  have fx: "\<lfloor>x\<rfloor> \<le> \<lfloor>y\<rfloor>" using le by (rule floor_mono)
  have bx: "\<lfloor>x\<rfloor> \<le> py_round x \<and> py_round x \<le> \<lfloor>x\<rfloor> + 1" and bz: "\<lfloor>y\<rfloor> \<le> py_round y"
    by (simp_all add: py_round_def Let_def)
  show ?thesis
  proof (cases "\<lfloor>x\<rfloor> = \<lfloor>y\<rfloor>")
    case True
    then show ?thesis using le by (auto simp: py_round_def Let_def)
  next
    case False
    then show ?thesis using fx bx bz by linarith
  qed
qed

lemma safe_average_mono:
  assumes "float_laws fl" "list_all2 (\<le>) xs ys" "\<forall>v \<in> set xs \<union> set ys. 0 \<le> v \<and> v \<le> 100"
  shows "safe_average fl xs \<le> safe_average fl ys"
proof -
  have len: "length xs = length ys" using assms(2) by (rule list_all2_lengthD)
  have valid: "filter (\<lambda>s. 0 \<le> s \<and> s \<le> 100) xs = xs" "filter (\<lambda>s. 0 \<le> s \<and> s \<le> 100) ys = ys"
    using assms(3) by (auto intro!: filter_True)
  have "fl_sum fl xs / of_nat (length xs) \<le> fl_sum fl ys / of_nat (length xs)"
    using assms(1,2) by (auto simp: float_laws_def intro!: divide_right_mono)
  then show ?thesis
    using assms(1) len by (auto simp: safe_average_def valid float_laws_def)
qed

lemma label_scores_mono:
  assumes "list_all2 (\<lambda>a b. \<exists>s t. label_to_score m a = Some s \<and> label_to_score m b = Some t \<and> s \<le> t) xs ys"
  shows "list_all2 (\<le>) (List.map_filter (label_to_score m) xs) (List.map_filter (label_to_score m) ys)"
  using assms by (induction rule: list_all2_induct) (auto simp: List.map_filter_simps)

lemma evidence_scores_valid:
  "\<forall>v \<in> set (List.map_filter (label_to_score evidence_strength_map) xs). 0 \<le> v \<and> v \<le> 100"
  by (auto simp: List.map_filter_def label_to_score_def evidence_strength_map_def split: if_splits)

lemma weighted_sum_mono:
  assumes "float_laws fl" "e \<le> e'"
  shows "weighted_sum fl e f w p \<le> weighted_sum fl e' f w p"
proof -
  have mono: "x \<le> y \<Longrightarrow> fl_round fl x \<le> fl_round fl y" for x y
    using assms(1) by (simp add: float_laws_def)
  have "0 \<le> fl_round fl (30 / 100)" using mono [of 0 "30 / 100"] assms(1) by (simp add: float_laws_def)
  then have "e * fl_round fl (30 / 100) \<le> e' * fl_round fl (30 / 100)"
    using assms(2) by (rule mult_right_mono [rotated])
  then show ?thesis
    by (simp add: weighted_sum_def default_weights_def Let_def) (intro mono add_right_mono, simp)
qed

text \<open>Stronger evidence never lowers the confidence: when every evidence label is replaced by one
  of at least its strength, the score and its classification do not fall, for any rounding that keeps
  the order; the score is between 0 and 100 and the classification is that of the score.\<close>

lemma confidence_rises_with_the_evidence:
  assumes "float_laws fl"
    and "list_all2 (\<lambda>a b. \<exists>s t. label_to_score evidence_strength_map a = Some s
           \<and> label_to_score evidence_strength_map b = Some t \<and> s \<le> t) es es'"
  shows "cr_score (confidence_calc fl es fs ws ps) \<le> cr_score (confidence_calc fl es' fs ws ps)
         \<and> 0 \<le> cr_score (confidence_calc fl es fs ws ps) \<and> cr_score (confidence_calc fl es fs ws ps) \<le> 100
         \<and> cr_classification (confidence_calc fl es fs ws ps)
             = classify_score (cr_score (confidence_calc fl es fs ws ps))"
proof -
  let ?avg = "\<lambda>es. safe_average fl (List.map_filter (label_to_score evidence_strength_map) es)"
  have "?avg es \<le> ?avg es'"
    by (rule safe_average_mono [OF assms(1) label_scores_mono [OF assms(2)]])
      (use evidence_scores_valid in blast)
  then have "py_round (weighted_sum fl (?avg es) f w p) \<le> py_round (weighted_sum fl (?avg es') f w p)" for f w p
    by (intro py_round_mono weighted_sum_mono [OF assms(1)])
  then have "max 0 (min 100 (py_round (weighted_sum fl (?avg es) f w p)))
      \<le> max 0 (min 100 (py_round (weighted_sum fl (?avg es') f w p)))" for f w p
    by (meson max.mono min.mono order_refl)
  then show ?thesis by (simp add: confidence_calc_def Let_def)
qed

definition exact_floats :: float_lib where
  "exact_floats = \<lparr>fl_round = (\<lambda>x. x), fl_sum = sum_list, fl_decimal = (\<lambda>x. x)\<rparr>"

lemma exact_floats_laws: "float_laws exact_floats"
proof -
  have "list_all2 (\<le>) xs ys \<Longrightarrow> sum_list xs \<le> sum_list ys" for xs ys :: "rat list"
    by (induction rule: list_all2_induct) (auto intro: add_mono)
  then show ?thesis by (simp add: float_laws_def exact_floats_def)
qed

lemma confidence_rises_with_the_evidence_witness:
  "cr_score (confidence_calc exact_floats [''weak''] [''verified''] [80] [9 / 10])
     \<le> cr_score (confidence_calc exact_floats [''Strong''] [''verified''] [80] [9 / 10])"
proof -
  have "label_to_score evidence_strength_map ''weak'' = Some 35"
       "label_to_score evidence_strength_map ''Strong'' = Some 90" by code_simp+
  then show ?thesis
    by (intro conjunct1 [OF confidence_rises_with_the_evidence [OF exact_floats_laws]]) simp
qed

text \<open>
  The schema of the tool offers the label \<open>established\<close> for facts, which the table does not have:
  established facts are left out of the average, and if there are no others they count as zero.
\<close>

lemma established_facts_count_for_nothing:
  "confidence_calc fl es (fs @ replicate n ''established'') ws ps = confidence_calc fl es fs ws ps"
proof -
  have "label_to_score fact_status_map ''established'' = None" by code_simp
  then have "List.map_filter (label_to_score fact_status_map) (fs @ replicate n ''established'')
      = List.map_filter (label_to_score fact_status_map) fs"
    by (simp add: List.map_filter_def)
  then show ?thesis by (simp add: confidence_calc_def)
qed

section \<open>The timeline\<close>

text \<open>
  A date-time without a zone, or with one; the latter compare by their instant. Comparing the two
  kinds raises a \<open>TypeError\<close>. \<open>strptime\<close> tries one format and \<open>iso_text\<close> prints.
\<close>

datatype py_datetime = Naive int | Aware int int

fun is_aware :: "py_datetime \<Rightarrow> bool" where
  "is_aware (Naive _) = False"
| "is_aware (Aware _ _) = True"

fun instant_of :: "py_datetime \<Rightarrow> int" where
  "instant_of (Naive t) = t"
| "instant_of (Aware t _) = t"

record date_lib =
  dl_strptime :: "string \<Rightarrow> string \<Rightarrow> py_datetime option"
  dl_isoformat :: "py_datetime \<Rightarrow> string"
  dl_text :: "pyval \<Rightarrow> string"

definition date_formats :: "string list" where
  "date_formats =
     [''%Y-%m-%dT%H:%M:%S'', ''%Y-%m-%dT%H:%M:%S%z'', ''%Y-%m-%d %H:%M:%S'', ''%Y-%m-%d'',
      ''%d/%m/%Y %H:%M:%S'', ''%d/%m/%Y'', ''%d-%m-%Y'', ''%d %B %Y'', ''%d %b %Y'', ''%B %d, %Y'',
      ''%b %d, %Y'']"

fun first_format :: "date_lib \<Rightarrow> string list \<Rightarrow> string \<Rightarrow> py_datetime option" where
  "first_format dl [] s = None"
| "first_format dl (fmt # fmts) s =
     (case dl_strptime dl fmt s of Some d \<Rightarrow> Some d | None \<Rightarrow> first_format dl fmts s)"

definition parse_timeline_date :: "date_lib \<Rightarrow> pyval \<Rightarrow> py_datetime option" where
  "parse_timeline_date dl v =
     (case v of PStr (c # s) \<Rightarrow> first_format dl date_formats (py_strip (c # s)) | _ \<Rightarrow> None)"

text \<open>\<open>a.get(k) or b\<close>.\<close>

definition or_else :: "pyval \<Rightarrow> pyval \<Rightarrow> pyval" where
  "or_else a b = (if truthy a then a else b)"

definition timeline_date :: "pydict \<Rightarrow> pyval" where
  "timeline_date ev = or_else (pget ev ''date'') (pget_def ev ''timestamp'' (PStr []))"

definition timeline_fields :: "string option \<Rightarrow> pydict \<Rightarrow> pydict" where
  "timeline_fields stamp ev =
     [(''timestamp'', case stamp of None \<Rightarrow> PNone | Some s \<Rightarrow> PStr s),
      (''event'', or_else (pget ev ''event'') (pget_def ev ''description'' (PStr []))),
      (''fact_id'', pget_def ev ''fact_id'' (PStr [])),
      (''source_refs'', pget_def ev ''source_refs'' (PList []))]"

definition undated_entry :: "date_lib \<Rightarrow> pydict \<Rightarrow> pydict" where
  "undated_entry dl ev =
     timeline_fields None ev @
     [(''_note'', PStr (if truthy (timeline_date ev)
        then ''Date could not be parsed from: '' @ [CHR 0x27] @ py_str (dl_text dl) (timeline_date ev)
             @ [CHR 0x27] @ ''. Placed at end of timeline.''
        else ''No date provided. Placed at end of timeline.''))]"

definition dated_entry :: "date_lib \<Rightarrow> pydict \<Rightarrow> (py_datetime \<times> pydict) option" where
  "dated_entry dl ev =
     map_option (\<lambda>d. (d, timeline_fields (Some (dl_isoformat dl d)) ev))
       (parse_timeline_date dl (timeline_date ev))"

definition mixed_zones :: "(py_datetime \<times> pydict) list \<Rightarrow> bool" where
  "mixed_zones es \<longleftrightarrow> list_ex (\<lambda>e. is_aware (fst e)) es \<and> list_ex (\<lambda>e. \<not> is_aware (fst e)) es"

definition timeline_construct :: "date_lib \<Rightarrow> pydict list \<Rightarrow> exn + pydict list" where
  "timeline_construct dl events =
     (let dated = List.map_filter (dated_entry dl) events;
          undated = map (undated_entry dl) (filter (\<lambda>f. dated_entry dl f = None) events)
      in if mixed_zones dated then Inl type_error
         else Inr (map snd (sort_key (\<lambda>e. instant_of (fst e)) dated) @ undated))"

lemma filter_split: "mset xs = mset (filter P xs) + mset (filter (\<lambda>x. \<not> P x) xs)"
  by (induction xs) auto

lemma map_filter_size: "size (mset (List.map_filter g xs)) = length (filter (\<lambda>x. g x \<noteq> None) xs)"
  by (induction xs) (auto simp: List.map_filter_simps)

text \<open>The timeline is the dated facts in chronological order, each once and those of the same
  instant in the order given, followed by the undated ones in the order given; one entry per fact.
  It fails, with the comparison error of the standard library, exactly when some dates carry a time
  zone and others do not.\<close>

lemma timeline_is_chronological:
  "(case timeline_construct dl events of
      Inl e \<Rightarrow> e = type_error \<and> mixed_zones (List.map_filter (dated_entry dl) events)
    | Inr out \<Rightarrow>
        \<exists>dated. out = map snd dated @ map (undated_entry dl) (filter (\<lambda>f. dated_entry dl f = None) events)
          \<and> mset dated = mset (List.map_filter (dated_entry dl) events)
          \<and> sorted (map (instant_of \<circ> fst) dated)
          \<and> (\<forall>t. filter (\<lambda>e. instant_of (fst e) = t) dated
               = filter (\<lambda>e. instant_of (fst e) = t) (List.map_filter (dated_entry dl) events))
          \<and> length out = length events)"
proof (cases "mixed_zones (List.map_filter (dated_entry dl) events)")
  case False
  let ?dated = "List.map_filter (dated_entry dl) events"
  let ?sorted = "sort_key (\<lambda>e. instant_of (fst e)) ?dated"
  have "length ?sorted + length (filter (\<lambda>f. dated_entry dl f = None) events) = length events"
    using sum_length_filter_compl [of "\<lambda>f. dated_entry dl f = None" events] map_filter_size [of "dated_entry dl" events]
    by simp
  moreover have "filter (\<lambda>e. instant_of (fst e) = t) ?sorted = filter (\<lambda>e. instant_of (fst e) = t) ?dated" for t
    by (rule sort_key_stable)
  moreover have "sorted (map (instant_of \<circ> fst) ?sorted)"
    using sorted_sort_key [of "\<lambda>e. instant_of (fst e)" ?dated] by (simp add: comp_def)
  ultimately show ?thesis using False
    by (simp add: timeline_construct_def) (rule exI [of _ ?sorted], simp)
qed (simp add: timeline_construct_def)

section \<open>Comparing documents and asking questions\<close>

text \<open>
  The client's reply to one call, a dictionary or an exception, depends on the prompt; both tools
  retry connection and rate-limit errors and turn a reply that is not JSON into their own error.
\<close>

definition openai_retries :: retry_config where
  "openai_retries = \<lparr>rc_max_retries = 2, rc_base_delay = 1, rc_max_delay = 30,
                     rc_retryable = [''APIConnectionError'', ''RateLimitError'']\<rparr>"

definition call_openai :: "(nat \<Rightarrow> 'prompt \<Rightarrow> exn + pydict) \<Rightarrow> 'prompt \<Rightarrow> exn + pydict" where
  "call_openai client prompt =
     fst (retry_with_backoff openai_retries (\<lambda>i. (client i prompt, Suc i)) 0)"

definition json_error_as :: "string \<Rightarrow> exn + 'a \<Rightarrow> exn + 'a" where
  "json_error_as name r =
     (case r of
        Inl e \<Rightarrow> if instance_of [''JSONDecodeError''] e then Inl (Exn [name, ''Exception'']) else Inl e
      | Inr v \<Rightarrow> Inr v)"

text \<open>\<open>s[:n]\<close> of a text field that defaults to the empty string.\<close>

definition text_slice :: "nat \<Rightarrow> pyval \<Rightarrow> exn + pyval" where
  "text_slice n v =
     (case v of PStr s \<Rightarrow> Inr (PStr (take n s)) | PList xs \<Rightarrow> Inr (PList (take n xs)) | _ \<Rightarrow> Inl type_error)"

definition doc_summary :: "pydict \<Rightarrow> exn + pydict" where
  "doc_summary seg =
     (case text_slice 8000 (pget_def seg ''text'' (PStr [])) of
        Inl e \<Rightarrow> Inl e
      | Inr t \<Rightarrow>
          Inr [(''doc_id'', or_else (pget seg ''file_id'') (pget_def seg ''doc_id'' (PStr ''unknown''))),
               (''filename'', pget_def seg ''filename'' (PStr [])), (''text'', t)])"

fun doc_summaries :: "pydict list \<Rightarrow> exn + pydict list" where
  "doc_summaries [] = Inr []"
| "doc_summaries (seg # segs) =
     (case doc_summary seg of Inl e \<Rightarrow> Inl e
      | Inr d \<Rightarrow> (case doc_summaries segs of Inl e \<Rightarrow> Inl e | Inr ds \<Rightarrow> Inr (d # ds)))"

text \<open>The prompt of the comparison is made of the documents and of the domain named in it.\<close>

definition cross_reference ::
  "(nat \<Rightarrow> pydict list \<times> string \<Rightarrow> exn + pydict) \<Rightarrow> pydict list option \<Rightarrow> string \<Rightarrow> exn + pydict" where
  "cross_reference client segments check_type =
     (case segments of
        Some (a # b # segs) \<Rightarrow>
          (case doc_summaries (a # b # segs) of
             Inl e \<Rightarrow> Inl e
           | Inr docs \<Rightarrow>
               (case json_error_as ''CrossReferenceError'' (call_openai client (docs, check_type)) of
                  Inl e \<Rightarrow> Inl e
                | Inr d \<Rightarrow>
                    Inr [(''contradictions'', pget_def d ''contradictions'' (PList [])),
                         (''corroborations'', pget_def d ''corroborations'' (PList []))]))
      | _ \<Rightarrow> Inr [(''contradictions'', PList []), (''corroborations'', PList [])])"

text \<open>
  The kind of check only fills the domain of the prompt: both lists of the reply are returned
  whatever was asked for.
\<close>

lemma check_type_does_not_select:
  assumes "doc_summaries segs = Inr docs" "2 \<le> length segs"
    and "client 0 (docs, ''contradiction'') = Inr d"
  shows "cross_reference client (Some segs) ''contradiction''
         = Inr [(''contradictions'', pget_def d ''contradictions'' (PList [])),
                (''corroborations'', pget_def d ''corroborations'' (PList []))]"
proof -
  obtain a b rest where "segs = a # b # rest"
    using assms(2) by (cases segs; cases "tl segs") auto
  then show ?thesis
    using assms by (simp add: cross_reference_def call_openai_def retry_with_backoff_def
        retry_from.simps json_error_as_def openai_retries_def)
qed

record question_prompt =
  qp_summary :: string
  qp_weaknesses :: "string list"
  qp_types :: string
  qp_max :: int

definition joined :: "string \<Rightarrow> string list \<Rightarrow> string" where
  "joined sep ss = (case ss of [] \<Rightarrow> [] | s # rest \<Rightarrow> s @ concat (map (\<lambda>t. sep @ t) rest))"

definition question_types_text :: "string list \<Rightarrow> string" where
  "question_types_text types = (if types = [] then ''clarification, challenge'' else joined '', '' types)"

text \<open>\<open>xs[:n]\<close>, where a negative \<open>n\<close> drops from the end.\<close>

definition slice_to :: "int \<Rightarrow> 'a list \<Rightarrow> 'a list" where
  "slice_to n xs = (if n < 0 then take (length xs - nat (- n)) xs else take (nat n) xs)"

fun question_entries :: "pyval list \<Rightarrow> exn + pydict list" where
  "question_entries [] = Inr []"
| "question_entries (PDict q # qs) =
     (case question_entries qs of Inl e \<Rightarrow> Inl e
      | Inr out \<Rightarrow>
          Inr ([(''question'', pget_def q ''question'' (PStr [])), (''rationale'', pget_def q ''rationale'' (PStr [])),
                (''targets_weakness'', pget_def q ''targets_weakness'' (PStr [])),
                (''question_type'', pget_def q ''question_type'' (PStr []))] # out))"
| "question_entries (_ # qs) = Inl attribute_error"

definition generate_questions ::
  "(nat \<Rightarrow> question_prompt \<Rightarrow> exn + pydict) \<Rightarrow> string \<Rightarrow> string list \<Rightarrow> string list option \<Rightarrow> int
   \<Rightarrow> exn + pydict list" where
  "generate_questions client summary weaknesses types max_questions =
     (if summary = [] then Inr []
      else let ts = (case types of None \<Rightarrow> [''factual_clarification'', ''evidence_gap''] | Some ts \<Rightarrow> ts);
               prompt = \<lparr>qp_summary = summary, qp_weaknesses = weaknesses,
                         qp_types = question_types_text ts, qp_max = max_questions\<rparr>
           in (case json_error_as ''QuestionGenerationError'' (call_openai client prompt) of
                 Inl e \<Rightarrow> Inl e
               | Inr d \<Rightarrow>
                   (case pget_def d ''questions'' (PList []) of
                      PList qs \<Rightarrow> question_entries (slice_to max_questions qs)
                    | _ \<Rightarrow> Inl type_error)))"

lemma question_entries_length: "question_entries qs = Inr out \<Longrightarrow> length out = length qs"
  by (induction qs arbitrary: out rule: question_entries.induct) (auto split: sum.splits)

lemma questions_are_bounded:
  "generate_questions client summary ws types n = Inr out \<Longrightarrow> 0 \<le> n \<Longrightarrow> int (length out) \<le> n"
  by (auto simp: generate_questions_def Let_def slice_to_def split: if_splits sum.splits pyval.splits
      dest!: question_entries_length)

section \<open>Searching the vector stores\<close>

text \<open>
  The output items of the Responses API: their type and the hits, if any, with the file name, text,
  score and file id, each possibly absent.
\<close>

record file_hit =
  fh_filename :: "string option"
  fh_text :: "string option"
  fh_score :: "rat option"
  fh_file_id :: "string option"

record output_item =
  oi_type :: string
  oi_results :: "file_hit list option"

definition opt_text :: "string option \<Rightarrow> string \<Rightarrow> string" where
  "opt_text t dflt = (case t of Some (c # s) \<Rightarrow> c # s | _ \<Rightarrow> dflt)"

definition hits_of :: "nat \<Rightarrow> output_item list \<Rightarrow> file_hit list" where
  "hits_of n items =
     concat (map (\<lambda>i. if oi_type i = ''file_search_call''
                      then take n (case oi_results i of None \<Rightarrow> [] | Some hs \<Rightarrow> hs) else []) items)"

definition score_of_hit :: "file_hit \<Rightarrow> pyval" where
  "score_of_hit h = (case fh_score h of None \<Rightarrow> PInt 0 | Some s \<Rightarrow> if s = 0 then PInt 0 else PFloat s)"

definition guidance_item :: "file_hit \<Rightarrow> pydict" where
  "guidance_item h =
     [(''citation'', PStr (opt_text (fh_filename h) ''Unknown'')),
      (''content'', PStr (take 4000 (opt_text (fh_text h) []))),
      (''score'', score_of_hit h), (''source'', PStr ''domain_guidance''),
      (''file_id'', PStr (opt_text (fh_file_id h) []))]"

definition vector_item :: "file_hit \<Rightarrow> pydict" where
  "vector_item h =
     [(''citation'', PStr (opt_text (fh_filename h) ''Unknown'')), (''court'', PStr []), (''outcome'', PStr []),
      (''reasoning_summary'', PStr (take 500 (opt_text (fh_text h) []))),
      (''similarity_score'', score_of_hit h), (''url'', PStr []),
      (''source'', PStr ''vector_store_fallback''), (''file_id'', PStr (opt_text (fh_file_id h) []))]"

definition guidance_unavailable :: exn where
  "guidance_unavailable = Exn [''DomainGuidanceUnavailable'', ''CriticalToolFailure'', ''Exception'']"

definition vector_store_error :: exn where
  "vector_store_error = Exn [''VectorStoreError'', ''DegradableToolError'', ''Exception'']"

text \<open>The number of results asked for, between 1 and 50; zero means the default.\<close>

definition clamp_results :: "int \<Rightarrow> int" where
  "clamp_results n = max 1 (min (if n = 0 then 25 else n) 50)"

text \<open>
  \<open>reply store n\<close> is the reply of the client asked for \<open>n\<close> results of a store; any exception
  becomes the tool's own.
\<close>

definition search_domain_guidance ::
  "(string \<Rightarrow> int \<Rightarrow> exn + output_item list) \<Rightarrow> string \<Rightarrow> int \<Rightarrow> exn + pydict list" where
  "search_domain_guidance reply store max_results =
     (if store = [] then Inl guidance_unavailable
      else let n = clamp_results max_results
           in (case reply store n of
                 Inl e \<Rightarrow> Inl guidance_unavailable
               | Inr items \<Rightarrow> Inr (map guidance_item (hits_of (nat n) items))))"

definition effective_store :: "string option \<Rightarrow> bool \<Rightarrow> string option \<Rightarrow> exn + string" where
  "effective_store global allow vs_id =
     (case vs_id of
        Some v \<Rightarrow> Inr v
      | None \<Rightarrow>
          (case global of
             Some (c # g) \<Rightarrow> if allow then Inr (c # g) else Inl vector_store_error
           | _ \<Rightarrow> Inl vector_store_error))"

definition vector_store_search ::
  "(string \<Rightarrow> int \<Rightarrow> exn + output_item list) \<Rightarrow> string option \<Rightarrow> bool \<Rightarrow> string option \<Rightarrow> nat
   \<Rightarrow> exn + pydict list" where
  "vector_store_search reply global allow vs_id max_results =
     (case effective_store global allow vs_id of
        Inl e \<Rightarrow> Inl e
      | Inr store \<Rightarrow>
          (case reply store (int max_results) of
             Inl e \<Rightarrow> Inl vector_store_error
           | Inr items \<Rightarrow> Inr (map vector_item (hits_of max_results items))))"

lemma vector_store_raises_its_own_error:
  "vector_store_search reply global allow vs n = Inl e \<Longrightarrow> e = vector_store_error"
  by (auto simp: vector_store_search_def effective_store_def split: sum.splits option.splits list.splits if_splits)

text \<open>The error the precedent search expects: the vector store never makes a search raise.\<close>

lemma vector_fallback_total:
  assumes "se_vector env = vector_store_search reply global allow vs n"
  shows "\<exists>rs md'. vector_fallback env md = Inr (rs, md')"
  using vector_store_raises_its_own_error [of reply global allow vs n]
  by (auto simp: vector_fallback_def assms vector_store_error_def split: sum.splits)

section \<open>The health probe\<close>

text \<open>\<open>probe\<close> is the status code of a successful reply, or the exception with its text.\<close>

definition check_pair_health ::
  "breaker_config \<Rightarrow> bool \<Rightarrow> bool \<times> rat \<Rightarrow> exn \<times> string + int \<Rightarrow> breaker_keys \<Rightarrow> (exn + pydict) \<times> breaker_keys" where
  "check_pair_health cfg api_key rec probe keys =
     (if \<not> api_key
      then (Inr [(''status'', PStr ''disabled''), (''reason'', PStr ''no PAIR_API_KEY configured'')], keys)
      else (case probe of
              Inr code \<Rightarrow>
                (Inr [(''status'', PStr ''healthy''), (''response_code'', PInt code)], record_success (fst rec) keys)
            | Inl (e, txt) \<Rightarrow>
                if instance_of [''HTTPError'', ''TimeoutException''] e
                then (Inr [(''status'', PStr ''unhealthy''), (''error'', PStr txt)],
                      snd (record_failure cfg (fst rec) (snd rec) keys))
                else (Inl e, keys)))"

section \<open>The wrappers of the search tools\<close>

text \<open>
  Over the calls of one node turn the metadata of the searches is merged: the first call gives the
  record, a later failure marks it.
\<close>

definition merge_precedent_meta :: "pydict option \<Rightarrow> pydict \<Rightarrow> pydict" where
  "merge_precedent_meta existing new =
     (case existing of
        None \<Rightarrow> new
      | Some old \<Rightarrow>
          if truthy (pget new ''source_failed'')
          then (let old' = dict_set ''source_failed'' (PBool True) old
                in dict_set ''pair_status'' (pget_def new ''pair_status'' (pget old' ''pair_status'')) old')
          else old)"

fun record_calls :: "pydict option \<Rightarrow> pydict list \<Rightarrow> pydict option" where
  "record_calls acc [] = acc"
| "record_calls acc (md # mds) = record_calls (Some (merge_precedent_meta acc md)) mds"

lemma merge_failed:
  "truthy (pget (merge_precedent_meta acc md) ''source_failed'')
     \<longleftrightarrow> truthy (pget md ''source_failed'') \<or> (\<exists>old. acc = Some old \<and> truthy (pget old ''source_failed''))"
  by (auto simp: merge_precedent_meta_def split: option.splits)

lemma record_calls_failed:
  "record_calls acc mds = Some md \<Longrightarrow>
   truthy (pget md ''source_failed'')
     \<longleftrightarrow> (\<exists>m \<in> set mds. truthy (pget m ''source_failed''))
        \<or> (\<exists>old. acc = Some old \<and> truthy (pget old ''source_failed''))"
proof (induction mds arbitrary: acc)
  case (Cons m mds)
  then show ?case using Cons.IH [of "Some (merge_precedent_meta acc m)"] merge_failed [of acc m] by auto
qed simp

text \<open>
  The file id of a hit, or a surrogate made from its address; \<open>sha\<close> is the hexadecimal digest. The
  address and the citation of a hit are texts.
\<close>

definition content_hash :: "(string \<Rightarrow> string) \<Rightarrow> string \<Rightarrow> string" where
  "content_hash sha t = take 12 (sha t)"

definition field_text :: "pydict \<Rightarrow> string \<Rightarrow> string" where
  "field_text d k = (case map_of d k of Some (PStr s) \<Rightarrow> s | _ \<Rightarrow> [])"

definition resolve_file_id :: "(string \<Rightarrow> string) \<Rightarrow> (pyval \<Rightarrow> string) \<Rightarrow> pydict \<Rightarrow> string \<Rightarrow> string" where
  "resolve_file_id sha rep item prefix =
     (if truthy (pget item ''file_id'') then py_str rep (pget item ''file_id'')
      else let surrogate = (if field_text item ''url'' \<noteq> [] then field_text item ''url''
                            else field_text item ''citation'')
           in prefix @ ''-'' @ take 12 (sha surrogate))"

record citation_doc =
  cd_content :: string
  cd_metadata :: pydict

definition page_text :: "pydict \<Rightarrow> string \<Rightarrow> string" where
  "page_text item body = py_strip (field_text item ''citation'' @ [CHR 0x0A] @ field_text item body)"

definition source_id_for :: "(string \<Rightarrow> string) \<Rightarrow> string \<Rightarrow> string \<Rightarrow> string" where
  "source_id_for sha file_id page = file_id @ '':'' @ content_hash sha page"

definition precedent_to_document :: "(string \<Rightarrow> string) \<Rightarrow> (pyval \<Rightarrow> string) \<Rightarrow> pydict \<Rightarrow> citation_doc" where
  "precedent_to_document sha rep p =
     (let page = page_text p ''reasoning_summary''; file_id = resolve_file_id sha rep p ''pair''
      in \<lparr>cd_content = page,
          cd_metadata =
            [(''source_id'', PStr (source_id_for sha file_id page)), (''file_id'', PStr file_id),
             (''filename'', pget_def p ''citation'' (PStr [])),
             (''score'', pget_def p ''similarity_score'' (pget_def p ''score'' (PInt 0))),
             (''url'', pget_def p ''url'' (PStr [])), (''source'', pget_def p ''source'' (PStr []))]\<rparr>)"

definition guidance_to_document :: "(string \<Rightarrow> string) \<Rightarrow> (pyval \<Rightarrow> string) \<Rightarrow> pydict \<Rightarrow> citation_doc" where
  "guidance_to_document sha rep g =
     (let page = page_text g ''content''; file_id = resolve_file_id sha rep g ''guidance''
      in \<lparr>cd_content = page,
          cd_metadata =
            [(''source_id'', PStr (source_id_for sha file_id page)), (''file_id'', PStr file_id),
             (''filename'', pget_def g ''citation'' (PStr [])),
             (''score'', pget_def g ''score'' (pget_def g ''similarity_score'' (PInt 0))),
             (''source'', pget_def g ''source'' (PStr ''domain_guidance''))]\<rparr>)"

text \<open>
  The contract of the consumers: \<open>source_id.split(":", 1)\<close> gives back the file id and the hash.
\<close>

definition split_source_id :: "string \<Rightarrow> (string \<times> string) option" where
  "split_source_id s =
     (case dropWhile (\<lambda>c. c \<noteq> CHR '':'') s of
        [] \<Rightarrow> None
      | _ # rest \<Rightarrow> Some (takeWhile (\<lambda>c. c \<noteq> CHR '':'') s, rest))"

lemma split_at_colon: "CHR '':'' \<notin> set f \<Longrightarrow> split_source_id (f @ CHR '':'' # h) = Some (f, h)"
  by (simp add: split_source_id_def takeWhile_append takeWhile_eq_all_conv dropWhile_append)

definition hex_digest :: "(string \<Rightarrow> string) \<Rightarrow> bool" where
  "hex_digest sha \<longleftrightarrow> (\<forall>t. length (sha t) = 64 \<and> set (sha t) \<subseteq> set ''0123456789abcdef'')"

lemma hex_no_colon: "hex_digest sha \<Longrightarrow> CHR '':'' \<notin> set (take n (sha t))"
  using set_take_subset [of n "sha t"] by (auto simp: hex_digest_def)

text \<open>A document built from a search result carries a source id that splits back into its file
  id and the twelve-character hash of its text, whether the result came with a file id (of the
  client, without a colon) or the id was made from its address; results of the same text and file
  get the same id.\<close>

lemma source_id_splits_back:
  assumes "hex_digest sha" "CHR '':'' \<notin> set (py_str rep (pget p ''file_id''))"
    and "d = precedent_to_document sha rep p \<or> d = guidance_to_document sha rep p"
  shows "\<exists>sid fid h. pget (cd_metadata d) ''source_id'' = PStr sid \<and> pget (cd_metadata d) ''file_id'' = PStr fid
         \<and> split_source_id sid = Some (fid, h) \<and> h = content_hash sha (cd_content d) \<and> length h = 12"
proof -
  have nc: "CHR '':'' \<notin> set (resolve_file_id sha rep p prefix)" if "CHR '':'' \<notin> set prefix" for prefix
    using assms(2) that hex_no_colon [OF assms(1)] by (auto simp: resolve_file_id_def Let_def)
  have "length (content_hash sha t) = 12" for t
    using assms(1) by (simp add: content_hash_def hex_digest_def)
  then show ?thesis
    using assms(3) nc [of "''pair''"] nc [of "''guidance''"]
    by (auto simp: precedent_to_document_def guidance_to_document_def Let_def pget_def source_id_for_def split_at_colon)
qed

lemma source_id_splits_back_witness:
  "\<exists>sid fid h. pget (cd_metadata (precedent_to_document (\<lambda>_. replicate 64 CHR ''a'') (\<lambda>_. [])
       [(''citation'', PStr ''SGHC 1''), (''url'', PStr ''https://x'')])) ''source_id'' = PStr sid
     \<and> split_source_id sid = Some (fid, h) \<and> length h = 12"
proof -
  have h: "hex_digest (\<lambda>_. replicate 64 CHR ''a'')" by (simp add: hex_digest_def)
  have n: "CHR '':'' \<notin> set (py_str (\<lambda>_. []) (pget [(''citation'', PStr ''SGHC 1''), (''url'', PStr ''https://x'')] ''file_id''))"
    by (simp add: pget_def)
  show ?thesis using source_id_splits_back [OF h n disjI1 [OF refl]] by blast
qed

end
