(* ===== verification/Whatif.thy ===== *)
theory Whatif
  imports System Tools
begin

text \<open>
  Contesting a result, \<open>services/whatif\<close> and \<open>api/routes/what_if.py\<close>: the modifications a judge
  can try, the fork of the finished thread they are applied to and its drive to the end, the diff
  of the two results, the stability score over several perturbations, the two background tasks and
  the four endpoints with their tables.
\<close>

section \<open>Modifications\<close>

datatype modification_type =
    Fact_toggle | Evidence_exclusion | Witness_credibility | Legal_interpretation

record modification =
  md_type :: modification_type
  md_payload :: pydict

text \<open>The items of a list that carry the identifier get the new keys; \<open>==\<close> compares identifiers.\<close>

definition update_item :: "pyval \<Rightarrow> pydict \<Rightarrow> pyval \<Rightarrow> pyval" where
  "update_item ident upd v =
     (case v of
        PDict d \<Rightarrow> if py_eq (pget d ''id'') ident then PDict (dict_merge d upd) else v
      | _ \<Rightarrow> v)"

definition apply_evidence_exclusion :: "pydict \<Rightarrow> case_state \<Rightarrow> case_state" where
  "apply_evidence_exclusion p c =
     (case cs_evidence_analysis c of
        None \<Rightarrow> c
      | Some ea \<Rightarrow>
          c\<lparr>cs_evidence_analysis := Some (ea\<lparr>ea_evidence_items :=
              map (update_item (pget p ''evidence_id'')
                     [(''excluded'', PBool True),
                      (''exclusion_reason'',
                       pget_def p ''reason'' (PStr ''Excluded by judge via what-if scenario''))])
                (ea_evidence_items ea)\<rparr>)\<rparr>)"

definition apply_fact_toggle :: "pydict \<Rightarrow> case_state \<Rightarrow> case_state" where
  "apply_fact_toggle p c =
     (case cs_extracted_facts c of
        None \<Rightarrow> c
      | Some ef \<Rightarrow>
          c\<lparr>cs_extracted_facts := Some (ef\<lparr>ef_facts :=
              map (update_item (pget p ''fact_id'')
                     [(''status'', pget_def p ''new_status'' (PStr ''disputed''))])
                (ef_facts ef)\<rparr>)\<rparr>)"

definition apply_witness_credibility :: "pydict \<Rightarrow> case_state \<Rightarrow> case_state" where
  "apply_witness_credibility p c =
     (case cs_witnesses c of
        None \<Rightarrow> c
      | Some wm \<Rightarrow>
          c\<lparr>cs_witnesses := Some (wm\<lparr>wm_witnesses :=
              map (update_item (pget p ''witness_id'')
                     [(''credibility_score'', pget p ''new_credibility_score'')])
                (wm_witnesses wm)\<rparr>)\<rparr>)"

text \<open>
  A rule by its identifier, else by its index; an index that does not compare with a number, or
  a float that does and is in range, is a \<open>TypeError\<close>.
\<close>

definition set_application :: "pyval \<Rightarrow> pyval \<Rightarrow> pyval" where
  "set_application v r = (case r of PDict d \<Rightarrow> PDict (dict_merge d [(''application'', v)]) | _ \<Rightarrow> r)"

definition update_rule_at :: "int \<Rightarrow> pyval \<Rightarrow> pyval list \<Rightarrow> pyval list" where
  "update_rule_at i v rules =
     (if 0 \<le> i \<and> i < int (length rules)
      then rules[nat i := set_application v (rules ! nat i)] else rules)"

definition apply_legal_interpretation :: "pydict \<Rightarrow> case_state \<Rightarrow> case_state result" where
  "apply_legal_interpretation p c =
     (let rules = cs_legal_rules c; v = pget p ''new_application''
      in if pget p ''rule_id'' \<noteq> PNone
         then Inr (c\<lparr>cs_legal_rules := map (update_item (pget p ''rule_id'') [(''application'', v)]) rules\<rparr>)
         else (case pget p ''rule_index'' of
                 PNone \<Rightarrow> Inr c
               | PInt i \<Rightarrow> Inr (c\<lparr>cs_legal_rules := update_rule_at i v rules\<rparr>)
               | PBool b \<Rightarrow> Inr (c\<lparr>cs_legal_rules := update_rule_at (if b then 1 else 0) v rules\<rparr>)
               | PFloat r \<Rightarrow>
                   if 0 \<le> r \<and> r < of_nat (length rules) then Inl (OtherError ''TypeError'') else Inr c
               | _ \<Rightarrow> Inl (OtherError ''TypeError'')))"

definition apply_modification :: "modification \<Rightarrow> case_state \<Rightarrow> case_state result" where
  "apply_modification m c =
     (case md_type m of
        Fact_toggle \<Rightarrow> Inr (apply_fact_toggle (md_payload m) c)
      | Evidence_exclusion \<Rightarrow> Inr (apply_evidence_exclusion (md_payload m) c)
      | Witness_credibility \<Rightarrow> Inr (apply_witness_credibility (md_payload m) c)
      | Legal_interpretation \<Rightarrow> apply_legal_interpretation (md_payload m) c)"

fun apply_modifications :: "modification list \<Rightarrow> case_state \<Rightarrow> case_state result" where
  "apply_modifications [] c = Inr c"
| "apply_modifications (m # ms) c = bind_result (apply_modification m c) (apply_modifications ms)"

subsection \<open>What they reach\<close>

text \<open>
  The items of a case that the research phase wrote are dumps of its schemas, which carry
  \<open>fact_id\<close>, \<open>evidence_id\<close>, \<open>witness_id\<close> and \<open>rule_id\<close> but no key \<open>id\<close>.
\<close>

definition research_items :: "case_state \<Rightarrow> bool" where
  "research_items c \<longleftrightarrow>
     (\<forall>ea. cs_evidence_analysis c = Some ea \<longrightarrow> (\<exists>es. ea_evidence_items ea = map dump_evidence_item es))
     \<and> (\<forall>ef. cs_extracted_facts c = Some ef \<longrightarrow> (\<exists>fs. ef_facts ef = map dump_fact_item fs))
     \<and> (\<forall>wm. cs_witnesses c = Some wm \<longrightarrow> (\<exists>ws. wm_witnesses wm = map dump_witness ws))
     \<and> (\<exists>rs. cs_legal_rules c = map dump_legal_rule rs)"

lemma new_case_research_items: "research_items (new_case_state cid rid)"
  by (simp add: research_items_def new_case_state_def)

lemma mirror_research_items: "research_items c \<Longrightarrow> research_items (mirror_research m c)"
  by (auto simp: research_items_def mirror_research_def mirror_law_def mirror_witnesses_def
      mirror_facts_def mirror_evidence_def split: option.split)

lemma merge_research_items:
  assumes "research_items b" "research_items u"
  shows "research_items (merge_case b (Update u))"
proof -
  let ?m = "merge_case_fields b u"
  have "cs_evidence_analysis ?m = cs_evidence_analysis b \<or> cs_evidence_analysis ?m = cs_evidence_analysis u"
    "cs_extracted_facts ?m = cs_extracted_facts b \<or> cs_extracted_facts ?m = cs_extracted_facts u"
    "cs_witnesses ?m = cs_witnesses b \<or> cs_witnesses ?m = cs_witnesses u"
    "cs_legal_rules ?m = cs_legal_rules b \<or> cs_legal_rules ?m = cs_legal_rules u"
    unfolding merge_case_fields_def case_state.simps by (rule merge_field_origin)+
  then show ?thesis using assms unfolding research_items_def merge_case.simps by metis
qed

lemma join_research_items:
  "research_items (gs_case s) \<Longrightarrow> research_items (gs_case (apply_research_join s))"
  by (simp add: apply_research_join_def research_join_node_def Let_def merge_research_items
      mirror_research_items del: merge_case.simps)

text \<open>The identifier key of each kind of modification.\<close>

definition addressed_by :: "modification \<Rightarrow> pyval" where
  "addressed_by m =
     pget (md_payload m)
       (case md_type m of
          Fact_toggle \<Rightarrow> ''fact_id'' | Evidence_exclusion \<Rightarrow> ''evidence_id''
        | Witness_credibility \<Rightarrow> ''witness_id'' | Legal_interpretation \<Rightarrow> ''rule_id'')"

lemma py_eq_None: "py_eq PNone v \<longleftrightarrow> v = PNone"
  by (cases v) auto

definition nameless :: "pyval \<Rightarrow> bool" where
  "nameless v \<longleftrightarrow> (\<exists>d. v = PDict d \<and> map_of d ''id'' = None)"

lemma dumped_nameless [simp]:
  "nameless (dump_fact_item f)" "nameless (dump_evidence_item e)" "nameless (dump_witness w)"
  "nameless (dump_legal_rule r)"
  by (simp_all add: nameless_def dump_fact_item_def dump_evidence_item_def dump_witness_def dump_legal_rule_def)

lemma update_nameless: "nameless v \<Longrightarrow> i \<noteq> PNone \<Longrightarrow> update_item i u v = v"
  by (auto simp: nameless_def update_item_def pget_def py_eq_None)

lemma map_update_nameless:
  "\<forall>x \<in> set xs. nameless (dump x) \<Longrightarrow> i \<noteq> PNone \<Longrightarrow> map (update_item i u) (map dump xs) = map dump xs"
  by (simp add: update_nameless)

lemma unaddressed_modification:
  assumes "research_items c" "addressed_by m \<noteq> PNone"
  shows "apply_modification m c = Inr c"
proof (cases "md_type m")
  case Fact_toggle
  then show ?thesis using assms
    by (auto simp: apply_modification_def apply_fact_toggle_def addressed_by_def research_items_def
        update_nameless split: option.split)
next
  case Evidence_exclusion
  then show ?thesis using assms
    by (auto simp: apply_modification_def apply_evidence_exclusion_def addressed_by_def research_items_def
        update_nameless split: option.split)
next
  case Witness_credibility
  then show ?thesis using assms
    by (auto simp: apply_modification_def apply_witness_credibility_def addressed_by_def research_items_def
        update_nameless split: option.split)
next
  case Legal_interpretation
  then show ?thesis using assms
    by (auto simp: apply_modification_def apply_legal_interpretation_def addressed_by_def research_items_def
        update_nameless Let_def)
qed

text \<open>No modification that names its item reaches a case whose items the research phase wrote:
  after the join, and whatever list of such modifications a judge tries, the case is the one it
  was, because the items carry \<open>fact_id\<close>, \<open>evidence_id\<close>, \<open>witness_id\<close> and \<open>rule_id\<close> while the
  modifications look for \<open>id\<close>.\<close>

lemma named_modifications_are_lost:
  assumes "research_items (gs_case s)" "\<forall>m \<in> set ms. addressed_by m \<noteq> PNone"
  shows "apply_modifications ms (gs_case (apply_research_join s)) = Inr (gs_case (apply_research_join s))"
  using assms(2)
proof (induction ms)
  case (Cons m ms)
  then show ?case using unaddressed_modification [OF join_research_items [OF assms(1)], of m] by simp
qed simp

text \<open>A case with two facts, one agreed and one disputed.\<close>

definition fact_named :: "string \<Rightarrow> fact_status \<Rightarrow> extracted_fact_item" where
  "fact_named i st = \<lparr>fi_fact_id = i, fi_description = ''goods delivered'', fi_event_date = None,
     fi_confidence = HIGH, fi_status = st, fi_source_refs = [], fi_corroboration = []\<rparr>"

definition two_facts :: "extracted_facts" where
  "two_facts = \<lparr>ef_facts = [dump_fact_item (fact_named ''F1'' Fact_agreed), dump_fact_item (fact_named ''F2'' Fact_disputed)],
                ef_timeline = [], ef_extra = []\<rparr>"

definition contested_state :: graph_state where
  "contested_state = case7\<lparr>gs_case := (gs_case case7)\<lparr>cs_extracted_facts := Some two_facts\<rparr>\<rparr>"

lemma contested_research_items: "research_items (gs_case contested_state)"
proof -
  have "ef_facts two_facts = map dump_fact_item [fact_named ''F1'' Fact_agreed, fact_named ''F2'' Fact_disputed]"
    by (simp add: two_facts_def)
  then have "\<exists>fs. ef_facts two_facts = map dump_fact_item fs" by blast
  then show ?thesis
    by (simp add: research_items_def contested_state_def case7_def build_initial_state_def new_case_state_def)
qed

lemma named_modifications_are_lost_witness:
  "apply_modifications [\<lparr>md_type = Fact_toggle, md_payload = [(''fact_id'', PStr ''F1''), (''new_status'', PStr ''disputed'')]\<rparr>]
     (gs_case (apply_research_join contested_state)) = Inr (gs_case (apply_research_join contested_state))"
  by (rule named_modifications_are_lost [OF contested_research_items]) (simp add: addressed_by_def pget_def)

section \<open>Perturbations\<close>

record perturbation =
  pt_type :: modification_type
  pt_payload :: pydict
  pt_description :: string

definition modification_of :: "perturbation \<Rightarrow> modification" where
  "modification_of p = \<lparr>md_type = pt_type p, md_payload = pt_payload p\<rparr>"

definition id_text :: "(pyval \<Rightarrow> string) \<Rightarrow> pydict \<Rightarrow> string" where
  "id_text rep d = [CHR 0x27] @ py_str rep (pget_def d ''id'' (PStr ''unknown'')) @ [CHR 0x27]"

definition fact_perturbation :: "(pyval \<Rightarrow> string) \<Rightarrow> pyval \<Rightarrow> perturbation option" where
  "fact_perturbation rep v =
     (case v of
        PDict d \<Rightarrow>
          (case pget d ''status'' of
             PStr s \<Rightarrow>
               if s \<in> {''agreed'', ''disputed''}
               then (let new = (if s = ''agreed'' then ''disputed'' else ''agreed'')
                     in Some \<lparr>pt_type = Fact_toggle,
                              pt_payload = [(''fact_id'', pget d ''id''), (''new_status'', PStr new)],
                              pt_description = ''Toggle fact '' @ id_text rep d @ '' from '' @ s @ '' to '' @ new\<rparr>)
               else None
           | _ \<Rightarrow> None)
      | _ \<Rightarrow> None)"

definition evidence_perturbation :: "(pyval \<Rightarrow> string) \<Rightarrow> pyval \<Rightarrow> perturbation option" where
  "evidence_perturbation rep v =
     (case v of
        PDict d \<Rightarrow>
          if truthy (pget_def d ''excluded'' (PBool False)) then None
          else Some \<lparr>pt_type = Evidence_exclusion,
                     pt_payload = [(''evidence_id'', pget d ''id''), (''exclude'', PBool True)],
                     pt_description = ''Exclude evidence '' @ id_text rep d\<rparr>
      | _ \<Rightarrow> None)"

definition identify_perturbations :: "(pyval \<Rightarrow> string) \<Rightarrow> case_state \<Rightarrow> nat \<Rightarrow> perturbation list" where
  "identify_perturbations rep c n =
     take n
       ((case cs_extracted_facts c of None \<Rightarrow> [] | Some ef \<Rightarrow> List.map_filter (fact_perturbation rep) (ef_facts ef))
        @ (case cs_evidence_analysis c of None \<Rightarrow> []
           | Some ea \<Rightarrow> List.map_filter (evidence_perturbation rep) (ea_evidence_items ea)))"

lemma fact_perturbation_nameless:
  assumes "nameless v" "fact_perturbation rep v = Some p"
  shows "pt_type p = Fact_toggle \<and> pget (pt_payload p) ''fact_id'' = PNone
         \<and> (\<exists>s. map_of (pt_payload p) ''new_status'' = Some (PStr s))"
proof -
  obtain d where d: "v = PDict d" "map_of d ''id'' = None" using assms(1) by (auto simp: nameless_def)
  then obtain s where "pget d ''status'' = PStr s" "s \<in> {''agreed'', ''disputed''}"
    using assms(2) by (auto simp: fact_perturbation_def split: pyval.splits if_splits)
  then show ?thesis using assms(2) d by (auto simp: fact_perturbation_def Let_def pget_def)
qed

lemma evidence_perturbation_nameless:
  "nameless v \<Longrightarrow> evidence_perturbation rep v = Some p \<Longrightarrow>
   pt_type p = Evidence_exclusion \<and> pget (pt_payload p) ''evidence_id'' = PNone"
  by (auto simp: nameless_def evidence_perturbation_def pget_def split: if_splits)

lemma in_map_filter: "p \<in> set (List.map_filter f xs) \<longleftrightarrow> (\<exists>x \<in> set xs. f x = Some p)"
  by (force simp: List.map_filter_def)

lemma identified_item:
  assumes "research_items c" "p \<in> set (identify_perturbations rep c n)"
  shows "(pt_type p = Fact_toggle \<and> pget (pt_payload p) ''fact_id'' = PNone
            \<and> (\<exists>s. map_of (pt_payload p) ''new_status'' = Some (PStr s)))
         \<or> (pt_type p = Evidence_exclusion \<and> pget (pt_payload p) ''evidence_id'' = PNone)"
proof -
  have "p \<in> set ((case cs_extracted_facts c of None \<Rightarrow> [] | Some ef \<Rightarrow> List.map_filter (fact_perturbation rep) (ef_facts ef))
        @ (case cs_evidence_analysis c of None \<Rightarrow> []
           | Some ea \<Rightarrow> List.map_filter (evidence_perturbation rep) (ea_evidence_items ea)))"
    using assms(2) unfolding identify_perturbations_def by (rule in_set_takeD)
  then consider ef v where "cs_extracted_facts c = Some ef" "v \<in> set (ef_facts ef)" "fact_perturbation rep v = Some p"
    | ea v where "cs_evidence_analysis c = Some ea" "v \<in> set (ea_evidence_items ea)" "evidence_perturbation rep v = Some p"
    by (cases "cs_extracted_facts c"; cases "cs_evidence_analysis c") (auto simp: in_map_filter)
  then show ?thesis
  proof cases
    case 1
    then have "nameless v" using assms(1) by (fastforce simp: research_items_def)
    then show ?thesis using fact_perturbation_nameless 1(3) by blast
  next
    case 2
    then have "nameless v" using assms(1) by (fastforce simp: research_items_def)
    then show ?thesis using evidence_perturbation_nameless 2(3) by blast
  qed
qed

text \<open>The value an item has under a key.\<close>

definition item_shows :: "string \<Rightarrow> pyval \<Rightarrow> pyval \<Rightarrow> bool" where
  "item_shows k w v \<longleftrightarrow> (\<exists>d. v = PDict d \<and> pget d k = w)"

lemma update_item_none:
  "nameless v \<Longrightarrow> distinct (map fst upd) \<Longrightarrow> map_of upd k = Some w \<Longrightarrow> item_shows k w (update_item PNone upd v)"
  by (auto simp: nameless_def update_item_def item_shows_def pget_def map_of_dict_merge)

text \<open>A perturbation of the stability score, meant to change one fact or one piece of evidence,
  changes all of its kind at once: it names its item by the absent \<open>id\<close>, which every item the
  research phase wrote shares, so after it every fact has the new status, or every piece of evidence
  is excluded.\<close>

lemma perturbation_hits_every_item:
  assumes "research_items c" "p \<in> set (identify_perturbations rep c n)"
    and "apply_modification (modification_of p) c = Inr c'"
  shows "(pt_type p = Fact_toggle \<and>
            (\<forall>ef. cs_extracted_facts c' = Some ef \<longrightarrow>
               list_all (item_shows ''status'' (pget (pt_payload p) ''new_status'')) (ef_facts ef)))
         \<or> (pt_type p = Evidence_exclusion \<and>
            (\<forall>ea. cs_evidence_analysis c' = Some ea \<longrightarrow>
               list_all (item_shows ''excluded'' (PBool True)) (ea_evidence_items ea)))"
  using identified_item [OF assms(1,2)]
proof
  assume f: "pt_type p = Fact_toggle \<and> pget (pt_payload p) ''fact_id'' = PNone
      \<and> (\<exists>s. map_of (pt_payload p) ''new_status'' = Some (PStr s))"
  then obtain s where s: "map_of (pt_payload p) ''new_status'' = Some (PStr s)" by blast
  have c': "c' = apply_fact_toggle (pt_payload p) c"
    using assms(3) f by (simp add: apply_modification_def modification_of_def)
  have "list_all (item_shows ''status'' (PStr s)) (ef_facts ef)" if "cs_extracted_facts c' = Some ef" for ef
    using that assms(1) f s
    by (auto simp: c' apply_fact_toggle_def research_items_def list_all_iff pget_def_def
        intro!: update_item_none split: option.splits)
  then show ?thesis using f s by (auto simp: pget_def)
next
  assume e: "pt_type p = Evidence_exclusion \<and> pget (pt_payload p) ''evidence_id'' = PNone"
  have c': "c' = apply_evidence_exclusion (pt_payload p) c"
    using assms(3) e by (simp add: apply_modification_def modification_of_def)
  have "list_all (item_shows ''excluded'' (PBool True)) (ea_evidence_items ea)"
    if "cs_evidence_analysis c' = Some ea" for ea
    using that assms(1) e
    by (auto simp: c' apply_evidence_exclusion_def research_items_def list_all_iff
        intro!: update_item_none split: option.splits)
  then show ?thesis using e by blast
qed

lemma perturbation_hits_every_item_witness:
  "\<exists>p c'. p \<in> set (identify_perturbations (\<lambda>_. []) (gs_case contested_state) 5)
     \<and> apply_modification (modification_of p) (gs_case contested_state) = Inr c'
     \<and> pt_type p = Fact_toggle
     \<and> (\<exists>ef. cs_extracted_facts c' = Some ef \<and> list_all (item_shows ''status'' (PStr ''disputed'')) (ef_facts ef))"
proof -
  have "map (\<lambda>p. (pt_type p, pt_payload p)) (identify_perturbations (\<lambda>_. []) (gs_case contested_state) 5)
      = [(Fact_toggle, [(''fact_id'', PNone), (''new_status'', PStr ''disputed'')]),
         (Fact_toggle, [(''fact_id'', PNone), (''new_status'', PStr ''agreed'')])]"
    by code_simp
  then have "(Fact_toggle, [(''fact_id'', PNone), (''new_status'', PStr ''disputed'')])
      \<in> (\<lambda>p. (pt_type p, pt_payload p)) ` set (identify_perturbations (\<lambda>_. []) (gs_case contested_state) 5)"
    unfolding set_map [symmetric] by simp
  then obtain p where p: "p \<in> set (identify_perturbations (\<lambda>_. []) (gs_case contested_state) 5)"
      "pt_type p = Fact_toggle" "pt_payload p = [(''fact_id'', PNone), (''new_status'', PStr ''disputed'')]"
    by auto
  have "apply_modification (modification_of p) (gs_case contested_state)
      = Inr (apply_fact_toggle (pt_payload p) (gs_case contested_state))"
    by (simp add: apply_modification_def modification_of_def p)
  moreover have "\<exists>ef. cs_extracted_facts (apply_fact_toggle (pt_payload p) (gs_case contested_state)) = Some ef"
    by (simp add: apply_fact_toggle_def contested_state_def)
  ultimately show ?thesis
    using perturbation_hits_every_item [OF contested_research_items p(1)] p by (fastforce simp: pget_def)
qed

section \<open>The diff\<close>

text \<open>
  The items by identifier, or by position; a later item replaces an earlier one of the same key,
  and an identifier that cannot be hashed is a \<open>TypeError\<close>. The order of the union of two key sets
  is not specified by the code; here the keys of the original come first.
\<close>

fun keyed_set :: "pyval \<Rightarrow> pydict \<Rightarrow> (pyval \<times> pydict) list \<Rightarrow> (pyval \<times> pydict) list" where
  "keyed_set k v [] = [(k, v)]"
| "keyed_set k v ((k', v') # m) = (if py_eq k' k then (k', v) # m else (k', v') # keyed_set k v m)"

fun keyed_get :: "(pyval \<times> pydict) list \<Rightarrow> pyval \<Rightarrow> pydict option" where
  "keyed_get [] k = None"
| "keyed_get ((k', v) # m) k = (if py_eq k' k then Some v else keyed_get m k)"

fun items_map :: "nat \<Rightarrow> pyval list \<Rightarrow> (pyval \<times> pydict) list \<Rightarrow> (pyval \<times> pydict) list result" where
  "items_map i [] acc = Inr acc"
| "items_map i (PDict d # vs) acc =
     (let k = pget_def d ''id'' (PStr (digits_of i))
      in if unhashable k then Inl (OtherError ''TypeError'') else items_map (Suc i) vs (keyed_set k d acc))"
| "items_map i (_ # vs) acc = items_map (Suc i) vs acc"

definition facts_map :: "case_state \<Rightarrow> (pyval \<times> pydict) list result" where
  "facts_map c = (case cs_extracted_facts c of None \<Rightarrow> Inr [] | Some ef \<Rightarrow> items_map 0 (ef_facts ef) [])"

definition evidence_map :: "case_state \<Rightarrow> (pyval \<times> pydict) list result" where
  "evidence_map c =
     (case cs_evidence_analysis c of None \<Rightarrow> Inr [] | Some ea \<Rightarrow> items_map 0 (ea_evidence_items ea) [])"

definition all_ids :: "(pyval \<times> pydict) list \<Rightarrow> (pyval \<times> pydict) list \<Rightarrow> pyval list" where
  "all_ids orig modified =
     map fst orig @ filter (\<lambda>k. keyed_get orig k = None) (map fst modified)"

definition found :: "(pyval \<times> pydict) list \<Rightarrow> pyval \<Rightarrow> pydict option" where
  "found m k = (case keyed_get m k of Some [] \<Rightarrow> None | r \<Rightarrow> r)"

definition fact_change ::
  "(pyval \<times> pydict) list \<Rightarrow> (pyval \<times> pydict) list \<Rightarrow> pyval \<Rightarrow> pydict list" where
  "fact_change orig modified k =
     (case (found orig k, found modified k) of
        (Some a, Some b) \<Rightarrow>
          if py_eq (pget a ''status'') (pget b ''status'') then []
          else [[(''fact_id'', k), (''original_status'', pget a ''status''),
                 (''modified_status'', pget b ''status''),
                 (''description'', pget_def a ''description'' (PStr []))]]
      | (Some a, None) \<Rightarrow>
          [[(''fact_id'', k), (''change'', PStr ''removed''), (''description'', pget_def a ''description'' (PStr []))]]
      | (None, Some b) \<Rightarrow>
          [[(''fact_id'', k), (''change'', PStr ''added''), (''description'', pget_def b ''description'' (PStr []))]]
      | (None, None) \<Rightarrow> [])"

definition evidence_change ::
  "(pyval \<times> pydict) list \<Rightarrow> (pyval \<times> pydict) list \<Rightarrow> pyval \<Rightarrow> pydict list" where
  "evidence_change orig modified k =
     (case (found orig k, found modified k) of
        (Some a, Some b) \<Rightarrow>
          (let x = pget_def a ''excluded'' (PBool False); y = pget_def b ''excluded'' (PBool False)
           in if py_eq x y then []
              else [[(''evidence_id'', k), (''change'', PStr (if truthy y then ''excluded'' else ''re-included''))]])
      | (Some a, None) \<Rightarrow> [[(''evidence_id'', k), (''change'', PStr ''removed'')]]
      | (None, Some b) \<Rightarrow> [[(''evidence_id'', k), (''change'', PStr ''added'')]]
      | (None, None) \<Rightarrow> [])"

definition diff_facts :: "case_state \<Rightarrow> case_state \<Rightarrow> pydict list result" where
  "diff_facts original modified =
     bind_result (facts_map original) (\<lambda>o_map. bind_result (facts_map modified) (\<lambda>m_map.
       Inr (concat (map (fact_change o_map m_map) (all_ids o_map m_map)))))"

definition diff_evidence :: "case_state \<Rightarrow> case_state \<Rightarrow> pydict list result" where
  "diff_evidence original modified =
     bind_result (evidence_map original) (\<lambda>o_map. bind_result (evidence_map modified) (\<lambda>m_map.
       Inr (concat (map (evidence_change o_map m_map) (all_ids o_map m_map)))))"

definition arguments_of :: "case_state \<Rightarrow> pydict" where
  "arguments_of c = (case cs_arguments c of None \<Rightarrow> [] | Some d \<Rightarrow> d)"

definition side_delta :: "pydict \<Rightarrow> pydict \<Rightarrow> string \<Rightarrow> pydict list" where
  "side_delta orig modified side =
     (case (pget_def orig side (PDict []), pget_def modified side (PDict [])) of
        (PDict a, PDict b) \<Rightarrow>
          if pget a ''overall_strength'' = PNone \<and> pget b ''overall_strength'' = PNone then []
          else [[(''side'', PStr side), (''original_strength'', pget a ''overall_strength''),
                 (''modified_strength'', pget b ''overall_strength'')]]
      | _ \<Rightarrow> [])"

definition diff_arguments :: "case_state \<Rightarrow> case_state \<Rightarrow> pydict list" where
  "diff_arguments original modified =
     concat (map (side_delta (arguments_of original) (arguments_of modified))
       [''prosecution'', ''defense'', ''claimant'', ''respondent''])"

definition opt_val :: "('a \<Rightarrow> pyval) \<Rightarrow> 'a option \<Rightarrow> pyval" where
  "opt_val f x = (case x of None \<Rightarrow> PNone | Some v \<Rightarrow> f v)"

definition conclusion_of :: "case_state \<Rightarrow> pyval" where
  "conclusion_of c =
     (case cs_hearing_analysis c of None \<Rightarrow> PNone | Some h \<Rightarrow> opt_val PStr (ha_preliminary_conclusion h))"

definition confidence_of :: "case_state \<Rightarrow> pyval" where
  "confidence_of c =
     (case cs_hearing_analysis c of None \<Rightarrow> PNone | Some h \<Rightarrow> opt_val PInt (ha_confidence_score h))"

definition diff_reasoning :: "case_state \<Rightarrow> case_state \<Rightarrow> pydict" where
  "diff_reasoning original modified =
     [(''original'', conclusion_of original), (''modified'', conclusion_of modified),
      (''original_confidence'', confidence_of original), (''modified_confidence'', confidence_of modified)]"

definition extract_analysis_summary :: "case_state \<Rightarrow> pydict option" where
  "extract_analysis_summary c =
     (case cs_hearing_analysis c of
        None \<Rightarrow> None
      | Some h \<Rightarrow> Some [(''preliminary_conclusion'', opt_val PStr (ha_preliminary_conclusion h)),
                       (''confidence_score'', opt_val PInt (ha_confidence_score h))])"

definition analysis_changed :: "case_state \<Rightarrow> case_state \<Rightarrow> bool" where
  "analysis_changed original modified =
     (case (extract_analysis_summary original, extract_analysis_summary modified) of
        (None, None) \<Rightarrow> False
      | (Some a, Some b) \<Rightarrow>
          \<not> py_eq (pget a ''preliminary_conclusion'') (pget b ''preliminary_conclusion'')
          \<or> \<not> py_eq (pget a ''confidence_score'') (pget b ''confidence_score'')
      | _ \<Rightarrow> True)"

definition get_confidence :: "case_state \<Rightarrow> int" where
  "get_confidence c =
     (case cs_hearing_analysis c of None \<Rightarrow> 0
      | Some h \<Rightarrow> (case ha_confidence_score h of None \<Rightarrow> 0 | Some n \<Rightarrow> n))"

definition confidence_delta :: "case_state \<Rightarrow> case_state \<Rightarrow> int" where
  "confidence_delta original modified = get_confidence modified - get_confidence original"

definition opt_dict :: "pydict option \<Rightarrow> pyval" where
  "opt_dict x = (case x of None \<Rightarrow> PNone | Some d \<Rightarrow> PDict d)"

definition generate_diff :: "case_state \<Rightarrow> case_state \<Rightarrow> pydict result" where
  "generate_diff original modified =
     bind_result (diff_facts original modified) (\<lambda>facts.
     bind_result (diff_evidence original modified) (\<lambda>evidence.
       Inr [(''fact_changes'', PList (map PDict facts)), (''evidence_changes'', PList (map PDict evidence)),
            (''argument_deltas'', PList (map PDict (diff_arguments original modified))),
            (''reasoning_diff'', PDict (diff_reasoning original modified)),
            (''analysis_changed'', PBool (analysis_changed original modified)),
            (''confidence_delta'', PInt (confidence_delta original modified)),
            (''original_analysis'', opt_dict (extract_analysis_summary original)),
            (''modified_analysis'', opt_dict (extract_analysis_summary modified))]))"

subsection \<open>What a diff shows\<close>

lemma fact_change_same:
  assumes "\<forall>d. keyed_get m k = Some d \<longrightarrow> wf_val (pget d ''status'')"
  shows "fact_change m m k = []"
  using assms by (auto simp: fact_change_def found_def split: option.split list.split)

lemma analysis_changed_same: "\<not> analysis_changed c c"
  by (auto simp: analysis_changed_def extract_analysis_summary_def opt_val_def pget_def
      split: option.split)

lemma confidence_delta_same: "confidence_delta c c = 0"
  by (simp add: confidence_delta_def)

text \<open>
  The synthesis phase stores each side's arguments as a list; the comparison of strengths expects
  a dictionary per side, so it never says anything about two results of the pipeline.
\<close>

definition pipeline_arguments :: "case_state \<Rightarrow> bool" where
  "pipeline_arguments c \<longleftrightarrow> cs_arguments c = None \<or> (\<exists>s. cs_arguments c = Some (case_arguments s))"

lemma case_arguments_are_lists: "map_of (case_arguments s) k = Some v \<Longrightarrow> \<exists>xs. v = PList xs"
  by (drule map_of_SomeD) (auto simp: case_arguments_def dump_strs_def split: if_splits)

lemma no_side_of_pipeline:
  assumes "pipeline_arguments c"
  shows "pget_def (arguments_of c) side (PDict []) = PDict []
      \<or> (\<exists>xs. pget_def (arguments_of c) side (PDict []) = PList xs)"
  using assms
  by (auto simp: pipeline_arguments_def arguments_of_def pget_def_def
      dest!: case_arguments_are_lists split: option.split)

lemma pipeline_arguments_show_no_delta:
  assumes "pipeline_arguments original" "pipeline_arguments modified"
  shows "diff_arguments original modified = []"
proof -
  have "side_delta (arguments_of original) (arguments_of modified) side = []" for side
    using no_side_of_pipeline [OF assms(1), of side] no_side_of_pipeline [OF assms(2), of side]
    by (auto simp: side_delta_def pget_def)
  then show ?thesis by (simp add: diff_arguments_def)
qed

text \<open>The keys of a diff, and those it does not have.\<close>

lemma diff_keys:
  assumes "generate_diff original modified = Inr d"
  shows "map_of d ''original_verdict'' = None" "map_of d ''modified_verdict'' = None"
    "map_of d ''verdict_changed'' = None"
    "map_of d ''analysis_changed'' = Some (PBool (analysis_changed original modified))"
    "map_of d ''confidence_delta'' = Some (PInt (confidence_delta original modified))"
  using assms by (auto simp: generate_diff_def bind_result_Inr)

section \<open>The fork\<close>

definition fork_thread_id_for :: "string \<Rightarrow> string \<Rightarrow> string \<Rightarrow> string" where
  "fork_thread_id_for case_id judge_id fork_uuid = case_id @ ''-whatif-'' @ judge_id @ ''-'' @ fork_uuid"

fun seed_node_for :: "modification_type \<Rightarrow> string" where
  "seed_node_for Fact_toggle = ''research_join''"
| "seed_node_for Evidence_exclusion = ''research_join''"
| "seed_node_for Witness_credibility = ''research_join''"
| "seed_node_for Legal_interpretation = ''research_join''"

definition seed_node :: "modification list \<Rightarrow> string" where
  "seed_node ms =
     (let nodes = remdups (map (\<lambda>m. seed_node_for (md_type m)) ms)
      in if length nodes > 1 then ''research_join''
         else (case nodes of [] \<Rightarrow> ''research_join'' | n # _ \<Rightarrow> n))"

text \<open>
  The state the fork starts from: the modified case, the research of the original run, and the
  later phases cleared. \<open>aupdate_state(..., as_node=n)\<close> on a fresh thread leaves it at the node
  after \<open>n\<close>. The log keeps that the first gate was passed before the fork.
\<close>

definition fork_state :: "case_state \<Rightarrow> string \<Rightarrow> graph_state \<Rightarrow> graph_state" where
  "fork_state modified fork_run_id orig =
     \<lparr>gs_case = modified, gs_run_id = fork_run_id, gs_extra_instructions = [], gs_retry_counts = [],
      gs_halt = None, gs_research_parts = gs_research_parts orig,
      gs_retrieved_source_ids = gs_retrieved_source_ids orig,
      gs_research_output = gs_research_output orig, gs_intake_output = gs_intake_output orig,
      gs_synthesis_output = None, gs_audit_output = None, gs_pending_action = PNone,
      gs_is_resume = True, gs_start_agent = None, gs_judge_messages = []\<rparr>"

definition no_modification :: py_error where "no_modification = ValueError"

definition create_whatif_fork ::
  "(string \<Rightarrow> thread option) \<Rightarrow> string \<Rightarrow> string \<Rightarrow> modification list \<Rightarrow> string \<Rightarrow> string
   \<Rightarrow> (string \<times> run) result" where
  "create_whatif_fork threads case_id judge_id ms fork_uuid fork_run_id =
     (if ms = [] then Inl no_modification
      else (case threads case_id of
              None \<Rightarrow> Inl (RuntimeErr ''create_whatif_fork: original thread has no terminal state'')
            | Some t \<Rightarrow>
                let orig = r_state (th_head t)
                in bind_result (apply_modifications ms (gs_case orig)) (\<lambda>modified.
                     Inr (fork_thread_id_for case_id judge_id fork_uuid,
                          \<lparr>r_pos = At (the (map_of graph_edges (seed_node ms))),
                           r_state = fork_state modified fork_run_id orig,
                           r_log = [event.Judge ''gate1'' PNone]\<rparr>))))"

text \<open>
  The driver: done when nothing is next, an advance when the run waits at a gate, a plain step
  otherwise; after \<open>max_steps\<close> rounds it gives up.
\<close>

definition advance_value :: pyval where "advance_value = PDict [(''action'', PStr ''advance'')]"

fun drive_whatif :: "nat \<Rightarrow> environment \<Rightarrow> agents \<Rightarrow> run \<Rightarrow> run result" where
  "drive_whatif 0 env ag r = Inl (RuntimeErr ''drive_whatif_to_terminal: fork did not reach END'')"
| "drive_whatif (Suc n) env ag r =
     (case r_pos r of
        Paused g payload \<Rightarrow> bind_result (answer env ag advance_value r) (drive_whatif n env ag)
      | At m \<Rightarrow> if m = end_node then Inr r
                else bind_result (run_to_pause step_limit env ag r) (drive_whatif n env ag)
      | Branches ns \<Rightarrow> bind_result (run_to_pause step_limit env ag r) (drive_whatif n env ag))"

declare drive_whatif.simps [simp del]

definition drive_max_steps :: nat where "drive_max_steps = 8"

lemma seed_position: "the (map_of graph_edges (seed_node ms)) = ''gate2_pause''"
proof -
  have node: "seed_node_for t = ''research_join''" for t by (cases t) simp_all
  define nodes where "nodes = remdups (map (\<lambda>m. seed_node_for (md_type m)) ms)"
  have "\<forall>n \<in> set nodes. n = ''research_join''" by (simp add: nodes_def node)
  then have "seed_node ms = ''research_join''"
    by (cases nodes) (simp_all add: seed_node_def Let_def flip: nodes_def)
  then show ?thesis by (simp add: graph_edges_def)
qed

lemma fork_run_ok:
  assumes "create_whatif_fork threads cid jid ms u rid = Inr (tid, r)"
  shows "run_ok r \<and> r_pos r = At ''gate2_pause'' \<and> advanced (r_log r) = [''gate1''] \<and> \<not> halt_decided (r_log r)
         \<and> steps_left (r_pos r) \<le> step_limit"
proof -
  obtain s where r: "r = \<lparr>r_pos = At ''gate2_pause'', r_state = s, r_log = [event.Judge ''gate1'' PNone]\<rparr>"
    using assms by (auto simp: create_whatif_fork_def bind_result_Inr Let_def seed_position split: if_splits option.splits)
  have log: "advanced [event.Judge ''gate1'' PNone] = [''gate1'']" "\<not> halt_decided [event.Judge ''gate1'' PNone]"
    by (simp_all add: advanced_def halt_decided_def decided_action_def)
  have "log_ok ([] @ [event.Judge ''gate1'' PNone])" by (simp only: log_ok_snoc log_ok_Nil)
  then show ?thesis
    using log by (simp add: r run_ok_def pos_ok_def node_ok_at steps_table_def step_limit_def)
qed

lemma drive_at_end: "r_pos r = At end_node \<Longrightarrow> drive_whatif (Suc n) env ag r = Inr r"
  by (simp add: drive_whatif.simps)

lemma advance_decides: "decided_action advance_value \<notin> {PStr ''rerun'', PStr ''halt''}"
  by code_simp

text \<open>From a gate the driver needs one round per gate left and one to see the end.\<close>

lemma drive_from_gate:
  assumes "well_behaved ag" "run_ok r" "settled r" "\<not> halt_decided (r_log r)"
    and "advanced (r_log r) = take k gate_names" "k \<le> length gate_names" "length gate_names - k < n"
  shows "\<exists>r'. drive_whatif n env ag r = Inr r' \<and> r_pos r' = At end_node \<and> advanced (r_log r') = gate_names
         \<and> (graph_step env)\<^sup>*\<^sup>* r r'"
  using assms(2-)
proof (induction "length gate_names - k" arbitrary: k n r)
  case 0
  then have k: "k = length gate_names" by simp
  then have "r_pos r = At end_node"
    using settled_position [OF 0(2,3)] 0(4,5) gate_index_less
    by (auto simp: gate_names_def gate_index_def split: if_splits)
  moreover obtain m where "n = Suc m" using 0 by (cases n) auto
  ultimately show ?case using 0 k by (auto simp: drive_at_end)
next
  case (Suc j)
  then have k: "k < length gate_names" by simp
  obtain m where n: "n = Suc m" using Suc.prems by (cases n) auto
  obtain payload where p: "r_pos r = Paused (gate_names ! k) payload"
    using settled_unhalted [OF Suc.prems(1-4) k] by blast
  obtain r1 where r1: "answer env ag advance_value r = Inr r1" "settled r1" "run_ok r1"
      "advanced (r_log r1) = take (Suc k) gate_names" "\<not> halt_decided (r_log r1)" "(graph_step env)\<^sup>*\<^sup>* r r1"
    using answer_settles [OF assms(1) Suc.prems(1) p, of env advance_value] advance_decides k
    by (auto simp: Suc.prems(4) take_Suc_conv_app_nth)
  have "j = length gate_names - Suc k" "Suc k \<le> length gate_names" "length gate_names - Suc k < m"
    using Suc.hyps(2) Suc.prems(5,6) n by auto
  from Suc.hyps(1) [OF this(1) r1(3,2,5,4) this(2,3)] show ?case
    using r1 by (auto simp: n drive_whatif.simps p)
qed

text \<open>C14: A fork made for a what-if scenario starts before the second gate and is driven to the end
  within five of the eight rounds the driver allows itself, whatever the agents answer: the drive
  never fails, passes the remaining gates and takes only steps of the graph.\<close>

theorem fork_is_driven_to_the_end:
  assumes "well_behaved ag" "create_whatif_fork threads cid jid ms u rid = Inr (tid, r)" "5 \<le> n"
  shows "\<exists>r'. drive_whatif n env ag r = Inr r' \<and> r_pos r' = At end_node \<and> advanced (r_log r') = gate_names
         \<and> (graph_step env)\<^sup>*\<^sup>* r r'"
proof -
  have fork: "run_ok r" "r_pos r = At ''gate2_pause''" "advanced (r_log r) = [''gate1'']" "\<not> halt_decided (r_log r)"
      "steps_left (r_pos r) \<le> step_limit"
    using fork_run_ok [OF assms(2)] by blast+
  obtain r1 where r1: "run_to_pause step_limit env ag r = Inr r1" "settled r1" "(graph_step env)\<^sup>*\<^sup>* r r1"
    using run_to_pause_settles [OF assms(1) fork(1,5)] by blast
  have ok: "run_ok r1" using run_ok_steps [OF r1(3) fork(1)] .
  have at: "advanced (r_log r1) = take 1 gate_names" "\<not> halt_decided (r_log r1)"
    using run_to_pause_log [OF r1(1)] fork by (simp_all add: gate_names_def)
  obtain m where n: "n = Suc m" "4 \<le> m" using assms(3) by (cases n) auto
  have "1 \<le> length gate_names" "length gate_names - 1 < m" using n by (simp_all add: gate_names_def)
  from drive_from_gate [OF assms(1) ok r1(2) at(2,1) this] obtain r' where
    "drive_whatif m env ag r1 = Inr r'" "r_pos r' = At end_node" "advanced (r_log r') = gate_names"
    "(graph_step env)\<^sup>*\<^sup>* r1 r'" by blast
  then show ?thesis
    using r1 fork(2) by (auto simp: n drive_whatif.simps intro: rtranclp_trans)
qed

definition silent_threads :: "string \<Rightarrow> thread option" where
  "silent_threads tid =
     (if tid = ''case7''
      then Some \<lparr>th_env = plain_env, th_agents = silent_agents, th_head = first_run case7, th_checkpoints = []\<rparr>
      else None)"

theorem fork_is_driven_to_the_end_witness:
  "\<exists>tid r r'. create_whatif_fork silent_threads ''case7'' ''j1'' [\<lparr>md_type = Fact_toggle, md_payload = []\<rparr>] ''u'' ''r2''
       = Inr (tid, r)
     \<and> drive_whatif drive_max_steps plain_env silent_agents r = Inr r' \<and> r_pos r' = At end_node"
proof -
  obtain tid r where f: "create_whatif_fork silent_threads ''case7'' ''j1'' [\<lparr>md_type = Fact_toggle, md_payload = []\<rparr>] ''u'' ''r2''
      = Inr (tid, r)"
    by (simp add: create_whatif_fork_def silent_threads_def apply_modification_def Let_def)
  have "5 \<le> drive_max_steps" by (simp add: drive_max_steps_def)
  from fork_is_driven_to_the_end [OF silent_agents_behave f this] f show ?thesis by blast
qed

section \<open>The stability score\<close>

definition classify_stability :: "int \<Rightarrow> string" where
  "classify_stability score =
     (if score \<ge> 85 then ''stable'' else if score \<ge> 60 then ''moderately_sensitive'' else ''highly_sensitive'')"

definition run_one_perturbation ::
  "environment \<Rightarrow> agents \<Rightarrow> (string \<Rightarrow> thread option) \<Rightarrow> string \<Rightarrow> string \<Rightarrow> string \<Rightarrow> string
   \<Rightarrow> perturbation \<Rightarrow> case_state result" where
  "run_one_perturbation env ag threads case_id judge_id fork_uuid fork_run_id p =
     bind_result (create_whatif_fork threads case_id judge_id [modification_of p] fork_uuid fork_run_id)
       (\<lambda>(tid, r). bind_result (drive_whatif drive_max_steps env ag r) (\<lambda>r'. Inr (gs_case (r_state r'))))"

fun modification_value :: "modification_type \<Rightarrow> string" where
  "modification_value Fact_toggle = ''fact_toggle''"
| "modification_value Evidence_exclusion = ''evidence_exclusion''"
| "modification_value Witness_credibility = ''witness_credibility''"
| "modification_value Legal_interpretation = ''legal_interpretation''"

text \<open>One entry per perturbation, with whether the verdict held; a fork that raised did not hold.\<close>

definition stability_detail :: "case_state \<Rightarrow> perturbation \<times> case_state result \<Rightarrow> (bool \<times> pydict) result" where
  "stability_detail c pr =
     (let (p, outcome) = pr;
          base = [(''description'', PStr (pt_description p)),
                  (''modification_type'', PStr (modification_value (pt_type p)))]
      in (case outcome of
            Inl e \<Rightarrow> Inr (False, base @ [(''error'', PStr (error_text e)), (''verdict_held'', PBool False)])
          | Inr modified \<Rightarrow>
              bind_result (generate_diff c modified) (\<lambda>d.
                let held = \<not> truthy (pget d ''analysis_changed'')
                in Inr (held, base @ [(''verdict_held'', PBool held),
                                      (''confidence_delta'', pget d ''confidence_delta'')]))))"

fun stability_details :: "case_state \<Rightarrow> (perturbation \<times> case_state result) list \<Rightarrow> (bool \<times> pydict) list result" where
  "stability_details c [] = Inr []"
| "stability_details c (pr # prs) =
     bind_result (stability_detail c pr) (\<lambda>d. bind_result (stability_details c prs) (\<lambda>ds. Inr (d # ds)))"

record stability_result =
  sy_score :: int
  sy_classification :: string
  sy_count :: nat
  sy_held :: nat
  sy_details :: "pydict list"

definition held_score :: "float_lib \<Rightarrow> nat \<Rightarrow> nat \<Rightarrow> int" where
  "held_score fl held all =
     py_int_of (fl_round fl (fl_round fl (of_nat held / of_nat all) * 100))"

definition compute_stability_score ::
  "float_lib \<Rightarrow> (pyval \<Rightarrow> string) \<Rightarrow> (nat \<Rightarrow> perturbation \<Rightarrow> case_state result) \<Rightarrow> case_state \<Rightarrow> nat
   \<Rightarrow> stability_result result" where
  "compute_stability_score fl rep run_one c n =
     (let ps = identify_perturbations rep c n
      in if ps = []
         then Inr \<lparr>sy_score = 100, sy_classification = ''stable'', sy_count = 0, sy_held = 0, sy_details = []\<rparr>
         else bind_result (stability_details c (zip ps (map (\<lambda>(i, p). run_one i p) (zip [0..<length ps] ps)))) (\<lambda>ds.
                let held = length (filter fst ds); all = length ps; score = held_score fl held all
                in Inr \<lparr>sy_score = score, sy_classification = classify_stability score, sy_count = all,
                        sy_held = held, sy_details = map snd ds\<rparr>))"

text \<open>Documented behaviour of binary floating point, far weaker than its error bound of 2^-53.\<close>

definition float_error_small :: "float_lib \<Rightarrow> bool" where
  "float_error_small fl \<longleftrightarrow>
     float_laws fl \<and> fl_round fl 1 = 1 \<and> fl_round fl 100 = 100
     \<and> (\<forall>x. 0 \<le> x \<longrightarrow> fl_round fl x \<le> x + x / 1000)"

lemma stability_details_length: "stability_details c prs = Inr ds \<Longrightarrow> length ds = length prs"
  by (induction prs arbitrary: ds) (auto simp: bind_result_Inr)

lemma held_score_bounds:
  assumes "float_error_small fl" "held \<le> all" "0 < all" "all \<le> 20"
  shows "0 \<le> held_score fl held all \<and> held_score fl held all \<le> 100
         \<and> (held_score fl held all = 100 \<longleftrightarrow> held = all)"
proof -
  let ?q = "of_nat held / of_nat all :: rat"
  have mono: "x \<le> y \<Longrightarrow> fl_round fl x \<le> fl_round fl y" for x y
    using assms(1) by (simp add: float_error_small_def float_laws_def)
  have z: "fl_round fl 0 = 0" and one: "fl_round fl 1 = 1" and hundred: "fl_round fl 100 = 100"
    and err: "\<And>x. 0 \<le> x \<Longrightarrow> fl_round fl x \<le> x + x / 1000"
    using assms(1) by (simp_all add: float_error_small_def float_laws_def)
  have q: "0 \<le> ?q" "?q \<le> 1" using assms(2,3) by simp_all
  have a: "0 \<le> fl_round fl ?q" "fl_round fl ?q \<le> 1" using mono [OF q(1)] mono [OF q(2)] z one by simp_all
  have b: "0 \<le> fl_round fl (fl_round fl ?q * 100)" "fl_round fl (fl_round fl ?q * 100) \<le> 100"
    using mono [of 0 "fl_round fl ?q * 100"] mono [of "fl_round fl ?q * 100" 100] a z hundred by simp_all
  then have bounds: "0 \<le> held_score fl held all" "held_score fl held all \<le> 100"
    by (simp_all add: held_score_def py_int_of_nonneg floor_le_iff)
  have "held_score fl held all < 100" if "held < all"
  proof -
    have "20 * held \<le> 19 * all" using that assms(4) by linarith
    then have "(of_nat (20 * held) :: rat) \<le> of_nat (19 * all)" by (rule of_nat_mono)
    then have "?q \<le> 19 / 20" using assms(3) by (simp add: divide_le_eq)
    then have "fl_round fl ?q \<le> 96 / 100" using err [OF q(1)] by simp
    then have "fl_round fl ?q * 100 \<le> 96" by simp
    moreover have "fl_round fl (fl_round fl ?q * 100) \<le> fl_round fl ?q * 100 + fl_round fl ?q * 100 / 1000"
      using a(1) by (intro err) simp
    ultimately have "fl_round fl (fl_round fl ?q * 100) < 100" by simp
    then show ?thesis using b(1) by (simp add: held_score_def py_int_of_nonneg floor_less_iff)
  qed
  moreover have "held_score fl held all = 100" if "held = all"
    using that assms(3) by (simp add: held_score_def one hundred py_int_of_def)
  ultimately show ?thesis using bounds assms(2) by (metis le_neq_implies_less less_irrefl)
qed

text \<open>The stability score of up to twenty perturbations, the most the API accepts, lies between 0
  and 100 and is 100 exactly when the verdict held in every one of them; there is one detail per
  perturbation, no more than asked for, and the class is the one of the score. Floats enter only
  through rounding that keeps the order, with a relative error of a thousandth at most.\<close>

lemma stability_score_counts_what_held:
  assumes "float_error_small fl" "n \<le> 20" "compute_stability_score fl rep run_one c n = Inr s"
  shows "0 \<le> sy_score s \<and> sy_score s \<le> 100 \<and> (sy_score s = 100 \<longleftrightarrow> sy_held s = sy_count s)
         \<and> sy_classification s = classify_stability (sy_score s)
         \<and> sy_held s \<le> sy_count s \<and> sy_count s \<le> n \<and> length (sy_details s) = sy_count s"
proof (cases "identify_perturbations rep c n = []")
  case True
  then show ?thesis using assms(3)
    by (auto simp: compute_stability_score_def classify_stability_def)
next
  case False
  let ?ps = "identify_perturbations rep c n"
  have len: "length ?ps \<le> n" by (simp add: identify_perturbations_def)
  have pos: "0 < length ?ps" using False by simp
  obtain ds where ds: "stability_details c (zip ?ps (map (\<lambda>(i, p). run_one i p) (zip [0..<length ?ps] ?ps))) = Inr ds"
    and s: "sy_score s = held_score fl (length (filter fst ds)) (length ?ps)"
      "sy_classification s = classify_stability (sy_score s)" "sy_count s = length ?ps"
      "sy_held s = length (filter fst ds)" "sy_details s = map snd ds"
    using assms(3) False by (auto simp: compute_stability_score_def bind_result_Inr Let_def)
  have l: "length ds = length ?ps" using stability_details_length [OF ds] by simp
  have "length (filter fst ds) \<le> length ?ps" unfolding l [symmetric] by (rule length_filter_le)
  moreover have "length ?ps \<le> 20" using len assms(2) by simp
  ultimately show ?thesis using held_score_bounds [OF assms(1) _ pos] s l len by simp
qed

lemma exact_floats_small: "float_error_small exact_floats"
  by (simp add: float_error_small_def exact_floats_laws) (simp add: exact_floats_def)

definition half_held :: "stability_result result" where
  "half_held =
     compute_stability_score exact_floats (\<lambda>_. [])
       (\<lambda>i p. if i = 0 then Inr (gs_case contested_state) else Inl ValueError) (gs_case contested_state) 5"

lemma stability_score_counts_what_held_witness:
  "\<exists>s. half_held = Inr s \<and> sy_score s = 50 \<and> sy_score s \<le> 100 \<and> sy_held s \<noteq> sy_count s"
proof -
  have run: "(case half_held of Inr s \<Rightarrow> sy_score s | Inl _ \<Rightarrow> 0) = 50" by code_simp
  then obtain s where s: "half_held = Inr s" by (auto split: sum.splits)
  have score: "sy_score s = 50" using run unfolding s by simp
  have "(5 :: nat) \<le> 20" by simp
  from stability_score_counts_what_held [OF exact_floats_small this s [unfolded half_held_def]] score
  have "sy_held s \<noteq> sy_count s" by simp
  moreover have "sy_score s \<le> 100" using score by simp
  ultimately show ?thesis using s score by blast
qed

end
