(* ===== verification/Whatif_Api.thy ===== *)
theory Whatif_Api
  imports Whatif
begin

text \<open>
  The tables of \<open>models/what_if.py\<close> and the routes and background tasks of
  \<open>api/routes/what_if.py\<close> on them, with the jobs of \<open>workers/tasks.py\<close> that run the tasks.
\<close>

section \<open>Tables\<close>

datatype scenario_status = Sc_pending | Sc_running | Sc_completed | Sc_failed | Sc_cancelled

datatype stability_status = Sb_pending | Sb_computing | Sb_completed | Sb_failed

record scenario_row =
  sw_id :: uuid
  sw_case :: uuid
  sw_original_run :: string
  sw_scenario_run :: string
  sw_type :: modification_type
  sw_description :: "string option"
  sw_payload :: "pydict option"
  sw_status :: scenario_status
  sw_created_by :: uuid
  sw_created_at :: int
  sw_completed_at :: "int option"

record whatif_result_row =
  wr_scenario :: uuid
  wr_original :: pyval
  wr_modified :: pyval
  wr_diff_view :: pydict
  wr_changed :: pyval

record stability_row =
  sb_id :: uuid
  sb_case :: uuid
  sb_run :: string
  sb_score :: int
  sb_classification :: string
  sb_count :: nat
  sb_held :: nat
  sb_details :: "pydict option"
  sb_status :: stability_status
  sb_created_at :: int
  sb_completed_at :: "int option"

text \<open>The tables beside the case database, and the checkpointed threads by thread id.\<close>

record whatif_world =
  ww_db :: database
  ww_scenarios :: "scenario_row list"
  ww_results :: "whatif_result_row list"
  ww_stability :: "stability_row list"
  ww_threads :: "string \<Rightarrow> thread option"

definition find_scenario :: "uuid \<Rightarrow> whatif_world \<Rightarrow> scenario_row option" where
  "find_scenario sid w = find (\<lambda>s. sw_id s = sid) (ww_scenarios w)"

definition update_scenario :: "uuid \<Rightarrow> (scenario_row \<Rightarrow> scenario_row) \<Rightarrow> whatif_world \<Rightarrow> whatif_world" where
  "update_scenario sid f w =
     w\<lparr>ww_scenarios := map (\<lambda>s. if sw_id s = sid then f s else s) (ww_scenarios w)\<rparr>"

definition scenario_to :: "scenario_status \<Rightarrow> uuid \<Rightarrow> whatif_world \<Rightarrow> whatif_world" where
  "scenario_to st sid = update_scenario sid (\<lambda>s. s\<lparr>sw_status := st\<rparr>)"

definition find_stability :: "uuid \<Rightarrow> whatif_world \<Rightarrow> stability_row option" where
  "find_stability sid w = find (\<lambda>s. sb_id s = sid) (ww_stability w)"

definition update_stability :: "uuid \<Rightarrow> (stability_row \<Rightarrow> stability_row) \<Rightarrow> whatif_world \<Rightarrow> whatif_world" where
  "update_stability sid f w =
     w\<lparr>ww_stability := map (\<lambda>s. if sb_id s = sid then f s else s) (ww_stability w)\<rparr>"

definition stability_to :: "stability_status \<Rightarrow> uuid \<Rightarrow> whatif_world \<Rightarrow> whatif_world" where
  "stability_to st sid = update_stability sid (\<lambda>s. s\<lparr>sb_status := st\<rparr>)"

section \<open>The background tasks\<close>

text \<open>
  What a task takes from outside: the compiled graph with its agents, the decoder and validation of
  checkpoints, and the fresh identifiers of its forks.
\<close>

record task_env =
  te_env :: environment
  te_agents :: agents
  te_loads :: "string \<Rightarrow> pyval option"
  te_validate :: "pyval \<Rightarrow> case_state option"
  te_fork_uuid :: "nat \<Rightarrow> string"
  te_fork_run :: "nat \<Rightarrow> string"
  te_floats :: float_lib
  te_text :: "pyval \<Rightarrow> string"

text \<open>\<open>d[k]\<close>.\<close>

definition subscript :: "pydict \<Rightarrow> string \<Rightarrow> pyval result" where
  "subscript d k = (case map_of d k of None \<Rightarrow> Inl (KeyErr k) | Some v \<Rightarrow> Inr v)"

definition fork_and_drive ::
  "task_env \<Rightarrow> scenario_row \<Rightarrow> whatif_world \<Rightarrow> (string \<times> run) result" where
  "fork_and_drive te sc w =
     bind_result (create_whatif_fork (ww_threads w) (sw_case sc) (sw_created_by sc)
         [\<lparr>md_type = sw_type sc, md_payload = (case sw_payload sc of None \<Rightarrow> [] | Some d \<Rightarrow> d)\<rparr>]
         (te_fork_uuid te 0) (te_fork_run te 0))
       (\<lambda>(tid, r). bind_result (drive_whatif drive_max_steps (te_env te) (te_agents te) r)
         (\<lambda>r'. Inr (tid, r')))"

definition scenario_result :: "uuid \<Rightarrow> case_state \<Rightarrow> case_state \<Rightarrow> whatif_result_row result" where
  "scenario_result sid original modified =
     bind_result (generate_diff original modified) (\<lambda>d.
     bind_result (subscript d ''original_verdict'') (\<lambda>a.
     bind_result (subscript d ''modified_verdict'') (\<lambda>b.
     bind_result (subscript d ''verdict_changed'') (\<lambda>ch.
       Inr \<lparr>wr_scenario = sid, wr_original = a, wr_modified = b, wr_diff_view = d, wr_changed = ch\<rparr>))))"

definition keep_fork :: "task_env \<Rightarrow> string \<Rightarrow> run \<Rightarrow> whatif_world \<Rightarrow> whatif_world" where
  "keep_fork te tid r w =
     w\<lparr>ww_threads := (ww_threads w)(tid \<mapsto>
         \<lparr>th_env = te_env te, th_agents = te_agents te, th_head = r, th_checkpoints = [r]\<rparr>)\<rparr>"

text \<open>The run id of a case, absent or empty when no run has finished.\<close>

definition known_run :: "case_row \<Rightarrow> string option" where
  "known_run c = (case ca_latest_run_id c of Some (x # xs) \<Rightarrow> Some (x # xs) | _ \<Rightarrow> None)"

definition run_loaded_scenario ::
  "task_env \<Rightarrow> int \<Rightarrow> scenario_row \<Rightarrow> case_state \<Rightarrow> whatif_world \<Rightarrow> whatif_world \<times> py_error option" where
  "run_loaded_scenario te now sc original w =
     (case fork_and_drive te sc w of
        Inl e \<Rightarrow> (scenario_to Sc_failed (sw_id sc) w, Some e)
      | Inr (tid, r) \<Rightarrow>
          let w1 = keep_fork te tid r w
          in (case scenario_result (sw_id sc) original (gs_case (r_state r)) of
                Inl e \<Rightarrow> (scenario_to Sc_failed (sw_id sc) w1, Some e)
              | Inr row \<Rightarrow>
                  (update_scenario (sw_id sc)
                     (\<lambda>s. s\<lparr>sw_scenario_run := tid, sw_status := Sc_completed, sw_completed_at := Some now\<rparr>)
                     (w1\<lparr>ww_results := ww_results w1 @ [row]\<rparr>), None)))"

definition run_whatif_scenario ::
  "task_env \<Rightarrow> int \<Rightarrow> uuid \<Rightarrow> whatif_world \<Rightarrow> whatif_world \<times> py_error option" where
  "run_whatif_scenario te now sid w =
     (case find_scenario sid w of
        None \<Rightarrow> (w, None)
      | Some sc \<Rightarrow>
          let w1 = scenario_to Sc_running sid w; failed = scenario_to Sc_failed sid w1
          in (case find_case (sw_case sc) (ww_db w1) of
                None \<Rightarrow> (failed, None)
              | Some c \<Rightarrow>
                  (case known_run c of
                     None \<Rightarrow> (failed, None)
                   | Some rid \<Rightarrow>
                       (case load_case_state (te_loads te) (te_validate te) (ca_id c) rid
                               (db_checkpoints (ww_db w1)) of
                          Inl Unhashable_version \<Rightarrow> (failed, Some (OtherError ''TypeError''))
                        | Inl _ \<Rightarrow> (failed, None)
                        | Inr None \<Rightarrow> (failed, None)
                        | Inr (Some original) \<Rightarrow> run_loaded_scenario te now sc original w1))))"

definition whatif_runner :: "task_env \<Rightarrow> int \<Rightarrow> whatif_world runner" where
  "whatif_runner te now job trace_id w =
     (case jb_target_id job of None \<Rightarrow> (w, None) | Some sid \<Rightarrow> run_whatif_scenario te now sid w)"

text \<open>The forks of a stability run stay in the checkpoint store under their own ids, which nothing reads.\<close>

definition run_loaded_stability ::
  "task_env \<Rightarrow> int \<Rightarrow> stability_row \<Rightarrow> case_row \<Rightarrow> string \<Rightarrow> case_state \<Rightarrow> whatif_world
   \<Rightarrow> whatif_world \<times> py_error option" where
  "run_loaded_stability te now sb c rid original w =
     (case compute_stability_score (te_floats te) (te_text te)
             (\<lambda>i p. run_one_perturbation (te_env te) (te_agents te) (ww_threads w) (ca_id c)
                      (''stab-'' @ sb_id sb) (te_fork_uuid te i) (te_fork_run te i) p)
             original (sb_count sb) of
        Inl e \<Rightarrow>
          (update_stability (sb_id sb) (\<lambda>s. s\<lparr>sb_run := rid, sb_status := Sb_failed\<rparr>) w, Some e)
      | Inr res \<Rightarrow>
          (update_stability (sb_id sb)
             (\<lambda>s. s\<lparr>sb_run := rid, sb_score := sy_score res, sb_classification := sy_classification res,
                    sb_held := sy_held res,
                    sb_details := Some [(''details'', PList (map PDict (sy_details res)))],
                    sb_status := Sb_completed, sb_completed_at := Some now\<rparr>) w, None))"

definition run_stability_computation ::
  "task_env \<Rightarrow> int \<Rightarrow> uuid \<Rightarrow> whatif_world \<Rightarrow> whatif_world \<times> py_error option" where
  "run_stability_computation te now sid w =
     (case find_stability sid w of
        None \<Rightarrow> (w, None)
      | Some sb \<Rightarrow>
          let w1 = stability_to Sb_computing sid w; failed = stability_to Sb_failed sid w1
          in (case find_case (sb_case sb) (ww_db w1) of
                None \<Rightarrow> (failed, None)
              | Some c \<Rightarrow>
                  (case known_run c of
                     None \<Rightarrow> (failed, None)
                   | Some rid \<Rightarrow>
                       (case load_case_state (te_loads te) (te_validate te) (ca_id c) rid
                               (db_checkpoints (ww_db w1)) of
                          Inl Unhashable_version \<Rightarrow> (failed, Some (OtherError ''TypeError''))
                        | Inl _ \<Rightarrow> (failed, None)
                        | Inr None \<Rightarrow> (failed, None)
                        | Inr (Some original) \<Rightarrow>
                            run_loaded_stability te now (sb\<lparr>sb_status := Sb_computing\<rparr>) c rid original w1))))"

definition stability_runner :: "task_env \<Rightarrow> int \<Rightarrow> whatif_world runner" where
  "stability_runner te now job trace_id w =
     (case jb_target_id job of None \<Rightarrow> (w, None) | Some sid \<Rightarrow> run_stability_computation te now sid w)"

section \<open>Endpoints\<close>

record whatif_request =
  wq_type :: modification_type
  wq_payload :: pydict
  wq_description :: "string option"

text \<open>A repeated identifier cannot occur: rows are inserted under fresh ones.\<close>

definition enqueue_target_job ::
  "request \<Rightarrow> uuid \<Rightarrow> pipeline_job_type \<Rightarrow> uuid \<Rightarrow> database \<Rightarrow> database" where
  "enqueue_target_job rq cid jt target db =
     db\<lparr>db_jobs := fst (enqueue_outbox_job (rq_span rq) (rq_now rq) (rq_job_id rq) cid jt (Some target)
                          None None (db_jobs db))\<rparr>"

definition submit_whatif_scenario ::
  "request \<Rightarrow> uuid \<Rightarrow> uuid \<Rightarrow> string \<Rightarrow> whatif_request \<Rightarrow> whatif_world \<Rightarrow> whatif_world result" where
  "submit_whatif_scenario rq cid sid run_uuid body w =
     bind_result (require_role [user_role.Judge] rq) (\<lambda>_.
       (case find_case cid (ww_db w) of
          None \<Rightarrow> Inl not_found
        | Some c \<Rightarrow>
            if ca_status c \<noteq> S_ready_for_review
            then Inl (HttpError 400 (''Case must be in '' @ quote ''ready_for_review'' @ '' status. Current status: ''
                        @ quote (status_value (ca_status c))))
            else (case known_run c of
                    None \<Rightarrow> Inl (HttpError 409 ''Case has no terminal pipeline run on record'')
                  | Some rid \<Rightarrow>
                      let row = \<lparr>sw_id = sid, sw_case = cid, sw_original_run = rid, sw_scenario_run = run_uuid,
                                 sw_type = wq_type body, sw_description = wq_description body,
                                 sw_payload = Some (wq_payload body), sw_status = Sc_pending,
                                 sw_created_by = us_id (rq_user rq), sw_created_at = rq_now rq,
                                 sw_completed_at = None\<rparr>
                      in Inr (w\<lparr>ww_scenarios := ww_scenarios w @ [row],
                                ww_db := enqueue_target_job rq cid Job_whatif_scenario sid (ww_db w)\<rparr>))))"

record whatif_view =
  wv_scenario :: scenario_row
  wv_result :: "whatif_result_row option"

definition get_whatif_result :: "request \<Rightarrow> uuid \<Rightarrow> uuid \<Rightarrow> whatif_world \<Rightarrow> whatif_view result" where
  "get_whatif_result rq cid sid w =
     bind_result (require_role [user_role.Judge] rq) (\<lambda>_.
       (case find (\<lambda>s. sw_id s = sid \<and> sw_case s = cid) (ww_scenarios w) of
          None \<Rightarrow> Inl (HttpError 404 ''Scenario not found'')
        | Some s \<Rightarrow>
            if sw_created_by s \<noteq> us_id (rq_user rq) then Inl (HttpError 404 ''Scenario not found'')
            else Inr \<lparr>wv_scenario = s, wv_result = find (\<lambda>r. wr_scenario r = sw_id s) (ww_results w)\<rparr>))"

definition trigger_stability_score ::
  "request \<Rightarrow> uuid \<Rightarrow> uuid \<Rightarrow> string \<Rightarrow> nat \<Rightarrow> whatif_world \<Rightarrow> whatif_world result" where
  "trigger_stability_score rq cid sid run_uuid n w =
     (if n < 1 \<or> 20 < n then Inl (HttpError 422 ''Validation error'')
      else bind_result (require_role [user_role.Judge] rq) (\<lambda>_.
       (case find_case cid (ww_db w) of
          None \<Rightarrow> Inl not_found
        | Some c \<Rightarrow>
            let row = \<lparr>sb_id = sid, sb_case = cid, sb_run = run_uuid, sb_score = 0, sb_classification = ''stable'',
                       sb_count = n, sb_held = 0, sb_details = None, sb_status = Sb_pending,
                       sb_created_at = rq_now rq, sb_completed_at = None\<rparr>
            in Inr (w\<lparr>ww_stability := ww_stability w @ [row],
                      ww_db := enqueue_target_job rq cid Job_stability_computation sid (ww_db w)\<rparr>))))"

text \<open>The newest row of the case, by time of creation.\<close>

definition newest :: "stability_row list \<Rightarrow> stability_row option" where
  "newest rows =
     (case sort_key (\<lambda>s. - sb_created_at s) rows of [] \<Rightarrow> None | s # _ \<Rightarrow> Some s)"

definition get_stability_score :: "request \<Rightarrow> uuid \<Rightarrow> whatif_world \<Rightarrow> stability_row result" where
  "get_stability_score rq cid w =
     bind_result (require_role [user_role.Judge] rq) (\<lambda>_.
       (case newest (filter (\<lambda>s. sb_case s = cid) (ww_stability w)) of
          None \<Rightarrow> Inl (HttpError 404 ''No stability score found for this case'')
        | Some s \<Rightarrow> Inr s))"

section \<open>Properties\<close>

lemma find_update_scenario:
  "(\<And>s. sw_id (f s) = sw_id s) \<Longrightarrow>
   find_scenario sid' (update_scenario sid f w)
     = (if sid' = sid then map_option f (find_scenario sid w) else find_scenario sid' w)"
proof -
  assume keep: "\<And>s. sw_id (f s) = sw_id s"
  have "find (\<lambda>s. sw_id s = sid') (map (\<lambda>s. if sw_id s = sid then f s else s) ss)
      = (if sid' = sid then map_option f (find (\<lambda>s. sw_id s = sid) ss) else find (\<lambda>s. sw_id s = sid') ss)" for ss
    by (induction ss) (auto simp: keep)
  then show ?thesis by (simp add: find_scenario_def update_scenario_def)
qed

lemma find_scenario_to [simp]:
  "find_scenario sid' (scenario_to st sid w)
     = (if sid' = sid then map_option (\<lambda>s. s\<lparr>sw_status := st\<rparr>) (find_scenario sid w) else find_scenario sid' w)"
  by (simp add: scenario_to_def find_update_scenario)

lemma scenario_to_frame [simp]:
  "ww_results (scenario_to st sid w) = ww_results w" "ww_db (scenario_to st sid w) = ww_db w"
  "ww_stability (scenario_to st sid w) = ww_stability w"
  by (simp_all add: scenario_to_def update_scenario_def)

lemma keep_fork_frame [simp]:
  "find_scenario sid (keep_fork te tid r w) = find_scenario sid w"
  "ww_results (keep_fork te tid r w) = ww_results w" "ww_db (keep_fork te tid r w) = ww_db w"
  by (simp_all add: keep_fork_def find_scenario_def)

lemma find_scenario_id: "find_scenario sid w = Some sc \<Longrightarrow> sw_id sc = sid"
  unfolding find_scenario_def by (drule find_Some_in) simp

text \<open>The result row is built from keys that a diff does not have.\<close>

lemma no_scenario_result: "\<exists>e. scenario_result sid original modified = Inl e"
  by (cases "generate_diff original modified") (auto simp: scenario_result_def subscript_def diff_keys)

lemma loaded_scenario_fails:
  "\<exists>w' e. run_loaded_scenario te now sc original w = (w', Some e)
     \<and> find_scenario sid w' = (if sid = sw_id sc then map_option (\<lambda>s. s\<lparr>sw_status := Sc_failed\<rparr>) (find_scenario sid w)
                               else find_scenario sid w)
     \<and> ww_results w' = ww_results w \<and> ww_db w' = ww_db w"
proof (cases "fork_and_drive te sc w")
  case (Inr tr)
  obtain tid r where tr: "tr = (tid, r)" by fastforce
  obtain e where "scenario_result (sw_id sc) original (gs_case (r_state r)) = Inl e"
    using no_scenario_result by blast
  then show ?thesis using Inr by (simp add: run_loaded_scenario_def tr Let_def)
qed (simp add: run_loaded_scenario_def)

text \<open>C15: No what-if scenario ever completes. Whatever the agents answer and whatever the checkpoint
  holds, the task leaves a scenario that exists failed, stores no result and touches neither the case
  database nor another scenario: once the fork has run, the task reads keys of the diff that
  \<open>generate_diff\<close> does not return.\<close>

theorem whatif_scenario_never_completes:
  assumes "find_scenario sid w = Some sc"
  shows "\<exists>w' r sc'. run_whatif_scenario te now sid w = (w', r)
     \<and> find_scenario sid w' = Some sc' \<and> sw_status sc' = Sc_failed \<and> sw_completed_at sc' = sw_completed_at sc
     \<and> ww_results w' = ww_results w \<and> ww_db w' = ww_db w
     \<and> (\<forall>other. other \<noteq> sid \<longrightarrow> find_scenario other w' = find_scenario other w)"
proof -
  let ?w1 = "scenario_to Sc_running sid w"
  have id: "sw_id sc = sid" using find_scenario_id [OF assms] .
  have loaded: "\<exists>w' r sc'. run_loaded_scenario te now sc original ?w1 = (w', r)
     \<and> find_scenario sid w' = Some sc' \<and> sw_status sc' = Sc_failed \<and> sw_completed_at sc' = sw_completed_at sc
     \<and> ww_results w' = ww_results w \<and> ww_db w' = ww_db w
     \<and> (\<forall>other. other \<noteq> sid \<longrightarrow> find_scenario other w' = find_scenario other w)" for original
  proof -
    obtain w' e where l: "run_loaded_scenario te now sc original ?w1 = (w', Some e)"
        "ww_results w' = ww_results ?w1" "ww_db w' = ww_db ?w1"
      using loaded_scenario_fails [of te now sc original ?w1] by blast
    have "find_scenario other w' = (if other = sid then Some (sc\<lparr>sw_status := Sc_failed\<rparr>) else find_scenario other w)" for other
      using loaded_scenario_fails [of te now sc original ?w1 other] l(1) assms id by (auto split: if_splits)
    then show ?thesis using l by auto
  qed
  show ?thesis
    using assms loaded
    by (auto simp: run_whatif_scenario_def Let_def split: option.split sum.split load_error.split)
qed

text \<open>A scenario on a case whose run can be forked, with a readable checkpoint.\<close>

definition contested_case_row :: case_row where
  "contested_case_row = case_row1\<lparr>ca_id := ''case7'', ca_status := S_ready_for_review, ca_latest_run_id := Some ''run1''\<rparr>"

definition scenario1 :: scenario_row where
  "scenario1 = \<lparr>sw_id = ''s1'', sw_case = ''case7'', sw_original_run = ''run1'', sw_scenario_run = ''x'',
     sw_type = Fact_toggle, sw_description = None, sw_payload = None, sw_status = Sc_pending,
     sw_created_by = ''j1'', sw_created_at = 0, sw_completed_at = None\<rparr>"

definition contested_world :: whatif_world where
  "contested_world =
     \<lparr>ww_db = (w_db ready_world)\<lparr>db_cases := [contested_case_row],
                db_checkpoints := [\<lparr>ck_case = ''case7'', ck_run = ''run1'', ck_agent = ''terminal'',
                                    ck_state = PDict [(''schema_version'', PInt 3)]\<rparr>]\<rparr>,
      ww_scenarios = [scenario1], ww_results = [], ww_stability = [], ww_threads = silent_threads\<rparr>"

definition silent_task_env :: task_env where
  "silent_task_env = \<lparr>te_env = plain_env, te_agents = silent_agents, te_loads = (\<lambda>_. None),
     te_validate = (\<lambda>_. Some (gs_case case7)), te_fork_uuid = (\<lambda>_. ''u''), te_fork_run = (\<lambda>_. ''r2''),
     te_floats = exact_floats, te_text = (\<lambda>_. [])\<rparr>"

theorem whatif_scenario_never_completes_witness:
  "\<exists>w' r sc'. run_whatif_scenario silent_task_env 5 ''s1'' contested_world = (w', r)
     \<and> find_scenario ''s1'' w' = Some sc' \<and> sw_status sc' = Sc_failed \<and> ww_results w' = []"
proof -
  have f: "find_scenario ''s1'' contested_world = Some scenario1"
    by (simp add: find_scenario_def contested_world_def scenario1_def)
  have "ww_results contested_world = []" by (simp add: contested_world_def)
  with whatif_scenario_never_completes [OF f, of silent_task_env 5] show ?thesis by auto
qed

text \<open>In that world the checkpoint is read and the fork runs to its end; the task then fails on the key.\<close>

lemma contested_world_reaches_the_diff:
  "snd (run_whatif_scenario silent_task_env 5 ''s1'' contested_world) = Some (KeyErr ''original_verdict'')"
  by code_simp

text \<open>A what-if scenario is private to the judge who made it: what a judge sees under any case and
  scenario id is what there would be to see if the scenarios of all other judges did not exist.\<close>

lemma scenarios_are_private_to_their_judge:
  assumes "distinct (map sw_id (ww_scenarios w))"
  shows "get_whatif_result rq cid sid w
    = get_whatif_result rq cid sid
        (w\<lparr>ww_scenarios := filter (\<lambda>s. sw_created_by s = us_id (rq_user rq)) (ww_scenarios w)\<rparr>)"
proof -
  let ?P = "\<lambda>s. sw_id s = sid \<and> sw_case s = cid" and ?mine = "\<lambda>s. sw_created_by s = us_id (rq_user rq)"
  have "find ?P (filter ?mine ss) = (case find ?P ss of None \<Rightarrow> None | Some s \<Rightarrow> if ?mine s then Some s else None)"
    if "distinct (map sw_id ss)" for ss
    using that
  proof (induction ss)
    case (Cons s ss)
    have "find ?P (filter ?mine ss) = None" if "?P s"
    proof -
      have "sid \<notin> sw_id ` set ss" using that Cons.prems by auto
      then show ?thesis by (auto simp: find_None_iff)
    qed
    then show ?case using Cons by auto
  qed simp
  from this [OF assms] show ?thesis
    by (auto simp: get_whatif_result_def bind_result_def split: option.split sum.split)
qed

lemma scenarios_are_private_to_their_judge_witness:
  "get_whatif_result (judge1\<lparr>rq_user := \<lparr>us_id = ''j2'', us_role = user_role.Judge\<rparr>\<rparr>) ''case7'' ''s1'' contested_world
     = Inl (HttpError 404 ''Scenario not found'')"
proof -
  have "distinct (map sw_id (ww_scenarios contested_world))" by (simp add: contested_world_def)
  from scenarios_are_private_to_their_judge [OF this, of "judge1\<lparr>rq_user := \<lparr>us_id = ''j2'', us_role = user_role.Judge\<rparr>\<rparr>" "''case7''" "''s1''"]
  show ?thesis by (simp add: get_whatif_result_def contested_world_def scenario1_def require_role_def)
qed

text \<open>A stored submission: the scenario and its job are inserted together.\<close>

lemma submission_enqueues_its_job:
  assumes "submit_whatif_scenario rq cid sid run_uuid body w = Inr w'"
  shows "\<exists>row job. ww_scenarios w' = ww_scenarios w @ [row] \<and> sw_id row = sid \<and> sw_status row = Sc_pending
     \<and> sw_created_by row = us_id (rq_user rq)
     \<and> db_jobs (ww_db w') = db_jobs (ww_db w) @ [job] \<and> jb_type job = Job_whatif_scenario
     \<and> jb_target_id job = Some sid \<and> jb_status job = Job_pending"
  using assms
  by (auto simp: submit_whatif_scenario_def bind_result_Inr enqueue_target_job_def enqueue_outbox_job_def Let_def
      split: option.splits if_splits)

end
