(* ===== verification/Case_View.thy ===== *)
theory Case_View
  imports System "HOL-Library.Multiset"
begin

text \<open>
  What the API shows of a case: the jurisdiction summary, the progress of the pipeline, the reason of an
  escalation, the summary and the detail of \<open>api/routes/cases.py\<close>, and the listing with its filters
  and pages. The names of the agents come from \<open>pipeline/manifest.py\<close>.
\<close>

section \<open>Numbers as text\<close>

text \<open>\<open>round(x)\<close>, to the even neighbour on a tie, and the format \<open>:,.0f\<close> of an amount.\<close>

definition round_half_even :: "rat \<Rightarrow> int" where
  "round_half_even r =
     (let f = floor r; d = r - of_int f
      in if d < 1 / 2 then f else if d > 1 / 2 then f + 1 else if even f then f else f + 1)"

fun group_thousands :: "string \<Rightarrow> string" where
  "group_thousands (a # b # c # d # ds) = a # b # c # CHR '','' # group_thousands (d # ds)"
| "group_thousands ds = ds"

definition amount_text :: "rat \<Rightarrow> string" where
  "amount_text r =
     (let n = round_half_even r; s = rev (group_thousands (rev (digits_of (nat \<bar>n\<bar>))))
      in if r < 0 then ''-'' @ s else s)"

lemma round_half_even_bounds:
  assumes "of_int a \<le> r" "r \<le> of_int b"
  shows "a \<le> round_half_even r \<and> round_half_even r \<le> b"
proof -
  have lo: "a \<le> floor r" using assms(1) by (simp add: le_floor_iff)
  have hi: "floor r + 1 \<le> b" if "r - of_int (floor r) > 0"
  proof -
    have "of_int (floor r) < r" using that by simp
    then have "of_int (floor r) < (of_int b :: rat)" using assms(2) by simp
    then show ?thesis by simp
  qed
  have "floor r \<le> b" using assms(2) by (simp add: floor_le_iff)
  then show ?thesis using lo hi by (auto simp: round_half_even_def Let_def)
qed

section \<open>Agents\<close>

definition pipeline_agent_order :: "string list" where
  "pipeline_agent_order =
     [''intake'', ''research-evidence'', ''research-facts'', ''research-witnesses'', ''research-law'',
      ''synthesis'', ''audit'']"

definition legacy_agent_ids :: "string dict" where
  "legacy_agent_ids =
     [(''case-processing'', ''intake''), (''complexity-routing'', ''intake''),
      (''evidence-analysis'', ''research-evidence''), (''fact-reconstruction'', ''research-facts''),
      (''witness-analysis'', ''research-witnesses''), (''legal-knowledge'', ''research-law''),
      (''argument-construction'', ''synthesis''), (''hearing-analysis'', ''synthesis''),
      (''hearing-governance'', ''audit'')]"

definition normalize_agent_id :: "string \<Rightarrow> string" where
  "normalize_agent_id a = (case map_of legacy_agent_ids a of Some b \<Rightarrow> b | None \<Rightarrow> a)"

definition agent_labels :: "string dict" where
  "agent_labels =
     [(''intake'', ''Intake''), (''research-evidence'', ''Evidence Research''),
      (''research-facts'', ''Fact Reconstruction''), (''research-witnesses'', ''Witness Analysis''),
      (''research-law'', ''Legal Research''), (''synthesis'', ''Synthesis''), (''audit'', ''Auditor'')]"

definition gate_labels :: "string dict" where
  "gate_labels = [(''gate1'', ''Intake''), (''gate2'', ''Research''), (''gate3'', ''Synthesis''),
                  (''gate4'', ''Audit'')]"

definition agent_gate :: "string dict" where
  "agent_gate = concat (map (\<lambda>(g, agents). map (\<lambda>a. (a, g)) agents) manifest_gate_agents)"

definition pipeline_edges :: "(string \<times> string) list" where
  "pipeline_edges =
     [(''intake'', ''research-evidence''), (''intake'', ''research-facts''),
      (''intake'', ''research-witnesses''), (''intake'', ''research-law''),
      (''research-evidence'', ''synthesis''), (''research-facts'', ''synthesis''),
      (''research-witnesses'', ''synthesis''), (''research-law'', ''synthesis''),
      (''synthesis'', ''audit'')]"

text \<open>Every agent of the manifest has a label and a gate, and every edge leads to the same or the next gate.\<close>

lemma manifest_is_complete:
  "list_all (\<lambda>a. map_of agent_labels a \<noteq> None \<and>
       (case map_of agent_gate a of None \<Rightarrow> False | Some g \<Rightarrow> map_of gate_labels g \<noteq> None))
     pipeline_agent_order"
  by code_simp

lemma edges_cross_one_gate:
  "list_all (\<lambda>(s, t). map_of agent_gate s \<noteq> None
       \<and> dict_get next_gate (the (map_of agent_gate s)) = Some (map_of agent_gate t)) pipeline_edges"
  by code_simp

lemma legacy_targets:
  "list_all (\<lambda>(_, b). b \<in> set pipeline_agent_order \<and> map_of legacy_agent_ids b = None) legacy_agent_ids"
  by code_simp

lemma normalize_idem: "normalize_agent_id (normalize_agent_id a) = normalize_agent_id a"
  using legacy_targets
  by (auto simp: normalize_agent_id_def list_all_iff split: option.splits dest!: map_of_SomeD [of _ a])

section \<open>Jurisdiction\<close>

record jurisdiction =
  ju_status :: string
  ju_valid :: "bool option"
  ju_reasons :: "string list"

text \<open>A group of checks: whether one failed, whether one is at its limit, and what it has to say.\<close>

type_synonym findings = "bool \<times> bool \<times> string list"

definition no_findings :: findings where "no_findings = (False, False, [])"

definition join_findings :: "findings \<Rightarrow> findings \<Rightarrow> findings" where
  "join_findings a b = (fst a \<or> fst b, fst (snd a) \<or> fst (snd b), snd (snd a) @ snd (snd b))"

definition sct_limit :: "case_row \<Rightarrow> rat" where
  "sct_limit c = (if ca_consent_to_higher_claim_limit c then 30000 else 20000)"

definition claim_amount_check :: "case_row \<Rightarrow> rat \<Rightarrow> findings" where
  "claim_amount_check c amount =
     (let limit = sct_limit c
      in if amount > limit then
           (True, False, [''Claim amount $'' @ amount_text amount @ '' exceeds the $'' @ amount_text limit
                          @ '' SCT limit.''])
         else if amount = limit then
           (False, True, [''Claim amount $'' @ amount_text amount @ '' is exactly at the $''
                          @ amount_text limit @ '' SCT threshold and needs judge review.''])
         else
           (False, False, [''Claim amount $'' @ amount_text amount @ '' is within the $''
                           @ amount_text limit @ '' SCT limit.'']))"

text \<open>Dates are proleptic ordinals, so their difference is the number of days.\<close>

definition sct_limitation_check :: "(int \<Rightarrow> string) \<Rightarrow> int \<Rightarrow> int \<Rightarrow> findings" where
  "sct_limitation_check isoformat filed earliest =
     (let days = filed - earliest
      in if days > 730 then
           (True, False, [''Filed '' @ str_of_int days @ '' days after the earliest identified cause-of-action date ''
                          @ isoformat earliest @ '', beyond the 2-year SCT limitation period.''])
         else if days = 730 then
           (False, True, [''Filed exactly 730 days after the earliest identified cause-of-action date ''
                          @ isoformat earliest @ '', so the limitation edge needs judge review.''])
         else
           (False, False, [''Filed '' @ str_of_int days @ '' days after the earliest identified cause-of-action date ''
                           @ isoformat earliest @ '', within the 2-year SCT limitation period.'']))"

definition traffic_limitation_check :: "(int \<Rightarrow> string) \<Rightarrow> int \<Rightarrow> int \<Rightarrow> findings" where
  "traffic_limitation_check isoformat filed earliest =
     (let days = filed - earliest
      in if days > 365 then
           (True, False, [''Offence date '' @ isoformat earliest
                          @ '' exceeds the 12-month limitation period for this offence category.''])
         else if days = 365 then
           (False, True, [''Offence date '' @ isoformat earliest
                          @ '' is exactly at the 12-month limitation boundary and needs judge review.''])
         else
           (False, False, [''Filed '' @ str_of_int days @ '' days after the earliest offence date ''
                           @ isoformat earliest @ '', within the applicable limitation period.'']))"

definition earliest_fact_date :: "fact_row list \<Rightarrow> int option" where
  "earliest_fact_date facts =
     (case List.map_filter fa_event_date facts of [] \<Rightarrow> None | d # ds \<Rightarrow> Some (min_list (d # ds)))"

definition limitation_findings ::
  "(int \<Rightarrow> int \<Rightarrow> findings) \<Rightarrow> case_row \<Rightarrow> int option \<Rightarrow> findings" where
  "limitation_findings check c earliest =
     (case (ca_filed_date c, earliest) of (Some f, Some e) \<Rightarrow> check f e | _ \<Rightarrow> no_findings)"

definition small_claims_findings :: "(int \<Rightarrow> string) \<Rightarrow> case_row \<Rightarrow> int option \<Rightarrow> findings" where
  "small_claims_findings isoformat c earliest =
     (if ca_domain c \<noteq> small_claims then no_findings
      else case ca_claim_amount c of
        None \<Rightarrow> no_findings
      | Some amount \<Rightarrow> join_findings (claim_amount_check c amount)
                         (limitation_findings (sct_limitation_check isoformat) c earliest))"

definition traffic_findings :: "(int \<Rightarrow> string) \<Rightarrow> case_row \<Rightarrow> int option \<Rightarrow> findings" where
  "traffic_findings isoformat c earliest =
     (if ca_domain c \<noteq> traffic_violation then no_findings
      else join_findings
        (False, False, if non_empty (ca_offence_code c)
                       then [''Offence code recorded: '' @ the (ca_offence_code c) @ ''.''] else [])
        (limitation_findings (traffic_limitation_check isoformat) c earliest))"

definition filed_findings :: "(int \<Rightarrow> string) \<Rightarrow> case_row \<Rightarrow> findings" where
  "filed_findings isoformat c =
     (False, False, case ca_filed_date c of None \<Rightarrow> []
                    | Some f \<Rightarrow> [''Filed date: '' @ isoformat f @ ''.''])"

definition build_jurisdiction_summary :: "(int \<Rightarrow> string) \<Rightarrow> case_row \<Rightarrow> fact_row list \<Rightarrow> jurisdiction" where
  "build_jurisdiction_summary isoformat c facts =
     (let earliest = earliest_fact_date facts;
          (failed, warned, reasons) =
            join_findings (join_findings (small_claims_findings isoformat c earliest)
                                         (traffic_findings isoformat c earliest))
                          (filed_findings isoformat c);
          failure = (failed \<or> ca_jurisdiction_valid c = Some False)
      in if failure then \<lparr>ju_status = ''fail'', ju_valid = Some False, ju_reasons = reasons\<rparr>
         else if warned then \<lparr>ju_status = ''warning'', ju_valid = None, ju_reasons = reasons\<rparr>
         else if ca_jurisdiction_valid c = Some True \<or> reasons \<noteq> []
         then \<lparr>ju_status = ''pass'', ju_valid = Some True, ju_reasons = reasons\<rparr>
         else \<lparr>ju_status = ''pending'', ju_valid = ca_jurisdiction_valid c, ju_reasons = reasons\<rparr>)"

lemma join_findings_simps [simp]:
  "fst (join_findings a b) \<longleftrightarrow> fst a \<or> fst b"
  "fst (snd (join_findings a b)) \<longleftrightarrow> fst (snd a) \<or> fst (snd b)"
  "snd (snd (join_findings a b)) = snd (snd a) @ snd (snd b)"
  "fst no_findings = False" "fst (snd no_findings) = False" "snd (snd no_findings) = []"
  by (simp_all add: join_findings_def no_findings_def)

text \<open>When the summary says fail: a check failed, or the column of the case says so.\<close>

lemma jurisdiction_fails:
  "ju_status (build_jurisdiction_summary isoformat c facts) = ''fail''
     \<longleftrightarrow> fst (small_claims_findings isoformat c (earliest_fact_date facts))
        \<or> fst (traffic_findings isoformat c (earliest_fact_date facts))
        \<or> ca_jurisdiction_valid c = Some False"
  by (auto simp: build_jurisdiction_summary_def Let_def split_beta filed_findings_def)

lemma jurisdiction_fields:
  "ju_status (build_jurisdiction_summary isoformat c facts) \<in> {''pass'', ''fail'', ''warning'', ''pending''}"
  "ju_status (build_jurisdiction_summary isoformat c facts) = ''fail''
     \<longleftrightarrow> ju_valid (build_jurisdiction_summary isoformat c facts) = Some False"
  by (auto simp: build_jurisdiction_summary_def Let_def split_beta)

text \<open>The limitation period of a small claim is looked at only when the claim has an amount.\<close>

lemma no_amount_no_limitation:
  assumes "ca_domain c = small_claims" "ca_claim_amount c = None" "ca_jurisdiction_valid c \<noteq> Some False"
  shows "ju_status (build_jurisdiction_summary isoformat c facts) \<noteq> ''fail''"
  using assms by (simp add: jurisdiction_fails small_claims_findings_def traffic_findings_def)

section \<open>Progress\<close>

definition case_audit :: "uuid \<Rightarrow> database \<Rightarrow> audit_entry list" where
  "case_audit cid db = map al_entry (filter (\<lambda>a. al_case a = cid) (db_audit db))"

definition actions_of_agent :: "audit_entry list \<Rightarrow> string \<Rightarrow> string list" where
  "actions_of_agent logs agent =
     map ae_action (filter (\<lambda>l. normalize_agent_id (ae_agent l) = agent) logs)"

text \<open>The agents that completed, in order, up to the first that failed or is still running.\<close>

fun scan_agents ::
  "(string \<Rightarrow> string list) \<Rightarrow> string list \<Rightarrow> string list \<Rightarrow> string list \<times> string option" where
  "scan_agents actions completed [] = (completed, None)"
| "scan_agents actions completed (agent # agents) =
     (if actions agent = [] then scan_agents actions completed agents
      else let last_action = py_lower (last (actions agent))
           in if occurs_in ''fail'' last_action \<or> occurs_in ''error'' last_action then (completed, None)
              else if list_ex (\<lambda>t. occurs_in t last_action)
                        [''complet'', ''done'', ''finish'', ''emit'', ''persist'']
              then scan_agents actions (completed @ [agent]) agents
              else (completed, Some agent))"

definition progress_percent :: "string list \<Rightarrow> int" where
  "progress_percent completed =
     round_half_even (of_nat (length completed) / of_nat (length pipeline_agent_order) * 100)"

definition first_incomplete :: "string list \<Rightarrow> string option" where
  "first_incomplete completed =
     (case filter (\<lambda>a. a \<notin> set completed) pipeline_agent_order of [] \<Rightarrow> None | a # _ \<Rightarrow> Some a)"

lemma first_incomplete_in: "first_incomplete completed = None \<or> the (first_incomplete completed) \<in> set pipeline_agent_order"
proof (cases "filter (\<lambda>a. a \<notin> set completed) pipeline_agent_order")
  case (Cons a as)
  then have "a \<in> {x \<in> set pipeline_agent_order. x \<notin> set completed}"
    unfolding set_filter [symmetric] by simp
  then show ?thesis using Cons by (simp add: first_incomplete_def)
qed (simp add: first_incomplete_def)

definition build_pipeline_progress :: "case_row \<Rightarrow> audit_entry list \<Rightarrow> int \<times> string option" where
  "build_pipeline_progress c logs =
     (let (completed, running) = scan_agents (actions_of_agent logs) [] pipeline_agent_order
      in if ca_status c \<in> {S_ready_for_review, S_closed} then (100, None)
         else if ca_status c = S_failed then (progress_percent completed, running)
         else if ca_status c = S_processing \<and> running = None
         then (progress_percent completed, first_incomplete completed)
         else (progress_percent completed, running))"

lemma scan_agents_step:
  "scan_agents actions completed (agent # agents) = (completed, None)
   \<or> scan_agents actions completed (agent # agents) = (completed, Some agent)
   \<or> scan_agents actions completed (agent # agents) = scan_agents actions completed agents
   \<or> scan_agents actions completed (agent # agents) = scan_agents actions (completed @ [agent]) agents"
  by (simp add: Let_def)

lemma scan_agents_result:
  "\<exists>ys running. scan_agents actions completed agents = (completed @ ys, running)
     \<and> length ys \<le> length agents \<and> (running = None \<or> the running \<in> set agents)"
proof (induction agents arbitrary: completed)
  case (Cons agent agents)
  obtain ys r where a: "scan_agents actions completed agents = (completed @ ys, r)"
    "length ys \<le> length agents" "r = None \<or> the r \<in> set agents" using Cons.IH by blast
  obtain zs q where b: "scan_agents actions (completed @ [agent]) agents = (completed @ agent # zs, q)"
    "length zs \<le> length agents" "q = None \<or> the q \<in> set agents"
    using Cons.IH [of "completed @ [agent]"] by auto
  show ?case
    using scan_agents_step [of actions completed agent agents]
  proof (elim disjE)
    assume "scan_agents actions completed (agent # agents) = scan_agents actions completed agents"
    with a show ?thesis by (intro exI [of _ ys] exI [of _ r]) auto
  next
    assume "scan_agents actions completed (agent # agents) = scan_agents actions (completed @ [agent]) agents"
    with b show ?thesis by (intro exI [of _ "agent # zs"] exI [of _ q]) auto
  qed (auto simp del: scan_agents.simps)
qed simp

lemma progress_percent_bounds:
  assumes "length completed \<le> length pipeline_agent_order"
  shows "0 \<le> progress_percent completed \<and> progress_percent completed \<le> 100"
proof -
  have "length completed \<le> 7" using assms by (simp add: pipeline_agent_order_def)
  then have "(of_nat (length completed) :: rat) \<le> 7" by (metis of_nat_le_iff of_nat_numeral)
  then show ?thesis
    unfolding progress_percent_def
    using round_half_even_bounds [of 0 _ 100] by (simp add: pipeline_agent_order_def)
qed

lemma progress_of_scan:
  "build_pipeline_progress c logs = (p, agent) \<Longrightarrow>
     0 \<le> p \<and> p \<le> 100 \<and> (agent = None \<or> the agent \<in> set pipeline_agent_order)"
proof -
  assume b: "build_pipeline_progress c logs = (p, agent)"
  obtain completed running where s:
    "scan_agents (actions_of_agent logs) [] pipeline_agent_order = (completed, running)" by fastforce
  have r: "running = None \<or> the running \<in> set pipeline_agent_order"
    and "length completed \<le> length pipeline_agent_order"
    using scan_agents_result [of "actions_of_agent logs" "[]" pipeline_agent_order] s by auto
  then have "0 \<le> progress_percent completed \<and> progress_percent completed \<le> 100"
    using progress_percent_bounds by simp
  moreover note first_incomplete_in [of completed]
  ultimately show ?thesis
    using b r by (auto simp: build_pipeline_progress_def s split: if_splits)
qed

section \<open>Escalation\<close>

definition text_reason :: "pydict \<Rightarrow> string option" where
  "text_reason payload =
     (case filter (\<lambda>k. case pget payload k of PStr s \<Rightarrow> py_strip s \<noteq> [] | _ \<Rightarrow> False)
             [''reason'', ''escalation_reason'', ''summary'', ''detail'', ''message''] of
        [] \<Rightarrow> None
      | k # _ \<Rightarrow> (case pget payload k of PStr s \<Rightarrow> Some s | _ \<Rightarrow> None))"

text \<open>Newest first; entries of one instant keep their order. The output of an entry comes before its input.\<close>

definition newest_first :: "audit_entry list \<Rightarrow> audit_entry list" where
  "newest_first = sort_key (\<lambda>l. - ae_timestamp l)"

definition extract_escalation_reason :: "case_row \<Rightarrow> audit_entry list \<Rightarrow> string option" where
  "extract_escalation_reason c logs =
     (case List.map_filter text_reason
             (concat (map (\<lambda>l. [case ae_output_payload l of None \<Rightarrow> [] | Some p \<Rightarrow> p,
                                case ae_input_payload l of None \<Rightarrow> [] | Some p \<Rightarrow> p])
                (filter (\<lambda>l. occurs_in ''escalat'' (py_lower (ae_action l))) (newest_first logs)))) of
        r # _ \<Rightarrow> Some r
      | [] \<Rightarrow> if ca_route c = Some ''escalate_human''
              then Some (''Route escalated for human review (complexity: ''
                         @ (case ca_complexity c of None \<Rightarrow> ''unspecified'' | Some x \<Rightarrow> x) @ '').'')
              else None)"

section \<open>Summary and detail of a case\<close>

text \<open>A request to reopen a case, \<open>models/case.py\<close>.\<close>

datatype reopen_status = Reopen_pending | Reopen_approved | Reopen_rejected

fun reopen_status_value :: "reopen_status \<Rightarrow> string" where
  "reopen_status_value Reopen_pending = ''pending''"
| "reopen_status_value Reopen_approved = ''approved''"
| "reopen_status_value Reopen_rejected = ''rejected''"

record reopen_row =
  ro_id :: uuid
  ro_case :: uuid
  ro_requested_by :: uuid
  ro_reason :: string
  ro_justification :: string
  ro_status :: reopen_status
  ro_reviewed_by :: "uuid option"
  ro_review_notes :: "string option"
  ro_reviewed_at :: "int option"
  ro_created_at :: int

definition display_text :: "pyval \<Rightarrow> string \<Rightarrow> string" where
  "display_text v fallback = (case optional_text v of Some s \<Rightarrow> s | None \<Rightarrow> fallback)"

definition parties_of :: "uuid \<Rightarrow> database \<Rightarrow> party_row list" where
  "parties_of cid db = filter (\<lambda>p. pa_case p = cid) (db_parties db)"

definition documents_of :: "uuid \<Rightarrow> database \<Rightarrow> document_row list" where
  "documents_of cid db = filter (\<lambda>d. dc_case d = cid) (db_documents db)"

definition facts_of :: "uuid \<Rightarrow> database \<Rightarrow> fact_row list" where
  "facts_of cid db = filter (\<lambda>f. fa_case f = cid) (db_facts db)"

definition serialize_parties :: "party_row list \<Rightarrow> pyval list" where
  "serialize_parties ps = map (\<lambda>p. PDict
     [(''name'', PStr (pa_name p)), (''role'', PStr (pa_role p)),
      (''contact_info'', dump_opt PDict (pa_contact_info p))]) ps"

definition party_role_lookup :: "party_row list \<Rightarrow> string dict" where
  "party_role_lookup ps = foldl (\<lambda>d p. dict_set (pa_role p) (pa_name p) d) [] ps"

definition snippet :: "string \<Rightarrow> string" where
  "snippet description = (if length description > 160 then take 157 description @ ''...'' else description)"

definition domain_value :: "case_domain_enum \<Rightarrow> string" where
  "domain_value d = (case d of small_claims \<Rightarrow> ''small_claims'' | traffic_violation \<Rightarrow> ''traffic_violation'')"

record case_summary =
  su_id :: uuid
  su_title :: string
  su_description :: "string option"
  su_snippet :: string
  su_domain :: case_domain_enum
  su_domain_detail :: "(uuid \<times> string) option"
  su_status :: case_status
  su_status_group :: string
  su_jurisdiction :: jurisdiction
  su_complexity :: "string option"
  su_route :: "string option"
  su_created_by :: uuid
  su_created_at :: int
  su_updated_at :: "int option"
  su_filed_date :: "int option"
  su_claim_amount :: "rat option"
  su_consent_to_higher_claim_limit :: bool
  su_offence_code :: "string option"
  su_parties :: "pyval list"
  su_party_names :: "string list"
  su_claimant_name :: "string option"
  su_respondent_name :: "string option"
  su_prosecution_name :: "string option"
  su_accused_name :: "string option"
  su_document_count :: nat
  su_pipeline_progress :: "int \<times> string option"
  su_escalation_reason :: "string option"
  su_reopen_state :: "string option"

definition serialize_case_summary ::
  "(int \<Rightarrow> string) \<Rightarrow> reopen_row list \<Rightarrow> database \<Rightarrow> case_row \<Rightarrow> case_summary" where
  "serialize_case_summary isoformat reopens db c =
     (let cid = ca_id c; parties = parties_of cid db; role_lookup = party_role_lookup parties;
          description = (if non_empty (ca_description c) then the (ca_description c)
                         else if non_empty (ca_title c) then the (ca_title c) else []);
          requests = filter (\<lambda>r. ro_case r = cid) reopens
      in \<lparr>su_id = cid, su_title = display_text (dump_opt PStr (ca_title c)) (''Case '' @ cid),
          su_description = ca_description c, su_snippet = snippet description, su_domain = ca_domain c,
          su_domain_detail = map_option (\<lambda>d. (do_id d, do_code d)) (find_domain (ca_domain_id c) db),
          su_status = ca_status c, su_status_group = status_group (ca_status c),
          su_jurisdiction = build_jurisdiction_summary isoformat c (facts_of cid db),
          su_complexity = ca_complexity c, su_route = ca_route c, su_created_by = ca_created_by c,
          su_created_at = ca_created_at c, su_updated_at = ca_updated_at c,
          su_filed_date = ca_filed_date c, su_claim_amount = ca_claim_amount c,
          su_consent_to_higher_claim_limit = ca_consent_to_higher_claim_limit c,
          su_offence_code = ca_offence_code c, su_parties = serialize_parties parties,
          su_party_names = map pa_name parties, su_claimant_name = dict_get role_lookup ''claimant'',
          su_respondent_name = dict_get role_lookup ''respondent'',
          su_prosecution_name = dict_get role_lookup ''prosecution'',
          su_accused_name = dict_get role_lookup ''accused'',
          su_document_count = length (documents_of cid db),
          su_pipeline_progress = build_pipeline_progress c (case_audit cid db),
          su_escalation_reason = extract_escalation_reason c (case_audit cid db),
          su_reopen_state = (if requests = [] then None
                             else Some (reopen_status_value (ro_status (last requests))))\<rparr>)"

record case_detail =
  de_summary :: case_summary
  de_documents :: "pyval list"
  de_evidence :: "evidence_row list"
  de_facts :: "fact_row list"
  de_witnesses :: "witness_row list"
  de_legal_rules :: "legal_rule_row list"
  de_precedents :: "precedent_row list"
  de_arguments :: "argument_row list"
  de_hearing_analyses :: "hearing_row list"
  de_audit_logs :: "audit_entry list"
  de_domain_has_vector_store :: bool

definition document_view :: "document_row \<Rightarrow> pyval" where
  "document_view d = PDict
     [(''id'', PStr (dc_id d)),
      (''openai_file_id'', dump_opt PStr (optional_text (dump_opt PStr (dc_openai_file_id d)))),
      (''filename'', PStr (dc_filename d)),
      (''file_type'', dump_opt PStr (optional_text (dump_opt PStr (dc_file_type d))))]"

definition serialize_case_detail ::
  "(int \<Rightarrow> string) \<Rightarrow> reopen_row list \<Rightarrow> database \<Rightarrow> case_row \<Rightarrow> case_detail" where
  "serialize_case_detail isoformat reopens db c =
     (let cid = ca_id c
      in \<lparr>de_summary = serialize_case_summary isoformat reopens db c,
          de_documents = map document_view (documents_of cid db),
          de_evidence = filter (\<lambda>r. ev_case r = cid) (db_evidence db),
          de_facts = facts_of cid db,
          de_witnesses = filter (\<lambda>r. wt_case r = cid) (db_witnesses db),
          de_legal_rules = filter (\<lambda>r. lw_case r = cid) (db_legal_rules db),
          de_precedents = filter (\<lambda>r. pr_case r = cid) (db_precedents db),
          de_arguments = filter (\<lambda>r. ag_case r = cid) (db_arguments db),
          de_hearing_analyses = filter (\<lambda>r. hr_case r = cid) (db_hearing db),
          de_audit_logs = case_audit cid db,
          de_domain_has_vector_store =
            (case find_domain (ca_domain_id c) db of None \<Rightarrow> False
             | Some d \<Rightarrow> do_is_active d \<and> non_empty (do_vector_store_id d))\<rparr>)"

text \<open>Any signed-in user reads any case; there is no check of its owner.\<close>

definition get_case ::
  "(int \<Rightarrow> string) \<Rightarrow> reopen_row list \<Rightarrow> request \<Rightarrow> uuid \<Rightarrow> database \<Rightarrow> case_detail result" where
  "get_case isoformat reopens rq cid db =
     (case find_case cid db of None \<Rightarrow> Inl not_found
      | Some c \<Rightarrow> Inr (serialize_case_detail isoformat reopens db c))"

lemma every_user_reads_the_same:
  "get_case isoformat reopens rq1 cid db = get_case isoformat reopens rq2 cid db"
  by (simp add: get_case_def)

lemma snippet_length: "length (snippet d) \<le> 160"
  by (simp add: snippet_def)

text \<open>The name shown for a role is that of the last party with the role.\<close>

lemma role_lookup_last:
  "map_of (party_role_lookup ps) r
     = (case filter (\<lambda>p. pa_role p = r) ps of [] \<Rightarrow> None | qs \<Rightarrow> Some (pa_name (last qs)))"
proof (induction ps rule: rev_induct)
  case (snoc p ps)
  then show ?case by (auto simp: party_role_lookup_def split: list.splits)
qed (simp add: party_role_lookup_def)

section \<open>Listing\<close>

text \<open>
  \<open>ILIKE\<close>: \<open>%\<close> is any text, \<open>_\<close> any character, a backslash takes the next character as it is; upper
  and lower case are the same.
\<close>

fun like :: "string \<Rightarrow> string \<Rightarrow> bool" where
  "like [] s = (s = [])"
| "like (p # ps) s =
     (if p = CHR ''%'' then like ps s \<or> (case s of [] \<Rightarrow> False | _ # t \<Rightarrow> like (p # ps) t)
      else if p = CHR ''_'' then (case s of [] \<Rightarrow> False | _ # t \<Rightarrow> like ps t)
      else if p = CHR 0x5C then (case (ps, s) of (q # qs, c # t) \<Rightarrow> q = c \<and> like qs t | _ \<Rightarrow> False)
      else (case s of [] \<Rightarrow> False | c # t \<Rightarrow> p = c \<and> like ps t))"

definition ilike :: "string \<Rightarrow> string \<Rightarrow> bool" where
  "ilike s pattern = like (py_lower pattern) (py_lower s)"

definition opt_ilike :: "string option \<Rightarrow> string \<Rightarrow> bool" where
  "opt_ilike x pattern = (case x of None \<Rightarrow> False | Some s \<Rightarrow> ilike s pattern)"

record list_query =
  lq_status :: "string option"
  lq_domain :: "case_domain_enum option"
  lq_search :: "string option"
  lq_complexity :: "string option"
  lq_filed_from :: "int option"
  lq_filed_to :: "int option"
  lq_sort_by :: string
  lq_sort_direction :: string
  lq_page :: nat
  lq_per_page :: nat

text \<open>The bounds of \<open>Query\<close>.\<close>

definition valid_query :: "list_query \<Rightarrow> bool" where
  "valid_query q \<longleftrightarrow> 1 \<le> lq_page q \<and> 1 \<le> lq_per_page q \<and> lq_per_page q \<le> 100"

definition search_matches :: "string \<Rightarrow> database \<Rightarrow> case_row \<Rightarrow> bool" where
  "search_matches search db c =
     (let pattern = ''%'' @ py_strip search @ ''%''
      in opt_ilike (ca_title c) pattern \<or> opt_ilike (ca_description c) pattern
         \<or> list_ex (\<lambda>p. ilike (pa_name p) pattern) (parties_of (ca_id c) db)
         \<or> list_ex (\<lambda>f. ilike (fa_description f) pattern) (facts_of (ca_id c) db))"

definition matches_query :: "request \<Rightarrow> list_query \<Rightarrow> case_status list \<Rightarrow> database \<Rightarrow> case_row \<Rightarrow> bool" where
  "matches_query rq q statuses db c \<longleftrightarrow>
     (us_role (rq_user rq) = user_role.Judge \<longrightarrow> ca_created_by c = us_id (rq_user rq))
     \<and> (non_empty (lq_status q) \<longrightarrow> ca_status c \<in> set statuses)
     \<and> (case lq_domain q of None \<Rightarrow> True | Some d \<Rightarrow> ca_domain c = d)
     \<and> (non_empty (lq_complexity q) \<longrightarrow> ca_complexity c = lq_complexity q)
     \<and> (case lq_filed_from q of None \<Rightarrow> True
        | Some a \<Rightarrow> (case ca_filed_date c of None \<Rightarrow> False | Some d \<Rightarrow> a \<le> d))
     \<and> (case lq_filed_to q of None \<Rightarrow> True
        | Some b \<Rightarrow> (case ca_filed_date c of None \<Rightarrow> False | Some d \<Rightarrow> d \<le> b))
     \<and> (case lq_search q of None \<Rightarrow> True
        | Some s \<Rightarrow> py_strip s \<noteq> [] \<longrightarrow> search_matches s db c)"

text \<open>
  The order of the rows is the database's: it sorts by the column and leaves the order of equal rows
  open. The argument \<open>order\<close> takes the column and the direction; it rearranges the rows.
\<close>

type_synonym row_order = "string \<Rightarrow> bool \<Rightarrow> case_row list \<Rightarrow> case_row list"

definition rearranges :: "row_order \<Rightarrow> bool" where
  "rearranges order \<longleftrightarrow> (\<forall>column ascending rows. mset (order column ascending rows) = mset rows)"

definition sort_column :: "string \<Rightarrow> string" where
  "sort_column s = (if s \<in> {''created_at'', ''filed_date'', ''status'', ''complexity''} then s else ''created_at'')"

record case_page =
  cp_items :: "case_summary list"
  cp_total :: nat
  cp_page :: nat
  cp_per_page :: nat

definition list_rows :: "row_order \<Rightarrow> request \<Rightarrow> list_query \<Rightarrow> case_status list \<Rightarrow> database \<Rightarrow> case_row list" where
  "list_rows order rq q statuses db =
     order (sort_column (lq_sort_by q)) (py_lower (lq_sort_direction q) = ''asc'')
       (filter (matches_query rq q statuses db) (db_cases db))"

definition query_statuses :: "list_query \<Rightarrow> case_status list result" where
  "query_statuses q = (if non_empty (lq_status q) then map_status_filter (the (lq_status q)) else Inr [])"

definition list_cases ::
  "row_order \<Rightarrow> (int \<Rightarrow> string) \<Rightarrow> reopen_row list \<Rightarrow> request \<Rightarrow> list_query \<Rightarrow> database \<Rightarrow> case_page result" where
  "list_cases order isoformat reopens rq q db =
     (if \<not> valid_query q then Inl (HttpError 422 ''Invalid query'')
      else bind_result (query_statuses q) (\<lambda>statuses.
        if non_empty (lq_complexity q) \<and> the (lq_complexity q) \<notin> set complexity_column
        then Inl (HttpError 422 (''Unknown complexity filter: '' @ the (lq_complexity q)))
        else let rows = list_rows order rq q statuses db
             in Inr \<lparr>cp_items = map (serialize_case_summary isoformat reopens db)
                       (take (lq_per_page q) (drop ((lq_page q - 1) * lq_per_page q) rows)),
                     cp_total = length (filter (matches_query rq q statuses db) (db_cases db)),
                     cp_page = lq_page q, cp_per_page = lq_per_page q\<rparr>))"

lemma concat_chunks:
  "n > 0 \<Longrightarrow> length xs \<le> n * k \<Longrightarrow> concat (map (\<lambda>i. take n (drop (i * n) xs)) [0..<k]) = xs"
proof (induction k)
  case (Suc k)
  have "concat (map (\<lambda>i. take n (drop (i * n) xs)) [0..<k]) = take (n * k) xs" for k
  proof (induction k)
    case (Suc k)
    have "n * Suc k = n * k + n" by simp
    then have "take (n * Suc k) xs = take (n * k) xs @ take n (drop (k * n) xs)"
      using take_add [of "n * k" n xs] by (simp only: mult.commute)
    then show ?case using Suc by simp
  qed simp
  from this [of "Suc k"] Suc.prems show ?case by (simp add: mult.commute)
qed simp

lemma matches_page [simp]:
  "matches_query rq (q\<lparr>lq_page := i\<rparr>) statuses db = matches_query rq q statuses db"
  "list_rows order rq (q\<lparr>lq_page := i\<rparr>) statuses db = list_rows order rq q statuses db"
proof -
  show m: "matches_query rq (q\<lparr>lq_page := i\<rparr>) statuses db = matches_query rq q statuses db"
    by (simp add: matches_query_def fun_eq_iff)
  show "list_rows order rq (q\<lparr>lq_page := i\<rparr>) statuses db = list_rows order rq q statuses db"
    by (simp add: list_rows_def m)
qed

lemma list_cases_answer:
  assumes "list_cases order isoformat reopens rq q db = Inr page"
  obtains statuses where "query_statuses q = Inr statuses"
    "\<And>i. 1 \<le> i \<Longrightarrow> list_cases order isoformat reopens rq (q\<lparr>lq_page := i\<rparr>) db =
       Inr \<lparr>cp_items = map (serialize_case_summary isoformat reopens db)
              (take (lq_per_page q) (drop ((i - 1) * lq_per_page q) (list_rows order rq q statuses db))),
            cp_total = length (filter (matches_query rq q statuses db) (db_cases db)),
            cp_page = i, cp_per_page = lq_per_page q\<rparr>"
    "cp_total page = length (filter (matches_query rq q statuses db) (db_cases db))" "valid_query q"
proof -
  have v: "valid_query q" and c: "\<not> (non_empty (lq_complexity q) \<and> the (lq_complexity q) \<notin> set complexity_column)"
    using assms by (auto simp: list_cases_def bind_result_Inr split: if_splits)
  obtain statuses where s: "query_statuses q = Inr statuses"
    and t: "cp_total page = length (filter (matches_query rq q statuses db) (db_cases db))"
    using assms v c by (auto simp: list_cases_def bind_result_Inr Let_def split: if_splits)
  have "list_cases order isoformat reopens rq (q\<lparr>lq_page := i\<rparr>) db =
       Inr \<lparr>cp_items = map (serialize_case_summary isoformat reopens db)
              (take (lq_per_page q) (drop ((i - 1) * lq_per_page q) (list_rows order rq q statuses db))),
            cp_total = length (filter (matches_query rq q statuses db) (db_cases db)),
            cp_page = i, cp_per_page = lq_per_page q\<rparr>" if "1 \<le> i" for i
  proof -
    have "query_statuses (q\<lparr>lq_page := i\<rparr>) = query_statuses q" by (simp add: query_statuses_def)
    moreover have "valid_query (q\<lparr>lq_page := i\<rparr>)" using that v by (simp add: valid_query_def)
    ultimately show ?thesis using c s by (simp add: list_cases_def Let_def)
  qed
  then show thesis using that s t v by blast
qed


definition first_page :: list_query where
  "first_page = \<lparr>lq_status = None, lq_domain = None, lq_search = None, lq_complexity = None,
     lq_filed_from = None, lq_filed_to = None, lq_sort_by = ''created_at'', lq_sort_direction = ''desc'',
     lq_page = 1, lq_per_page = 1\<rparr>"

definition three_cases :: database where
  "three_cases = database1\<lparr>db_cases :=
     [case_row1, case_row1\<lparr>ca_id := ''c2''\<rparr>, case_row1\<lparr>ca_id := ''c3'', ca_created_by := ''judge2''\<rparr>]\<rparr>"

lemma first_page_rows:
  "filter (matches_query judge1 first_page [] three_cases) (db_cases three_cases)
     = [case_row1, case_row1\<lparr>ca_id := ''c2''\<rparr>]"
  by (simp add: matches_query_def first_page_def three_cases_def judge1_def case_row1_def non_empty_def)

lemma first_page_total:
  "list_cases (\<lambda>_ _ rows. rows) (\<lambda>_. []) [] judge1 first_page three_cases = Inr page \<Longrightarrow> cp_total page = 2"
  using first_page_rows
  by (auto simp: list_cases_def valid_query_def query_statuses_def first_page_def non_empty_def Let_def)


text \<open>
  The order has no tie-break: two pages read under two orders that agree on the column can show one
  case twice and another never.
\<close>

lemma ties_may_move_between_pages:
  "\<exists>order1 order2. rearranges order1 \<and> rearranges order2
     \<and> map (\<lambda>r. ca_created_at r) (order1 ''created_at'' False (db_cases three_cases))
         = map (\<lambda>r. ca_created_at r) (order2 ''created_at'' False (db_cases three_cases))
     \<and> (case (list_cases order1 (\<lambda>_. []) [] judge1 first_page three_cases,
              list_cases order2 (\<lambda>_. []) [] judge1 (first_page\<lparr>lq_page := 2\<rparr>) three_cases) of
          (Inr p1, Inr p2) \<Rightarrow> map su_id (cp_items p1 @ cp_items p2) = [''c1'', ''c1'']
        | _ \<Rightarrow> False)"
proof -
  have r: "filter (matches_query judge1 (first_page\<lparr>lq_page := 2\<rparr>) [] three_cases) (db_cases three_cases)
     = [case_row1, case_row1\<lparr>ca_id := ''c2''\<rparr>]" using first_page_rows by simp
  show ?thesis
    apply (rule exI [of _ "\<lambda>_ _ rows. rows"], rule exI [of _ "\<lambda>_ _ rows. rev rows"])
    using first_page_rows r
    by (simp add: rearranges_def list_cases_def list_rows_def valid_query_def query_statuses_def
        serialize_case_summary_def Let_def three_cases_def first_page_def non_empty_def case_row1_def)
qed

text \<open>What the list shows of a case fits its schema: the percentage lies between 0 and 100, the
  current agent is an agent of the pipeline, a case that is closed is complete; the jurisdiction status
  is one of four and says fail exactly when the case is not valid; the snippet fits its column.\<close>

lemma summary_fits_its_schema:
  "let s = serialize_case_summary isoformat reopens db c; p = su_pipeline_progress s; j = su_jurisdiction s
   in 0 \<le> fst p \<and> fst p \<le> 100 \<and> (snd p = None \<or> the (snd p) \<in> set pipeline_agent_order)
     \<and> (if ca_status c = S_closed then p = (100, None) else True)
     \<and> ju_status j \<in> {''pass'', ''fail'', ''warning'', ''pending''}
     \<and> (ju_status j = ''fail'' \<longleftrightarrow> ju_valid j = Some False)
     \<and> length (su_snippet s) \<le> 160"
proof -
  let ?s = "serialize_case_summary isoformat reopens db c"
  have "su_pipeline_progress ?s = build_pipeline_progress c (case_audit (ca_id c) db)"
    and "su_jurisdiction ?s = build_jurisdiction_summary isoformat c (facts_of (ca_id c) db)"
    and "length (su_snippet ?s) \<le> 160"
    by (simp_all add: serialize_case_summary_def Let_def snippet_length)
  moreover have "ca_status c = S_closed \<longrightarrow> build_pipeline_progress c (case_audit (ca_id c) db) = (100, None)"
    by (simp add: build_pipeline_progress_def split_beta)
  ultimately show ?thesis
    using progress_of_scan [OF prod.collapse [symmetric], of c "case_audit (ca_id c) db"]
      jurisdiction_fields [of isoformat c]
    by (auto simp: Let_def)
qed

end
