(* ===== verification/Sanitization.thy ===== *)
theory Sanitization
  imports Prelude
begin

text \<open>
  The removal of prompt injections of \<open>shared/sanitization.py\<close> and the guardrails of
  \<open>pipeline/guardrails.py\<close>. Every regular expression of the module is an opening, a shortest run of
  any characters and a closing, so a match is an opening followed by the text up to the first
  closing after it. The text is ASCII.
\<close>

section \<open>Patterns\<close>

text \<open>
  Openings and closings are sequences of character classes; \<open>bounded\<close> is a \<open>\b\<close> after the opening.
\<close>

record pattern =
  pt_openings :: "char list list list"
  pt_bounded :: bool
  pt_closing :: "char list list"
  pt_replacement :: string

definition exactly :: "string \<Rightarrow> char list list" where
  "exactly = map (\<lambda>c. [c])"

definition upper_char :: "char \<Rightarrow> char" where
  "upper_char c = (if (97 :: nat) \<le> of_char c \<and> of_char c \<le> (122 :: nat)
                   then char_of (of_char c - 32 :: nat) else c)"

definition any_case :: "string \<Rightarrow> char list list" where
  "any_case = map (\<lambda>c. [c, upper_char c])"

definition is_word :: "char \<Rightarrow> bool" where
  "is_word c \<longleftrightarrow> is_digit c \<or> c = CHR ''_''
     \<or> (let n = of_char c :: nat in 65 \<le> n \<and> n \<le> 90 \<or> 97 \<le> n \<and> n \<le> 122)"

definition boundary :: "string \<Rightarrow> bool" where
  "boundary s = (case s of [] \<Rightarrow> True | c # _ \<Rightarrow> \<not> is_word c)"

fun lead :: "char list list \<Rightarrow> string \<Rightarrow> string option" where
  "lead [] s = Some s"
| "lead (cs # p) [] = None"
| "lead (cs # p) (c # s) = (if c \<in> set cs then lead p s else None)"

fun after :: "char list list \<Rightarrow> string \<Rightarrow> string option" where
  "after p [] = lead p []"
| "after p (c # s) = (case lead p (c # s) of Some r \<Rightarrow> Some r | None \<Rightarrow> after p s)"

definition match_opening :: "pattern \<Rightarrow> char list list \<Rightarrow> string \<Rightarrow> string option" where
  "match_opening p opn s =
     (case lead opn s of None \<Rightarrow> None
      | Some r \<Rightarrow> if pt_bounded p \<and> \<not> boundary r then None else after (pt_closing p) r)"

text \<open>The rest of the text after a match at its start.\<close>

definition match :: "pattern \<Rightarrow> string \<Rightarrow> string option" where
  "match p s = (case List.map_filter (\<lambda>opn. match_opening p opn s) (pt_openings p) of
                  [] \<Rightarrow> None | r # _ \<Rightarrow> Some r)"

fun search :: "pattern \<Rightarrow> string \<Rightarrow> bool" where
  "search p [] = (match p [] \<noteq> None)"
| "search p (c # s) = (match p (c # s) \<noteq> None \<or> search p s)"

text \<open>\<open>pattern.sub(replacement, text)\<close>; a match is never empty.\<close>

function substitute :: "pattern \<Rightarrow> string \<Rightarrow> string" where
  "substitute p [] = []"
| "substitute p (c # s) =
     (case match p (c # s) of
        None \<Rightarrow> c # substitute p s
      | Some rest \<Rightarrow> if length rest \<le> length s then pt_replacement p @ substitute p rest
                     else c # substitute p s)"
  by pat_completeness auto
termination by (relation "measure (\<lambda>(p, s). length s)") auto

definition content_pattern :: "string \<Rightarrow> bool \<Rightarrow> string \<Rightarrow> pattern" where
  "content_pattern opn bounded closing =
     \<lparr>pt_openings = [exactly opn], pt_bounded = bounded, pt_closing = exactly closing,
      pt_replacement = ''[CONTENT_REMOVED]''\<rparr>"

definition injection_patterns :: "pattern list" where
  "injection_patterns =
     [content_pattern ''<|im_start|>'' False ''<|im_end|>'',
      content_pattern ''<|'' False ''|>'',
      content_pattern ''[INST]'' False ''[/INST]'',
      content_pattern ''<<SYS>>'' False ''<</SYS>>'',
      content_pattern ''```system'' True ''```'']"

definition xml_injection_patterns :: "pattern list" where
  "xml_injection_patterns =
     [\<lparr>pt_openings = concat (map (\<lambda>k. [exactly ''<'' @ any_case k, exactly ''</'' @ any_case k])
          [''system'', ''instruction'', ''tool_call'', ''function_call'']),
       pt_bounded = True, pt_closing = exactly ''>'', pt_replacement = ''[TAG_REMOVED]''\<rparr>]"

section \<open>Sanitization\<close>

record sanitization_result =
  sn_text :: string
  sn_regex_hits :: nat
  sn_classifier_hits :: nat
  sn_chunks_scanned :: nat

definition detect_injection :: "string \<Rightarrow> bool" where
  "detect_injection s \<longleftrightarrow> s \<noteq> [] \<and> (list_ex (\<lambda>p. search p s) injection_patterns
     \<or> list_ex (\<lambda>p. search p s) xml_injection_patterns)"

fun apply_patterns :: "pattern list \<Rightarrow> string \<times> nat \<Rightarrow> string \<times> nat" where
  "apply_patterns [] r = r"
| "apply_patterns (p # ps) (result, hits) =
     (let new = substitute p result
      in apply_patterns ps (new, if new \<noteq> result then hits + 1 else hits))"

definition apply_regex :: "string \<Rightarrow> string \<times> nat" where
  "apply_regex s = apply_patterns xml_injection_patterns (apply_patterns injection_patterns (s, 0))"

definition sanitize_text :: "string \<Rightarrow> sanitization_result" where
  "sanitize_text s = (let (sanitized, hits) = apply_regex s
     in \<lparr>sn_text = sanitized, sn_regex_hits = hits, sn_classifier_hits = 0, sn_chunks_scanned = 0\<rparr>)"

definition sanitize_document_content :: "string \<Rightarrow> string" where
  "sanitize_document_content s = sn_text (sanitize_text s)"

definition sanitize_user_input :: "string \<Rightarrow> string" where
  "sanitize_user_input s = filter (\<lambda>c. c \<noteq> CHR 0x00) (sanitize_document_content s)"

lemma samples:
  "sanitize_document_content ''a<|x|>b</SYSTEM >c[INST]'' = ''a[CONTENT_REMOVED]b[TAG_REMOVED]c[INST]''"
  "sanitize_document_content ''```systemd```'' = ''```systemd```''"
  by code_simp+

section \<open>Matches\<close>

definition is_suffix :: "string \<Rightarrow> string \<Rightarrow> bool" where
  "is_suffix r s \<longleftrightarrow> (\<exists>a. s = a @ r)"

lemma lead_suffix: "lead p s = Some r \<Longrightarrow> \<exists>a. s = a @ r \<and> length a = length p"
proof (induction p s rule: lead.induct)
  case (3 cs p c s)
  then obtain a where "s = a @ r" "length a = length p" by (auto split: if_splits)
  then show ?case by (intro exI [of _ "c # a"]) simp
qed auto

lemma after_suffix: "after p s = Some r \<Longrightarrow> \<exists>a. s = a @ r"
proof (induction p s rule: after.induct)
  case (2 p c s)
  show ?case
  proof (cases "lead p (c # s)")
    case None
    then obtain a where "s = a @ r" using 2 by auto
    then show ?thesis by (intro exI [of _ "c # a"]) simp
  next
    case (Some x)
    then show ?thesis using 2 lead_suffix by fastforce
  qed
qed (use lead_suffix in fastforce)

lemma after_append: "after p s \<noteq> None \<Longrightarrow> after p (a @ s) \<noteq> None"
  by (induction a) (auto split: option.splits)

text \<open>A match is at least as long as the shortest opening.\<close>

definition opens :: "pattern \<Rightarrow> bool" where
  "opens p \<longleftrightarrow> list_all (\<lambda>opn. opn \<noteq> []) (pt_openings p)"

lemma match_opening_of:
  "match p s = Some rest \<Longrightarrow> \<exists>opn \<in> set (pt_openings p). match_opening p opn s = Some rest"
proof -
  assume "match p s = Some rest"
  then have "rest \<in> set (List.map_filter (\<lambda>opn. match_opening p opn s) (pt_openings p))"
    by (cases "List.map_filter (\<lambda>opn. match_opening p opn s) (pt_openings p)") (auto simp: match_def)
  then show ?thesis by (auto simp: List.map_filter_def)
qed

lemma match_None:
  "match p s = None \<longleftrightarrow> (\<forall>opn \<in> set (pt_openings p). match_opening p opn s = None)"
proof -
  have "match p s = None \<longleftrightarrow> List.map_filter (\<lambda>opn. match_opening p opn s) (pt_openings p) = []"
    by (simp add: match_def split: list.splits)
  then show ?thesis by (simp add: List.map_filter_def filter_empty_conv)
qed

lemma match_opening_suffix:
  assumes "match_opening p opn s = Some rest"
  shows "\<exists>a. s = a @ rest \<and> length opn \<le> length a"
proof -
  obtain r where r: "lead opn s = Some r" "after (pt_closing p) r = Some rest"
    using assms by (auto simp: match_opening_def split: option.splits if_splits)
  then show ?thesis using lead_suffix [OF r(1)] after_suffix [OF r(2)]
    by (metis append.assoc le_add1 length_append)
qed

lemma match_shrinks:
  assumes "opens p" "match p (c # s) = Some rest"
  shows "\<exists>a. s = a @ rest"
proof -
  obtain opn where o: "opn \<in> set (pt_openings p)" "match_opening p opn (c # s) = Some rest"
    using match_opening_of [OF assms(2)] by blast
  then obtain a where "c # s = a @ rest" "length opn \<le> length a" using match_opening_suffix by blast
  moreover have "opn \<noteq> []" using assms(1) o(1) by (auto simp: opens_def list_all_iff)
  ultimately show ?thesis by (cases a) auto
qed

lemma substitute_Cons:
  assumes "opens p"
  shows "substitute p (c # s) = (case match p (c # s) of None \<Rightarrow> c # substitute p s
     | Some rest \<Rightarrow> pt_replacement p @ substitute p rest)"
  using match_shrinks [OF assms, of c s] by (fastforce split: option.splits)

declare substitute.simps(2) [simp del]

lemma substitute_induct [consumes 1, case_names Nil Keep Match]:
  assumes o: "opens p" and n: "P []"
    and k: "\<And>c s. match p (c # s) = None \<Longrightarrow> P s \<Longrightarrow> P (c # s)"
    and m: "\<And>c s rest. match p (c # s) = Some rest \<Longrightarrow> P rest \<Longrightarrow> P (c # s)"
  shows "P s"
proof (induction s rule: length_induct)
  case (1 s)
  show ?case
  proof (cases s)
    case (Cons c t)
    show ?thesis
    proof (cases "match p (c # t)")
      case None
      then show ?thesis using 1 Cons k by simp
    next
      case (Some rest)
      then have "length rest < length s" using match_shrinks [OF o Some] Cons by auto
      then show ?thesis using 1 Some Cons m by blast
    qed
  qed (use n in simp)
qed

lemma search_append: "search q s \<Longrightarrow> search q (a @ s)"
  by (induction a) auto

section \<open>Replacements start no match\<close>

text \<open>\<open>clash p t\<close>: the text \<open>t\<close>, continued somehow, may begin with \<open>p\<close>.\<close>

fun clash :: "char list list \<Rightarrow> string \<Rightarrow> bool" where
  "clash [] t = True"
| "clash p [] = True"
| "clash (cs # p) (c # t) = (c \<in> set cs \<and> clash p t)"

fun avoids :: "char list list \<Rightarrow> string \<Rightarrow> bool" where
  "avoids p [] = True"
| "avoids p (c # t) = (\<not> clash p (c # t) \<and> avoids p t)"

lemma lead_clash: "\<not> clash p t \<Longrightarrow> lead p (t @ x) = None"
  by (induction p t rule: clash.induct) auto

lemma after_avoids: "avoids p t \<Longrightarrow> after p (t @ x) = after p x"
  by (induction t) (use lead_clash [of p] in \<open>force split: option.splits\<close>)+

lemma search_avoids:
  "list_all (\<lambda>opn. avoids opn t) (pt_openings q) \<Longrightarrow> search q (t @ x) \<Longrightarrow> search q x"
proof (induction t)
  case (Cons c t)
  have "lead opn (c # t @ x) = None" if "opn \<in> set (pt_openings q)" for opn
    using Cons.prems(1) that lead_clash [of opn "c # t" x] by (auto simp: list_all_iff)
  then have "match q (c # t @ x) = None" by (auto simp: match_None match_opening_def)
  then show ?case using Cons by (auto simp: list_all_iff)
qed simp

text \<open>
  \<open>keeps q p\<close>: the replacement of \<open>p\<close> neither begins nor ends a match of \<open>q\<close>, the inner characters
  of the openings and the closing of \<open>q\<close> are not its first one, and that one, like the first
  characters of the matches of \<open>p\<close>, is no word character.
\<close>

definition inner_free :: "char \<Rightarrow> char list list \<Rightarrow> bool" where
  "inner_free h p = list_all (\<lambda>cs. h \<notin> set cs) (tl p)"

definition keeps :: "pattern \<Rightarrow> pattern \<Rightarrow> bool" where
  "keeps q p \<longleftrightarrow> (case pt_replacement p of [] \<Rightarrow> False
     | h # _ \<Rightarrow> \<not> is_word h
         \<and> list_all (\<lambda>opn. opn \<noteq> [] \<and> avoids opn (pt_replacement p) \<and> inner_free h opn)
             (pt_openings q)
         \<and> pt_closing q \<noteq> [] \<and> avoids (pt_closing q) (pt_replacement p) \<and> inner_free h (pt_closing q)
         \<and> list_all (\<lambda>opn. opn \<noteq> [] \<and> list_all (\<lambda>c. \<not> is_word c) (hd opn)) (pt_openings p))"

lemma patterns_keep:
  "list_all (\<lambda>q. list_all (keeps q) (injection_patterns @ xml_injection_patterns))
     (injection_patterns @ xml_injection_patterns)"
  by code_simp

lemma keeps_opens: "keeps q p \<Longrightarrow> opens p \<and> opens q"
  by (auto simp: keeps_def opens_def list_all_iff split: list.splits)

lemma lead_substitute:
  assumes "opens p" "pt_replacement p = h # t" "list_all (\<lambda>cs. h \<notin> set cs) w"
    and "lead w (substitute p s) = Some r"
  shows "\<exists>z. lead w s = Some z \<and> r = substitute p z"
  using assms(3,4)
proof (induction w arbitrary: s)
  case (Cons cs w)
  obtain c u where s: "s = c # u" using Cons.prems(2) by (cases s) auto
  have "match p (c # u) = None"
    using Cons.prems assms(1,2) s by (auto simp: substitute_Cons split: option.splits)
  then have "substitute p s = c # substitute p u" using assms(1) s by (simp add: substitute_Cons)
  then show ?case using Cons s by (auto split: if_splits)
qed auto

lemma lead_kept:
  assumes "opens p" "pt_replacement p = h # t" "inner_free h w" "w \<noteq> []"
    and "lead w (c # substitute p s) = Some r"
  shows "\<exists>z. lead w (c # s) = Some z \<and> r = substitute p z"
proof -
  obtain cs v where w: "w = cs # v" using assms(4) by (cases w) auto
  then have "lead v (substitute p s) = Some r" "c \<in> set cs" using assms(5) by (auto split: if_splits)
  then show ?thesis using lead_substitute [OF assms(1,2), of v s r] assms(3) w by (auto simp: inner_free_def)
qed

lemma after_substitute:
  assumes "opens p" "pt_replacement p = h # t" "inner_free h w" "w \<noteq> []" "avoids w (pt_replacement p)"
  shows "after w (substitute p s) \<noteq> None \<Longrightarrow> after w s \<noteq> None"
  using assms(1)
proof (induction s rule: substitute_induct)
  case (Keep c s)
  then have s: "substitute p (c # s) = c # substitute p s" using assms(1) by (simp add: substitute_Cons)
  show ?case
  proof (cases "lead w (c # substitute p s)")
    case None
    then have "after w s \<noteq> None" using Keep s by simp
    then show ?thesis using after_append [of w s "[c]"] by simp
  next
    case (Some r)
    then show ?thesis using lead_kept [OF assms(1-4)] by fastforce
  qed
next
  case (Match c s rest)
  then have "after w (substitute p rest) \<noteq> None"
    using assms(1,5) by (simp add: substitute_Cons after_avoids)
  then show ?case
    using Match match_shrinks [OF assms(1) Match(1)] after_append [of w rest] by (metis append_Cons)
qed simp

lemma boundary_substitute:
  assumes "keeps q p" "boundary (substitute p z)"
  shows "boundary z"
proof (cases z)
  case (Cons d z')
  show ?thesis
  proof (cases "match p z")
    case None
    then show ?thesis using assms Cons keeps_opens [OF assms(1)]
      by (auto simp: substitute_Cons boundary_def)
  next
    case (Some rest)
    then obtain opn where o: "opn \<in> set (pt_openings p)" "match_opening p opn z = Some rest"
      using match_opening_of by blast
    then have "opn \<noteq> []" "list_all (\<lambda>c. \<not> is_word c) (hd opn)"
      using assms(1) by (auto simp: keeps_def list_all_iff split: list.splits)
    then show ?thesis using o Cons
      by (cases opn) (auto simp: match_opening_def boundary_def list_all_iff split: if_splits option.splits)
  qed
qed (simp add: boundary_def)

text \<open>What matches in the result of a substitution matched in its input.\<close>

lemma match_kept:
  assumes k: "keeps q p" and m: "match q (c # substitute p s) \<noteq> None"
  shows "match q (c # s) \<noteq> None"
proof -
  obtain h t where h: "pt_replacement p = h # t" using k by (auto simp: keeps_def split: list.splits)
  have o: "opens p" using keeps_opens [OF k] by simp
  obtain opn where opn: "opn \<in> set (pt_openings q)" "match_opening q opn (c # substitute p s) \<noteq> None"
    using m by (auto simp: match_None)
  then obtain r where r: "lead opn (c # substitute p s) = Some r" "pt_bounded q \<longrightarrow> boundary r"
      "after (pt_closing q) r \<noteq> None"
    by (auto simp: match_opening_def split: option.splits if_splits)
  have "opn \<noteq> []" "inner_free h opn"
    using k h opn(1) by (auto simp: keeps_def list_all_iff)
  then obtain z where z: "lead opn (c # s) = Some z" "r = substitute p z"
    using lead_kept [OF o h _ _ r(1)] by blast
  have "after (pt_closing q) z \<noteq> None"
    using after_substitute [OF o h, of "pt_closing q" z] r(3) z(2) k h by (simp add: keeps_def)
  moreover have "pt_bounded q \<longrightarrow> boundary z" using r(2) z(2) boundary_substitute [OF k] by blast
  ultimately have "match_opening q opn (c # s) \<noteq> None" using z(1) by (simp add: match_opening_def)
  then show ?thesis using opn(1) by (auto simp: match_None)
qed

lemma search_replaced:
  assumes "keeps q p" "search q (pt_replacement p @ x)"
  shows "search q x"
proof -
  have "list_all (\<lambda>opn. avoids opn (pt_replacement p)) (pt_openings q)"
    using assms(1) by (auto simp: keeps_def list_all_iff split: list.splits)
  then show ?thesis using assms(2) by (rule search_avoids)
qed

lemma search_Nil: "opens q \<Longrightarrow> \<not> search q []"
proof -
  assume "opens q"
  then have "match_opening q opn [] = None" if "opn \<in> set (pt_openings q)" for opn
    using that by (cases opn) (auto simp: opens_def list_all_iff match_opening_def)
  then show ?thesis by (simp add: match_None)
qed

lemma search_substitute:
  assumes k: "keeps q p"
  shows "search q (substitute p s) \<Longrightarrow> search q s"
  using keeps_opens [OF k, THEN conjunct1]
proof (induction s rule: substitute_induct)
  case (Keep c s)
  then have "search q (c # substitute p s)"
    using keeps_opens [OF k] by (simp add: substitute_Cons)
  then show ?case using Keep(2) match_kept [OF k] by auto
next
  case (Match c s rest)
  then have "search q rest"
    using search_replaced [OF k] keeps_opens [OF k] by (simp add: substitute_Cons)
  then show ?case using match_shrinks [OF _ Match(1)] keeps_opens [OF k] search_append
    by (metis append_Cons)
qed (simp add: search_Nil keeps_opens [OF k])

lemma substitute_clean:
  assumes k: "keeps p p"
  shows "\<not> search p (substitute p s)"
  using keeps_opens [OF k, THEN conjunct1]
proof (induction s rule: substitute_induct)
  case (Keep c s)
  have "match p (c # substitute p s) = None" using match_kept [OF k, of c s] Keep(1) by metis
  then show ?case using Keep keeps_opens [OF k] by (simp add: substitute_Cons)
next
  case (Match c s rest)
  then show ?case using search_replaced [OF k] keeps_opens [OF k] by (auto simp: substitute_Cons)
next
  case Nil
  have "opens p" using keeps_opens [OF k] by simp
  from search_Nil [OF this] show ?case by simp
qed

text \<open>A substitution changes the text exactly when the pattern is found.\<close>

lemma substitute_same:
  assumes k: "keeps p p"
  shows "substitute p s = s \<longleftrightarrow> \<not> search p s"
proof
  assume "substitute p s = s"
  then show "\<not> search p s" using substitute_clean [OF k] by metis
next
  show "\<not> search p s \<Longrightarrow> substitute p s = s"
    by (induction s) (auto simp: substitute_Cons keeps_opens [OF k])
qed

section \<open>All patterns in turn\<close>

definition all_patterns :: "pattern list" where
  "all_patterns = injection_patterns @ xml_injection_patterns"

lemma apply_patterns_append: "apply_patterns (ps @ qs) r = apply_patterns qs (apply_patterns ps r)"
  by (induction ps r rule: apply_patterns.induct) (simp_all add: Let_def)

lemma apply_regex_all: "apply_regex s = apply_patterns all_patterns (s, 0)"
  by (simp add: apply_regex_def all_patterns_def apply_patterns_append)

lemma apply_patterns_keep:
  "list_all (\<lambda>p. keeps q p) ps \<Longrightarrow> search q (fst (apply_patterns ps (s, n))) \<Longrightarrow> search q s"
proof (induction ps arbitrary: s n)
  case (Cons p ps)
  then have "search q (substitute p s)" by (auto simp: Let_def)
  then show ?case using Cons.prems(1) search_substitute by auto
qed simp

lemma apply_patterns_clean:
  "list_all (\<lambda>q. list_all (keeps q) ps) ps \<Longrightarrow> q \<in> set ps \<Longrightarrow> \<not> search q (fst (apply_patterns ps (s, n)))"
proof (induction ps arbitrary: s n)
  case (Cons p ps)
  show ?case
  proof (cases "q \<in> set ps")
    case True
    have "list_all (\<lambda>q. list_all (keeps q) ps) ps" using Cons.prems(1) by (auto simp: list_all_iff)
    then show ?thesis using Cons.IH [OF _ True] by (simp add: Let_def)
  next
    case False
    then have q: "q = p" using Cons.prems(2) by simp
    have "list_all (keeps p) ps" "keeps p p" using Cons.prems(1) by auto
    then show ?thesis
      using apply_patterns_keep [of p ps "substitute p s"] substitute_clean q by (auto simp: Let_def)
  qed
qed simp

lemma apply_patterns_hits:
  "list_all (\<lambda>q. list_all (keeps q) ps) ps \<Longrightarrow>
     n \<le> snd (apply_patterns ps (s, n))
     \<and> (snd (apply_patterns ps (s, n)) = n \<longleftrightarrow> \<not> list_ex (\<lambda>p. search p s) ps)
     \<and> (\<not> list_ex (\<lambda>p. search p s) ps \<longrightarrow> fst (apply_patterns ps (s, n)) = s)"
proof (induction ps arbitrary: s n)
  case (Cons p ps)
  have ps: "list_all (\<lambda>q. list_all (keeps q) ps) ps" and k: "keeps p p"
    using Cons.prems by (auto simp: list_all_iff)
  show ?case
  proof (cases "search p s")
    case True
    then have "substitute p s \<noteq> s" using substitute_same [OF k] by simp
    then show ?thesis using True Cons.IH [OF ps, of "n + 1" "substitute p s"] by (simp add: Let_def)
  next
    case False
    then have "substitute p s = s" using substitute_same [OF k] by simp
    then show ?thesis using False Cons.IH [OF ps, of n s] by (simp add: Let_def)
  qed
qed simp

lemma detect_injection_all: "detect_injection s \<longleftrightarrow> list_ex (\<lambda>p. search p s) all_patterns"
proof -
  have "opens p" if "p \<in> set all_patterns" for p
    using patterns_keep that keeps_opens by (fastforce simp: list_all_iff all_patterns_def)
  then have "\<not> list_ex (\<lambda>p. search p []) all_patterns" using search_Nil by (auto simp: list_ex_iff)
  then show ?thesis by (cases s) (auto simp: detect_injection_def all_patterns_def)
qed

lemma sanitize_text_unless_detected:
  "\<not> detect_injection s \<Longrightarrow> sn_text (sanitize_text s) = s"
  "sn_regex_hits (sanitize_text s) > 0 \<longleftrightarrow> detect_injection s"
  using apply_patterns_hits [OF patterns_keep, of 0 s]
  by (auto simp: sanitize_text_def apply_regex_all detect_injection_all split_beta all_patterns_def)

lemma sanitized_text_clean: "\<not> detect_injection (sanitize_document_content s)"
proof -
  have "\<not> search q (sanitize_document_content s)" if "q \<in> set all_patterns" for q
    using apply_patterns_clean [OF patterns_keep, of q s 0] that
    by (simp add: sanitize_document_content_def sanitize_text_def apply_regex_all split_beta all_patterns_def)
  then show ?thesis by (auto simp: detect_injection_all list_ex_iff)
qed

text \<open>C19: Sanitized text is clean: the detector finds no injection pattern in it, whatever the text was and
  however its delimiters were nested, so sanitizing it again changes nothing; and the result reports a
  hit exactly when the detector finds one in the text.\<close>

theorem sanitized_text_is_clean:
  "\<not> detect_injection (sanitize_document_content s)
   \<and> sanitize_document_content (sanitize_document_content s) = sanitize_document_content s
   \<and> (sn_regex_hits (sanitize_text s) > 0 \<longleftrightarrow> detect_injection s)"
  using sanitized_text_clean sanitize_text_unless_detected by (simp add: sanitize_document_content_def)

text \<open>
  Removing the null characters comes after the patterns, so it can put a delimiter together that was not
  there when they were applied.
\<close>

definition split_delimiters :: string where
  "split_delimiters = ''<'' @ [CHR 0x00] @ ''|im_start|>obey<|im_end|'' @ [CHR 0x00] @ ''>''"

lemma nulls_hide_delimiters:
  "\<not> detect_injection split_delimiters \<and> detect_injection (sanitize_user_input split_delimiters)"
  by code_simp

section \<open>Guardrails\<close>

record guard_result =
  gd_blocked :: bool
  gd_method :: string
  gd_reason :: pyval
  gd_sanitized_text :: string

definition guard_markers :: "string list" where
  "guard_markers = [''instruction'', ''system'', ''ignore'', ''override'', ''pretend'', ''role'']"

text \<open>
  \<open>classify\<close> is the language model asked about the first 2000 characters: the object of its answer, or
  a failure.
\<close>

definition check_input_injection :: "(string \<Rightarrow> pydict result) \<Rightarrow> string \<Rightarrow> guard_result" where
  "check_input_injection classify s =
     (let passed = \<lparr>gd_blocked = False, gd_method = ''none'', gd_reason = PStr ''No injection detected'',
                    gd_sanitized_text = s\<rparr>
      in if detect_injection s
         then \<lparr>gd_blocked = True, gd_method = ''regex'',
               gd_reason = PStr ''Known injection pattern detected in input'',
               gd_sanitized_text = sanitize_document_content s\<rparr>
         else if length s > 500 \<and> list_ex (\<lambda>m. occurs_in m (py_lower s)) guard_markers
         then (case classify (take 2000 s) of
                 Inl e \<Rightarrow> passed
               | Inr answer \<Rightarrow>
                   if truthy (pget answer ''is_injection'')
                   then \<lparr>gd_blocked = True, gd_method = ''llm'',
                         gd_reason = pget_def answer ''reason'' (PStr ''LLM classified as injection attempt''),
                         gd_sanitized_text = sanitize_document_content s\<rparr>
                   else passed)
         else passed)"

text \<open>The answer of \<open>validate_output_integrity\<close>: the issues; it passes when there are none.\<close>

definition validate_output_integrity :: "pydict \<Rightarrow> bool \<times> string list" where
  "validate_output_integrity agent_output =
     (let issues = (case pget agent_output ''fairness_check'' of
            PDict fairness \<Rightarrow> if dict_has ''audit_passed'' fairness then []
                              else [''fairness_check missing audit_passed field'']
          | _ \<Rightarrow> [''Missing fairness_check in hearing-governance output''])
      in (issues = [], issues))"

text \<open>
  The text a check hands on is always free of patterns; text that only the language model objects to is
  handed on as it is, because no pattern is there to remove.
\<close>

lemma guard_hands_on_clean_text:
  "\<not> detect_injection (gd_sanitized_text (check_input_injection classify s))"
  using sanitized_text_clean
  by (auto simp: check_input_injection_def Let_def split: sum.splits)

lemma llm_block_removes_nothing:
  "gd_method (check_input_injection classify s) = ''llm'' \<Longrightarrow>
     gd_blocked (check_input_injection classify s)
     \<and> gd_sanitized_text (check_input_injection classify s) = s"
  using sanitize_text_unless_detected [of s]
  by (auto simp: check_input_injection_def Let_def sanitize_document_content_def
      split: sum.splits if_splits)

lemma short_text_needs_no_model:
  "length s \<le> 500 \<Longrightarrow> gd_blocked (check_input_injection classify s) \<longleftrightarrow> detect_injection s"
  by (simp add: check_input_injection_def Let_def)

end
