(* ===== verification/Intake.thy ===== *)
theory Intake
  imports Case_View Document_Parse
begin

text \<open>
  How a case comes into being: the intake endpoints of \<open>api/routes/cases.py\<close> with their requests
  (\<open>api/schemas/cases.py\<close>) and the extraction of the fields of a draft from its documents
  (\<open>services/intake_extraction.py\<close>, the job in \<open>workers/tasks.py\<close>). The language model and the
  OpenAI files are arguments; so is the key of a new row.
\<close>

section \<open>Requests\<close>

definition party_roles :: "string list" where
  "party_roles = [''claimant'', ''respondent'', ''accused'', ''prosecution'']"

record party_input =
  pi_name :: string
  pi_role :: string
  pi_contact_info :: "pydict option"

definition valid_party :: "party_input \<Rightarrow> bool" where
  "valid_party p \<longleftrightarrow> 1 \<le> length (pi_name p) \<and> length (pi_name p) \<le> 255 \<and> pi_role p \<in> set party_roles"

record intake_fields =
  if_title :: string
  if_description :: "string option"
  if_filed_date :: "int option"
  if_parties :: "party_input list"
  if_claim_amount :: "rat option"
  if_consent :: bool
  if_offence_code :: "string option"

definition at_most :: "nat \<Rightarrow> string option \<Rightarrow> bool" where
  "at_most n x = (case x of None \<Rightarrow> True | Some s \<Rightarrow> length s \<le> n)"

text \<open>The constraints \<open>CaseCreateRequest\<close> and \<open>CaseConfirmRequest\<close> share.\<close>

definition valid_fields :: "intake_fields \<Rightarrow> bool" where
  "valid_fields f \<longleftrightarrow> 1 \<le> length (if_title f) \<and> length (if_title f) \<le> 255
     \<and> at_most 5000 (if_description f) \<and> list_all valid_party (if_parties f)
     \<and> (case if_claim_amount f of None \<Rightarrow> True | Some a \<Rightarrow> 0 \<le> a)
     \<and> at_most 100 (if_offence_code f) \<and> 2 \<le> length (if_parties f)"

record domain_choice =
  dh_domain_id :: "uuid option"
  dh_domain :: "case_domain_enum option"

text \<open>\<open>validate_domain_requirements\<close>: the checks look at the enumeration of the request alone.\<close>

definition sct_amount_ok :: "rat option \<Rightarrow> bool \<Rightarrow> bool" where
  "sct_amount_ok amount consent =
     (case amount of None \<Rightarrow> False | Some a \<Rightarrow> a \<le> 30000 \<and> (a > 20000 \<longrightarrow> consent))"

definition valid_create :: "domain_choice \<Rightarrow> intake_fields \<Rightarrow> bool" where
  "valid_create d f \<longleftrightarrow> valid_fields f \<and> (dh_domain_id d \<noteq> None \<or> dh_domain d \<noteq> None)
     \<and> (dh_domain d = Some small_claims \<longrightarrow> sct_amount_ok (if_claim_amount f) (if_consent f))
     \<and> (dh_domain d = Some traffic_violation \<longrightarrow> non_empty (if_offence_code f))"

section \<open>Creating\<close>

definition domain_by_code :: "string \<Rightarrow> database \<Rightarrow> domain_row option" where
  "domain_by_code code db = find (\<lambda>r. do_code r = code) (db_domains db)"

definition domain_of_value :: "string \<Rightarrow> case_domain_enum option" where
  "domain_of_value v = (if v = ''small_claims'' then Some small_claims
     else if v = ''traffic_violation'' then Some traffic_violation else None)"

text \<open>
  The row of the domain, which must be active. \<open>create_case\<close> refuses a code that contradicts the row,
  \<open>create_case_draft\<close> does not look.
\<close>

definition resolve_domain :: "bool \<Rightarrow> domain_choice \<Rightarrow> database \<Rightarrow> domain_row option result" where
  "resolve_domain check_agreement d db =
     bind_result
       (case dh_domain_id d of
          Some i \<Rightarrow>
            (case find_domain (Some i) db of
               None \<Rightarrow> Inl (HttpError 422 (''Domain '' @ i @ '' not found''))
             | Some r \<Rightarrow> if check_agreement \<and> dh_domain d \<noteq> None \<and> domain_value (the (dh_domain d)) \<noteq> do_code r
                        then Inl (HttpError 400 ''domain_id and domain disagree'')
                        else Inr (Some r))
        | None \<Rightarrow>
            (case dh_domain d of
               None \<Rightarrow> Inr None
             | Some e \<Rightarrow> (case domain_by_code (domain_value e) db of
                   None \<Rightarrow> Inl (HttpError 500 ''Domain seed row missing'')
                 | Some r \<Rightarrow> Inr (Some r))))
       (\<lambda>r. if (case r of None \<Rightarrow> False | Some row \<Rightarrow> \<not> do_is_active row)
             then Inl (HttpError 422 (''Domain '' @ quote (do_code (the r)) @ '' is not active''))
             else Inr r)"

definition legacy_domain :: "domain_choice \<Rightarrow> domain_row option \<Rightarrow> case_domain_enum option" where
  "legacy_domain d r = (case dh_domain d of
     Some e \<Rightarrow> Some e | None \<Rightarrow> (case r of None \<Rightarrow> None | Some row \<Rightarrow> domain_of_value (do_code row)))"

text \<open>
  The column \<open>domain\<close> is not nullable: a row without one is refused at the flush.
\<close>

definition insert_new_case ::
  "case_domain_enum option \<Rightarrow> (case_domain_enum \<Rightarrow> case_row) \<Rightarrow> party_row list \<Rightarrow> database \<Rightarrow> database result" where
  "insert_new_case enum row parties db =
     (case enum of
        None \<Rightarrow> Inl (OtherError ''IntegrityError'')
      | Some e \<Rightarrow> Inr (db\<lparr>db_cases := db_cases db @ [row e], db_parties := db_parties db @ parties\<rparr>))"

definition new_case_row :: "request \<Rightarrow> uuid \<Rightarrow> case_status \<Rightarrow> uuid option \<Rightarrow> case_domain_enum \<Rightarrow> case_row" where
  "new_case_row rq new_id s did e =
     \<lparr>ca_id = new_id, ca_domain = e, ca_title = None, ca_description = None, ca_filed_date = None,
      ca_claim_amount = None, ca_consent_to_higher_claim_limit = False, ca_offence_code = None,
      ca_status = s, ca_jurisdiction_valid = None, ca_complexity = None, ca_route = None,
      ca_domain_id = did, ca_latest_run_id = None, ca_gate_state = None, ca_judicial_decision = None,
      ca_intake_extraction = None, ca_created_by = us_id (rq_user rq), ca_created_at = rq_now rq,
      ca_updated_at = None\<rparr>"

definition fill_fields :: "intake_fields \<Rightarrow> case_row \<Rightarrow> case_row" where
  "fill_fields f c = c
     \<lparr>ca_title := Some (py_strip (if_title f)),
      ca_description := (if non_empty (if_description f) then map_option py_strip (if_description f) else None),
      ca_filed_date := if_filed_date f, ca_claim_amount := if_claim_amount f,
      ca_consent_to_higher_claim_limit := if_consent f, ca_offence_code := if_offence_code f\<rparr>"

definition party_rows :: "uuid \<Rightarrow> party_input list \<Rightarrow> party_row list" where
  "party_rows cid ps = map (\<lambda>p. \<lparr>pa_case = cid, pa_name = py_strip (pi_name p), pa_role = pi_role p,
                                 pa_contact_info = pi_contact_info p\<rparr>) ps"

definition create_case ::
  "request \<Rightarrow> uuid \<Rightarrow> domain_choice \<Rightarrow> intake_fields \<Rightarrow> database \<Rightarrow> database result" where
  "create_case rq new_id d f db =
     bind_result (require_role [user_role.Judge] rq) (\<lambda>_.
       if \<not> valid_create d f then Inl (HttpError 422 ''Validation error'')
       else bind_result (resolve_domain True d db) (\<lambda>r.
         insert_new_case (legacy_domain d r)
           (\<lambda>e. fill_fields f (new_case_row rq new_id S_pending (map_option do_id r) e))
           (party_rows new_id (if_parties f)) db))"

definition create_case_draft ::
  "request \<Rightarrow> uuid \<Rightarrow> domain_choice \<Rightarrow> int option \<Rightarrow> database \<Rightarrow> database result" where
  "create_case_draft rq new_id d filed db =
     bind_result (require_role [user_role.Judge] rq) (\<lambda>_.
       if dh_domain_id d = None \<and> dh_domain d = None then Inl (HttpError 422 ''Validation error'')
       else bind_result (resolve_domain False d db) (\<lambda>r.
         insert_new_case (legacy_domain d r)
           (\<lambda>e. (new_case_row rq new_id S_draft (map_option do_id r) e)\<lparr>ca_filed_date := filed\<rparr>) [] db))"

section \<open>Confirming\<close>

definition intake_statuses :: "case_status list" where
  "intake_statuses = [S_draft, S_extracting, S_awaiting_intake_confirmation]"

definition confirmable :: "case_row \<Rightarrow> intake_fields \<Rightarrow> unit result" where
  "confirmable c f =
     (if ca_domain c = small_claims then
        (case if_claim_amount f of
           None \<Rightarrow> Inl (HttpError 422 ''Small-claims matters require claim_amount at confirm'')
         | Some a \<Rightarrow> if a > 30000 then Inl (HttpError 422 ''SCT claim_amount exceeds the $30,000 jurisdiction limit.'')
                    else if a > 20000 \<and> \<not> if_consent f
                    then Inl (HttpError 422 ''SCT claim_amount above $20,000 requires consent_to_higher_claim_limit.'')
                    else Inr ())
      else if \<not> non_empty (if_offence_code f)
      then Inl (HttpError 422 ''Traffic matters require offence_code at confirm'')
      else Inr ())"

definition confirm_case_intake ::
  "request \<Rightarrow> uuid \<Rightarrow> intake_fields \<Rightarrow> database \<Rightarrow> database result" where
  "confirm_case_intake rq cid f db =
     bind_result (require_role [user_role.Judge] rq) (\<lambda>_.
       if \<not> valid_fields f then Inl (HttpError 422 ''Validation error'')
       else bind_result (owned_case rq cid db) (\<lambda>c.
         if ca_status c \<notin> set intake_statuses
         then Inl (HttpError 409 (''Case cannot be confirmed from status '' @ status_value (ca_status c)))
         else bind_result (confirmable c f) (\<lambda>_.
           let db' = update_case cid
                 (\<lambda>r. (fill_fields f r)\<lparr>ca_status := S_pending, ca_updated_at := Some (rq_now rq)\<rparr>) db
           in Inr (db'\<lparr>db_parties := filter (\<lambda>p. pa_case p \<noteq> cid) (db_parties db')
                                    @ party_rows cid (if_parties f)\<rparr>))))"

section \<open>Asking for an extraction\<close>

definition start_extraction ::
  "request \<Rightarrow> uuid \<Rightarrow> string \<Rightarrow> pydict option \<Rightarrow> database \<Rightarrow> database result" where
  "start_extraction rq cid refusal payload db =
     bind_result (require_role [user_role.Judge] rq) (\<lambda>_.
     bind_result (owned_case rq cid db) (\<lambda>c.
       if ca_status c \<notin> set intake_statuses
       then Inl (HttpError 409 (refusal @ status_value (ca_status c)))
       else Inr (enqueue_job rq cid Job_intake_extraction payload
                   (assign_status (rq_now rq) cid S_extracting c db))))"

definition trigger_intake_extraction :: "request \<Rightarrow> uuid \<Rightarrow> database \<Rightarrow> (database \<times> string) result" where
  "trigger_intake_extraction rq cid db =
     bind_result (start_extraction rq cid ''Intake extraction not valid from status '' None db)
       (\<lambda>db'. Inr (db', ''Intake extraction enqueued''))"

definition send_intake_message :: "request \<Rightarrow> uuid \<Rightarrow> string \<Rightarrow> database \<Rightarrow> (database \<times> string) result" where
  "send_intake_message rq cid content db =
     (if content = [] \<or> length content > 4000 then Inl (HttpError 422 ''Validation error'')
      else bind_result (start_extraction rq cid ''Cannot accept intake message from status ''
                          (Some [(''correction'', PStr content)]) db)
             (\<lambda>db'. Inr (db', ''Correction received'')))"

section \<open>Extraction\<close>

definition document_kinds :: "string list" where
  "document_kinds =
     [''notice_of_traffic_offence'', ''charge_sheet'', ''police_report'', ''witness_statement'',
      ''speed_camera_record'', ''evidence_bundle'', ''in_car_camera'', ''medical_report'',
      ''letter_of_mitigation'', ''other'']"

definition authoritative_kinds :: "string list" where
  "authoritative_kinds = [''notice_of_traffic_offence'', ''charge_sheet'', ''other'']"

definition kind_labels :: "string dict" where
  "kind_labels =
     [(''notice_of_traffic_offence'', ''Traffic Notice (Summons or Advisory)''),
      (''charge_sheet'', ''Charge Sheet''), (''police_report'', ''Police Report''),
      (''witness_statement'', ''Witness Statement / Affidavit''),
      (''speed_camera_record'', ''Speed Camera Record''),
      (''evidence_bundle'', ''Other Supporting Documents''),
      (''in_car_camera'', ''In-car camera footage (descriptive only)''),
      (''medical_report'', ''Medical Report''), (''letter_of_mitigation'', ''Letter of Mitigation''),
      (''other'', ''Untyped document'')]"

lemma every_kind_has_a_label: "map fst kind_labels = document_kinds"
  by code_simp

definition kind_label :: "string \<Rightarrow> string" where
  "kind_label kind = (case map_of kind_labels kind of Some l \<Rightarrow> l | None \<Rightarrow> [])"

datatype intake_event =
    Phase_event string
  | Done_event pydict
  | Failure_event exn
  | Confirmed_event
  | User_message string

definition is_terminal :: "intake_event \<Rightarrow> bool" where
  "is_terminal e = (case e of Done_event _ \<Rightarrow> True | Failure_event _ \<Rightarrow> True | Confirmed_event \<Rightarrow> True | _ \<Rightarrow> False)"

text \<open>What a subscriber of the channel receives: everything up to the first terminal event.\<close>

fun subscribe_intake_events :: "intake_event list \<Rightarrow> intake_event list" where
  "subscribe_intake_events [] = []"
| "subscribe_intake_events (e # es) = (if is_terminal e then [e] else e # subscribe_intake_events es)"

text \<open>The cached pages of a document as text; the join raises on a page whose text is not a string.\<close>

definition pages_entry_text :: "(pyval \<Rightarrow> string) \<Rightarrow> pyval \<Rightarrow> pyval" where
  "pages_entry_text rep v = (case v of PDict d \<Rightarrow> pget_def d ''text'' (PStr []) | _ \<Rightarrow> PStr (py_str rep v))"

fun str_values :: "pyval list \<Rightarrow> string list option" where
  "str_values [] = Some []"
| "str_values (PStr s # vs) = map_option (\<lambda>ss. s # ss) (str_values vs)"
| "str_values (v # vs) = None"

definition blank_line :: string where "blank_line = newline @ newline"

definition joined_pages :: "(pyval \<Rightarrow> string) \<Rightarrow> document_row \<Rightarrow> exn + string" where
  "joined_pages rep d =
     (case dc_pages d of
        Some (PList vs) \<Rightarrow>
          (case str_values (filter truthy (map (pages_entry_text rep) vs)) of
             None \<Rightarrow> Inl parse_type_error | Some ss \<Rightarrow> Inr (join_with blank_line ss))
      | _ \<Rightarrow> Inr [])"

text \<open>
  The text of a document, with the row that caches the pages of a live parse. A parse that fails leaves an
  empty text.
\<close>

definition document_text ::
  "(pyval \<Rightarrow> string) \<Rightarrow> 'w openai_files \<Rightarrow> document_row \<Rightarrow> 'w \<Rightarrow> (exn + document_row \<times> string) \<times> 'w" where
  "document_text rep files d w =
     (case joined_pages rep d of
        Inl e \<Rightarrow> (Inl e, w)
      | Inr s \<Rightarrow>
          if py_strip s \<noteq> [] then (Inr (d, s), w)
          else if \<not> non_empty (dc_openai_file_id d) then (Inr (d, []), w)
          else (case parse_document files None (the (dc_openai_file_id d)) False False w of
                  (Inl e, w') \<Rightarrow> (Inr (d, []), w')
                | (Inr p, w') \<Rightarrow>
                    (Inr (d\<lparr>dc_pages := Some (PList (map page_value (pd_pages p)))\<rparr>, pd_text p), w')))"

fun documents_with_text ::
  "(pyval \<Rightarrow> string) \<Rightarrow> 'w openai_files \<Rightarrow> document_row list \<Rightarrow> 'w
   \<Rightarrow> (exn + (document_row \<times> string) list) \<times> 'w" where
  "documents_with_text rep files [] w = (Inr [], w)"
| "documents_with_text rep files (d # ds) w =
     (case document_text rep files d w of
        (Inl e, w') \<Rightarrow> (Inl e, w')
      | (Inr dt, w') \<Rightarrow>
          (case documents_with_text rep files ds w' of
             (Inl e, w'') \<Rightarrow> (Inl e, w'')
           | (Inr dts, w'') \<Rightarrow> (Inr (dt # dts), w'')))"

definition prompt_block :: "document_row \<times> string \<Rightarrow> string" where
  "prompt_block dt = ''=== ['' @ kind_label (dc_kind (fst dt)) @ '']  id='' @ dc_id (fst dt)
     @ ''  filename='' @ dc_filename (fst dt) @ '' ==='' @ newline @ py_strip (snd dt)"

definition build_user_prompt :: "(document_row \<times> string) list \<Rightarrow> string option \<Rightarrow> string" where
  "build_user_prompt documents correction =
     (let blocks = map prompt_block (filter (\<lambda>dt. py_strip (snd dt) \<noteq> []) documents);
          joined = (if blocks = [] then ''(no parseable document text available)''
                    else join_with blank_line blocks)
      in if non_empty correction
         then joined @ blank_line @ ''=== Judge'' @ [CHR 0x27] @ ''s correction ==='' @ newline
              @ py_strip (the correction) @ newline
              @ ''Re-extract taking this correction as authoritative over the documents.''
         else joined)"

definition intake_field_names :: "string list" where
  "intake_field_names = [''title'', ''description'', ''filed_date'', ''parties'', ''offence_code'',
                         ''claim_amount'', ''is_advisory_only'']"

definition empty_extraction :: "string \<Rightarrow> string \<Rightarrow> pydict" where
  "empty_extraction ran_at remark =
     [(''fields'', PDict (map (\<lambda>k. (k, if k = ''parties'' then PList [] else PNone)) intake_field_names)),
      (''confidences'', PDict (map (\<lambda>k. (k, PStr ''low'')) intake_field_names)),
      (''citations'', PList []), (''notes'', PStr remark), (''model'', PNone), (''ran_at'', PStr ran_at)]"

definition no_documents_remark :: string where
  "no_documents_remark =
     ''No authoritative documents uploaded yet. Upload a Notice of Traffic Offence / Summons or Charge Sheet, ''
     @ ''or use the '' @ [CHR 0x27] @ ''I'' @ [CHR 0x27] @ ''ll type it'' @ [CHR 0x27]
     @ '' fallback to enter the fields manually.''"

text \<open>
  \<open>llm\<close> answers a prompt with the parsed object and the name of the model, or raises.
\<close>

type_synonym 'w extractor = "string \<Rightarrow> 'w \<Rightarrow> (exn + pydict \<times> string option) \<times> 'w"

record 'w intake_world =
  iw_service :: 'w
  iw_db :: database
  iw_events :: "(uuid \<times> intake_event) list"

definition emit_intake :: "uuid \<Rightarrow> intake_event \<Rightarrow> 'w intake_world \<Rightarrow> 'w intake_world" where
  "emit_intake cid ev s = s\<lparr>iw_events := iw_events s @ [(cid, ev)]\<rparr>"

definition propose ::
  "int \<Rightarrow> uuid \<Rightarrow> pydict \<Rightarrow> database \<Rightarrow> database" where
  "propose now cid payload db = update_case cid
     (\<lambda>c. c\<lparr>ca_intake_extraction := Some payload, ca_status := S_awaiting_intake_confirmation,
            ca_updated_at := Some now\<rparr>) db"

definition store_pages :: "(document_row \<times> string) list \<Rightarrow> database \<Rightarrow> database" where
  "store_pages dts db = foldl (\<lambda>db dt. update_document (dc_id (fst dt)) (\<lambda>r. r\<lparr>dc_pages := dc_pages (fst dt)\<rparr>) db) db dts"

definition value_error :: exn where "value_error = Exn [''ValueError'', ''Exception'']"

definition run_intake_extraction ::
  "(pyval \<Rightarrow> string) \<Rightarrow> (int \<Rightarrow> string) \<Rightarrow> 'w openai_files \<Rightarrow> 'w extractor \<Rightarrow> int \<Rightarrow> uuid \<Rightarrow> string option
   \<Rightarrow> 'w intake_world \<Rightarrow> 'w intake_world \<times> exn option" where
  "run_intake_extraction rep isoformat files llm now cid correction s0 =
     (case find_case cid (iw_db s0) of
        None \<Rightarrow> (s0, Some value_error)
      | Some c \<Rightarrow>
          let s1 = emit_intake cid (Phase_event ''loading_documents'') s0;
              all_docs = documents_of cid (iw_db s0);
              authoritative = filter (\<lambda>d. dc_kind d \<in> set authoritative_kinds) all_docs;
              supporting = filter (\<lambda>d. dc_kind d \<notin> set authoritative_kinds) all_docs
          in if authoritative = [] then
               let payload = empty_extraction (isoformat now) no_documents_remark
               in (emit_intake cid (Done_event payload) (s1\<lparr>iw_db := propose now cid payload (iw_db s1)\<rparr>), None)
             else
               let s2 = emit_intake cid (Phase_event ''parsing_documents'') s1
               in case documents_with_text rep files (authoritative @ supporting) (iw_service s2) of
                    (Inl e, w) \<Rightarrow> (s2\<lparr>iw_service := w\<rparr>, Some e)
                  | (Inr dts, w) \<Rightarrow>
                      let s3 = emit_intake cid (Phase_event ''extracting_fields'') (s2\<lparr>iw_service := w\<rparr>);
                          db = store_pages dts (iw_db s3)
                      in case llm (build_user_prompt dts correction) w of
                           (Inl e, w') \<Rightarrow>
                             (emit_intake cid (Failure_event e)
                                (s3\<lparr>iw_service := w', iw_db := assign_status now cid S_draft c db\<rparr>),
                              Some e)
                         | (Inr (parsed, model), w') \<Rightarrow>
                             let payload = dict_merge parsed
                                   [(''model'', dump_opt PStr model), (''ran_at'', PStr (isoformat now))]
                             in (emit_intake cid (Done_event payload)
                                   (s3\<lparr>iw_service := w', iw_db := propose now cid payload db\<rparr>), None))"

text \<open>The job of the worker.\<close>

definition intake_runner ::
  "(pyval \<Rightarrow> string) \<Rightarrow> (int \<Rightarrow> string) \<Rightarrow> 'w openai_files \<Rightarrow> 'w extractor \<Rightarrow> int \<Rightarrow> 'w intake_world runner" where
  "intake_runner rep isoformat files llm now job trace_id s =
     (let correction = (case jb_payload job of None \<Rightarrow> None | Some p \<Rightarrow> payload_text p ''correction'')
      in case run_intake_extraction rep isoformat files llm now (jb_case_id job) correction s of
           (s', None) \<Rightarrow> (s', None)
         | (s', Some e) \<Rightarrow> (s', Some (OtherError ''intake extraction failed'')))"

definition document_parse_runner :: "'w openai_files \<Rightarrow> 'w intake_world runner" where
  "document_parse_runner files job trace_id s =
     (case jb_target_id job of
        None \<Rightarrow> (s, None)
      | Some did \<Rightarrow>
          (case parse_and_persist_document files did (iw_service s, iw_db s) of
             ((w, db), e) \<Rightarrow> (s\<lparr>iw_service := w, iw_db := db\<rparr>,
                              map_option (\<lambda>_. OtherError ''document parse failed'') e)))"

section \<open>Frames\<close>

lemma update_document_frame [simp]:
  "db_jobs (update_document did f db) = db_jobs db" "find_case k (update_document did f db) = find_case k db"
  "db_cases (update_document did f db) = db_cases db"
  by (simp_all add: update_document_def find_case_def)

lemma store_pages_frame [simp]:
  "db_jobs (store_pages dts db) = db_jobs db \<and> db_cases (store_pages dts db) = db_cases db"
  unfolding store_pages_def by (induction dts arbitrary: db) simp_all

lemma find_case_cases: "db_cases db = db_cases db' \<Longrightarrow> find_case k db = find_case k db'"
  by (simp add: find_case_def)

lemma find_stored [simp]: "find_case k (store_pages dts db) = find_case k db"
  by (rule find_case_cases) simp

lemma propose_frame [simp]:
  "db_jobs (propose now cid payload db) = db_jobs db"
  "find_case k (propose now cid payload db) = map_option (\<lambda>c. if k = cid then
     c\<lparr>ca_intake_extraction := Some payload, ca_status := S_awaiting_intake_confirmation,
       ca_updated_at := Some now\<rparr> else c) (find_case k db)"
  by (simp_all add: propose_def)

lemma emit_intake_frame [simp]:
  "iw_db (emit_intake cid ev s) = iw_db s" "iw_service (emit_intake cid ev s) = iw_service s"
  by (simp_all add: emit_intake_def)

lemma assign_status_frame [simp]: "db_jobs (assign_status now cid s c db) = db_jobs db"
  by (simp add: assign_status_def)

text \<open>
  What an extraction does to the tables, whatever the documents hold and the model answers: only its case
  changes, and that becomes a proposal, or a draft, or stays as it is when a document cannot be read.
\<close>

definition extraction_effect ::
  "uuid \<Rightarrow> case_row \<Rightarrow> exn option \<Rightarrow> database \<Rightarrow> database \<Rightarrow> bool" where
  "extraction_effect cid c err db db' \<longleftrightarrow> db_jobs db' = db_jobs db
     \<and> (\<forall>k. k \<noteq> cid \<longrightarrow> find_case k db' = find_case k db)
     \<and> (\<exists>c'. find_case cid db' = Some c'
          \<and> (err = None \<longrightarrow> ca_status c' = S_awaiting_intake_confirmation)
          \<and> (err \<noteq> None \<longrightarrow> ca_status c' \<in> {S_draft, ca_status c}))"

lemma assign_status_effect:
  assumes "find_case cid db = Some c"
  shows "(k \<noteq> cid \<longrightarrow> find_case k (assign_status now cid s c db) = find_case k db)
     \<and> (\<exists>c'. find_case cid (assign_status now cid s c db) = Some c' \<and> ca_status c' = s)"
proof -
  have "k \<noteq> cid \<Longrightarrow> map_option (with_status now cid s) (find_case k db) = find_case k db"
    using find_case_id [of k db] by (auto split: option.splits intro!: option.map_ident_strong)
  then show ?thesis using assms find_case_id [OF assms] by (auto simp: assign_status_def)
qed

lemma extraction_result:
  assumes r: "run_intake_extraction rep isoformat files llm now cid correction s = (s', err)"
    and c: "find_case cid (iw_db s) = Some c"
  shows "extraction_effect cid c err (iw_db s) (iw_db s')"
proof (cases "filter (\<lambda>d. dc_kind d \<in> set authoritative_kinds) (documents_of cid (iw_db s)) = []")
  case True
  then have "err = None" "\<exists>payload. iw_db s' = propose now cid payload (iw_db s)"
    using r c by (auto simp: run_intake_extraction_def Let_def)
  then show ?thesis using c by (auto simp: extraction_effect_def map_option_case split: option.splits)
next
  case False
  obtain docs where docs: "docs = filter (\<lambda>d. dc_kind d \<in> set authoritative_kinds) (documents_of cid (iw_db s))
      @ filter (\<lambda>d. dc_kind d \<notin> set authoritative_kinds) (documents_of cid (iw_db s))" by simp
  obtain got w where g: "documents_with_text rep files docs (iw_service s) = (got, w)" by fastforce
  show ?thesis
  proof (cases got)
    case (Inl e)
    then have "err = Some e" "iw_db s' = iw_db s"
      using r c False g by (auto simp: run_intake_extraction_def Let_def docs)
    then show ?thesis using c by (simp add: extraction_effect_def)
  next
    case (Inr dts)
    obtain reply w' where l: "llm (build_user_prompt dts correction) w = (reply, w')" by fastforce
    show ?thesis
    proof (cases reply)
      case (Inl e)
      then have "err = Some e" and db: "iw_db s' = assign_status now cid S_draft c (store_pages dts (iw_db s))"
        using r c False g l \<open>got = Inr dts\<close> by (auto simp: run_intake_extraction_def Let_def docs)
      then show ?thesis
        using assign_status_effect [of cid "store_pages dts (iw_db s)" c _ now S_draft] c
        by (force simp: extraction_effect_def db)
    next
      case (Inr a)
      then have "err = None" "\<exists>payload. iw_db s' = propose now cid payload (store_pages dts (iw_db s))"
        using r c False g l \<open>got = Inr dts\<close>
        by (auto simp: run_intake_extraction_def Let_def docs split: prod.splits)
      then show ?thesis using c by (auto simp: extraction_effect_def map_option_case split: option.splits)
    qed
  qed
qed

section \<open>Intake beside the pipeline\<close>

lemma system_ok_intake:
  assumes ok: "system_ok w"
    and others: "\<And>k. k \<noteq> cid \<Longrightarrow> find_case k db = find_case k (w_db w)"
    and jobs: "\<And>k. live_jobs k (db_jobs db) = live_jobs k (db_jobs (w_db w))"
    and carry: "jobs_carry_actions (db_jobs db)"
    and calm: "\<And>c. find_case cid db = Some c \<Longrightarrow> ca_status c \<in> set (S_pending # intake_statuses)"
    and idle: "live_jobs cid (db_jobs (w_db w)) = []"
  shows "system_ok (w\<lparr>w_db := db\<rparr>)"
proof (rule system_ok_one_case [OF ok, of cid])
  fix c assume "find_case cid (w_db (w\<lparr>w_db := db\<rparr>)) = Some c"
  then have "ca_status c \<in> set (S_pending # intake_statuses)" using calm by simp
  then have "awaiting g \<noteq> Some (ca_status c)" for g
    using awaiting_status(1) [of g "ca_status c"] by (auto simp: intake_statuses_def gate_pause_statuses_def)
  then show "row_ok cid (w\<lparr>w_db := db\<rparr>) c" using idle by (simp add: row_ok_def jobs)
qed (use ok carry others jobs system_okD(1) [OF ok] in auto)

text \<open>The steps of intake. An extraction finds its case still in intake; a new key is fresh.\<close>

definition fresh_key :: "uuid \<Rightarrow> thread world \<Rightarrow> bool" where
  "fresh_key k w \<longleftrightarrow> find_case k (w_db w) = None \<and> live_jobs k (db_jobs (w_db w)) = []"

inductive intake_step :: "thread world \<Rightarrow> thread world \<Rightarrow> bool" where
  create: "fresh_key new_id w \<Longrightarrow> create_case rq new_id d f (w_db w) = Inr db \<Longrightarrow>
    intake_step w (w\<lparr>w_db := db\<rparr>)"
| draft: "fresh_key new_id w \<Longrightarrow> create_case_draft rq new_id d filed (w_db w) = Inr db \<Longrightarrow>
    intake_step w (w\<lparr>w_db := db\<rparr>)"
| confirm: "confirm_case_intake rq cid f (w_db w) = Inr db \<Longrightarrow> intake_step w (w\<lparr>w_db := db\<rparr>)"
| trigger: "trigger_intake_extraction rq cid (w_db w) = Inr (db, msg) \<Longrightarrow> intake_step w (w\<lparr>w_db := db\<rparr>)"
| correct: "send_intake_message rq cid content (w_db w) = Inr (db, msg) \<Longrightarrow> intake_step w (w\<lparr>w_db := db\<rparr>)"
| propose: "find_case cid (w_db w) = Some c \<Longrightarrow> ca_status c \<in> set intake_statuses \<Longrightarrow>
    run_intake_extraction rep isoformat (files :: unit openai_files) llm now cid correction
      \<lparr>iw_service = (), iw_db = w_db w, iw_events = []\<rparr> = (s', err) \<Longrightarrow>
    intake_step w (w\<lparr>w_db := iw_db s'\<rparr>)"
| settle: "jb_type job = Job_intake_extraction \<Longrightarrow> find_job jid (db_jobs (w_db w)) = Some job \<Longrightarrow>
    jobs' \<in> {mark_completed now jid (db_jobs (w_db w)), mark_failed now jid msg (db_jobs (w_db w))} \<Longrightarrow>
    intake_step w (put_jobs jobs' w)"

lemma live_intake_job: "jb_type job = Job_intake_extraction \<Longrightarrow> \<not> is_live_job k job"
  by (simp add: is_live_job_def)

lemma resolved_insert:
  assumes "insert_new_case enum row parties db = Inr db'"
  obtains e where "enum = Some e" "db' = db\<lparr>db_cases := db_cases db @ [row e], db_parties := db_parties db @ parties\<rparr>"
  using assms by (auto simp: insert_new_case_def split: option.splits)

lemma find_case_appended:
  "find_case k (db\<lparr>db_cases := db_cases db @ [c], db_parties := ps\<rparr>)
     = (case find_case k db of Some x \<Rightarrow> Some x | None \<Rightarrow> if ca_id c = k then Some c else None)"
proof -
  have "find (\<lambda>x. ca_id x = k) (cs @ [c]) = (case find (\<lambda>x. ca_id x = k) cs of Some x \<Rightarrow> Some x
      | None \<Rightarrow> if ca_id c = k then Some c else None)" for cs
    by (induction cs) auto
  then show ?thesis by (simp add: find_case_def)
qed

text \<open>A row of its own is put into the tables.\<close>

lemma system_ok_inserted:
  assumes ok: "system_ok w" and fresh: "fresh_key new_id w"
    and ins: "insert_new_case enum row parties (w_db w) = Inr db"
    and row: "\<And>e. ca_id (row e) = new_id \<and> ca_status (row e) \<in> {S_pending, S_draft}"
  shows "system_ok (w\<lparr>w_db := db\<rparr>)"
proof -
  obtain e where db: "db = (w_db w)\<lparr>db_cases := db_cases (w_db w) @ [row e],
      db_parties := db_parties (w_db w) @ parties\<rparr>"
    using resolved_insert [OF ins] by blast
  show ?thesis
  proof (rule system_ok_intake [OF ok, of new_id])
    show "find_case k db = find_case k (w_db w)" if "k \<noteq> new_id" for k
      using that row by (simp add: db find_case_appended split: option.splits)
    fix c assume "find_case new_id db = Some c"
    then show "ca_status c \<in> set (S_pending # intake_statuses)"
      using row [of e] fresh by (auto simp: db find_case_appended fresh_key_def intake_statuses_def split: option.splits)
  qed (use fresh system_okD(2) [OF ok] in \<open>simp_all add: db fresh_key_def\<close>)
qed

lemma intake_status_idle:
  assumes "system_ok w" "find_case cid (w_db w) = Some c" "ca_status c \<in> set intake_statuses"
  shows "live_jobs cid (db_jobs (w_db w)) = []"
  using no_live_jobs [OF assms(1,2)] assms(3) by (auto simp: intake_statuses_def)

lemma confirmD:
  assumes "confirm_case_intake rq cid f db = Inr db'"
  shows "\<exists>c. find_case cid db = Some c \<and> ca_created_by c = us_id (rq_user rq) \<and> ca_status c \<in> set intake_statuses
     \<and> valid_fields f \<and> confirmable c f = Inr ()
     \<and> find_case cid db' = Some ((fill_fields f c)\<lparr>ca_status := S_pending, ca_updated_at := Some (rq_now rq)\<rparr>)
     \<and> (\<forall>k. k \<noteq> cid \<longrightarrow> find_case k db' = find_case k db) \<and> db_jobs db' = db_jobs db
     \<and> parties_of cid db' = party_rows cid (if_parties f) \<and> db_facts db' = db_facts db"
proof -
  let ?fill = "\<lambda>r. (fill_fields f r)\<lparr>ca_status := S_pending, ca_updated_at := Some (rq_now rq)\<rparr>"
  obtain c where c: "owned_case rq cid db = Inr c" "ca_status c \<in> set intake_statuses" "valid_fields f"
      "confirmable c f = Inr ()"
    and db': "db' = (update_case cid ?fill db)\<lparr>db_parties := filter (\<lambda>p. pa_case p \<noteq> cid) (db_parties db)
                                 @ party_rows cid (if_parties f)\<rparr>"
    using assms by (auto simp: confirm_case_intake_def bind_result_Inr Let_def split: if_splits)
  have "find_case k db' = find_case k (update_case cid ?fill db)" for k
    by (rule find_case_cases) (simp add: db')
  moreover have "find_case k (update_case cid ?fill db) = map_option (\<lambda>c. if k = cid then ?fill c else c) (find_case k db)" for k
    by (rule find_case_update) (simp add: fill_fields_def)
  ultimately have rows: "find_case k db' = map_option (\<lambda>c. if k = cid then ?fill c else c) (find_case k db)" for k
    by simp
  have parties: "parties_of cid db' = party_rows cid (if_parties f)"
    by (auto simp: db' parties_of_def party_rows_def filter_empty_conv)
  have same: "db_jobs db' = db_jobs db" "db_facts db' = db_facts db" by (simp_all add: db' update_case_def)
  have "find_case k db' = find_case k db" if "k \<noteq> cid" for k
    using that rows [of k] by (simp add: option.map_ident)
  then show ?thesis
    using c owned_caseD(1) [OF c(1)] rows [of cid] parties same by (intro exI [of _ c]) simp
qed

lemma start_extractionD:
  assumes "start_extraction rq cid refusal payload db = Inr db'"
  shows "\<exists>c c' job. find_case cid db = Some c \<and> ca_status c \<in> set intake_statuses
     \<and> find_case cid db' = Some c' \<and> ca_status c' = S_extracting
     \<and> (\<forall>k. k \<noteq> cid \<longrightarrow> find_case k db' = find_case k db)
     \<and> db_jobs db' = db_jobs db @ [job] \<and> jb_type job = Job_intake_extraction \<and> jb_case_id job = cid
     \<and> jb_payload job = payload"
proof -
  obtain c where c: "owned_case rq cid db = Inr c" "ca_status c \<in> set intake_statuses"
    and db': "db' = enqueue_job rq cid Job_intake_extraction payload (assign_status (rq_now rq) cid S_extracting c db)"
    using assms by (auto simp: start_extraction_def bind_result_Inr split: if_splits)
  have f: "find_case cid db = Some c" using owned_caseD(1) [OF c(1)] by simp
  obtain job where "db_jobs db' = db_jobs db @ [job]" "jb_case_id job = cid"
      "jb_type job = Job_intake_extraction" "jb_payload job = payload"
    using enqueue_job_jobs [of rq cid Job_intake_extraction payload "assign_status (rq_now rq) cid S_extracting c db"]
    by (auto simp: db')
  moreover have "\<forall>k. find_case k db' = find_case k (assign_status (rq_now rq) cid S_extracting c db)"
    by (simp add: db')
  ultimately show ?thesis using c(2) f assign_status_effect [OF f, of _ "rq_now rq" S_extracting] by auto
qed

lemma system_ok_started:
  assumes ok: "system_ok w" and s: "start_extraction rq cid refusal payload (w_db w) = Inr db"
  shows "system_ok (w\<lparr>w_db := db\<rparr>)"
proof -
  obtain c c' job where e: "find_case cid (w_db w) = Some c" "ca_status c \<in> set intake_statuses"
     "find_case cid db = Some c'" "ca_status c' = S_extracting"
     "\<And>k. k \<noteq> cid \<Longrightarrow> find_case k db = find_case k (w_db w)"
     "db_jobs db = db_jobs (w_db w) @ [job]" "jb_type job = Job_intake_extraction"
    using start_extractionD [OF s] by blast
  show ?thesis
  proof (rule system_ok_intake [OF ok e(5)])
    show "jobs_carry_actions (db_jobs db)"
      using system_okD(2) [OF ok] e(6,7) by (auto simp: jobs_carry_actions_def)
    show "live_jobs cid (db_jobs (w_db w)) = []" using intake_status_idle [OF ok e(1,2)] .
  qed (use e live_intake_job in \<open>auto simp: intake_statuses_def\<close>)
qed

lemma system_ok_intake_step:
  assumes "intake_step w w'" "system_ok w"
  shows "system_ok w'"
  using assms
proof (induction rule: intake_step.induct)
  case (create new_id w rq d f db)
  then obtain r where i: "insert_new_case (legacy_domain d r)
      (\<lambda>e. fill_fields f (new_case_row rq new_id S_pending (map_option do_id r) e))
      (party_rows new_id (if_parties f)) (w_db w) = Inr db"
    by (auto simp: create_case_def bind_result_Inr split: if_splits)
  show ?case
    by (rule system_ok_inserted [OF create(3,1) i]) (simp add: fill_fields_def new_case_row_def)
next
  case (draft new_id w rq d filed db)
  then obtain r where i: "insert_new_case (legacy_domain d r)
      (\<lambda>e. (new_case_row rq new_id S_draft (map_option do_id r) e)\<lparr>ca_filed_date := filed\<rparr>) [] (w_db w) = Inr db"
    by (auto simp: create_case_draft_def bind_result_Inr split: if_splits)
  show ?case by (rule system_ok_inserted [OF draft(3,1) i]) (simp add: new_case_row_def)
next
  case (confirm rq cid f w db)
  obtain c where c: "find_case cid (w_db w) = Some c" "ca_status c \<in> set intake_statuses"
    "find_case cid db = Some ((fill_fields f c)\<lparr>ca_status := S_pending, ca_updated_at := Some (rq_now rq)\<rparr>)"
    "\<And>k. k \<noteq> cid \<Longrightarrow> find_case k db = find_case k (w_db w)" "db_jobs db = db_jobs (w_db w)"
    using confirmD [OF confirm(1)] by blast
  show ?case
    by (rule system_ok_intake [OF confirm(2) c(4)])
      (use c intake_status_idle [OF confirm(2) c(1,2)] system_okD(2) [OF confirm(2)] in auto)
next
  case (trigger rq cid w db msg)
  then show ?case using system_ok_started by (auto simp: trigger_intake_extraction_def bind_result_Inr)
next
  case (correct rq cid content w db msg)
  then show ?case using system_ok_started by (auto simp: send_intake_message_def bind_result_Inr split: if_splits)
next
  case (propose cid w c rep isoformat files llm now correction s' err)
  have e: "extraction_effect cid c err (w_db w) (iw_db s')"
    using extraction_result [OF propose(3)] propose(1) by simp
  then obtain c' where c': "find_case cid (iw_db s') = Some c'"
      "ca_status c' = S_awaiting_intake_confirmation \<or> ca_status c' = S_draft \<or> ca_status c' = ca_status c"
    by (cases err) (auto simp: extraction_effect_def)
  show ?case
    by (rule system_ok_intake [OF propose(4), of cid])
      (use e c' propose(2) intake_status_idle [OF propose(4,1,2)] system_okD(2) [OF propose(4)]
        in \<open>auto simp: extraction_effect_def intake_statuses_def\<close>)
next
  case (settle job jid w jobs' now msg)
  then consider "jobs' = mark_completed now jid (db_jobs (w_db w))" | "jobs' = mark_failed now jid msg (db_jobs (w_db w))"
    by blast
  then show ?case
  proof cases
    case 1
    then show ?thesis unfolding 1 mark_completed_def
      by (intro system_ok_jobs [OF settle(4)]) (auto simp: is_live_job_def split: if_splits)
  next
    case 2
    then show ?thesis unfolding 2 mark_failed_def
      by (intro system_ok_jobs [OF settle(4)]) (auto simp: is_live_job_def split: if_splits)
  qed
qed

section \<open>Properties\<close>


definition claim_fields :: intake_fields where
  "claim_fields = \<lparr>if_title = ''A v B'', if_description = None, if_filed_date = Some 1000,
     if_parties = [\<lparr>pi_name = ''A'', pi_role = ''claimant'', pi_contact_info = None\<rparr>,
                   \<lparr>pi_name = ''B'', pi_role = ''respondent'', pi_contact_info = None\<rparr>],
     if_claim_amount = Some 25000, if_consent = True, if_offence_code = None\<rparr>"

definition draft_database :: database where
  "draft_database = database1\<lparr>db_cases := [case_row1\<lparr>ca_status := S_extracting\<rparr>], db_documents := [filed_document]\<rparr>"

definition draft_world :: "thread world" where
  "draft_world = ready_world\<lparr>w_db := draft_database\<rparr>"

lemma valid_claim_fields: "valid_fields claim_fields"
  by (simp add: valid_fields_def claim_fields_def at_most_def valid_party_def party_roles_def)

lemma draft_world_confirmed:
  "\<exists>db c. confirm_case_intake judge1 ''c1'' claim_fields (w_db draft_world) = Inr db
     \<and> find_case ''c1'' db = Some c \<and> ca_status c = S_pending \<and> db_documents db = [filed_document]"
  using valid_claim_fields
  by (simp add: confirm_case_intake_def draft_world_def draft_database_def judge1_def require_role_def owned_case_def
      find_case_def case_row1_def intake_statuses_def confirmable_def claim_fields_def Let_def
      update_case_def fill_fields_def)

lemma draft_world_ok: "system_ok draft_world"
proof -
  have "find_case cid (w_db draft_world) = Some c \<Longrightarrow> ca_status c = S_extracting" for cid c
    by (auto simp: draft_world_def draft_database_def find_case_def split: if_splits)
  moreover have "awaiting g \<noteq> Some S_extracting" for g
    using awaiting_status(1) [of g S_extracting] by (auto simp: gate_pause_statuses_def)
  moreover have "w_threads draft_world = w_threads ready_world" "db_jobs (w_db draft_world) = []"
    by (simp_all add: draft_world_def draft_database_def database1_def)
  ultimately show ?thesis
    using system_okD(1) [OF ready_world_ok]
    by (auto simp: system_ok_def row_ok_def jobs_carry_actions_def live_jobs_def)
qed


text \<open>An extraction that runs late reopens the intake of a case whatever had become of it: a case the
  judge confirmed, or one that is already processing, awaits the confirmation again when the
  extraction succeeds, so it cannot be started; and a case that was processing keeps its live job.\<close>

lemma late_extraction_reopens_intake:
  assumes "find_case cid (iw_db s) = Some c"
    and "run_intake_extraction rep isoformat files llm now cid correction s = (s', None)"
  shows "(\<exists>c'. find_case cid (iw_db s') = Some c' \<and> ca_status c' = S_awaiting_intake_confirmation)
     \<and> (\<exists>e. process_case rq cid (iw_db s') = Inl e)
     \<and> live_jobs cid (db_jobs (iw_db s')) = live_jobs cid (db_jobs (iw_db s))"
proof -
  from extraction_result [OF assms(2,1)] obtain c' where
    c': "find_case cid (iw_db s') = Some c'" "ca_status c' = S_awaiting_intake_confirmation"
      "db_jobs (iw_db s') = db_jobs (iw_db s)"
    by (auto simp: extraction_effect_def)
  then have "\<exists>e. process_case rq cid (iw_db s') = Inl e"
    by (auto simp: process_case_def flip_status_def startable_statuses_def)
  then show ?thesis using c' by simp
qed

lemma failing_parse: "parse_document (failing_files parse_type_error) None f t ocr () = (Inl parse_type_error, ())"
  by (simp add: parse_document_def failing_files_def one_file_def extract_via_openai_def
      retry_with_backoff_def retry_from.simps parse_type_error_def extract_retries_def)

lemma late_extraction_reopens_intake_witness:
  "\<exists>db s' c. confirm_case_intake judge1 ''c1'' claim_fields draft_database = Inr db
     \<and> run_intake_extraction (\<lambda>_. []) (\<lambda>_. []) (failing_files parse_type_error) (\<lambda>p w. (Inr ([], None), w)) 9 ''c1'' None
         \<lparr>iw_service = (), iw_db = db, iw_events = []\<rparr> = (s', None)
     \<and> find_case ''c1'' (iw_db s') = Some c \<and> ca_status c = S_awaiting_intake_confirmation"
proof -
  let ?run = "run_intake_extraction (\<lambda>_. []) (\<lambda>_. []) (failing_files parse_type_error) (\<lambda>p w. (Inr ([], None), w)) 9 ''c1'' None"
  obtain db c where d: "confirm_case_intake judge1 ''c1'' claim_fields draft_database = Inr db"
     "find_case ''c1'' db = Some c" "db_documents db = [filed_document]"
    using draft_world_confirmed by (auto simp: draft_world_def)
  let ?s = "\<lparr>iw_service = (), iw_db = db, iw_events = []\<rparr>"
  have doc: "documents_of ''c1'' db = [filed_document]"
    by (simp add: documents_of_def d(3) filed_document_def)
  have auth: "dc_kind filed_document \<in> set authoritative_kinds"
    by (simp add: filed_document_def authoritative_kinds_def)
  have "documents_with_text (\<lambda>_. []) (failing_files parse_type_error) [filed_document] () = (Inr [(filed_document, [])], ())"
    using failing_parse by (simp add: document_text_def joined_pages_def filed_document_def non_empty_def py_strip_def)
  then obtain got w where g: "documents_with_text (\<lambda>_. []) (failing_files parse_type_error) [filed_document] () = (Inr got, w)"
    by blast
  obtain s' where r: "?run ?s = (s', None)"
    using d(2) g by (auto simp: run_intake_extraction_def Let_def doc auth)
  from late_extraction_reopens_intake [OF _ r] d show ?thesis using r by auto
qed

text \<open>C17: A confirmed case respects the limits of its tribunal: a small claim has an amount within the limit
  its consent allows and never above 30,000, a traffic case has an offence code, the case is pending
  with the parties of the request and no other case has changed. So what the jurisdiction summary
  can still fail is the limitation period or an earlier finding.\<close>

theorem confirmed_case_is_within_the_limits:
  assumes "confirm_case_intake rq cid f db = Inr db'"
  shows "\<exists>c. find_case cid db' = Some c \<and> ca_status c = S_pending
     \<and> (ca_domain c = small_claims \<longrightarrow>
          (\<exists>a. ca_claim_amount c = Some a \<and> 0 \<le> a \<and> a \<le> sct_limit c \<and> a \<le> 30000))
     \<and> (ca_domain c = traffic_violation \<longrightarrow> non_empty (ca_offence_code c))
     \<and> 2 \<le> length (parties_of cid db')
     \<and> (\<forall>k. k \<noteq> cid \<longrightarrow> find_case k db' = find_case k db)
     \<and> (ju_status (build_jurisdiction_summary isoformat c (facts_of cid db')) = ''fail'' \<longrightarrow>
          ca_jurisdiction_valid c = Some False
          \<or> (\<exists>filed e. ca_filed_date c = Some filed \<and> earliest_fact_date (facts_of cid db') = Some e
               \<and> filed - e > (if ca_domain c = small_claims then 730 else 365)))"
proof -
  obtain c0 where c0: "valid_fields f" "confirmable c0 f = Inr ()"
    and row: "find_case cid db' = Some ((fill_fields f c0)\<lparr>ca_status := S_pending, ca_updated_at := Some (rq_now rq)\<rparr>)"
    and rest: "\<And>k. k \<noteq> cid \<Longrightarrow> find_case k db' = find_case k db"
      "parties_of cid db' = party_rows cid (if_parties f)"
    using confirmD [OF assms] by blast
  let ?c = "(fill_fields f c0)\<lparr>ca_status := S_pending, ca_updated_at := Some (rq_now rq)\<rparr>"
  let ?e = "earliest_fact_date (facts_of cid db')"
  have d: "ca_domain ?c = ca_domain c0" "ca_claim_amount ?c = if_claim_amount f"
      "ca_offence_code ?c = if_offence_code f" "ca_consent_to_higher_claim_limit ?c = if_consent f"
    by (simp_all add: fill_fields_def)
  have small: "\<exists>a. ca_claim_amount ?c = Some a \<and> 0 \<le> a \<and> a \<le> sct_limit ?c \<and> a \<le> 30000"
    if "ca_domain ?c = small_claims"
    using that c0 unfolding d
    by (auto simp: confirmable_def valid_fields_def sct_limit_def d split: option.splits if_splits)
  have traffic: "non_empty (ca_offence_code ?c)" if "ca_domain ?c = traffic_violation"
    using that c0 unfolding d by (auto simp: confirmable_def split: if_splits)
  have "\<not> fst (claim_amount_check ?c a)" if "a \<le> sct_limit ?c" for a
    using that by (simp add: claim_amount_check_def Let_def)
  then have "\<exists>filed e. ca_filed_date ?c = Some filed \<and> ?e = Some e
        \<and> filed - e > (if ca_domain ?c = small_claims then 730 else 365)"
    if "fst (small_claims_findings isoformat ?c ?e) \<or> fst (traffic_findings isoformat ?c ?e)"
    using that small
    by (auto simp: small_claims_findings_def traffic_findings_def limitation_findings_def no_findings_def
        sct_limitation_check_def traffic_limitation_check_def Let_def split: option.splits if_splits)
  moreover have "2 \<le> length (parties_of cid db')"
    using c0(1) by (simp add: rest(2) party_rows_def valid_fields_def)
  ultimately show ?thesis
    using row small traffic rest(1) by (intro exI [of _ ?c]) (auto simp: jurisdiction_fails)
qed

theorem confirmed_case_is_within_the_limits_witness:
  "\<exists>db c. confirm_case_intake judge1 ''c1'' claim_fields draft_database = Inr db
     \<and> find_case ''c1'' db = Some c \<and> ca_status c = S_pending \<and> 2 \<le> length (parties_of ''c1'' db)"
proof -
  obtain db c where d: "confirm_case_intake judge1 ''c1'' claim_fields draft_database = Inr db"
    using draft_world_confirmed by (auto simp: draft_world_def)
  from confirmed_case_is_within_the_limits [OF d] d show ?thesis by blast
qed

text \<open>
  A case created by the identifier of its domain passes none of those limits: the request is checked
  against the enumeration it names, and it names none.
\<close>

definition sct_domain :: domain_row where
  "sct_domain = \<lparr>do_id = ''dom1'', do_code = ''small_claims'', do_is_active = True, do_vector_store_id = None\<rparr>"

lemma domain_id_skips_the_limits:
  "\<exists>db c. create_case judge1 ''c9'' \<lparr>dh_domain_id = Some ''dom1'', dh_domain = None\<rparr>
            (claim_fields\<lparr>if_claim_amount := Some 99999, if_consent := False\<rparr>)
            (database1\<lparr>db_domains := [sct_domain]\<rparr>) = Inr db
     \<and> find_case ''c9'' db = Some c \<and> ca_domain c = small_claims \<and> ca_claim_amount c = Some 99999
     \<and> ca_status c = S_pending
     \<and> ju_status (build_jurisdiction_summary (\<lambda>_. []) c (facts_of ''c9'' db)) = ''fail''"
  by (simp add: create_case_def require_role_def judge1_def valid_create_def valid_fields_def claim_fields_def
      at_most_def valid_party_def party_roles_def resolve_domain_def find_domain_def sct_domain_def
      legacy_domain_def domain_of_value_def insert_new_case_def new_case_row_def fill_fields_def find_case_def
      database1_def case_row1_def jurisdiction_fails small_claims_findings_def claim_amount_check_def
      sct_limit_def Let_def)

text \<open>A draft may name a domain row and an enumeration that contradict each other.\<close>

lemma draft_domains_may_disagree:
  "\<exists>db c. create_case_draft judge1 ''c9'' \<lparr>dh_domain_id = Some ''dom1'', dh_domain = Some traffic_violation\<rparr>
            None (database1\<lparr>db_domains := [sct_domain]\<rparr>) = Inr db
     \<and> find_case ''c9'' db = Some c \<and> ca_domain c = traffic_violation \<and> ca_domain_id c = Some ''dom1''"
  by (simp add: create_case_draft_def require_role_def judge1_def resolve_domain_def find_domain_def
      sct_domain_def legacy_domain_def insert_new_case_def new_case_row_def find_case_def database1_def
      case_row1_def)

text \<open>A domain whose code is not in the enumeration cannot hold a case.\<close>

lemma new_domain_holds_no_case:
  assumes "find_domain (Some i) db = Some r" "do_is_active r" "domain_of_value (do_code r) = None"
    and "us_role (rq_user rq) = user_role.Judge"
  shows "create_case_draft rq k \<lparr>dh_domain_id = Some i, dh_domain = None\<rparr> filed db = Inl (OtherError ''IntegrityError'')"
  using assms
  by (simp add: create_case_draft_def require_role_def resolve_domain_def legacy_domain_def insert_new_case_def)

end
