(* ===== verification/Case_Data.thy ===== *)
theory Case_Data
  imports Intake
begin

text \<open>
  The per-case endpoints of \<open>api/routes/case_data.py\<close>: the status of every agent derived from the gate
  state and the audit log, the uploads of documents and of supplementary documents, and the rows of
  the analysis; with the excerpt of a document, \<open>api/routes/documents.py\<close>.
\<close>

section \<open>Status of the agents\<close>

datatype agent_state = Agent_pending | Agent_running | Agent_completed | Agent_failed

fun agent_state_value :: "agent_state \<Rightarrow> string" where
  "agent_state_value Agent_pending = ''pending''"
| "agent_state_value Agent_running = ''running''"
| "agent_state_value Agent_completed = ''completed''"
| "agent_state_value Agent_failed = ''failed''"

record agent_view =
  av_agent_id :: string
  av_name :: string
  av_status :: agent_state
  av_start_time :: "int option"
  av_end_time :: "int option"
  av_elapsed_seconds :: "int option"

definition agents_by_gate :: "int \<Rightarrow> string list" where
  "agents_by_gate g =
     (if g = 1 then [''intake'']
      else if g = 2 then [''research-evidence'', ''research-facts'', ''research-witnesses'', ''research-law'']
      else if g = 3 then [''synthesis''] else if g = 4 then [''audit''] else [])"

definition get_case_or_404 :: "request \<Rightarrow> uuid \<Rightarrow> database \<Rightarrow> case_row result" where
  "get_case_or_404 rq cid db =
     (case find_case cid db of
        None \<Rightarrow> Inl not_found
      | Some c \<Rightarrow> if us_role (rq_user rq) = user_role.Judge \<and> ca_created_by c \<noteq> us_id (rq_user rq)
                  then Inl (HttpError 403 ''Access denied'') else Inr c)"

text \<open>\<open>isinstance(v, int)\<close>, which a boolean is too.\<close>

definition int_value :: "pyval \<Rightarrow> int option" where
  "int_value v = (case v of PInt i \<Rightarrow> Some i | PBool b \<Rightarrow> Some (if b then 1 else 0) | _ \<Rightarrow> None)"

definition gate_completed :: "case_row \<Rightarrow> string list" where
  "gate_completed c =
     (let g = (case ca_gate_state c of None \<Rightarrow> [] | Some d \<Rightarrow> d)
      in (case int_value (pget g ''current_gate'') of
            None \<Rightarrow> []
          | Some n \<Rightarrow> if n \<ge> 1
                      then concat (map agents_by_gate [1..n - 1])
                           @ (if truthy (pget g ''awaiting_review'') then agents_by_gate n else [])
                      else [])
         @ (if ca_status c \<in> {S_ready_for_review, S_closed} then pipeline_agent_order else []))"

definition action_state :: "string \<Rightarrow> agent_state" where
  "action_state action =
     (let a = py_lower action
      in if occurs_in ''fail'' a \<or> occurs_in ''error'' a
         then (if occurs_in ''recover'' a then Agent_completed else Agent_failed)
         else if occurs_in ''complet'' a \<or> occurs_in ''done'' a \<or> occurs_in ''finish'' a then Agent_completed
         else if occurs_in ''start'' a \<or> occurs_in ''run'' a \<or> occurs_in ''process'' a then Agent_running
         else Agent_completed)"

definition logs_of_agent :: "audit_entry list \<Rightarrow> string \<Rightarrow> audit_entry list" where
  "logs_of_agent logs agent = filter (\<lambda>l. normalize_agent_id (ae_agent l) = agent) logs"

definition view_agent :: "case_row \<Rightarrow> audit_entry list \<Rightarrow> string \<Rightarrow> agent_view" where
  "view_agent c all_logs agent =
     (let logs = logs_of_agent all_logs agent;
          s = (if logs = [] then Agent_pending else action_state (ae_action (last logs)));
          s' = (if agent \<in> set (gate_completed c) \<and> s \<noteq> Agent_failed then Agent_completed else s)
      in \<lparr>av_agent_id = agent,
          av_name = (case map_of agent_labels agent of Some l \<Rightarrow> l | None \<Rightarrow> agent),
          av_status = s',
          av_start_time = (if logs = [] then None else Some (ae_timestamp (hd logs))),
          av_end_time = (if logs = [] then None else Some (ae_timestamp (last logs))),
          av_elapsed_seconds = (if logs = [] then None
             else Some (max ((ae_timestamp (last logs) - ae_timestamp (hd logs)) div 1000000) 0))\<rparr>)"

fun run_first_pending :: "agent_view list \<Rightarrow> agent_view list" where
  "run_first_pending [] = []"
| "run_first_pending (a # as) =
     (if av_status a = Agent_pending then a\<lparr>av_status := Agent_running\<rparr> # as else a # run_first_pending as)"

definition replace_states :: "agent_state list \<Rightarrow> agent_state \<Rightarrow> agent_view list \<Rightarrow> agent_view list" where
  "replace_states old new as = map (\<lambda>a. if av_status a \<in> set old then a\<lparr>av_status := new\<rparr> else a) as"

definition derive_agent_status :: "case_row \<Rightarrow> audit_entry list \<Rightarrow> agent_view list" where
  "derive_agent_status c logs =
     (let agents = map (view_agent c logs) pipeline_agent_order
      in if ca_status c \<in> {S_ready_for_review, S_closed} then replace_states [Agent_pending] Agent_completed agents
         else if ca_status c = S_failed then replace_states [Agent_pending, Agent_running] Agent_failed agents
         else if ca_status c = S_processing then run_first_pending agents
         else agents)"

definition compute_progress :: "agent_view list \<Rightarrow> int" where
  "compute_progress agents =
     (if agents = [] then 0
      else let finished = length (filter (\<lambda>a. av_status a \<in> {Agent_completed, Agent_failed}) agents)
           in round_half_even (of_nat finished / of_nat (length agents) * 100))"

definition derive_overall_status :: "case_row \<Rightarrow> agent_view list \<Rightarrow> string" where
  "derive_overall_status c agents =
     (if ca_status c = S_failed then ''failed''
      else if ca_status c = S_failed_retryable then ''failed_retryable''
      else if ca_status c = S_escalated then ''escalated''
      else if ca_status c \<in> {S_ready_for_review, S_closed} then ''completed''
      else if ca_status c \<in> set gate_pause_statuses then status_value (ca_status c)
      else if list_ex (\<lambda>a. av_status a = Agent_failed) agents then ''failed''
      else if list_all (\<lambda>a. av_status a = Agent_completed) agents then ''completed''
      else if list_ex (\<lambda>a. av_status a = Agent_running) agents then ''processing''
      else ''pending'')"

definition derive_current_agent :: "agent_view list \<Rightarrow> string option" where
  "derive_current_agent agents = map_option av_agent_id (find (\<lambda>a. av_status a = Agent_running) agents)"

definition derive_overall_elapsed_seconds :: "agent_view list \<Rightarrow> int option" where
  "derive_overall_elapsed_seconds agents =
     (let completed = List.map_filter av_elapsed_seconds agents
      in if completed = [] then None else Some (sum_list completed))"

definition or_empty_list :: "pyval \<Rightarrow> pyval" where
  "or_empty_list v = (if truthy v then v else PList [])"

definition latest_reprocessing_summary :: "audit_entry list \<Rightarrow> pydict option" where
  "latest_reprocessing_summary logs =
     map_option (\<lambda>l.
       let out = (case ae_output_payload l of None \<Rightarrow> [] | Some p \<Rightarrow> p);
           inp = (case ae_input_payload l of None \<Rightarrow> [] | Some p \<Rightarrow> p)
       in [(''retriggered_stages'', or_empty_list (pget out ''retriggered_stages'')),
           (''preserved_stages'', or_empty_list (pget out ''preserved_stages'')),
           (''reason'', pget inp ''reason''), (''requested_at'', PDateTime (ae_timestamp l))])
     (find (\<lambda>l. ae_action l = ''supplementary_document_upload'') (rev logs))"

record pipeline_status =
  ps_agents :: "agent_view list"
  ps_progress :: int
  ps_overall :: string
  ps_current_agent :: "string option"
  ps_elapsed :: "int option"
  ps_reprocessing :: "pydict option"

text \<open>The audit rows come in the order of their time.\<close>

definition get_pipeline_status :: "request \<Rightarrow> uuid \<Rightarrow> database \<Rightarrow> pipeline_status result" where
  "get_pipeline_status rq cid db =
     bind_result (get_case_or_404 rq cid db) (\<lambda>c.
       let logs = sort_key ae_timestamp (case_audit cid db); agents = derive_agent_status c logs
       in Inr \<lparr>ps_agents = agents, ps_progress = compute_progress agents,
               ps_overall = derive_overall_status c agents, ps_current_agent = derive_current_agent agents,
               ps_elapsed = derive_overall_elapsed_seconds agents,
               ps_reprocessing = latest_reprocessing_summary logs\<rparr>)"

section \<open>Uploads\<close>

record upload =
  ul_filename :: "string option"
  ul_content_type :: "string option"
  ul_size :: nat

definition intake_trigger_kinds :: "string list" where
  "intake_trigger_kinds = [''notice_of_traffic_offence'', ''charge_sheet'']"

text \<open>\<open>store\<close> is the upload to the OpenAI files: the key of the file, or None when it fails.\<close>

definition document_of_upload ::
  "(upload \<Rightarrow> string option) \<Rightarrow> uuid \<Rightarrow> uuid \<times> upload \<times> string \<Rightarrow> document_row" where
  "document_of_upload store cid x = (case x of (did, u, kind) \<Rightarrow>
     \<lparr>dc_id = did, dc_case = cid, dc_openai_file_id = store u,
      dc_filename = (if non_empty (ul_filename u) then the (ul_filename u) else ''unnamed''),
      dc_file_type = ul_content_type u, dc_kind = kind, dc_pages = None, dc_parsed_text = None\<rparr>)"

definition resolved_kinds :: "string list option \<Rightarrow> upload list \<Rightarrow> string list result" where
  "resolved_kinds kinds files =
     (case kinds of
        None \<Rightarrow> Inr (map (\<lambda>_. ''other'') files)
      | Some ks \<Rightarrow> if length ks \<noteq> length files
                   then Inl (HttpError 422 ''kinds must be the same length as files (one per upload)'')
                   else (case find (\<lambda>k. k \<notin> set document_kinds) ks of
                           Some k \<Rightarrow> Inl (HttpError 422 (''Unknown document kind: '' @ k))
                         | None \<Rightarrow> Inr ks))"

definition oversized :: "nat \<Rightarrow> upload list \<Rightarrow> bool" where
  "oversized max_bytes files = list_ex (\<lambda>u. ul_size u > max_bytes) files"

definition add_job ::
  "request \<Rightarrow> uuid \<Rightarrow> uuid \<Rightarrow> pipeline_job_type \<Rightarrow> uuid option \<Rightarrow> pydict option \<Rightarrow> database \<Rightarrow> database" where
  "add_job rq jid cid jt target payload db =
     db\<lparr>db_jobs := fst (enqueue_outbox_job (rq_span rq) (rq_now rq) jid cid jt target payload None (db_jobs db))\<rparr>"

text \<open>One parse job for every document that reached the OpenAI files; \<open>jid\<close> makes the keys of the jobs.\<close>

fun enqueue_parses ::
  "request \<Rightarrow> (uuid \<Rightarrow> uuid) \<Rightarrow> uuid \<Rightarrow> document_row list \<Rightarrow> database \<Rightarrow> database" where
  "enqueue_parses rq jid cid [] db = db"
| "enqueue_parses rq jid cid (d # ds) db =
     enqueue_parses rq jid cid ds
       (if non_empty (dc_openai_file_id d)
        then add_job rq (jid (dc_id d)) cid Job_document_parse (Some (dc_id d)) None db else db)"

definition system_audit :: "request \<Rightarrow> uuid \<Rightarrow> string \<Rightarrow> pydict \<Rightarrow> pydict option \<Rightarrow> database \<Rightarrow> database" where
  "system_audit rq cid action inp out db =
     add_audit (let a = audit_of cid (rq_now rq) ''system'' action inp
                in a\<lparr>al_entry := (al_entry a)\<lparr>ae_output_payload := out\<rparr>\<rparr>) db"

definition filenames :: "upload list \<Rightarrow> pyval" where
  "filenames files = PList (map (\<lambda>u. dump_opt PStr (ul_filename u)) files)"

definition upload_documents ::
  "nat \<Rightarrow> (upload \<Rightarrow> string option) \<Rightarrow> (uuid \<Rightarrow> uuid) \<Rightarrow> request \<Rightarrow> uuid \<Rightarrow> uuid list \<Rightarrow> upload list
   \<Rightarrow> string list option \<Rightarrow> database \<Rightarrow> (database \<times> document_row list) result" where
  "upload_documents max_bytes store jid rq cid ids files kinds db =
     bind_result (get_case_or_404 rq cid db) (\<lambda>c.
     bind_result (resolved_kinds kinds files) (\<lambda>ks.
       if oversized max_bytes files then Inl (HttpError 413 ''File exceeds maximum size'')
       else
         let created = map (document_of_upload store cid) (zip ids (zip files ks));
             db1 = system_audit rq cid ''document_upload''
                     [(''filenames'', filenames files), (''kinds'', PList (map PStr ks))] None
                     (db\<lparr>db_documents := db_documents db @ created\<rparr>);
             db2 = enqueue_parses rq jid cid created db1;
             db3 = (if ca_status c = S_draft \<and> list_ex (\<lambda>k. k \<in> set intake_trigger_kinds) ks
                    then enqueue_job rq cid Job_intake_extraction None
                           (assign_status (rq_now rq) cid S_extracting c db2)
                    else db2)
         in Inr (db3, created)))"

definition retriggered_stages :: "string list" where "retriggered_stages = tl pipeline_agent_order"
definition preserved_stages :: "string list" where "preserved_stages = take 1 pipeline_agent_order"

definition upload_supplementary_documents ::
  "nat \<Rightarrow> (upload \<Rightarrow> string option) \<Rightarrow> (uuid \<Rightarrow> uuid) \<Rightarrow> request \<Rightarrow> uuid \<Rightarrow> uuid list \<Rightarrow> upload list
   \<Rightarrow> string option \<Rightarrow> database \<Rightarrow> (database \<times> document_row list) result" where
  "upload_supplementary_documents max_bytes store jid rq cid ids files reason db =
     bind_result (get_case_or_404 rq cid db) (\<lambda>c.
       if ca_status c = S_closed
       then Inl (HttpError 400 ''Closed cases cannot accept supplementary documents'')
       else if oversized max_bytes files then Inl (HttpError 413 ''File exceeds maximum size'')
       else
         let created = map (document_of_upload store cid) (zip ids (map (\<lambda>u. (u, ''other'')) files));
             db1 = db\<lparr>db_documents := db_documents db @ created\<rparr>;
             db2 = update_case cid (\<lambda>r. r\<lparr>ca_status := S_processing,
                     ca_gate_state := Some [(''current_gate'', PInt 1), (''awaiting_review'', PBool False),
                                            (''rerun_agent'', PNone)],
                     ca_updated_at := Some (rq_now rq)\<rparr>) db1;
             db3 = system_audit rq cid ''supplementary_document_upload''
                     [(''filenames'', filenames files), (''reason'', dump_opt PStr reason),
                      (''uploaded_by'', PStr (us_id (rq_user rq)))]
                     (Some [(''retriggered_stages'', PList (map PStr retriggered_stages)),
                            (''preserved_stages'', PList (map PStr preserved_stages))]) db2;
             db4 = enqueue_job rq cid Job_gate_run (Some [(''gate_name'', PStr ''gate1'')]) db3
         in Inr (enqueue_parses rq jid cid created db4, created))"

section \<open>Rows of the analysis\<close>

definition case_rows :: "request \<Rightarrow> uuid \<Rightarrow> ('r \<Rightarrow> uuid) \<Rightarrow> (database \<Rightarrow> 'r list) \<Rightarrow> database \<Rightarrow> 'r list result" where
  "case_rows rq cid owner table db =
     bind_result (get_case_or_404 rq cid db) (\<lambda>_. Inr (filter (\<lambda>r. owner r = cid) (table db)))"

definition get_case_evidence :: "request \<Rightarrow> uuid \<Rightarrow> database \<Rightarrow> evidence_row list result" where
  "get_case_evidence rq cid = case_rows rq cid ev_case db_evidence"

text \<open>Facts without a date come last.\<close>

definition get_case_timeline :: "request \<Rightarrow> uuid \<Rightarrow> database \<Rightarrow> fact_row list result" where
  "get_case_timeline rq cid db =
     bind_result (case_rows rq cid fa_case db_facts db) (\<lambda>fs.
       Inr (sort_key (\<lambda>f. the (fa_event_date f)) (filter (\<lambda>f. fa_event_date f \<noteq> None) fs)
            @ filter (\<lambda>f. fa_event_date f = None) fs))"

definition get_case_witnesses :: "request \<Rightarrow> uuid \<Rightarrow> database \<Rightarrow> witness_row list result" where
  "get_case_witnesses rq cid = case_rows rq cid wt_case db_witnesses"

definition get_case_statutes :: "request \<Rightarrow> uuid \<Rightarrow> database \<Rightarrow> legal_rule_row list result" where
  "get_case_statutes rq cid = case_rows rq cid lw_case db_legal_rules"

definition get_case_precedents :: "request \<Rightarrow> uuid \<Rightarrow> database \<Rightarrow> precedent_row list result" where
  "get_case_precedents rq cid = case_rows rq cid pr_case db_precedents"

definition get_case_arguments :: "request \<Rightarrow> uuid \<Rightarrow> database \<Rightarrow> argument_row list result" where
  "get_case_arguments rq cid = case_rows rq cid ag_case db_arguments"

definition get_case_hearing_analysis :: "request \<Rightarrow> uuid \<Rightarrow> database \<Rightarrow> hearing_row list result" where
  "get_case_hearing_analysis rq cid = case_rows rq cid hr_case db_hearing"

record excerpt =
  ex_document_id :: uuid
  ex_filename :: string
  ex_page_number :: nat
  ex_total_pages :: nat
  ex_text :: pyval

definition get_document_excerpt :: "request \<Rightarrow> uuid \<Rightarrow> nat \<Rightarrow> database \<Rightarrow> excerpt result" where
  "get_document_excerpt rq did page db =
     bind_result (require_role [user_role.Judge] rq) (\<lambda>_.
       if page < 1 then Inl (HttpError 422 ''Validation error'')
       else case find_document did db of
              None \<Rightarrow> Inl (HttpError 404 ''Document not found'')
            | Some d \<Rightarrow>
                (case find_case (dc_case d) db of
                   None \<Rightarrow> Inl (HttpError 404 ''Document not found'')
                 | Some c \<Rightarrow>
                     if ca_created_by c \<noteq> us_id (rq_user rq) then Inl (HttpError 404 ''Document not found'')
                     else let pages = (case dc_pages d of Some (PList vs) \<Rightarrow> vs | _ \<Rightarrow> [])
                          in if page > length pages then Inl (HttpError 404 ''Page not found'')
                             else Inr \<lparr>ex_document_id = did, ex_filename = dc_filename d, ex_page_number = page,
                                       ex_total_pages = length pages, ex_text = pages ! (page - 1)\<rparr>))"

section \<open>What the status shows\<close>

lemma run_first_pending_ids: "map av_agent_id (run_first_pending as) = map av_agent_id as"
  by (induction as rule: run_first_pending.induct) auto

lemma replace_states_ids: "map av_agent_id (replace_states old new as) = map av_agent_id as"
  by (simp add: replace_states_def comp_def if_distrib cong: if_cong)

lemma derived_ids: "map av_agent_id (derive_agent_status c logs) = pipeline_agent_order"
proof -
  have "map av_agent_id (map (view_agent c logs) pipeline_agent_order) = pipeline_agent_order"
    by (simp add: view_agent_def Let_def comp_def)
  then show ?thesis
    by (simp only: derive_agent_status_def Let_def run_first_pending_ids replace_states_ids
        if_distrib [of "map av_agent_id"] if_cancel)
qed

lemma compute_progress_bounds: "0 \<le> compute_progress agents \<and> compute_progress agents \<le> 100"
proof (cases "agents = []")
  case False
  define n where "n = length (filter (\<lambda>a. av_status a \<in> {Agent_completed, Agent_failed}) agents)"
  define r where "r = (of_nat n / of_nat (length agents) :: rat)"
  have "n \<le> length agents" unfolding n_def by (rule length_filter_le)
  then have "(of_nat n :: rat) \<le> of_nat (length agents)" by (simp only: of_nat_le_iff)
  moreover have "(0 :: rat) < of_nat (length agents)" using False by simp
  ultimately have r: "0 \<le> r" "r \<le> 1" by (simp_all add: r_def divide_le_eq_1)
  have "compute_progress agents = round_half_even (r * 100)"
    using False by (simp add: compute_progress_def n_def r_def)
  moreover have "0 \<le> round_half_even (r * 100) \<and> round_half_even (r * 100) \<le> 100"
    using r by (intro round_half_even_bounds) simp_all
  ultimately show ?thesis by simp
qed (simp add: compute_progress_def)

text \<open>A failed case reports full progress, whatever its agents had done: none is left pending or running.\<close>

lemma failed_case_reports_full_progress:
  assumes "ca_status c = S_failed"
  shows "compute_progress (derive_agent_status c logs) = 100"
proof -
  let ?as = "derive_agent_status c logs"
  have "length ?as = length pipeline_agent_order" using derived_ids [of c logs] by (metis length_map)
  then have n: "length ?as = 7" by (simp add: pipeline_agent_order_def)
  have "av_status a \<in> {Agent_completed, Agent_failed}" if "a \<in> set ?as" for a
    using that assms
    by (cases "av_status a") (auto simp: derive_agent_status_def replace_states_def)
  then have f: "filter (\<lambda>a. av_status a \<in> {Agent_completed, Agent_failed}) ?as = ?as"
    by (simp add: filter_id_conv)
  show ?thesis unfolding compute_progress_def f using n
    by (auto simp: round_half_even_def Let_def)
qed

section \<open>What an upload does\<close>

definition job_of_parse :: "document_row \<Rightarrow> pipeline_job_type \<times> uuid option" where
  "job_of_parse d = (Job_document_parse, Some (dc_id d))"

definition job_kind :: "pipeline_job \<Rightarrow> pipeline_job_type \<times> uuid option" where
  "job_kind j = (jb_type j, jb_target_id j)"

lemma add_job_jobs:
  "\<exists>job. db_jobs (add_job rq jid cid jt target payload db) = db_jobs db @ [job]
     \<and> jb_case_id job = cid \<and> job_kind job = (jt, target) \<and> jb_payload job = payload \<and> jb_status job = Job_pending"
  by (simp add: add_job_def enqueue_outbox_job_def Let_def job_kind_def)

lemma enqueue_job_is_add_job:
  "enqueue_job rq cid jt payload db = add_job rq (rq_job_id rq) cid jt None payload db"
  by (simp add: enqueue_job_def add_job_def)

lemma find_add_job [simp]: "find_case k (add_job rq jid cid jt target payload db) = find_case k db"
  by (simp add: add_job_def)

lemma enqueue_parses_jobs:
  "\<exists>js. db_jobs (enqueue_parses rq jid cid ds db) = db_jobs db @ js
     \<and> map job_kind js = map job_of_parse (filter (\<lambda>d. non_empty (dc_openai_file_id d)) ds)
     \<and> (\<forall>j \<in> set js. jb_case_id j = cid) \<and> (\<forall>k. find_case k (enqueue_parses rq jid cid ds db) = find_case k db)"
proof (induction ds arbitrary: db)
  case (Cons d ds)
  show ?case
  proof (cases "non_empty (dc_openai_file_id d)")
    case True
    let ?db = "add_job rq (jid (dc_id d)) cid Job_document_parse (Some (dc_id d)) None db"
    obtain job where j: "db_jobs ?db = db_jobs db @ [job]" "jb_case_id job = cid"
        "job_kind job = (Job_document_parse, Some (dc_id d))"
      using add_job_jobs by blast
    obtain js where js: "db_jobs (enqueue_parses rq jid cid ds ?db) = db_jobs ?db @ js"
        "map job_kind js = map job_of_parse (filter (\<lambda>d. non_empty (dc_openai_file_id d)) ds)"
        "\<forall>j \<in> set js. jb_case_id j = cid" "\<forall>k. find_case k (enqueue_parses rq jid cid ds ?db) = find_case k ?db"
      using Cons.IH [of ?db] by blast
    then show ?thesis using True j by (intro exI [of _ "job # js"]) (simp add: job_of_parse_def)
  next
    case False
    then show ?thesis using Cons.IH [of db] by simp
  qed
qed simp

lemma system_audit_frame [simp]:
  "db_jobs (system_audit rq cid a inp out db) = db_jobs db"
  "find_case k (system_audit rq cid a inp out db) = find_case k db"
  by (simp_all add: system_audit_def Let_def)

lemma find_case_documents [simp]: "find_case k (db\<lparr>db_documents := ds\<rparr>) = find_case k db"
  by (simp add: find_case_def)

lemma parse_jobs_not_live:
  "map job_kind js = map job_of_parse ds \<Longrightarrow> live_jobs k js = []"
proof (induction ds arbitrary: js)
  case (Cons d ds)
  then show ?case
    by (cases js) (auto simp: live_jobs_def is_live_job_def job_kind_def job_of_parse_def)
qed (simp add: live_jobs_def)

text \<open>An upload starts exactly what it calls for: one parse for every document that reached the file
  store, in their order, and one extraction when the case is a draft and a charge or a notice is among
  the documents, which then is extracting; no pipeline job, and no other case, is touched.\<close>

lemma upload_starts_what_it_calls_for:
  assumes "upload_documents max_bytes store jid rq cid ids files kinds db = Inr (db', created)"
    and "find_case cid db = Some c" and "resolved_kinds kinds files = Inr ks"
  shows "\<exists>js c'. db_jobs db' = db_jobs db @ js \<and> find_case cid db' = Some c'
     \<and> map job_kind js = map job_of_parse (filter (\<lambda>d. non_empty (dc_openai_file_id d)) created)
         @ (if ca_status c = S_draft \<and> list_ex (\<lambda>k. k \<in> set intake_trigger_kinds) ks
            then [(Job_intake_extraction, None)] else [])
     \<and> ca_status c' = (if ca_status c = S_draft \<and> list_ex (\<lambda>k. k \<in> set intake_trigger_kinds) ks
                         then S_extracting else ca_status c)
     \<and> live_jobs k (db_jobs db') = live_jobs k (db_jobs db)
     \<and> (k \<noteq> cid \<longrightarrow> find_case k db' = find_case k db)"
proof -
  have g: "get_case_or_404 rq cid db = Inr c"
    using assms(1,2) by (auto simp: upload_documents_def bind_result_Inr get_case_or_404_def split: if_splits)
  define made where "made = map (document_of_upload store cid) (zip ids (zip files ks))"
  define intake where "intake \<longleftrightarrow> ca_status c = S_draft \<and> list_ex (\<lambda>k. k \<in> set intake_trigger_kinds) ks"
  define db1 where "db1 = system_audit rq cid ''document_upload''
       [(''filenames'', filenames files), (''kinds'', PList (map PStr ks))] None
       (db\<lparr>db_documents := db_documents db @ made\<rparr>)"
  define db2 where "db2 = enqueue_parses rq jid cid made db1"
  have r: "created = made" "db' = (if intake then enqueue_job rq cid Job_intake_extraction None
       (assign_status (rq_now rq) cid S_extracting c db2) else db2)"
    using assms(1,3) g
    by (auto simp: upload_documents_def Let_def db2_def db1_def made_def intake_def split: if_splits)
  have db1: "db_jobs db1 = db_jobs db" "find_case k db1 = find_case k db" for k by (simp_all add: db1_def)
  obtain js where js: "db_jobs db2 = db_jobs db @ js"
      "map job_kind js = map job_of_parse (filter (\<lambda>d. non_empty (dc_openai_file_id d)) made)"
    and f: "\<And>k. find_case k db2 = find_case k db"
    using enqueue_parses_jobs [of rq jid cid made db1] db1 by (auto simp: db2_def)
  have l: "live_jobs k js = []" for k using parse_jobs_not_live [OF js(2)] .
  have append: "live_jobs k (xs @ ys) = live_jobs k xs @ live_jobs k ys" for k xs ys by (simp add: live_jobs_def)
  show ?thesis
    unfolding intake_def [symmetric]
  proof (cases intake)
    case False
    then have "db' = db2" using r(2) by simp
    then show "\<exists>js c'. db_jobs db' = db_jobs db @ js \<and> find_case cid db' = Some c'
       \<and> map job_kind js = map job_of_parse (filter (\<lambda>d. non_empty (dc_openai_file_id d)) created)
           @ (if intake then [(Job_intake_extraction, None)] else [])
       \<and> ca_status c' = (if intake then S_extracting else ca_status c)
       \<and> live_jobs k (db_jobs db') = live_jobs k (db_jobs db) \<and> (k \<noteq> cid \<longrightarrow> find_case k db' = find_case k db)"
      using js f l assms(2) False r(1) by (intro exI [of _ js] exI [of _ c]) (simp add: append)
  next
    case True
    define db3 where "db3 = assign_status (rq_now rq) cid S_extracting c db2"
    have "find_case cid db2 = Some c" using assms(2) f by simp
    from assign_status_effect [OF this, of k "rq_now rq" S_extracting] obtain c' where
      c': "find_case cid db3 = Some c'" "ca_status c' = S_extracting" "k \<noteq> cid \<longrightarrow> find_case k db3 = find_case k db2"
      by (auto simp: db3_def)
    have db': "db' = enqueue_job rq cid Job_intake_extraction None db3" and db3: "db_jobs db3 = db_jobs db2"
      using r(2) True by (simp_all add: db3_def)
    obtain job where j: "db_jobs db' = db_jobs db3 @ [job]" "job_kind job = (Job_intake_extraction, None)"
      using add_job_jobs unfolding db' enqueue_job_is_add_job by blast
    have "live_jobs k [job] = []" using j(2) by (simp add: live_jobs_def is_live_job_def job_kind_def)
    moreover have "find_case k db' = find_case k db3" for k by (simp add: db')
    ultimately show "\<exists>js c'. db_jobs db' = db_jobs db @ js \<and> find_case cid db' = Some c'
       \<and> map job_kind js = map job_of_parse (filter (\<lambda>d. non_empty (dc_openai_file_id d)) created)
           @ (if intake then [(Job_intake_extraction, None)] else [])
       \<and> ca_status c' = (if intake then S_extracting else ca_status c)
       \<and> live_jobs k (db_jobs db') = live_jobs k (db_jobs db) \<and> (k \<noteq> cid \<longrightarrow> find_case k db' = find_case k db)"
      using r(1) js f l j c' True db3
      by (intro exI [of _ "js @ [job]"] exI [of _ c']) (simp add: append)
  qed
qed

definition charge_upload :: upload where
  "charge_upload = \<lparr>ul_filename = Some ''charge.pdf'', ul_content_type = None, ul_size = 10\<rparr>"

lemma draft_upload:
  "\<exists>db' created. upload_documents 100 (\<lambda>_. Some ''f2'') (\<lambda>d. d) judge1 ''c1'' [''d2''] [charge_upload]
      (Some [''charge_sheet'']) (database1\<lparr>db_cases := [case_row1\<lparr>ca_status := S_draft\<rparr>]\<rparr>) = Inr (db', created)"
  by (simp add: upload_documents_def get_case_or_404_def find_case_def case_row1_def judge1_def resolved_kinds_def
      document_kinds_def oversized_def charge_upload_def Let_def)

lemma upload_starts_what_it_calls_for_witness:
  "\<exists>db' created js c'. upload_documents 100 (\<lambda>_. Some ''f2'') (\<lambda>d. d) judge1 ''c1'' [''d2''] [charge_upload]
      (Some [''charge_sheet'']) (database1\<lparr>db_cases := [case_row1\<lparr>ca_status := S_draft\<rparr>]\<rparr>) = Inr (db', created)
     \<and> db_jobs db' = js \<and> last (map job_kind js) = (Job_intake_extraction, None)
     \<and> find_case ''c1'' db' = Some c' \<and> ca_status c' = S_extracting"
proof -
  let ?db = "database1\<lparr>db_cases := [case_row1\<lparr>ca_status := S_draft\<rparr>]\<rparr>"
  obtain db' created where u: "upload_documents 100 (\<lambda>_. Some ''f2'') (\<lambda>d. d) judge1 ''c1'' [''d2''] [charge_upload]
      (Some [''charge_sheet'']) ?db = Inr (db', created)"
    using draft_upload by blast
  have c: "find_case ''c1'' ?db = Some (case_row1\<lparr>ca_status := S_draft\<rparr>)" by (simp add: find_case_def case_row1_def)
  have k: "resolved_kinds (Some [''charge_sheet'']) [charge_upload] = Inr [''charge_sheet'']"
    by (simp add: resolved_kinds_def document_kinds_def)
  have t: "list_ex (\<lambda>k. k \<in> set intake_trigger_kinds) [''charge_sheet'']" "db_jobs ?db = []"
    by (simp_all add: intake_trigger_kinds_def database1_def)
  from upload_starts_what_it_calls_for [OF u c k, of "''c1''"] t obtain js c' where
    "db_jobs db' = js" "find_case ''c1'' db' = Some c'" "ca_status c' = S_extracting"
    "map job_kind js = map job_of_parse (filter (\<lambda>d. non_empty (dc_openai_file_id d)) created) @ [(Job_intake_extraction, None)]"
    by auto
  with u show ?thesis
    by (intro exI [of _ db'] exI [of _ created] exI [of _ js] exI [of _ c']) simp
qed

text \<open>A supplementary upload adds a live pipeline job whatever the case is doing: a case that is
  processing then has two at a time. The job carries no action, so the worker serves it by the path of
  before the checkpoints, which starts gate 1 from a blank state without any document; and the tables
  are out of step with the graph whatever the threads are.\<close>

lemma supplementary_upload_adds_a_live_job:
  assumes "upload_supplementary_documents max_bytes store jid rq cid ids files reason db = Inr (db', created)"
  shows "\<exists>job. live_jobs cid (db_jobs db') = live_jobs cid (db_jobs db) @ [job]
     \<and> run_gate_job env fresh job tid w = run_gate_via_legacy env fresh cid [(''gate_name'', PStr ''gate1'')] w
     \<and> (\<forall>st. legacy_start_state env fresh cid 1 w = Inr st \<longrightarrow> cs_raw_documents st = [])
     \<and> (\<exists>c'. find_case cid db' = Some c' \<and> ca_status c' = S_processing)
     \<and> \<not> system_ok (w'\<lparr>w_db := db'\<rparr>)"
proof -
  obtain c where c: "get_case_or_404 rq cid db = Inr c"
    using assms by (auto simp: upload_supplementary_documents_def bind_result_Inr)
  then have f: "find_case cid db = Some c" by (auto simp: get_case_or_404_def split: option.splits if_splits)
  obtain db3 ds where db': "db' = enqueue_parses rq jid cid ds
        (enqueue_job rq cid Job_gate_run (Some [(''gate_name'', PStr ''gate1'')]) db3)"
    and db3: "db_jobs db3 = db_jobs db" "\<exists>c'. find_case cid db3 = Some c' \<and> ca_status c' = S_processing"
    using assms c f by (auto simp: upload_supplementary_documents_def Let_def split: if_splits)
  obtain job where job: "db_jobs (enqueue_job rq cid Job_gate_run (Some [(''gate_name'', PStr ''gate1'')]) db3)
        = db_jobs db3 @ [job]" "jb_case_id job = cid" "job_kind job = (Job_gate_run, None)"
      "jb_payload job = Some [(''gate_name'', PStr ''gate1'')]" "jb_status job = Job_pending"
    using add_job_jobs unfolding enqueue_job_is_add_job by blast
  obtain js where js: "db_jobs db' = db_jobs db @ job # js"
      "map job_kind js = map job_of_parse (filter (\<lambda>d. non_empty (dc_openai_file_id d)) ds)"
      "\<And>k. find_case k db' = find_case k db3"
    using enqueue_parses_jobs [of rq jid cid ds "enqueue_job rq cid Job_gate_run (Some [(''gate_name'', PStr ''gate1'')]) db3"]
      job(1) db3(1) by (auto simp: db')
  have "is_live_job cid job" using job by (simp add: is_live_job_def job_kind_def)
  then have live: "live_jobs cid (db_jobs db') = live_jobs cid (db_jobs db) @ [job]"
    using parse_jobs_not_live [OF js(2), of cid] by (simp add: js(1) live_jobs_def)
  have "\<not> jobs_carry_actions (db_jobs db')"
    using job js(1) by (auto simp: jobs_carry_actions_def job_kind_def pget_def)
  then have "\<not> system_ok (w'\<lparr>w_db := db'\<rparr>)" using system_okD(2) by fastforce
  moreover have "run_gate_job env fresh job tid w = run_gate_via_legacy env fresh cid [(''gate_name'', PStr ''gate1'')] w"
    using job by (simp add: run_gate_job_def pget_def)
  moreover have "cs_raw_documents st = []" if "legacy_start_state env fresh cid 1 w = Inr st" for st
    using that by (auto simp: legacy_start_state_def Let_def new_case_state_def split: option.splits)
  ultimately show ?thesis using live db3(2) js(3) by (intro exI [of _ job]) simp
qed

lemma supplementary_upload_adds_a_live_job_witness:
  "\<exists>db1 db2 c1 c2. upload_supplementary_documents 100 (\<lambda>_. None) (\<lambda>d. d) judge1 ''c1'' [''d2''] [charge_upload] None database1
        = Inr (db1, c1)
     \<and> upload_supplementary_documents 100 (\<lambda>_. None) (\<lambda>d. d) judge1 ''c1'' [''d3''] [charge_upload] None db1 = Inr (db2, c2)
     \<and> length (live_jobs ''c1'' (db_jobs db2)) = 2"
proof -
  have ok: "\<exists>db' created. upload_supplementary_documents 100 (\<lambda>_. None) (\<lambda>d. d) judge1 ''c1'' ids [charge_upload] None db
      = Inr (db', created)"
    if "find_case ''c1'' db = Some c" "ca_status c = S_processing" "ca_created_by c = ''judge1''" for db c ids
    using that
    by (simp add: upload_supplementary_documents_def get_case_or_404_def judge1_def case_row1_def oversized_def
        charge_upload_def Let_def)
  have c: "find_case ''c1'' database1 = Some case_row1" "ca_status case_row1 = S_processing" "ca_created_by case_row1 = ''judge1''"
    by (simp_all add: find_case_def database1_def case_row1_def)
  obtain db1 c1 where u1: "upload_supplementary_documents 100 (\<lambda>_. None) (\<lambda>d. d) judge1 ''c1'' [''d2''] [charge_upload] None database1
      = Inr (db1, c1)" using ok [OF c] by blast
  have "get_case_or_404 judge1 ''c1'' database1 = Inr case_row1"
    by (simp add: get_case_or_404_def c judge1_def)
  then have "\<exists>c'. find_case ''c1'' db1 = Some c' \<and> ca_status c' = S_processing \<and> ca_created_by c' = ''judge1''"
    using u1 c
    by (auto simp: upload_supplementary_documents_def Let_def oversized_def charge_upload_def document_of_upload_def
        non_empty_def split: if_splits)
  then obtain db2 c2 where u2: "upload_supplementary_documents 100 (\<lambda>_. None) (\<lambda>d. d) judge1 ''c1'' [''d3''] [charge_upload] None db1
      = Inr (db2, c2)" using ok by blast
  obtain j1 j2 where "live_jobs ''c1'' (db_jobs db1) = live_jobs ''c1'' (db_jobs database1) @ [j1]"
      "live_jobs ''c1'' (db_jobs db2) = live_jobs ''c1'' (db_jobs db1) @ [j2]"
    using supplementary_upload_adds_a_live_job [OF u1] supplementary_upload_adds_a_live_job [OF u2] by blast
  then show ?thesis using u1 u2 by (auto simp: live_jobs_def database1_def)
qed

end
