(* ===== verification/Reviews.thy ===== *)
theory Reviews
  imports Case_Data "HOL-Library.Char_ord" "HOL-Library.List_Lexorder"
begin

text \<open>
  What judges do beside the pipeline: requests to reopen a case (\<open>api/routes/reopen_requests.py\<close>), the
  notes of a hearing and their locks (\<open>api/routes/hearing_notes.py\<close>), and the views of
  \<open>api/routes/judge.py\<close>: disputed facts, gaps of the evidence, the fairness audit, the dashboard of the
  evidence and the validation of the jurisdiction. A fact is addressed by its position in its table.
\<close>

section \<open>Reopening a case\<close>

definition reopen_roles :: "user_role list" where "reopen_roles = [user_role.Judge, user_role.Admin]"

definition add_reopen_audit :: "request \<Rightarrow> uuid \<Rightarrow> string \<Rightarrow> pydict \<Rightarrow> pydict option \<Rightarrow> database \<Rightarrow> database" where
  "add_reopen_audit rq cid action inp out db =
     add_audit (let a = audit_of cid (rq_now rq) ''judge'' action inp
                in a\<lparr>al_entry := (al_entry a)\<lparr>ae_output_payload := out\<rparr>\<rparr>) db"

definition create_reopen_request ::
  "request \<Rightarrow> uuid \<Rightarrow> uuid \<Rightarrow> string \<Rightarrow> string \<Rightarrow> reopen_row list \<times> database
   \<Rightarrow> ((reopen_row list \<times> database) \<times> reopen_row) result" where
  "create_reopen_request rq new_id cid reason justification s =
     bind_result (require_role reopen_roles rq) (\<lambda>_.
       if length reason > 50 \<or> justification = [] \<or> length justification > 5000
       then Inl (HttpError 422 ''Validation error'')
       else case find_case cid (snd s) of
              None \<Rightarrow> Inl not_found
            | Some c \<Rightarrow>
                if ca_status c = S_processing then Inl (HttpError 400 ''Case is currently being processed'')
                else let item = \<lparr>ro_id = new_id, ro_case = cid, ro_requested_by = us_id (rq_user rq),
                           ro_reason = reason, ro_justification = justification, ro_status = Reopen_pending,
                           ro_reviewed_by = None, ro_review_notes = None, ro_reviewed_at = None,
                           ro_created_at = rq_now rq\<rparr>
                     in Inr ((fst s @ [item],
                              add_reopen_audit rq cid ''reopen_request_create''
                                [(''reason'', PStr reason), (''requested_by'', PStr (us_id (rq_user rq)))] None (snd s)),
                             item))"

definition list_reopen_requests :: "request \<Rightarrow> uuid \<Rightarrow> reopen_row list \<Rightarrow> (reopen_row list \<times> nat) result" where
  "list_reopen_requests rq cid reopens =
     bind_result (require_role reopen_roles rq) (\<lambda>_.
       let items = filter (\<lambda>r. ro_case r = cid) reopens in Inr (items, length items))"

definition reviewed :: "request \<Rightarrow> bool \<Rightarrow> string option \<Rightarrow> reopen_row \<Rightarrow> reopen_row" where
  "reviewed rq approve remarks r =
     r\<lparr>ro_status := if approve then Reopen_approved else Reopen_rejected,
       ro_reviewed_by := Some (us_id (rq_user rq)), ro_review_notes := remarks,
       ro_reviewed_at := Some (rq_now rq)\<rparr>"

definition review_reopen_request ::
  "request \<Rightarrow> uuid \<Rightarrow> uuid \<Rightarrow> bool \<Rightarrow> string option \<Rightarrow> reopen_row list \<times> database
   \<Rightarrow> (reopen_row list \<times> database) result" where
  "review_reopen_request rq cid rid approve remarks s =
     bind_result (require_role reopen_roles rq) (\<lambda>_.
       if \<not> at_most 2000 remarks then Inl (HttpError 422 ''Validation error'')
       else case find (\<lambda>r. ro_id r = rid \<and> ro_case r = cid) (fst s) of
              None \<Rightarrow> Inl (HttpError 404 ''Reopen request not found'')
            | Some r \<Rightarrow>
                let reopens = map (\<lambda>x. if ro_id x = rid \<and> ro_case x = cid then reviewed rq approve remarks x else x) (fst s);
                    db1 = (case find_case cid (snd s) of
                       Some c \<Rightarrow> if approve
                         then enqueue_job rq cid Job_case_pipeline
                                (Some [(''resume_from_stage'', PStr ''evidence-analysis''),
                                       (''resume_reason'', PStr ''reopen_approved'')])
                                (assign_status (rq_now rq) cid S_processing c (snd s))
                         else snd s
                     | None \<Rightarrow> snd s)
                in Inr (reopens,
                     add_reopen_audit rq cid ''reopen_request_review''
                       [(''request_id'', PStr rid), (''approve'', PBool approve)]
                       (Some [(''status'', PStr (reopen_status_value (if approve then Reopen_approved else Reopen_rejected)))])
                       db1))"

section \<open>Hearing notes\<close>

record note_row =
  hn_id :: uuid
  hn_case :: uuid
  hn_judge :: uuid
  hn_content :: string
  hn_section_reference :: "string option"
  hn_note_type :: string
  hn_is_locked :: bool

type_synonym note_state = "note_row list \<times> database"

definition find_note :: "uuid \<Rightarrow> uuid \<Rightarrow> note_row list \<Rightarrow> note_row option" where
  "find_note cid nid ns = find (\<lambda>n. hn_id n = nid \<and> hn_case n = cid) ns"

definition note_not_found :: py_error where "note_not_found = HttpError 404 ''Note not found''"

text \<open>The audit row of a new note is built before the flush gives the note its key.\<close>

definition create_hearing_note ::
  "request \<Rightarrow> uuid \<Rightarrow> uuid \<Rightarrow> string \<Rightarrow> string option \<Rightarrow> string \<Rightarrow> note_state \<Rightarrow> note_state result" where
  "create_hearing_note rq new_id cid content ref ty s =
     bind_result (require_role [user_role.Judge] rq) (\<lambda>_.
       if content = [] \<or> length content > 5000 \<or> \<not> at_most 255 ref \<or> length ty > 50
       then Inl (HttpError 422 ''Validation error'')
       else case find_case cid (snd s) of
              None \<Rightarrow> Inl not_found
            | Some c \<Rightarrow>
                Inr (fst s @ [\<lparr>hn_id = new_id, hn_case = cid, hn_judge = us_id (rq_user rq), hn_content = content,
                               hn_section_reference = ref, hn_note_type = ty, hn_is_locked = False\<rparr>],
                     add_reopen_audit rq cid ''hearing_note_create''
                       [(''section_reference'', dump_opt PStr ref), (''note_type'', PStr ty)]
                       (Some [(''note_id'', PStr ''None'')]) (snd s)))"

definition list_hearing_notes :: "request \<Rightarrow> uuid \<Rightarrow> note_row list \<Rightarrow> note_row list result" where
  "list_hearing_notes rq cid ns =
     bind_result (require_role [user_role.Judge] rq) (\<lambda>_. Inr (filter (\<lambda>n. hn_case n = cid) ns))"

definition editable_note :: "request \<Rightarrow> string \<Rightarrow> uuid \<Rightarrow> uuid \<Rightarrow> note_row list \<Rightarrow> note_row result" where
  "editable_note rq verb cid nid ns =
     (case find_note cid nid ns of
        None \<Rightarrow> Inl note_not_found
      | Some n \<Rightarrow> if hn_is_locked n then Inl (HttpError 403 ''Note is locked'')
                  else if hn_judge n \<noteq> us_id (rq_user rq)
                  then Inl (HttpError 403 (''Cannot '' @ verb @ '' another judge'' @ [CHR 0x27] @ ''s note''))
                  else Inr n)"

definition change_note :: "uuid \<Rightarrow> uuid \<Rightarrow> (note_row \<Rightarrow> note_row) \<Rightarrow> note_row list \<Rightarrow> note_row list" where
  "change_note cid nid f ns = map (\<lambda>n. if hn_id n = nid \<and> hn_case n = cid then f n else n) ns"

definition note_audit :: "request \<Rightarrow> uuid \<Rightarrow> string \<Rightarrow> uuid \<Rightarrow> database \<Rightarrow> database" where
  "note_audit rq cid action nid = judge_audit rq cid action [(''note_id'', PStr nid)]"

definition update_hearing_note ::
  "request \<Rightarrow> uuid \<Rightarrow> uuid \<Rightarrow> string option \<Rightarrow> string option \<Rightarrow> string option \<Rightarrow> note_state \<Rightarrow> note_state result" where
  "update_hearing_note rq cid nid content ref ty s =
     bind_result (require_role [user_role.Judge] rq) (\<lambda>_.
       if content = Some [] \<or> \<not> at_most 5000 content \<or> \<not> at_most 255 ref \<or> \<not> at_most 50 ty
       then Inl (HttpError 422 ''Validation error'')
       else bind_result (editable_note rq ''edit'' cid nid (fst s)) (\<lambda>_.
         Inr (change_note cid nid (\<lambda>n. n
                \<lparr>hn_content := (case content of None \<Rightarrow> hn_content n | Some x \<Rightarrow> x),
                 hn_section_reference := (case ref of None \<Rightarrow> hn_section_reference n | Some x \<Rightarrow> Some x),
                 hn_note_type := (case ty of None \<Rightarrow> hn_note_type n | Some x \<Rightarrow> x)\<rparr>) (fst s),
              note_audit rq cid ''hearing_note_update'' nid (snd s))))"

definition lock_hearing_note :: "request \<Rightarrow> uuid \<Rightarrow> uuid \<Rightarrow> note_state \<Rightarrow> note_state result" where
  "lock_hearing_note rq cid nid s =
     bind_result (require_role [user_role.Judge] rq) (\<lambda>_.
       case find_note cid nid (fst s) of
         None \<Rightarrow> Inl note_not_found
       | Some n \<Rightarrow> Inr (change_note cid nid (\<lambda>n. n\<lparr>hn_is_locked := True\<rparr>) (fst s),
                        note_audit rq cid ''hearing_note_lock'' nid (snd s)))"

definition delete_hearing_note :: "request \<Rightarrow> uuid \<Rightarrow> uuid \<Rightarrow> note_state \<Rightarrow> note_state result" where
  "delete_hearing_note rq cid nid s =
     bind_result (require_role [user_role.Judge] rq) (\<lambda>_.
     bind_result (editable_note rq ''delete'' cid nid (fst s)) (\<lambda>_.
       Inr (filter (\<lambda>n. \<not> (hn_id n = nid \<and> hn_case n = cid)) (fst s),
            note_audit rq cid ''hearing_note_delete'' nid (snd s))))"

text \<open>The operations on the notes, in any order and by any judges; the key of a new note is fresh.\<close>

inductive note_step :: "note_state \<Rightarrow> note_state \<Rightarrow> bool" where
  create: "new_id \<notin> hn_id ` set (fst s) \<Longrightarrow> create_hearing_note rq new_id cid content ref ty s = Inr s' \<Longrightarrow> note_step s s'"
| update: "update_hearing_note rq cid nid content ref ty s = Inr s' \<Longrightarrow> note_step s s'"
| lock: "lock_hearing_note rq cid nid s = Inr s' \<Longrightarrow> note_step s s'"
| delete: "delete_hearing_note rq cid nid s = Inr s' \<Longrightarrow> note_step s s'"

inductive_cases note_stepE: "note_step s s'"

section \<open>Disputing a fact\<close>

definition dispute_fact :: "request \<Rightarrow> uuid \<Rightarrow> nat \<Rightarrow> uuid \<Rightarrow> string \<Rightarrow> database \<Rightarrow> database result" where
  "dispute_fact rq cid i fact_id reason db =
     bind_result (require_role [user_role.Judge] rq) (\<lambda>_.
       if reason = [] \<or> length reason > 1000 then Inl (HttpError 422 ''Validation error'')
       else if \<not> (i < length (db_facts db) \<and> fa_case (db_facts db ! i) = cid)
       then Inl (HttpError 404 ''Fact not found'')
       else let f = db_facts db ! i
            in if fa_status f = Some ''disputed'' then Inl (HttpError 409 ''Fact is already disputed.'')
               else bind_result
                 (case fa_corroboration f of
                    None \<Rightarrow> Inr []
                  | Some v \<Rightarrow> if \<not> truthy v then Inr []
                              else (case v of PDict d \<Rightarrow> Inr d | _ \<Rightarrow> Inl ValueError))
                 (\<lambda>existing.
                    let d = dict_set ''disputed_by'' (PStr (us_id (rq_user rq)))
                              (dict_set ''dispute_reason'' (PStr reason) existing);
                        f' = f\<lparr>fa_status := Some ''disputed'', fa_confidence := Some ''disputed'',
                               fa_corroboration := Some (PDict d)\<rparr>
                    in Inr (add_reopen_audit rq cid ''dispute_fact''
                              [(''fact_id'', PStr fact_id), (''reason'', PStr reason)]
                              (Some [(''status'', PStr ''disputed''), (''confidence'', PStr ''disputed'')])
                              (db\<lparr>db_facts := (db_facts db)[i := f']\<rparr>))))"

section \<open>Views of the evidence\<close>

definition known_case :: "request \<Rightarrow> uuid \<Rightarrow> database \<Rightarrow> case_row result" where
  "known_case rq cid db =
     bind_result (require_role [user_role.Judge] rq) (\<lambda>_.
       case find_case cid db of None \<Rightarrow> Inl not_found | Some c \<Rightarrow> Inr c)"

definition evidence_of :: "uuid \<Rightarrow> database \<Rightarrow> evidence_row list" where
  "evidence_of cid db = filter (\<lambda>e. ev_case e = cid) (db_evidence db)"

text \<open>
  In SQL a fact without a status is neither disputed nor undisputed. The response takes objects only as
  the flags and the links of an item.
\<close>

definition is_uncorroborated :: "fact_row \<Rightarrow> bool" where
  "is_uncorroborated f \<longleftrightarrow> fa_status f \<noteq> None \<and> fa_status f \<noteq> Some ''disputed''
     \<and> (case fa_corroboration f of None \<Rightarrow> True | Some v \<Rightarrow> v = PDict [])"

definition object_or_none :: "pyval \<Rightarrow> bool" where
  "object_or_none v = (case v of PNone \<Rightarrow> True | PDict d \<Rightarrow> True | _ \<Rightarrow> False)"

record evidence_gaps =
  eg_weak :: "evidence_row list"
  eg_uncorroborated :: "fact_row list"
  eg_total_evidence :: nat
  eg_total_facts :: nat
  eg_summary :: string

definition get_evidence_gaps :: "request \<Rightarrow> uuid \<Rightarrow> database \<Rightarrow> evidence_gaps result" where
  "get_evidence_gaps rq cid db =
     bind_result (known_case rq cid db) (\<lambda>_.
       let weak = filter (\<lambda>e. ev_strength e = Some ''weak'') (evidence_of cid db);
           lacking = filter is_uncorroborated (facts_of cid db);
           te = length (evidence_of cid db); tf = length (facts_of cid db)
       in if \<not> list_all (\<lambda>e. object_or_none (ev_admissibility_flags e)
                \<and> (case ev_linked_claims e of None \<Rightarrow> True | Some v \<Rightarrow> object_or_none v)) weak
          then Inl (OtherError ''ValidationError'')
          else Inr \<lparr>eg_weak = weak, eg_uncorroborated = lacking, eg_total_evidence = te, eg_total_facts = tf,
                    eg_summary = digits_of (length weak) @ '' of '' @ digits_of te
                      @ '' evidence item(s) are weak; '' @ digits_of (length lacking) @ '' of ''
                      @ digits_of tf @ '' fact(s) lack corroboration.''\<rparr>)"

definition bump :: "bool \<Rightarrow> nat \<times> nat \<Rightarrow> nat \<times> nat" where
  "bump t c = (if t then (fst c + 1, snd c) else (fst c, snd c + 1))"

definition count_flag :: "string \<times> pyval \<Rightarrow> (nat \<times> nat) dict \<Rightarrow> (nat \<times> nat) dict" where
  "count_flag kv counts =
     (let c = (case map_of counts (fst kv) of None \<Rightarrow> (0, 0) | Some c \<Rightarrow> c)
      in dict_set (fst kv) (bump (truthy (snd kv)) c) counts)"

text \<open>The flags of an item are walked with \<open>.items()\<close>, which only an object has.\<close>

fun count_flags :: "evidence_row list \<Rightarrow> (nat \<times> nat) dict \<Rightarrow> (nat \<times> nat) dict result" where
  "count_flags [] counts = Inr counts"
| "count_flags (e # es) counts =
     (if \<not> truthy (ev_admissibility_flags e) then count_flags es counts
      else case ev_admissibility_flags e of
             PDict d \<Rightarrow> count_flags es (fold count_flag d counts)
           | _ \<Rightarrow> Inl (OtherError ''AttributeError''))"

definition strength_count :: "evidence_row list \<Rightarrow> string \<Rightarrow> nat" where
  "strength_count es k = length (filter (\<lambda>e. (case ev_strength e of None \<Rightarrow> ''unrated'' | Some s \<Rightarrow> s) = k) es)"

definition fact_object :: "fact_row \<Rightarrow> pydict" where
  "fact_object f = (case fa_corroboration f of Some (PDict d) \<Rightarrow> d | _ \<Rightarrow> [])"

definition is_contradiction :: "fact_row \<Rightarrow> bool" where
  "is_contradiction f \<longleftrightarrow> fa_status f = Some ''disputed'' \<or> dict_has ''contradicts'' (fact_object f)"

record evidence_dashboard =
  ed_strengths :: "nat dict"
  ed_total :: nat
  ed_flags :: "(string \<times> nat \<times> nat) list"
  ed_contradictions :: "(string \<times> string option \<times> pyval \<times> pyval) list"
  ed_total_facts :: nat
  ed_has_data :: bool

definition get_evidence_dashboard :: "request \<Rightarrow> uuid \<Rightarrow> database \<Rightarrow> evidence_dashboard result" where
  "get_evidence_dashboard rq cid db =
     bind_result (known_case rq cid db) (\<lambda>_.
     bind_result (count_flags (evidence_of cid db) []) (\<lambda>flags.
       let es = evidence_of cid db; fs = facts_of cid db
       in Inr \<lparr>ed_strengths = map (\<lambda>k. (k, strength_count es k)) [''strong'', ''medium'', ''weak'', ''unrated''],
               ed_total = length es, ed_flags = sort_key fst flags,
               ed_contradictions = map (\<lambda>f. (fa_description f, fa_status f,
                   pget (fact_object f) ''dispute_reason'', pget (fact_object f) ''contradicts''))
                 (filter is_contradiction fs),
               ed_total_facts = length fs, ed_has_data = (es \<noteq> [] \<or> fs \<noteq> [])\<rparr>))"

section \<open>Fairness and jurisdiction\<close>

record event_row =
  pe_case :: uuid
  pe_kind :: string
  pe_payload :: pyval
  pe_ts :: int

definition latest_gate4_audit_summary :: "uuid \<Rightarrow> event_row list \<Rightarrow> pydict option" where
  "latest_gate4_audit_summary cid events =
     (case sort_key (\<lambda>e. - pe_ts e) (filter (\<lambda>e. pe_case e = cid \<and> pe_kind e = ''interrupt''
            \<and> (case pe_payload e of PDict d \<Rightarrow> pget d ''gate'' = PStr ''gate4'' | _ \<Rightarrow> False)) events) of
        [] \<Rightarrow> None
      | e # _ \<Rightarrow> (case pe_payload e of
                    PDict d \<Rightarrow> (case pget d ''audit_summary'' of PDict a \<Rightarrow> Some a | _ \<Rightarrow> None)
                  | _ \<Rightarrow> None))"

definition severity_prefixes :: "string list" where
  "severity_prefixes = [''CRITICAL'', ''MAJOR'', ''MINOR'']"

definition parse_severity :: "string \<Rightarrow> string option" where
  "parse_severity issue =
     (let head = map upper_char (takeWhile (\<lambda>c. c \<noteq> CHR '':'') (py_strip issue))
      in find (\<lambda>p. starts_with p head) severity_prefixes)"

record audit_check =
  ak_label :: string
  ak_passed :: bool
  ak_severity :: "string option"

record fairness_audit =
  fq_fairness :: "pydict option"
  fq_send_back :: "pydict option"
  fq_checks :: "audit_check list"
  fq_verdict :: "string option"
  fq_score :: "int option"

definition list_of :: "pyval \<Rightarrow> pyval list" where
  "list_of v = (case v of PList xs \<Rightarrow> xs | _ \<Rightarrow> [])"

definition shape_fairness_audit :: "(pyval \<Rightarrow> string) \<Rightarrow> pydict option \<Rightarrow> fairness_audit" where
  "shape_fairness_audit rep summary =
     (case summary of
        None \<Rightarrow> \<lparr>fq_fairness = None, fq_send_back = None, fq_checks = [], fq_verdict = None, fq_score = None\<rparr>
      | Some d \<Rightarrow>
          let send_back = (case pget d ''recommend_send_back'' of PDict s \<Rightarrow> Some s | _ \<Rightarrow> None)
          in case pget d ''fairness_check'' of
               PDict f \<Rightarrow>
                 let passed = truthy (pget f ''audit_passed'');
                     issues = map (\<lambda>v. \<lparr>ak_label = py_str rep v, ak_passed = False,
                                        ak_severity = parse_severity (py_str rep v)\<rparr>)
                                (list_of (pget f ''issues''));
                     checks = (if issues = [] \<and> passed
                       then [\<lparr>ak_label = ''No critical or major fairness issues identified.'', ak_passed = True,
                              ak_severity = None\<rparr>] else issues);
                     recommendations = list_of (pget f ''recommendations'');
                     reason = (case send_back of
                         None \<Rightarrow> None
                       | Some s \<Rightarrow> if s = [] then None
                                   else (case pget s ''reason'' of PStr r \<Rightarrow> Some (s, r) | _ \<Rightarrow> None));
                     verdict = (case reason of
                         Some (s, r) \<Rightarrow> Some (''Send back to ''
                             @ (if truthy (pget s ''to_phase'') then py_str rep (pget s ''to_phase'')
                                else ''previous phase'') @ '': '' @ r)
                       | None \<Rightarrow> if recommendations \<noteq> [] then Some (py_str rep (hd recommendations))
                                 else if passed then Some ''Audit passed - no remediation recommended.''
                                 else None)
                 in \<lparr>fq_fairness = Some f, fq_send_back = send_back, fq_checks = checks, fq_verdict = verdict,
                     fq_score = Some (if passed \<and> \<not> truthy (pget f ''critical_issues_found'') then 100 else 0)\<rparr>
             | _ \<Rightarrow> \<lparr>fq_fairness = None, fq_send_back = send_back, fq_checks = [], fq_verdict = None,
                     fq_score = None\<rparr>)"

definition governance_checks :: "uuid \<Rightarrow> database \<Rightarrow> audit_entry list" where
  "governance_checks cid db =
     take 50 (filter (\<lambda>l. ae_agent l = ''hearing-governance'') (case_audit cid db))"

definition get_fairness_audit ::
  "(pyval \<Rightarrow> string) \<Rightarrow> request \<Rightarrow> uuid \<Rightarrow> event_row list \<Rightarrow> database
   \<Rightarrow> (audit_entry list \<times> fairness_audit \<times> bool) result" where
  "get_fairness_audit rep rq cid events db =
     bind_result (known_case rq cid db) (\<lambda>_.
       let checks = governance_checks cid db;
           a = shape_fairness_audit rep (latest_gate4_audit_summary cid events)
       in Inr (checks, a, checks \<noteq> [] \<or> fq_fairness a \<noteq> None))"

definition extract_jurisdiction_issues :: "pydict option \<Rightarrow> pyval list" where
  "extract_jurisdiction_issues payload =
     (case payload of
        None \<Rightarrow> []
      | Some p \<Rightarrow> (case pget p ''jurisdiction_issues'' of
            PList xs \<Rightarrow> xs
          | _ \<Rightarrow> (case pget p ''case_metadata'' of
                    PDict m \<Rightarrow> list_of (pget m ''jurisdiction_issues'') | _ \<Rightarrow> [])))"

definition get_jurisdiction_validation ::
  "request \<Rightarrow> uuid \<Rightarrow> database \<Rightarrow> (bool option \<times> pyval list \<times> bool) result" where
  "get_jurisdiction_validation rq cid db =
     bind_result (known_case rq cid db) (\<lambda>c.
       let audit = (case sort_key (\<lambda>l. - ae_timestamp l) (filter (\<lambda>l. ae_agent l = ''case-processing''
                       \<and> ae_action l = ''agent_response'') (case_audit cid db)) of [] \<Rightarrow> None | l # _ \<Rightarrow> Some l)
       in Inr (ca_jurisdiction_valid c,
               extract_jurisdiction_issues (case audit of None \<Rightarrow> None | Some l \<Rightarrow> ae_output_payload l),
               ca_jurisdiction_valid c \<noteq> None \<or> audit \<noteq> None))"

section \<open>Properties\<close>

lemma find_note_change:
  assumes "\<And>n. hn_id (f n) = hn_id n \<and> hn_case (f n) = hn_case n"
  shows "find_note k m (change_note cid nid f ns)
     = map_option (\<lambda>n. if m = nid \<and> k = cid then f n else n) (find_note k m ns)"
  unfolding find_note_def change_note_def using assms by (induction ns) auto

lemma find_note_append:
  "m \<notin> hn_id ` set ns \<or> find_note k m ns \<noteq> None \<Longrightarrow> hn_id n \<noteq> m \<Longrightarrow> find_note k m (ns @ [n]) = find_note k m ns"
  unfolding find_note_def by (induction ns) (auto split: if_splits)

lemma find_note_filter:
  "\<not> (m = nid \<and> k = cid) \<Longrightarrow> find_note k m (filter (\<lambda>n. \<not> (hn_id n = nid \<and> hn_case n = cid)) ns) = find_note k m ns"
  unfolding find_note_def by (induction ns) auto

lemma find_note_id: "find_note k m ns = Some n \<Longrightarrow> hn_id n = m \<and> hn_case n = k \<and> n \<in> set ns"
  unfolding find_note_def by (drule find_Some_in) auto

lemma editable_noteD:
  "editable_note rq verb cid nid ns = Inr n \<Longrightarrow>
     find_note cid nid ns = Some n \<and> \<not> hn_is_locked n \<and> hn_judge n = us_id (rq_user rq)"
  by (auto simp: editable_note_def split: option.splits if_splits)

lemma locked_note_step:
  assumes step: "note_step s s'" and n: "find_note k m (fst s) = Some n" "hn_is_locked n"
  shows "find_note k m (fst s') = Some n"
  using step
proof (cases rule: note_step.cases)
  case (create new_id rq cid content ref ty)
  then obtain x where "fst s' = fst s @ [x]" "hn_id x = new_id"
    by (auto simp: create_hearing_note_def bind_result_Inr split: if_splits option.splits)
  moreover have "m \<noteq> new_id" using create(1) find_note_id [OF n(1)] by auto
  ultimately show ?thesis using find_note_append [of m "fst s" k x] n(1) by simp
next
  case (update rq cid nid content ref ty)
  then obtain f x where f: "fst s' = change_note cid nid f (fst s)"
      "\<And>n. hn_id (f n) = hn_id n \<and> hn_case (f n) = hn_case n"
    and x: "editable_note rq ''edit'' cid nid (fst s) = Inr x"
    by (auto simp: update_hearing_note_def bind_result_Inr split: if_splits)
  have "\<not> (m = nid \<and> k = cid)" using editable_noteD [OF x] n by auto
  then show ?thesis using find_note_change [OF f(2)] f(1) n(1) by auto
next
  case (lock rq cid nid)
  then have s': "fst s' = change_note cid nid (\<lambda>n. n\<lparr>hn_is_locked := True\<rparr>) (fst s)"
    by (auto simp: lock_hearing_note_def bind_result_Inr split: option.splits)
  have "find_note k m (fst s') = map_option (\<lambda>n. if m = nid \<and> k = cid then n\<lparr>hn_is_locked := True\<rparr> else n)
      (find_note k m (fst s))"
    unfolding s' by (rule find_note_change) simp
  moreover have "n\<lparr>hn_is_locked := True\<rparr> = n" using n(2) by (cases n) simp
  ultimately show ?thesis using n(1) by simp
next
  case (delete rq cid nid)
  then obtain x where "fst s' = filter (\<lambda>n. \<not> (hn_id n = nid \<and> hn_case n = cid)) (fst s)"
    and x: "editable_note rq ''delete'' cid nid (fst s) = Inr x"
    by (auto simp: delete_hearing_note_def bind_result_Inr)
  moreover have "\<not> (m = nid \<and> k = cid)" using editable_noteD [OF x] n by auto
  ultimately show ?thesis using find_note_filter n(1) by simp
qed

text \<open>C20: A locked hearing note is frozen: whatever any judges do afterwards, in any order, the note stays with
  its content, its section and its kind, and it stays locked.\<close>

theorem locked_notes_are_frozen:
  assumes "note_step\<^sup>*\<^sup>* s s'" and "find_note cid nid (fst s) = Some n" and "hn_is_locked n"
  shows "find_note cid nid (fst s') = Some n"
  using assms by (induction rule: rtranclp_induct) (auto intro: locked_note_step)

definition locked_note :: note_row where
  "locked_note = \<lparr>hn_id = ''n1'', hn_case = ''c1'', hn_judge = ''judge1'', hn_content = ''seen'',
     hn_section_reference = None, hn_note_type = ''observation'', hn_is_locked = True\<rparr>"

theorem locked_notes_are_frozen_witness:
  "\<exists>s'. create_hearing_note judge1 ''n2'' ''c1'' ''heard'' None ''observation'' ([locked_note], database1) = Inr s'
     \<and> find_note ''c1'' ''n1'' (fst s') = Some locked_note \<and> length (fst s') = 2"
proof -
  obtain s' where s': "create_hearing_note judge1 ''n2'' ''c1'' ''heard'' None ''observation'' ([locked_note], database1) = Inr s'"
    "length (fst s') = 2"
    by (simp add: create_hearing_note_def require_role_def judge1_def at_most_def find_case_def database1_def case_row1_def)
  have "note_step\<^sup>*\<^sup>* ([locked_note], database1) s'"
    by (rule r_into_rtranclp, rule note_step.create [OF _ s'(1)]) (simp add: locked_note_def)
  from locked_notes_are_frozen [OF this, of "''c1''" "''n1''" locked_note] s'
  show ?thesis by (simp add: find_note_def locked_note_def)
qed

text \<open>A judge may lock a note of another judge, who can then neither change nor delete it.\<close>

lemma any_judge_locks_any_note:
  assumes "find_note cid nid (fst s) = Some n" "us_role (rq_user rq) = user_role.Judge"
  shows "\<exists>s'. lock_hearing_note rq cid nid s = Inr s'
     \<and> (\<exists>e. delete_hearing_note rq' cid nid s' = Inl e)"
proof -
  let ?ns = "change_note cid nid (\<lambda>n. n\<lparr>hn_is_locked := True\<rparr>) (fst s)"
  have l: "lock_hearing_note rq cid nid s = Inr (?ns, note_audit rq cid ''hearing_note_lock'' nid (snd s))"
    using assms by (simp add: lock_hearing_note_def require_role_def)
  have "find_note cid nid ?ns = map_option (\<lambda>n. if nid = nid \<and> cid = cid then n\<lparr>hn_is_locked := True\<rparr> else n)
      (find_note cid nid (fst s))" by (rule find_note_change) simp
  then have "find_note cid nid ?ns = Some (n\<lparr>hn_is_locked := True\<rparr>)" using assms(1) by simp
  then have "\<exists>e. delete_hearing_note rq' cid nid (?ns, note_audit rq cid ''hearing_note_lock'' nid (snd s)) = Inl e"
    by (auto simp: delete_hearing_note_def editable_note_def require_role_def)
  then show ?thesis using l by blast
qed

text \<open>The review of a reopen request has no guard: whoever asked for it may approve it, a request already
  decided may be decided again, and every approval sets the case processing and adds a live pipeline job
  to it whatever the case is doing, so approving twice runs the case twice.\<close>

lemma every_approval_adds_a_pipeline_job:
  assumes "review_reopen_request rq cid rid True remarks (reopens, db) = Inr (reopens', db')"
    and "find_case cid db = Some c"
  shows "\<exists>job c'. live_jobs cid (db_jobs db') = live_jobs cid (db_jobs db) @ [job] \<and> jb_type job = Job_case_pipeline
     \<and> find_case cid db' = Some c' \<and> ca_status c' = S_processing
     \<and> (\<exists>s. review_reopen_request rq2 cid rid approve None (reopens', db') = Inr s)
       = (us_role (rq_user rq2) \<in> set reopen_roles)"
proof -
  obtain r where r: "find (\<lambda>r. ro_id r = rid \<and> ro_case r = cid) reopens = Some r"
    and reopens': "reopens' = map (\<lambda>x. if ro_id x = rid \<and> ro_case x = cid then reviewed rq True remarks x else x) reopens"
    and db': "db' = add_reopen_audit rq cid ''reopen_request_review''
        [(''request_id'', PStr rid), (''approve'', PBool True)]
        (Some [(''status'', PStr (reopen_status_value Reopen_approved))])
        (enqueue_job rq cid Job_case_pipeline
           (Some [(''resume_from_stage'', PStr ''evidence-analysis''), (''resume_reason'', PStr ''reopen_approved'')])
           (assign_status (rq_now rq) cid S_processing c db))"
    using assms by (auto simp: review_reopen_request_def bind_result_Inr Let_def split: option.splits if_splits)
  let ?db = "assign_status (rq_now rq) cid S_processing c db"
  let ?payload = "Some [(''resume_from_stage'', PStr ''evidence-analysis''), (''resume_reason'', PStr ''reopen_approved'')]"
  obtain job where job: "db_jobs (enqueue_job rq cid Job_case_pipeline ?payload ?db) = db_jobs ?db @ [job]"
      "jb_case_id job = cid" "jb_type job = Job_case_pipeline" "jb_status job = Job_pending"
    using enqueue_job_jobs by blast
  have frame: "db_jobs (add_reopen_audit rq cid a i out x) = db_jobs x"
      "find_case k (add_reopen_audit rq cid a i out x) = find_case k x" for a i out x k
    by (simp_all add: add_reopen_audit_def Let_def)
  have "live_jobs cid (db_jobs db') = live_jobs cid (db_jobs db) @ [job]"
    using job by (simp add: db' frame is_live_job_def)
  moreover obtain c' where "find_case cid db' = Some c'" "ca_status c' = S_processing"
    using assign_status_effect [OF assms(2), of cid "rq_now rq" S_processing] by (auto simp: db' frame)
  moreover have "find (\<lambda>r. ro_id r = rid \<and> ro_case r = cid) reopens' \<noteq> None"
    using r unfolding reopens' by (induction reopens) (auto simp: reviewed_def split: if_splits)
  then have "(\<exists>s. review_reopen_request rq2 cid rid approve None (reopens', db') = Inr s)
      = (us_role (rq_user rq2) \<in> set reopen_roles)"
    by (auto simp: review_reopen_request_def require_role_def at_most_def Let_def)
  ultimately show ?thesis using job(3) by blast
qed

definition pending_reopen :: reopen_row where
  "pending_reopen = \<lparr>ro_id = ''r1'', ro_case = ''c1'', ro_requested_by = ''judge1'', ro_reason = ''new'',
     ro_justification = ''new evidence'', ro_status = Reopen_pending, ro_reviewed_by = None,
     ro_review_notes = None, ro_reviewed_at = None, ro_created_at = 1\<rparr>"

lemma every_approval_adds_a_pipeline_job_witness:
  "\<exists>r1 db1 r2 db2. review_reopen_request judge1 ''c1'' ''r1'' True None ([pending_reopen], database1) = Inr (r1, db1)
     \<and> review_reopen_request judge1 ''c1'' ''r1'' True None (r1, db1) = Inr (r2, db2)
     \<and> length (live_jobs ''c1'' (db_jobs db2)) = 2"
proof -
  have c: "find_case ''c1'' database1 = Some case_row1" by (simp add: find_case_def database1_def case_row1_def)
  have role: "us_role (rq_user judge1) \<in> set reopen_roles" by (simp add: judge1_def reopen_roles_def)
  obtain r1 db1 where a: "review_reopen_request judge1 ''c1'' ''r1'' True None ([pending_reopen], database1) = Inr (r1, db1)"
    using role by (auto simp: review_reopen_request_def require_role_def at_most_def pending_reopen_def Let_def)
  note first = every_approval_adds_a_pipeline_job [OF a c, of judge1 True]
  then obtain c' where c': "find_case ''c1'' db1 = Some c'" by blast
  obtain r2 db2 where b: "review_reopen_request judge1 ''c1'' ''r1'' True None (r1, db1) = Inr (r2, db2)"
    using first role by fastforce
  have "length (live_jobs ''c1'' (db_jobs db1)) = 1"
    using first by (auto simp: live_jobs_def database1_def)
  then have "length (live_jobs ''c1'' (db_jobs db2)) = 2"
    using every_approval_adds_a_pipeline_job [OF b c', of judge1 True] by auto
  then show ?thesis using a b by blast
qed

text \<open>A fact a judge disputes turns up as a contradiction and no longer as a gap, keeps what its
  corroboration said under other keys, and can be disputed only once; no other fact changes.\<close>

lemma disputed_fact_is_a_contradiction:
  assumes "dispute_fact rq cid i fid reason db = Inr db'"
  shows "is_contradiction (db_facts db' ! i) \<and> \<not> is_uncorroborated (db_facts db' ! i)
     \<and> pget (fact_object (db_facts db' ! i)) ''dispute_reason'' = PStr reason
     \<and> (if k \<in> {''dispute_reason'', ''disputed_by''} then True
        else pget (fact_object (db_facts db' ! i)) k = pget (fact_object (db_facts db ! i)) k)
     \<and> (\<exists>e. dispute_fact rq2 cid i fid reason2 db' = Inl e)
     \<and> (if j = i then True else db_facts db' ! j = db_facts db ! j) \<and> length (db_facts db') = length (db_facts db)"
proof -
  obtain existing where i: "i < length (db_facts db)"
    and e: "(case fa_corroboration (db_facts db ! i) of None \<Rightarrow> Inr []
       | Some v \<Rightarrow> if \<not> truthy v then Inr [] else (case v of PDict d \<Rightarrow> Inr d | _ \<Rightarrow> Inl ValueError)) = Inr existing"
    and facts: "db_facts db' = (db_facts db)[i := (db_facts db ! i)\<lparr>fa_status := Some ''disputed'',
        fa_confidence := Some ''disputed'',
        fa_corroboration := Some (PDict (dict_set ''disputed_by'' (PStr (us_id (rq_user rq)))
            (dict_set ''dispute_reason'' (PStr reason) existing)))\<rparr>]"
    using assms
    by (auto simp: dispute_fact_def bind_result_Inr Let_def add_reopen_audit_def add_audit_def split: if_splits)
  have "existing = fact_object (db_facts db ! i)"
    using e by (auto simp: fact_object_def split: option.splits pyval.splits if_splits)
  moreover have "\<exists>err. dispute_fact rq2 cid i fid reason2 db' = Inl err"
    using i by (auto simp: dispute_fact_def facts require_role_def Let_def)
  ultimately show ?thesis
    using i by (auto simp: facts is_contradiction_def is_uncorroborated_def fact_object_def pget_def)
qed

definition red_light :: fact_row where
  "red_light = \<lparr>fa_case = ''c1'', fa_event_date = None, fa_event_time = None, fa_description = ''the light was red'',
     fa_confidence = Some ''high'', fa_status = Some ''agreed'', fa_corroboration = None\<rparr>"

lemma disputed_fact_is_a_contradiction_witness:
  "\<exists>db'. dispute_fact judge1 ''c1'' 0 ''f1'' ''hearsay'' (database1\<lparr>db_facts := [red_light]\<rparr>) = Inr db'
     \<and> is_contradiction (db_facts db' ! 0) \<and> is_uncorroborated red_light \<and> \<not> is_uncorroborated (db_facts db' ! 0)"
proof -
  obtain db' where d: "dispute_fact judge1 ''c1'' 0 ''f1'' ''hearsay'' (database1\<lparr>db_facts := [red_light]\<rparr>) = Inr db'"
    by (simp add: dispute_fact_def require_role_def judge1_def red_light_def Let_def)
  have "is_uncorroborated red_light" by (simp add: is_uncorroborated_def red_light_def)
  then show ?thesis using disputed_fact_is_a_contradiction [OF d] d by blast
qed

text \<open>Flags in the shape of a list, which the pipeline persists as they come, break the dashboard.\<close>

lemma list_flags_break_the_dashboard:
  assumes "find_case cid db = Some c" "us_role (rq_user rq) = user_role.Judge"
    and "evidence_of cid db = [e]" "ev_admissibility_flags e = PList (v # vs)"
  shows "get_evidence_dashboard rq cid db = Inl (OtherError ''AttributeError'')"
  using assms by (simp add: get_evidence_dashboard_def known_case_def require_role_def)

end
