(* ===== verification/Schema_Engine.thy ===== *)
theory Schema_Engine
  imports Prelude "HOL-Library.AList"
begin

text \<open>
  The language of the schema migrations (\<open>alembic/versions\<close>): columns, tables and the statements a script
  gives to the database. The database that executes them is not part of the repository. What the scripts rely
  on is the locale \<open>schema_engine\<close>: the documented effect of a statement on the type of a column and on the
  enumeration types, and that a creation is undone by the drop of what it created. A catalogue of tables, rows,
  indexes and types at the end of the theory obeys these laws.
\<close>

section \<open>Columns, rules and statements\<close>

datatype col_type =
    Uuid_T | Varchar_T nat | Text_T | Integer_T | Bigint_T | Float_T | Numeric_T nat nat
  | Boolean_T | Date_T | Time_T | Timestamp_T | Jsonb_T | Enum_T string

record column_def =
  cd_name :: string
  cd_type :: col_type
  cd_nullable :: bool
  cd_primary :: bool
  cd_unique :: bool
  cd_default :: "string option"
  cd_references :: "(string \<times> string \<times> string option) option"

text \<open>
  \<open>sa.Column(name, type, ...)\<close>: nullable unless said otherwise or a primary key; a foreign key names the
  table, the column and the action on delete.
\<close>

definition sa_column :: "string \<Rightarrow> col_type \<Rightarrow> column_def" where
  "sa_column n t = \<lparr>cd_name = n, cd_type = t, cd_nullable = True, cd_primary = False,
     cd_unique = False, cd_default = None, cd_references = None\<rparr>"

definition key_column :: "string \<Rightarrow> col_type \<Rightarrow> column_def" where
  "key_column n t = (sa_column n t)\<lparr>cd_nullable := False, cd_primary := True\<rparr>"

definition not_null :: "column_def \<Rightarrow> column_def" where
  "not_null c = c\<lparr>cd_nullable := False\<rparr>"

definition only_once :: "column_def \<Rightarrow> column_def" where
  "only_once c = c\<lparr>cd_unique := True\<rparr>"

definition defaults_to :: "string \<Rightarrow> column_def \<Rightarrow> column_def" where
  "defaults_to v c = c\<lparr>cd_default := Some v\<rparr>"

definition refers_to :: "string \<Rightarrow> string \<Rightarrow> string option \<Rightarrow> column_def \<Rightarrow> column_def" where
  "refers_to t k act c = c\<lparr>cd_references := Some (t, k, act)\<rparr>"

lemmas column_defs = sa_column_def key_column_def not_null_def only_once_def defaults_to_def refers_to_def

datatype table_rule =
    Primary_Rule string "string list"
  | Unique_Rule string "string list"
  | Check_Rule string string
  | Foreign_Rule string "string list" string "string list"

fun rule_name :: "table_rule \<Rightarrow> string" where
  "rule_name (Primary_Rule n _) = n"
| "rule_name (Unique_Rule n _) = n"
| "rule_name (Check_Rule n _) = n"
| "rule_name (Foreign_Rule n _ _ _) = n"

text \<open>
  The statements of the scripts. The boolean of \<open>Create_Type\<close> and \<open>Drop_Type\<close> is \<open>checkfirst\<close> (or the
  \<open>IF [NOT] EXISTS\<close> of the statement); \<open>Set_Where t c v vs\<close> is
  \<open>UPDATE t SET c = v WHERE c IN vs\<close>; \<open>Update_Rows t f\<close> gives \<open>t\<close> the rows \<open>f\<close> computes from those of all
  tables.
\<close>

datatype ddl =
    Create_Table string "column_def list" "table_rule list"
  | Drop_Table string
  | Add_Column string column_def
  | Drop_Column string string
  | Rename_Table string string
  | Rename_Column string string string
  | Create_Index string string "string list" "string option"
  | Drop_Index bool string
  | Add_Foreign_Key string string string "string list" "string list"
  | Drop_Constraint string string
  | Create_Type bool string "string list"
  | Drop_Type bool string
  | Rename_Type string string
  | Add_Value string string
  | Cast_Column string string string
  | Set_Where string string string "string list"
  | Insert_Row string "string dict"
  | Update_Rows string "(string \<Rightarrow> string dict list) \<Rightarrow> string dict list"

text \<open>The columns whose type a statement may change.\<close>

fun touches :: "ddl \<Rightarrow> string \<Rightarrow> string \<Rightarrow> bool" where
  "touches (Create_Table t' _ _) t c = (t' = t)"
| "touches (Drop_Table t') t c = (t' = t)"
| "touches (Add_Column t' cd) t c = (t' = t \<and> cd_name cd = c)"
| "touches (Drop_Column t' c') t c = (t' = t \<and> c' = c)"
| "touches (Rename_Table a b) t c = (a = t \<or> b = t)"
| "touches (Rename_Column t' a b) t c = (t' = t \<and> (a = c \<or> b = c))"
| "touches (Cast_Column t' c' _) t c = (t' = t \<and> c' = c)"
| "touches (Rename_Type _ _) t c = True"
| "touches _ t c = False"

text \<open>The drops that take a creation back, and the enumeration type a statement makes.\<close>

fun undoing :: "ddl \<Rightarrow> ddl list" where
  "undoing (Create_Table t _ _) = [Drop_Table t]"
| "undoing (Add_Column t cd) = [Drop_Column t (cd_name cd)]"
| "undoing (Create_Index n _ _ _) = [Drop_Index False n, Drop_Index True n]"
| "undoing (Add_Foreign_Key n t _ _ _) = [Drop_Constraint n t]"
| "undoing (Create_Type _ n _) = [Drop_Type False n, Drop_Type True n]"
| "undoing _ = []"

abbreviation undoes :: "ddl \<Rightarrow> ddl \<Rightarrow> bool" where
  "undoes d u \<equiv> u \<in> set (undoing d)"

fun made_types :: "ddl \<Rightarrow> string list" where
  "made_types (Create_Type _ n _) = [n]"
| "made_types (Rename_Type _ b) = [b]"
| "made_types _ = []"

text \<open>A script is run statement by statement; the first refusal ends it.\<close>

fun run_script :: "(ddl \<Rightarrow> 's \<Rightarrow> 's option) \<Rightarrow> ddl list \<Rightarrow> 's \<Rightarrow> 's option" where
  "run_script ex [] s = Some s"
| "run_script ex (d # ds) s = (case ex d s of None \<Rightarrow> None | Some s' \<Rightarrow> run_script ex ds s')"

lemma run_script_append:
  "run_script ex (ds @ es) s = (case run_script ex ds s of None \<Rightarrow> None | Some s' \<Rightarrow> run_script ex es s')"
  by (induction ds arbitrary: s) (auto split: option.splits)

section \<open>What the scripts rely on\<close>

text \<open>
  \<open>good\<close> is the state of a database that only such statements have changed; \<open>column_type\<close> reads the catalogue
  of columns and \<open>has_type\<close> that of enumeration types.
\<close>

locale schema_engine =
  fixes ex :: "ddl \<Rightarrow> 's \<Rightarrow> 's option" and good :: "'s \<Rightarrow> bool"
    and column_type :: "'s \<Rightarrow> string \<Rightarrow> string \<Rightarrow> col_type option"
    and has_type :: "'s \<Rightarrow> string \<Rightarrow> bool"
  assumes stays_good: "good s \<Longrightarrow> ex d s = Some s' \<Longrightarrow> good s'"
    and used_is_there: "good s \<Longrightarrow> column_type s t c = Some (Enum_T ty) \<Longrightarrow> has_type s ty"
    and existing_type_is_kept: "good s \<Longrightarrow> has_type s ty \<Longrightarrow> ex (Create_Type True ty vs) s = Some s"
    and used_type_is_not_dropped:
      "good s \<Longrightarrow> column_type s t c = Some (Enum_T ty) \<Longrightarrow> ex (Drop_Type b ty) s = None"
    and untouched: "good s \<Longrightarrow> ex d s = Some s' \<Longrightarrow> \<not> touches d t c
      \<Longrightarrow> column_type s' t c = column_type s t c"
    and created: "good s \<Longrightarrow> ex (Create_Table t cs rs) s = Some s' \<Longrightarrow> cd \<in> set cs
      \<Longrightarrow> column_type s' t (cd_name cd) = Some (cd_type cd)"
    and recast: "good s \<Longrightarrow> ex (Cast_Column t c ty) s = Some s' \<Longrightarrow> column_type s' t c = Some (Enum_T ty)"
    and made: "good s \<Longrightarrow> ex d s = Some s' \<Longrightarrow> has_type s' ty \<Longrightarrow> has_type s ty \<or> ty \<in> set (made_types d)"
    and undone: "good s \<Longrightarrow> undoes d u \<Longrightarrow> list_all (\<lambda>ty. \<not> has_type s ty) (made_types d)
      \<Longrightarrow> ex d s = Some s' \<Longrightarrow> ex u s' = Some s"
begin

lemma run_stays_good: "good s \<Longrightarrow> run_script ex ds s = Some s' \<Longrightarrow> good s'"
  by (induction ds arbitrary: s) (auto split: option.splits intro: stays_good)

lemma run_untouched:
  "good s \<Longrightarrow> run_script ex ds s = Some s' \<Longrightarrow> list_all (\<lambda>d. \<not> touches d t c) ds
    \<Longrightarrow> column_type s' t c = column_type s t c"
proof (induction ds arbitrary: s)
  case (Cons d ds)
  from Cons.prems(2) obtain s1 where s1: "ex d s = Some s1" "run_script ex ds s1 = Some s'"
    by (auto split: option.splits)
  from Cons.IH [OF stays_good [OF Cons.prems(1) s1(1)] s1(2)] Cons.prems(3)
    untouched [OF Cons.prems(1) s1(1), of t c]
  show ?case by simp
qed simp

text \<open>A run of a script of creations is taken back by the drops in reverse, if the types it makes are new.\<close>

lemma script_undone:
  "good s \<Longrightarrow> list_all2 undoes ds us \<Longrightarrow> distinct (concat (map made_types ds))
    \<Longrightarrow> list_all (\<lambda>ty. \<not> has_type s ty) (concat (map made_types ds))
    \<Longrightarrow> run_script ex ds s = Some s' \<Longrightarrow> run_script ex (rev us) s' = Some s"
proof (induction ds arbitrary: s us)
  case (Cons d ds)
  from Cons.prems(2) obtain u vs where u: "us = u # vs" "undoes d u" "list_all2 undoes ds vs"
    by (auto simp: list_all2_Cons1)
  from Cons.prems(5) obtain s1 where s1: "ex d s = Some s1" "run_script ex ds s1 = Some s'"
    by (auto split: option.splits)
  have "list_all (\<lambda>ty. \<not> has_type s1 ty) (concat (map made_types ds))"
    using Cons.prems(3,4) made [OF Cons.prems(1) s1(1)] by (fastforce simp: list_all_iff)
  with Cons.IH [OF stays_good [OF Cons.prems(1) s1(1)] u(3) _ _ s1(2)] Cons.prems(3)
  have "run_script ex (rev vs) s' = Some s1" by simp
  moreover have "ex u s1 = Some s"
    using undone [OF Cons.prems(1) u(2) _ s1(1)] Cons.prems(4) by simp
  ultimately show ?case by (simp add: u(1) run_script_append)
qed simp

text \<open>
  Making a type anew under the name it has (\<open>create\<close> with \<open>checkfirst\<close>, the cast of the column, the drop of
  the old type) never succeeds: the creation is skipped, so the type that is dropped is the one in use.
\<close>

lemma swap_under_the_same_name_fails:
  assumes "good s" "column_type s t c = Some (Enum_T ty)"
  shows "run_script ex (Create_Type True ty vs # Cast_Column t c ty # Drop_Type False ty # ds) s = None"
proof (cases "ex (Cast_Column t c ty) s")
  case None
  with assms show ?thesis by (simp add: existing_type_is_kept [OF assms(1) used_is_there])
next
  case (Some s')
  have "ex (Drop_Type False ty) s' = None"
    using used_type_is_not_dropped [OF stays_good [OF assms(1) Some] recast [OF assms(1) Some]] .
  with Some assms show ?thesis by (simp add: existing_type_is_kept [OF assms(1) used_is_there])
qed

text \<open>So a script that comes to such a swap without touching the column before fails as a whole.\<close>

lemma script_with_swap_fails:
  assumes "good s" "column_type s t c = Some (Enum_T ty)" "list_all (\<lambda>d. \<not> touches d t c) ds"
  shows "run_script ex (ds @ Create_Type True ty vs # Cast_Column t c ty # Drop_Type False ty # es) s = None"
proof (cases "run_script ex ds s")
  case (Some s')
  have "column_type s' t c = Some (Enum_T ty)"
    using run_untouched [OF assms(1) Some assms(3)] assms(2) by simp
  from swap_under_the_same_name_fails [OF run_stays_good [OF assms(1) Some] this] Some
  show ?thesis by (simp add: run_script_append)
qed (simp add: run_script_append)

end

section \<open>A catalogue that obeys them\<close>

text \<open>
  Tables with their columns, rules and rows (the text of the values that are not null), the indexes and the
  labels of the enumeration types.
\<close>

record relation =
  rl_columns :: "column_def list"
  rl_rules :: "table_rule list"
  rl_rows :: "string dict list"

record index_def =
  ix_table :: string
  ix_columns :: "string list"
  ix_method :: "string option"

record catalog =
  ct_relations :: "relation dict"
  ct_indexes :: "index_def dict"
  ct_types :: "string list dict"

definition empty_catalog :: catalog where
  "empty_catalog = \<lparr>ct_relations = [], ct_indexes = [], ct_types = []\<rparr>"

definition column_names :: "relation \<Rightarrow> string list" where
  "column_names r = map cd_name (rl_columns r)"

definition column_known :: "catalog \<Rightarrow> string \<times> string \<Rightarrow> bool" where
  "column_known s = (\<lambda>(t, c).
     case map_of (ct_relations s) t of None \<Rightarrow> False | Some r \<Rightarrow> c \<in> set (column_names r))"

definition catalog_type :: "catalog \<Rightarrow> string \<Rightarrow> string \<Rightarrow> col_type option" where
  "catalog_type s t c =
     (case map_of (ct_relations s) t of
        None \<Rightarrow> None
      | Some r \<Rightarrow> map_option cd_type (find (\<lambda>cd. cd_name cd = c) (rl_columns r)))"

definition catalog_has_type :: "catalog \<Rightarrow> string \<Rightarrow> bool" where
  "catalog_has_type s n = (map_of (ct_types s) n \<noteq> None)"

text \<open>A text is accepted by a column of an enumeration type when it is one of its labels.\<close>

fun label_ok :: "catalog \<Rightarrow> col_type \<Rightarrow> string \<Rightarrow> bool" where
  "label_ok s (Enum_T n) v = (case map_of (ct_types s) n of None \<Rightarrow> False | Some vs \<Rightarrow> v \<in> set vs)"
| "label_ok s _ v = True"

text \<open>
  The integrity a database never gives up: names are distinct; the type of a column, the target of a reference
  and the columns of a rule or an index exist; a default and a value of an enumeration column are labels of
  its type.
\<close>

definition reference_ok :: "catalog \<Rightarrow> column_def \<Rightarrow> bool" where
  "reference_ok s cd = (case cd_references cd of None \<Rightarrow> True | Some (t, k, _) \<Rightarrow> column_known s (t, k))"

definition column_ok :: "catalog \<Rightarrow> column_def \<Rightarrow> bool" where
  "column_ok s cd =
     ((case cd_type cd of Enum_T n \<Rightarrow> catalog_has_type s n | _ \<Rightarrow> True)
      \<and> (case cd_default cd of None \<Rightarrow> True | Some v \<Rightarrow> label_ok s (cd_type cd) v)
      \<and> reference_ok s cd)"

fun rule_ok :: "catalog \<Rightarrow> relation \<Rightarrow> table_rule \<Rightarrow> bool" where
  "rule_ok s r (Primary_Rule _ cs) = (set cs \<subseteq> set (column_names r))"
| "rule_ok s r (Unique_Rule _ cs) = (set cs \<subseteq> set (column_names r))"
| "rule_ok s r (Check_Rule _ _) = True"
| "rule_ok s r (Foreign_Rule _ cs t ks) =
     (set cs \<subseteq> set (column_names r) \<and> list_all (\<lambda>k. column_known s (t, k)) ks)"

definition stored_row_ok :: "catalog \<Rightarrow> relation \<Rightarrow> string dict \<Rightarrow> bool" where
  "stored_row_ok s r row \<longleftrightarrow>
     list_all (\<lambda>(c, v). case find (\<lambda>cd. cd_name cd = c) (rl_columns r) of
        None \<Rightarrow> False | Some cd \<Rightarrow> label_ok s (cd_type cd) v) row
     \<and> list_all (\<lambda>cd. cd_nullable cd \<or> cd_name cd \<in> set (map fst row)) (rl_columns r)"

definition relation_ok :: "catalog \<Rightarrow> relation \<Rightarrow> bool" where
  "relation_ok s r \<longleftrightarrow>
     distinct (column_names r) \<and> distinct (map rule_name (rl_rules r)) \<and> list_all (column_ok s) (rl_columns r)
     \<and> list_all (rule_ok s r) (rl_rules r) \<and> list_all (stored_row_ok s r) (rl_rows r)"

definition catalog_good :: "catalog \<Rightarrow> bool" where
  "catalog_good s \<longleftrightarrow>
     distinct (map fst (ct_relations s)) \<and> distinct (map fst (ct_indexes s)) \<and> distinct (map fst (ct_types s))
     \<and> list_all (\<lambda>(_, r). relation_ok s r) (ct_relations s)
     \<and> list_all (\<lambda>(_, ix). map_of (ct_relations s) (ix_table ix) \<noteq> None
          \<and> list_all (\<lambda>c. column_known s (ix_table ix, c)) (ix_columns ix)) (ct_indexes s)"

subsection \<open>Statements on the catalogue\<close>

definition on_relation :: "string \<Rightarrow> (relation \<Rightarrow> relation) \<Rightarrow> catalog \<Rightarrow> catalog" where
  "on_relation t f s = s\<lparr>ct_relations := AList.map_entry t f (ct_relations s)\<rparr>"

definition add_to_relation :: "column_def \<Rightarrow> relation \<Rightarrow> relation" where
  "add_to_relation cd r = r\<lparr>rl_columns := rl_columns r @ [cd],
     rl_rows := map (\<lambda>row. case cd_default cd of None \<Rightarrow> row | Some v \<Rightarrow> row @ [(cd_name cd, v)]) (rl_rows r)\<rparr>"

fun rule_columns :: "table_rule \<Rightarrow> string list" where
  "rule_columns (Primary_Rule _ cs) = cs"
| "rule_columns (Unique_Rule _ cs) = cs"
| "rule_columns (Check_Rule _ _) = []"
| "rule_columns (Foreign_Rule _ cs _ _) = cs"

text \<open>A column goes with its values, and with the rules and indexes on it.\<close>

definition drop_from_relation :: "string \<Rightarrow> relation \<Rightarrow> relation" where
  "drop_from_relation c r = r\<lparr>rl_columns := filter (\<lambda>cd. cd_name cd \<noteq> c) (rl_columns r),
     rl_rules := filter (\<lambda>x. c \<notin> set (rule_columns x)) (rl_rules r),
     rl_rows := map (filter (\<lambda>(c', _). c' \<noteq> c)) (rl_rows r)\<rparr>"

text \<open>
  Renaming runs through every place a name occurs: \<open>f\<close> renames tables, \<open>g\<close> the columns of a table and \<open>h\<close>
  enumeration types.
\<close>

definition renamed :: "string \<Rightarrow> string \<Rightarrow> string \<Rightarrow> string" where
  "renamed a b x = (if x = a then b else x)"

definition rename_column_def ::
  "(string \<Rightarrow> string) \<Rightarrow> (string \<Rightarrow> string \<Rightarrow> string) \<Rightarrow> (string \<Rightarrow> string) \<Rightarrow> string \<Rightarrow> column_def \<Rightarrow> column_def" where
  "rename_column_def f g h t cd = cd\<lparr>cd_name := g t (cd_name cd),
     cd_type := (case cd_type cd of Enum_T n \<Rightarrow> Enum_T (h n) | ty \<Rightarrow> ty),
     cd_references := map_option (\<lambda>(t', k, act). (f t', g t' k, act)) (cd_references cd)\<rparr>"

fun rename_rule ::
  "(string \<Rightarrow> string) \<Rightarrow> (string \<Rightarrow> string \<Rightarrow> string) \<Rightarrow> string \<Rightarrow> table_rule \<Rightarrow> table_rule" where
  "rename_rule f g t (Primary_Rule n cs) = Primary_Rule n (map (g t) cs)"
| "rename_rule f g t (Unique_Rule n cs) = Unique_Rule n (map (g t) cs)"
| "rename_rule f g t (Check_Rule n e) = Check_Rule n e"
| "rename_rule f g t (Foreign_Rule n cs t' ks) = Foreign_Rule n (map (g t) cs) (f t') (map (g t') ks)"

definition rename_all ::
  "(string \<Rightarrow> string) \<Rightarrow> (string \<Rightarrow> string \<Rightarrow> string) \<Rightarrow> (string \<Rightarrow> string) \<Rightarrow> catalog \<Rightarrow> catalog" where
  "rename_all f g h s =
     \<lparr>ct_relations = map (\<lambda>(t, r). (f t,
        \<lparr>rl_columns = map (rename_column_def f g h t) (rl_columns r),
         rl_rules = map (rename_rule f g t) (rl_rules r),
         rl_rows = map (map (\<lambda>(c, v). (g t c, v))) (rl_rows r)\<rparr>)) (ct_relations s),
      ct_indexes = map (\<lambda>(n, ix). (n, ix\<lparr>ix_table := f (ix_table ix),
        ix_columns := map (g (ix_table ix)) (ix_columns ix)\<rparr>)) (ct_indexes s),
      ct_types = map (\<lambda>(n, vs). (h n, vs)) (ct_types s)\<rparr>"

definition set_in_row :: "string \<Rightarrow> string \<Rightarrow> string list \<Rightarrow> string dict \<Rightarrow> string dict" where
  "set_in_row c v vs row = map (\<lambda>(c', w). if c' = c \<and> w \<in> set vs then (c', v) else (c', w)) row"

definition table_rows :: "catalog \<Rightarrow> string \<Rightarrow> string dict list" where
  "table_rows s t = (case map_of (ct_relations s) t of None \<Rightarrow> [] | Some r \<Rightarrow> rl_rows r)"

text \<open>A column an insertion does not name takes its default.\<close>

definition with_defaults :: "column_def list \<Rightarrow> string dict \<Rightarrow> string dict" where
  "with_defaults cds row = row @ concat (map (\<lambda>cd.
     case cd_default cd of
       None \<Rightarrow> []
     | Some v \<Rightarrow> if dict_has (cd_name cd) row then [] else [(cd_name cd, v)]) cds)"

text \<open>What a statement asks for; nothing when a name it needs is missing or one it makes is taken.\<close>

fun catalog_step :: "ddl \<Rightarrow> catalog \<Rightarrow> catalog option" where
  "catalog_step (Create_Table t cs rs) s =
     Some (s\<lparr>ct_relations := ct_relations s @ [(t, \<lparr>rl_columns = cs, rl_rules = rs, rl_rows = []\<rparr>)]\<rparr>)"
| "catalog_step (Drop_Table t) s =
     (if map_of (ct_relations s) t = None then None
      else Some (s\<lparr>ct_relations := AList.delete t (ct_relations s),
                   ct_indexes := filter (\<lambda>(_, ix). ix_table ix \<noteq> t) (ct_indexes s)\<rparr>))"
| "catalog_step (Add_Column t cd) s =
     (if map_of (ct_relations s) t = None then None else Some (on_relation t (add_to_relation cd) s))"
| "catalog_step (Drop_Column t c) s =
     (if column_known s (t, c)
      then Some ((on_relation t (drop_from_relation c) s)
             \<lparr>ct_indexes := filter (\<lambda>(_, ix). \<not> (ix_table ix = t \<and> c \<in> set (ix_columns ix))) (ct_indexes s)\<rparr>)
      else None)"
| "catalog_step (Rename_Table a b) s =
     (if map_of (ct_relations s) a = None then None else Some (rename_all (renamed a b) (\<lambda>_. id) id s))"
| "catalog_step (Rename_Column t a b) s =
     (if column_known s (t, a) then Some (rename_all id (\<lambda>t'. if t' = t then renamed a b else id) id s)
      else None)"
| "catalog_step (Create_Index n t cs m) s =
     Some (s\<lparr>ct_indexes := ct_indexes s @ [(n, \<lparr>ix_table = t, ix_columns = cs, ix_method = m\<rparr>)]\<rparr>)"
| "catalog_step (Drop_Index b n) s =
     (if map_of (ct_indexes s) n = None then (if b then Some s else None)
      else Some (s\<lparr>ct_indexes := AList.delete n (ct_indexes s)\<rparr>))"
| "catalog_step (Add_Foreign_Key n t t' cs ks) s =
     (if map_of (ct_relations s) t = None then None
      else Some (on_relation t (\<lambda>r. r\<lparr>rl_rules := rl_rules r @ [Foreign_Rule n cs t' ks]\<rparr>) s))"
| "catalog_step (Drop_Constraint n t) s =
     (case map_of (ct_relations s) t of
        None \<Rightarrow> None
      | Some r \<Rightarrow>
          if n \<in> set (map rule_name (rl_rules r))
          then Some (on_relation t (\<lambda>r. r\<lparr>rl_rules := filter (\<lambda>x. rule_name x \<noteq> n) (rl_rules r)\<rparr>) s)
          else None)"
| "catalog_step (Create_Type b n vs) s =
     (if b \<and> catalog_has_type s n then Some s else Some (s\<lparr>ct_types := ct_types s @ [(n, vs)]\<rparr>))"
| "catalog_step (Drop_Type b n) s =
     (if catalog_has_type s n then Some (s\<lparr>ct_types := AList.delete n (ct_types s)\<rparr>)
      else if b then Some s else None)"
| "catalog_step (Rename_Type a b) s =
     (if catalog_has_type s a then Some (rename_all id (\<lambda>_. id) (renamed a b) s) else None)"
| "catalog_step (Add_Value n v) s =
     (if catalog_has_type s n
      then Some (s\<lparr>ct_types := AList.map_entry n (\<lambda>vs. if v \<in> set vs then vs else vs @ [v]) (ct_types s)\<rparr>)
      else None)"
| "catalog_step (Cast_Column t c n) s =
     (if column_known s (t, c)
      then Some (on_relation t (\<lambda>r. r\<lparr>rl_columns :=
             map (\<lambda>cd. if cd_name cd = c then cd\<lparr>cd_type := Enum_T n\<rparr> else cd) (rl_columns r)\<rparr>) s)
      else None)"
| "catalog_step (Set_Where t c v vs) s =
     (case catalog_type s t c of
        None \<Rightarrow> None
      | Some ty \<Rightarrow>
          if list_all (label_ok s ty) (v # vs)
          then Some (on_relation t (\<lambda>r. r\<lparr>rl_rows := map (set_in_row c v vs) (rl_rows r)\<rparr>) s)
          else None)"
| "catalog_step (Insert_Row t row) s =
     (if map_of (ct_relations s) t = None then None
      else Some (on_relation t (\<lambda>r. r\<lparr>rl_rows := rl_rows r @ [with_defaults (rl_columns r) row]\<rparr>) s))"
| "catalog_step (Update_Rows t f) s =
     (if map_of (ct_relations s) t = None then None
      else Some (on_relation t (\<lambda>r. r\<lparr>rl_rows := f (table_rows s)\<rparr>) s))"

text \<open>A statement that would break the integrity is refused.\<close>

definition catalog_exec :: "ddl \<Rightarrow> catalog \<Rightarrow> catalog option" where
  "catalog_exec d s =
     (case catalog_step d s of None \<Rightarrow> None | Some s' \<Rightarrow> if catalog_good s' then Some s' else None)"


section \<open>The catalogue obeys the laws\<close>

lemma keys_map_entry [simp]: "map fst (AList.map_entry k f xs) = map fst xs"
  by (induction xs) auto

lemma map_entry_undo: "(\<And>v. map_of xs k = Some v \<Longrightarrow> f (g v) = v)
  \<Longrightarrow> AList.map_entry k f (AList.map_entry k g xs) = xs"
  by (induction xs) (auto split: if_splits)

lemma delete_appended: "distinct (map fst (xs @ [(k, v)])) \<Longrightarrow> AList.delete k (xs @ [(k, v)]) = xs"
  by (force simp: AList.delete_eq filter_id_conv)

lemma step_of_exec:
  "catalog_exec d s = Some s' \<longleftrightarrow> catalog_step d s = Some s' \<and> catalog_good s'"
  by (auto simp: catalog_exec_def split: option.splits)

lemma good_distinct: "catalog_good s \<Longrightarrow> distinct (map fst (ct_relations s))"
  "catalog_good s \<Longrightarrow> distinct (map fst (ct_indexes s))" "catalog_good s \<Longrightarrow> distinct (map fst (ct_types s))"
  by (simp_all add: catalog_good_def)

lemma good_relation: "catalog_good s \<Longrightarrow> map_of (ct_relations s) t = Some r \<Longrightarrow> relation_ok s r"
  by (auto simp: catalog_good_def list_all_iff dest: map_of_SomeD)

lemma good_index:
  "catalog_good s \<Longrightarrow> (n, ix) \<in> set (ct_indexes s) \<Longrightarrow> c \<in> set (ix_columns ix) \<Longrightarrow> column_known s (ix_table ix, c)"
  by (auto simp: catalog_good_def list_all_iff)

lemma catalog_type_known:
  assumes "catalog_good s" "catalog_type s t c = Some (Enum_T n)"
  shows "catalog_has_type s n"
proof -
  from assms(2) obtain r cd where r: "map_of (ct_relations s) t = Some r"
    and cd: "find (\<lambda>cd. cd_name cd = c) (rl_columns r) = Some cd" "cd_type cd = Enum_T n"
    by (auto simp: catalog_type_def split: option.splits)
  from cd(1) have "cd \<in> set (rl_columns r)" by (auto simp: find_Some_iff)
  with good_relation [OF assms(1) r] cd(2) show ?thesis
    by (fastforce simp: relation_ok_def list_all_iff column_ok_def)
qed

lemma type_after_map_entry:
  assumes "\<And>r. map_option cd_type (find (\<lambda>cd. cd_name cd = c) (rl_columns (f r)))
     = map_option cd_type (find (\<lambda>cd. cd_name cd = c) (rl_columns r))"
  shows "catalog_type (on_relation t' f s) t c = catalog_type s t c"
  using assms by (auto simp: catalog_type_def on_relation_def map_of_map_entry split: option.split)

lemma type_after_other: "t \<noteq> t' \<Longrightarrow> catalog_type (on_relation t' f s) t c = catalog_type s t c"
  by (simp add: catalog_type_def on_relation_def map_of_map_entry)

lemma map_of_renamed_key:
  "t \<noteq> a \<Longrightarrow> t \<noteq> b \<Longrightarrow> map_of (map (\<lambda>(x, y). (renamed a b x, F x y)) xs) t = map_option (F t) (map_of xs t)"
  by (induction xs) (auto simp: renamed_def)

lemma find_renamed:
  assumes "\<And>x. g x = c \<longleftrightarrow> x = c" "\<And>cd. cd_type (k cd) = cd_type cd" "\<And>cd. cd_name (k cd) = g (cd_name cd)"
  shows "map_option cd_type (find (\<lambda>cd. cd_name cd = c) (map k cs))
    = map_option cd_type (find (\<lambda>cd. cd_name cd = c) cs)"
  using assms by (induction cs) auto


lemma map_of_append_other: "t \<noteq> k \<Longrightarrow> map_of (xs @ [(k, v)]) t = map_of xs t"
  by (simp add: map_add_def split: option.split)

lemma map_of_snoc_new: "k \<notin> fst ` set xs \<Longrightarrow> map_of (xs @ [(k, v)]) k = Some v"
  by (induction xs) auto

lemma find_filter_other:
  "c \<noteq> c' \<Longrightarrow> find (\<lambda>cd. cd_name cd = c) (filter (\<lambda>cd. cd_name cd \<noteq> c') cs) = find (\<lambda>cd. cd_name cd = c) cs"
  by (induction cs) auto

lemma type_after_renames:
  assumes "\<And>x. f x = t \<longleftrightarrow> x = t" "\<And>x. g t x = c \<longleftrightarrow> x = c"
  shows "catalog_type (rename_all f g id s) t c = catalog_type s t c"
proof -
  have 1: "map_of (map (\<lambda>(x, y). (f x, F x y)) xs) t = map_option (F t) (map_of xs t)" for F :: "string \<Rightarrow> 'x \<Rightarrow> 'y" and xs
  proof (induction xs)
    case (Cons p xs)
    obtain x y where p: "p = (x, y)" by (cases p)
    show ?case using Cons.IH assms(1) [of x] by (cases "x = t") (simp_all add: p)
  qed simp
  have 2: "map_option cd_type (find (\<lambda>cd. cd_name cd = c) (map (rename_column_def f g id t) cs))
    = map_option cd_type (find (\<lambda>cd. cd_name cd = c) cs)" for cs
  proof (rule find_renamed [where g = "g t"])
    show "cd_type (rename_column_def f g id t cd) = cd_type cd" for cd
      unfolding rename_column_def_def by (cases "cd_type cd") simp_all
    show "cd_name (rename_column_def f g id t cd) = g t (cd_name cd)" for cd
      unfolding rename_column_def_def by simp
    show "g t x = c \<longleftrightarrow> x = c" for x by (rule assms(2))
  qed
  show ?thesis
    by (cases "map_of (ct_relations s) t") (simp_all add: catalog_type_def rename_all_def 1 2)
qed

lemma find_snoc_other: "cd_name cd \<noteq> c \<Longrightarrow> find (\<lambda>cd. cd_name cd = c) (cs @ [cd]) = find (\<lambda>cd. cd_name cd = c) cs"
  by (induction cs) auto

lemma step_untouched:
  assumes "catalog_step d s = Some s'" "\<not> touches d t c"
  shows "catalog_type s' t c = catalog_type s t c"
proof (cases d)
  case (Create_Table t' cs rs)
  with assms show ?thesis by (auto simp: catalog_type_def map_of_append_other simp del: map_of_append)
next
  case (Drop_Table t')
  with assms show ?thesis by (auto simp: catalog_type_def delete_conv split: if_splits)
next
  case (Add_Column t' cd)
  with assms have "t \<noteq> t' \<or> cd_name cd \<noteq> c" "s' = on_relation t' (add_to_relation cd) s"
    by (auto split: if_splits)
  then show ?thesis
    by (auto simp: type_after_other add_to_relation_def find_snoc_other intro: type_after_map_entry)
next
  case (Drop_Column t' c')
  with assms have "t \<noteq> t' \<or> c \<noteq> c'" and
    s': "catalog_type s' t c = catalog_type (on_relation t' (drop_from_relation c') s) t c"
    by (auto simp: catalog_type_def split: if_splits)
  from this(1) show ?thesis
    unfolding s'
    by (auto simp: type_after_other drop_from_relation_def find_filter_other intro: type_after_map_entry)
next
  case (Rename_Table a b)
  with assms have n: "t \<noteq> a" "t \<noteq> b" and s': "s' = rename_all (renamed a b) (\<lambda>_. id) id s"
    by (auto split: if_splits)
  show ?thesis unfolding s' by (rule type_after_renames) (use n in \<open>auto simp: renamed_def\<close>)
next
  case (Rename_Column t' a b)
  with assms have n: "t = t' \<Longrightarrow> c \<noteq> a \<and> c \<noteq> b"
    and s': "s' = rename_all id (\<lambda>x. if x = t' then renamed a b else id) id s"
    by (auto split: if_splits)
  show ?thesis unfolding s' by (rule type_after_renames) (use n in \<open>auto simp: renamed_def\<close>)
next
  case (Add_Foreign_Key n t' u cs ks)
  with assms show ?thesis by (auto intro!: type_after_map_entry split: if_splits)
next
  case (Drop_Constraint n t')
  with assms show ?thesis by (auto intro!: type_after_map_entry split: if_splits option.splits)
next
  case (Cast_Column t' c' n)
  with assms have n: "t \<noteq> t' \<or> c \<noteq> c'" and
    s': "s' = on_relation t' (\<lambda>r. r\<lparr>rl_columns :=
             map (\<lambda>cd. if cd_name cd = c' then cd\<lparr>cd_type := Enum_T n\<rparr> else cd) (rl_columns r)\<rparr>) s"
    by (auto split: if_splits)
  have "c \<noteq> c' \<Longrightarrow> map_option cd_type (find (\<lambda>cd. cd_name cd = c)
       (map (\<lambda>cd. if cd_name cd = c' then cd\<lparr>cd_type := Enum_T n\<rparr> else cd) cs))
     = map_option cd_type (find (\<lambda>cd. cd_name cd = c) cs)" for cs
    by (induction cs) auto
  then have "catalog_type s' t c = catalog_type s t c" if "t = t'"
    unfolding s' by (intro type_after_map_entry) (use n that in simp)
  then show ?thesis by (cases "t = t'") (simp_all add: s' type_after_other)
next
  case (Set_Where t' c' v vs)
  with assms show ?thesis by (auto intro!: type_after_map_entry split: if_splits option.splits)
next
  case (Rename_Type a b)
  with assms show ?thesis by simp
next
  case (Insert_Row t' row)
  with assms show ?thesis by (auto intro!: type_after_map_entry split: if_splits)
next
  case (Update_Rows t' f)
  with assms show ?thesis by (auto intro!: type_after_map_entry split: if_splits)
qed (use assms in \<open>auto simp: catalog_type_def split: if_splits\<close>)

lemma find_in_distinct:
  "distinct (map cd_name cs) \<Longrightarrow> cd \<in> set cs \<Longrightarrow> find (\<lambda>x. cd_name x = cd_name cd) cs = Some cd"
  by (induction cs) auto

lemma step_created:
  assumes "catalog_step (Create_Table t cs rs) s = Some s'" "catalog_good s'" "cd \<in> set cs"
  shows "catalog_type s' t (cd_name cd) = Some (cd_type cd)"
proof -
  let ?r = "\<lparr>rl_columns = cs, rl_rules = rs, rl_rows = []\<rparr>"
  from assms(1) have s': "s' = s\<lparr>ct_relations := ct_relations s @ [(t, ?r)]\<rparr>" by simp
  then have m: "map_of (ct_relations s') t = Some ?r"
    using good_distinct(1) [OF assms(2)] by (simp add: map_of_snoc_new del: map_of_append)
  from good_relation [OF assms(2) m] have "distinct (map cd_name cs)" by (simp add: relation_ok_def column_names_def)
  from find_in_distinct [OF this assms(3)] m show ?thesis by (simp add: catalog_type_def)
qed

lemma step_recast:
  assumes "catalog_step (Cast_Column t c n) s = Some s'"
  shows "catalog_type s' t c = Some (Enum_T n)"
proof -
  let ?f = "map (\<lambda>cd. if cd_name cd = c then cd\<lparr>cd_type := Enum_T n\<rparr> else cd)"
  from assms obtain r where r: "map_of (ct_relations s) t = Some r" "c \<in> set (column_names r)"
    and s': "s' = on_relation t (\<lambda>r. r\<lparr>rl_columns := ?f (rl_columns r)\<rparr>) s"
    by (auto simp: column_known_def split: if_splits option.splits)
  have "c \<in> set (map cd_name cs) \<Longrightarrow> map_option cd_type (find (\<lambda>cd. cd_name cd = c) (?f cs)) = Some (Enum_T n)" for cs
    by (induction cs) auto
  with r show ?thesis by (simp add: s' catalog_type_def on_relation_def map_of_map_entry column_names_def)
qed

lemma step_used_type:
  assumes "catalog_good s" "catalog_type s t c = Some (Enum_T n)"
  shows "catalog_exec (Drop_Type b n) s = None"
proof (rule ccontr)
  assume "catalog_exec (Drop_Type b n) s \<noteq> None"
  then obtain s' where s': "catalog_step (Drop_Type b n) s = Some s'" "catalog_good s'"
    by (auto simp: catalog_exec_def split: option.splits if_splits)
  from s'(1) catalog_type_known [OF assms] have e: "s' = s\<lparr>ct_types := AList.delete n (ct_types s)\<rparr>" by simp
  then have "catalog_type s' t c = Some (Enum_T n)" using assms(2) by (simp add: catalog_type_def)
  from catalog_type_known [OF s'(2) this] e show False by (simp add: catalog_has_type_def delete_conv)
qed


lemma undo_add_to_relation:
  assumes "relation_ok s r" "relation_ok s' (add_to_relation cd r)"
  shows "drop_from_relation (cd_name cd) (add_to_relation cd r) = r"
proof -
  from assms(2) have n: "cd_name cd \<notin> set (column_names r)"
    by (auto simp: relation_ok_def add_to_relation_def column_names_def)
  then have 1: "filter (\<lambda>x. cd_name x \<noteq> cd_name cd) (rl_columns r) = rl_columns r"
    by (auto simp: filter_id_conv column_names_def image_iff)
  have "cd_name cd \<notin> set (rule_columns x)" if "x \<in> set (rl_rules r)" for x
  proof -
    from assms(1) that have "rule_ok s r x" by (simp add: relation_ok_def list_all_iff)
    with n show ?thesis by (cases x) auto
  qed
  then have 2: "filter (\<lambda>x. cd_name cd \<notin> set (rule_columns x)) (rl_rules r) = rl_rules r"
    by (auto simp: filter_id_conv)
  have "c \<noteq> cd_name cd" if "row \<in> set (rl_rows r)" "(c, v) \<in> set row" for row c v
  proof -
    from assms(1) that obtain x where "find (\<lambda>x. cd_name x = c) (rl_columns r) = Some x"
      by (fastforce simp: relation_ok_def list_all_iff stored_row_ok_def split: option.splits)
    then have "x \<in> set (rl_columns r)" "cd_name x = c" by (auto simp: find_Some_iff)
    then show ?thesis using n unfolding column_names_def by (metis image_eqI list.set_map)
  qed
  then have 3: "filter (\<lambda>(c', _). c' \<noteq> cd_name cd) row = row" if "row \<in> set (rl_rows r)" for row
    using that by (auto simp: filter_id_conv)
  have "map (filter (\<lambda>(c', _). c' \<noteq> cd_name cd) \<circ>
      (\<lambda>row. case cd_default cd of None \<Rightarrow> row | Some v \<Rightarrow> row @ [(cd_name cd, v)])) (rl_rows r) = rl_rows r"
    by (rule map_idI) (simp add: 3 split: option.split)
  then show ?thesis by (simp add: drop_from_relation_def add_to_relation_def 1 2)
qed

lemma good_index_table:
  "catalog_good s \<Longrightarrow> (n, ix) \<in> set (ct_indexes s) \<Longrightarrow> map_of (ct_relations s) (ix_table ix) \<noteq> None"
  by (auto simp: catalog_good_def list_all_iff)

lemma undone_table:
  assumes "catalog_good s" "catalog_step (Create_Table t cs rs) s = Some s'" "catalog_good s'"
  shows "catalog_step (Drop_Table t) s' = Some s"
proof -
  from assms(2) have s': "s' = s\<lparr>ct_relations := ct_relations s @ [(t, \<lparr>rl_columns = cs, rl_rules = rs, rl_rows = []\<rparr>)]\<rparr>"
    by simp
  from good_distinct(1) [OF assms(3)] have n: "t \<notin> fst ` set (ct_relations s)" by (simp add: s')
  then have "ix_table ix \<noteq> t" if "(n, ix) \<in> set (ct_indexes s)" for n ix
    using good_index_table [OF assms(1) that] by (auto simp: map_of_eq_None_iff)
  then have "filter (\<lambda>(_, ix). ix_table ix \<noteq> t) (ct_indexes s) = ct_indexes s"
    by (auto simp: filter_id_conv)
  moreover have "AList.delete t (ct_relations s') = ct_relations s"
    using good_distinct(1) [OF assms(3)] by (simp add: s' delete_appended)
  ultimately show ?thesis using n by (auto simp: s' map_of_snoc_new simp del: map_of_append)
qed

lemma undone_column:
  assumes "catalog_good s" "catalog_step (Add_Column t cd) s = Some s'" "catalog_good s'"
  shows "catalog_step (Drop_Column t (cd_name cd)) s' = Some s"
proof -
  from assms(2) obtain r where r: "map_of (ct_relations s) t = Some r" and s': "s' = on_relation t (add_to_relation cd) s"
    by (auto split: if_splits)
  have r': "map_of (ct_relations s') t = Some (add_to_relation cd r)"
    by (simp add: s' on_relation_def map_of_map_entry r)
  note ok = good_relation [OF assms(1) r] good_relation [OF assms(3) r']
  have n: "cd_name cd \<notin> set (column_names r)"
    using ok(2) by (auto simp: relation_ok_def add_to_relation_def column_names_def)
  have "\<not> (ix_table ix = t \<and> cd_name cd \<in> set (ix_columns ix))" if "(i, ix) \<in> set (ct_indexes s)" for i ix
    using good_index [OF assms(1) that] n r by (auto simp: column_known_def)
  then have i: "filter (\<lambda>(_, ix). \<not> (ix_table ix = t \<and> cd_name cd \<in> set (ix_columns ix))) (ct_indexes s) = ct_indexes s"
    by (auto simp: filter_id_conv)
  have m: "AList.map_entry t (drop_from_relation (cd_name cd)) (AList.map_entry t (add_to_relation cd) (ct_relations s))
      = ct_relations s"
    by (rule map_entry_undo) (use r undo_add_to_relation [OF ok] in simp)
  have k: "column_known s' (t, cd_name cd)"
    by (simp add: column_known_def r') (simp add: add_to_relation_def column_names_def)
  show ?thesis using k m i by simp (auto simp: s' on_relation_def)
qed

lemma undone_foreign_key:
  assumes "catalog_step (Add_Foreign_Key n t t' cs ks) s = Some s'" "catalog_good s'"
  shows "catalog_step (Drop_Constraint n t) s' = Some s"
proof -
  from assms(1) obtain r where r: "map_of (ct_relations s) t = Some r"
    and s': "s' = on_relation t (\<lambda>r. r\<lparr>rl_rules := rl_rules r @ [Foreign_Rule n cs t' ks]\<rparr>) s"
    by (auto split: if_splits)
  have r': "map_of (ct_relations s') t = Some (r\<lparr>rl_rules := rl_rules r @ [Foreign_Rule n cs t' ks]\<rparr>)"
    by (simp add: s' on_relation_def map_of_map_entry r)
  from good_relation [OF assms(2) r'] have "n \<notin> set (map rule_name (rl_rules r))" by (auto simp: relation_ok_def)
  then have f: "filter (\<lambda>x. rule_name x \<noteq> n) (rl_rules r) = rl_rules r" by (auto simp: filter_id_conv)
  have "AList.map_entry t (\<lambda>r. r\<lparr>rl_rules := filter (\<lambda>x. rule_name x \<noteq> n) (rl_rules r)\<rparr>)
      (AList.map_entry t (\<lambda>r. r\<lparr>rl_rules := rl_rules r @ [Foreign_Rule n cs t' ks]\<rparr>) (ct_relations s)) = ct_relations s"
    by (rule map_entry_undo) (use r f in simp)
  with r' show ?thesis by (simp add: s' on_relation_def)
qed

lemma undone_index:
  assumes "catalog_step (Create_Index n t cs m) s = Some s'" "catalog_good s'"
  shows "catalog_step (Drop_Index b n) s' = Some s"
proof -
  from assms(1) have s': "s' = s\<lparr>ct_indexes := ct_indexes s @ [(n, \<lparr>ix_table = t, ix_columns = cs, ix_method = m\<rparr>)]\<rparr>"
    by simp
  from good_distinct(2) [OF assms(2)] have "n \<notin> fst ` set (ct_indexes s)"
    "AList.delete n (ct_indexes s') = ct_indexes s" by (simp_all add: s' delete_appended)
  then show ?thesis by (auto simp: s' map_of_snoc_new simp del: map_of_append)
qed

lemma undone_type:
  assumes "catalog_step (Create_Type b n vs) s = Some s'" "catalog_good s'" "\<not> catalog_has_type s n"
  shows "catalog_step (Drop_Type b' n) s' = Some s"
proof -
  from assms have s': "s' = s\<lparr>ct_types := ct_types s @ [(n, vs)]\<rparr>" by simp
  from good_distinct(3) [OF assms(2)] have "AList.delete n (ct_types s') = ct_types s" "n \<notin> fst ` set (ct_types s)"
    by (simp_all add: s' delete_appended)
  then show ?thesis by (auto simp: s' catalog_has_type_def map_of_snoc_new simp del: map_of_append)
qed

lemma step_undone:
  assumes g: "catalog_good s" and u: "undoes d u" and n: "list_all (\<lambda>ty. \<not> catalog_has_type s ty) (made_types d)"
    and e: "catalog_step d s = Some s'" and g': "catalog_good s'"
  shows "catalog_step u s' = Some s"
proof (cases d)
  case (Create_Table t cs rs)
  with undone_table [OF g _ g'] e u show ?thesis by simp
next
  case (Add_Column t cd)
  with undone_column [OF g _ g'] e u have "catalog_step (Drop_Column t (cd_name cd)) s' = Some s" by blast
  with Add_Column u show ?thesis by simp
next
  case (Create_Index i t cs m)
  with e have "catalog_step (Drop_Index b i) s' = Some s" for b by (intro undone_index [OF _ g']) simp
  with Create_Index u show ?thesis by fastforce
next
  case (Add_Foreign_Key i t t' cs ks)
  with e have "catalog_step (Drop_Constraint i t) s' = Some s" by (intro undone_foreign_key [OF _ g']) simp
  with Add_Foreign_Key u show ?thesis by (metis empty_iff insert_iff list.set(1) list.simps(15) undoing.simps(4))
next
  case (Create_Type b i vs)
  have "catalog_step (Drop_Type b' i) s' = Some s" for b'
    by (rule undone_type [OF _ g']) (use e n Create_Type in auto)
  with Create_Type u show ?thesis by fastforce
qed (use u in simp_all)

lemma step_made:
  assumes "catalog_step d s = Some s'" "catalog_has_type s' ty"
  shows "catalog_has_type s ty \<or> ty \<in> set (made_types d)"
proof (cases d)
  case (Rename_Table a b)
  with assms show ?thesis by (auto simp: catalog_has_type_def rename_all_def case_prod_beta split: if_splits)
next
  case (Rename_Column t a b)
  with assms show ?thesis by (auto simp: catalog_has_type_def rename_all_def case_prod_beta split: if_splits)
next
  case (Rename_Type a b)
  with assms show ?thesis
    by (force simp: catalog_has_type_def rename_all_def map_of_eq_None_iff renamed_def split: if_splits)
next
  case (Drop_Type b n)
  with assms show ?thesis by (auto simp: catalog_has_type_def delete_conv split: if_splits)
next
  case (Add_Value n v)
  with assms show ?thesis by (auto simp: catalog_has_type_def map_of_map_entry split: if_splits)
qed (use assms in \<open>auto simp: catalog_has_type_def on_relation_def map_add_def split: if_splits option.splits\<close>)

interpretation catalogue: schema_engine catalog_exec catalog_good catalog_type catalog_has_type
proof
  fix s s' :: catalog and d u t c ty vs cs rs b cd
  show "catalog_good s \<Longrightarrow> catalog_exec d s = Some s' \<Longrightarrow> catalog_good s'" by (simp add: step_of_exec)
  show "catalog_good s \<Longrightarrow> catalog_type s t c = Some (Enum_T ty) \<Longrightarrow> catalog_has_type s ty"
    by (rule catalog_type_known)
  show "catalog_good s \<Longrightarrow> catalog_has_type s ty \<Longrightarrow> catalog_exec (Create_Type True ty vs) s = Some s"
    by (simp add: step_of_exec)
  show "catalog_good s \<Longrightarrow> catalog_type s t c = Some (Enum_T ty) \<Longrightarrow> catalog_exec (Drop_Type b ty) s = None"
    by (rule step_used_type)
  show "catalog_good s \<Longrightarrow> catalog_exec d s = Some s' \<Longrightarrow> \<not> touches d t c
      \<Longrightarrow> catalog_type s' t c = catalog_type s t c"
    unfolding step_of_exec by (blast intro: step_untouched)
  show "catalog_good s \<Longrightarrow> catalog_exec (Create_Table t cs rs) s = Some s' \<Longrightarrow> cd \<in> set cs
      \<Longrightarrow> catalog_type s' t (cd_name cd) = Some (cd_type cd)"
    unfolding step_of_exec by (blast intro: step_created)
  show "catalog_good s \<Longrightarrow> catalog_exec (Cast_Column t c ty) s = Some s' \<Longrightarrow> catalog_type s' t c = Some (Enum_T ty)"
    unfolding step_of_exec by (blast intro: step_recast)
  show "catalog_good s \<Longrightarrow> catalog_exec d s = Some s' \<Longrightarrow> catalog_has_type s' ty
      \<Longrightarrow> catalog_has_type s ty \<or> ty \<in> set (made_types d)"
    unfolding step_of_exec using step_made by blast
  show "catalog_good s \<Longrightarrow> undoes d u \<Longrightarrow> list_all (\<lambda>ty. \<not> catalog_has_type s ty) (made_types d)
      \<Longrightarrow> catalog_exec d s = Some s' \<Longrightarrow> catalog_exec u s' = Some s"
    unfolding step_of_exec by (blast intro: step_undone)
qed

end
