(* ===== verification/Migrations.thy ===== *)
theory Migrations
  imports Schema_Engine
begin

text \<open>
  The schema migrations \<open>alembic/versions/0001\<close> to \<open>0027\<close>, each with its upgrade and its downgrade as the
  statements it gives to the database, the chain they form, and the run of \<open>alembic/env.py\<close> that applies the
  pending ones in one transaction. The order of the timestamps, the ids of seeded rows, the rows other
  transactions hold and the choice a \<open>LIMIT\<close> makes are arguments.
\<close>

definition sql_quoted :: "string \<Rightarrow> string" where
  "sql_quoted v = CHR 0x27 # v @ [CHR 0x27]"

fun comma_list :: "string list \<Rightarrow> string" where
  "comma_list [] = []"
| "comma_list [v] = v"
| "comma_list (v # vs) = v @ '','' @ comma_list vs"

section \<open>The scripts\<close>

definition types_0001 :: "ddl list" where
  "types_0001 =
    [Create_Type False ''userrole''
       [''judge'', ''admin'', ''clerk''],
     Create_Type False ''casedomain''
       [''small_claims'', ''traffic_violation''],
     Create_Type False ''casestatus''
       [''pending'', ''processing'', ''ready_for_review'', ''decided'', ''rejected'', ''escalated'', ''closed'', ''failed''],
     Create_Type False ''casecomplexity''
       [''low'', ''medium'', ''high''],
     Create_Type False ''caseroute''
       [''proceed_automated'', ''proceed_with_review'', ''escalate_human''],
     Create_Type False ''partyrole''
       [''claimant'', ''respondent'', ''accused'', ''prosecution''],
     Create_Type False ''evidencetype''
       [''documentary'', ''testimonial'', ''physical'', ''digital'', ''expert''],
     Create_Type False ''evidencestrength''
       [''strong'', ''medium'', ''weak''],
     Create_Type False ''factconfidence''
       [''high'', ''medium'', ''low'', ''disputed''],
     Create_Type False ''factstatus''
       [''agreed'', ''disputed''],
     Create_Type False ''precedentsource''
       [''curated'', ''live_search''],
     Create_Type False ''argumentside''
       [''prosecution'', ''defense'', ''claimant'', ''respondent''],
     Create_Type False ''recommendationtype''
       [''compensation'', ''repair'', ''dismiss'', ''guilty'', ''not_guilty'', ''reduced''],
     Create_Type False ''modificationtype''
       [''fact_toggle'', ''evidence_exclusion'', ''witness_credibility'', ''legal_interpretation''],
     Create_Type False ''scenariostatus''
       [''pending'', ''running'', ''completed'', ''failed'', ''cancelled''],
     Create_Type False ''stabilityclassification''
       [''stable'', ''moderately_sensitive'', ''highly_sensitive''],
     Create_Type False ''stabilitystatus''
       [''pending'', ''computing'', ''completed'', ''failed'']]"

definition users_0001 :: "ddl list" where
  "users_0001 =
    [Create_Table ''users''
       [key_column ''id'' Uuid_T,
        not_null (sa_column ''name'' (Varchar_T 255)),
        not_null (only_once (sa_column ''email'' (Varchar_T 255))),
        not_null (sa_column ''role'' (Enum_T ''userrole'')),
        not_null (sa_column ''password_hash'' (Varchar_T 255)),
        not_null (defaults_to ''now()'' (sa_column ''created_at'' Timestamp_T)),
        sa_column ''updated_at'' Timestamp_T]
       []]"

definition sessions_0001 :: "ddl list" where
  "sessions_0001 =
    [Create_Table ''sessions''
       [key_column ''id'' Uuid_T,
        not_null (refers_to ''users'' ''id'' None (sa_column ''user_id'' Uuid_T)),
        not_null (sa_column ''jwt_token_hash'' (Varchar_T 255)),
        not_null (sa_column ''expires_at'' Timestamp_T),
        not_null (defaults_to ''now()'' (sa_column ''created_at'' Timestamp_T))]
       [],
     Create_Index ''ix_sessions_user_id'' ''sessions'' [''user_id''] None]"

definition cases_0001 :: "ddl list" where
  "cases_0001 =
    [Create_Table ''cases''
       [key_column ''id'' Uuid_T,
        not_null (sa_column ''domain'' (Enum_T ''casedomain'')),
        not_null (defaults_to ''pending'' (sa_column ''status'' (Enum_T ''casestatus''))),
        sa_column ''jurisdiction_valid'' Boolean_T,
        sa_column ''complexity'' (Enum_T ''casecomplexity''),
        sa_column ''route'' (Enum_T ''caseroute''),
        not_null (refers_to ''users'' ''id'' None (sa_column ''created_by'' Uuid_T)),
        not_null (defaults_to ''now()'' (sa_column ''created_at'' Timestamp_T)),
        sa_column ''updated_at'' Timestamp_T]
       [],
     Create_Index ''ix_cases_created_by'' ''cases'' [''created_by''] None,
     Create_Index ''ix_cases_status'' ''cases'' [''status''] None]"

definition parties_0001 :: "ddl list" where
  "parties_0001 =
    [Create_Table ''parties''
       [key_column ''id'' Uuid_T,
        not_null (refers_to ''cases'' ''id'' (Some ''CASCADE'') (sa_column ''case_id'' Uuid_T)),
        not_null (sa_column ''name'' (Varchar_T 255)),
        not_null (sa_column ''role'' (Enum_T ''partyrole'')),
        sa_column ''contact_info'' Jsonb_T]
       [],
     Create_Index ''ix_parties_case_id'' ''parties'' [''case_id''] None]"

definition documents_0001 :: "ddl list" where
  "documents_0001 =
    [Create_Table ''documents''
       [key_column ''id'' Uuid_T,
        not_null (refers_to ''cases'' ''id'' (Some ''CASCADE'') (sa_column ''case_id'' Uuid_T)),
        sa_column ''openai_file_id'' (Varchar_T 255),
        not_null (sa_column ''filename'' (Varchar_T 255)),
        sa_column ''file_type'' (Varchar_T 100),
        refers_to ''users'' ''id'' None (sa_column ''uploaded_by'' Uuid_T),
        not_null (defaults_to ''now()'' (sa_column ''uploaded_at'' Timestamp_T))]
       [],
     Create_Index ''ix_documents_case_id'' ''documents'' [''case_id''] None]"

definition evidence_0001 :: "ddl list" where
  "evidence_0001 =
    [Create_Table ''evidence''
       [key_column ''id'' Uuid_T,
        not_null (refers_to ''cases'' ''id'' (Some ''CASCADE'') (sa_column ''case_id'' Uuid_T)),
        refers_to ''documents'' ''id'' None (sa_column ''document_id'' Uuid_T),
        not_null (sa_column ''evidence_type'' (Enum_T ''evidencetype'')),
        sa_column ''strength'' (Enum_T ''evidencestrength''),
        sa_column ''admissibility_flags'' Jsonb_T,
        sa_column ''linked_claims'' Jsonb_T]
       [],
     Create_Index ''ix_evidence_case_id'' ''evidence'' [''case_id''] None]"

definition facts_0001 :: "ddl list" where
  "facts_0001 =
    [Create_Table ''facts''
       [key_column ''id'' Uuid_T,
        not_null (refers_to ''cases'' ''id'' (Some ''CASCADE'') (sa_column ''case_id'' Uuid_T)),
        sa_column ''event_date'' Date_T,
        sa_column ''event_time'' Time_T,
        not_null (sa_column ''description'' Text_T),
        refers_to ''documents'' ''id'' None (sa_column ''source_document_id'' Uuid_T),
        sa_column ''confidence'' (Enum_T ''factconfidence''),
        sa_column ''status'' (Enum_T ''factstatus''),
        sa_column ''corroboration'' Jsonb_T]
       [],
     Create_Index ''ix_facts_case_id'' ''facts'' [''case_id''] None]"

definition witnesses_0001 :: "ddl list" where
  "witnesses_0001 =
    [Create_Table ''witnesses''
       [key_column ''id'' Uuid_T,
        not_null (refers_to ''cases'' ''id'' (Some ''CASCADE'') (sa_column ''case_id'' Uuid_T)),
        not_null (sa_column ''name'' (Varchar_T 255)),
        sa_column ''role'' (Varchar_T 255),
        refers_to ''parties'' ''id'' None (sa_column ''party_id'' Uuid_T),
        sa_column ''credibility_score'' Integer_T,
        sa_column ''bias_indicators'' Jsonb_T,
        sa_column ''simulated_testimony'' Text_T]
       [],
     Create_Index ''ix_witnesses_case_id'' ''witnesses'' [''case_id''] None]"

definition legal_rules_0001 :: "ddl list" where
  "legal_rules_0001 =
    [Create_Table ''legal_rules''
       [key_column ''id'' Uuid_T,
        not_null (refers_to ''cases'' ''id'' (Some ''CASCADE'') (sa_column ''case_id'' Uuid_T)),
        not_null (sa_column ''statute_name'' (Varchar_T 255)),
        sa_column ''section'' (Varchar_T 255),
        sa_column ''verbatim_text'' Text_T,
        sa_column ''relevance_score'' Float_T,
        sa_column ''application'' Text_T]
       [],
     Create_Index ''ix_legal_rules_case_id'' ''legal_rules'' [''case_id''] None]"

definition precedents_0001 :: "ddl list" where
  "precedents_0001 =
    [Create_Table ''precedents''
       [key_column ''id'' Uuid_T,
        not_null (refers_to ''cases'' ''id'' (Some ''CASCADE'') (sa_column ''case_id'' Uuid_T)),
        not_null (sa_column ''citation'' (Varchar_T 255)),
        sa_column ''court'' (Varchar_T 255),
        sa_column ''outcome'' (Varchar_T 255),
        sa_column ''reasoning_summary'' Text_T,
        sa_column ''similarity_score'' Float_T,
        sa_column ''distinguishing_factors'' Text_T,
        sa_column ''source'' (Enum_T ''precedentsource''),
        sa_column ''url'' (Varchar_T 255)]
       [],
     Create_Index ''ix_precedents_case_id'' ''precedents'' [''case_id''] None]"

definition arguments_0001 :: "ddl list" where
  "arguments_0001 =
    [Create_Table ''arguments''
       [key_column ''id'' Uuid_T,
        not_null (refers_to ''cases'' ''id'' (Some ''CASCADE'') (sa_column ''case_id'' Uuid_T)),
        not_null (sa_column ''side'' (Enum_T ''argumentside'')),
        not_null (sa_column ''legal_basis'' Text_T),
        sa_column ''supporting_evidence'' Jsonb_T,
        sa_column ''weaknesses'' Text_T,
        sa_column ''suggested_questions'' Jsonb_T]
       [],
     Create_Index ''ix_arguments_case_id'' ''arguments'' [''case_id''] None]"

definition deliberations_0001 :: "ddl list" where
  "deliberations_0001 =
    [Create_Table ''deliberations''
       [key_column ''id'' Uuid_T,
        not_null (refers_to ''cases'' ''id'' (Some ''CASCADE'') (sa_column ''case_id'' Uuid_T)),
        sa_column ''reasoning_chain'' Jsonb_T,
        sa_column ''preliminary_conclusion'' Text_T,
        sa_column ''uncertainty_flags'' Jsonb_T,
        sa_column ''confidence_score'' Integer_T]
       [],
     Create_Index ''ix_deliberations_case_id'' ''deliberations'' [''case_id''] None]"

definition verdicts_0001 :: "ddl list" where
  "verdicts_0001 =
    [Create_Table ''verdicts''
       [key_column ''id'' Uuid_T,
        not_null (refers_to ''cases'' ''id'' (Some ''CASCADE'') (sa_column ''case_id'' Uuid_T)),
        not_null (sa_column ''recommendation_type'' (Enum_T ''recommendationtype'')),
        not_null (sa_column ''recommended_outcome'' Text_T),
        sa_column ''sentence'' Jsonb_T,
        sa_column ''confidence_score'' Integer_T,
        sa_column ''alternative_outcomes'' Jsonb_T,
        sa_column ''fairness_report'' Jsonb_T]
       [],
     Create_Index ''ix_verdicts_case_id'' ''verdicts'' [''case_id''] None]"

definition audit_logs_0001 :: "ddl list" where
  "audit_logs_0001 =
    [Create_Table ''audit_logs''
       [key_column ''id'' Uuid_T,
        not_null (refers_to ''cases'' ''id'' (Some ''CASCADE'') (sa_column ''case_id'' Uuid_T)),
        not_null (sa_column ''agent_name'' (Varchar_T 100)),
        not_null (sa_column ''action'' (Varchar_T 255)),
        sa_column ''input_payload'' Jsonb_T,
        sa_column ''output_payload'' Jsonb_T,
        sa_column ''system_prompt'' Text_T,
        sa_column ''llm_response'' Jsonb_T,
        sa_column ''tool_calls'' Jsonb_T,
        sa_column ''model'' (Varchar_T 100),
        sa_column ''token_usage'' Jsonb_T,
        sa_column ''solace_message_id'' (Varchar_T 255),
        not_null (defaults_to ''now()'' (sa_column ''created_at'' Timestamp_T))]
       [],
     Create_Index ''ix_audit_logs_case_id'' ''audit_logs'' [''case_id''] None]"

definition what_if_scenarios_0001 :: "ddl list" where
  "what_if_scenarios_0001 =
    [Create_Table ''what_if_scenarios''
       [key_column ''id'' Uuid_T,
        not_null (refers_to ''cases'' ''id'' (Some ''CASCADE'') (sa_column ''case_id'' Uuid_T)),
        not_null (sa_column ''original_run_id'' (Varchar_T 255)),
        not_null (only_once (sa_column ''scenario_run_id'' (Varchar_T 255))),
        not_null (sa_column ''modification_type'' (Enum_T ''modificationtype'')),
        sa_column ''modification_description'' Text_T,
        sa_column ''modification_payload'' Jsonb_T,
        not_null (defaults_to ''pending'' (sa_column ''status'' (Enum_T ''scenariostatus''))),
        not_null (refers_to ''users'' ''id'' None (sa_column ''created_by'' Uuid_T)),
        not_null (defaults_to ''now()'' (sa_column ''created_at'' Timestamp_T)),
        sa_column ''completed_at'' Timestamp_T]
       [],
     Create_Index ''ix_what_if_scenarios_case_id'' ''what_if_scenarios'' [''case_id''] None,
     Create_Index ''ix_what_if_scenarios_created_by'' ''what_if_scenarios'' [''created_by''] None]"

definition what_if_verdicts_0001 :: "ddl list" where
  "what_if_verdicts_0001 =
    [Create_Table ''what_if_verdicts''
       [key_column ''id'' Uuid_T,
        not_null (refers_to ''what_if_scenarios'' ''id'' (Some ''CASCADE'') (only_once (sa_column ''scenario_id'' Uuid_T))),
        sa_column ''original_verdict'' Jsonb_T,
        sa_column ''modified_verdict'' Jsonb_T,
        sa_column ''diff_view'' Jsonb_T,
        not_null (defaults_to ''false'' (sa_column ''verdict_changed'' Boolean_T)),
        not_null (defaults_to ''now()'' (sa_column ''created_at'' Timestamp_T))]
       [],
     Create_Index ''ix_what_if_verdicts_scenario_id'' ''what_if_verdicts'' [''scenario_id''] None]"

definition stability_scores_0001 :: "ddl list" where
  "stability_scores_0001 =
    [Create_Table ''stability_scores''
       [key_column ''id'' Uuid_T,
        not_null (refers_to ''cases'' ''id'' (Some ''CASCADE'') (sa_column ''case_id'' Uuid_T)),
        not_null (sa_column ''run_id'' (Varchar_T 255)),
        not_null (sa_column ''score'' Integer_T),
        not_null (sa_column ''classification'' (Enum_T ''stabilityclassification'')),
        not_null (sa_column ''perturbation_count'' Integer_T),
        not_null (sa_column ''perturbations_held'' Integer_T),
        sa_column ''perturbation_details'' Jsonb_T,
        not_null (defaults_to ''pending'' (sa_column ''status'' (Enum_T ''stabilitystatus''))),
        not_null (defaults_to ''now()'' (sa_column ''created_at'' Timestamp_T)),
        sa_column ''completed_at'' Timestamp_T]
       [],
     Create_Index ''ix_stability_scores_case_id'' ''stability_scores'' [''case_id''] None]"

definition upgrade_0001 :: "ddl list" where
  "upgrade_0001 =
     types_0001 @ users_0001 @ sessions_0001 @ cases_0001 @ parties_0001 @ documents_0001 @ evidence_0001 @ facts_0001
     @ witnesses_0001 @ legal_rules_0001 @ precedents_0001 @ arguments_0001 @ deliberations_0001 @
     verdicts_0001 @ audit_logs_0001 @ what_if_scenarios_0001 @ what_if_verdicts_0001 @
     stability_scores_0001"

definition downgrade_0001 :: "ddl list" where
  "downgrade_0001 =
     map Drop_Table
       [''stability_scores'', ''what_if_verdicts'', ''what_if_scenarios'', ''audit_logs'', ''verdicts'',
        ''deliberations'', ''arguments'', ''precedents'', ''legal_rules'', ''witnesses'', ''facts'',
        ''evidence'', ''documents'', ''parties'', ''cases'', ''sessions'', ''users'']
     @ map (Drop_Type True)
       [''stabilitystatus'', ''stabilityclassification'', ''scenariostatus'', ''modificationtype'',
        ''recommendationtype'', ''argumentside'', ''precedentsource'', ''factstatus'',
        ''factconfidence'', ''evidencestrength'', ''evidencetype'', ''partyrole'', ''caseroute'',
        ''casecomplexity'', ''casestatus'', ''casedomain'', ''userrole'']"

definition upgrade_0002 :: "ddl list" where
  "upgrade_0002 =
    [Add_Column ''cases'' (sa_column ''description'' Text_T)]"

definition downgrade_0002 :: "ddl list" where
  "downgrade_0002 =
    [Drop_Column ''cases'' ''description'']"

definition upgrade_0003 :: "ddl list" where
  "upgrade_0003 =
    [Add_Value ''recommendationtype'' ''manual_decision'']"

definition upgrade_0004 :: "ddl list" where
  "upgrade_0004 =
    [Add_Value ''userrole'' ''senior_judge'']"

definition upgrade_0005 :: "ddl list" where
  "upgrade_0005 =
    [Create_Type True ''reopenrequeststatus''
       [''pending'', ''approved'', ''rejected''],
     Add_Column ''verdicts'' (sa_column ''amendment_of'' Uuid_T),
     Add_Column ''verdicts'' (sa_column ''amendment_reason'' Text_T),
     Add_Column ''verdicts'' (sa_column ''amended_by'' Uuid_T),
     Add_Foreign_Key ''fk_verdicts_amendment_of_verdicts'' ''verdicts'' ''verdicts'' [''amendment_of''] [''id''],
     Add_Foreign_Key ''fk_verdicts_amended_by_users'' ''verdicts'' ''users'' [''amended_by''] [''id''],
     Create_Table ''hearing_notes''
       [key_column ''id'' Uuid_T,
        not_null (refers_to ''cases'' ''id'' (Some ''CASCADE'') (sa_column ''case_id'' Uuid_T)),
        not_null (refers_to ''users'' ''id'' None (sa_column ''judge_id'' Uuid_T)),
        not_null (sa_column ''content'' Text_T),
        sa_column ''section_reference'' (Varchar_T 255),
        not_null (sa_column ''note_type'' (Varchar_T 50)),
        not_null (defaults_to ''false'' (sa_column ''is_locked'' Boolean_T)),
        not_null (defaults_to ''now()'' (sa_column ''created_at'' Timestamp_T)),
        sa_column ''updated_at'' Timestamp_T]
       [],
     Create_Index ''ix_hearing_notes_case_id'' ''hearing_notes'' [''case_id''] None,
     Create_Index ''ix_hearing_notes_judge_id'' ''hearing_notes'' [''judge_id''] None,
     Create_Table ''reopen_requests''
       [key_column ''id'' Uuid_T,
        not_null (refers_to ''cases'' ''id'' (Some ''CASCADE'') (sa_column ''case_id'' Uuid_T)),
        not_null (refers_to ''users'' ''id'' None (sa_column ''requested_by'' Uuid_T)),
        not_null (sa_column ''reason'' (Varchar_T 50)),
        not_null (sa_column ''justification'' Text_T),
        not_null (defaults_to ''pending'' (sa_column ''status'' (Enum_T ''reopenrequeststatus''))),
        refers_to ''users'' ''id'' None (sa_column ''reviewed_by'' Uuid_T),
        sa_column ''review_notes'' Text_T,
        sa_column ''reviewed_at'' Timestamp_T,
        not_null (defaults_to ''now()'' (sa_column ''created_at'' Timestamp_T)),
        sa_column ''updated_at'' Timestamp_T]
       [],
     Create_Index ''ix_reopen_requests_case_id'' ''reopen_requests'' [''case_id''] None,
     Create_Index ''ix_reopen_requests_status'' ''reopen_requests'' [''status''] None]"

definition downgrade_0005 :: "ddl list" where
  "downgrade_0005 =
    [Drop_Index False ''ix_reopen_requests_status'',
     Drop_Index False ''ix_reopen_requests_case_id'',
     Drop_Table ''reopen_requests'',
     Drop_Index False ''ix_hearing_notes_judge_id'',
     Drop_Index False ''ix_hearing_notes_case_id'',
     Drop_Table ''hearing_notes'',
     Drop_Constraint ''fk_verdicts_amended_by_users'' ''verdicts'',
     Drop_Constraint ''fk_verdicts_amendment_of_verdicts'' ''verdicts'',
     Drop_Column ''verdicts'' ''amended_by'',
     Drop_Column ''verdicts'' ''amendment_reason'',
     Drop_Column ''verdicts'' ''amendment_of'',
     Drop_Type True ''reopenrequeststatus'']"

definition upgrade_0006 :: "ddl list" where
  "upgrade_0006 =
    [Create_Table ''password_reset_tokens''
       [key_column ''id'' Uuid_T,
        not_null (refers_to ''users'' ''id'' (Some ''CASCADE'') (sa_column ''user_id'' Uuid_T)),
        not_null (only_once (sa_column ''token_hash'' (Varchar_T 255))),
        not_null (sa_column ''expires_at'' Timestamp_T),
        sa_column ''used_at'' Timestamp_T,
        not_null (defaults_to ''now()'' (sa_column ''created_at'' Timestamp_T))]
       [],
     Create_Index ''ix_password_reset_tokens_user_id'' ''password_reset_tokens'' [''user_id''] None,
     Create_Index ''ix_password_reset_tokens_expires_at'' ''password_reset_tokens'' [''expires_at''] None]"

definition downgrade_0006 :: "ddl list" where
  "downgrade_0006 =
    [Drop_Index False ''ix_password_reset_tokens_expires_at'',
     Drop_Index False ''ix_password_reset_tokens_user_id'',
     Drop_Table ''password_reset_tokens'']"

definition gin_description :: string where
  "gin_description = ''gin (to_tsvector('' @ sql_quoted ''simple'' @ '', coalesce(description, '' @ sql_quoted [] @ ''))''"

definition upgrade_0007 :: "ddl list" where
  "upgrade_0007 =
    [Create_Index ''ix_cases_description_fts'' ''cases'' [''description''] (Some gin_description)]"

definition downgrade_0007 :: "ddl list" where
  "downgrade_0007 =
    [Drop_Index True ''ix_cases_description_fts'']"

definition upgrade_0008 :: "ddl list" where
  "upgrade_0008 =
    [Add_Value ''casestatus'' ''failed_retryable'']"

definition upgrade_0009 :: "ddl list" where
  "upgrade_0009 =
    [Create_Table ''pipeline_checkpoints''
       [not_null (sa_column ''case_id'' Uuid_T),
        not_null (sa_column ''run_id'' Text_T),
        not_null (sa_column ''agent_name'' Text_T),
        not_null (sa_column ''case_state'' Jsonb_T),
        not_null (defaults_to ''NOW()'' (sa_column ''updated_at'' Timestamp_T))]
       [Primary_Rule ''pk_pipeline_checkpoints'' [''case_id'', ''run_id'']],
     Create_Index ''ix_pipeline_checkpoints_case_id'' ''pipeline_checkpoints'' [''case_id''] None]"

definition downgrade_0009 :: "ddl list" where
  "downgrade_0009 =
    [Drop_Index False ''ix_pipeline_checkpoints_case_id'',
     Drop_Table ''pipeline_checkpoints'']"

definition upgrade_0010 :: "ddl list" where
  "upgrade_0010 =
    [Create_Table ''admin_events''
       [key_column ''id'' Uuid_T,
        not_null (refers_to ''users'' ''id'' None (sa_column ''actor_id'' Uuid_T)),
        not_null (sa_column ''action'' (Varchar_T 100)),
        sa_column ''payload'' Jsonb_T,
        not_null (defaults_to ''now()'' (sa_column ''created_at'' Timestamp_T))]
       [],
     Create_Index ''ix_admin_events_actor_id'' ''admin_events'' [''actor_id''] None,
     Create_Index ''ix_admin_events_action'' ''admin_events'' [''action''] None,
     Create_Index ''ix_admin_events_created_at'' ''admin_events'' [''created_at''] None,
     Create_Table ''system_config''
       [key_column ''key'' (Varchar_T 100),
        not_null (sa_column ''value'' Jsonb_T),
        refers_to ''users'' ''id'' None (sa_column ''updated_by'' Uuid_T),
        not_null (defaults_to ''now()'' (sa_column ''updated_at'' Timestamp_T))]
       [],
     Add_Column ''users'' (sa_column ''knowledge_base_vector_store_id'' (Varchar_T 255))]"

definition downgrade_0010 :: "ddl list" where
  "downgrade_0010 =
    [Drop_Column ''users'' ''knowledge_base_vector_store_id'',
     Drop_Table ''system_config'',
     Drop_Index False ''ix_admin_events_created_at'',
     Drop_Index False ''ix_admin_events_action'',
     Drop_Index False ''ix_admin_events_actor_id'',
     Drop_Table ''admin_events'']"

definition upgrade_0011 :: "ddl list" where
  "upgrade_0011 =
    [Add_Column ''cases'' (sa_column ''title'' (Varchar_T 255)),
     Add_Column ''cases'' (sa_column ''filed_date'' Date_T),
     Add_Column ''cases'' (sa_column ''claim_amount'' Float_T),
     Add_Column ''cases'' (not_null (defaults_to ''false'' (sa_column ''consent_to_higher_claim_limit'' Boolean_T))),
     Add_Column ''cases'' (sa_column ''offence_code'' (Varchar_T 100)),
     Create_Index ''ix_cases_filed_date'' ''cases'' [''filed_date''] None,
     Create_Index ''ix_cases_offence_code'' ''cases'' [''offence_code''] None]"

definition downgrade_0011 :: "ddl list" where
  "downgrade_0011 =
    [Drop_Index False ''ix_cases_offence_code'',
     Drop_Index False ''ix_cases_filed_date'',
     Drop_Column ''cases'' ''offence_code'',
     Drop_Column ''cases'' ''consent_to_higher_claim_limit'',
     Drop_Column ''cases'' ''claim_amount'',
     Drop_Column ''cases'' ''filed_date'',
     Drop_Column ''cases'' ''title'']"

text \<open>
  \<open>DISTINCT ON (case_id) ... ORDER BY case_id, updated_at DESC\<close> is the newest checkpoint of a case; \<open>later\<close>
  compares two timestamps.
\<close>

fun newest_checkpoint :: "(string \<Rightarrow> string \<Rightarrow> bool) \<Rightarrow> string dict list \<Rightarrow> string dict option" where
  "newest_checkpoint later [] = None"
| "newest_checkpoint later (k # ks) =
     (case newest_checkpoint later ks of
        None \<Rightarrow> Some k
      | Some k' \<Rightarrow>
          Some (if later (the (map_of k' ''updated_at'')) (the (map_of k ''updated_at'')) then k' else k))"

definition backfill_latest_run ::
  "(string \<Rightarrow> string \<Rightarrow> bool) \<Rightarrow> (string \<Rightarrow> string dict list) \<Rightarrow> string dict list" where
  "backfill_latest_run later rows =
     map (\<lambda>ca.
       case newest_checkpoint later
              (filter (\<lambda>k. map_of k ''case_id'' = map_of ca ''id'') (rows ''pipeline_checkpoints'')) of
         None \<Rightarrow> ca
       | Some k \<Rightarrow>
           if dict_has ''latest_run_id'' ca then ca
           else ca @ [(''latest_run_id'', the (map_of k ''run_id''))]) (rows ''cases'')"

definition upgrade_0012 :: "(string \<Rightarrow> string \<Rightarrow> bool) \<Rightarrow> ddl list" where
  "upgrade_0012 later =
    [Add_Column ''cases'' (sa_column ''latest_run_id'' (Varchar_T 36)),
     Update_Rows ''cases'' (backfill_latest_run later)]"

definition downgrade_0012 :: "ddl list" where
  "downgrade_0012 =
    [Drop_Column ''cases'' ''latest_run_id'']"

definition upgrade_0013 :: "ddl list" where
  "upgrade_0013 =
    [Create_Type True ''pipelinejobtype''
       [''case_pipeline'', ''whatif_scenario'', ''stability_computation''],
     Create_Type True ''pipelinejobstatus''
       [''pending'', ''dispatched'', ''completed'', ''failed''],
     Create_Table ''pipeline_jobs''
       [defaults_to ''gen_random_uuid()'' (key_column ''id'' Uuid_T),
        not_null (refers_to ''cases'' ''id'' (Some ''CASCADE'') (sa_column ''case_id'' Uuid_T)),
        not_null (sa_column ''job_type'' (Enum_T ''pipelinejobtype'')),
        sa_column ''target_id'' Uuid_T,
        not_null (defaults_to ''pending'' (sa_column ''status'' (Enum_T ''pipelinejobstatus''))),
        not_null (defaults_to ''0'' (sa_column ''attempts'' Integer_T)),
        sa_column ''payload'' Jsonb_T,
        sa_column ''error_message'' Text_T,
        not_null (defaults_to ''NOW()'' (sa_column ''created_at'' Timestamp_T)),
        sa_column ''dispatched_at'' Timestamp_T,
        sa_column ''completed_at'' Timestamp_T]
       [],
     Create_Index ''ix_pipeline_jobs_status_created_at'' ''pipeline_jobs'' [''status'', ''created_at''] None,
     Create_Index ''ix_pipeline_jobs_case_id'' ''pipeline_jobs'' [''case_id''] None]"

definition downgrade_0013 :: "ddl list" where
  "downgrade_0013 =
    [Drop_Index False ''ix_pipeline_jobs_case_id'',
     Drop_Index False ''ix_pipeline_jobs_status_created_at'',
     Drop_Table ''pipeline_jobs'',
     Drop_Type True ''pipelinejobstatus'',
     Drop_Type True ''pipelinejobtype'']"

definition old_statuses :: "string list" where
  "old_statuses =
     [''pending'', ''processing'', ''ready_for_review'', ''decided'', ''rejected'', ''escalated'',
      ''closed'', ''failed'', ''failed_retryable'']"

definition new_statuses :: "string list" where
  "new_statuses =
     [''pending'', ''processing'', ''ready_for_review'', ''escalated'', ''closed'', ''failed'',
      ''failed_retryable'']"

definition upgrade_0016 :: "ddl list" where
  "upgrade_0016 =
    [Drop_Table ''verdicts'',
     Set_Where ''cases'' ''status'' ''closed'' [''decided'', ''rejected''],
     Create_Type True ''casestatus'' new_statuses,
     Cast_Column ''cases'' ''status'' ''casestatus'',
     Drop_Type False ''casestatus'',
     Drop_Type True ''recommendationtype'',
     Rename_Table ''deliberations'' ''hearing_analyses'',
     Rename_Table ''what_if_verdicts'' ''what_if_results'',
     Rename_Column ''what_if_results'' ''original_verdict'' ''original_analysis'',
     Rename_Column ''what_if_results'' ''modified_verdict'' ''modified_analysis'',
     Rename_Column ''what_if_results'' ''verdict_changed'' ''analysis_changed'']"

definition downgrade_0016 :: "ddl list" where
  "downgrade_0016 =
    [Rename_Column ''what_if_results'' ''analysis_changed'' ''verdict_changed'',
     Rename_Column ''what_if_results'' ''modified_analysis'' ''modified_verdict'',
     Rename_Column ''what_if_results'' ''original_analysis'' ''original_verdict'',
     Rename_Table ''what_if_results'' ''what_if_verdicts'',
     Rename_Table ''hearing_analyses'' ''deliberations'',
     Create_Type True ''casestatus'' old_statuses,
     Cast_Column ''cases'' ''status'' ''casestatus'',
     Drop_Type False ''casestatus'',
     Create_Table ''verdicts''
       [key_column ''id'' Uuid_T,
        not_null (refers_to ''cases'' ''id'' (Some ''CASCADE'') (sa_column ''case_id'' Uuid_T)),
        not_null (sa_column ''recommendation_type'' (Varchar_T 50)),
        not_null (sa_column ''recommended_outcome'' Text_T),
        sa_column ''sentence'' Jsonb_T,
        sa_column ''confidence_score'' Integer_T,
        sa_column ''alternative_outcomes'' Jsonb_T,
        sa_column ''fairness_report'' Jsonb_T,
        sa_column ''amendment_of'' Uuid_T,
        sa_column ''amendment_reason'' Text_T,
        sa_column ''amended_by'' Uuid_T,
        sa_column ''created_at'' Timestamp_T,
        sa_column ''updated_at'' Timestamp_T]
       []]"

definition old_casestatus_values :: "string list" where
  "old_casestatus_values =
     [''pending'', ''processing'', ''ready_for_review'', ''escalated'', ''closed'', ''failed'',
      ''failed_retryable'']"

definition new_casestatus_values :: "string list" where
  "new_casestatus_values =
     [''pending'', ''processing'', ''ready_for_review'', ''escalated'', ''closed'', ''failed'',
      ''failed_retryable'', ''awaiting_review_gate1'', ''awaiting_review_gate2'',
      ''awaiting_review_gate3'', ''awaiting_review_gate4'']"

definition old_jobtype_values :: "string list" where
  "old_jobtype_values = [''case_pipeline'', ''whatif_scenario'', ''stability_computation'']"

definition new_jobtype_values :: "string list" where
  "new_jobtype_values = [''case_pipeline'', ''whatif_scenario'', ''stability_computation'', ''gate_run'']"

definition upgrade_0017 :: "ddl list" where
  "upgrade_0017 =
    [Set_Where ''cases'' ''status'' ''ready_for_review'' [''escalated''],
     Create_Type True ''casestatus'' new_casestatus_values,
     Cast_Column ''cases'' ''status'' ''casestatus'',
     Drop_Type False ''casestatus'',
     Create_Type True ''pipelinejobtype'' new_jobtype_values,
     Cast_Column ''pipeline_jobs'' ''job_type'' ''pipelinejobtype'',
     Drop_Type False ''pipelinejobtype'',
     Add_Column ''cases'' (sa_column ''gate_state'' Jsonb_T),
     Add_Column ''cases'' (sa_column ''judicial_decision'' Jsonb_T),
     Add_Column ''documents'' (sa_column ''pages'' Jsonb_T)]"

definition downgrade_0017 :: "ddl list" where
  "downgrade_0017 =
    [Drop_Column ''documents'' ''pages'',
     Drop_Column ''cases'' ''judicial_decision'',
     Drop_Column ''cases'' ''gate_state'',
     Create_Type True ''pipelinejobtype'' old_jobtype_values,
     Set_Where ''pipeline_jobs'' ''job_type'' ''case_pipeline'' [''gate_run''],
     Cast_Column ''pipeline_jobs'' ''job_type'' ''pipelinejobtype'',
     Drop_Type False ''pipelinejobtype'',
     Set_Where ''cases'' ''status'' ''processing'' [''awaiting_review_gate1'', ''awaiting_review_gate2'', ''awaiting_review_gate3'', ''awaiting_review_gate4''],
     Create_Type True ''casestatus'' old_casestatus_values,
     Cast_Column ''cases'' ''status'' ''casestatus'',
     Drop_Type False ''casestatus'']"

definition upgrade_0018 :: "ddl list" where
  "upgrade_0018 =
    [Set_Where ''users'' ''role'' ''judge'' [''clerk'', ''senior_judge''],
     Rename_Type ''userrole'' ''userrole_old'',
     Create_Type False ''userrole''
       [''judge'', ''admin''],
     Cast_Column ''users'' ''role'' ''userrole'',
     Drop_Type False ''userrole_old'']"

definition downgrade_0018 :: "ddl list" where
  "downgrade_0018 =
    [Rename_Type ''userrole'' ''userrole_new'',
     Create_Type False ''userrole''
       [''judge'', ''admin'', ''clerk'', ''senior_judge''],
     Cast_Column ''users'' ''role'' ''userrole'',
     Drop_Type False ''userrole_new'']"

text \<open>
  The backfill of 0019 works in batches: \<open>bf_pick\<close> is the choice \<open>LIMIT 500\<close> makes among the candidates,
  \<open>bf_locked\<close> the rows of other transactions, \<open>bf_ids\<close> the ids of the seeded rows.
\<close>

definition seed_domains :: "(string \<times> string \<times> string) list" where
  "seed_domains =
     [(''small_claims'', ''Small Claims Tribunal'', ''Small Claims Tribunals Act jurisdiction''),
      (''traffic_violation'', ''Traffic Court'', ''Road Traffic Act jurisdiction'')]"

record backfill_env =
  bf_later :: "string \<Rightarrow> string \<Rightarrow> bool"
  bf_ids :: "string list"
  bf_locked :: "string \<Rightarrow> bool"
  bf_pick :: "string list \<Rightarrow> string list"

definition lacks_domain :: "string dict \<Rightarrow> bool" where
  "lacks_domain ca = (\<not> dict_has ''domain_id'' ca)"

definition batch_targets :: "backfill_env \<Rightarrow> string dict list \<Rightarrow> string list" where
  "batch_targets env cs =
     (let free = filter (\<lambda>i. \<not> bf_locked env i) (map (\<lambda>ca. the (map_of ca ''id'')) (filter lacks_domain cs))
      in filter (\<lambda>i. i \<in> set free) (bf_pick env free))"

definition domain_of_code :: "string dict list \<Rightarrow> string \<Rightarrow> string option" where
  "domain_of_code ds c =
     map_option (\<lambda>d. the (map_of d ''id'')) (find (\<lambda>d. map_of d ''code'' = Some c) ds)"

definition takes_domain :: "string dict list \<Rightarrow> string list \<Rightarrow> string dict \<Rightarrow> bool" where
  "takes_domain ds ids ca =
     (lacks_domain ca \<and> the (map_of ca ''id'') \<in> set ids
      \<and> domain_of_code ds (the (map_of ca ''domain'')) \<noteq> None)"

text \<open>One batch, with the number of rows it changed.\<close>

definition backfill_batch ::
  "backfill_env \<Rightarrow> string dict list \<Rightarrow> string dict list \<Rightarrow> nat \<times> string dict list" where
  "backfill_batch env ds cs =
     (let ids = batch_targets env cs in
      (length (filter (takes_domain ds ids) cs),
       map (\<lambda>ca. if takes_domain ds ids ca
                then ca @ [(''domain_id'', the (domain_of_code ds (the (map_of ca ''domain''))))] else ca) cs))"

text \<open>Every batch that changes something leaves fewer rows without a domain, so the loop ends.\<close>

lemma takes_lacks: "takes_domain ds ids ca \<Longrightarrow> lacks_domain ca"
  by (simp add: takes_domain_def)

lemma filled_row: "\<not> lacks_domain (ca @ [(''domain_id'', v)])"
  by (simp add: lacks_domain_def dict_has_def)

lemma fewer_lack:
  "length (filter lacks_domain (map (\<lambda>ca. if takes_domain ds ids ca then ca @ [(''domain_id'', F ca)] else ca) cs))
     + length (filter (takes_domain ds ids) cs) = length (filter lacks_domain cs)"
  by (induction cs) (auto simp: filled_row dest: takes_lacks)

function backfill_loop :: "backfill_env \<Rightarrow> string dict list \<Rightarrow> string dict list \<Rightarrow> string dict list" where
  "backfill_loop env ds cs =
     (let (n, cs') = backfill_batch env ds cs in if n = 0 then cs' else backfill_loop env ds cs')"
  by auto

termination
proof (relation "measure (\<lambda>(_, _, cs). length (filter lacks_domain cs))")
  show "wf (measure (\<lambda>(_, _, cs). length (filter lacks_domain cs)))" by simp
  fix env ds cs x n cs'
  assume x: "x = backfill_batch env ds cs" and p: "(n, cs') = x" and n: "n \<noteq> 0"
  from x p have e: "n = length (filter (takes_domain ds (batch_targets env cs)) cs)"
    "cs' = map (\<lambda>ca. if takes_domain ds (batch_targets env cs) ca
        then ca @ [(''domain_id'', the (domain_of_code ds (the (map_of ca ''domain''))))] else ca) cs"
    by (simp_all add: backfill_batch_def Let_def)
  have "length (filter lacks_domain cs') + n = length (filter lacks_domain cs)"
    unfolding e by (rule fewer_lack)
  with n show "((env, ds, cs'), (env, ds, cs)) \<in> measure (\<lambda>(_, _, cs). length (filter lacks_domain cs))" by simp
qed

declare backfill_loop.simps [simp del]

definition insert_domain :: "string \<Rightarrow> string \<times> string \<times> string \<Rightarrow> ddl" where
  "insert_domain i = (\<lambda>(code, name, description).
     Insert_Row ''domains''
       [(''id'', i), (''code'', code), (''name'', name), (''description'', description), (''is_active'', ''false'')])"

definition upgrade_0019 :: "backfill_env \<Rightarrow> ddl list" where
  "upgrade_0019 env =
    [Create_Table ''domains''
       [key_column ''id'' Uuid_T,
        not_null (only_once (sa_column ''code'' (Varchar_T 100))),
        not_null (sa_column ''name'' (Varchar_T 255)),
        sa_column ''description'' Text_T,
        only_once (sa_column ''vector_store_id'' (Varchar_T 255)),
        not_null (defaults_to ''false'' (sa_column ''is_active'' Boolean_T)),
        refers_to ''users'' ''id'' None (sa_column ''created_by'' Uuid_T),
        sa_column ''provisioning_started_at'' Timestamp_T,
        not_null (defaults_to ''0'' (sa_column ''provisioning_attempts'' Integer_T)),
        not_null (defaults_to ''now()'' (sa_column ''created_at'' Timestamp_T)),
        not_null (defaults_to ''now()'' (sa_column ''updated_at'' Timestamp_T))]
       [],
     Create_Table ''domain_documents''
       [key_column ''id'' Uuid_T,
        not_null (refers_to ''domains'' ''id'' (Some ''CASCADE'') (sa_column ''domain_id'' Uuid_T)),
        sa_column ''openai_file_id'' (Varchar_T 255),
        sa_column ''sanitized_file_id'' (Varchar_T 255),
        not_null (sa_column ''filename'' (Varchar_T 500)),
        sa_column ''mime_type'' (Varchar_T 100),
        sa_column ''size_bytes'' Integer_T,
        not_null (defaults_to ''false'' (sa_column ''sanitized'' Boolean_T)),
        not_null (defaults_to ''pending'' (sa_column ''status'' (Varchar_T 20))),
        sa_column ''error_reason'' Text_T,
        not_null (sa_column ''idempotency_key'' Uuid_T),
        not_null (refers_to ''users'' ''id'' None (sa_column ''uploaded_by'' Uuid_T)),
        not_null (defaults_to ''now()'' (sa_column ''uploaded_at'' Timestamp_T))]
       [Unique_Rule ''uq_domain_document_idempotency'' [''idempotency_key'']],
     Add_Column ''cases'' (refers_to ''domains'' ''id'' None (sa_column ''domain_id'' Uuid_T))]
    @ map2 insert_domain (bf_ids env) seed_domains
    @ [Update_Rows ''cases'' (\<lambda>rows. backfill_loop env (rows ''domains'') (rows ''cases''))]"

definition downgrade_0019 :: "ddl list" where
  "downgrade_0019 =
    [Drop_Column ''cases'' ''domain_id'',
     Drop_Table ''domain_documents'',
     Drop_Table ''domains'']"

definition upgrade_0020 :: "ddl list" where
  "upgrade_0020 =
    [Add_Value ''userrole'' ''senior_judge'']"

definition draft_status_values :: "string list" where
  "draft_status_values = [''draft'', ''extracting'', ''awaiting_intake_confirmation'']"

definition documentkind_values :: "string list" where
  "documentkind_values =
     [''notice_of_traffic_offence'', ''charge_sheet'', ''evidence_bundle'', ''in_car_camera'',
      ''medical_report'', ''letter_of_mitigation'', ''other'']"

definition upgrade_0021 :: "ddl list" where
  "upgrade_0021 =
     map (Add_Value ''casestatus'') draft_status_values
     @ [Add_Value ''pipelinejobtype'' ''intake_extraction'',
     Create_Type True ''documentkind'' documentkind_values,
     Add_Column ''cases'' (sa_column ''intake_extraction'' Jsonb_T),
     Add_Column ''documents'' (not_null (defaults_to ''other'' (sa_column ''kind'' (Enum_T ''documentkind''))))]"

definition downgrade_0021 :: "ddl list" where
  "downgrade_0021 =
    [Drop_Column ''documents'' ''kind'',
     Drop_Column ''cases'' ''intake_extraction'',
     Drop_Type True ''documentkind'']"

definition new_documentkind_values :: "string list" where
  "new_documentkind_values = [''police_report'', ''witness_statement'', ''speed_camera_record'']"

definition upgrade_0022 :: "ddl list" where
  "upgrade_0022 = map (Add_Value ''documentkind'') new_documentkind_values"

definition upgrade_0023 :: "ddl list" where
  "upgrade_0023 =
    [Drop_Column ''audit_logs'' ''solace_message_id'']"

definition downgrade_0023 :: "ddl list" where
  "downgrade_0023 =
    [Add_Column ''audit_logs'' (sa_column ''solace_message_id'' (Varchar_T 255))]"

definition upgrade_0024 :: "ddl list" where
  "upgrade_0024 =
    [Create_Table ''pipeline_events''
       [defaults_to ''gen_random_uuid()'' (key_column ''id'' Uuid_T),
        not_null (sa_column ''case_id'' Uuid_T),
        not_null (sa_column ''kind'' Text_T),
        not_null (defaults_to ''1'' (sa_column ''schema_version'' Integer_T)),
        sa_column ''agent'' Text_T,
        not_null (defaults_to ''now()'' (sa_column ''ts'' Timestamp_T)),
        not_null (sa_column ''payload'' Jsonb_T)]
       [],
     Create_Index ''ix_pipeline_events_case_ts'' ''pipeline_events'' [''case_id'', ''ts''] None,
     Create_Index ''ix_pipeline_events_payload_gin'' ''pipeline_events'' [''payload''] (Some ''gin'')]"

definition downgrade_0024 :: "ddl list" where
  "downgrade_0024 =
    [Drop_Index False ''ix_pipeline_events_payload_gin'',
     Drop_Index False ''ix_pipeline_events_case_ts'',
     Drop_Table ''pipeline_events'']"

definition upgrade_0025 :: "ddl list" where
  "upgrade_0025 =
    [Add_Column ''pipeline_jobs'' (sa_column ''traceparent'' Text_T)]"

definition downgrade_0025 :: "ddl list" where
  "downgrade_0025 =
    [Drop_Column ''pipeline_jobs'' ''traceparent'']"

definition phase_values :: "string list" where
  "phase_values = [''intake'', ''research'', ''synthesis'', ''audit'']"

definition subagent_values :: "string list" where
  "subagent_values = [''evidence'', ''facts'', ''witnesses'', ''law'']"

definition suppression_reasons :: "string list" where
  "suppression_reasons = [''no_source_match'', ''low_score'', ''expired_statute'', ''out_of_jurisdiction'']"

definition phase_check :: "string \<Rightarrow> string" where
  "phase_check n = n @ '' IN ('' @ comma_list (map sql_quoted phase_values) @ '')''"

definition subagent_check :: "string \<Rightarrow> string" where
  "subagent_check c =
     c @ '' IS NULL OR '' @ c @ '' IN ('' @ comma_list (map sql_quoted subagent_values) @ '')''"

definition reason_check :: string where
  "reason_check = ''reason IN ('' @ comma_list (map sql_quoted suppression_reasons) @ '')''"

definition upgrade_0026 :: "ddl list" where
  "upgrade_0026 =
    [Create_Table ''judge_corrections''
       [key_column ''id'' Bigint_T,
        not_null (refers_to ''cases'' ''id'' (Some ''CASCADE'') (sa_column ''case_id'' Uuid_T)),
        not_null (sa_column ''run_id'' Text_T),
        not_null (sa_column ''phase'' Text_T),
        sa_column ''subagent'' Text_T,
        not_null (sa_column ''correction_text'' Text_T),
        not_null (defaults_to ''now()'' (sa_column ''created_at'' Timestamp_T))]
       [Check_Rule ''judge_corrections_phase_check'' (phase_check ''phase''),
        Check_Rule ''judge_corrections_subagent_check'' (subagent_check ''subagent''),
        Check_Rule ''judge_corrections_subagent_only_for_research'' (''subagent IS NULL OR phase = '' @ sql_quoted ''research'')],
     Create_Index ''judge_corrections_case_idx'' ''judge_corrections'' [''case_id''] None,
     Create_Index ''judge_corrections_run_idx'' ''judge_corrections'' [''run_id''] None,
     Create_Table ''suppressed_citations''
       [key_column ''id'' Bigint_T,
        not_null (refers_to ''cases'' ''id'' (Some ''CASCADE'') (sa_column ''case_id'' Uuid_T)),
        not_null (sa_column ''run_id'' Text_T),
        not_null (sa_column ''phase'' Text_T),
        sa_column ''subagent'' Text_T,
        not_null (sa_column ''citation_text'' Text_T),
        not_null (sa_column ''reason'' Text_T),
        not_null (defaults_to ''now()'' (sa_column ''created_at'' Timestamp_T))]
       [Check_Rule ''suppressed_citations_phase_check'' (phase_check ''phase''),
        Check_Rule ''suppressed_citations_subagent_check'' (subagent_check ''subagent''),
        Check_Rule ''suppressed_citations_subagent_only_for_research'' (''subagent IS NULL OR phase = '' @ sql_quoted ''research''),
        Check_Rule ''suppressed_citations_reason_check'' reason_check],
     Create_Index ''suppressed_citations_case_idx'' ''suppressed_citations'' [''case_id''] None,
     Create_Index ''suppressed_citations_run_idx'' ''suppressed_citations'' [''run_id''] None,
     Add_Column ''audit_logs'' (sa_column ''trace_id'' Text_T),
     Add_Column ''audit_logs'' (sa_column ''span_id'' Text_T),
     Add_Column ''audit_logs'' (sa_column ''retrieved_source_ids'' Jsonb_T),
     Add_Column ''audit_logs'' (sa_column ''cost_usd'' (Numeric_T 10 6)),
     Add_Column ''audit_logs'' (not_null (defaults_to ''false'' (sa_column ''redaction_applied'' Boolean_T))),
     Add_Column ''audit_logs''
       (refers_to ''judge_corrections'' ''id'' (Some ''SET NULL'') (sa_column ''judge_correction_id'' Bigint_T)),
     Create_Index ''audit_logs_trace_idx'' ''audit_logs'' [''trace_id''] None]"

definition downgrade_0026 :: "ddl list" where
  "downgrade_0026 =
    [Drop_Index False ''audit_logs_trace_idx'',
     Drop_Column ''audit_logs'' ''judge_correction_id'',
     Drop_Column ''audit_logs'' ''redaction_applied'',
     Drop_Column ''audit_logs'' ''cost_usd'',
     Drop_Column ''audit_logs'' ''retrieved_source_ids'',
     Drop_Column ''audit_logs'' ''span_id'',
     Drop_Column ''audit_logs'' ''trace_id'',
     Drop_Index False ''suppressed_citations_run_idx'',
     Drop_Index False ''suppressed_citations_case_idx'',
     Drop_Table ''suppressed_citations'',
     Drop_Index False ''judge_corrections_run_idx'',
     Drop_Index False ''judge_corrections_case_idx'',
     Drop_Table ''judge_corrections'']"

definition upgrade_0027 :: "ddl list" where
  "upgrade_0027 =
    [Add_Column ''documents'' (sa_column ''parsed_text'' Jsonb_T),
     Add_Value ''pipelinejobtype'' ''document_parse'']"

definition downgrade_0027 :: "ddl list" where
  "downgrade_0027 =
    [Drop_Column ''documents'' ''parsed_text'']"

section \<open>The chain\<close>

record migration =
  mg_revision :: string
  mg_down_revision :: "string option"
  mg_upgrade :: "ddl list"
  mg_downgrade :: "ddl list"

definition migration_0001 :: "migration" where
  "migration_0001 = \<lparr>mg_revision = ''0001'', mg_down_revision = None,
     mg_upgrade = upgrade_0001, mg_downgrade = downgrade_0001\<rparr>"

definition migration_0002 :: "migration" where
  "migration_0002 = \<lparr>mg_revision = ''0002'', mg_down_revision = Some ''0001'',
     mg_upgrade = upgrade_0002, mg_downgrade = downgrade_0002\<rparr>"

definition migration_0003 :: "migration" where
  "migration_0003 = \<lparr>mg_revision = ''0003'', mg_down_revision = Some ''0002'',
     mg_upgrade = upgrade_0003, mg_downgrade = []\<rparr>"

definition migration_0004 :: "migration" where
  "migration_0004 = \<lparr>mg_revision = ''0004'', mg_down_revision = Some ''0003'',
     mg_upgrade = upgrade_0004, mg_downgrade = []\<rparr>"

definition migration_0005 :: "migration" where
  "migration_0005 = \<lparr>mg_revision = ''0005'', mg_down_revision = Some ''0004'',
     mg_upgrade = upgrade_0005, mg_downgrade = downgrade_0005\<rparr>"

definition migration_0006 :: "migration" where
  "migration_0006 = \<lparr>mg_revision = ''0006'', mg_down_revision = Some ''0005'',
     mg_upgrade = upgrade_0006, mg_downgrade = downgrade_0006\<rparr>"

definition migration_0007 :: "migration" where
  "migration_0007 = \<lparr>mg_revision = ''0007'', mg_down_revision = Some ''0006'',
     mg_upgrade = upgrade_0007, mg_downgrade = downgrade_0007\<rparr>"

definition migration_0008 :: "migration" where
  "migration_0008 = \<lparr>mg_revision = ''0008'', mg_down_revision = Some ''0007'',
     mg_upgrade = upgrade_0008, mg_downgrade = []\<rparr>"

definition migration_0009 :: "migration" where
  "migration_0009 = \<lparr>mg_revision = ''0009'', mg_down_revision = Some ''0008'',
     mg_upgrade = upgrade_0009, mg_downgrade = downgrade_0009\<rparr>"

definition migration_0010 :: "migration" where
  "migration_0010 = \<lparr>mg_revision = ''0010'', mg_down_revision = Some ''0009'',
     mg_upgrade = upgrade_0010, mg_downgrade = downgrade_0010\<rparr>"

definition migration_0011 :: "migration" where
  "migration_0011 = \<lparr>mg_revision = ''0011'', mg_down_revision = Some ''0010'',
     mg_upgrade = upgrade_0011, mg_downgrade = downgrade_0011\<rparr>"

definition migration_0012 :: "backfill_env \<Rightarrow> migration" where
  "migration_0012 env = \<lparr>mg_revision = ''0012'', mg_down_revision = Some ''0011'',
     mg_upgrade = upgrade_0012 (bf_later env), mg_downgrade = downgrade_0012\<rparr>"

definition migration_0013 :: "migration" where
  "migration_0013 = \<lparr>mg_revision = ''0013'', mg_down_revision = Some ''0012'',
     mg_upgrade = upgrade_0013, mg_downgrade = downgrade_0013\<rparr>"

definition migration_0016 :: "migration" where
  "migration_0016 = \<lparr>mg_revision = ''0016'', mg_down_revision = Some ''0013'',
     mg_upgrade = upgrade_0016, mg_downgrade = downgrade_0016\<rparr>"

definition migration_0017 :: "migration" where
  "migration_0017 = \<lparr>mg_revision = ''0017'', mg_down_revision = Some ''0016'',
     mg_upgrade = upgrade_0017, mg_downgrade = downgrade_0017\<rparr>"

definition migration_0018 :: "migration" where
  "migration_0018 = \<lparr>mg_revision = ''0018'', mg_down_revision = Some ''0017'',
     mg_upgrade = upgrade_0018, mg_downgrade = downgrade_0018\<rparr>"

definition migration_0019 :: "backfill_env \<Rightarrow> migration" where
  "migration_0019 env = \<lparr>mg_revision = ''0019'', mg_down_revision = Some ''0018'',
     mg_upgrade = upgrade_0019 env, mg_downgrade = downgrade_0019\<rparr>"

definition migration_0020 :: "migration" where
  "migration_0020 = \<lparr>mg_revision = ''0020'', mg_down_revision = Some ''0019'',
     mg_upgrade = upgrade_0020, mg_downgrade = []\<rparr>"

definition migration_0021 :: "migration" where
  "migration_0021 = \<lparr>mg_revision = ''0021'', mg_down_revision = Some ''0020'',
     mg_upgrade = upgrade_0021, mg_downgrade = downgrade_0021\<rparr>"

definition migration_0022 :: "migration" where
  "migration_0022 = \<lparr>mg_revision = ''0022'', mg_down_revision = Some ''0021'',
     mg_upgrade = upgrade_0022, mg_downgrade = []\<rparr>"

definition migration_0023 :: "migration" where
  "migration_0023 = \<lparr>mg_revision = ''0023'', mg_down_revision = Some ''0022'',
     mg_upgrade = upgrade_0023, mg_downgrade = downgrade_0023\<rparr>"

definition migration_0024 :: "migration" where
  "migration_0024 = \<lparr>mg_revision = ''0024'', mg_down_revision = Some ''0023'',
     mg_upgrade = upgrade_0024, mg_downgrade = downgrade_0024\<rparr>"

definition migration_0025 :: "migration" where
  "migration_0025 = \<lparr>mg_revision = ''0025'', mg_down_revision = Some ''0024'',
     mg_upgrade = upgrade_0025, mg_downgrade = downgrade_0025\<rparr>"

definition migration_0026 :: "migration" where
  "migration_0026 = \<lparr>mg_revision = ''0026'', mg_down_revision = Some ''0025'',
     mg_upgrade = upgrade_0026, mg_downgrade = downgrade_0026\<rparr>"

definition migration_0027 :: "migration" where
  "migration_0027 = \<lparr>mg_revision = ''0027'', mg_down_revision = Some ''0026'',
     mg_upgrade = upgrade_0027, mg_downgrade = downgrade_0027\<rparr>"

definition migrations :: "backfill_env \<Rightarrow> migration list" where
  "migrations env =
     [migration_0001, migration_0002, migration_0003, migration_0004, migration_0005, migration_0006,
      migration_0007, migration_0008, migration_0009, migration_0010, migration_0011, migration_0012
      env, migration_0013, migration_0016, migration_0017, migration_0018, migration_0019 env,
      migration_0020, migration_0021, migration_0022, migration_0023, migration_0024,
      migration_0025, migration_0026, migration_0027]"

lemmas migration_defs = migration_0001_def migration_0002_def migration_0003_def migration_0004_def migration_0005_def
  migration_0006_def migration_0007_def migration_0008_def migration_0009_def migration_0010_def
  migration_0011_def migration_0012_def migration_0013_def migration_0016_def migration_0017_def
  migration_0018_def migration_0019_def migration_0020_def migration_0021_def migration_0022_def
  migration_0023_def migration_0024_def migration_0025_def migration_0026_def migration_0027_def

end
