(* ===== verification/Migration_Run.thy ===== *)
theory Migration_Run
  imports Migrations
begin

text \<open>
  The run of \<open>alembic/env.py\<close>: the pending migrations are found by their \<open>down_revision\<close> and applied in one
  transaction. The swap of an enumeration type under the name it has, in 0016 and 0017, can never succeed, so no
  database before 0017 reaches the head; the migrations that only create are taken back by their downgrades.
\<close>

section \<open>Pending migrations\<close>

fun path_up :: "nat \<Rightarrow> migration list \<Rightarrow> string option \<Rightarrow> migration list" where
  "path_up 0 ms r = []"
| "path_up (Suc n) ms r =
     (case find (\<lambda>m. mg_down_revision m = r) ms of
        None \<Rightarrow> []
      | Some m \<Rightarrow> m # path_up n ms (Some (mg_revision m)))"

definition revision_after :: "migration list \<Rightarrow> string option" where
  "revision_after ms = (if ms = [] then None else Some (mg_revision (last ms)))"

text \<open>
  One transaction for all: whether the run came through, the revision the database is at, and its state.
\<close>

definition run_migrations_online ::
  "(ddl \<Rightarrow> 's \<Rightarrow> 's option) \<Rightarrow> migration list \<Rightarrow> string option \<times> 's \<Rightarrow> bool \<times> string option \<times> 's" where
  "run_migrations_online ex ms = (\<lambda>(r, s).
     let todo = path_up (length ms) ms r in
     case run_script ex (concat (map mg_upgrade todo)) s of
       None \<Rightarrow> (False, r, s)
     | Some s' \<Rightarrow> (True, if todo = [] then r else revision_after todo, s'))"

text \<open>Each migration follows the one before it, and no revision occurs twice.\<close>

fun linked :: "string option \<Rightarrow> migration list \<Rightarrow> bool" where
  "linked r [] = True"
| "linked r (m # ms) = (mg_down_revision m = r \<and> linked (Some (mg_revision m)) ms)"

lemma linked_append: "linked r (xs @ ys) \<longleftrightarrow> linked r xs \<and> linked (if xs = [] then r else revision_after xs) ys"
  by (induction xs arbitrary: r) (auto simp: revision_after_def)

lemma revision_after_take: "0 < i \<Longrightarrow> i \<le> length zs \<Longrightarrow> revision_after (take i zs) = Some (mg_revision (zs ! (i - 1)))"
  by (auto simp: revision_after_def last_conv_nth min_def)

lemma revision_after_inj:
  assumes "distinct (map mg_revision zs)" "i \<le> length zs" "j \<le> length zs"
    "revision_after (take i zs) = revision_after (take j zs)"
  shows "i = j"
proof (cases "i = 0 \<or> j = 0")
  case True
  with assms(2-4) show ?thesis by (cases zs) (auto simp: revision_after_def split: if_splits)
next
  case False
  with assms(2-4) have "mg_revision (zs ! (i - 1)) = mg_revision (zs ! (j - 1))"
    by (simp add: revision_after_take)
  moreover have "i - 1 < length zs" "j - 1 < length zs" using False assms(2,3) by auto
  ultimately have "i - 1 = j - 1"
    using nth_eq_iff_index_eq [of "map mg_revision zs" "i - 1" "j - 1"] assms(1) by simp
  with False show ?thesis by auto
qed

lemma linked_down:
  assumes "linked None zs" "i < length zs"
  shows "mg_down_revision (zs ! i) = revision_after (take i zs)"
proof -
  from assms have "linked None (take i zs @ zs ! i # drop (Suc i) zs)" by (simp flip: id_take_nth_drop)
  then show ?thesis by (auto simp: linked_append revision_after_def)
qed

lemma find_successor:
  assumes "linked None zs" "distinct (map mg_revision zs)" "k \<le> length zs"
  shows "find (\<lambda>x. mg_down_revision x = revision_after (take k zs)) zs = (if k < length zs then Some (zs ! k) else None)"
proof -
  have eq: "mg_down_revision (zs ! i) = revision_after (take k zs) \<longleftrightarrow> i = k" if "i < length zs" for i
    using linked_down [OF assms(1) that] revision_after_inj [OF assms(2), of i k] that assms(3) by auto
  show ?thesis
  proof (cases "k < length zs")
    case True
    then show ?thesis using eq by (auto simp: find_Some_iff)
  next
    case False
    have "mg_down_revision x \<noteq> revision_after (take k zs)" if "x \<in> set zs" for x
      using that eq False by (auto simp: in_set_conv_nth)
    with False show ?thesis by (simp add: find_None_iff)
  qed
qed

text \<open>So the pending migrations of a database are those after the last one it has.\<close>

lemma path_of_linked:
  assumes "linked None zs" "distinct (map mg_revision zs)"
  shows "k \<le> length zs \<Longrightarrow> path_up n zs (revision_after (take k zs)) = take n (drop k zs)"
proof (induction n arbitrary: k)
  case (Suc n)
  show ?case
  proof (cases "k < length zs")
    case True
    with Suc.IH [of "Suc k"] have "path_up n zs (Some (mg_revision (zs ! k))) = take n (drop (Suc k) zs)"
      by (simp add: revision_after_take)
    with True show ?thesis
      by (simp add: find_successor [OF assms Suc.prems] Cons_nth_drop_Suc [symmetric])
  next
    case False
    with Suc.prems find_successor [OF assms Suc.prems] show ?thesis by (auto split: option.split)
  qed
qed simp

lemma migrations_linked: "linked None (migrations env)"
  by (simp add: migrations_def migration_defs)

lemma migrations_distinct: "distinct (map mg_revision (migrations env))"
  by (simp add: migrations_def migration_defs)

lemma pending_migrations:
  assumes "migrations env = past @ todo"
  shows "path_up (length (migrations env)) (migrations env) (revision_after past) = todo"
  using path_of_linked [OF migrations_linked migrations_distinct, of "length past" env "length (migrations env)"]
  by (simp add: assms)


section \<open>The swap that cannot succeed\<close>

definition before_the_swap :: "backfill_env \<Rightarrow> migration list" where
  "before_the_swap env = takeWhile (\<lambda>m. mg_revision m \<noteq> ''0016'') (migrations env)"

definition keeps_status :: "ddl list \<Rightarrow> bool" where
  "keeps_status = list_all (\<lambda>d. \<not> touches d ''cases'' ''status'')"

lemma early_keep_status:
  "keeps_status (concat (map mg_upgrade (tl (before_the_swap env))))"
  unfolding keeps_status_def before_the_swap_def
  by (simp add: migrations_def migration_defs upgrade_0002_def upgrade_0003_def upgrade_0004_def upgrade_0005_def
      upgrade_0006_def upgrade_0007_def upgrade_0008_def upgrade_0009_def upgrade_0010_def upgrade_0011_def
      upgrade_0012_def upgrade_0013_def column_defs)


definition status_swap :: "string list \<Rightarrow> ddl list" where
  "status_swap vs =
     [Create_Type True ''casestatus'' vs, Cast_Column ''cases'' ''status'' ''casestatus'', Drop_Type False ''casestatus'']"

lemma swaps_status:
  "upgrade_0016 = take 2 upgrade_0016 @ status_swap new_statuses @ drop 5 upgrade_0016"
  "upgrade_0017 = take 1 upgrade_0017 @ status_swap new_casestatus_values @ drop 4 upgrade_0017"
  by (simp_all add: upgrade_0016_def upgrade_0017_def status_swap_def)

lemma swaps_keep_status: "keeps_status (take 2 upgrade_0016)" "keeps_status (take 1 upgrade_0017)"
  by (simp_all add: upgrade_0016_def upgrade_0017_def keeps_status_def)

lemma keeps_status_append: "keeps_status (ds @ es) \<longleftrightarrow> keeps_status ds \<and> keeps_status es"
  by (simp add: keeps_status_def)

lemma migrations_split:
  "migrations env = before_the_swap env @ migration_0016 # migration_0017 # drop 15 (migrations env)"
  by (simp add: migrations_def before_the_swap_def migration_defs)

lemma early_length: "length (before_the_swap env) = 13"
  by (simp add: migrations_def before_the_swap_def migration_defs)

text \<open>What is pending before 0017 has come to the swap without touching the column.\<close>

lemma script_before_the_swap:
  assumes "migrations env = past @ todo" "past \<noteq> []" "migration_0017 \<in> set todo"
  shows "\<exists>pre vs post. concat (map mg_upgrade todo) = pre @ status_swap vs @ post \<and> keeps_status pre"
proof -
  let ?e = "before_the_swap env" and ?k = "length past"
  have todo: "todo = drop ?k (?e @ migration_0016 # migration_0017 # drop 15 (migrations env))"
    using assms(1) migrations_split [of env] by (metis append_eq_conv_conj)
  have "distinct (migrations env)" using migrations_distinct [of env] by (simp add: distinct_map)
  then have "\<not> 15 \<le> ?k"
  proof (rule contrapos_pn)
    assume k: "15 \<le> ?k"
    have "migration_0017 \<in> set past"
    proof -
      have "migration_0017 = migrations env ! 14" by (simp add: migrations_def)
      moreover have "migrations env ! 14 = past ! 14" using k assms(1) by (simp add: nth_append)
      ultimately show ?thesis using k nth_mem [of 14 past] by simp
    qed
    with assms(1,3) show "\<not> distinct (migrations env)" by auto
  qed
  then consider "?k \<le> 13" | "?k = 14" by linarith
  then show ?thesis
  proof cases
    case 1
    have t: "todo = drop ?k ?e @ migration_0016 # migration_0017 # drop 15 (migrations env)"
      using 1 by (simp add: todo early_length)
    have "set (concat (map mg_upgrade (drop ?k ?e))) \<subseteq> set (concat (map mg_upgrade (tl ?e)))"
      using assms(2) set_drop_subset_set_drop [of 1 ?k ?e] by (cases ?k) (auto simp: drop_Suc)
    with early_keep_status [of env] have "keeps_status (concat (map mg_upgrade (drop ?k ?e)))"
      unfolding keeps_status_def list_all_iff by blast
    then have "keeps_status (concat (map mg_upgrade (drop ?k ?e)) @ take 2 upgrade_0016)"
      by (simp add: keeps_status_append swaps_keep_status)
    moreover have "concat (map mg_upgrade todo) = (concat (map mg_upgrade (drop ?k ?e)) @ take 2 upgrade_0016)
        @ status_swap new_statuses @ drop 5 upgrade_0016
        @ concat (map mg_upgrade (migration_0017 # drop 15 (migrations env)))"
      unfolding t using swaps_status(1) by (simp add: migration_0016_def)
    ultimately show ?thesis by blast
  next
    case 2
    have t: "todo = migration_0017 # drop 15 (migrations env)" using 2 by (simp add: todo early_length)
    have "concat (map mg_upgrade todo) = take 1 upgrade_0017 @ status_swap new_casestatus_values
        @ drop 4 upgrade_0017 @ concat (map mg_upgrade (drop 15 (migrations env)))"
      unfolding t using swaps_status(2) by (simp add: migration_0017_def)
    with swaps_keep_status(2) show ?thesis by blast
  qed
qed

context schema_engine
begin

lemma typed_after_creation:
  assumes "good s" "run_script ex (ds @ Create_Table t cs rs # es) s = Some s'" "cd \<in> set cs"
    "list_all (\<lambda>d. \<not> touches d t (cd_name cd)) es"
  shows "column_type s' t (cd_name cd) = Some (cd_type cd)"
proof -
  from assms(2) obtain s1 s2 where s1: "run_script ex ds s = Some s1" and s2: "ex (Create_Table t cs rs) s1 = Some s2"
    and s': "run_script ex es s2 = Some s'"
    by (auto simp: run_script_append split: option.splits)
  have g1: "good s1" by (rule run_stays_good [OF assms(1) s1])
  from run_untouched [OF stays_good [OF g1 s2] s' assms(4)] created [OF g1 s2 assms(3)] show ?thesis by simp
qed

lemma swap_fails:
  assumes "good s" "column_type s ''cases'' ''status'' = Some (Enum_T ''casestatus'')" "keeps_status ds"
  shows "run_script ex (ds @ status_swap vs @ es) s = None"
  using script_with_swap_fails [OF assms(1,2), of ds vs es] assms(3) by (simp add: status_swap_def keeps_status_def)

text \<open>The first migration gives \<open>cases.status\<close> the type that 0016 swaps.\<close>

lemma upgrade_0001_types_status:
  assumes "good s" "run_script ex upgrade_0001 s = Some s'"
  shows "column_type s' ''cases'' ''status'' = Some (Enum_T ''casestatus'')"
proof -
  let ?cd = "not_null (defaults_to ''pending'' (sa_column ''status'' (Enum_T ''casestatus'')))"
  obtain cs where cs: "hd cases_0001 = Create_Table ''cases'' cs []" "?cd \<in> set cs"
    by (simp add: cases_0001_def)
  have c: "cases_0001 = Create_Table ''cases'' cs [] # tl cases_0001"
    using cs(1) by (cases cases_0001) (simp_all add: cases_0001_def)
  define es where "es = tl cases_0001 @ parties_0001 @ documents_0001 @ evidence_0001 @ facts_0001
    @ witnesses_0001 @ legal_rules_0001 @ precedents_0001 @ arguments_0001 @ deliberations_0001 @ verdicts_0001
    @ audit_logs_0001 @ what_if_scenarios_0001 @ what_if_verdicts_0001 @ stability_scores_0001"
  have u: "upgrade_0001 = (types_0001 @ users_0001 @ sessions_0001) @ Create_Table ''cases'' cs [] # es"
    unfolding upgrade_0001_def es_def by (subst c) simp
  have n: "cd_name ?cd = ''status''" "cd_type ?cd = Enum_T ''casestatus''" by (simp_all add: column_defs)
  have "list_all (\<lambda>d. \<not> touches d ''cases'' ''status'') es"
    by (simp add: es_def cases_0001_def parties_0001_def documents_0001_def evidence_0001_def facts_0001_def
        witnesses_0001_def legal_rules_0001_def precedents_0001_def arguments_0001_def deliberations_0001_def
        verdicts_0001_def audit_logs_0001_def what_if_scenarios_0001_def what_if_verdicts_0001_def
        stability_scores_0001_def)
  with typed_after_creation [OF assms(1) assms(2) [unfolded u] cs(2)] n show ?thesis by simp
qed

lemma pending_swap_fails:
  assumes "good s" "migrations env = past @ todo" "migration_0017 \<in> set todo"
    "past = [] \<or> column_type s ''cases'' ''status'' = Some (Enum_T ''casestatus'')"
  shows "run_script ex (concat (map mg_upgrade todo)) s = None"
proof (cases past)
  case (Cons m ms)
  with script_before_the_swap [OF assms(2) _ assms(3)] obtain pre vs post where
    "concat (map mg_upgrade todo) = pre @ status_swap vs @ post" "keeps_status pre" by blast
  with swap_fails [OF assms(1)] assms(4) Cons show ?thesis by simp
next
  case Nil
  obtain ts where ts: "migrations env = [migration_0001] @ ts" "migration_0017 \<in> set ts"
    by (simp add: migrations_def)
  from script_before_the_swap [OF ts(1) _ ts(2)] obtain pre vs post where
    pre: "concat (map mg_upgrade ts) = pre @ status_swap vs @ post" "keeps_status pre" by blast
  have t: "concat (map mg_upgrade todo) = upgrade_0001 @ concat (map mg_upgrade ts)"
    using assms(2) Nil ts(1) by (metis append_Cons append_Nil concat.simps(2) list.simps(9) migration.select_convs(3)
        migration_0001_def)
  show ?thesis
  proof (cases "run_script ex upgrade_0001 s")
    case (Some s1)
    have "run_script ex (concat (map mg_upgrade ts)) s1 = None"
      unfolding pre(1) by (rule swap_fails [OF run_stays_good [OF assms(1) Some]
          upgrade_0001_types_status [OF assms(1) Some] pre(2)])
    with Some show ?thesis by (simp add: t run_script_append)
  qed (simp add: t run_script_append)
qed

end

text \<open>C30: No database before migration 0017 ever reaches the head, whatever database engine executes the scripts: the
  pending migrations come to a step that creates the type of \<open>cases.status\<close> only if its name is free, casts the
  column to it and drops the old type of that name, which is the one in use. The run fails and, being one
  transaction, leaves the database and its revision as they were. This holds for the empty database and for any
  database whose status column still has its enumeration type.\<close>

theorem head_is_out_of_reach:
  assumes "schema_engine ex good column_type has_type" "good s"
    "migrations env = past @ todo" "migration_0017 \<in> set todo"
    "past = [] \<or> column_type s ''cases'' ''status'' = Some (Enum_T ''casestatus'')"
  shows "run_migrations_online ex (migrations env) (revision_after past, s) = (False, revision_after past, s)"
proof -
  note swap = schema_engine.pending_swap_fails [OF assms(1)]
  have "run_script ex (concat (map mg_upgrade todo)) s = None" by (rule swap) (rule assms)+
  then show ?thesis by (simp add: run_migrations_online_def pending_migrations [OF assms(3)])
qed

definition demo_backfill :: backfill_env where
  "demo_backfill = \<lparr>bf_later = (\<lambda>a b. False), bf_ids = [''d1'', ''d2''], bf_locked = (\<lambda>_. False), bf_pick = take 500\<rparr>"

theorem head_is_out_of_reach_witness:
  "run_migrations_online catalog_exec (migrations demo_backfill) (None, empty_catalog) = (False, None, empty_catalog)"
proof -
  have g: "catalog_good empty_catalog" by (simp add: catalog_good_def empty_catalog_def)
  have m: "migration_0017 \<in> set (migrations demo_backfill)" by (simp add: migrations_def)
  have "run_migrations_online catalog_exec (migrations demo_backfill) (revision_after [], empty_catalog)
      = (False, revision_after [], empty_catalog)"
    by (rule head_is_out_of_reach [OF catalogue.schema_engine_axioms]) (use g m in simp_all)
  then show ?thesis by (simp add: revision_after_def)
qed


section \<open>Downgrades that restore\<close>

text \<open>
  The migrations that only add tables, columns, indexes, keys and types. The others drop a table or a column,
  rewrite rows, or add labels to a type, which PostgreSQL cannot take back; their downgrades do not restore.
\<close>

definition reversible_revisions :: "string list" where
  "reversible_revisions =
     [''0002'', ''0005'', ''0006'', ''0007'', ''0009'', ''0010'', ''0011'', ''0013'', ''0024'', ''0025'', ''0026'']"

lemmas reversible_scripts = upgrade_0002_def downgrade_0002_def upgrade_0005_def downgrade_0005_def
  upgrade_0006_def downgrade_0006_def upgrade_0007_def downgrade_0007_def upgrade_0009_def downgrade_0009_def
  upgrade_0010_def downgrade_0010_def upgrade_0011_def downgrade_0011_def upgrade_0013_def downgrade_0013_def
  upgrade_0024_def downgrade_0024_def upgrade_0025_def downgrade_0025_def upgrade_0026_def downgrade_0026_def

definition mirrored :: "migration \<Rightarrow> bool" where
  "mirrored m \<longleftrightarrow> list_all2 undoes (mg_upgrade m) (rev (mg_downgrade m))
     \<and> distinct (concat (map made_types (mg_upgrade m)))"

lemma mirrored_scripts:
  "mirrored migration_0002"
  "mirrored migration_0005"
  "mirrored migration_0006"
  "mirrored migration_0007"
  "mirrored migration_0009"
  "mirrored migration_0010"
  "mirrored migration_0011"
  "mirrored migration_0013"
  "mirrored migration_0024"
  "mirrored migration_0025"
  "mirrored migration_0026"
  by (simp_all add: mirrored_def migration_defs reversible_scripts sa_column_def not_null_def defaults_to_def
      refers_to_def)

lemma revisions_of_chain:
  "map mg_revision (migrations env) =
     [''0001'', ''0002'', ''0003'', ''0004'', ''0005'', ''0006'', ''0007'', ''0008'', ''0009'', ''0010'', ''0011'',
      ''0012'', ''0013'', ''0016'', ''0017'', ''0018'', ''0019'', ''0020'', ''0021'', ''0022'', ''0023'', ''0024'',
      ''0025'', ''0026'', ''0027'']"
  by (simp add: migrations_def migration_defs)

lemma reversible_mirrored:
  assumes "m \<in> set (migrations env)" "mg_revision m \<in> set reversible_revisions"
  shows "mirrored m"
proof -
  have "list_all (\<lambda>m. mg_revision m \<in> set reversible_revisions \<longrightarrow> mirrored m) (migrations env)"
    unfolding migrations_def
    by (simp add: mirrored_scripts) (simp add: migration_defs reversible_revisions_def)
  with assms show ?thesis by (simp add: list_all_iff)
qed



section \<open>The backfill of the domains\<close>

definition fill_domain :: "string dict list \<Rightarrow> string dict \<Rightarrow> string dict" where
  "fill_domain ds ca = ca @ [(''domain_id'', the (domain_of_code ds (the (map_of ca ''domain''))))]"

definition fillable :: "backfill_env \<Rightarrow> string dict \<Rightarrow> bool" where
  "fillable env ca \<longleftrightarrow> lacks_domain ca \<and> \<not> bf_locked env (the (map_of ca ''id''))"

lemma batch_rows:
  "snd (backfill_batch env ds cs) =
     map (\<lambda>ca. if takes_domain ds (batch_targets env cs) ca then fill_domain ds ca else ca) cs"
  by (simp add: backfill_batch_def fill_domain_def Let_def)

lemma fill_not_lacks: "\<not> lacks_domain (fill_domain ds ca)"
  by (simp add: fill_domain_def filled_row)

lemma takes_fillable: "takes_domain ds (batch_targets env cs) ca \<Longrightarrow> fillable env ca"
  by (auto simp: takes_domain_def fillable_def batch_targets_def Let_def)

lemma batch_is_a_step:
  "map (\<lambda>ca. if fillable env ca then fill_domain ds ca else ca) (snd (backfill_batch env ds cs))
     = map (\<lambda>ca. if fillable env ca then fill_domain ds ca else ca) cs"
  unfolding batch_rows by (auto simp: fillable_def fill_not_lacks dest: takes_fillable)

lemma quiet_batch_is_done:
  assumes "fst (backfill_batch env ds cs) = 0" "\<And>xs. xs \<noteq> [] \<Longrightarrow> bf_pick env xs \<noteq> []"
    "\<And>xs. set (bf_pick env xs) \<subseteq> set xs"
    "\<And>ca. ca \<in> set cs \<Longrightarrow> lacks_domain ca \<Longrightarrow> domain_of_code ds (the (map_of ca ''domain'')) \<noteq> None"
    "ca \<in> set cs"
  shows "\<not> fillable env ca"
proof
  assume f: "fillable env ca"
  define free where "free = filter (\<lambda>i. \<not> bf_locked env i) (map (\<lambda>ca. the (map_of ca ''id'')) (filter lacks_domain cs))"
  have "the (map_of ca ''id'') \<in> set free" using f assms(5) by (auto simp: free_def fillable_def)
  then have "free \<noteq> []" by auto
  with assms(2,3) obtain i where i: "i \<in> set (bf_pick env free)" "i \<in> set free"
    by (meson in_mono last_in_set)
  then obtain cb where cb: "cb \<in> set cs" "lacks_domain cb" "the (map_of cb ''id'') = i" by (auto simp: free_def)
  have "i \<in> set (batch_targets env cs)" using i by (simp add: batch_targets_def free_def Let_def)
  with cb assms(4) have "takes_domain ds (batch_targets env cs) cb" by (simp add: takes_domain_def)
  with cb(1) assms(1) show False by (auto simp: backfill_batch_def Let_def filter_empty_conv)
qed

text \<open>C32: The backfill of 0019 ends, whatever rows each batch picks, and leaves exactly this: every case without a
  domain that no other transaction holds has the id of the domain its code names, and every other row is as it
  was. A case whose row is held stays without a domain; nothing comes back to it.\<close>

theorem backfill_fills_every_free_case:
  assumes "\<And>xs. xs \<noteq> [] \<Longrightarrow> bf_pick env xs \<noteq> []" "\<And>xs. set (bf_pick env xs) \<subseteq> set xs"
    "\<And>ca. ca \<in> set cs \<Longrightarrow> lacks_domain ca \<Longrightarrow> domain_of_code ds (the (map_of ca ''domain'')) \<noteq> None"
  shows "backfill_loop env ds cs =
    map (\<lambda>ca. if lacks_domain ca \<and> \<not> bf_locked env (the (map_of ca ''id'')) then fill_domain ds ca else ca) cs"
  unfolding fillable_def [symmetric]
  using assms
proof (induction env ds cs rule: backfill_loop.induct)
  case (1 env ds cs)
  let ?b = "backfill_batch env ds cs"
  show ?case
  proof (cases "fst ?b = 0")
    case True
    have no: "\<not> fillable env ca" if "ca \<in> set cs" for ca
      by (rule quiet_batch_is_done [OF True 1(2-4) that])
    then have "snd ?b = cs" unfolding batch_rows by (intro map_idI) (auto dest: takes_fillable)
    moreover have "map (\<lambda>ca. if fillable env ca then fill_domain ds ca else ca) cs = cs"
      by (rule map_idI) (simp add: no)
    ultimately show ?thesis using True by (subst backfill_loop.simps) (simp add: case_prod_beta)
  next
    case False
    have "backfill_loop env ds (snd ?b) = map (\<lambda>ca. if fillable env ca then fill_domain ds ca else ca) (snd ?b)"
    proof (rule "1.IH")
      fix ca assume ca: "ca \<in> set (snd ?b)" "lacks_domain ca"
      then have "ca \<in> set cs" unfolding batch_rows by (auto simp: fill_not_lacks split: if_splits)
      then show "domain_of_code ds (the (map_of ca ''domain'')) \<noteq> None" by (rule 1(4)) (rule ca(2))
    qed (use False 1(2,3) in simp_all)
    with False show ?thesis by (subst backfill_loop.simps) (simp add: case_prod_beta batch_is_a_step)
  qed
qed

theorem backfill_fills_every_free_case_witness:
  "backfill_loop demo_backfill [[(''id'', ''d1''), (''code'', ''small_claims'')]]
     [[(''id'', ''c1''), (''domain'', ''small_claims'')]]
   = [[(''id'', ''c1''), (''domain'', ''small_claims''), (''domain_id'', ''d1'')]]"
proof -
  have "bf_pick demo_backfill xs \<noteq> []" if "xs \<noteq> []" for xs :: "string list"
    using that by (simp add: demo_backfill_def)
  moreover have "set (bf_pick demo_backfill xs) \<subseteq> set xs" for xs
    by (simp add: demo_backfill_def set_take_subset)
  ultimately show ?thesis
    using backfill_fills_every_free_case [of demo_backfill "[[(''id'', ''c1''), (''domain'', ''small_claims'')]]"
        "[[(''id'', ''d1''), (''code'', ''small_claims'')]]"]
    by (simp add: domain_of_code_def fill_domain_def lacks_domain_def dict_has_def demo_backfill_def)
qed

end
