(* ===== verification/Model_Schema.thy ===== *)
theory Model_Schema
  imports Migration_Run
begin

text \<open>
  The tables of the ORM (\<open>src/models\<close>) as SQLAlchemy's metadata has them, from which \<open>scripts/reset_db.py\<close>
  builds a fresh database, and their comparison with the tables the migrations add up to.
\<close>

section \<open>The tables of the models\<close>

text \<open>The columns of the mixins.\<close>

definition timestamp_columns :: "column_def list" where
  "timestamp_columns =
     [not_null (defaults_to ''now()'' (sa_column ''created_at'' Timestamp_T)),
      sa_column ''updated_at'' Timestamp_T]"

definition uuid_key_columns :: "column_def list" where
  "uuid_key_columns =
     [key_column ''id'' Uuid_T]"

definition admin_events_table :: "string \<times> column_def list" where
  "admin_events_table = (''admin_events'',
     uuid_key_columns @ [not_null (refers_to ''users'' ''id'' None (sa_column ''actor_id'' Uuid_T)),
      not_null (sa_column ''action'' (Varchar_T 100)),
      sa_column ''payload'' Jsonb_T,
      not_null (defaults_to ''now()'' (sa_column ''created_at'' Timestamp_T))])"

definition audit_logs_table :: "string \<times> column_def list" where
  "audit_logs_table = (''audit_logs'',
     uuid_key_columns @ [not_null (refers_to ''cases'' ''id'' (Some ''CASCADE'') (sa_column ''case_id'' Uuid_T)),
      not_null (sa_column ''agent_name'' (Varchar_T 100)),
      not_null (sa_column ''action'' (Varchar_T 255)),
      sa_column ''input_payload'' Jsonb_T,
      sa_column ''output_payload'' Jsonb_T,
      sa_column ''system_prompt'' Text_T,
      sa_column ''llm_response'' Jsonb_T,
      sa_column ''tool_calls'' Jsonb_T,
      sa_column ''model'' (Varchar_T 100),
      sa_column ''token_usage'' Jsonb_T,
      not_null (defaults_to ''now()'' (sa_column ''created_at'' Timestamp_T)),
      sa_column ''trace_id'' Text_T,
      sa_column ''span_id'' Text_T,
      sa_column ''retrieved_source_ids'' Jsonb_T,
      sa_column ''cost_usd'' (Numeric_T 10 6),
      not_null (defaults_to ''false'' (sa_column ''redaction_applied'' Boolean_T)),
      refers_to ''judge_corrections'' ''id'' (Some ''SET NULL'') (sa_column ''judge_correction_id'' Bigint_T)])"

definition calibration_records_table :: "string \<times> column_def list" where
  "calibration_records_table = (''calibration_records'',
     uuid_key_columns @ [not_null (refers_to ''cases'' ''id'' (Some ''CASCADE'') (sa_column ''case_id'' Uuid_T)),
      not_null (refers_to ''users'' ''id'' None (sa_column ''judge_id'' Uuid_T)),
      sa_column ''ai_recommendation_type'' (Varchar_T 100),
      sa_column ''ai_confidence_score'' Integer_T,
      not_null (sa_column ''judge_decision'' (Varchar_T 50)),
      sa_column ''judge_modification_summary'' Text_T,
      not_null (sa_column ''divergence_score'' Float_T),
      not_null (defaults_to ''now()'' (sa_column ''created_at'' Timestamp_T))])"

definition cases_table :: "string \<times> column_def list" where
  "cases_table = (''cases'',
     uuid_key_columns @ timestamp_columns @ [not_null (sa_column ''domain'' (Enum_T ''casedomain'')),
      sa_column ''title'' (Varchar_T 255),
      sa_column ''description'' Text_T,
      sa_column ''filed_date'' Date_T,
      sa_column ''claim_amount'' Float_T,
      not_null (defaults_to ''false'' (sa_column ''consent_to_higher_claim_limit'' Boolean_T)),
      sa_column ''offence_code'' (Varchar_T 100),
      not_null (defaults_to ''pending'' (sa_column ''status'' (Enum_T ''casestatus''))),
      sa_column ''jurisdiction_valid'' Boolean_T,
      sa_column ''complexity'' (Enum_T ''casecomplexity''),
      sa_column ''route'' (Enum_T ''caseroute''),
      refers_to ''domains'' ''id'' None (sa_column ''domain_id'' Uuid_T),
      sa_column ''latest_run_id'' (Varchar_T 36),
      sa_column ''gate_state'' Jsonb_T,
      sa_column ''judicial_decision'' Jsonb_T,
      sa_column ''intake_extraction'' Jsonb_T,
      not_null (refers_to ''users'' ''id'' None (sa_column ''created_by'' Uuid_T))])"

definition parties_table :: "string \<times> column_def list" where
  "parties_table = (''parties'',
     uuid_key_columns @ [not_null (refers_to ''cases'' ''id'' (Some ''CASCADE'') (sa_column ''case_id'' Uuid_T)),
      not_null (sa_column ''name'' (Varchar_T 255)),
      not_null (sa_column ''role'' (Enum_T ''partyrole'')),
      sa_column ''contact_info'' Jsonb_T])"

definition documents_table :: "string \<times> column_def list" where
  "documents_table = (''documents'',
     uuid_key_columns @ [not_null (refers_to ''cases'' ''id'' (Some ''CASCADE'') (sa_column ''case_id'' Uuid_T)),
      sa_column ''openai_file_id'' (Varchar_T 255),
      not_null (sa_column ''filename'' (Varchar_T 255)),
      sa_column ''file_type'' (Varchar_T 100),
      not_null (defaults_to ''other'' (sa_column ''kind'' (Enum_T ''documentkind''))),
      sa_column ''pages'' Jsonb_T,
      sa_column ''parsed_text'' Jsonb_T,
      refers_to ''users'' ''id'' None (sa_column ''uploaded_by'' Uuid_T),
      not_null (defaults_to ''now()'' (sa_column ''uploaded_at'' Timestamp_T))])"

definition evidence_table :: "string \<times> column_def list" where
  "evidence_table = (''evidence'',
     uuid_key_columns @ [not_null (refers_to ''cases'' ''id'' (Some ''CASCADE'') (sa_column ''case_id'' Uuid_T)),
      refers_to ''documents'' ''id'' None (sa_column ''document_id'' Uuid_T),
      not_null (sa_column ''evidence_type'' (Enum_T ''evidencetype'')),
      sa_column ''strength'' (Enum_T ''evidencestrength''),
      sa_column ''admissibility_flags'' Jsonb_T,
      sa_column ''linked_claims'' Jsonb_T])"

definition facts_table :: "string \<times> column_def list" where
  "facts_table = (''facts'',
     uuid_key_columns @ [not_null (refers_to ''cases'' ''id'' (Some ''CASCADE'') (sa_column ''case_id'' Uuid_T)),
      sa_column ''event_date'' Date_T,
      sa_column ''event_time'' Time_T,
      not_null (sa_column ''description'' Text_T),
      refers_to ''documents'' ''id'' None (sa_column ''source_document_id'' Uuid_T),
      sa_column ''confidence'' (Enum_T ''factconfidence''),
      sa_column ''status'' (Enum_T ''factstatus''),
      sa_column ''corroboration'' Jsonb_T])"

definition witnesses_table :: "string \<times> column_def list" where
  "witnesses_table = (''witnesses'',
     uuid_key_columns @ [not_null (refers_to ''cases'' ''id'' (Some ''CASCADE'') (sa_column ''case_id'' Uuid_T)),
      not_null (sa_column ''name'' (Varchar_T 255)),
      sa_column ''role'' (Varchar_T 255),
      refers_to ''parties'' ''id'' None (sa_column ''party_id'' Uuid_T),
      sa_column ''credibility_score'' Integer_T,
      sa_column ''bias_indicators'' Jsonb_T,
      sa_column ''simulated_testimony'' Text_T])"

definition legal_rules_table :: "string \<times> column_def list" where
  "legal_rules_table = (''legal_rules'',
     uuid_key_columns @ [not_null (refers_to ''cases'' ''id'' (Some ''CASCADE'') (sa_column ''case_id'' Uuid_T)),
      not_null (sa_column ''statute_name'' (Varchar_T 255)),
      sa_column ''section'' (Varchar_T 255),
      sa_column ''verbatim_text'' Text_T,
      sa_column ''relevance_score'' Float_T,
      sa_column ''application'' Text_T])"

definition precedents_table :: "string \<times> column_def list" where
  "precedents_table = (''precedents'',
     uuid_key_columns @ [not_null (refers_to ''cases'' ''id'' (Some ''CASCADE'') (sa_column ''case_id'' Uuid_T)),
      not_null (sa_column ''citation'' (Varchar_T 255)),
      sa_column ''court'' (Varchar_T 255),
      sa_column ''outcome'' (Varchar_T 255),
      sa_column ''reasoning_summary'' Text_T,
      sa_column ''similarity_score'' Float_T,
      sa_column ''distinguishing_factors'' Text_T,
      sa_column ''source'' (Enum_T ''precedentsource''),
      sa_column ''url'' (Varchar_T 255)])"

definition arguments_table :: "string \<times> column_def list" where
  "arguments_table = (''arguments'',
     uuid_key_columns @ [not_null (refers_to ''cases'' ''id'' (Some ''CASCADE'') (sa_column ''case_id'' Uuid_T)),
      not_null (sa_column ''side'' (Enum_T ''argumentside'')),
      not_null (sa_column ''legal_basis'' Text_T),
      sa_column ''supporting_evidence'' Jsonb_T,
      sa_column ''weaknesses'' Text_T,
      sa_column ''suggested_questions'' Jsonb_T])"

definition hearing_analyses_table :: "string \<times> column_def list" where
  "hearing_analyses_table = (''hearing_analyses'',
     uuid_key_columns @ [not_null (refers_to ''cases'' ''id'' (Some ''CASCADE'') (sa_column ''case_id'' Uuid_T)),
      sa_column ''reasoning_chain'' Jsonb_T,
      sa_column ''preliminary_conclusion'' Text_T,
      sa_column ''uncertainty_flags'' Jsonb_T,
      sa_column ''confidence_score'' Integer_T])"

definition hearing_notes_table :: "string \<times> column_def list" where
  "hearing_notes_table = (''hearing_notes'',
     uuid_key_columns @ [not_null (refers_to ''cases'' ''id'' (Some ''CASCADE'') (sa_column ''case_id'' Uuid_T)),
      not_null (refers_to ''users'' ''id'' None (sa_column ''judge_id'' Uuid_T)),
      not_null (sa_column ''content'' Text_T),
      sa_column ''section_reference'' (Varchar_T 255),
      not_null (sa_column ''note_type'' (Varchar_T 50)),
      not_null (defaults_to ''false'' (sa_column ''is_locked'' Boolean_T)),
      not_null (defaults_to ''now()'' (sa_column ''created_at'' Timestamp_T)),
      sa_column ''updated_at'' Timestamp_T])"

definition reopen_requests_table :: "string \<times> column_def list" where
  "reopen_requests_table = (''reopen_requests'',
     uuid_key_columns @ [not_null (refers_to ''cases'' ''id'' (Some ''CASCADE'') (sa_column ''case_id'' Uuid_T)),
      not_null (refers_to ''users'' ''id'' None (sa_column ''requested_by'' Uuid_T)),
      not_null (sa_column ''reason'' (Varchar_T 50)),
      not_null (sa_column ''justification'' Text_T),
      not_null (defaults_to ''pending'' (sa_column ''status'' (Enum_T ''reopenrequeststatus''))),
      refers_to ''users'' ''id'' None (sa_column ''reviewed_by'' Uuid_T),
      sa_column ''review_notes'' Text_T,
      sa_column ''reviewed_at'' Timestamp_T,
      not_null (defaults_to ''now()'' (sa_column ''created_at'' Timestamp_T)),
      sa_column ''updated_at'' Timestamp_T])"

definition domains_table :: "string \<times> column_def list" where
  "domains_table = (''domains'',
     uuid_key_columns @ timestamp_columns @ [not_null (only_once (sa_column ''code'' (Varchar_T 100))),
      not_null (sa_column ''name'' (Varchar_T 255)),
      sa_column ''description'' Text_T,
      only_once (sa_column ''vector_store_id'' (Varchar_T 255)),
      not_null (defaults_to ''false'' (sa_column ''is_active'' Boolean_T)),
      refers_to ''users'' ''id'' None (sa_column ''created_by'' Uuid_T),
      sa_column ''provisioning_started_at'' Timestamp_T,
      not_null (defaults_to ''0'' (sa_column ''provisioning_attempts'' Integer_T))])"

definition domain_documents_table :: "string \<times> column_def list" where
  "domain_documents_table = (''domain_documents'',
     uuid_key_columns @ [not_null (refers_to ''domains'' ''id'' (Some ''CASCADE'') (sa_column ''domain_id'' Uuid_T)),
      sa_column ''openai_file_id'' (Varchar_T 255),
      sa_column ''sanitized_file_id'' (Varchar_T 255),
      not_null (sa_column ''filename'' (Varchar_T 500)),
      sa_column ''mime_type'' (Varchar_T 100),
      sa_column ''size_bytes'' Integer_T,
      not_null (defaults_to ''false'' (sa_column ''sanitized'' Boolean_T)),
      not_null (defaults_to ''pending'' (sa_column ''status'' (Varchar_T 20))),
      sa_column ''error_reason'' Text_T,
      not_null (sa_column ''idempotency_key'' Uuid_T),
      not_null (refers_to ''users'' ''id'' None (sa_column ''uploaded_by'' Uuid_T)),
      not_null (defaults_to ''now()'' (sa_column ''uploaded_at'' Timestamp_T))])"

definition judge_corrections_table :: "string \<times> column_def list" where
  "judge_corrections_table = (''judge_corrections'',
     [key_column ''id'' Bigint_T,
      not_null (refers_to ''cases'' ''id'' (Some ''CASCADE'') (sa_column ''case_id'' Uuid_T)),
      not_null (sa_column ''run_id'' Text_T),
      not_null (sa_column ''phase'' Text_T),
      sa_column ''subagent'' Text_T,
      not_null (sa_column ''correction_text'' Text_T),
      not_null (defaults_to ''now()'' (sa_column ''created_at'' Timestamp_T))])"

definition pipeline_checkpoints_table :: "string \<times> column_def list" where
  "pipeline_checkpoints_table = (''pipeline_checkpoints'',
     [not_null (sa_column ''case_id'' Uuid_T),
      not_null (sa_column ''run_id'' Text_T),
      not_null (sa_column ''agent_name'' Text_T),
      not_null (sa_column ''case_state'' Jsonb_T),
      not_null (defaults_to ''now()'' (sa_column ''updated_at'' Timestamp_T))])"

definition pipeline_events_table :: "string \<times> column_def list" where
  "pipeline_events_table = (''pipeline_events'',
     uuid_key_columns @ [not_null (sa_column ''case_id'' Uuid_T),
      not_null (sa_column ''kind'' Text_T),
      not_null (defaults_to ''1'' (sa_column ''schema_version'' Integer_T)),
      sa_column ''agent'' Text_T,
      not_null (defaults_to ''now()'' (sa_column ''ts'' Timestamp_T)),
      not_null (sa_column ''payload'' Jsonb_T)])"

definition pipeline_jobs_table :: "string \<times> column_def list" where
  "pipeline_jobs_table = (''pipeline_jobs'',
     uuid_key_columns @ [not_null (refers_to ''cases'' ''id'' (Some ''CASCADE'') (sa_column ''case_id'' Uuid_T)),
      not_null (sa_column ''job_type'' (Enum_T ''pipelinejobtype'')),
      sa_column ''target_id'' Uuid_T,
      not_null (defaults_to ''pending'' (sa_column ''status'' (Enum_T ''pipelinejobstatus''))),
      not_null (defaults_to ''0'' (sa_column ''attempts'' Integer_T)),
      sa_column ''payload'' Jsonb_T,
      sa_column ''traceparent'' Text_T,
      sa_column ''error_message'' Text_T,
      not_null (defaults_to ''now()'' (sa_column ''created_at'' Timestamp_T)),
      sa_column ''dispatched_at'' Timestamp_T,
      sa_column ''completed_at'' Timestamp_T])"

definition suppressed_citations_table :: "string \<times> column_def list" where
  "suppressed_citations_table = (''suppressed_citations'',
     [key_column ''id'' Bigint_T,
      not_null (refers_to ''cases'' ''id'' (Some ''CASCADE'') (sa_column ''case_id'' Uuid_T)),
      not_null (sa_column ''run_id'' Text_T),
      not_null (sa_column ''phase'' Text_T),
      sa_column ''subagent'' Text_T,
      not_null (sa_column ''citation_text'' Text_T),
      not_null (sa_column ''reason'' Text_T),
      not_null (defaults_to ''now()'' (sa_column ''created_at'' Timestamp_T))])"

definition system_config_table :: "string \<times> column_def list" where
  "system_config_table = (''system_config'',
     [key_column ''key'' (Varchar_T 100),
      not_null (sa_column ''value'' Jsonb_T),
      refers_to ''users'' ''id'' None (sa_column ''updated_by'' Uuid_T),
      not_null (defaults_to ''now()'' (sa_column ''updated_at'' Timestamp_T))])"

definition users_table :: "string \<times> column_def list" where
  "users_table = (''users'',
     uuid_key_columns @ timestamp_columns @ [not_null (sa_column ''name'' (Varchar_T 255)),
      not_null (only_once (sa_column ''email'' (Varchar_T 255))),
      not_null (sa_column ''role'' (Enum_T ''userrole'')),
      not_null (sa_column ''password_hash'' (Varchar_T 255)),
      sa_column ''knowledge_base_vector_store_id'' (Varchar_T 255)])"

definition sessions_table :: "string \<times> column_def list" where
  "sessions_table = (''sessions'',
     uuid_key_columns @ [not_null (refers_to ''users'' ''id'' None (sa_column ''user_id'' Uuid_T)),
      not_null (sa_column ''jwt_token_hash'' (Varchar_T 255)),
      not_null (sa_column ''expires_at'' Timestamp_T),
      not_null (defaults_to ''now()'' (sa_column ''created_at'' Timestamp_T))])"

definition password_reset_tokens_table :: "string \<times> column_def list" where
  "password_reset_tokens_table = (''password_reset_tokens'',
     uuid_key_columns @ [not_null (refers_to ''users'' ''id'' (Some ''CASCADE'') (sa_column ''user_id'' Uuid_T)),
      not_null (only_once (sa_column ''token_hash'' (Varchar_T 255))),
      not_null (sa_column ''expires_at'' Timestamp_T),
      sa_column ''used_at'' Timestamp_T,
      not_null (defaults_to ''now()'' (sa_column ''created_at'' Timestamp_T))])"

definition what_if_scenarios_table :: "string \<times> column_def list" where
  "what_if_scenarios_table = (''what_if_scenarios'',
     uuid_key_columns @ [not_null (refers_to ''cases'' ''id'' (Some ''CASCADE'') (sa_column ''case_id'' Uuid_T)),
      not_null (sa_column ''original_run_id'' (Varchar_T 255)),
      not_null (only_once (sa_column ''scenario_run_id'' (Varchar_T 255))),
      not_null (sa_column ''modification_type'' (Enum_T ''modificationtype'')),
      sa_column ''modification_description'' Text_T,
      sa_column ''modification_payload'' Jsonb_T,
      not_null (defaults_to ''pending'' (sa_column ''status'' (Enum_T ''scenariostatus''))),
      not_null (refers_to ''users'' ''id'' None (sa_column ''created_by'' Uuid_T)),
      not_null (defaults_to ''now()'' (sa_column ''created_at'' Timestamp_T)),
      sa_column ''completed_at'' Timestamp_T])"

definition what_if_results_table :: "string \<times> column_def list" where
  "what_if_results_table = (''what_if_results'',
     uuid_key_columns @ [not_null (refers_to ''what_if_scenarios'' ''id'' (Some ''CASCADE'') (only_once (sa_column ''scenario_id'' Uuid_T))),
      sa_column ''original_analysis'' Jsonb_T,
      sa_column ''modified_analysis'' Jsonb_T,
      sa_column ''diff_view'' Jsonb_T,
      not_null (sa_column ''analysis_changed'' Boolean_T),
      not_null (defaults_to ''now()'' (sa_column ''created_at'' Timestamp_T))])"

definition stability_scores_table :: "string \<times> column_def list" where
  "stability_scores_table = (''stability_scores'',
     uuid_key_columns @ [not_null (refers_to ''cases'' ''id'' (Some ''CASCADE'') (sa_column ''case_id'' Uuid_T)),
      not_null (sa_column ''run_id'' (Varchar_T 255)),
      not_null (sa_column ''score'' Integer_T),
      not_null (sa_column ''classification'' (Enum_T ''stabilityclassification'')),
      not_null (sa_column ''perturbation_count'' Integer_T),
      not_null (sa_column ''perturbations_held'' Integer_T),
      sa_column ''perturbation_details'' Jsonb_T,
      not_null (defaults_to ''pending'' (sa_column ''status'' (Enum_T ''stabilitystatus''))),
      not_null (defaults_to ''now()'' (sa_column ''created_at'' Timestamp_T)),
      sa_column ''completed_at'' Timestamp_T])"

definition model_tables :: "column_def list dict" where
  "model_tables =
     [admin_events_table, audit_logs_table, calibration_records_table, cases_table, parties_table,
      documents_table, evidence_table, facts_table, witnesses_table, legal_rules_table,
      precedents_table, arguments_table, hearing_analyses_table, hearing_notes_table,
      reopen_requests_table, domains_table, domain_documents_table, judge_corrections_table,
      pipeline_checkpoints_table, pipeline_events_table, pipeline_jobs_table,
      suppressed_citations_table, system_config_table, users_table, sessions_table,
      password_reset_tokens_table, what_if_scenarios_table, what_if_results_table,
      stability_scores_table]"


section \<open>The tables the migrations add up to\<close>

fun declare_ddl :: "ddl \<Rightarrow> column_def list dict \<Rightarrow> column_def list dict" where
  "declare_ddl (Create_Table t cs _) d = d @ [(t, cs)]"
| "declare_ddl (Drop_Table t) d = AList.delete t d"
| "declare_ddl (Add_Column t c) d = AList.map_entry t (\<lambda>cs. cs @ [c]) d"
| "declare_ddl (Drop_Column t n) d = AList.map_entry t (filter (\<lambda>c. cd_name c \<noteq> n)) d"
| "declare_ddl (Rename_Table a b) d = map (\<lambda>(t, cs). (renamed a b t, cs)) d"
| "declare_ddl (Rename_Column t a b) d = AList.map_entry t (map (\<lambda>c. c\<lparr>cd_name := renamed a b (cd_name c)\<rparr>)) d"
| "declare_ddl _ d = d"

definition declared_tables :: "migration list \<Rightarrow> column_def list dict" where
  "declared_tables ms = foldl (\<lambda>d x. declare_ddl x d) [] (concat (map mg_upgrade ms))"

datatype drift =
    Missing_Table string
  | Missing_Column string string
  | Surplus_Column string string
  | Different_Column string string
  | Surplus_Table string

text \<open>Everything of a column but the text of its default.\<close>

definition same_column :: "column_def \<Rightarrow> column_def \<Rightarrow> bool" where
  "same_column a b \<longleftrightarrow> cd_type a = cd_type b \<and> cd_nullable a = cd_nullable b \<and> cd_primary a = cd_primary b
     \<and> cd_unique a = cd_unique b \<and> cd_references a = cd_references b"

definition column_drift :: "string \<Rightarrow> column_def list \<Rightarrow> column_def list \<Rightarrow> drift list" where
  "column_drift t declared model =
     concat (map (\<lambda>m. case find (\<lambda>c. cd_name c = cd_name m) declared of
         None \<Rightarrow> [Missing_Column t (cd_name m)]
       | Some c \<Rightarrow> if same_column c m then [] else [Different_Column t (cd_name m)]) model)
     @ concat (map (\<lambda>c. if cd_name c \<in> set (map cd_name model) then [] else [Surplus_Column t (cd_name c)]) declared)"

definition schema_drift :: "column_def list dict \<Rightarrow> column_def list dict \<Rightarrow> drift list" where
  "schema_drift declared models =
     concat (map (\<lambda>(t, cs). case map_of declared t of
         None \<Rightarrow> [Missing_Table t]
       | Some cs' \<Rightarrow> column_drift t cs' cs) models)
     @ concat (map (\<lambda>(t, _). if t \<in> set (map fst models) then [] else [Surplus_Table t]) declared)"

text \<open>Statements on rows declare nothing, so the arguments of the migrations do not matter.\<close>

definition on_rows :: "ddl \<Rightarrow> bool" where
  "on_rows d = (case d of Insert_Row _ _ \<Rightarrow> True | Update_Rows _ _ \<Rightarrow> True | _ \<Rightarrow> False)"

lemma declare_on_rows: "on_rows x \<Longrightarrow> declare_ddl x d = d"
  by (cases x) (simp_all add: on_rows_def)

lemma declared_without_rows:
  "foldl (\<lambda>d x. declare_ddl x d) d xs = foldl (\<lambda>d x. declare_ddl x d) d (filter (\<lambda>x. \<not> on_rows x) xs)"
  by (induction xs arbitrary: d) (simp_all add: declare_on_rows)

lemma seeds_on_rows: "filter (\<lambda>x. \<not> on_rows x) (map2 insert_domain ids ds) = []"
  by (auto simp: filter_empty_conv insert_domain_def on_rows_def)

lemma declared_for_any:
  "declared_tables (migrations env) = declared_tables (migrations demo_backfill)"
proof -
  have 1: "filter (\<lambda>x. \<not> on_rows x) (upgrade_0012 l) = take 1 (upgrade_0012 (\<lambda>_ _. False))" for l
    by (simp add: upgrade_0012_def on_rows_def)
  have 2: "filter (\<lambda>x. \<not> on_rows x) (upgrade_0019 e) = take 3 (upgrade_0019 (demo_backfill\<lparr>bf_ids := []\<rparr>))" for e
    by (simp add: upgrade_0019_def seeds_on_rows) (simp add: on_rows_def)
  have "filter (\<lambda>x. \<not> on_rows x) (concat (map mg_upgrade (migrations env)))
      = filter (\<lambda>x. \<not> on_rows x) (concat (map mg_upgrade (migrations demo_backfill)))"
    unfolding migrations_def by (simp add: migration_0012_def migration_0019_def 1 2)
  then show ?thesis unfolding declared_tables_def by (subst (1 2) declared_without_rows) simp
qed


end
