(* ===== verification/Schema_Tools.thy ===== *)
theory Schema_Tools
  imports Model_Schema
begin

text \<open>
  The two scripts that go around the migrations (\<open>scripts/reset_db.py\<close>, \<open>scripts/fix_missing_columns.py\<close>): a
  schema built from the models and stamped with the head, and the repair of a database that was stamped without
  the migrations 0010 to 0019 having run.
\<close>

section \<open>Rebuilding the schema\<close>

text \<open>
  The schema is dropped and made anew from the metadata of the models; a stamp says that no migration is
  pending. The argument is the option \<open>--no-stamp\<close>.
\<close>

definition reset_schema :: "bool \<Rightarrow> migration list \<Rightarrow> string option \<times> column_def list dict" where
  "reset_schema no_stamp ms = (if no_stamp then None else revision_after ms, model_tables)"

text \<open>A stamped schema is at the head for good: an upgrade does nothing.\<close>

lemma stamped_schema_is_at_head:
  "run_migrations_online ex (migrations env) (fst (reset_schema False (migrations env)), s)
     = (True, revision_after (migrations env), s)"
  using pending_migrations [of env "migrations env" "[]"]
  by (simp add: run_migrations_online_def reset_schema_def)

section \<open>Repairing a stamped database\<close>

datatype repair =
    Ensure_Column string column_def
  | Ensure_Index string string "string list"
  | Ensure_Reference string string column_def

definition fixes_list :: "repair list" where
  "fixes_list =
    [Ensure_Column ''users'' (sa_column ''knowledge_base_vector_store_id'' (Varchar_T 255)),
     Ensure_Column ''cases'' (sa_column ''title'' (Varchar_T 255)),
     Ensure_Column ''cases'' (sa_column ''filed_date'' Date_T),
     Ensure_Column ''cases'' (sa_column ''claim_amount'' Float_T),
     Ensure_Column ''cases'' (not_null (defaults_to ''false'' (sa_column ''consent_to_higher_claim_limit'' Boolean_T))),
     Ensure_Column ''cases'' (sa_column ''offence_code'' (Varchar_T 100)),
     Ensure_Index ''ix_cases_filed_date'' ''cases'' [''filed_date''],
     Ensure_Index ''ix_cases_offence_code'' ''cases'' [''offence_code''],
     Ensure_Column ''cases'' (sa_column ''latest_run_id'' (Varchar_T 36)),
     Ensure_Column ''cases'' (sa_column ''gate_state'' Jsonb_T),
     Ensure_Column ''cases'' (sa_column ''judicial_decision'' Jsonb_T),
     Ensure_Column ''documents'' (sa_column ''pages'' Jsonb_T),
     Ensure_Reference ''domains'' ''cases'' (refers_to ''domains'' ''id'' None (sa_column ''domain_id'' Uuid_T))]"

text \<open>
  The statement a repair comes down to: none when what it ensures is there (\<open>IF NOT EXISTS\<close>). Each runs in its
  own transaction, and one that is refused is skipped.
\<close>

fun repair_statement :: "repair \<Rightarrow> catalog \<Rightarrow> ddl option" where
  "repair_statement (Ensure_Column t c) s =
     (if column_known s (t, cd_name c) then None else Some (Add_Column t c))"
| "repair_statement (Ensure_Index n t cs) s =
     (if map_of (ct_indexes s) n = None then Some (Create_Index n t cs None) else None)"
| "repair_statement (Ensure_Reference t0 t c) s =
     (if map_of (ct_relations s) t0 \<noteq> None \<and> \<not> column_known s (t, cd_name c) then Some (Add_Column t c) else None)"

definition repair_one :: "catalog \<Rightarrow> repair \<Rightarrow> catalog" where
  "repair_one s r =
     (case repair_statement r s of
        None \<Rightarrow> s
      | Some d \<Rightarrow> (case catalog_exec d s of None \<Rightarrow> s | Some s' \<Rightarrow> s'))"

definition fix_missing_columns :: "catalog \<Rightarrow> catalog" where
  "fix_missing_columns s = foldl repair_one s fixes_list"

text \<open>The repair never changes the type of a column that is there, nor the integrity of the database.\<close>

lemma repair_one_keeps:
  assumes "catalog_good s"
  shows "catalog_good (repair_one s r) \<and> (catalog_type s t c = Some ty \<longrightarrow> catalog_type (repair_one s r) t c = Some ty)"
proof (cases "repair_statement r s")
  case (Some d)
  show ?thesis
  proof (cases "catalog_exec d s")
    case (Some s')
    from Some have r: "repair_one s r = s'" using \<open>repair_statement r s = Some d\<close> by (simp add: repair_one_def)
    have "\<not> touches d t c" if "catalog_type s t c = Some ty"
    proof -
      from that have "column_known s (t, c)"
        by (auto simp: catalog_type_def column_known_def column_names_def find_Some_iff split: option.splits)
      with \<open>repair_statement r s = Some d\<close> show ?thesis by (cases r) (auto split: if_splits)
    qed
    with catalogue.untouched [OF assms Some] catalogue.stays_good [OF assms Some] show ?thesis by (simp add: r)
  qed (use assms Some in \<open>simp add: repair_one_def\<close>)
qed (use assms in \<open>simp add: repair_one_def\<close>)

lemma fix_keeps_columns:
  assumes "catalog_good s" "catalog_type s t c = Some ty"
  shows "catalog_good (fix_missing_columns s)" "catalog_type (fix_missing_columns s) t c = Some ty"
proof -
  have "catalog_good s' \<and> catalog_type s' t c = Some ty \<Longrightarrow>
      catalog_good (foldl repair_one s' rs) \<and> catalog_type (foldl repair_one s' rs) t c = Some ty" for rs s'
    by (induction rs arbitrary: s') (simp_all add: repair_one_keeps)
  with assms show "catalog_good (fix_missing_columns s)" "catalog_type (fix_missing_columns s) t c = Some ty"
    by (simp_all add: fix_missing_columns_def)
qed

text \<open>
  What the repair leaves out: of the tables the skipped migrations create, it makes none, so a database that was
  stamped at 0009 and repaired still has no jobs, no domains and no administrators' events.
\<close>

lemma repair_makes_no_table:
  assumes "map_of (ct_relations s) t = None"
  shows "map_of (ct_relations (fix_missing_columns s)) t = None"
proof -
  have one: "map_of (ct_relations (repair_one s' r)) t = None" if "map_of (ct_relations s') t = None" for s' r
  proof -
    have "d = Add_Column t' cd \<or> d = Create_Index n t' cs None
      \<Longrightarrow> catalog_exec d s' = Some s'' \<Longrightarrow> map_of (ct_relations s'') t = None" for d t' cd n cs s''
      using that by (auto simp: step_of_exec on_relation_def map_of_map_entry split: if_splits)
    moreover have "repair_statement r s' = Some d \<Longrightarrow>
      (\<exists>t' cd. d = Add_Column t' cd) \<or> (\<exists>n t' cs. d = Create_Index n t' cs None)" for d
      by (cases r) (auto split: if_splits)
    ultimately show ?thesis using that by (fastforce simp: repair_one_def split: option.split)
  qed
  have "map_of (ct_relations s') t = None \<Longrightarrow> map_of (ct_relations (foldl repair_one s' rs)) t = None" for rs s'
    by (induction rs arbitrary: s') (simp_all add: one)
  with assms show ?thesis by (simp add: fix_missing_columns_def)
qed

end
