(* ===== verification/Access.thy ===== *)
theory Access
  imports Case_Api
begin

text \<open>
  Who may do what: accounts, sessions and password resets (\<open>api/routes/auth.py\<close>), the check of the cookie
  and of the role (\<open>api/deps.py\<close>), the actions of administrators (\<open>api/routes/admin.py\<close>) and the CSRF
  middleware (\<open>api/middleware/csrf.py\<close>). The tokens, the hashes and the random strings come from
  libraries; their laws are \<open>crypto_ok\<close>.
\<close>

section \<open>Tables\<close>

record account =
  ac_id :: uuid
  ac_name :: string
  ac_email :: string
  ac_role :: user_role
  ac_password_hash :: string

record session_row =
  se_user :: uuid
  se_hash :: string
  se_expires :: int

record reset_row =
  rt_user :: uuid
  rt_hash :: string
  rt_expires :: int
  rt_used :: "int option"

record access =
  xs_users :: "account list"
  xs_sessions :: "session_row list"
  xs_resets :: "reset_row list"

section \<open>Tokens\<close>

record claims =
  cl_sub :: string
  cl_role :: string
  cl_exp :: int

datatype token_reading = Read_claims claims | Token_expired | Token_invalid

text \<open>
  PyJWT, SHA-256 and bcrypt: the encoding of claims, the reading of a token at a time in microseconds, the
  hash of a token, the hash of a password under a salt, and the check of a password, which raises
  \<open>ValueError\<close> (None) on a hash that is none.
\<close>

record crypto =
  cy_encode :: "claims \<Rightarrow> string"
  cy_decode :: "string \<Rightarrow> int \<Rightarrow> token_reading"
  cy_sha :: "string \<Rightarrow> string"
  cy_bcrypt :: "nat \<Rightarrow> string \<Rightarrow> string"
  cy_check :: "string \<Rightarrow> string \<Rightarrow> bool option"

text \<open>
  A token reads as what was encoded, until the second its expiry names; it is never the empty string; a
  password checks against its own hash.
\<close>

definition crypto_ok :: "crypto \<Rightarrow> bool" where
  "crypto_ok cy \<longleftrightarrow>
     (\<forall>c now. cy_decode cy (cy_encode cy c) now
        = (if cl_exp c * 1000000 \<le> now then Token_expired else Read_claims c))
     \<and> (\<forall>c. cy_encode cy c \<noteq> []) \<and> (\<forall>n pw. cy_check cy pw (cy_bcrypt cy n pw) = Some True)"

definition token_expiry_hours :: int where "token_expiry_hours = 24"

definition expiry_of :: "int \<Rightarrow> int" where
  "expiry_of now = now + token_expiry_hours * 3600 * 1000000"

text \<open>The expiry claim is in whole seconds.\<close>

definition create_token :: "crypto \<Rightarrow> int \<Rightarrow> account \<Rightarrow> string" where
  "create_token cy now u =
     cy_encode cy \<lparr>cl_sub = ac_id u, cl_role = role_value (ac_role u), cl_exp = expiry_of now div 1000000\<rparr>"

definition verify_password :: "crypto \<Rightarrow> string \<Rightarrow> string \<Rightarrow> bool" where
  "verify_password cy pw h = (case cy_check cy pw h of None \<Rightarrow> False | Some b \<Rightarrow> b)"

definition scalar_one_or_none :: "'a list \<Rightarrow> 'a option result" where
  "scalar_one_or_none xs =
     (case xs of [] \<Rightarrow> Inr None | [x] \<Rightarrow> Inr (Some x) | _ \<Rightarrow> Inl (OtherError ''MultipleResultsFound''))"

definition unauthorized :: "string \<Rightarrow> py_error" where "unauthorized d = HttpError 401 d"

section \<open>Authentication\<close>

definition authenticate_token :: "crypto \<Rightarrow> int \<Rightarrow> string option \<Rightarrow> access \<Rightarrow> account result" where
  "authenticate_token cy now vc_token st =
     (case vc_token of
        None \<Rightarrow> Inl (unauthorized ''Not authenticated'')
      | Some tok \<Rightarrow>
          if tok = [] then Inl (unauthorized ''Not authenticated'')
          else case cy_decode cy tok now of
                 Token_expired \<Rightarrow> Inl (unauthorized ''Token has expired'')
               | Token_invalid \<Rightarrow> Inl (unauthorized ''Invalid token'')
               | Read_claims c \<Rightarrow>
                   if cl_sub c = [] then Inl (unauthorized ''Invalid token payload'')
                   else bind_result (scalar_one_or_none (filter (\<lambda>u. ac_id u = cl_sub c) (xs_users st))) (\<lambda>found.
                     case found of
                       None \<Rightarrow> Inl (unauthorized ''User not found'')
                     | Some u \<Rightarrow>
                         bind_result (scalar_one_or_none (filter (\<lambda>s. se_user s = ac_id u
                             \<and> se_hash s = cy_sha cy tok \<and> now < se_expires s) (xs_sessions st)))
                         (\<lambda>session. case session of
                            None \<Rightarrow> Inl (unauthorized ''Session revoked or expired'')
                          | Some s \<Rightarrow> Inr u)))"

text \<open>The user of a request, once the cookie is checked.\<close>

definition user_of :: "account \<Rightarrow> user" where
  "user_of u = \<lparr>us_id = ac_id u, us_role = ac_role u\<rparr>"

section \<open>Endpoints\<close>

record registration =
  rg_name :: string
  rg_email :: string
  rg_password :: string
  rg_role :: user_role

definition register :: "crypto \<Rightarrow> nat \<Rightarrow> uuid \<Rightarrow> registration \<Rightarrow> access \<Rightarrow> (access \<times> account) result" where
  "register cy salt new_id b st =
     (if rg_name b = [] \<or> length (rg_name b) > 255 \<or> length (rg_password b) < 8
      then Inl (HttpError 422 ''Validation error'')
      else if \<exists>u \<in> set (xs_users st). ac_email u = rg_email b
      then Inl (HttpError 409 ''Email already registered'')
      else let u = \<lparr>ac_id = new_id, ac_name = rg_name b, ac_email = rg_email b, ac_role = rg_role b,
                     ac_password_hash = cy_bcrypt cy salt (rg_password b)\<rparr>
           in Inr (st\<lparr>xs_users := xs_users st @ [u]\<rparr>, u))"

definition login :: "crypto \<Rightarrow> int \<Rightarrow> string \<Rightarrow> string \<Rightarrow> access \<Rightarrow> (access \<times> string) result" where
  "login cy now email pw st =
     bind_result (scalar_one_or_none (filter (\<lambda>u. ac_email u = email) (xs_users st))) (\<lambda>found.
       case found of
         None \<Rightarrow> Inl (unauthorized ''Invalid email or password'')
       | Some u \<Rightarrow>
           if \<not> verify_password cy pw (ac_password_hash u)
           then Inl (unauthorized ''Invalid email or password'')
           else let token = create_token cy now u
                in Inr (st\<lparr>xs_sessions := xs_sessions st
                             @ [\<lparr>se_user = ac_id u, se_hash = cy_sha cy token, se_expires = expiry_of now\<rparr>]\<rparr>,
                        token))"

definition sessions_of_token :: "crypto \<Rightarrow> string \<Rightarrow> access \<Rightarrow> session_row list" where
  "sessions_of_token cy tok st = filter (\<lambda>s. se_hash s = cy_sha cy tok) (xs_sessions st)"

definition logout :: "crypto \<Rightarrow> string option \<Rightarrow> access \<Rightarrow> access result" where
  "logout cy vc_token st =
     (if vc_token = None \<or> vc_token = Some [] then Inr st
      else bind_result (scalar_one_or_none (sessions_of_token cy (the vc_token) st)) (\<lambda>session.
        case session of
          None \<Rightarrow> Inr st
        | Some _ \<Rightarrow> Inr (st\<lparr>xs_sessions := filter (\<lambda>s. se_hash s \<noteq> cy_sha cy (the vc_token)) (xs_sessions st)\<rparr>)))"

definition session_info :: "crypto \<Rightarrow> int \<Rightarrow> string option \<Rightarrow> access \<Rightarrow> (account \<times> int) result" where
  "session_info cy now vc_token st =
     bind_result (authenticate_token cy now vc_token st) (\<lambda>u.
     bind_result (scalar_one_or_none (sessions_of_token cy (the vc_token) st)) (\<lambda>session.
       case session of
         None \<Rightarrow> Inl (unauthorized ''Session revoked or expired'')
       | Some s \<Rightarrow> Inr (u, se_expires s)))"

definition extend_session :: "crypto \<Rightarrow> int \<Rightarrow> string option \<Rightarrow> access \<Rightarrow> (access \<times> string) result" where
  "extend_session cy now vc_token st =
     bind_result (authenticate_token cy now vc_token st) (\<lambda>u.
     bind_result (scalar_one_or_none (sessions_of_token cy (the vc_token) st)) (\<lambda>session.
       case session of
         None \<Rightarrow> Inl (unauthorized ''Session revoked or expired'')
       | Some _ \<Rightarrow>
           let token = create_token cy now u
           in Inr (st\<lparr>xs_sessions := map (\<lambda>s. if se_hash s = cy_sha cy (the vc_token)
                        then s\<lparr>se_hash := cy_sha cy token, se_expires := expiry_of now\<rparr> else s) (xs_sessions st)\<rparr>,
                   token)))"

text \<open>The random token, \<open>raw\<close>, and the minutes a reset lasts are arguments. Hashes of resets are unique.\<close>

definition request_password_reset ::
  "crypto \<Rightarrow> int \<Rightarrow> int \<Rightarrow> string \<Rightarrow> string \<Rightarrow> access \<Rightarrow> access result" where
  "request_password_reset cy now ttl_minutes raw email st =
     bind_result (scalar_one_or_none (filter (\<lambda>u. ac_email u = email) (xs_users st))) (\<lambda>found.
       case found of
         None \<Rightarrow> Inr st
       | Some u \<Rightarrow>
           if \<exists>r \<in> set (xs_resets st). rt_hash r = cy_sha cy raw then Inl (OtherError ''IntegrityError'')
           else Inr (st\<lparr>xs_resets := xs_resets st @ [\<lparr>rt_user = ac_id u, rt_hash = cy_sha cy raw,
                          rt_expires = now + ttl_minutes * 60 * 1000000, rt_used = None\<rparr>]\<rparr>))"

definition invalid_reset :: py_error where "invalid_reset = HttpError 400 ''Invalid or expired reset token''"

definition verify_password_reset ::
  "crypto \<Rightarrow> nat \<Rightarrow> int \<Rightarrow> string \<Rightarrow> string \<Rightarrow> access \<Rightarrow> access result" where
  "verify_password_reset cy salt now tok new_password st =
     (if tok = [] \<or> length new_password < 8 then Inl (HttpError 422 ''Validation error'')
      else bind_result (scalar_one_or_none (filter (\<lambda>r. rt_hash r = cy_sha cy tok) (xs_resets st))) (\<lambda>found.
        case found of
          None \<Rightarrow> Inl invalid_reset
        | Some r \<Rightarrow>
            if rt_used r \<noteq> None \<or> rt_expires r \<le> now then Inl invalid_reset
            else bind_result (scalar_one_or_none (filter (\<lambda>u. ac_id u = rt_user r) (xs_users st))) (\<lambda>user.
              case user of
                None \<Rightarrow> Inl invalid_reset
              | Some u \<Rightarrow>
                  Inr (st\<lparr>xs_users := map (\<lambda>x. if ac_id x = ac_id u
                              then x\<lparr>ac_password_hash := cy_bcrypt cy salt new_password\<rparr> else x) (xs_users st),
                          xs_resets := map (\<lambda>x. if rt_hash x = cy_sha cy tok then x\<lparr>rt_used := Some now\<rparr> else x)
                              (xs_resets st)\<rparr>))))"

section \<open>Administrators\<close>

definition manage_user_action ::
  "request \<Rightarrow> uuid \<Rightarrow> string \<Rightarrow> user_role option \<Rightarrow> access \<Rightarrow> (access \<times> string) result" where
  "manage_user_action rq target action new_role st =
     bind_result (require_role [user_role.Admin] rq) (\<lambda>_.
     bind_result (scalar_one_or_none (filter (\<lambda>u. ac_id u = target) (xs_users st))) (\<lambda>found.
       if found = None then Inl (HttpError 404 ''User not found'')
       else let a = py_lower (py_strip action)
            in if a = ''set-role''
               then (case new_role of
                       None \<Rightarrow> Inl (HttpError 400 ''role is required for set-role action'')
                     | Some r \<Rightarrow> Inr (st\<lparr>xs_users := map (\<lambda>u. if ac_id u = target then u\<lparr>ac_role := r\<rparr> else u)
                                   (xs_users st)\<rparr>, ''User role updated''))
               else if a = ''revoke-sessions''
               then Inr (st\<lparr>xs_sessions := map (\<lambda>s. if se_user s = target then s\<lparr>se_expires := rq_now rq\<rparr> else s)
                              (xs_sessions st)\<rparr>, ''User sessions revoked'')
               else Inl (HttpError 400 ''Unsupported action. Use set-role or revoke-sessions.'')))"

record config_row =
  cf_value :: pydict
  cf_updated_by :: uuid

definition set_cost_config :: "request \<Rightarrow> pydict \<Rightarrow> config_row dict \<Rightarrow> config_row dict result" where
  "set_cost_config rq config rows =
     bind_result (require_role [user_role.Admin] rq) (\<lambda>_.
       Inr (dict_set ''cost_config''
              \<lparr>cf_value = filter (\<lambda>(k, v). v \<noteq> PNone) config, cf_updated_by = us_id (rq_user rq)\<rparr> rows))"

section \<open>CSRF\<close>

datatype csrf_verdict = Csrf_passed | Csrf_missing | Csrf_mismatch

definition safe_methods :: "string list" where "safe_methods = [''GET'', ''HEAD'', ''OPTIONS'']"

definition exempt_paths :: "string list" where
  "exempt_paths = [''/api/v1/auth/csrf-token'', ''/api/v1/auth/login'', ''/api/v1/auth/logout'', ''/health'',
     ''/metrics'', ''/openapi.json'', ''/docs'', ''/redoc'']"

definition csrf_dispatch :: "string \<Rightarrow> string \<Rightarrow> string option \<Rightarrow> string option \<Rightarrow> csrf_verdict" where
  "csrf_dispatch method path cookie header =
     (if method \<in> set safe_methods \<or> path \<in> set exempt_paths then Csrf_passed
      else let c = (case cookie of None \<Rightarrow> [] | Some x \<Rightarrow> x); h = (case header of None \<Rightarrow> [] | Some x \<Rightarrow> x)
           in if c = [] \<or> h = [] then Csrf_missing else if c \<noteq> h then Csrf_mismatch else Csrf_passed)"

lemma csrf_needs_the_cookie:
  "csrf_dispatch ''POST'' path cookie header = Csrf_passed \<Longrightarrow> path \<notin> set exempt_paths \<Longrightarrow>
     cookie = header \<and> cookie \<noteq> None \<and> cookie \<noteq> Some []"
  by (auto simp: csrf_dispatch_def safe_methods_def Let_def split: if_splits option.splits)

section \<open>Steps\<close>

inductive access_step :: "crypto \<Rightarrow> access \<Rightarrow> access \<Rightarrow> bool" for cy where
  reg: "register cy salt new_id b st = Inr (st', u) \<Longrightarrow> access_step cy st st'"
| enter: "login cy now email pw st = Inr (st', tok) \<Longrightarrow> access_step cy st st'"
| leave: "logout cy tok st = Inr st' \<Longrightarrow> access_step cy st st'"
| extend: "extend_session cy now tok st = Inr (st', tok') \<Longrightarrow> access_step cy st st'"
| ask: "request_password_reset cy now ttl raw email st = Inr st' \<Longrightarrow> access_step cy st st'"
| reset: "verify_password_reset cy salt now tok pw st = Inr st' \<Longrightarrow> access_step cy st st'"
| manage: "manage_user_action rq target action role st = Inr (st', msg) \<Longrightarrow> access_step cy st st'"

lemma scalar_Inr: "scalar_one_or_none xs = Inr x \<longleftrightarrow> (xs = [] \<and> x = None) \<or> (\<exists>y. xs = [y] \<and> x = Some y)"
  by (auto simp: scalar_one_or_none_def split: list.splits)

lemma scalar_simps [simp]: "scalar_one_or_none [] = Inr None" "scalar_one_or_none [x] = Inr (Some x)"
  by (simp_all add: scalar_one_or_none_def)

section \<open>Properties\<close>

definition used_reset :: "string \<Rightarrow> access \<Rightarrow> bool" where
  "used_reset h st \<longleftrightarrow> (\<exists>r. filter (\<lambda>r. rt_hash r = h) (xs_resets st) = [r] \<and> rt_used r \<noteq> None)"

lemma filter_kept: "(\<And>x. P (f x) = P x) \<Longrightarrow> filter P (map f xs) = map f (filter P xs)"
  by (induction xs) auto

lemma bind_scalar:
  assumes "bind_result (scalar_one_or_none xs) f = Inr y"
  obtains "xs = []" "f None = Inr y" | x where "xs = [x]" "f (Some x) = Inr y"
  using assms by (auto simp: bind_result_Inr scalar_Inr)

lemma bind_InrE:
  assumes "bind_result m f = Inr y"
  obtains x where "m = Inr x" "f x = Inr y"
  using assms by (auto simp: bind_result_Inr)

lemma verify_resetD:
  assumes "verify_password_reset cy salt now tok pw st = Inr st'"
  shows "\<exists>r u. filter (\<lambda>r. rt_hash r = cy_sha cy tok) (xs_resets st) = [r] \<and> rt_used r = None \<and> now < rt_expires r
     \<and> filter (\<lambda>u. ac_id u = rt_user r) (xs_users st) = [u]
     \<and> xs_resets st' = map (\<lambda>x. if rt_hash x = cy_sha cy tok then x\<lparr>rt_used := Some now\<rparr> else x) (xs_resets st)
     \<and> xs_users st' = map (\<lambda>x. if ac_id x = ac_id u then x\<lparr>ac_password_hash := cy_bcrypt cy salt pw\<rparr> else x) (xs_users st)
     \<and> xs_sessions st' = xs_sessions st"
  using assms unfolding verify_password_reset_def
  by (auto elim!: bind_scalar split: if_splits)

lemma used_after_verify:
  assumes "verify_password_reset cy salt now tok pw st = Inr st'"
  shows "used_reset (cy_sha cy tok) st'"
proof -
  obtain r where r: "filter (\<lambda>r. rt_hash r = cy_sha cy tok) (xs_resets st) = [r]"
    "xs_resets st' = map (\<lambda>x. if rt_hash x = cy_sha cy tok then x\<lparr>rt_used := Some now\<rparr> else x) (xs_resets st)"
    using verify_resetD [OF assms] by blast
  have "rt_hash r = cy_sha cy tok" using r(1) by (auto simp: filter_eq_Cons_iff)
  then show ?thesis unfolding used_reset_def r(2) by (subst filter_kept) (auto simp: r(1))
qed

lemma resets_kept:
  assumes "access_step cy st st'"
  shows "xs_resets st' = xs_resets st
    \<or> (\<exists>r. xs_resets st' = xs_resets st @ [r] \<and> (\<forall>x \<in> set (xs_resets st). rt_hash x \<noteq> rt_hash r))
    \<or> (\<exists>h now. xs_resets st' = map (\<lambda>x. if rt_hash x = h then x\<lparr>rt_used := Some now\<rparr> else x) (xs_resets st))"
  using assms
proof (cases rule: access_step.cases)
  case (ask now ttl raw email)
  then show ?thesis unfolding request_password_reset_def by (auto elim!: bind_scalar split: if_splits)
next
  case (reset salt now tok pw)
  show ?thesis using verify_resetD [OF reset] by blast
next
  case (reg salt new_id b u)
  then show ?thesis by (auto simp: register_def Let_def split: if_splits)
next
  case (enter now email pw tok)
  then show ?thesis unfolding login_def by (auto elim!: bind_scalar simp: Let_def split: if_splits)
next
  case (leave tok)
  then show ?thesis unfolding logout_def by (auto elim!: bind_scalar split: if_splits)
next
  case (extend now tok tok')
  then show ?thesis unfolding extend_session_def 
    by (auto elim!: bind_InrE simp: scalar_Inr Let_def)
next
  case (manage rq target action role msg)
  then show ?thesis
    by (auto simp: manage_user_action_def bind_result_Inr Let_def split: option.splits if_splits)
qed

lemma used_reset_step:
  assumes "access_step cy st st'" "used_reset h st"
  shows "used_reset h st'"
proof -
  obtain r where r: "filter (\<lambda>r. rt_hash r = h) (xs_resets st) = [r]" "rt_used r \<noteq> None"
    using assms(2) by (auto simp: used_reset_def)
  have m: "r \<in> set (xs_resets st)" "rt_hash r = h" using r(1) by (auto simp: filter_eq_Cons_iff)
  from resets_kept [OF assms(1)] show ?thesis
  proof (elim disjE exE conjE)
    fix h' now
    assume e: "xs_resets st' = map (\<lambda>x. if rt_hash x = h' then x\<lparr>rt_used := Some now\<rparr> else x) (xs_resets st)"
    show ?thesis unfolding used_reset_def e by (subst filter_kept) (use r in auto)
  qed (use r m in \<open>auto simp: used_reset_def\<close>)
qed

text \<open>C22: A reset token sets a password at most once: after it was accepted, no verification with it succeeds
  again, at any time, with any password, whatever is registered, requested, reset or administered in
  between.\<close>

theorem reset_token_works_once:
  assumes "verify_password_reset cy salt now tok pw st = Inr st1" and "(access_step cy)\<^sup>*\<^sup>* st1 st2"
  shows "\<exists>e. verify_password_reset cy salt2 now2 tok pw2 st2 = Inl e"
proof -
  have "used_reset (cy_sha cy tok) st2"
    using assms(2) used_after_verify [OF assms(1)]
    by (induction rule: rtranclp_induct) (auto intro: used_reset_step)
  then show ?thesis by (auto simp: used_reset_def verify_password_reset_def)
qed

text \<open>An instance of the libraries: claims are written out with their lengths, hashes are the identity.\<close>

definition write_text :: "string \<Rightarrow> string" where
  "write_text x = replicate (length x) CHR ''1'' @ CHR ''0'' # x"

definition read_text :: "string \<Rightarrow> string \<times> string" where
  "read_text s = (let n = length (takeWhile (\<lambda>c. c = CHR ''1'') s); rest = drop (n + 1) s
                  in (take n rest, drop n rest))"

definition write_int :: "int \<Rightarrow> string" where
  "write_int i = (if i < 0 then CHR ''-'' else CHR ''+'') # replicate (nat \<bar>i\<bar>) CHR ''1''"

definition read_int :: "string \<Rightarrow> int" where
  "read_int s = (case s of [] \<Rightarrow> 0 | c # ds \<Rightarrow> if c = CHR ''-'' then - int (length ds) else int (length ds))"

definition write_claims :: "claims \<Rightarrow> string" where
  "write_claims c = write_text (cl_sub c) @ write_text (cl_role c) @ write_int (cl_exp c)"

definition read_claims :: "string \<Rightarrow> claims" where
  "read_claims s = (let (sub, s1) = read_text s; (role, s2) = read_text s1
                    in \<lparr>cl_sub = sub, cl_role = role, cl_exp = read_int s2\<rparr>)"

definition plain_crypto :: crypto where
  "plain_crypto = \<lparr>cy_encode = write_claims,
     cy_decode = (\<lambda>s now. if cl_exp (read_claims s) * 1000000 \<le> now then Token_expired
                          else Read_claims (read_claims s)),
     cy_sha = (\<lambda>s. s), cy_bcrypt = (\<lambda>n pw. pw), cy_check = (\<lambda>pw h. Some (pw = h))\<rparr>"

lemma read_write_text: "read_text (write_text x @ y) = (x, y)"
proof -
  have "takeWhile (\<lambda>c. c = CHR ''1'') (replicate n CHR ''1'' @ CHR ''0'' # z) = replicate n CHR ''1''" for n z
    by (induction n) auto
  then show ?thesis by (simp add: read_text_def write_text_def Let_def)
qed

lemma read_write_int: "read_int (write_int i) = i"
  by (simp add: read_int_def write_int_def)

lemma plain_crypto_ok: "crypto_ok plain_crypto"
proof -
  have "read_claims (write_claims c) = c" for c
    using read_write_text [of "cl_role c" "write_int (cl_exp c)"]
    by (simp add: read_claims_def write_claims_def read_write_text read_write_int Let_def)
  moreover have "write_claims c \<noteq> []" for c by (simp add: write_claims_def write_text_def)
  ultimately show ?thesis by (simp add: crypto_ok_def plain_crypto_def)
qed

definition sample_account :: account where
  "sample_account = \<lparr>ac_id = ''u1'', ac_name = ''J'', ac_email = ''j@court'', ac_role = user_role.Judge,
     ac_password_hash = ''secret99''\<rparr>"

definition sample_reset :: reset_row where
  "sample_reset = \<lparr>rt_user = ''u1'', rt_hash = ''r'', rt_expires = 100, rt_used = None\<rparr>"

definition sample_access :: access where
  "sample_access = \<lparr>xs_users = [sample_account], xs_sessions = [], xs_resets = [sample_reset]\<rparr>"

theorem reset_token_works_once_witness:
  "\<exists>st1 e. verify_password_reset plain_crypto 0 7 ''r'' ''password'' sample_access = Inr st1
     \<and> verify_password_reset plain_crypto 0 8 ''r'' ''passwort'' st1 = Inl e"
proof -
  obtain st1 where v: "verify_password_reset plain_crypto 0 7 ''r'' ''password'' sample_access = Inr st1"
    by (simp add: verify_password_reset_def plain_crypto_def sample_access_def sample_reset_def sample_account_def)
  from reset_token_works_once [OF v rtranclp.rtrancl_refl] v show ?thesis by blast
qed

text \<open>What a login leaves behind.\<close>

lemma loginD:
  assumes "login cy now email pw st = Inr (st', tok)"
  shows "\<exists>u. filter (\<lambda>u. ac_email u = email) (xs_users st) = [u] \<and> verify_password cy pw (ac_password_hash u)
     \<and> tok = create_token cy now u \<and> xs_users st' = xs_users st
     \<and> xs_sessions st' = xs_sessions st @ [\<lparr>se_user = ac_id u, se_hash = cy_sha cy tok, se_expires = expiry_of now\<rparr>]"
  using assms unfolding login_def by (auto elim!: bind_scalar simp: Let_def split: if_splits)

lemma decode_created:
  assumes "crypto_ok cy"
  shows "cy_decode cy (create_token cy now u) t =
    (if expiry_of now div 1000000 * 1000000 \<le> t then Token_expired
     else Read_claims \<lparr>cl_sub = ac_id u, cl_role = role_value (ac_role u), cl_exp = expiry_of now div 1000000\<rparr>)"
    and "create_token cy now u \<noteq> []"
  using assms by (auto simp: crypto_ok_def create_token_def)

lemma authenticate_created:
  assumes "crypto_ok cy" "ac_id u \<noteq> []" "filter (\<lambda>x. ac_id x = ac_id u) (xs_users st) = [u]"
    and "t < expiry_of now div 1000000 * 1000000"
  shows "authenticate_token cy t (Some (create_token cy now u)) st =
    bind_result (scalar_one_or_none (filter (\<lambda>s. se_user s = ac_id u
        \<and> se_hash s = cy_sha cy (create_token cy now u) \<and> t < se_expires s) (xs_sessions st)))
      (\<lambda>session. case session of None \<Rightarrow> Inl (unauthorized ''Session revoked or expired'') | Some s \<Rightarrow> Inr u)"
  using assms decode_created(1) [OF assms(1), of now u t] decode_created(2) [OF assms(1), of now u] by (simp add: authenticate_token_def)

lemma filter_unique: "distinct (map f xs) \<Longrightarrow> u \<in> set xs \<Longrightarrow> filter (\<lambda>x. f x = f u) xs = [u]"
proof (induction xs)
  case (Cons x xs)
  then show ?case by (cases "x = u") (auto simp: filter_empty_conv image_iff)
qed simp

lemma email_account:
  assumes "filter (\<lambda>u. ac_email u = email) (xs_users st) = [u]" "distinct (map ac_id (xs_users st))"
  shows "filter (\<lambda>x. ac_id x = ac_id u) (xs_users st) = [u]"
proof -
  have "u \<in> set (xs_users st)" using arg_cong [OF assms(1), of set] by auto
  then show ?thesis using assms(2) by (rule filter_unique [rotated])
qed

text \<open>A login opens a session of the user it found: its token is that user's until the last whole second
  before the expiry, it is refused as expired from then on, and a logout with it ends it at once. (The user
  has no session with the same token yet.)\<close>

lemma login_opens_a_session:
  assumes cy: "crypto_ok cy" and l: "login cy now email pw st = Inr (st1, tok)"
    and ids: "distinct (map ac_id (xs_users st))" "\<And>u. u \<in> set (xs_users st) \<Longrightarrow> ac_id u \<noteq> []"
    and fresh: "sessions_of_token cy tok st = []"
  shows "\<exists>u \<in> set (xs_users st). ac_email u = email
     \<and> (\<forall>t. authenticate_token cy t (Some tok) st1
          = (if t < expiry_of now div 1000000 * 1000000 then Inr u else Inl (unauthorized ''Token has expired'')))
     \<and> (\<exists>st2. logout cy (Some tok) st1 = Inr st2 \<and> (\<forall>t. \<exists>e. authenticate_token cy t (Some tok) st2 = Inl e))"
proof -
  let ?limit = "expiry_of now div 1000000 * 1000000"
  obtain u where u: "filter (\<lambda>u. ac_email u = email) (xs_users st) = [u]" "tok = create_token cy now u"
    "xs_users st1 = xs_users st"
    "xs_sessions st1 = xs_sessions st @ [\<lparr>se_user = ac_id u, se_hash = cy_sha cy tok, se_expires = expiry_of now\<rparr>]"
    using loginD [OF l] by blast
  have m: "u \<in> set (xs_users st)" "ac_email u = email" using u(1) by (auto simp: filter_eq_Cons_iff)
  have one: "filter (\<lambda>x. ac_id x = ac_id u) (xs_users st) = [u]" by (rule filter_unique [OF ids(1) m(1)])
  have none: "\<And>s. s \<in> set (xs_sessions st) \<Longrightarrow> se_hash s \<noteq> cy_sha cy tok"
    using fresh by (auto simp: sessions_of_token_def filter_empty_conv)
  have tok: "tok \<noteq> []" using decode_created(2) [OF cy] u(2) by simp
  have late: "authenticate_token cy t (Some tok) st' = Inl (unauthorized ''Token has expired'')"
    if "?limit \<le> t" for t st'
    using that tok by (simp add: authenticate_token_def u(2) decode_created(1) [OF cy])
  have early: "authenticate_token cy t (Some tok) st1 = Inr u" if t: "t < ?limit" for t
  proof -
    have "t < expiry_of now" using t by linarith
    then have f: "filter (\<lambda>s. se_user s = ac_id u \<and> se_hash s = cy_sha cy tok \<and> t < se_expires s) (xs_sessions st1)
      = [\<lparr>se_user = ac_id u, se_hash = cy_sha cy tok, se_expires = expiry_of now\<rparr>]"
      using none by (auto simp: u(4) filter_empty_conv)
    show ?thesis
      using authenticate_created [OF cy ids(2) [OF m(1)], of st1 t now] one t f u(2,3) by simp
  qed
  define st2 where "st2 = st1\<lparr>xs_sessions := filter (\<lambda>s. se_hash s \<noteq> cy_sha cy tok) (xs_sessions st1)\<rparr>"
  have "sessions_of_token cy tok st1 = [\<lparr>se_user = ac_id u, se_hash = cy_sha cy tok, se_expires = expiry_of now\<rparr>]"
    using fresh by (simp add: sessions_of_token_def u(4))
  then have out: "logout cy (Some tok) st1 = Inr st2" using tok by (simp add: logout_def st2_def)
  have gone: "\<exists>e. authenticate_token cy t (Some tok) st2 = Inl e" for t
  proof (cases "t < ?limit")
    case True
    have f: "filter (\<lambda>s. se_user s = ac_id u \<and> se_hash s = cy_sha cy tok \<and> t < se_expires s) (xs_sessions st2) = []"
      by (auto simp: st2_def filter_empty_conv)
    have "xs_users st2 = xs_users st" using u(3) by (simp add: st2_def)
    then show ?thesis
      using authenticate_created [OF cy ids(2) [OF m(1)], of st2 t now] one True f u(2) by simp
  qed (use late in auto)
  show ?thesis
    using m early late out gone by (intro bexI [of _ u]) (auto simp: not_less)
qed

definition signed_in :: "access \<times> string" where
  "signed_in = (case login plain_crypto 5 ''j@court'' ''secret99'' sample_access of Inr r \<Rightarrow> r | Inl _ \<Rightarrow> (sample_access, []))"

lemma sample_login: "login plain_crypto t ''j@court'' ''secret99'' sample_access
  = Inr (sample_access\<lparr>xs_sessions := [\<lparr>se_user = ''u1'', se_hash = create_token plain_crypto t sample_account,
           se_expires = expiry_of t\<rparr>]\<rparr>, create_token plain_crypto t sample_account)"
  by (simp add: login_def sample_access_def sample_account_def verify_password_def plain_crypto_def Let_def)

lemma login_opens_a_session_witness:
  "authenticate_token plain_crypto 7 (Some (snd signed_in)) (fst signed_in) = Inr sample_account"
proof -
  obtain st1 tok where l: "login plain_crypto 5 ''j@court'' ''secret99'' sample_access = Inr (st1, tok)"
    using sample_login by blast
  then have e: "signed_in = (st1, tok)" by (simp add: signed_in_def)
  have "sessions_of_token plain_crypto tok sample_access = []" by (simp add: sessions_of_token_def sample_access_def)
  then show ?thesis
    using login_opens_a_session [OF plain_crypto_ok l]
    unfolding e by (auto simp: sample_access_def sample_account_def expiry_of_def token_expiry_hours_def)
qed

lemma scalar_many: "2 \<le> length xs \<Longrightarrow> scalar_one_or_none xs = Inl (OtherError ''MultipleResultsFound'')"
  by (auto simp: scalar_one_or_none_def split: list.splits)

text \<open>C23: The expiry of a token counts whole seconds and nothing else tells two tokens of a user apart: two
  logins of a user within one second give the same token and two sessions. As long as the token lasts, every
  request with it then fails with an error the endpoints do not expect (a 500), the logout too.\<close>

theorem simultaneous_logins_lock_out:
  assumes cy: "crypto_ok cy" and l1: "login cy now1 email pw st = Inr (st1, tok1)"
    and l2: "login cy now2 email pw' st1 = Inr (st2, tok2)"
    and second: "expiry_of now1 div 1000000 = expiry_of now2 div 1000000"
    and ids: "distinct (map ac_id (xs_users st))" "\<And>u. u \<in> set (xs_users st) \<Longrightarrow> ac_id u \<noteq> []"
    and t: "t < expiry_of now1 div 1000000 * 1000000"
  shows "tok2 = tok1 \<and> authenticate_token cy t (Some tok1) st2 = Inl (OtherError ''MultipleResultsFound'')
    \<and> logout cy (Some tok1) st2 = Inl (OtherError ''MultipleResultsFound'')"
proof -
  obtain u where u: "filter (\<lambda>u. ac_email u = email) (xs_users st) = [u]" "tok1 = create_token cy now1 u"
    "xs_users st1 = xs_users st"
    "xs_sessions st1 = xs_sessions st @ [\<lparr>se_user = ac_id u, se_hash = cy_sha cy tok1, se_expires = expiry_of now1\<rparr>]"
    using loginD [OF l1] by blast
  then obtain v: "tok2 = create_token cy now2 u" and w: "xs_users st2 = xs_users st"
    "xs_sessions st2 = xs_sessions st1 @ [\<lparr>se_user = ac_id u, se_hash = cy_sha cy tok2, se_expires = expiry_of now2\<rparr>]"
    using loginD [OF l2] by fastforce
  have same: "tok2 = tok1" using u(2) v second by (simp add: create_token_def)
  have m: "u \<in> set (xs_users st)" using u(1) by (auto simp: filter_eq_Cons_iff)
  have one: "filter (\<lambda>x. ac_id x = ac_id u) (xs_users st) = [u]" by (rule filter_unique [OF ids(1) m])
  have tok: "tok1 \<noteq> []" using decode_created(2) [OF cy] u(2) by simp
  have late: "t < expiry_of now1" "t < expiry_of now2" using t second by linarith+
  let ?rows = "\<lambda>P. filter P (xs_sessions st2)"
  have two: "2 \<le> length (?rows (\<lambda>s. se_user s = ac_id u \<and> se_hash s = cy_sha cy tok1 \<and> t < se_expires s))"
    "2 \<le> length (sessions_of_token cy tok1 st2)"
    using late by (simp_all add: sessions_of_token_def w(2) u(4) same)
  have "authenticate_token cy t (Some tok1) st2 = Inl (OtherError ''MultipleResultsFound'')"
    using authenticate_created [OF cy ids(2) [OF m], of st2 t now1] one w(1) t scalar_many [OF two(1)] u(2) by simp
  then show ?thesis using same scalar_many [OF two(2)] tok by (simp add: logout_def)
qed

theorem simultaneous_logins_lock_out_witness:
  "\<exists>st1 st2 tok. login plain_crypto 5 ''j@court'' ''secret99'' sample_access = Inr (st1, tok)
     \<and> login plain_crypto 6 ''j@court'' ''secret99'' st1 = Inr (st2, tok)
     \<and> authenticate_token plain_crypto 9 (Some tok) st2 = Inl (OtherError ''MultipleResultsFound'')"
proof -
  obtain st1 tok1 where l: "login plain_crypto 5 ''j@court'' ''secret99'' sample_access = Inr (st1, tok1)"
    using sample_login by blast
  then have u: "xs_users st1 = xs_users sample_access" using loginD [OF l] by blast
  obtain st2 tok2 where k: "login plain_crypto 6 ''j@court'' ''secret99'' st1 = Inr (st2, tok2)"
    by (simp add: login_def u sample_access_def sample_account_def verify_password_def plain_crypto_def Let_def)
  from simultaneous_logins_lock_out [OF plain_crypto_ok l k, of 9] k l show ?thesis
    by (auto simp: sample_access_def sample_account_def expiry_of_def token_expiry_hours_def)
qed

text \<open>A run on a clock in which a user does not log in.\<close>

inductive quiet_step :: "crypto \<Rightarrow> uuid \<Rightarrow> int \<times> access \<Rightarrow> int \<times> access \<Rightarrow> bool" for cy target where
  tick: "t \<le> t' \<Longrightarrow> quiet_step cy target (t, st) (t', st)"
| q_reg: "register cy salt new_id b st = Inr (st', u) \<Longrightarrow> quiet_step cy target (t, st) (t, st')"
| q_enter: "login cy t email pw st = Inr (st', tok) \<Longrightarrow> \<forall>u \<in> set (xs_users st). ac_email u = email \<longrightarrow> ac_id u \<noteq> target
     \<Longrightarrow> quiet_step cy target (t, st) (t, st')"
| q_leave: "logout cy tok st = Inr st' \<Longrightarrow> quiet_step cy target (t, st) (t, st')"
| q_extend: "extend_session cy t tok st = Inr (st', tok') \<Longrightarrow> quiet_step cy target (t, st) (t, st')"
| q_ask: "request_password_reset cy t ttl raw email st = Inr st' \<Longrightarrow> quiet_step cy target (t, st) (t, st')"
| q_reset: "verify_password_reset cy salt t tok pw st = Inr st' \<Longrightarrow> quiet_step cy target (t, st) (t, st')"
| q_manage: "manage_user_action rq who action role st = Inr (st', msg) \<Longrightarrow> rq_now rq = t
     \<Longrightarrow> quiet_step cy target (t, st) (t, st')"

definition signed_out :: "uuid \<Rightarrow> int \<times> access \<Rightarrow> bool" where
  "signed_out target c \<longleftrightarrow> (\<forall>s \<in> set (xs_sessions (snd c)). se_user s = target \<longrightarrow> se_expires s \<le> fst c)"

text \<open>An authenticated user has a session with the token that is not over.\<close>

lemma authenticateD:
  assumes "authenticate_token cy t tok st = Inr u"
  shows "\<exists>s \<in> set (xs_sessions st). se_user s = ac_id u \<and> se_hash s = cy_sha cy (the tok) \<and> t < se_expires s"
  using assms unfolding authenticate_token_def
  by (auto elim!: bind_scalar simp: filter_eq_Cons_iff split: option.splits if_splits token_reading.splits)

lemma manage_revokes:
  assumes "manage_user_action rq target action role st = Inr (st', ''User sessions revoked'')"
  shows "xs_sessions st' = map (\<lambda>s. if se_user s = target then s\<lparr>se_expires := rq_now rq\<rparr> else s) (xs_sessions st)"
proof -
  define a where "a = py_lower (py_strip action)"
  define out where "out = (if a = ''set-role''
    then (case role of None \<Rightarrow> Inl (HttpError 400 ''role is required for set-role action'')
      | Some r \<Rightarrow> Inr (st\<lparr>xs_users := map (\<lambda>u. if ac_id u = target then u\<lparr>ac_role := r\<rparr> else u) (xs_users st)\<rparr>,
                      ''User role updated''))
    else if a = ''revoke-sessions''
    then Inr (st\<lparr>xs_sessions := map (\<lambda>s. if se_user s = target then s\<lparr>se_expires := rq_now rq\<rparr> else s) (xs_sessions st)\<rparr>,
              ''User sessions revoked'')
    else Inl (HttpError 400 ''Unsupported action. Use set-role or revoke-sessions.''))"
  have o: "out = Inr (st', ''User sessions revoked'')"
    using assms unfolding manage_user_action_def Let_def out_def a_def
    by (elim bind_InrE) (simp split: if_split_asm)
  then show ?thesis
  proof (cases "a = ''set-role''")
    case True
    then show ?thesis using o by (cases role) (simp_all add: out_def)
  next
    case False
    then show ?thesis using o by (cases "a = ''revoke-sessions''") (auto simp: out_def)
  qed
qed

lemma quiet_step_signed_out:
  assumes "quiet_step cy target c c'" "signed_out target c"
  shows "signed_out target c'"
  using assms(1)
proof (cases rule: quiet_step.cases)
  case (tick t t' st)
  then show ?thesis using assms(2) by (force simp: signed_out_def)
next
  case (q_reg salt new_id b st st' u t)
  then show ?thesis using assms(2) by (auto simp: register_def signed_out_def Let_def split: if_splits)
next
  case (q_enter t email pw st st' tok)
  obtain u where u: "filter (\<lambda>u. ac_email u = email) (xs_users st) = [u]"
    "xs_sessions st' = xs_sessions st @ [\<lparr>se_user = ac_id u, se_hash = cy_sha cy tok, se_expires = expiry_of t\<rparr>]"
    using loginD [OF q_enter(3)] by blast
  have "ac_id u \<noteq> target" using q_enter(4) u(1) by (auto simp: filter_eq_Cons_iff)
  then show ?thesis using assms(2) q_enter(1,2) u(2) by (auto simp: signed_out_def)
next
  case (q_leave tok st st' t)
  then show ?thesis using assms(2) unfolding logout_def by (auto elim!: bind_scalar simp: signed_out_def split: if_splits)
next
  case (q_extend t tok st st' tok')
  obtain u where a: "authenticate_token cy t tok st = Inr u"
    using q_extend(3) unfolding extend_session_def by (elim bind_InrE)
  obtain x where x: "sessions_of_token cy (the tok) st = [x]"
    "xs_sessions st' = map (\<lambda>s. if se_hash s = cy_sha cy (the tok)
       then s\<lparr>se_hash := cy_sha cy tok', se_expires := expiry_of t\<rparr> else s) (xs_sessions st)"
    using q_extend(3) a unfolding extend_session_def by (auto simp: scalar_Inr bind_result_Inr Let_def)
  obtain s where s: "s \<in> set (xs_sessions st)" "se_user s = ac_id u" "se_hash s = cy_sha cy (the tok)" "t < se_expires s"
    using authenticateD [OF a] by blast
  have same: "y = s" if "y \<in> set (xs_sessions st)" "se_hash y = cy_sha cy (the tok)" for y
  proof -
    have "y \<in> set (sessions_of_token cy (the tok) st)" "s \<in> set (sessions_of_token cy (the tok) st)"
      using that s(1,3) by (simp_all add: sessions_of_token_def)
    then show ?thesis using x(1) by simp
  qed
  have "ac_id u \<noteq> target" using assms(2) s q_extend(1) by (force simp: signed_out_def)
  then show ?thesis using assms(2) q_extend(1,2) x(2) same s(2) by (auto simp: signed_out_def split: if_splits)
next
  case (q_ask t ttl raw email st st')
  then show ?thesis using assms(2) unfolding request_password_reset_def
    by (auto elim!: bind_scalar simp: signed_out_def split: if_splits)
next
  case (q_reset salt t tok pw st st')
  then show ?thesis using assms(2) verify_resetD [OF q_reset(3)] by (auto simp: signed_out_def)
next
  case (q_manage rq who action role st st' msg t)
  then show ?thesis using assms(2)
    by (auto simp: manage_user_action_def bind_result_Inr signed_out_def Let_def split: option.splits if_splits)
qed

lemma revoked_signed_out:
  assumes "xs_sessions st' = map (\<lambda>s. if se_user s = target then s\<lparr>se_expires := t\<rparr> else s) xs"
  shows "signed_out target (t, st')"
  unfolding signed_out_def snd_conv fst_conv assms set_map ball_simps
proof
  fix s
  show "se_user (if se_user s = target then s\<lparr>se_expires := t\<rparr> else s) = target
    \<longrightarrow> se_expires (if se_user s = target then s\<lparr>se_expires := t\<rparr> else s) \<le> t"
    by (cases "se_user s = target") simp_all
qed

lemma signed_out_run: "(quiet_step cy target)\<^sup>*\<^sup>* c c' \<Longrightarrow> signed_out target c \<Longrightarrow> signed_out target c'"
  by (induction rule: rtranclp_induct) (auto intro: quiet_step_signed_out)

text \<open>C21: Revoking the sessions of a user takes effect at once and lasts: whatever is registered, extended,
  reset or administered afterwards, and whenever, no token is accepted as that user's until that user logs
  in again.\<close>

theorem revoked_user_stays_out:
  assumes r: "manage_user_action rq target action role st = Inr (st1, ''User sessions revoked'')"
    and run: "(quiet_step cy target)\<^sup>*\<^sup>* (rq_now rq, st1) (t, st2)"
    and a: "authenticate_token cy t tok st2 = Inr u"
  shows "ac_id u \<noteq> target"
proof -
  have "xs_sessions st1 = map (\<lambda>s. if se_user s = target then s\<lparr>se_expires := rq_now rq\<rparr> else s) (xs_sessions st)"
    using r by (rule manage_revokes)
  then have "signed_out target (rq_now rq, st1)" by (rule revoked_signed_out)
  then have "signed_out target (t, st2)" by (rule signed_out_run [OF run])
  then show ?thesis using authenticateD [OF a] by (force simp: signed_out_def)
qed

definition second_account :: account where
  "second_account = sample_account\<lparr>ac_id := ''u2'', ac_email := ''k@court''\<rparr>"

definition session_at :: "int \<Rightarrow> account \<Rightarrow> session_row" where
  "session_at t u = \<lparr>se_user = ac_id u, se_hash = create_token plain_crypto t u, se_expires = expiry_of t\<rparr>"

definition two_accounts :: access where
  "two_accounts = sample_access\<lparr>xs_users := [sample_account, second_account],
     xs_sessions := [session_at 5 sample_account, session_at 5 second_account]\<rparr>"

definition admin_request :: request where
  "admin_request = \<lparr>rq_user = \<lparr>us_id = ''adm'', us_role = user_role.Admin\<rparr>, rq_now = 7, rq_job_id = ''j'',
     rq_span = \<lparr>sx_trace_id = 0, sx_span_id = 0, sx_flags = 0\<rparr>\<rparr>"

theorem revoked_user_stays_out_witness:
  "\<exists>st1. manage_user_action admin_request ''u2'' ''revoke-sessions'' None two_accounts
        = Inr (st1, ''User sessions revoked'')
     \<and> authenticate_token plain_crypto 9 (Some (create_token plain_crypto 5 sample_account)) st1 = Inr sample_account
     \<and> ac_id sample_account \<noteq> ''u2''"
proof -
  define st1 where "st1 = two_accounts\<lparr>xs_sessions := [session_at 5 sample_account, (session_at 5 second_account)\<lparr>se_expires := 7\<rparr>]\<rparr>"
  have r: "manage_user_action admin_request ''u2'' ''revoke-sessions'' None two_accounts
        = Inr (st1, ''User sessions revoked'')"
  proof -
    have a: "py_lower (py_strip ''revoke-sessions'') = ''revoke-sessions''" by code_simp
    have f: "filter (\<lambda>u. ac_id u = ''u2'') (xs_users two_accounts) = [second_account]"
      by (simp add: two_accounts_def sample_account_def second_account_def)
    have m: "map (\<lambda>s. if se_user s = ''u2'' then s\<lparr>se_expires := rq_now admin_request\<rparr> else s) (xs_sessions two_accounts)
      = xs_sessions st1"
      by (simp add: two_accounts_def st1_def session_at_def sample_account_def second_account_def admin_request_def)
    have g: "require_role [user_role.Admin] admin_request = Inr ()"
      by (simp add: require_role_def admin_request_def)
    show ?thesis unfolding manage_user_action_def g f a m by (simp add: st1_def)
  qed
  have now: "rq_now admin_request = 7" by (simp add: admin_request_def)
  have run: "(quiet_step plain_crypto ''u2'')\<^sup>*\<^sup>* (rq_now admin_request, st1) (9, st1)"
    unfolding now by (rule r_into_rtranclp) (simp add: quiet_step.tick)
  have f: "filter (\<lambda>x. ac_id x = ac_id sample_account) (xs_users st1) = [sample_account]"
    by (simp add: st1_def two_accounts_def sample_account_def second_account_def)
  have a: "authenticate_token plain_crypto 9 (Some (create_token plain_crypto 5 sample_account)) st1 = Inr sample_account"
    using authenticate_created [OF plain_crypto_ok _ f, of 9 5]
    by (simp add: st1_def session_at_def sample_account_def second_account_def plain_crypto_def
        expiry_of_def token_expiry_hours_def)
  from revoked_user_stays_out [OF r run a] r a show ?thesis by blast
qed

end
