(* ===== verification/Knowledge_Base.thy ===== *)
theory Knowledge_Base
  imports Access Document_Parse System
begin

text \<open>
  The knowledge bases: the vector stores of judges and of domains (\<open>services/knowledge_base.py\<close>) and the
  judge's endpoints (\<open>api/routes/knowledge_base.py\<close>). The file and vector store service is an argument:
  a record of its calls on a state of its own.
\<close>

section \<open>The service\<close>

record search_hit =
  sh_file_id :: string
  sh_filename :: string
  sh_contents :: "string list"
  sh_score :: rat

record file_object =
  fo_filename :: string
  fo_bytes :: nat
  fo_created_at :: int

record store_object =
  so_total_files :: "nat option"
  so_last_active_at :: "int option"

record 'w vector_service =
  vs_create_store :: "string \<Rightarrow> 'w \<Rightarrow> (exn + string) \<times> 'w"
  vs_delete_store :: "string \<Rightarrow> 'w \<Rightarrow> (exn + unit) \<times> 'w"
  vs_retrieve_store :: "string \<Rightarrow> 'w \<Rightarrow> (exn + store_object) \<times> 'w"
  vs_create_file :: "string \<Rightarrow> string \<Rightarrow> 'w \<Rightarrow> (exn + string) \<times> 'w"
  vs_delete_file :: "string \<Rightarrow> 'w \<Rightarrow> (exn + unit) \<times> 'w"
  vs_retrieve_file :: "string \<Rightarrow> 'w \<Rightarrow> (exn + file_object) \<times> 'w"
  vs_add_file :: "string \<Rightarrow> string \<Rightarrow> 'w \<Rightarrow> (exn + string) \<times> 'w"
  vs_remove_file :: "string \<Rightarrow> string \<Rightarrow> 'w \<Rightarrow> (exn + unit) \<times> 'w"
  vs_file_status :: "string \<Rightarrow> string \<Rightarrow> 'w \<Rightarrow> (exn + string) \<times> 'w"
  vs_list_files :: "string \<Rightarrow> 'w \<Rightarrow> (exn + (string \<times> string) list) \<times> 'w"
  vs_search :: "string \<Rightarrow> string \<Rightarrow> nat \<Rightarrow> 'w \<Rightarrow> (exn + search_hit list) \<times> 'w"

definition lookup_error :: exn where
  "lookup_error = Exn [''LookupError'', ''Exception'']"

section \<open>The stores of judges\<close>

record kb_user =
  ku_id :: uuid
  ku_store :: "string option"

definition find_kb_user :: "uuid \<Rightarrow> kb_user list \<Rightarrow> kb_user option" where
  "find_kb_user uid us = find (\<lambda>u. ku_id u = uid) us"

definition set_kb_store :: "uuid \<Rightarrow> string \<Rightarrow> kb_user list \<Rightarrow> kb_user list" where
  "set_kb_store uid store us = map (\<lambda>u. if ku_id u = uid then u\<lparr>ku_store := Some store\<rparr> else u) us"

definition create_judge_vector_store ::
  "'w vector_service \<Rightarrow> uuid \<Rightarrow> 'w \<Rightarrow> (exn + string) \<times> 'w" where
  "create_judge_vector_store svc judge = vs_create_store svc (''vc-judge-'' @ judge)"

text \<open>
  The row is read under its lock, past the identity map: the request sees what another one has committed.
\<close>

definition ensure_judge_vector_store ::
  "'w vector_service \<Rightarrow> uuid \<Rightarrow> kb_user list \<times> 'w \<Rightarrow> (exn + string \<times> bool) \<times> kb_user list \<times> 'w" where
  "ensure_judge_vector_store svc uid s =
     (let (us, w) = s
      in case find_kb_user uid us of
           None \<Rightarrow> (Inl lookup_error, us, w)
         | Some u \<Rightarrow>
             if non_empty (ku_store u) then (Inr (the (ku_store u), False), us, w)
             else (case create_judge_vector_store svc uid w of
                     (Inl e, w') \<Rightarrow> (Inl e, us, w')
                   | (Inr store, w') \<Rightarrow> (Inr (store, True), set_kb_store uid store us, w')))"

definition upload_document_to_kb ::
  "'w vector_service \<Rightarrow> string \<Rightarrow> string \<Rightarrow> string \<Rightarrow> 'w \<Rightarrow> (exn + string \<times> string) \<times> 'w" where
  "upload_document_to_kb svc store body filename w =
     (case vs_create_file svc filename body w of
        (Inl e, w1) \<Rightarrow> (Inl e, w1)
      | (Inr fid, w1) \<Rightarrow> (case vs_add_file svc store fid w1 of
            (Inl e, w2) \<Rightarrow> (Inl e, w2) | (Inr st, w2) \<Rightarrow> (Inr (fid, st), w2)))"

record kb_hit =
  kh_file_id :: string
  kh_filename :: string
  kh_content :: string
  kh_score :: rat

definition kb_hit_of :: "search_hit \<Rightarrow> kb_hit" where
  "kb_hit_of h = \<lparr>kh_file_id = sh_file_id h, kh_filename = sh_filename h,
     kh_content = (case sh_contents h of [] \<Rightarrow> [] | c # cs \<Rightarrow> c), kh_score = sh_score h\<rparr>"

definition search_kb ::
  "'w vector_service \<Rightarrow> string \<Rightarrow> string \<Rightarrow> nat \<Rightarrow> 'w \<Rightarrow> (exn + kb_hit list) \<times> 'w" where
  "search_kb svc store query max_results w =
     (case vs_search svc store query max_results w of
        (Inl e, w') \<Rightarrow> (Inl e, w') | (Inr hits, w') \<Rightarrow> (Inr (map kb_hit_of hits), w'))"

record kb_document =
  kd_id :: string
  kd_filename :: string
  kd_status :: string
  kd_bytes :: nat
  kd_created_at :: int

text \<open>Every file of the store is looked up; a failure ends the listing.\<close>

fun kb_rows :: "'w vector_service \<Rightarrow> (string \<times> string) list \<Rightarrow> 'w \<Rightarrow> (exn + kb_document list) \<times> 'w" where
  "kb_rows svc [] w = (Inr [], w)"
| "kb_rows svc ((fid, st) # fs) w =
     (case vs_retrieve_file svc fid w of
        (Inl e, w1) \<Rightarrow> (Inl e, w1)
      | (Inr f, w1) \<Rightarrow>
          (case kb_rows svc fs w1 of
             (Inl e, w2) \<Rightarrow> (Inl e, w2)
           | (Inr ds, w2) \<Rightarrow>
               (Inr (\<lparr>kd_id = fid, kd_filename = fo_filename f, kd_status = st, kd_bytes = fo_bytes f,
                      kd_created_at = fo_created_at f\<rparr> # ds), w2)))"

definition list_kb_files :: "'w vector_service \<Rightarrow> string \<Rightarrow> 'w \<Rightarrow> (exn + kb_document list) \<times> 'w" where
  "list_kb_files svc store w =
     (case vs_list_files svc store w of
        (Inl e, w1) \<Rightarrow> (Inl e, w1) | (Inr fs, w1) \<Rightarrow> kb_rows svc fs w1)"

definition delete_kb_file :: "'w vector_service \<Rightarrow> string \<Rightarrow> string \<Rightarrow> 'w \<Rightarrow> (exn + unit) \<times> 'w" where
  "delete_kb_file svc store fid w =
     (case vs_remove_file svc store fid w of
        (Inl e, w1) \<Rightarrow> (Inl e, w1) | (Inr _, w1) \<Rightarrow> vs_delete_file svc fid w1)"

section \<open>The judge's endpoints\<close>

definition kb_unavailable :: py_error where
  "kb_unavailable = HttpError 503 ''Vector store unavailable. See server logs.''"

definition kb_uninitialized :: py_error where
  "kb_uninitialized = HttpError 404 ''Knowledge base not initialized''"

definition or_unavailable :: "(exn + 'a) \<times> 'w \<Rightarrow> 'a result \<times> 'w" where
  "or_unavailable r = (case r of (Inl e, w) \<Rightarrow> (Inl kb_unavailable, w) | (Inr x, w) \<Rightarrow> (Inr x, w))"

text \<open>The store on the row of the judge of a request.\<close>

definition judge_store :: "request \<Rightarrow> kb_user list \<Rightarrow> string option" where
  "judge_store rq us = (case find_kb_user (us_id (rq_user rq)) us of
     None \<Rightarrow> None | Some u \<Rightarrow> if non_empty (ku_store u) then ku_store u else None)"

definition initialize_knowledge_base ::
  "'w vector_service \<Rightarrow> request \<Rightarrow> kb_user list \<times> 'w \<Rightarrow> (string \<times> bool) result \<times> kb_user list \<times> 'w" where
  "initialize_knowledge_base svc rq s =
     (case require_role [user_role.Judge] rq of
        Inl e \<Rightarrow> (Inl e, s)
      | Inr _ \<Rightarrow> or_unavailable (ensure_judge_vector_store svc (us_id (rq_user rq)) s))"

definition upload_knowledge_base_document ::
  "'w vector_service \<Rightarrow> nat \<Rightarrow> request \<Rightarrow> string \<Rightarrow> string option \<Rightarrow> string option \<Rightarrow> kb_user list \<times> 'w
   \<Rightarrow> (string \<times> string \<times> string) result \<times> kb_user list \<times> 'w" where
  "upload_knowledge_base_document svc max_bytes rq body filename_override filename s =
     (case require_role [user_role.Judge] rq of
        Inl e \<Rightarrow> (Inl e, s)
      | Inr _ \<Rightarrow>
          if length body > max_bytes
          then (Inl (HttpError 413 (''File exceeds max upload size of '' @ digits_of max_bytes @ '' bytes.'')), s)
          else (case ensure_judge_vector_store svc (us_id (rq_user rq)) s of
                  (Inl e, us, w) \<Rightarrow> (Inl kb_unavailable, us, w)
                | (Inr (store, created), us, w) \<Rightarrow>
                    let name = (if non_empty filename_override then the filename_override
                                else if non_empty filename then the filename else ''document'')
                    in case upload_document_to_kb svc store body name w of
                         (Inl e, w') \<Rightarrow> (Inl kb_unavailable, fst s, w')
                       | (Inr (fid, st), w') \<Rightarrow>
                           (Inr (fid, name, if st = [] then ''indexed'' else st), us, w')))"

record kb_list =
  kl_items :: "kb_document list"
  kl_total :: nat

definition shown_document :: "kb_document \<Rightarrow> kb_document" where
  "shown_document d = d\<lparr>kd_filename := (if kd_filename d = [] then ''unknown'' else kd_filename d),
     kd_status := (if kd_status d = [] then ''unknown'' else kd_status d)\<rparr>"

definition list_knowledge_base_documents ::
  "'w vector_service \<Rightarrow> request \<Rightarrow> kb_user list \<Rightarrow> 'w \<Rightarrow> kb_list result \<times> 'w" where
  "list_knowledge_base_documents svc rq us w =
     (case require_role [user_role.Judge] rq of
        Inl e \<Rightarrow> (Inl e, w)
      | Inr _ \<Rightarrow>
          (case judge_store rq us of
             None \<Rightarrow> (Inr \<lparr>kl_items = [], kl_total = 0\<rparr>, w)
           | Some store \<Rightarrow>
               (case or_unavailable (list_kb_files svc store w) of
                  (Inl e, w') \<Rightarrow> (Inl e, w')
                | (Inr ds, w') \<Rightarrow> (Inr \<lparr>kl_items = map shown_document ds, kl_total = length ds\<rparr>, w'))))"

definition delete_knowledge_base_document ::
  "'w vector_service \<Rightarrow> request \<Rightarrow> string \<Rightarrow> kb_user list \<Rightarrow> 'w \<Rightarrow> (string \<times> bool) result \<times> 'w" where
  "delete_knowledge_base_document svc rq fid us w =
     (case require_role [user_role.Judge] rq of
        Inl e \<Rightarrow> (Inl e, w)
      | Inr _ \<Rightarrow>
          (case judge_store rq us of
             None \<Rightarrow> (Inl kb_uninitialized, w)
           | Some store \<Rightarrow>
               (case or_unavailable (delete_kb_file svc store fid w) of
                  (Inl e, w') \<Rightarrow> (Inl e, w') | (Inr _, w') \<Rightarrow> (Inr (fid, True), w'))))"

definition search_knowledge_base ::
  "'w vector_service \<Rightarrow> request \<Rightarrow> string \<Rightarrow> nat option \<Rightarrow> kb_user list \<Rightarrow> 'w \<Rightarrow> kb_hit list result \<times> 'w" where
  "search_knowledge_base svc rq q limit us w =
     (case require_role [user_role.Judge] rq of
        Inl e \<Rightarrow> (Inl e, w)
      | Inr _ \<Rightarrow>
          if q = [] \<or> length q > 1000 \<or> (case limit of None \<Rightarrow> False | Some n \<Rightarrow> n < 1 \<or> n > 20)
          then (Inl (HttpError 422 ''Validation error''), w)
          else (case judge_store rq us of
                  None \<Rightarrow> (Inl kb_uninitialized, w)
                | Some store \<Rightarrow>
                    or_unavailable (search_kb svc store q (case limit of None \<Rightarrow> 5 | Some n \<Rightarrow> n) w)))"

text \<open>The status: the breaker's reply is an argument; failures of the two retrievals are only logged.\<close>

record kb_status =
  ks_vector_store :: string
  ks_initialized :: bool
  ks_documents_count :: "nat option"
  ks_last_updated_at :: "int option"

definition get_knowledge_base_status ::
  "'w vector_service \<Rightarrow> string option \<Rightarrow> request \<Rightarrow> kb_user list \<Rightarrow> 'w \<Rightarrow> kb_status result \<times> 'w" where
  "get_knowledge_base_status svc global_store rq us w =
     (case require_role [user_role.Judge] rq of
        Inl e \<Rightarrow> (Inl e, w)
      | Inr _ \<Rightarrow>
          let (health, w1) = (if \<not> non_empty global_store then (''not_configured'', w)
                else case vs_retrieve_store svc (the global_store) w of
                       (Inl e, w1) \<Rightarrow> (''unavailable'', w1) | (Inr _, w1) \<Rightarrow> (''healthy'', w1))
          in case judge_store rq us of
               None \<Rightarrow> (Inr \<lparr>ks_vector_store = health, ks_initialized = False, ks_documents_count = None,
                             ks_last_updated_at = None\<rparr>, w1)
             | Some store \<Rightarrow>
                 (case vs_retrieve_store svc store w1 of
                    (Inl e, w2) \<Rightarrow> (Inr \<lparr>ks_vector_store = health, ks_initialized = True,
                                        ks_documents_count = None, ks_last_updated_at = None\<rparr>, w2)
                  | (Inr o1, w2) \<Rightarrow>
                      (Inr \<lparr>ks_vector_store = health, ks_initialized = True,
                            ks_documents_count = so_total_files o1,
                            ks_last_updated_at = (if so_last_active_at o1 = Some 0 then None
                                                  else so_last_active_at o1)\<rparr>, w2)))"

section \<open>A service in memory\<close>

text \<open>
  Files and stores with fresh numbers; \<open>mm_refused\<close> file deletions fail first. Removing a file from a
  store it is not in fails, as the service documents (404).
\<close>

record memory =
  mm_next :: nat
  mm_files :: "(string \<times> string \<times> string) list"
  mm_stores :: "(string \<times> string list) list"
  mm_refused :: nat

definition not_found_error :: exn where
  "not_found_error = Exn [''openai.NotFoundError'', ''openai.APIError'', ''Exception'']"

definition outage_error :: exn where
  "outage_error = Exn [''openai.APIConnectionError'', ''openai.APIError'', ''Exception'']"

definition find_store :: "string \<Rightarrow> memory \<Rightarrow> string list option" where
  "find_store s m = map_of (mm_stores m) s"

definition with_store :: "string \<Rightarrow> memory \<Rightarrow> (string list \<Rightarrow> (exn + 'a) \<times> memory) \<Rightarrow> (exn + 'a) \<times> memory" where
  "with_store s m f = (case find_store s m of None \<Rightarrow> (Inl not_found_error, m) | Some fs \<Rightarrow> f fs)"

definition memory_service :: "memory vector_service" where
  "memory_service = \<lparr>
     vs_create_store = (\<lambda>name m. let k = ''vs_'' @ digits_of (mm_next m)
        in (Inr k, m\<lparr>mm_next := mm_next m + 1, mm_stores := mm_stores m @ [(k, [])]\<rparr>)),
     vs_delete_store = (\<lambda>s m. with_store s m (\<lambda>fs. (Inr (), m\<lparr>mm_stores := filter (\<lambda>r. fst r \<noteq> s) (mm_stores m)\<rparr>))),
     vs_retrieve_store = (\<lambda>s m. with_store s m (\<lambda>fs.
        (Inr \<lparr>so_total_files = Some (length fs), so_last_active_at = None\<rparr>, m))),
     vs_create_file = (\<lambda>name body m. let k = ''file_'' @ digits_of (mm_next m)
        in (Inr k, m\<lparr>mm_next := mm_next m + 1, mm_files := mm_files m @ [(k, name, body)]\<rparr>)),
     vs_delete_file = (\<lambda>f m. if mm_refused m > 0 then (Inl outage_error, m\<lparr>mm_refused := mm_refused m - 1\<rparr>)
        else if map_of (mm_files m) f = None then (Inl not_found_error, m)
        else (Inr (), m\<lparr>mm_files := filter (\<lambda>r. fst r \<noteq> f) (mm_files m)\<rparr>)),
     vs_retrieve_file = (\<lambda>f m. case map_of (mm_files m) f of
        None \<Rightarrow> (Inl not_found_error, m)
      | Some (name, body) \<Rightarrow> (Inr \<lparr>fo_filename = name, fo_bytes = length body, fo_created_at = 0\<rparr>, m)),
     vs_add_file = (\<lambda>s f m. with_store s m (\<lambda>fs.
        (Inr ''completed'', m\<lparr>mm_stores := map (\<lambda>r. if fst r = s then (s, fs @ [f]) else r) (mm_stores m)\<rparr>))),
     vs_remove_file = (\<lambda>s f m. with_store s m (\<lambda>fs. if f \<notin> set fs then (Inl not_found_error, m)
        else (Inr (), m\<lparr>mm_stores := map (\<lambda>r. if fst r = s then (s, filter (\<lambda>x. x \<noteq> f) fs) else r) (mm_stores m)\<rparr>))),
     vs_file_status = (\<lambda>s f m. with_store s m (\<lambda>fs. if f \<in> set fs then (Inr ''completed'', m)
        else (Inl not_found_error, m))),
     vs_list_files = (\<lambda>s m. with_store s m (\<lambda>fs. (Inr (map (\<lambda>f. (f, ''completed'')) fs), m))),
     vs_search = (\<lambda>s q n m. with_store s m (\<lambda>fs. (Inr (take n (map (\<lambda>f. \<lparr>sh_file_id = f, sh_filename = [],
        sh_contents = (case map_of (mm_files m) f of None \<Rightarrow> [] | Some (name, body) \<Rightarrow> [body]), sh_score = 1\<rparr>) fs)), m)))\<rparr>"

section \<open>Properties\<close>

lemma find_kb_user_set:
  "find_kb_user uid (set_kb_store k store us)
    = (if uid = k then map_option (\<lambda>u. u\<lparr>ku_store := Some store\<rparr>) (find_kb_user uid us) else find_kb_user uid us)"
  by (induction us) (auto simp: find_kb_user_def set_kb_store_def)

text \<open>A store is made once: a second request finds it on the row and calls no service.\<close>

lemma store_is_made_once:
  assumes "ensure_judge_vector_store svc uid (us, w) = (Inr (store, created), us', w')" "store \<noteq> []"
  shows "ensure_judge_vector_store svc uid (us', v) = (Inr (store, False), us', v)
    \<and> (\<forall>k. k \<noteq> uid \<longrightarrow> find_kb_user k us' = find_kb_user k us)"
  using assms
  by (auto simp: ensure_judge_vector_store_def find_kb_user_set non_empty_def
      split: option.splits sum.splits prod.splits if_splits)

text \<open>A failed upload is rolled back: the row keeps no store, although the service has made one.\<close>

lemma failed_upload_forgets_the_store:
  assumes "upload_knowledge_base_document svc n rq body o1 f1 (us, w) = (Inl kb_unavailable, us', w')"
  shows "us' = us"
proof (cases "require_role [user_role.Judge] rq = Inr () \<and> length body \<le> n")
  case True
  then show ?thesis using assms
    by (auto simp: upload_knowledge_base_document_def ensure_judge_vector_store_def Let_def
        split: option.splits sum.splits prod.splits if_splits)
next
  case False
  then show ?thesis using assms
    by (auto simp: upload_knowledge_base_document_def require_role_def split: if_splits)
qed

lemma leaked_store:
  "let r = upload_knowledge_base_document (memory_service\<lparr>vs_create_file := (\<lambda>f b m. (Inl outage_error, m))\<rparr>) 9 judge1
      ''x'' None None ([\<lparr>ku_id = us_id (rq_user judge1), ku_store = None\<rparr>],
                      \<lparr>mm_next = 0, mm_files = [], mm_stores = [], mm_refused = 0\<rparr>)
   in map ku_store (fst (snd r)) = [None] \<and> length (mm_stores (snd (snd r))) = 1"
  by code_simp

text \<open>
  What the service documents of a file that is not in a store: it stays out until it is added again, the
  deletion of a file adds it nowhere, and removing it fails.
\<close>

definition out_stays_out :: "'w vector_service \<Rightarrow> string \<Rightarrow> string \<Rightarrow> ('w \<Rightarrow> bool) \<Rightarrow> bool" where
  "out_stays_out svc store fid out \<longleftrightarrow>
     (\<forall>w w'. vs_remove_file svc store fid w = (Inr (), w') \<longrightarrow> out w')
   \<and> (\<forall>w. out w \<longrightarrow> out (snd (vs_delete_file svc fid w)))
   \<and> (\<forall>w. out w \<longrightarrow> (\<exists>e w'. vs_remove_file svc store fid w = (Inl e, w') \<and> out w'))"

text \<open>A deletion that takes the file out of the store and then fails to delete it answers 503, and so does
  every later attempt: the removal from the store fails from then on, and the file is never deleted.\<close>

lemma refused_deletion_cannot_be_retried:
  assumes laws: "out_stays_out svc store fid out" and role: "us_role (rq_user rq) = user_role.Judge"
    and store: "judge_store rq us = Some store"
    and first: "vs_remove_file svc store fid w = (Inr (), w1)" "vs_delete_file svc fid w1 = (Inl e, w2)"
  shows "delete_knowledge_base_document svc rq fid us w = (Inl kb_unavailable, w2)
    \<and> (\<forall>n. \<exists>w3. delete_knowledge_base_document svc rq fid us
           (((\<lambda>v. snd (delete_knowledge_base_document svc rq fid us v)) ^^ n) w2) = (Inl kb_unavailable, w3))"
proof -
  let ?again = "\<lambda>v. snd (delete_knowledge_base_document svc rq fid us v)"
  have again: "\<exists>w3. delete_knowledge_base_document svc rq fid us v = (Inl kb_unavailable, w3) \<and> out w3" if o: "out v" for v
  proof -
    obtain e w' where "vs_remove_file svc store fid v = (Inl e, w')" "out w'"
      using laws o unfolding out_stays_out_def by blast
    then show ?thesis
      using role store by (simp add: delete_knowledge_base_document_def require_role_def delete_kb_file_def or_unavailable_def)
  qed
  have "out w1" using laws first(1) unfolding out_stays_out_def by blast
  then have "out (snd (vs_delete_file svc fid w1))" using laws unfolding out_stays_out_def by blast
  then have o2: "out w2" using first(2) by simp
  have "out ((?again ^^ n) w2)" for n
  proof (induction n)
    case (Suc n)
    then show ?case using again [OF Suc] by force
  qed (simp add: o2)
  moreover have "delete_knowledge_base_document svc rq fid us w = (Inl kb_unavailable, w2)"
    using role store first
    by (simp add: delete_knowledge_base_document_def require_role_def delete_kb_file_def or_unavailable_def)
  ultimately show ?thesis using again by blast
qed

definition one_file_memory :: memory where
  "one_file_memory = \<lparr>mm_next = 2, mm_files = [(''file_1'', ''a.txt'', ''body'')], mm_stores = [(''vs_0'', [''file_1''])],
     mm_refused = 1\<rparr>"

definition kb_judge :: kb_user where
  "kb_judge = \<lparr>ku_id = us_id (rq_user judge1), ku_store = Some ''vs_0''\<rparr>"

lemma memory_stays_out:
  "out_stays_out memory_service ''vs_0'' f (\<lambda>m. case find_store ''vs_0'' m of None \<Rightarrow> True | Some fs \<Rightarrow> f \<notin> set fs)"
proof -
  have m: "find_store s (m\<lparr>mm_stores := map (\<lambda>r. if fst r = s then (s, g) else r) (mm_stores m)\<rparr>)
      = (case find_store s m of None \<Rightarrow> None | Some fs \<Rightarrow> Some g)" for s m g
  proof -
    have "map_of (map (\<lambda>r. if fst r = s then (s, g) else r) xs) s = (case map_of xs s of None \<Rightarrow> None | Some fs \<Rightarrow> Some g)"
      for xs :: "(string \<times> string list) list" by (induction xs) auto
    then show ?thesis by (simp add: find_store_def)
  qed
  show ?thesis
    by (auto simp: out_stays_out_def memory_service_def with_store_def m split: option.splits if_splits)
      (auto simp: find_store_def)
qed

lemma refused_deletion_cannot_be_retried_witness:
  "\<exists>w2 w3. delete_knowledge_base_document memory_service judge1 ''file_1'' [kb_judge] one_file_memory = (Inl kb_unavailable, w2)
     \<and> delete_knowledge_base_document memory_service judge1 ''file_1'' [kb_judge] w2 = (Inl kb_unavailable, w3)"
proof -
  have role: "us_role (rq_user judge1) = user_role.Judge" by (simp add: judge1_def)
  have store: "judge_store judge1 [kb_judge] = Some ''vs_0''"
    by (simp add: judge_store_def find_kb_user_def kb_judge_def non_empty_def)
  obtain w1 where w1: "vs_remove_file memory_service ''vs_0'' ''file_1'' one_file_memory = (Inr (), w1)" "mm_refused w1 = 1"
    by (simp add: memory_service_def with_store_def find_store_def one_file_memory_def)
  then obtain w2 where w2: "vs_delete_file memory_service ''file_1'' w1 = (Inl outage_error, w2)"
    by (simp add: memory_service_def)
  from refused_deletion_cannot_be_retried [OF memory_stays_out role store w1(1) w2]
  have "delete_knowledge_base_document memory_service judge1 ''file_1'' [kb_judge] one_file_memory = (Inl kb_unavailable, w2)"
    and "\<exists>w3. delete_knowledge_base_document memory_service judge1 ''file_1'' [kb_judge]
           (((\<lambda>v. snd (delete_knowledge_base_document memory_service judge1 ''file_1'' [kb_judge] v)) ^^ 0) w2)
         = (Inl kb_unavailable, w3)" by blast+
  then show ?thesis by (auto simp del: funpow.simps(2))
qed

end
