(* ===== verification/Domains.thy ===== *)
theory Domains
  imports Knowledge_Base Intake
begin

text \<open>
  Legal domains and their documents: the endpoints of \<open>api/routes/domains.py\<close>, the provisioning of a
  domain's vector store (\<open>services/knowledge_base.py\<close>), the background ingestion of a document in its
  stages, and the reconciliation of stuck documents (\<open>workers/domain_reconciliation.py\<close>).
\<close>

section \<open>Tables\<close>

datatype document_status = Dd_pending | Dd_uploading | Dd_parsed | Dd_indexing | Dd_indexed | Dd_failed

text \<open>The columns the pipeline reads are those of \<open>domain_row\<close>; the projection is \<open>domain_row.truncate\<close>.\<close>

record domain_record = domain_row +
  dm_name :: string
  dm_description :: "string option"
  dm_created_by :: "uuid option"

record knowledge_document =
  dd_id :: uuid
  dd_domain :: uuid
  dd_openai_file_id :: "string option"
  dd_sanitized_file_id :: "string option"
  dd_filename :: string
  dd_mime_type :: string
  dd_size_bytes :: nat
  dd_sanitized :: bool
  dd_status :: document_status
  dd_error_reason :: "string option"
  dd_uploaded_by :: uuid
  dd_uploaded_at :: int

record admin_event =
  ad_actor :: uuid
  ad_action :: string
  ad_payload :: pydict

record 'w domain_world =
  dw_domains :: "domain_record list"
  dw_documents :: "knowledge_document list"
  dw_events :: "admin_event list"
  dw_service :: 'w

definition domain_named :: "uuid \<Rightarrow> domain_record list \<Rightarrow> domain_record option" where
  "domain_named i ds = find (\<lambda>d. do_id d = i) ds"

definition change_domain :: "uuid \<Rightarrow> (domain_record \<Rightarrow> domain_record) \<Rightarrow> domain_record list \<Rightarrow> domain_record list" where
  "change_domain i f ds = map (\<lambda>d. if do_id d = i then f d else d) ds"

definition document_named :: "uuid \<Rightarrow> knowledge_document list \<Rightarrow> knowledge_document option" where
  "document_named i ds = find (\<lambda>d. dd_id d = i) ds"

definition change_document :: "uuid \<Rightarrow> (knowledge_document \<Rightarrow> knowledge_document) \<Rightarrow> knowledge_document list \<Rightarrow> knowledge_document list" where
  "change_document i f ds = map (\<lambda>d. if dd_id d = i then f d else d) ds"

definition admin_log :: "uuid \<Rightarrow> string \<Rightarrow> pydict \<Rightarrow> 'w domain_world \<Rightarrow> 'w domain_world" where
  "admin_log actor action payload s =
     s\<lparr>dw_events := dw_events s @ [\<lparr>ad_actor = actor, ad_action = action, ad_payload = payload\<rparr>]\<rparr>"

text \<open>
  The services and settings: the vector stores, the extraction of text, the classifier when it is enabled,
  how an exception prints, the namespace of the deployment.
\<close>

record 'w domain_env =
  dv_service :: "'w vector_service"
  dv_files :: "'w openai_files"
  dv_classifier :: "(string \<Rightarrow> exn + bool) option"
  dv_exn_text :: "exn \<Rightarrow> string"
  dv_namespace :: string

section \<open>Provisioning\<close>

definition create_domain_vector_store :: "'w domain_env \<Rightarrow> string \<Rightarrow> 'w \<Rightarrow> (exn + string) \<times> 'w" where
  "create_domain_vector_store env code =
     vs_create_store (dv_service env) (''domain-'' @ code @ ''-'' @ dv_namespace env)"

text \<open>
  The table that is returned with an error is what the session holds then: a forced recreation has taken
  the old store off the row.
\<close>

definition ensure_domain_vector_store ::
  "'w domain_env \<Rightarrow> bool \<Rightarrow> uuid \<Rightarrow> domain_record list \<times> 'w \<Rightarrow> (exn + string \<times> bool) \<times> domain_record list \<times> 'w" where
  "ensure_domain_vector_store env force_recreate i s =
     (let (ds, w) = s
      in case domain_named i ds of
           None \<Rightarrow> (Inl lookup_error, ds, w)
         | Some d \<Rightarrow>
             let store = (if force_recreate then None else do_vector_store_id d);
                 ds1 = change_domain i (\<lambda>r. r\<lparr>do_vector_store_id := store\<rparr>) ds
             in if non_empty store
                then (Inr (the store, False), change_domain i (\<lambda>r. r\<lparr>do_is_active := True\<rparr>) ds1, w)
                else (case create_domain_vector_store env (do_code d) w of
                        (Inl e, w') \<Rightarrow> (Inl e, ds1, w')
                      | (Inr k, w') \<Rightarrow>
                          (Inr (k, True),
                           change_domain i (\<lambda>r. r\<lparr>do_vector_store_id := Some k, do_is_active := True\<rparr>) ds1, w')))"

section \<open>Reading domains\<close>

record public_domain =
  pb_id :: uuid
  pb_code :: string
  pb_name :: string
  pb_description :: "string option"
  pb_has_vector_store :: bool

text \<open>The order by name depends on the collation of the database and is an argument.\<close>

definition list_active_domains ::
  "(domain_record list \<Rightarrow> domain_record list) \<Rightarrow> domain_record list \<Rightarrow> public_domain list" where
  "list_active_domains by_name ds =
     map (\<lambda>d. \<lparr>pb_id = do_id d, pb_code = do_code d, pb_name = dm_name d, pb_description = dm_description d,
               pb_has_vector_store = non_empty (do_vector_store_id d)\<rparr>) (by_name (filter do_is_active ds))"

definition list_domains_admin ::
  "(domain_record list \<Rightarrow> domain_record list) \<Rightarrow> request \<Rightarrow> domain_record list \<Rightarrow> domain_record list result" where
  "list_domains_admin by_name rq ds = bind_result (require_role [user_role.Admin] rq) (\<lambda>_. Inr (by_name ds))"

definition domain_missing :: py_error where "domain_missing = HttpError 404 ''Domain not found''"

definition get_domain_admin :: "request \<Rightarrow> uuid \<Rightarrow> domain_record list \<Rightarrow> domain_record result" where
  "get_domain_admin rq i ds =
     bind_result (require_role [user_role.Admin] rq) (\<lambda>_.
       case domain_named i ds of None \<Rightarrow> Inl domain_missing | Some d \<Rightarrow> Inr d)"

text \<open>Newest first.\<close>

definition list_domain_documents :: "request \<Rightarrow> uuid \<Rightarrow> 'w domain_world \<Rightarrow> knowledge_document list result" where
  "list_domain_documents rq i s =
     bind_result (get_domain_admin rq i (dw_domains s)) (\<lambda>_.
       Inr (sort_key (\<lambda>d. - dd_uploaded_at d) (filter (\<lambda>d. dd_domain d = i) (dw_documents s))))"

section \<open>Administration\<close>

definition code_char :: "char \<Rightarrow> bool" where
  "code_char c \<longleftrightarrow> c \<in> set ''abcdefghijklmnopqrstuvwxyz0123456789_''"

definition valid_name :: "string \<Rightarrow> bool" where
  "valid_name s \<longleftrightarrow> 1 \<le> length s \<and> length s \<le> 255"

definition valid_code :: "string \<Rightarrow> bool" where
  "valid_code s \<longleftrightarrow> 1 \<le> length s \<and> length s \<le> 100 \<and> list_all code_char s"

definition validation_error :: py_error where "validation_error = HttpError 422 ''Validation error''"

text \<open>A failed provisioning is only logged: the domain stays without a store, inactive.\<close>

definition create_domain ::
  "'w domain_env \<Rightarrow> request \<Rightarrow> uuid \<Rightarrow> string \<Rightarrow> string \<Rightarrow> string option \<Rightarrow> 'w domain_world
   \<Rightarrow> unit result \<times> 'w domain_world" where
  "create_domain env rq new_id code name description s =
     (case require_role [user_role.Admin] rq of
        Inl e \<Rightarrow> (Inl e, s)
      | Inr _ \<Rightarrow>
          if \<not> valid_code code \<or> \<not> valid_name name then (Inl validation_error, s)
          else if \<exists>d \<in> set (dw_domains s). do_code d = code
          then (Inl (HttpError 400 (''Domain code '' @ quote code @ '' already exists'')), s)
          else let row = \<lparr>do_id = new_id, do_code = code, do_is_active = False, do_vector_store_id = None,
                          dm_name = name, dm_description = description, dm_created_by = Some (us_id (rq_user rq))\<rparr>;
                   (r, ds, w) = ensure_domain_vector_store env False new_id (dw_domains s @ [row], dw_service s)
               in (Inr (), admin_log (us_id (rq_user rq)) ''domain_created''
                     [(''domain_id'', PStr new_id), (''code'', PStr code)]
                     (s\<lparr>dw_domains := ds, dw_service := w\<rparr>)))"

record domain_change =
  dg_name :: "string option"
  dg_description :: "string option"
  dg_is_active :: "bool option"

definition given :: "string \<Rightarrow> ('a \<Rightarrow> pyval) \<Rightarrow> 'a option \<Rightarrow> pydict" where
  "given k f x = (case x of None \<Rightarrow> [] | Some v \<Rightarrow> [(k, f v)])"

definition change_dump :: "domain_change \<Rightarrow> pydict" where
  "change_dump g = given ''name'' PStr (dg_name g) @ given ''description'' PStr (dg_description g)
     @ given ''is_active'' PBool (dg_is_active g)"

definition or_keep :: "'a option \<Rightarrow> 'a \<Rightarrow> 'a" where
  "or_keep x y = (case x of None \<Rightarrow> y | Some v \<Rightarrow> v)"

definition update_domain ::
  "request \<Rightarrow> uuid \<Rightarrow> domain_change \<Rightarrow> 'w domain_world \<Rightarrow> 'w domain_world result" where
  "update_domain rq i g s =
     bind_result (require_role [user_role.Admin] rq) (\<lambda>_.
       if (case dg_name g of None \<Rightarrow> False | Some n \<Rightarrow> \<not> valid_name n) then Inl validation_error
       else bind_result (get_domain_admin rq i (dw_domains s)) (\<lambda>_.
         Inr (admin_log (us_id (rq_user rq)) ''domain_updated''
                [(''domain_id'', PStr i), (''changes'', PDict (change_dump g))]
                (s\<lparr>dw_domains := change_domain i
                     (\<lambda>d. d\<lparr>dm_name := or_keep (dg_name g) (dm_name d),
                            dm_description := (if dg_description g = None then dm_description d else dg_description g),
                            do_is_active := or_keep (dg_is_active g) (do_is_active d)\<rparr>) (dw_domains s)\<rparr>))))"

text \<open>Any case of the domain prevents its deletion. The documents go with it; their files stay.\<close>

definition retire_domain ::
  "'w domain_env \<Rightarrow> request \<Rightarrow> uuid \<Rightarrow> bool \<Rightarrow> case_row list \<Rightarrow> 'w domain_world \<Rightarrow> unit result \<times> 'w domain_world" where
  "retire_domain env rq i hard cases s =
     (case bind_result (require_role [user_role.Admin] rq) (\<lambda>_. get_domain_admin rq i (dw_domains s)) of
        Inl e \<Rightarrow> (Inl e, s)
      | Inr d \<Rightarrow>
          if hard then
            (if \<exists>c \<in> set cases. ca_domain_id c = Some i
             then (Inl (HttpError 400 ''Cannot hard-delete domain with live cases''), s)
             else let w = (if non_empty (do_vector_store_id d)
                           then snd (vs_delete_store (dv_service env) (the (do_vector_store_id d)) (dw_service s))
                           else dw_service s)
                  in (Inr (), admin_log (us_id (rq_user rq)) ''domain_deleted''
                        [(''domain_id'', PStr i), (''code'', PStr (do_code d))]
                        (s\<lparr>dw_domains := filter (\<lambda>r. do_id r \<noteq> i) (dw_domains s),
                           dw_documents := filter (\<lambda>r. dd_domain r \<noteq> i) (dw_documents s), dw_service := w\<rparr>)))
          else (Inr (), admin_log (us_id (rq_user rq)) ''domain_retired''
                  [(''domain_id'', PStr i), (''code'', PStr (do_code d))]
                  (s\<lparr>dw_domains := change_domain i (\<lambda>r. r\<lparr>do_is_active := False\<rparr>) (dw_domains s)\<rparr>)))"

section \<open>Documents\<close>

definition allowed_mime_types :: "string list" where
  "allowed_mime_types = [''application/pdf'', ''text/plain'', ''text/markdown'',
     ''application/vnd.openxmlformats-officedocument.wordprocessingml.document'']"

text \<open>What a background ingestion is given.\<close>

record ingest_job =
  ij_doc :: uuid
  ij_domain :: uuid
  ij_store :: string
  ij_body :: string
  ij_filename :: string
  ij_actor :: uuid

record upload_settings =
  up_enabled :: bool
  up_max_bytes :: nat

text \<open>The file of a request: its name, its type and its bytes. A refusal rolls the provisioning back.\<close>

definition upload_domain_document ::
  "'w domain_env \<Rightarrow> upload_settings \<Rightarrow> request \<Rightarrow> uuid \<Rightarrow> uuid \<Rightarrow> string option \<Rightarrow> string option \<Rightarrow> string
   \<Rightarrow> 'w domain_world \<Rightarrow> ingest_job result \<times> 'w domain_world" where
  "upload_domain_document env cfg rq i new_id filename content_type body s =
     (case require_role [user_role.Admin] rq of
        Inl e \<Rightarrow> (Inl e, s)
      | Inr _ \<Rightarrow>
          if \<not> up_enabled cfg
          then (Inl (HttpError 503 ''Domain document uploads are disabled pending sanitizer hardening''), s)
          else (case domain_named i (dw_domains s) of
             None \<Rightarrow> (Inl domain_missing, s)
           | Some d \<Rightarrow>
               (case (if non_empty (do_vector_store_id d) then (Inr (the (do_vector_store_id d), False), dw_domains s, dw_service s)
                      else ensure_domain_vector_store env False i (dw_domains s, dw_service s)) of
                  (Inl e, ds, w) \<Rightarrow>
                    (Inl (HttpError 503 ''Domain vector store could not be provisioned''), s\<lparr>dw_service := w\<rparr>)
                | (Inr (store, created), ds, w) \<Rightarrow>
                    let mime = (case content_type of None \<Rightarrow> [] | Some t \<Rightarrow> t);
                        name = (if non_empty filename then the filename else ''document'')
                    in if mime \<notin> set allowed_mime_types
                       then (Inl (HttpError 415 (''Unsupported file type: '' @ mime)), s\<lparr>dw_service := w\<rparr>)
                       else if length body > up_max_bytes cfg
                       then (Inl (HttpError 413 (''File exceeds maximum size of ''
                               @ digits_of (up_max_bytes cfg div 1024 div 1024) @ '' MiB'')), s\<lparr>dw_service := w\<rparr>)
                       else (Inr \<lparr>ij_doc = new_id, ij_domain = i, ij_store = store, ij_body = body,
                                  ij_filename = name, ij_actor = us_id (rq_user rq)\<rparr>,
                             s\<lparr>dw_domains := ds, dw_service := w,
                               dw_documents := dw_documents s @
                                 [\<lparr>dd_id = new_id, dd_domain = i, dd_openai_file_id = None,
                                   dd_sanitized_file_id = None, dd_filename = name, dd_mime_type = mime,
                                   dd_size_bytes = length body, dd_sanitized = False, dd_status = Dd_pending,
                                   dd_error_reason = None, dd_uploaded_by = us_id (rq_user rq),
                                   dd_uploaded_at = rq_now rq\<rparr>]\<rparr>))))"

text \<open>The removal from the service is best effort; the row always goes.\<close>

definition delete_domain_document ::
  "'w domain_env \<Rightarrow> request \<Rightarrow> uuid \<Rightarrow> uuid \<Rightarrow> 'w domain_world \<Rightarrow> unit result \<times> 'w domain_world" where
  "delete_domain_document env rq i did s =
     (case require_role [user_role.Admin] rq of
        Inl e \<Rightarrow> (Inl e, s)
      | Inr _ \<Rightarrow>
          (case find (\<lambda>d. dd_id d = did \<and> dd_domain d = i) (dw_documents s) of
             None \<Rightarrow> (Inl (HttpError 404 ''Document not found''), s)
           | Some d \<Rightarrow>
               let svc = dv_service env;
                   store = (case domain_named i (dw_domains s) of None \<Rightarrow> None | Some r \<Rightarrow> do_vector_store_id r);
                   w1 = (if non_empty (dd_sanitized_file_id d) \<and> non_empty store
                         then snd (vs_delete_file svc (the (dd_sanitized_file_id d))
                                (snd (vs_remove_file svc (the store) (the (dd_sanitized_file_id d)) (dw_service s))))
                         else dw_service s);
                   w2 = (if non_empty (dd_openai_file_id d)
                         then snd (vs_delete_file svc (the (dd_openai_file_id d)) w1) else w1)
               in (Inr (), admin_log (us_id (rq_user rq)) ''domain_document_deleted''
                     [(''domain_id'', PStr i), (''doc_id'', PStr did)]
                     (s\<lparr>dw_documents := filter (\<lambda>r. dd_id r \<noteq> did) (dw_documents s), dw_service := w2\<rparr>))))"

section \<open>Ingestion\<close>

text \<open>
  The background task of an upload, from commit to commit. A commit on a row that is gone raises, and the
  task ends; the service keeps what was done. What stands between two commits, the file id and the parsed
  pages, is in the stage.
\<close>

datatype ingest_stage = At_upload | At_parse string | At_clean parsed_document | At_index parsed_document string

definition commit_document ::
  "uuid \<Rightarrow> (knowledge_document \<Rightarrow> knowledge_document) \<Rightarrow> ingest_stage option \<Rightarrow> 'w domain_world
   \<Rightarrow> 'w domain_world \<times> ingest_stage option" where
  "commit_document did f following s =
     (if document_named did (dw_documents s) = None then (s, None)
      else (s\<lparr>dw_documents := change_document did f (dw_documents s)\<rparr>, following))"

definition fail_document :: "uuid \<Rightarrow> string \<Rightarrow> 'w domain_world \<Rightarrow> 'w domain_world \<times> ingest_stage option" where
  "fail_document did reason = commit_document did
     (\<lambda>d. d\<lparr>dd_status := Dd_failed, dd_error_reason := Some reason\<rparr>) None"

definition upload_stage :: "'w domain_env \<Rightarrow> ingest_job \<Rightarrow> 'w domain_world \<Rightarrow> 'w domain_world \<times> ingest_stage option" where
  "upload_stage env job s =
     (if document_named (ij_doc job) (dw_documents s) = None then (s, None)
      else case vs_create_file (dv_service env) (ij_filename job) (ij_body job) (dw_service s) of
             (Inl e, w) \<Rightarrow> fail_document (ij_doc job) (''OpenAI upload failed: '' @ dv_exn_text env e) (s\<lparr>dw_service := w\<rparr>)
           | (Inr fid, w) \<Rightarrow>
               commit_document (ij_doc job) (\<lambda>d. d\<lparr>dd_openai_file_id := Some fid, dd_status := Dd_uploading\<rparr>)
                 (Some (At_parse fid)) (s\<lparr>dw_service := w\<rparr>))"

definition parse_stage ::
  "'w domain_env \<Rightarrow> ingest_job \<Rightarrow> string \<Rightarrow> 'w domain_world \<Rightarrow> 'w domain_world \<times> ingest_stage option" where
  "parse_stage env job fid s =
     (case parse_document (dv_files env) (dv_classifier env) fid True False (dw_service s) of
        (Inl e, w) \<Rightarrow> fail_document (ij_doc job) (''Parse failed: '' @ dv_exn_text env e) (s\<lparr>dw_service := w\<rparr>)
      | (Inr parsed, w) \<Rightarrow>
          commit_document (ij_doc job) (\<lambda>d. d\<lparr>dd_status := Dd_parsed\<rparr>) (Some (At_clean parsed)) (s\<lparr>dw_service := w\<rparr>))"

text \<open>The numbered pages, and the name without its last extension.\<close>

fun numbered_pages :: "nat \<Rightarrow> parsed_page list \<Rightarrow> string list" where
  "numbered_pages i [] = []"
| "numbered_pages i (p # ps) =
     (''--- Page '' @ digits_of i @ '' ---'' @ newline @ pp_text p) # numbered_pages (i + 1) ps"

definition sanitized_document :: "parsed_document \<Rightarrow> string" where
  "sanitized_document d = join_with newline (numbered_pages 1 (pd_pages d))"

definition without_extension :: "string \<Rightarrow> string" where
  "without_extension s = (if CHR ''.'' \<in> set s then rev (tl (dropWhile (\<lambda>c. c \<noteq> CHR ''.'') (rev s))) else s)"

definition clean_stage ::
  "'w domain_env \<Rightarrow> ingest_job \<Rightarrow> parsed_document \<Rightarrow> 'w domain_world \<Rightarrow> 'w domain_world \<times> ingest_stage option" where
  "clean_stage env job parsed s =
     (if pd_pages parsed = [] then fail_document (ij_doc job) ''Parse returned no pages'' s
      else case vs_create_file (dv_service env) (without_extension (ij_filename job) @ ''.sanitized.txt'')
                  (sanitized_document parsed) (dw_service s) of
             (Inl e, w) \<Rightarrow> fail_document (ij_doc job) (''Sanitized file upload failed: '' @ dv_exn_text env e)
                             (s\<lparr>dw_service := w\<rparr>)
           | (Inr fid, w) \<Rightarrow>
               commit_document (ij_doc job)
                 (\<lambda>d. d\<lparr>dd_sanitized_file_id := Some fid, dd_status := Dd_indexing, dd_sanitized := True\<rparr>)
                 (Some (At_index parsed fid)) (s\<lparr>dw_service := w\<rparr>))"

text \<open>A store that is gone is replaced by a new one, once.\<close>

definition index_file ::
  "'w domain_env \<Rightarrow> ingest_job \<Rightarrow> string \<Rightarrow> 'w domain_world \<Rightarrow> (string + string) \<times> 'w domain_world" where
  "index_file env job fid s =
     (case vs_add_file (dv_service env) (ij_store job) fid (dw_service s) of
        (Inr st, w) \<Rightarrow> (Inr st, s\<lparr>dw_service := w\<rparr>)
      | (Inl e, w) \<Rightarrow>
          if \<not> instance_of [''openai.NotFoundError''] e
          then (Inl (''Indexing failed: '' @ dv_exn_text env e), s\<lparr>dw_service := w\<rparr>)
          else (case ensure_domain_vector_store env True (ij_domain job) (dw_domains s, w) of
                  (Inl e1, ds, w1) \<Rightarrow>
                    (Inl (''Indexing failed after vector store re-provisioning: '' @ dv_exn_text env e1),
                     s\<lparr>dw_domains := ds, dw_service := w1\<rparr>)
                | (Inr (store, created), ds, w1) \<Rightarrow>
                    (case vs_add_file (dv_service env) store fid w1 of
                       (Inl e2, w2) \<Rightarrow>
                         (Inl (''Indexing failed after vector store re-provisioning: '' @ dv_exn_text env e2),
                          s\<lparr>dw_domains := ds, dw_service := w2\<rparr>)
                     | (Inr st, w2) \<Rightarrow> (Inr st, s\<lparr>dw_domains := ds, dw_service := w2\<rparr>))))"

text \<open>The tables of the stage are committed together: with the row gone, the new store is not recorded either.\<close>

definition index_stage ::
  "'w domain_env \<Rightarrow> ingest_job \<Rightarrow> parsed_document \<Rightarrow> string \<Rightarrow> 'w domain_world
   \<Rightarrow> 'w domain_world \<times> ingest_stage option" where
  "index_stage env job parsed fid s =
     (let (r, s1) = index_file env job fid s; did = ij_doc job
      in if document_named did (dw_documents s) = None then (s\<lparr>dw_service := dw_service s1\<rparr>, None)
         else case r of
                Inl reason \<Rightarrow> fail_document did reason s1
              | Inr st \<Rightarrow>
                  if st \<noteq> ''completed'' then fail_document did (''Vector store file status: '' @ st) s1
                  else commit_document did (\<lambda>d. d\<lparr>dd_status := Dd_indexed\<rparr>) None
                         (admin_log (ij_actor job) ''domain_document_uploaded''
                            [(''domain_id'', PStr (ij_domain job)), (''doc_id'', PStr did),
                             (''filename'', PStr (ij_filename job)),
                             (''regex_hits'', PInt (int (sn_regex_hits (pd_sanitization parsed)))),
                             (''classifier_hits'', PInt (int (sn_classifier_hits (pd_sanitization parsed)))),
                             (''chunks_scanned'', PInt (int (sn_chunks_scanned (pd_sanitization parsed))))] s1))"

fun ingest_stage_step ::
  "'w domain_env \<Rightarrow> ingest_job \<Rightarrow> ingest_stage \<Rightarrow> 'w domain_world \<Rightarrow> 'w domain_world \<times> ingest_stage option" where
  "ingest_stage_step env job At_upload s = upload_stage env job s"
| "ingest_stage_step env job (At_parse fid) s = parse_stage env job fid s"
| "ingest_stage_step env job (At_clean parsed) s = clean_stage env job parsed s"
| "ingest_stage_step env job (At_index parsed fid) s = index_stage env job parsed fid s"

text \<open>The stages that are left; the task runs them one after the other.\<close>

fun stages_left :: "ingest_stage option \<Rightarrow> nat" where
  "stages_left None = 0"
| "stages_left (Some At_upload) = 4"
| "stages_left (Some (At_parse fid)) = 3"
| "stages_left (Some (At_clean parsed)) = 2"
| "stages_left (Some (At_index parsed fid)) = 1"

lemma stage_step_progress: "stages_left (snd (ingest_stage_step env job st s)) < stages_left (Some st)"
  by (cases st)
    (auto simp: upload_stage_def parse_stage_def clean_stage_def index_stage_def fail_document_def commit_document_def
      admin_log_def Let_def split: sum.splits prod.splits)

function run_stages ::
  "'w domain_env \<Rightarrow> ingest_job \<Rightarrow> ingest_stage option \<Rightarrow> 'w domain_world \<Rightarrow> 'w domain_world" where
  "run_stages env job None s = s"
| "run_stages env job (Some st) s =
     run_stages env job (snd (ingest_stage_step env job st s)) (fst (ingest_stage_step env job st s))"
  by pat_completeness auto
termination
  by (relation "measure (\<lambda>(env, job, st, s). stages_left st)") (simp_all add: stage_step_progress)

definition ingest_domain_document :: "'w domain_env \<Rightarrow> ingest_job \<Rightarrow> 'w domain_world \<Rightarrow> 'w domain_world" where
  "ingest_domain_document env job = run_stages env job (Some At_upload)"

section \<open>Reconciliation\<close>

definition stuck_threshold_minutes :: int where "stuck_threshold_minutes = 15"

definition stuck_statuses :: "document_status list" where
  "stuck_statuses = [Dd_uploading, Dd_parsed, Dd_indexing]"

definition is_stuck_document :: "int \<Rightarrow> knowledge_document \<Rightarrow> bool" where
  "is_stuck_document now d \<longleftrightarrow>
     dd_status d \<in> set stuck_statuses \<and> dd_uploaded_at d < now - stuck_threshold_minutes * 60 * 1000000"

definition failed_with :: "string \<Rightarrow> knowledge_document \<Rightarrow> knowledge_document" where
  "failed_with reason d = d\<lparr>dd_status := Dd_failed, dd_error_reason := Some reason\<rparr>"

definition check_vector_store_file ::
  "'w domain_env \<Rightarrow> domain_record list \<Rightarrow> knowledge_document \<Rightarrow> 'w \<Rightarrow> knowledge_document \<times> 'w" where
  "check_vector_store_file env ds d w =
     (case domain_named (dd_domain d) ds of
        None \<Rightarrow> (failed_with ''Domain vector store not found during reconciliation'' d, w)
      | Some r \<Rightarrow>
          if \<not> non_empty (do_vector_store_id r)
          then (failed_with ''Domain vector store not found during reconciliation'' d, w)
          else (case vs_file_status (dv_service env) (the (do_vector_store_id r)) (the (dd_sanitized_file_id d)) w of
                  (Inl e, w') \<Rightarrow> (failed_with (''Could not retrieve vector store file: '' @ dv_exn_text env e) d, w')
                | (Inr st, w') \<Rightarrow>
                    (if st = ''completed'' then d\<lparr>dd_status := Dd_indexed\<rparr>
                     else if st = ''failed'' \<or> st = ''cancelled''
                     then failed_with (''OpenAI vector store file status: '' @ st) d
                     else d, w')))"

text \<open>The message is put together after the status was overwritten, so it names the new one.\<close>

definition stuck_reason :: string where
  "stuck_reason = ''Stuck in DomainDocumentStatus.failed for >15 minutes; manually retry upload''"

definition reconcile_document ::
  "'w domain_env \<Rightarrow> domain_record list \<Rightarrow> knowledge_document \<Rightarrow> 'w \<Rightarrow> knowledge_document \<times> 'w" where
  "reconcile_document env ds d w =
     (if dd_status d = Dd_indexing \<and> non_empty (dd_sanitized_file_id d) then check_vector_store_file env ds d w
      else if dd_status d = Dd_uploading \<or> dd_status d = Dd_parsed then
        (if non_empty (dd_openai_file_id d) then
           (case vs_retrieve_file (dv_service env) (the (dd_openai_file_id d)) w of
              (Inr f, w') \<Rightarrow> (failed_with stuck_reason d, w')
            | (Inl e, w') \<Rightarrow> (failed_with ''OpenAI file not found during reconciliation'' d, w'))
         else (failed_with ''No openai_file_id recorded; stuck in upload'' d, w))
      else (d, w))"

text \<open>The row is read again before it is looked at.\<close>

definition reconcile_one :: "'w domain_env \<Rightarrow> uuid \<Rightarrow> 'w domain_world \<Rightarrow> 'w domain_world" where
  "reconcile_one env did s =
     (case document_named did (dw_documents s) of
        None \<Rightarrow> s
      | Some d \<Rightarrow>
          if dd_status d \<notin> set stuck_statuses then s
          else let (d', w) = reconcile_document env (dw_domains s) d (dw_service s)
               in s\<lparr>dw_documents := change_document did (\<lambda>_. d') (dw_documents s), dw_service := w\<rparr>)"

definition reconcile_domain_documents :: "'w domain_env \<Rightarrow> int \<Rightarrow> 'w domain_world \<Rightarrow> 'w domain_world" where
  "reconcile_domain_documents env now s =
     foldl (\<lambda>s did. reconcile_one env did s) s (map dd_id (filter (is_stuck_document now) (dw_documents s)))"

section \<open>What a table keeps\<close>

definition ids_distinct :: "'w domain_world \<Rightarrow> bool" where
  "ids_distinct s \<longleftrightarrow> distinct (map do_id (dw_domains s)) \<and> distinct (map do_code (dw_domains s))
     \<and> distinct (map dd_id (dw_documents s))"

definition document_sound :: "knowledge_document \<Rightarrow> bool" where
  "document_sound d \<longleftrightarrow>
     (dd_status d \<in> {Dd_indexing, Dd_indexed} \<longrightarrow> dd_sanitized d \<and> dd_sanitized_file_id d \<noteq> None)
   \<and> (dd_status d = Dd_failed \<longrightarrow> dd_error_reason d \<noteq> None)"

definition domains_sound :: "'w domain_world \<Rightarrow> bool" where
  "domains_sound s \<longleftrightarrow> ids_distinct s \<and> list_all document_sound (dw_documents s)
     \<and> (\<forall>d \<in> set (dw_documents s). dd_domain d \<in> do_id ` set (dw_domains s))"

text \<open>
  A run of the task stands somewhere: in the steps below any stage may follow at any time, so that other
  requests, deletions and the reconciliation come in between, or the process dies. What a stage is given
  was put on the row by the one before.
\<close>

definition stage_fits :: "ingest_job \<Rightarrow> ingest_stage \<Rightarrow> 'w domain_world \<Rightarrow> bool" where
  "stage_fits job st s \<longleftrightarrow> (case st of At_index parsed fid \<Rightarrow>
       (\<forall>d \<in> set (dw_documents s). dd_id d = ij_doc job \<longrightarrow> dd_sanitized d \<and> dd_sanitized_file_id d \<noteq> None)
     | _ \<Rightarrow> True)"

definition marked :: "knowledge_document \<Rightarrow> bool" where
  "marked d \<longleftrightarrow> dd_sanitized d \<and> dd_sanitized_file_id d \<noteq> None"

definition sound_change :: "uuid \<Rightarrow> knowledge_document list \<Rightarrow> (knowledge_document \<Rightarrow> knowledge_document) \<Rightarrow> bool" where
  "sound_change i ds f \<longleftrightarrow> (\<forall>d \<in> set ds. dd_id d = i \<longrightarrow> dd_id (f d) = dd_id d \<and> dd_domain (f d) = dd_domain d
     \<and> (marked d \<longrightarrow> marked (f d)) \<and> (document_sound d \<longrightarrow> document_sound (f d)))"

definition same_domains :: "domain_record list \<Rightarrow> domain_record list \<Rightarrow> bool" where
  "same_domains ds ds' \<longleftrightarrow> map do_id ds' = map do_id ds \<and> map do_code ds' = map do_code ds"

text \<open>The running tasks, each with the stage it is at.\<close>

type_synonym running = "(ingest_job \<times> ingest_stage) list"

definition tasks_fit :: "'w domain_world \<Rightarrow> running \<Rightarrow> bool" where
  "tasks_fit s run \<longleftrightarrow> (\<forall>(job, st) \<in> set run. stage_fits job st s)"

definition kb_sound :: "'w domain_world \<times> running \<Rightarrow> bool" where
  "kb_sound c \<longleftrightarrow> domains_sound (fst c) \<and> tasks_fit (fst c) (snd c)"

lemma change_document_map: "sound_change i ds f \<Longrightarrow> map dd_id (change_document i f ds) = map dd_id ds"
  by (auto simp: change_document_def sound_change_def)

lemma change_document_image:
  "sound_change i ds f \<Longrightarrow> d' \<in> set (change_document i f ds) \<Longrightarrow> \<exists>d \<in> set ds. dd_id d' = dd_id d \<and> dd_domain d' = dd_domain d
     \<and> (marked d \<longrightarrow> marked d') \<and> (document_sound d \<longrightarrow> document_sound d')"
  by (auto simp: change_document_def sound_change_def)

lemma sound_after_change:
  assumes "domains_sound s" and "same_domains (dw_domains s) (dw_domains s')"
    and "sound_change i (dw_documents s) f" and "dw_documents s' = change_document i f (dw_documents s)"
  shows "domains_sound s'"
proof -
  have "do_id ` set (dw_domains s') = do_id ` set (dw_domains s)"
    using assms(2) by (metis list.set_map same_domains_def)
  moreover have "list_all document_sound (dw_documents s')"
    using assms(1) change_document_image [OF assms(3)] unfolding assms(4) domains_sound_def list_all_iff by blast
  moreover have "\<forall>d \<in> set (dw_documents s'). dd_domain d \<in> do_id ` set (dw_domains s)"
    using assms(1) change_document_image [OF assms(3)] unfolding assms(4) domains_sound_def by metis
  ultimately show ?thesis
    using assms(1,2) change_document_map [OF assms(3)]
    by (simp add: domains_sound_def ids_distinct_def same_domains_def assms(4))
qed

lemma fits_after_change:
  assumes "stage_fits job st s" "sound_change i (dw_documents s) f" "dw_documents s' = change_document i f (dw_documents s)"
  shows "stage_fits job st s'"
proof -
  have "marked d'" if m: "d' \<in> set (dw_documents s')" "dd_id d' = ij_doc job"
    and all: "\<forall>d \<in> set (dw_documents s). dd_id d = ij_doc job \<longrightarrow> marked d" for d'
    using change_document_image [OF assms(2), of d'] m all unfolding assms(3) by metis
  then show ?thesis using assms(1) by (auto simp: stage_fits_def marked_def split: ingest_stage.splits)
qed

lemma no_change: "change_document i (\<lambda>d. d) ds = ds" "sound_change i ds (\<lambda>d. d)"
  by (simp_all add: change_document_def sound_change_def)

lemma same_domains_change:
  "(\<And>d. do_id (f d) = do_id d \<and> do_code (f d) = do_code d) \<Longrightarrow> same_domains ds (change_domain i f ds)"
  by (auto simp: same_domains_def change_domain_def)

lemma same_domains_refl [simp]: "same_domains ds ds"
  by (simp add: same_domains_def)

lemma same_domains_trans: "same_domains a b \<Longrightarrow> same_domains b c \<Longrightarrow> same_domains a c"
  by (simp add: same_domains_def)

lemma ensure_same_domains:
  assumes "ensure_domain_vector_store env force i (ds, w) = (r, ds', w')"
  shows "same_domains ds ds'"
proof (cases "domain_named i ds")
  case (Some d)
  have two: "same_domains ds (change_domain i f (change_domain i g ds))"
    if "\<And>d. do_id (f d) = do_id d \<and> do_code (f d) = do_code d" "\<And>d. do_id (g d) = do_id d \<and> do_code (g d) = do_code d"
    for f g using same_domains_trans [OF same_domains_change [of g] same_domains_change [of f]] that by blast
  show ?thesis
    using assms Some
    by (auto simp: ensure_domain_vector_store_def Let_def split: if_splits sum.splits prod.splits
        intro!: two same_domains_change)
qed (use assms in \<open>simp add: ensure_domain_vector_store_def\<close>)

lemma fail_sound: "sound_change i ds (\<lambda>d. d\<lparr>dd_status := Dd_failed, dd_error_reason := Some reason\<rparr>)"
  by (simp add: sound_change_def marked_def document_sound_def)

text \<open>What every stage does to the tables.\<close>

definition stage_effect ::
  "ingest_job \<Rightarrow> 'w domain_world \<Rightarrow> 'w domain_world \<times> ingest_stage option \<Rightarrow> bool" where
  "stage_effect job s r \<longleftrightarrow> same_domains (dw_domains s) (dw_domains (fst r))
     \<and> (\<exists>f. sound_change (ij_doc job) (dw_documents s) f
          \<and> dw_documents (fst r) = change_document (ij_doc job) f (dw_documents s))
     \<and> (\<forall>st. snd r = Some st \<longrightarrow> stage_fits job st (fst r))"

lemma stage_effect_none:
  "same_domains (dw_domains s) (dw_domains s') \<Longrightarrow> dw_documents s' = dw_documents s \<Longrightarrow> stage_effect job s (s', None)"
  by (auto simp: stage_effect_def no_change intro!: exI [of _ "\<lambda>d. d"])

lemma stage_effect_commit:
  assumes "same_domains (dw_domains s) (dw_domains s1)" "dw_documents s1 = dw_documents s"
    and "sound_change (ij_doc job) (dw_documents s) f"
    and "\<And>st. following = Some st
           \<Longrightarrow> stage_fits job st (s1\<lparr>dw_documents := change_document (ij_doc job) f (dw_documents s)\<rparr>)"
  shows "stage_effect job s (commit_document (ij_doc job) f following s1)"
proof (cases "document_named (ij_doc job) (dw_documents s) = None")
  case True
  then show ?thesis using stage_effect_none [OF assms(1,2), of job] assms(2) by (simp add: commit_document_def)
next
  case False
  then obtain y where y: "document_named (ij_doc job) (dw_documents s) = Some y" by blast
  show ?thesis
    using assms y by (auto simp: commit_document_def stage_effect_def)
qed

lemma stage_effect_fail:
  assumes "same_domains (dw_domains s) (dw_domains s1)" "dw_documents s1 = dw_documents s"
  shows "stage_effect job s (fail_document (ij_doc job) reason s1)"
  unfolding fail_document_def by (rule stage_effect_commit [OF assms fail_sound]) simp

lemma upload_stage_effect: "stage_effect job s (upload_stage env job s)"
  by (auto simp: upload_stage_def stage_effect_none split: sum.splits prod.splits
      intro!: stage_effect_fail stage_effect_commit)
    (auto simp: sound_change_def marked_def document_sound_def stage_fits_def)

lemma parse_stage_effect: "stage_effect job s (parse_stage env job fid s)"
  by (auto simp: parse_stage_def split: sum.splits prod.splits intro!: stage_effect_fail stage_effect_commit)
    (auto simp: sound_change_def marked_def document_sound_def stage_fits_def)

lemma clean_stage_effect: "stage_effect job s (clean_stage env job parsed s)"
  by (auto simp: clean_stage_def split: sum.splits prod.splits intro!: stage_effect_fail stage_effect_commit)
    (auto simp: sound_change_def marked_def document_sound_def stage_fits_def change_document_def)

lemma index_file_effect:
  "same_domains (dw_domains s) (dw_domains (snd (index_file env job fid s)))
   \<and> dw_documents (snd (index_file env job fid s)) = dw_documents s"
  by (auto simp: index_file_def split: sum.splits prod.splits dest!: ensure_same_domains)

lemma index_stage_effect:
  assumes "stage_fits job (At_index parsed fid) s"
  shows "stage_effect job s (index_stage env job parsed fid s)"
proof -
  obtain r s1 where r: "index_file env job fid s = (r, s1)" by force
  have s1: "same_domains (dw_domains s) (dw_domains s1)" "dw_documents s1 = dw_documents s"
    using index_file_effect [of s env job fid] r by simp_all
  have done_sound: "sound_change (ij_doc job) (dw_documents s) (\<lambda>d. d\<lparr>dd_status := Dd_indexed\<rparr>)"
    using assms by (auto simp: sound_change_def marked_def document_sound_def stage_fits_def)
  show ?thesis
  proof (cases "document_named (ij_doc job) (dw_documents s) = None")
    case True
    then show ?thesis using stage_effect_none [of s "s\<lparr>dw_service := dw_service s1\<rparr>" job]
      by (simp add: index_stage_def r)
  next
    case False
    then show ?thesis
      using s1 done_sound
      by (auto simp: index_stage_def r Let_def admin_log_def split: sum.splits
          intro!: stage_effect_fail stage_effect_commit)
  qed
qed

lemma ingest_stage_effect: "stage_fits job st s \<Longrightarrow> stage_effect job s (ingest_stage_step env job st s)"
  using upload_stage_effect parse_stage_effect clean_stage_effect index_stage_effect by (cases st) fastforce+

section \<open>Steps\<close>

inductive domain_step ::
  "'w domain_env \<Rightarrow> 'w domain_world \<times> running \<Rightarrow> 'w domain_world \<times> running \<Rightarrow> bool" for env where
  d_create: "new_id \<notin> do_id ` set (dw_domains s) \<Longrightarrow> create_domain env rq new_id code name description s = (r, s')
     \<Longrightarrow> domain_step env (s, run) (s', run)"
| d_update: "update_domain rq i g s = Inr s' \<Longrightarrow> domain_step env (s, run) (s', run)"
| d_retire: "retire_domain env rq i hard cases s = (r, s') \<Longrightarrow> domain_step env (s, run) (s', run)"
| d_upload: "new_id \<notin> dd_id ` set (dw_documents s) \<Longrightarrow> new_id \<notin> (ij_doc \<circ> fst) ` set run
     \<Longrightarrow> upload_domain_document env cfg rq i new_id filename content_type body s = (Inr job, s')
     \<Longrightarrow> domain_step env (s, run) (s', (job, At_upload) # run)"
| d_refused: "upload_domain_document env cfg rq i new_id filename content_type body s = (Inl e, s')
     \<Longrightarrow> domain_step env (s, run) (s', run)"
| d_delete: "delete_domain_document env rq i did s = (r, s') \<Longrightarrow> domain_step env (s, run) (s', run)"
| d_stage: "ingest_stage_step env job st s = (s', following)
     \<Longrightarrow> domain_step env (s, run1 @ (job, st) # run2)
           (s', run1 @ (case following of None \<Rightarrow> [] | Some st' \<Rightarrow> [(job, st')]) @ run2)"
| d_die: "domain_step env (s, run1 @ (job, st) # run2) (s, run1 @ run2)"
| d_reconcile: "domain_step env (s, run) (reconcile_domain_documents env now s, run)"

lemma tasks_fit_change:
  assumes "tasks_fit s run" "sound_change i (dw_documents s) f" "dw_documents s' = change_document i f (dw_documents s)"
  shows "tasks_fit s' run"
  using assms fits_after_change by (fastforce simp: tasks_fit_def)

lemma tasks_fit_subset:
  assumes "tasks_fit s run" "set (dw_documents s') \<subseteq> set (dw_documents s)"
  shows "tasks_fit s' run"
proof -
  have "stage_fits job st s \<Longrightarrow> stage_fits job st s'" for job st
    using assms(2) by (cases st) (auto simp: stage_fits_def)
  then show ?thesis using assms(1) by (auto simp: tasks_fit_def)
qed

lemma kb_sound_kept:
  assumes "kb_sound (s, run)" "same_domains (dw_domains s) (dw_domains s')" "dw_documents s' = dw_documents s"
  shows "kb_sound (s', run)"
  using assms sound_after_change [OF _ assms(2) no_change(2)] tasks_fit_subset [of s run s']
  by (auto simp: kb_sound_def no_change)

lemma domain_named_id: "domain_named i ds = Some d \<Longrightarrow> d \<in> set ds \<and> do_id d = i"
  by (auto simp: domain_named_def find_Some_iff)

lemma upload_effect:
  assumes "upload_domain_document env cfg rq i new_id filename content_type body s = (r, s')"
  shows "same_domains (dw_domains s) (dw_domains s')
    \<and> (case r of Inl e \<Rightarrow> dw_documents s' = dw_documents s
       | Inr job \<Rightarrow> i \<in> do_id ` set (dw_domains s) \<and> (\<exists>d. dw_documents s' = dw_documents s @ [d] \<and> dd_id d = new_id
            \<and> dd_domain d = i \<and> document_sound d))"
  using assms domain_named_id [of i "dw_domains s"]
  by (auto simp: upload_domain_document_def Let_def document_sound_def dest!: ensure_same_domains
      split: sum.splits prod.splits option.splits if_splits)

lemma create_effect:
  assumes "create_domain env rq new_id code name description s = (r, s')"
  shows "dw_documents s' = dw_documents s
    \<and> (same_domains (dw_domains s) (dw_domains s')
       \<or> (code \<notin> do_code ` set (dw_domains s)
          \<and> (\<exists>row. do_id row = new_id \<and> do_code row = code \<and> same_domains (dw_domains s @ [row]) (dw_domains s'))))"
proof (cases "require_role [user_role.Admin] rq = Inr () \<and> valid_code code \<and> valid_name name
    \<and> \<not> (\<exists>d \<in> set (dw_domains s). do_code d = code)")
  case True
  define row where "row = \<lparr>do_id = new_id, do_code = code, do_is_active = False, do_vector_store_id = None,
                          dm_name = name, dm_description = description, dm_created_by = Some (us_id (rq_user rq))\<rparr>"
  obtain x ds w where e: "ensure_domain_vector_store env False new_id (dw_domains s @ [row], dw_service s) = (x, ds, w)"
    using prod_cases3 by blast
  have "dw_documents s' = dw_documents s" "dw_domains s' = ds"
    using assms True e by (auto simp: create_domain_def Let_def admin_log_def row_def)
  moreover have "do_id row = new_id" "do_code row = code" by (simp_all add: row_def)
  moreover have "code \<notin> do_code ` set (dw_domains s)" using True by auto
  ultimately show ?thesis using ensure_same_domains [OF e] by metis
next
  case False
  then have "s' = s" using assms by (auto simp: create_domain_def require_role_def split: if_splits)
  then show ?thesis by simp
qed

definition settled_as :: "knowledge_document \<Rightarrow> knowledge_document \<Rightarrow> bool" where
  "settled_as d d' \<longleftrightarrow> d' = d \<or> (dd_status d = Dd_indexing \<and> d' = d\<lparr>dd_status := Dd_indexed\<rparr>)
     \<or> (\<exists>reason. d' = failed_with reason d)"

lemma settled_as_intros:
  "settled_as d d" "settled_as d (failed_with reason d)"
  "dd_status d = Dd_indexing \<Longrightarrow> settled_as d (d\<lparr>dd_status := Dd_indexed\<rparr>)"
  by (auto simp: settled_as_def)

lemma check_settles: "dd_status d = Dd_indexing \<Longrightarrow> settled_as d (fst (check_vector_store_file env ds d w))"
  unfolding check_vector_store_file_def
  by (simp add: settled_as_intros split: option.split sum.split prod.split)

lemma reconcile_settles: "settled_as d (fst (reconcile_document env ds d w))"
  unfolding reconcile_document_def
  by (simp add: settled_as_intros check_settles split: sum.split prod.split)

lemma reconcile_document_effect:
  assumes "reconcile_document env ds d w = (d', w')"
  shows "dd_id d' = dd_id d \<and> dd_domain d' = dd_domain d \<and> (marked d \<longrightarrow> marked d')
    \<and> (document_sound d \<longrightarrow> document_sound d')"
proof -
  have "settled_as d d'" using reconcile_settles [of d env ds w] assms by simp
  then show ?thesis by (auto simp: settled_as_def failed_with_def marked_def document_sound_def)
qed

lemma reconcile_one_effect:
  assumes "kb_sound (s, run)"
  shows "kb_sound (reconcile_one env did s, run)"
proof (cases "document_named did (dw_documents s)")
  case (Some d)
  obtain d' w where r: "reconcile_document env (dw_domains s) d (dw_service s) = (d', w)" by force
  have d: "d \<in> set (dw_documents s)" "dd_id d = did" using Some by (auto simp: document_named_def find_Some_iff)
  have u: "x = d" if "x \<in> set (dw_documents s)" "dd_id x = did" for x
    using assms that d by (auto simp: kb_sound_def domains_sound_def ids_distinct_def distinct_map dest: inj_onD)
  have c: "sound_change did (dw_documents s) (\<lambda>_. d')"
    using reconcile_document_effect [OF r] u by (auto simp: sound_change_def)
  show ?thesis
  proof (cases "dd_status d \<in> set stuck_statuses")
    case True
    then have e: "reconcile_one env did s
      = s\<lparr>dw_documents := change_document did (\<lambda>_. d') (dw_documents s), dw_service := w\<rparr>"
      using Some r by (simp add: reconcile_one_def)
    show ?thesis
      using assms sound_after_change [OF _ _ c, of "reconcile_one env did s"] tasks_fit_change [OF _ c, of run "reconcile_one env did s"]
      by (simp add: kb_sound_def e)
  qed (use assms Some in \<open>simp add: reconcile_one_def\<close>)
qed (use assms in \<open>simp add: reconcile_one_def\<close>)

lemma reconcile_sound: "kb_sound (s, run) \<Longrightarrow> kb_sound (reconcile_domain_documents env now s, run)"
proof -
  have "kb_sound (s, run) \<Longrightarrow> kb_sound (foldl (\<lambda>s did. reconcile_one env did s) s is, run)" for "is" s
    by (induction "is" arbitrary: s) (simp_all add: reconcile_one_effect)
  then show "kb_sound (s, run) \<Longrightarrow> ?thesis" by (simp add: reconcile_domain_documents_def)
qed

lemma kb_sound_subset:
  assumes "kb_sound (s, run)" "set (dw_documents s') \<subseteq> set (dw_documents s)" "distinct (map dd_id (dw_documents s'))"
    and "distinct (map do_id (dw_domains s'))" "distinct (map do_code (dw_domains s'))"
    and "\<And>d. d \<in> set (dw_documents s') \<Longrightarrow> dd_domain d \<in> do_id ` set (dw_domains s) \<Longrightarrow> dd_domain d \<in> do_id ` set (dw_domains s')"
  shows "kb_sound (s', run)"
  using assms tasks_fit_subset [of s run s']
  by (auto simp: kb_sound_def domains_sound_def ids_distinct_def list_all_iff)

lemma distinct_map_filtered: "distinct (map f xs) \<Longrightarrow> distinct (map f (filter P xs))"
  by (induction xs) auto

lemma create_sound:
  assumes "kb_sound (s, run)" "new_id \<notin> do_id ` set (dw_domains s)"
    and "create_domain env rq new_id code name description s = (r, s')"
  shows "kb_sound (s', run)"
proof -
  from create_effect [OF assms(3)] show ?thesis
  proof (elim conjE disjE exE)
    fix row
    assume e: "dw_documents s' = dw_documents s" "code \<notin> do_code ` set (dw_domains s)" "do_id row = new_id"
      "do_code row = code" "same_domains (dw_domains s @ [row]) (dw_domains s')"
    have m: "map do_id (dw_domains s') = map do_id (dw_domains s) @ [new_id]"
      "map do_code (dw_domains s') = map do_code (dw_domains s) @ [code]"
      using e(3-5) by (simp_all add: same_domains_def)
    have "do_id ` set (dw_domains s') = insert new_id (do_id ` set (dw_domains s))"
      using arg_cong [OF m(1), of set] by simp
    then show ?thesis
      using assms(1,2) e(1,2)
      by (intro kb_sound_subset [OF assms(1)]) (auto simp: m kb_sound_def domains_sound_def ids_distinct_def)
  qed (rule kb_sound_kept [OF assms(1)])
qed

lemma retire_sound:
  assumes "kb_sound (s, run)" "retire_domain env rq i hard cases s = (r, s')"
  shows "kb_sound (s', run)"
proof -
  consider "s' = s" | "dw_documents s' = dw_documents s" "same_domains (dw_domains s) (dw_domains s')"
    | "dw_documents s' = filter (\<lambda>r. dd_domain r \<noteq> i) (dw_documents s)"
      "dw_domains s' = filter (\<lambda>r. do_id r \<noteq> i) (dw_domains s)"
    using assms(2) same_domains_change [of "\<lambda>r. r\<lparr>do_is_active := False\<rparr>" "dw_domains s" i]
    by (cases hard) (auto simp: retire_domain_def admin_log_def Let_def split: sum.splits if_splits)
  then show ?thesis
  proof cases
    case 2
    then show ?thesis by (intro kb_sound_kept [OF assms(1)])
  next
    case 3
    then show ?thesis
      using assms(1) by (intro kb_sound_subset [OF assms(1)])
        (auto simp: kb_sound_def domains_sound_def ids_distinct_def distinct_map_filtered)
  qed (use assms(1) in simp)
qed

lemma upload_sound:
  assumes "kb_sound (s, run)" "new_id \<notin> dd_id ` set (dw_documents s)" "new_id \<notin> (ij_doc \<circ> fst) ` set run"
    and u: "upload_domain_document env cfg rq i new_id filename content_type body s = (Inr job, s')"
  shows "kb_sound (s', (job, At_upload) # run)"
proof -
  obtain d where d: "dw_documents s' = dw_documents s @ [d]" "dd_id d = new_id" "dd_domain d = i" "document_sound d"
    and m: "i \<in> do_id ` set (dw_domains s)" "same_domains (dw_domains s) (dw_domains s')"
    using upload_effect [OF u] by auto
  have ids: "do_id ` set (dw_domains s') = do_id ` set (dw_domains s)"
    using m(2) by (metis list.set_map same_domains_def)
  have "stage_fits j st s'" if "(j, st) \<in> set run" for j st
  proof -
    have "ij_doc j \<noteq> new_id" using assms(3) that by force
    then show ?thesis using assms(1) that d(1,2)
      by (cases st) (fastforce simp: kb_sound_def tasks_fit_def stage_fits_def)+
  qed
  then have "tasks_fit s' ((job, At_upload) # run)" by (auto simp: tasks_fit_def) (simp add: stage_fits_def)
  moreover have "domains_sound s'"
    using assms(1,2) d m ids by (auto simp: kb_sound_def domains_sound_def ids_distinct_def same_domains_def)
  ultimately show ?thesis by (simp add: kb_sound_def)
qed

lemma stage_sound:
  assumes "kb_sound (s, run1 @ (job, st) # run2)" and "ingest_stage_step env job st s = (s', following)"
  shows "kb_sound (s', run1 @ (case following of None \<Rightarrow> [] | Some st' \<Rightarrow> [(job, st')]) @ run2)"
proof -
  have "stage_fits job st s" using assms(1) by (simp add: kb_sound_def tasks_fit_def)
  from ingest_stage_effect [OF this, of env] obtain f where
    f: "same_domains (dw_domains s) (dw_domains s')" "sound_change (ij_doc job) (dw_documents s) f"
      "dw_documents s' = change_document (ij_doc job) f (dw_documents s)"
      "\<And>st'. following = Some st' \<Longrightarrow> stage_fits job st' s'"
    unfolding assms(2) stage_effect_def by auto
  have "tasks_fit s (run1 @ run2)" using assms(1) by (auto simp: kb_sound_def tasks_fit_def)
  from tasks_fit_change [OF this f(2,3)] f(4) have "tasks_fit s' (run1 @ (case following of None \<Rightarrow> [] | Some st' \<Rightarrow> [(job, st')]) @ run2)"
    by (auto simp: tasks_fit_def split: option.splits)
  then show ?thesis
    using assms(1) sound_after_change [OF _ f(1-3)] by (simp add: kb_sound_def)
qed

lemma update_sound:
  assumes "kb_sound (s, run)" "update_domain rq i g s = Inr s'"
  shows "kb_sound (s', run)"
proof (rule kb_sound_kept [OF assms(1)])
  show "same_domains (dw_domains s) (dw_domains s')"
    using assms(2) unfolding update_domain_def
    by (auto elim!: bind_InrE simp: admin_log_def split: if_splits intro!: same_domains_change)
  show "dw_documents s' = dw_documents s"
    using assms(2) unfolding update_domain_def by (auto elim!: bind_InrE simp: admin_log_def split: if_splits)
qed

lemma delete_sound:
  assumes "kb_sound (s, run)" "delete_domain_document env rq i did s = (r, s')"
  shows "kb_sound (s', run)"
proof -
  consider "s' = s" | "dw_documents s' = filter (\<lambda>r. dd_id r \<noteq> did) (dw_documents s)" "dw_domains s' = dw_domains s"
    using assms(2)
    by (auto simp: delete_domain_document_def admin_log_def Let_def split: sum.splits option.splits)
  then show ?thesis
  proof cases
    case 2
    then show ?thesis
      using assms(1) by (intro kb_sound_subset [OF assms(1)])
        (auto simp: kb_sound_def domains_sound_def ids_distinct_def distinct_map_filtered)
  qed (use assms(1) in simp)
qed

lemma domain_step_sound:
  assumes "domain_step env c c'" "kb_sound c"
  shows "kb_sound c'"
  using assms
proof (cases rule: domain_step.cases)
  case (d_refused cfg rq i new_id filename content_type body s e s' run)
  then show ?thesis using assms(2) upload_effect [OF d_refused(3)] by (auto intro: kb_sound_kept)
next
  case (d_die s run1 job st run2)
  then show ?thesis using assms(2) by (auto simp: kb_sound_def tasks_fit_def)
next
  case (d_create new_id s rq code name description r s' run)
  then show ?thesis using assms(2) create_sound [OF _ d_create(3,4)] by simp
next
  case (d_update rq i g s s' run)
  then show ?thesis using assms(2) update_sound [OF _ d_update(3)] by simp
next
  case (d_retire rq i hard cases s r s' run)
  then show ?thesis using assms(2) retire_sound [OF _ d_retire(3)] by simp
next
  case (d_upload new_id s run cfg rq i filename content_type body job s')
  then show ?thesis using assms(2) upload_sound [OF _ d_upload(3-5)] by simp
next
  case (d_delete rq i did s r s' run)
  then show ?thesis using assms(2) delete_sound [OF _ d_delete(3)] by simp
next
  case (d_stage job st s s' following run1 run2)
  then show ?thesis using assms(2) stage_sound [OF _ d_stage(3)] by simp
next
  case (d_reconcile s run now)
  then show ?thesis using assms(2) reconcile_sound by simp
qed


section \<open>A whole ingestion\<close>

lemma find_changed:
  assumes "\<And>d. dd_id (f d) = dd_id d"
  shows "document_named i (change_document i f ds) = map_option f (document_named i ds)"
  using assms by (induction ds) (auto simp: document_named_def change_document_def)

lemma fail_document_result:
  assumes "document_named did (dw_documents s) = Some d"
  shows "\<exists>s'. fail_document did reason s = (s', None)
    \<and> document_named did (dw_documents s') = Some (failed_with reason d)"
  using assms by (simp add: fail_document_def commit_document_def find_changed failed_with_def)

text \<open>A failed end.\<close>

definition ends_failed :: "uuid \<Rightarrow> 'w domain_world \<times> ingest_stage option \<Rightarrow> bool" where
  "ends_failed did r \<longleftrightarrow> snd r = None \<and> (\<exists>d. document_named did (dw_documents (fst r)) = Some d
     \<and> dd_status d = Dd_failed \<and> dd_error_reason d \<noteq> None)"

lemma fail_ends: "\<exists>d. document_named did (dw_documents s) = Some d \<Longrightarrow> ends_failed did (fail_document did reason s)"
  using fail_document_result [of did s _ reason] by (fastforce simp: ends_failed_def failed_with_def)

lemma upload_stage_cases:
  assumes "document_named (ij_doc job) (dw_documents s) = Some d"
  obtains "ends_failed (ij_doc job) (upload_stage env job s)"
  | fid w s' d' where "vs_create_file (dv_service env) (ij_filename job) (ij_body job) (dw_service s) = (Inr fid, w)"
    "upload_stage env job s = (s', Some (At_parse fid))" "dw_service s' = w"
    "document_named (ij_doc job) (dw_documents s') = Some d'"
  using assms
  by (cases "vs_create_file (dv_service env) (ij_filename job) (ij_body job) (dw_service s)"; cases "fst (vs_create_file (dv_service env) (ij_filename job) (ij_body job) (dw_service s))")
    (auto simp: upload_stage_def commit_document_def find_changed fail_ends)

lemma parse_stage_cases:
  assumes "document_named (ij_doc job) (dw_documents s) = Some d"
  obtains "ends_failed (ij_doc job) (parse_stage env job fid s)"
  | parsed w s' d' where
    "parse_document (dv_files env) (dv_classifier env) fid True False (dw_service s) = (Inr parsed, w)"
    "parse_stage env job fid s = (s', Some (At_clean parsed))" "dw_service s' = w"
    "document_named (ij_doc job) (dw_documents s') = Some d'"
  using assms
  by (cases "parse_document (dv_files env) (dv_classifier env) fid True False (dw_service s)";
      cases "fst (parse_document (dv_files env) (dv_classifier env) fid True False (dw_service s))")
    (auto simp: parse_stage_def commit_document_def find_changed fail_ends)

lemma clean_stage_cases:
  assumes "document_named (ij_doc job) (dw_documents s) = Some d"
  obtains "ends_failed (ij_doc job) (clean_stage env job parsed s)"
  | fid w s' d' where "vs_create_file (dv_service env) (without_extension (ij_filename job) @ ''.sanitized.txt'')
      (sanitized_document parsed) (dw_service s) = (Inr fid, w)"
    "clean_stage env job parsed s = (s', Some (At_index parsed fid))" "dw_service s' = w"
    "document_named (ij_doc job) (dw_documents s') = Some d'" "dd_sanitized_file_id d' = Some fid"
proof (cases "pd_pages parsed = []")
  case True
  then have "ends_failed (ij_doc job) (clean_stage env job parsed s)" using assms by (simp add: clean_stage_def fail_ends)
  then show thesis by (rule that(1))
next
  case False
  define name where "name = without_extension (ij_filename job) @ ''.sanitized.txt''"
  obtain r w where c: "vs_create_file (dv_service env) name (sanitized_document parsed) (dw_service s) = (r, w)" by force
  show thesis
  proof (cases r)
    case (Inl e)
    then have "ends_failed (ij_doc job) (clean_stage env job parsed s)"
      using assms False c unfolding name_def by (simp add: clean_stage_def fail_ends)
    then show thesis by (rule that(1))
  next
    case (Inr fid)
    then show thesis using assms False c that(2) [of fid w] unfolding name_def
      by (auto simp: clean_stage_def commit_document_def find_changed)
  qed
qed

lemma index_stage_cases:
  assumes "document_named (ij_doc job) (dw_documents s) = Some d"
  obtains "ends_failed (ij_doc job) (index_stage env job parsed fid s)"
  | s' where "index_stage env job parsed fid s = (s', None)"
    "document_named (ij_doc job) (dw_documents s') = Some (d\<lparr>dd_status := Dd_indexed\<rparr>)"
proof -
  obtain r s1 where r: "index_file env job fid s = (r, s1)" by force
  have s1: "document_named (ij_doc job) (dw_documents s1) = Some d"
    using index_file_effect [of s env job fid] r assms by simp
  show thesis
  proof (cases "r = Inr ''completed''")
    case True
    then show thesis using r s1 assms that(2)
      by (auto simp: index_stage_def commit_document_def admin_log_def find_changed Let_def)
  next
    case False
    then have "\<exists>reason. index_stage env job parsed fid s = fail_document (ij_doc job) reason s1"
      using r assms by (cases r) (auto simp: index_stage_def Let_def)
    then show thesis using fail_ends [of "ij_doc job" s1] s1 that(1) by metis
  qed
qed

lemma run_stages_unfold: "run_stages env job (Some st) s
  = (case ingest_stage_step env job st s of (s', following) \<Rightarrow> run_stages env job following s')"
  by (simp split: prod.split)

lemma failed_run:
  assumes "ends_failed did (ingest_stage_step env job st s)" "document_named did (dw_documents (run_stages env job (Some st) s)) = Some d"
  shows "dd_status d = Dd_failed \<and> dd_error_reason d \<noteq> None"
  using assms by (auto simp: run_stages_unfold ends_failed_def split: prod.splits)


section \<open>A round of the reconciliation\<close>

lemma find_changed_row:
  assumes "\<And>d. dd_id d = i \<Longrightarrow> dd_id (f d) = i"
  shows "document_named k (change_document i f ds)
    = (if k = i then map_option f (document_named k ds) else document_named k ds)"
  using assms by (induction ds) (auto simp: document_named_def change_document_def)

lemma reconcile_leaves: "dd_status (fst (reconcile_document env ds d w)) \<notin> {Dd_uploading, Dd_parsed}"
proof (cases "dd_status d")
  case Dd_indexing
  then show ?thesis using reconcile_settles [of d env ds w] by (auto simp: settled_as_def failed_with_def)
qed (simp_all add: reconcile_document_def failed_with_def split: sum.split prod.split)

lemma reconcile_one_row:
  assumes "document_named did (dw_documents s) = Some d"
  shows "\<exists>d'. document_named did (dw_documents (reconcile_one env did s)) = Some d' \<and> settled_as d d'
      \<and> dd_status d' \<notin> {Dd_uploading, Dd_parsed}"
    and "k \<noteq> did \<Longrightarrow> document_named k (dw_documents (reconcile_one env did s)) = document_named k (dw_documents s)"
proof -
  obtain d' w where r: "reconcile_document env (dw_domains s) d (dw_service s) = (d', w)" by force
  have i: "dd_id d = did" using assms by (auto simp: document_named_def find_Some_iff)
  have e: "dd_id d' = did" using reconcile_document_effect [OF r] i by simp
  have st: "settled_as d d'" using reconcile_settles [of d env "dw_domains s" "dw_service s"] r by simp
  have n: "dd_status d' \<notin> {Dd_uploading, Dd_parsed}" using reconcile_leaves [of env "dw_domains s" d "dw_service s"] r by simp
  show "\<exists>d'. document_named did (dw_documents (reconcile_one env did s)) = Some d' \<and> settled_as d d'
      \<and> dd_status d' \<notin> {Dd_uploading, Dd_parsed}"
    using assms r e st n
    by (cases "dd_status d \<in> set stuck_statuses")
      (auto simp: reconcile_one_def find_changed_row stuck_statuses_def intro: settled_as_intros)
  show "document_named k (dw_documents (reconcile_one env did s)) = document_named k (dw_documents s)" if "k \<noteq> did"
    using assms r e that by (simp add: reconcile_one_def find_changed_row)
qed

lemma reconcile_one_missing:
  "document_named did (dw_documents s) = None \<Longrightarrow> reconcile_one env did s = s"
  by (simp add: reconcile_one_def)

lemma reconcile_one_other:
  "k \<noteq> did \<Longrightarrow> document_named k (dw_documents (reconcile_one env did s)) = document_named k (dw_documents s)"
  using reconcile_one_row(2) [of did s _ k env] by (cases "document_named did (dw_documents s)") (auto simp: reconcile_one_missing)

lemma reconcile_all_rows:
  assumes "distinct is" "document_named k (dw_documents s) = Some d"
  shows "\<exists>d'. document_named k (dw_documents (foldl (\<lambda>s did. reconcile_one env did s) s is)) = Some d'
    \<and> (if k \<in> set is then settled_as d d' \<and> dd_status d' \<notin> {Dd_uploading, Dd_parsed} else d' = d)"
  using assms
proof (induction "is" arbitrary: s d)
  case (Cons i "is")
  show ?case
  proof (cases "k = i")
    case True
    obtain d' where d': "document_named k (dw_documents (reconcile_one env i s)) = Some d'" "settled_as d d'"
      "dd_status d' \<notin> {Dd_uploading, Dd_parsed}"
      using reconcile_one_row(1) [of i s d env] Cons.prems True by blast
    have "k \<notin> set is" using Cons.prems True by simp
    then show ?thesis using Cons.IH [OF _ d'(1)] Cons.prems(1) d' True by auto
  next
    case False
    then show ?thesis using Cons.IH [of "reconcile_one env i s" d] Cons.prems by (simp add: reconcile_one_other)
  qed
qed simp

text \<open>A round of the reconciliation leaves every document that is not stuck as it is, one that waits for its
  ingestion to begin among them, however old. A stuck one is failed, indexed or still being indexed, and it
  is indexed only when it was being indexed before.\<close>

lemma reconciliation_settles_stuck_documents:
  assumes ids: "distinct (map dd_id (dw_documents s))" and d: "d \<in> set (dw_documents s)"
  shows "\<exists>d'. document_named (dd_id d) (dw_documents (reconcile_domain_documents env now s)) = Some d'
    \<and> (if is_stuck_document now d
       then dd_status d' = Dd_failed \<and> dd_error_reason d' \<noteq> None
         \<or> dd_status d = Dd_indexing \<and> dd_status d' \<in> {Dd_indexed, Dd_indexing}
       else d' = d)"
proof -
  let ?is = "map dd_id (filter (is_stuck_document now) (dw_documents s))"
  have f: "document_named (dd_id d) (dw_documents s) = Some d"
  proof -
    have "d \<in> set ds \<Longrightarrow> distinct (map dd_id ds) \<Longrightarrow> document_named (dd_id d) ds = Some d" for ds
      by (induction ds) (auto simp: document_named_def image_iff)
    then show ?thesis using ids d by blast
  qed
  have m: "dd_id d \<in> set ?is \<longleftrightarrow> is_stuck_document now d"
    using ids d by (auto simp: distinct_map dest: inj_onD)
  obtain d' where
    "document_named (dd_id d) (dw_documents (foldl (\<lambda>s did. reconcile_one env did s) s ?is)) = Some d'"
    and e: "if is_stuck_document now d then settled_as d d' \<and> dd_status d' \<notin> {Dd_uploading, Dd_parsed} else d' = d"
    using reconcile_all_rows [OF distinct_map_filtered [OF ids, where P = "is_stuck_document now"] f, where env = env]
    unfolding m by (elim exE conjE) (rule that)
  then have d': "document_named (dd_id d) (dw_documents (reconcile_domain_documents env now s)) = Some d'"
    by (simp add: reconcile_domain_documents_def)
  show ?thesis
  proof (cases "is_stuck_document now d")
    case True
    then have st: "dd_status d \<in> set stuck_statuses" by (simp add: is_stuck_document_def)
    have "settled_as d d'" "dd_status d' \<notin> {Dd_uploading, Dd_parsed}" using e True by simp_all
    then have "dd_status d' = Dd_failed \<and> dd_error_reason d' \<noteq> None
        \<or> dd_status d = Dd_indexing \<and> dd_status d' \<in> {Dd_indexed, Dd_indexing}"
      unfolding settled_as_def
    proof (elim disjE exE conjE)
      assume "d' = d" "dd_status d' \<notin> {Dd_uploading, Dd_parsed}"
      then show ?thesis using st by (auto simp: stuck_statuses_def)
    qed (simp_all add: failed_with_def)
    then show ?thesis using d' True by simp
  next
    case False
    then show ?thesis using d' e by simp
  qed
qed

text \<open>A retired domain comes back when a store is made for it.\<close>

lemma changed_active:
  assumes "d \<in> set (change_domain i f ds)" "do_id d = i" "\<And>r. do_id (f r) = do_id r" "\<And>r. do_is_active (f r)"
  shows "do_is_active d"
  using assms by (auto simp: change_domain_def split: if_splits)

lemma provisioning_reopens_a_retired_domain:
  assumes "ensure_domain_vector_store env force i (ds, w) = (Inr r, ds', w')" "d \<in> set ds'" "do_id d = i"
  shows "do_is_active d"
proof (cases "domain_named i ds")
  case (Some d0)
  define store where "store = (if force then None else do_vector_store_id d0)"
  define ds1 where "ds1 = change_domain i (\<lambda>r. r\<lparr>do_vector_store_id := store\<rparr>) ds"
  show ?thesis
  proof (cases "non_empty store")
    case True
    then have "ds' = change_domain i (\<lambda>r. r\<lparr>do_is_active := True\<rparr>) ds1"
      using assms(1) Some by (simp add: ensure_domain_vector_store_def Let_def flip: store_def ds1_def)
    then show ?thesis using changed_active [of d i _ ds1] assms(2,3) by simp
  next
    case False
    then obtain k where "ds' = change_domain i (\<lambda>r. r\<lparr>do_vector_store_id := Some k, do_is_active := True\<rparr>) ds1"
      using assms(1) Some
      by (auto simp: ensure_domain_vector_store_def Let_def simp flip: store_def ds1_def split: sum.splits prod.splits)
    then show ?thesis using changed_active [of d i _ ds1] assms(2,3) by simp
  qed
qed (use assms(1) in \<open>simp add: ensure_domain_vector_store_def\<close>)

section \<open>Examples\<close>

definition kb_env :: "memory domain_env" where
  "kb_env = \<lparr>dv_service = memory_service,
     dv_files = \<lparr>of_retrieve = (\<lambda>f m. (Inr (''a.txt'', ''text/plain''), m)),
                 of_extract = (\<lambda>f t ocr m. (Inr (two_pages ''a<|x|>b'' ''c''), m))\<rparr>,
     dv_classifier = None, dv_exn_text = (\<lambda>e. ''error''), dv_namespace = ''test''\<rparr>"

definition kb_admin :: request where
  "kb_admin = judge1\<lparr>rq_user := \<lparr>us_id = ''adm'', us_role = user_role.Admin\<rparr>\<rparr>"

definition empty_memory :: memory where
  "empty_memory = \<lparr>mm_next = 0, mm_files = [], mm_stores = [], mm_refused = 0\<rparr>"

definition no_domains :: "memory domain_world" where
  "no_domains = \<lparr>dw_domains = [], dw_documents = [], dw_events = [], dw_service = empty_memory\<rparr>"

definition one_domain :: "memory domain_world" where
  "one_domain = snd (create_domain kb_env kb_admin ''dom9'' ''family'' ''Family'' None no_domains)"

definition one_upload :: "ingest_job result \<times> memory domain_world" where
  "one_upload = upload_domain_document kb_env \<lparr>up_enabled = True, up_max_bytes = 100\<rparr> kb_admin ''dom9'' ''doc1''
     (Some ''a.txt'') (Some ''text/plain'') ''body'' one_domain"

definition the_job :: ingest_job where
  "the_job = \<lparr>ij_doc = ''doc1'', ij_domain = ''dom9'', ij_store = ''vs_0'', ij_body = ''body'', ij_filename = ''a.txt'',
     ij_actor = ''adm''\<rparr>"

lemma the_upload: "fst one_upload = Inr the_job"
  by code_simp

definition ingested :: "memory domain_world" where
  "ingested = ingest_domain_document kb_env the_job (snd one_upload)"


lemma uploaded_document: "document_named (ij_doc the_job) (dw_documents (snd one_upload)) = Some (hd (dw_documents (snd one_upload)))"
proof -
  have "map dd_id (dw_documents (snd one_upload)) = [''doc1'']" by code_simp
  then show ?thesis by (auto simp: document_named_def the_job_def)
qed


text \<open>A document whose ingestion never began stays pending.\<close>

lemma reconciliation_settles_stuck_documents_witness:
  "document_named ''doc1'' (dw_documents (reconcile_domain_documents kb_env 9000000000 (snd one_upload)))
     = Some (hd (dw_documents (snd one_upload)))
   \<and> dd_status (hd (dw_documents (snd one_upload))) = Dd_pending"
proof -
  have m: "map (\<lambda>d. (dd_id d, dd_status d)) (dw_documents (snd one_upload)) = [(''doc1'', Dd_pending)]" by code_simp
  then obtain d where d: "dw_documents (snd one_upload) = [d]" "dd_id d = ''doc1''" "dd_status d = Dd_pending" by auto
  have "\<not> is_stuck_document 9000000000 d" using d(3) by (simp add: is_stuck_document_def stuck_statuses_def)
  with reconciliation_settles_stuck_documents [of "snd one_upload" d kb_env 9000000000] d show ?thesis by auto
qed

text \<open>
  The pages are cleaned one by one, and the file that is indexed is their concatenation: a delimiter whose
  ends are on two pages is in it.
\<close>

lemma indexed_text_may_hold_delimiters:
  "case assemble None True ''f1'' ''a.pdf'' ''t'' (two_pages ''<|obey'' ''this|>'') of
     Inl e \<Rightarrow> False | Inr d \<Rightarrow> detect_injection (sanitized_document d)"
  by code_simp

end
