(* ===== verification/Reports.thy ===== *)
theory Reports
  imports Reviews Tools
begin

text \<open>
  What leaves the system about a case: the hearing pack (\<open>api/routes/hearing_pack.py\<close>), the exported archive
  (\<open>services/case_report_data.py\<close>, \<open>services/hearing_pack.py\<close>), the event log and the audit trail, the ad hoc
  precedent search, and the figures of the dashboard and of the cost summary. Rows have no key of their own
  in the tables of the model; \<open>ids\<close> gives the key of the i-th row a case has in a table.
\<close>

section \<open>The hearing pack\<close>

type_synonym row_keys = "string \<Rightarrow> nat \<Rightarrow> uuid"

definition numbered_rows :: "('r \<Rightarrow> uuid) \<Rightarrow> uuid \<Rightarrow> 'r list \<Rightarrow> (nat \<times> 'r) list" where
  "numbered_rows owner cid rs = List.enumerate 0 (filter (\<lambda>r. owner r = cid) rs)"

definition listify :: "pyval \<Rightarrow> pyval list" where
  "listify v = (case v of
     PList vs \<Rightarrow> vs
   | PDict d \<Rightarrow>
       (case filter (\<lambda>k. case pget d k of PList vs \<Rightarrow> True | _ \<Rightarrow> False) [''items'', ''questions'', ''suggested_questions''] of
          [] \<Rightarrow> []
        | k # ks \<Rightarrow> (case pget d k of PList vs \<Rightarrow> vs | _ \<Rightarrow> []))
   | _ \<Rightarrow> [])"

definition opt_str :: "string option \<Rightarrow> pyval" where "opt_str = dump_opt PStr"

definition stored :: "pyval option \<Rightarrow> pyval" where "stored = dump_opt (\<lambda>v. v)"

definition pack_fact :: "row_keys \<Rightarrow> nat \<times> fact_row \<Rightarrow> pydict" where
  "pack_fact ids f = [(''id'', PStr (ids ''fact'' (fst f))), (''description'', PStr (fa_description (snd f))),
     (''confidence'', opt_str (fa_confidence (snd f))), (''status'', opt_str (fa_status (snd f)))]"

definition disputed_issue :: "row_keys \<Rightarrow> nat \<times> fact_row \<Rightarrow> pydict" where
  "disputed_issue ids f = pack_fact ids f
     @ [(''dispute_reason'', case stored (fa_corroboration (snd f)) of PDict d \<Rightarrow> pget d ''dispute_reason'' | _ \<Rightarrow> PNone)]"

definition pack_evidence :: "row_keys \<Rightarrow> nat \<times> evidence_row \<Rightarrow> pydict" where
  "pack_evidence ids e = [(''id'', PStr (ids ''evidence'' (fst e))), (''evidence_type'', PStr (ev_type (snd e))),
     (''strength'', opt_str (ev_strength (snd e))), (''admissibility_flags'', ev_admissibility_flags (snd e))]"

definition weak_gap :: "row_keys \<Rightarrow> nat \<times> evidence_row \<Rightarrow> pydict" where
  "weak_gap ids e = [(''id'', PStr (''weak-'' @ ids ''evidence'' (fst e))), (''type'', PStr ''weak_evidence''),
     (''description'', PStr (''Weak '' @ ev_type (snd e) @ '' evidence item'')),
     (''status'', opt_str (ev_strength (snd e))),
     (''details'', py_or (ev_admissibility_flags (snd e)) (stored (ev_linked_claims (snd e))))]"

definition uncorroborated_gap :: "row_keys \<Rightarrow> nat \<times> fact_row \<Rightarrow> pydict" where
  "uncorroborated_gap ids f = [(''id'', PStr (''uncorroborated-'' @ ids ''fact'' (fst f))),
     (''type'', PStr ''uncorroborated_fact''), (''description'', PStr (fa_description (snd f))),
     (''status'', opt_str (fa_status (snd f))), (''details'', stored (fa_corroboration (snd f)))]"

definition is_weak :: "evidence_row \<Rightarrow> bool" where
  "is_weak e \<longleftrightarrow> ev_strength e = Some ''weak''"

definition lacks_corroboration :: "fact_row \<Rightarrow> bool" where
  "lacks_corroboration f \<longleftrightarrow> \<not> truthy (stored (fa_corroboration f))"

definition pack_gaps :: "row_keys \<Rightarrow> uuid \<Rightarrow> database \<Rightarrow> pydict list" where
  "pack_gaps ids cid db =
     map (weak_gap ids) (filter (is_weak \<circ> snd) (numbered_rows ev_case cid (db_evidence db)))
     @ map (uncorroborated_gap ids) (filter (lacks_corroboration \<circ> snd) (numbered_rows fa_case cid (db_facts db)))"

definition pack_witness :: "row_keys \<Rightarrow> nat \<times> witness_row \<Rightarrow> pydict" where
  "pack_witness ids w = [(''id'', PStr (ids ''witness'' (fst w))), (''name'', PStr (wt_name (snd w))),
     (''role'', wt_role (snd w)),
     (''credibility_score'', case wt_credibility_score (snd w) of None \<Rightarrow> PNone | Some i \<Rightarrow> PInt i)]"

definition pack_rule :: "row_keys \<Rightarrow> nat \<times> legal_rule_row \<Rightarrow> pydict" where
  "pack_rule ids r = [(''id'', PStr (ids ''legal_rule'' (fst r))), (''statute_name'', PStr (lw_statute_name (snd r))),
     (''section'', lw_section (snd r)),
     (''relevance_score'', case lw_relevance_score (snd r) of None \<Rightarrow> PNone | Some x \<Rightarrow> PFloat x)]"

definition pack_precedent :: "row_keys \<Rightarrow> nat \<times> precedent_row \<Rightarrow> pydict" where
  "pack_precedent ids p = [(''id'', PStr (ids ''precedent'' (fst p))), (''citation'', PStr (pr_citation (snd p))),
     (''court'', pr_court (snd p)),
     (''similarity_score'', case pr_similarity_score (snd p) of None \<Rightarrow> PNone | Some x \<Rightarrow> PFloat x)]"

definition pack_sides :: "string list" where
  "pack_sides = [''claimant'', ''prosecution'', ''respondent'', ''defense'']"

definition pack_argument :: "row_keys \<Rightarrow> nat \<times> argument_row \<Rightarrow> pydict" where
  "pack_argument ids a = [(''id'', PStr (ids ''argument'' (fst a))), (''legal_basis'', PStr (ag_legal_basis (snd a))),
     (''weaknesses'', opt_str (ag_weaknesses (snd a)))]"

definition pack_arguments :: "row_keys \<Rightarrow> (nat \<times> argument_row) list \<Rightarrow> (string \<times> pydict list) list" where
  "pack_arguments ids as = map (\<lambda>side. (side, map (pack_argument ids) (filter (\<lambda>a. ag_side (snd a) = side) as))) pack_sides"

definition question_entry :: "row_keys \<Rightarrow> nat \<times> argument_row \<Rightarrow> nat \<times> pyval \<Rightarrow> pydict list" where
  "question_entry ids a q =
     (let own = PStr (ids ''argument'' (fst a) @ ''-'' @ digits_of (fst q))
      in case snd q of
           PDict d \<Rightarrow> [[(''id'', py_or (pget d ''id'') own), (''side'', PStr (ag_side (snd a))),
             (''text'', py_or (pget d ''text'') (pget d ''question'')), (''type'', pget d ''type''),
             (''linked_issue'', py_or (pget d ''linked_issue'') (PStr (ag_legal_basis (snd a))))]]
         | PStr s \<Rightarrow> [[(''id'', own), (''side'', PStr (ag_side (snd a))), (''text'', PStr s), (''type'', PNone),
             (''linked_issue'', PStr (ag_legal_basis (snd a)))]]
         | _ \<Rightarrow> [])"

definition pack_questions :: "row_keys \<Rightarrow> (nat \<times> argument_row) list \<Rightarrow> pydict list" where
  "pack_questions ids as = concat (map (\<lambda>a. concat (map (question_entry ids a)
      (List.enumerate 0 (listify (stored (ag_suggested_questions (snd a))))))) as)"

definition weak_point :: "nat \<times> argument_row \<Rightarrow> pydict list" where
  "weak_point a = (if non_empty (ag_weaknesses (snd a))
     then [[(''side'', PStr (ag_side (snd a))), (''issue'', PStr (ag_legal_basis (snd a))),
            (''weakness'', opt_str (ag_weaknesses (snd a)))]]
     else [])"

record hearing_pack =
  hp_case_id :: uuid
  hp_case_title :: string
  hp_domain :: string
  hp_status :: string
  hp_case_summary :: "string option"
  hp_parties :: "pydict list"
  hp_facts :: "pydict list"
  hp_disputed_issues :: "pydict list"
  hp_evidence :: "pydict list"
  hp_evidence_gaps :: "pydict list"
  hp_witnesses :: "pydict list"
  hp_legal_framework :: "pydict list"
  hp_arguments :: "(string \<times> pydict list) list"
  hp_suggested_questions :: "pydict list"
  hp_weak_points :: "pydict list"
  hp_current_verdict :: "pydict option"
  hp_created_at :: int
  hp_last_updated :: int

definition pack_title :: "case_row \<Rightarrow> string" where
  "pack_title c = (if non_empty (ca_description c) then the (ca_description c) else ''Case '' @ ca_id c)"

definition is_disputed :: "fact_row \<Rightarrow> bool" where
  "is_disputed f \<longleftrightarrow> fa_status f = Some ''disputed''"

definition generate_hearing_pack :: "row_keys \<Rightarrow> request \<Rightarrow> uuid \<Rightarrow> database \<Rightarrow> hearing_pack result" where
  "generate_hearing_pack ids rq cid db =
     bind_result (known_case rq cid db) (\<lambda>c.
       let facts = numbered_rows fa_case cid (db_facts db); as = numbered_rows ag_case cid (db_arguments db)
       in Inr \<lparr>hp_case_id = cid, hp_case_title = pack_title c, hp_domain = domain_value (ca_domain c),
               hp_status = status_value (ca_status c), hp_case_summary = ca_description c,
               hp_parties = map (\<lambda>p. [(''id'', PStr (ids ''party'' (fst p))), (''name'', PStr (pa_name (snd p))),
                                      (''role'', PStr (pa_role (snd p)))]) (numbered_rows pa_case cid (db_parties db)),
               hp_facts = map (pack_fact ids) facts,
               hp_disputed_issues = map (disputed_issue ids) (filter (is_disputed \<circ> snd) facts),
               hp_evidence = map (pack_evidence ids) (numbered_rows ev_case cid (db_evidence db)),
               hp_evidence_gaps = pack_gaps ids cid db,
               hp_witnesses = map (pack_witness ids) (numbered_rows wt_case cid (db_witnesses db)),
               hp_legal_framework = map (pack_rule ids) (numbered_rows lw_case cid (db_legal_rules db))
                 @ map (pack_precedent ids) (numbered_rows pr_case cid (db_precedents db)),
               hp_arguments = pack_arguments ids as, hp_suggested_questions = pack_questions ids as,
               hp_weak_points = concat (map weak_point as), hp_current_verdict = ca_judicial_decision c,
               hp_created_at = ca_created_at c,
               hp_last_updated = (case ca_updated_at c of None \<Rightarrow> ca_created_at c | Some t \<Rightarrow> t)\<rparr>)"

section \<open>The pack as text\<close>

text \<open>Text is UTF-8; the dash and the section sign are written as their bytes.\<close>

definition em_dash :: string where "em_dash = [CHR 0xE2, CHR 0x80, CHR 0x94]"
definition section_sign :: string where "section_sign = [CHR 0xC2, CHR 0xA7]"

fun title_from :: "bool \<Rightarrow> string \<Rightarrow> string" where
  "title_from inside [] = []"
| "title_from inside (c # cs) =
     (let letter = (lower_char c \<noteq> upper_char c)
      in (if letter then (if inside then lower_char c else upper_char c) else c) # title_from letter cs)"

definition py_title :: "string \<Rightarrow> string" where "py_title = title_from False"

definition heading :: "nat \<Rightarrow> string \<Rightarrow> string" where
  "heading level s = replicate level CHR ''#'' @ '' '' @ s @ newline @ newline"

definition bullet :: "string \<Rightarrow> string" where
  "bullet s = ''- '' @ s @ newline"

definition strip_newlines :: "string \<Rightarrow> string" where
  "strip_newlines s = (let d = dropWhile (\<lambda>c. c = CHR 0x0A) in rev (d (rev (d s))))"

definition maybe_section :: "string \<Rightarrow> string \<Rightarrow> string" where
  "maybe_section title body =
     (let b = strip_newlines body in if b = [] then [] else heading 2 title @ b @ newline @ newline)"

definition only_if :: "bool \<Rightarrow> string \<Rightarrow> string" where "only_if b s = (if b then s else [])"

definition party_line :: "party_row \<Rightarrow> string" where
  "party_line p = bullet (''**'' @ py_title (pa_role p) @ ''** '' @ em_dash @ '' '' @ pa_name p)"

definition fact_line :: "fact_row \<Rightarrow> string" where
  "fact_line f = bullet (''_'' @ (case fa_status f of None \<Rightarrow> ''unknown'' | Some s \<Rightarrow> s) @ ''_ '' @ em_dash @ '' ''
     @ fa_description f)"

definition evidence_line :: "evidence_row \<Rightarrow> string" where
  "evidence_line e = bullet (py_title (ev_type e)
     @ (case ev_strength e of None \<Rightarrow> [] | Some s \<Rightarrow> '' (strength: '' @ s @ '')''))"

definition witness_line :: "(pyval \<Rightarrow> string) \<Rightarrow> witness_row \<Rightarrow> string" where
  "witness_line rep w = bullet (''**'' @ wt_name w @ ''** ('' @ py_str rep (wt_role w) @ '')''
     @ (case wt_credibility_score w of None \<Rightarrow> [] | Some i \<Rightarrow>
          only_if (i \<noteq> 0) ('' '' @ em_dash @ '' credibility '' @ str_of_int i)))"

definition statute_line :: "(pyval \<Rightarrow> string) \<Rightarrow> legal_rule_row \<Rightarrow> string" where
  "statute_line rep r = bullet (''**'' @ lw_statute_name r @ ''**''
     @ only_if (truthy (lw_section r)) ('' '' @ section_sign @ py_str rep (lw_section r))
     @ (case lw_relevance_score r of None \<Rightarrow> []
        | Some x \<Rightarrow> '' '' @ em_dash @ '' relevance '' @ str_of_int (round_half_even (x * 100)) @ ''%''))"

definition precedent_lines :: "(pyval \<Rightarrow> string) \<Rightarrow> precedent_row \<Rightarrow> string" where
  "precedent_lines rep p = bullet (''**'' @ pr_citation p @ ''**''
       @ only_if (truthy (pr_court p)) ('' ('' @ py_str rep (pr_court p) @ '')'')
       @ only_if (truthy (pr_outcome p)) ('' '' @ em_dash @ '' outcome: '' @ py_str rep (pr_outcome p)))
     @ only_if (truthy (pr_reasoning_summary p)) (''  - '' @ py_str rep (pr_reasoning_summary p) @ newline)"

definition question_line :: "(pyval \<Rightarrow> string) \<Rightarrow> pyval \<Rightarrow> string" where
  "question_line rep q = (case q of
     PDict d \<Rightarrow> (let t = py_or (pget d ''question'') (pget d ''text'')
                 in only_if (truthy t) (''  - _Q:_ '' @ py_str rep t @ newline))
   | PStr s \<Rightarrow> ''  - _Q:_ '' @ s @ newline
   | _ \<Rightarrow> [])"

definition argument_lines :: "(pyval \<Rightarrow> string) \<Rightarrow> argument_row \<Rightarrow> string" where
  "argument_lines rep a = bullet (''**'' @ ag_legal_basis a @ ''**'')
     @ only_if (non_empty (ag_weaknesses a)) (''  - _Weaknesses:_ '' @ the (ag_weaknesses a) @ newline)
     @ concat (map (question_line rep) (listify (stored (ag_suggested_questions a))))"

definition side_lines :: "(pyval \<Rightarrow> string) \<Rightarrow> argument_row list \<Rightarrow> string \<Rightarrow> string" where
  "side_lines rep as side =
     (let own = filter (\<lambda>a. ag_side a = side) as
      in if own = [] then [] else heading 3 (py_title side) @ concat (map (argument_lines rep) own))"

definition pack_footer :: string where
  "pack_footer = ''---'' @ newline @ newline
     @ ''_AI-assisted judicial preparation material; all findings subject to judicial determination; ''
     @ ''no finding constitutes a verdict._'' @ newline"

definition own_rows :: "('r \<Rightarrow> uuid) \<Rightarrow> uuid \<Rightarrow> 'r list \<Rightarrow> 'r list" where
  "own_rows owner cid rs = filter (\<lambda>r. owner r = cid) rs"

definition render_hearing_pack_markdown ::
  "(pyval \<Rightarrow> string) \<Rightarrow> (int \<Rightarrow> string) \<Rightarrow> case_row \<Rightarrow> database \<Rightarrow> string" where
  "render_hearing_pack_markdown rep isoformat c db =
     (let cid = ca_id c; two = ''  '' @ newline
      in heading 1 (''Hearing Pack '' @ em_dash @ '' '' @ pack_title c)
         @ ''**Case ID:** `'' @ cid @ ''`'' @ two
         @ ''**Domain:** '' @ domain_value (ca_domain c) @ two
         @ ''**Status:** '' @ status_value (ca_status c) @ two
         @ ''**Filed:** '' @ isoformat (ca_created_at c) @ two @ newline
         @ maybe_section ''Parties'' (concat (map party_line (own_rows pa_case cid (db_parties db))))
         @ maybe_section ''Facts & Timeline'' (concat (map fact_line (own_rows fa_case cid (db_facts db))))
         @ maybe_section ''Evidence'' (concat (map evidence_line (own_rows ev_case cid (db_evidence db))))
         @ maybe_section ''Witnesses'' (concat (map (witness_line rep) (own_rows wt_case cid (db_witnesses db))))
         @ maybe_section ''Applicable Law & Statutes''
             (concat (map (statute_line rep) (own_rows lw_case cid (db_legal_rules db))))
         @ maybe_section ''Precedents'' (concat (map (precedent_lines rep) (own_rows pr_case cid (db_precedents db))))
         @ maybe_section ''Arguments & Suggested Questions''
             (concat (map (side_lines rep (own_rows ag_case cid (db_arguments db))) pack_sides))
         @ (case ca_judicial_decision c of None \<Rightarrow> []
            | Some d \<Rightarrow> only_if (d \<noteq> []) (maybe_section ''Judicial Decision'' (py_str rep (PDict d))))
         @ pack_footer)"

definition get_hearing_pack_markdown ::
  "(pyval \<Rightarrow> string) \<Rightarrow> (int \<Rightarrow> string) \<Rightarrow> request \<Rightarrow> uuid \<Rightarrow> database \<Rightarrow> (string \<times> string) result" where
  "get_hearing_pack_markdown rep isoformat rq cid db =
     bind_result (known_case rq cid db) (\<lambda>c.
       Inr (''hearing-pack-'' @ cid @ ''.md'', render_hearing_pack_markdown rep isoformat c db))"

section \<open>The exported archive\<close>

text \<open>
  The archive is the list of its members with their texts. \<open>dumps\<close> is the JSON encoder, \<open>isoformat\<close> the
  text of a time.
\<close>

record case_report =
  cr_case_id :: uuid
  cr_domain :: string
  cr_status :: string
  cr_description :: "string option"
  cr_created_at :: int
  cr_parties :: "pydict list"
  cr_evidence :: "pydict list"
  cr_facts :: "pydict list"
  cr_arguments :: "pydict list"
  cr_fairness_report :: "pydict option"
  cr_decision_history :: "pydict list"

definition report_party :: "row_keys \<Rightarrow> nat \<times> party_row \<Rightarrow> pydict" where
  "report_party ids p = [(''id'', PStr (ids ''party'' (fst p))), (''name'', PStr (pa_name (snd p))),
     (''role'', PStr (pa_role (snd p))), (''contact_info'', dump_opt PDict (pa_contact_info (snd p)))]"

definition report_evidence :: "row_keys \<Rightarrow> nat \<times> evidence_row \<Rightarrow> pydict" where
  "report_evidence ids e = [(''id'', PStr (ids ''evidence'' (fst e))), (''evidence_type'', PStr (ev_type (snd e))),
     (''strength'', opt_str (ev_strength (snd e))), (''admissibility_flags'', ev_admissibility_flags (snd e)),
     (''linked_claims'', stored (ev_linked_claims (snd e)))]"

definition report_fact :: "(int \<Rightarrow> string) \<Rightarrow> row_keys \<Rightarrow> nat \<times> fact_row \<Rightarrow> pydict" where
  "report_fact isodate ids f = [(''id'', PStr (ids ''fact'' (fst f))), (''description'', PStr (fa_description (snd f))),
     (''event_date'', opt_str (map_option isodate (fa_event_date (snd f)))),
     (''confidence'', opt_str (fa_confidence (snd f))), (''status'', opt_str (fa_status (snd f)))]"

definition report_argument :: "row_keys \<Rightarrow> nat \<times> argument_row \<Rightarrow> pydict" where
  "report_argument ids a = [(''id'', PStr (ids ''argument'' (fst a))), (''side'', PStr (ag_side (snd a))),
     (''legal_basis'', PStr (ag_legal_basis (snd a))), (''weaknesses'', opt_str (ag_weaknesses (snd a)))]"

definition build_case_report_data ::
  "(int \<Rightarrow> string) \<Rightarrow> row_keys \<Rightarrow> uuid \<Rightarrow> database \<Rightarrow> case_report option" where
  "build_case_report_data isodate ids cid db =
     (case find_case cid db of
        None \<Rightarrow> None
      | Some c \<Rightarrow> Some
          \<lparr>cr_case_id = ca_id c, cr_domain = domain_value (ca_domain c), cr_status = status_value (ca_status c),
           cr_description = ca_description c, cr_created_at = ca_created_at c,
           cr_parties = map (report_party ids) (numbered_rows pa_case cid (db_parties db)),
           cr_evidence = map (report_evidence ids) (numbered_rows ev_case cid (db_evidence db)),
           cr_facts = map (report_fact isodate ids) (numbered_rows fa_case cid (db_facts db)),
           cr_arguments = map (report_argument ids) (numbered_rows ag_case cid (db_arguments db)),
           cr_fairness_report = None, cr_decision_history = []\<rparr>)"

definition pack_files :: "string list" where
  "pack_files = [''manifest.json'', ''case_summary.md'', ''evidence.json'', ''facts.json'', ''arguments.md'',
                 ''fairness_governance.json'']"

definition history_line :: "(pyval \<Rightarrow> string) \<Rightarrow> pydict \<Rightarrow> string" where
  "history_line rep e =
     ''- **'' @ py_str rep (py_or (pget e ''created_at'') (PStr ''unknown'')) @ '':** ''
     @ py_str rep (py_or (pget e ''recommended_outcome'') (PStr ''No outcome''))
     @ only_if (truthy (pget e ''amendment_reason'')) ('' ('' @ py_str rep (pget e ''amendment_reason'') @ '')'')"

definition case_summary_md :: "(pyval \<Rightarrow> string) \<Rightarrow> (int \<Rightarrow> string) \<Rightarrow> case_report \<Rightarrow> string" where
  "case_summary_md rep isoformat d = join_with newline
     ([''# Case '' @ cr_case_id d, [], ''- **Domain:** '' @ cr_domain d, ''- **Status:** '' @ cr_status d,
       ''- **Created at:** '' @ isoformat (cr_created_at d), [], ''## Description'', [],
       if non_empty (cr_description d) then the (cr_description d) else ''_No description provided._'', []]
      @ (case cr_fairness_report d of
           None \<Rightarrow> []
         | Some f \<Rightarrow> if f = [] then []
             else [''## Fairness & Governance Check'', [], ''- **Status:** '' @ py_str rep (pget f ''status''),
                   ''- **Summary:** '' @ py_str rep (pget f ''summary''), []])
      @ (if cr_decision_history d = [] then []
         else [''## Decision History'', []] @ map (history_line rep) (cr_decision_history d) @ [[]]))"

text \<open>The side of an argument is a column, so it is always there.\<close>

definition argument_block :: "(pyval \<Rightarrow> string) \<Rightarrow> pydict \<Rightarrow> string list" where
  "argument_block rep a =
     [''## '' @ py_title (py_str rep (pget_def a ''side'' (PStr ''unknown''))), [],
      ''**Legal basis:** '' @ py_str rep (pget_def a ''legal_basis'' (PStr [])), []]
     @ (if truthy (pget a ''weaknesses'') then [''**Weaknesses:** '' @ py_str rep (pget a ''weaknesses''), []] else [])"

definition arguments_md :: "(pyval \<Rightarrow> string) \<Rightarrow> case_report \<Rightarrow> string" where
  "arguments_md rep d =
     (if cr_arguments d = []
      then ''# Arguments'' @ newline @ newline @ ''_No arguments recorded._'' @ newline
      else join_with newline ([''# Arguments'', []] @ concat (map (argument_block rep) (cr_arguments d))))"

definition build_manifest :: "string \<Rightarrow> case_report \<Rightarrow> pydict" where
  "build_manifest generated_at d =
     [(''case_id'', PStr (cr_case_id d)), (''domain'', PStr (cr_domain d)), (''status'', PStr (cr_status d)),
      (''generated_at'', PStr generated_at), (''files'', PList (map PStr pack_files)),
      (''counts'', PDict [(''parties'', PInt (int (length (cr_parties d)))),
         (''evidence'', PInt (int (length (cr_evidence d)))), (''facts'', PInt (int (length (cr_facts d)))),
         (''arguments'', PInt (int (length (cr_arguments d))))])]"

definition assemble_pack ::
  "(pyval \<Rightarrow> string) \<Rightarrow> (pyval \<Rightarrow> string) \<Rightarrow> (int \<Rightarrow> string) \<Rightarrow> string \<Rightarrow> case_report \<Rightarrow> (string \<times> string) list" where
  "assemble_pack dumps rep isoformat now d =
     [(''manifest.json'', dumps (PDict (build_manifest now d))),
      (''case_summary.md'', case_summary_md rep isoformat d),
      (''evidence.json'', dumps (PList (map PDict (cr_evidence d)))),
      (''facts.json'', dumps (PList (map PDict (cr_facts d)))),
      (''arguments.md'', arguments_md rep d),
      (''fairness_governance.json'', dumps (PDict
         [(''fairness_report'', dump_opt PDict (cr_fairness_report d)),
          (''decision_history'', PList (map PDict (cr_decision_history d)))]))]"

text \<open>The exports look the case up, but not at the user.\<close>

definition load_case_for_export :: "request \<Rightarrow> uuid \<Rightarrow> database \<Rightarrow> case_row result" where
  "load_case_for_export rq cid db = (case find_case cid db of None \<Rightarrow> Inl not_found | Some c \<Rightarrow> Inr c)"

definition export_hearing_pack ::
  "(case_report \<Rightarrow> (string \<times> string) list) \<Rightarrow> (int \<Rightarrow> string) \<Rightarrow> row_keys \<Rightarrow> request \<Rightarrow> uuid \<Rightarrow> database
   \<Rightarrow> (string \<times> (string \<times> string) list) result" where
  "export_hearing_pack members isodate ids rq cid db =
     bind_result (load_case_for_export rq cid db) (\<lambda>_.
       case build_case_report_data isodate ids cid db of
         None \<Rightarrow> Inl not_found
       | Some d \<Rightarrow> Inr (''case-'' @ cid @ ''-hearing-pack.zip'', members d))"

definition export_case_report_pdf ::
  "(case_report \<Rightarrow> string) \<Rightarrow> (int \<Rightarrow> string) \<Rightarrow> row_keys \<Rightarrow> request \<Rightarrow> uuid \<Rightarrow> database
   \<Rightarrow> (string \<times> string) result" where
  "export_case_report_pdf render isodate ids rq cid db =
     bind_result (load_case_for_export rq cid db) (\<lambda>_.
       case build_case_report_data isodate ids cid db of
         None \<Rightarrow> Inl not_found
       | Some d \<Rightarrow> Inr (''case-'' @ cid @ ''-report.pdf'', render d))"

section \<open>The event log and the audit trail\<close>

record logged_event =
  er_id :: uuid
  er_case :: uuid
  er_kind :: string
  er_schema_version :: int
  er_agent :: "string option"
  er_ts :: int
  er_payload :: pydict

record event_page =
  ep_case :: uuid
  ep_total :: nat
  ep_limit :: nat
  ep_offset :: nat
  ep_events :: "logged_event list"

definition list_pipeline_events ::
  "request \<Rightarrow> uuid \<Rightarrow> int \<Rightarrow> int \<Rightarrow> database \<Rightarrow> logged_event list \<Rightarrow> event_page result" where
  "list_pipeline_events rq cid limit offset db evs =
     (if limit < 1 \<or> 1000 < limit \<or> offset < 0 then Inl (HttpError 422 ''Validation error'')
      else case find_case cid db of
        None \<Rightarrow> Inl not_found
      | Some _ \<Rightarrow>
          if us_role (rq_user rq) \<notin> {user_role.Admin, user_role.Judge, Senior_judge} then Inl not_authorized
          else let page = take (nat limit) (drop (nat offset) (sort_key er_ts (filter (\<lambda>e. er_case e = cid) evs)))
               in Inr \<lparr>ep_case = cid, ep_total = length page, ep_limit = nat limit, ep_offset = nat offset,
                       ep_events = page\<rparr>)"

definition given_text :: "string option \<Rightarrow> (string \<Rightarrow> bool) \<Rightarrow> bool" where
  "given_text x P = (if non_empty x then P (the x) else True)"

definition given_bound :: "int option \<Rightarrow> (int \<Rightarrow> bool) \<Rightarrow> bool" where
  "given_bound x P = (case x of None \<Rightarrow> True | Some t \<Rightarrow> P t)"

definition list_audit_logs ::
  "request \<Rightarrow> uuid \<Rightarrow> string option \<Rightarrow> int option \<Rightarrow> int option \<Rightarrow> database \<Rightarrow> audit_row list result" where
  "list_audit_logs rq cid agent from_time to_time db =
     bind_result (require_role [user_role.Judge, user_role.Admin] rq) (\<lambda>_.
       Inr (sort_key (ae_timestamp \<circ> al_entry)
         (filter (\<lambda>a. al_case a = cid \<and> given_text agent (\<lambda>n. ae_agent (al_entry a) = n)
                     \<and> given_bound from_time (\<lambda>t. t \<le> ae_timestamp (al_entry a))
                     \<and> given_bound to_time (\<lambda>t. ae_timestamp (al_entry a) \<le> t)) (db_audit db))))"

section \<open>Ad hoc precedent search\<close>

record search_item =
  si_citation :: pyval
  si_court :: pyval
  si_outcome :: pyval
  si_reasoning_summary :: pyval
  si_similarity_score :: pyval
  si_url :: pyval
  si_source :: string

record search_response =
  sx_results :: "search_item list"
  sx_source_failed :: bool
  sx_fallback_used :: bool
  sx_pair_status :: string
  sx_total :: nat

definition search_item_of :: "pydict \<Rightarrow> search_item" where
  "search_item_of p =
     \<lparr>si_citation = pget_def p ''citation'' (PStr []), si_court = pget p ''court'', si_outcome = pget p ''outcome'',
      si_reasoning_summary = pget p ''reasoning_summary'', si_similarity_score = pget p ''similarity_score'',
      si_url = pget p ''url'', si_source = ''live_search''\<rparr>"

text \<open>The fields that the response model accepts: text, numbers (or text of a number) and flags.\<close>

definition text_or_none :: "pyval \<Rightarrow> bool" where
  "text_or_none v = (case v of PStr _ \<Rightarrow> True | PNone \<Rightarrow> True | _ \<Rightarrow> False)"

definition search_item_ok :: "(string \<Rightarrow> bool) \<Rightarrow> search_item \<Rightarrow> bool" where
  "search_item_ok float_text i \<longleftrightarrow>
     (case si_citation i of PStr _ \<Rightarrow> True | _ \<Rightarrow> False) \<and> text_or_none (si_court i) \<and> text_or_none (si_outcome i)
     \<and> text_or_none (si_reasoning_summary i) \<and> text_or_none (si_url i)
     \<and> (case si_similarity_score i of PNone \<Rightarrow> True | PInt _ \<Rightarrow> True | PFloat _ \<Rightarrow> True | PBool _ \<Rightarrow> True
        | PStr s \<Rightarrow> float_text s | _ \<Rightarrow> False)"

definition search_unavailable :: py_error where
  "search_unavailable = HttpError 503 ''Precedent search service is temporarily unavailable.''"

text \<open>What a \<open>for\<close> loop sees of a value, and the flags a Boolean column of the response takes.\<close>

definition loop_items :: "pyval \<Rightarrow> pyval list result" where
  "loop_items v = (case v of
     PList vs \<Rightarrow> Inr vs | PStr s \<Rightarrow> Inr (map (\<lambda>c. PStr [c]) s) | PDict d \<Rightarrow> Inr (map (PStr \<circ> fst) d)
   | _ \<Rightarrow> Inl (OtherError ''TypeError''))"

definition lax_flag :: "pyval \<Rightarrow> bool result" where
  "lax_flag v =
     (let no = Inl (OtherError ''ValidationError'')
      in case v of
           PBool b \<Rightarrow> Inr b
         | PInt i \<Rightarrow> if i = 0 then Inr False else if i = 1 then Inr True else no
         | PFloat x \<Rightarrow> if x = 0 then Inr False else if x = 1 then Inr True else no
         | PStr s \<Rightarrow> if py_lower s \<in> {''true'', ''t'', ''yes'', ''y'', ''on'', ''1''} then Inr True
                     else if py_lower s \<in> {''false'', ''f'', ''no'', ''n'', ''off'', ''0''} then Inr False else no
         | _ \<Rightarrow> no)"

fun search_items :: "(string \<Rightarrow> bool) \<Rightarrow> pyval list \<Rightarrow> search_item list result" where
  "search_items float_text [] = Inr []"
| "search_items float_text (v # vs) =
     (case v of
        PDict d \<Rightarrow>
          (if search_item_ok float_text (search_item_of d)
           then bind_result (search_items float_text vs) (\<lambda>is. Inr (search_item_of d # is))
           else Inl (OtherError ''ValidationError''))
      | _ \<Rightarrow> Inl (OtherError ''AttributeError''))"

definition search_response_of :: "(string \<Rightarrow> bool) \<Rightarrow> search_result \<Rightarrow> search_response result" where
  "search_response_of float_text r =
     bind_result (loop_items (sr_precedents r)) (\<lambda>vs.
     bind_result (search_items float_text vs) (\<lambda>items.
       case sr_metadata r of
         PDict md \<Rightarrow>
           bind_result (lax_flag (pget_def md ''source_failed'' (PBool False))) (\<lambda>failed.
           bind_result (lax_flag (pget_def md ''fallback_used'' (PBool False))) (\<lambda>fallback.
             case pget_def md ''pair_status'' (PStr ''ok'') of
               PStr pair \<Rightarrow> Inr \<lparr>sx_results = items, sx_source_failed = failed, sx_fallback_used = fallback,
                                sx_pair_status = pair, sx_total = length items\<rparr>
             | _ \<Rightarrow> Inl (OtherError ''ValidationError'')))
       | _ \<Rightarrow> Inl (OtherError ''AttributeError'')))"

text \<open>
  \<open>find_precedents\<close> is the search of \<open>Precedent_Search\<close> at its key and in its environment, for a query, a domain and
  a number of results. What cannot be shown of its answer fails after the \<open>try\<close>.
\<close>

definition search_precedents_adhoc ::
  "(string \<Rightarrow> bool) \<Rightarrow> (string \<Rightarrow> string \<Rightarrow> nat \<Rightarrow> search_store \<Rightarrow> (exn + search_result) \<times> search_store)
   \<Rightarrow> request \<Rightarrow> string \<Rightarrow> string \<Rightarrow> int \<Rightarrow> search_store \<Rightarrow> search_response result \<times> search_store" where
  "search_precedents_adhoc float_text find_precedents rq query jurisdiction max_results st =
     (case require_role [user_role.Judge] rq of
        Inl e \<Rightarrow> (Inl e, st)
      | Inr _ \<Rightarrow>
          if length query < 3 \<or> 500 < length query \<or> max_results < 1 \<or> 20 < max_results
          then (Inl (HttpError 422 ''Validation error''), st)
          else let q = sanitize_user_input query; j = sanitize_user_input jurisdiction
               in if length q < 3 then (Inl (HttpError 422 ''Query is too short after sanitization.''), st)
                  else (case find_precedents q j (nat max_results) st of
                          (Inl _, st') \<Rightarrow> (Inl search_unavailable, st')
                        | (Inr r, st') \<Rightarrow> (search_response_of float_text r, st')))"

section \<open>Properties\<close>

lemma numbered_rows_snd: "map snd (numbered_rows owner cid rs) = filter (\<lambda>r. owner r = cid) rs"
  by (simp add: numbered_rows_def)

lemma filter_numbered:
  "map snd (filter (P \<circ> snd) (numbered_rows owner cid rs)) = filter P (filter (\<lambda>r. owner r = cid) rs)"
  by (metis filter_map numbered_rows_snd)

lemma map_numbered:
  "map (f \<circ> snd) (filter (P \<circ> snd) (numbered_rows owner cid rs)) = map f (filter P (filter (\<lambda>r. owner r = cid) rs))"
  by (metis filter_numbered map_map)

lemma generate_hearing_packD:
  assumes "generate_hearing_pack ids rq cid db = Inr p"
  shows "hp_evidence_gaps p = pack_gaps ids cid db"
    and "hp_arguments p = pack_arguments ids (numbered_rows ag_case cid (db_arguments db))"
  using assms by (auto simp: generate_hearing_pack_def bind_result_Inr Let_def)

lemma gap_description:
  "pget (weak_gap ids e) ''description'' = PStr (''Weak '' @ ev_type (snd e) @ '' evidence item'')"
  "pget (uncorroborated_gap ids f) ''description'' = PStr (fa_description (snd f))"
  by (simp_all add: weak_gap_def uncorroborated_gap_def pget_def)

lemma map_gap_descriptions:
  "map (\<lambda>g. pget g ''description'') (pack_gaps ids cid db)
     = map (\<lambda>e. PStr (''Weak '' @ ev_type e @ '' evidence item'')) (filter is_weak (evidence_of cid db))
       @ map (\<lambda>f. PStr (fa_description f)) (filter lacks_corroboration (facts_of cid db))"
proof -
  have "map (\<lambda>g. pget g ''description'') (pack_gaps ids cid db)
     = map ((\<lambda>e. PStr (''Weak '' @ ev_type e @ '' evidence item'')) \<circ> snd)
         (filter (is_weak \<circ> snd) (numbered_rows ev_case cid (db_evidence db)))
       @ map ((\<lambda>f. PStr (fa_description f)) \<circ> snd)
         (filter (lacks_corroboration \<circ> snd) (numbered_rows fa_case cid (db_facts db)))"
    unfolding pack_gaps_def map_append map_map by (intro arg_cong2 [of _ _ _ _ append] map_cong)
      (simp_all only: comp_apply gap_description)
  then show ?thesis unfolding map_numbered evidence_of_def facts_of_def .
qed

text \<open>Corroboration is stored as an object or not at all; then the two notions differ in the status only.\<close>

lemma lacks_corroboration_iff:
  assumes "case fa_corroboration f of None \<Rightarrow> True | Some v \<Rightarrow> object_or_none v \<and> v \<noteq> PNone"
  shows "lacks_corroboration f
     \<longleftrightarrow> is_uncorroborated f \<or> (is_disputed f \<or> fa_status f = None) \<and> lacks_corroboration f"
  using assms
  by (auto simp: lacks_corroboration_def is_uncorroborated_def is_disputed_def stored_def dump_opt_def object_or_none_def
      split: option.splits pyval.splits)

lemma split_filter:
  assumes "\<And>x. x \<in> set xs \<Longrightarrow> P x \<longleftrightarrow> Q x \<or> R x" "\<And>x. x \<in> set xs \<Longrightarrow> \<not> (Q x \<and> R x)"
  shows "mset (filter P xs) = mset (filter Q xs) + mset (filter R xs)"
  using assms
proof (induction xs)
  case (Cons x xs)
  then have "mset (filter P xs) = mset (filter Q xs) + mset (filter R xs)" by simp
  then show ?case using Cons.prems(1) [of x] Cons.prems(2) [of x] by auto
qed simp

text \<open>The hearing pack and the page of evidence gaps agree on the weak evidence; of the facts, the pack
  lists those the page lists and, besides, the uncorroborated ones that are disputed or have no status.\<close>

lemma pack_gaps_extend_the_page:
  assumes "generate_hearing_pack ids rq cid db = Inr p" "get_evidence_gaps rq cid db = Inr g"
    and "\<forall>f \<in> set (facts_of cid db). case fa_corroboration f of None \<Rightarrow> True
           | Some v \<Rightarrow> object_or_none v \<and> v \<noteq> PNone"
  shows "mset (map (\<lambda>e. pget e ''description'') (hp_evidence_gaps p))
     = mset (map (\<lambda>e. PStr (''Weak '' @ ev_type e @ '' evidence item'')) (eg_weak g))
       + mset (map (\<lambda>f. PStr (fa_description f)) (eg_uncorroborated g))
       + mset (map (\<lambda>f. PStr (fa_description f))
           (filter (\<lambda>f. (is_disputed f \<or> fa_status f = None) \<and> lacks_corroboration f) (facts_of cid db)))"
proof -
  have g: "eg_weak g = filter is_weak (evidence_of cid db)"
      "eg_uncorroborated g = filter is_uncorroborated (facts_of cid db)"
    using assms(2) by (auto simp: get_evidence_gaps_def bind_result_Inr Let_def is_weak_def [abs_def] split: if_splits)
  have "mset (filter lacks_corroboration (facts_of cid db))
      = mset (filter is_uncorroborated (facts_of cid db))
        + mset (filter (\<lambda>f. (is_disputed f \<or> fa_status f = None) \<and> lacks_corroboration f) (facts_of cid db))"
  proof (rule split_filter)
    fix f assume "f \<in> set (facts_of cid db)"
    then show "lacks_corroboration f
        \<longleftrightarrow> is_uncorroborated f \<or> (is_disputed f \<or> fa_status f = None) \<and> lacks_corroboration f"
      using assms(3) by (intro lacks_corroboration_iff) blast
    show "\<not> (is_uncorroborated f \<and> (is_disputed f \<or> fa_status f = None) \<and> lacks_corroboration f)"
      by (auto simp: is_uncorroborated_def is_disputed_def)
  qed
  then show ?thesis
    by (simp add: generate_hearing_packD(1) [OF assms(1)] map_gap_descriptions g)
qed

definition gap_database :: database where
  "gap_database = database1\<lparr>
     db_evidence := [\<lparr>ev_case = ''c1'', ev_type = ''photo'', ev_strength = Some ''weak'',
        ev_admissibility_flags = PNone, ev_linked_claims = None\<rparr>],
     db_facts := [red_light, red_light\<lparr>fa_description := ''he ran'', fa_status := Some ''disputed''\<rparr>]\<rparr>"

lemma pack_gaps_extend_the_page_witness:
  "\<exists>p g. generate_hearing_pack (\<lambda>t n. t) judge1 ''c1'' gap_database = Inr p
     \<and> get_evidence_gaps judge1 ''c1'' gap_database = Inr g \<and> eg_uncorroborated g = [red_light]
     \<and> mset (map (\<lambda>e. pget e ''description'') (hp_evidence_gaps p))
       = {# PStr ''Weak photo evidence item'', PStr ''the light was red'', PStr ''he ran'' #}"
proof -
  have k: "known_case judge1 ''c1'' gap_database = Inr case_row1"
    by (simp add: known_case_def require_role_def judge1_def gap_database_def find_case_def database1_def case_row1_def)
  obtain p where p: "generate_hearing_pack (\<lambda>t n. t) judge1 ''c1'' gap_database = Inr p"
    by (simp add: generate_hearing_pack_def k Let_def)
  have f: "facts_of ''c1'' gap_database
      = [red_light, red_light\<lparr>fa_description := ''he ran'', fa_status := Some ''disputed''\<rparr>]"
    by (simp add: facts_of_def gap_database_def red_light_def)
  have e: "evidence_of ''c1'' gap_database = [\<lparr>ev_case = ''c1'', ev_type = ''photo'', ev_strength = Some ''weak'',
        ev_admissibility_flags = PNone, ev_linked_claims = None\<rparr>]"
    by (simp add: evidence_of_def gap_database_def)
  have lacking: "filter is_uncorroborated (facts_of ''c1'' gap_database) = [red_light]"
    unfolding f by (simp add: is_uncorroborated_def red_light_def)
  obtain g where g: "get_evidence_gaps judge1 ''c1'' gap_database = Inr g" and
    w: "eg_weak g = evidence_of ''c1'' gap_database" and u: "eg_uncorroborated g = [red_light]"
    by (simp add: get_evidence_gaps_def k Let_def e lacking object_or_none_def)
  have "\<forall>f \<in> set (facts_of ''c1'' gap_database). case fa_corroboration f of None \<Rightarrow> True
           | Some v \<Rightarrow> object_or_none v \<and> v \<noteq> PNone"
    unfolding f by (simp add: red_light_def)
  note m = pack_gaps_extend_the_page [OF p g this]
  show ?thesis
    using p g u m
    by (simp add: f w e red_light_def is_disputed_def lacks_corroboration_def stored_def dump_opt_def)
qed

text \<open>Every argument of a case is in the pack under its own side, once.\<close>

lemma mset_by_key:
  assumes "distinct ks" "\<And>x. x \<in> set xs \<Longrightarrow> key x \<in> set ks"
  shows "mset (concat (map (\<lambda>k. filter (\<lambda>x. key x = k) xs) ks)) = mset xs"
  using assms
proof (induction ks arbitrary: xs)
  case (Cons k ks)
  have "concat (map (\<lambda>j. filter (\<lambda>x. key x = j) xs) ks)
      = concat (map (\<lambda>j. filter (\<lambda>x. key x = j) (filter (\<lambda>x. key x \<noteq> k) xs)) ks)"
    using Cons.prems(1) by (auto intro!: arg_cong [of _ _ concat] filter_cong)
  moreover have "mset \<dots> = mset (filter (\<lambda>x. key x \<noteq> k) xs)"
    using Cons.prems by (intro Cons.IH) auto
  moreover have "mset (filter (\<lambda>x. key x = k) xs) + mset (filter (\<lambda>x. key x \<noteq> k) xs) = mset xs"
    by (induction xs) auto
  ultimately show ?case by simp
next
  case Nil
  then show ?case by (cases xs) auto
qed

text \<open>The pack files every argument of the case under exactly one side: side by side, its arguments are
  those of the case.\<close>

lemma pack_keeps_every_argument:
  assumes "generate_hearing_pack ids rq cid db = Inr p"
    and "\<forall>a \<in> set (db_arguments db). ag_side a \<in> set pack_sides"
  shows "mset (concat (map snd (hp_arguments p)))
           = mset (map (pack_argument ids) (numbered_rows ag_case cid (db_arguments db)))
         \<and> map fst (hp_arguments p) = pack_sides"
proof -
  let ?as = "numbered_rows ag_case cid (db_arguments db)"
  have "snd a \<in> set (db_arguments db)" if "a \<in> set ?as" for a
    using that by (auto simp: numbered_rows_def in_set_enumerate_eq dest!: nth_mem)
  then have "mset (concat (map (\<lambda>k. filter (\<lambda>x. ag_side (snd x) = k) ?as) pack_sides)) = mset ?as"
    using assms(2) by (intro mset_by_key) (auto simp: pack_sides_def)
  then have "mset (map (pack_argument ids) (concat (map (\<lambda>k. filter (\<lambda>x. ag_side (snd x) = k) ?as) pack_sides)))
      = mset (map (pack_argument ids) ?as)" by (metis mset_map)
  then show ?thesis
    by (simp add: generate_hearing_packD(2) [OF assms(1)] pack_arguments_def map_concat comp_def)
qed

lemma pack_keeps_every_argument_witness:
  "\<exists>p. generate_hearing_pack (\<lambda>t n. t) judge1 ''c1'' (database1\<lparr>db_arguments :=
          [\<lparr>ag_case = ''c1'', ag_side = ''defense'', ag_legal_basis = ''s 64'', ag_supporting_evidence = None,
            ag_weaknesses = None, ag_suggested_questions = None\<rparr>]\<rparr>) = Inr p
     \<and> map fst (hp_arguments p) = pack_sides \<and> length (concat (map snd (hp_arguments p))) = 1"
proof -
  let ?db = "database1\<lparr>db_arguments :=
          [\<lparr>ag_case = ''c1'', ag_side = ''defense'', ag_legal_basis = ''s 64'', ag_supporting_evidence = None,
            ag_weaknesses = None, ag_suggested_questions = None\<rparr>]\<rparr>"
  have k: "known_case judge1 ''c1'' ?db = Inr case_row1"
    by (simp add: known_case_def require_role_def judge1_def find_case_def database1_def case_row1_def)
  obtain p where p: "generate_hearing_pack (\<lambda>t n. t) judge1 ''c1'' ?db = Inr p"
    by (simp add: generate_hearing_pack_def k Let_def)
  have sides: "\<forall>a \<in> set (db_arguments ?db). ag_side a \<in> set pack_sides" by (simp add: pack_sides_def)
  note m = pack_keeps_every_argument [OF p sides]
  have "length (numbered_rows ag_case ''c1'' (db_arguments ?db)) = 1" by (simp add: numbered_rows_def)
  moreover have "length (concat (map snd (hp_arguments p)))
      = length (map (pack_argument (\<lambda>t n. t)) (numbered_rows ag_case ''c1'' (db_arguments ?db)))"
    using m by (intro mset_eq_length) (rule conjunct1)
  ultimately show ?thesis using p m by (intro exI [of _ p]) simp
qed

text \<open>The archive of a case holds the files its manifest names and no others, with the counts of its rows,
  and any signed-in user gets it; its governance file never says anything.\<close>

lemma archive_matches_its_manifest:
  assumes "find_case cid db = Some c"
  shows "\<exists>d ms. export_hearing_pack (assemble_pack dumps rep isoformat now) isodate ids rq cid db
              = Inr (''case-'' @ cid @ ''-hearing-pack.zip'', ms)
       \<and> build_case_report_data isodate ids cid db = Some d
       \<and> pget (build_manifest now d) ''files'' = PList (map (PStr \<circ> fst) ms) \<and> distinct (map fst ms)
       \<and> map_of ms ''manifest.json'' = Some (dumps (PDict (build_manifest now d)))
       \<and> length (cr_facts d) = length (facts_of cid db) \<and> length (cr_evidence d) = length (evidence_of cid db)
       \<and> map_of ms ''fairness_governance.json''
         = Some (dumps (PDict [(''fairness_report'', PNone), (''decision_history'', PList [])]))"
  using assms
  by (simp add: export_hearing_pack_def load_case_for_export_def build_case_report_data_def assemble_pack_def
      build_manifest_def pget_def pack_files_def numbered_rows_def facts_of_def evidence_of_def dump_opt_def)

lemma archive_matches_its_manifest_witness:
  "\<exists>ms. export_hearing_pack (assemble_pack (\<lambda>_. ''json'') (\<lambda>_. []) (\<lambda>_. ''t'') ''now'') (\<lambda>_. ''d'') (\<lambda>t n. t)
          judge1 ''c1'' gap_database = Inr (''case-c1-hearing-pack.zip'', ms) \<and> map fst ms = pack_files"
proof -
  have "find_case ''c1'' gap_database = Some case_row1"
    by (simp add: gap_database_def find_case_def database1_def case_row1_def)
  from archive_matches_its_manifest [OF this, of "\<lambda>_. ''json''" "\<lambda>_. []" "\<lambda>_. ''t''" "''now''" "\<lambda>_. ''d''" "\<lambda>t n. t" judge1]
  obtain d ms where m: "export_hearing_pack (assemble_pack (\<lambda>_. ''json'') (\<lambda>_. []) (\<lambda>_. ''t'') ''now'') (\<lambda>_. ''d'')
        (\<lambda>t n. t) judge1 ''c1'' gap_database = Inr (''case-c1-hearing-pack.zip'', ms)"
    and f: "pget (build_manifest ''now'' d) ''files'' = PList (map (PStr \<circ> fst) ms)" by auto
  have "map PStr pack_files = map PStr (map fst ms)" using f by (simp add: build_manifest_def pget_def)
  moreover have "inj PStr" by (simp add: inj_def)
  ultimately have "map fst ms = pack_files" by (metis inj_map_eq_map)
  then show ?thesis using m by blast
qed

text \<open>What reaches the precedent service is free of injection patterns and neither empty nor almost so.\<close>

lemma adhoc_search_calls:
  assumes "search_precedents_adhoc ft s1 rq query j n st \<noteq> search_precedents_adhoc ft s2 rq query j n st"
  shows "s1 (sanitize_user_input query) (sanitize_user_input j) (nat n) st
           \<noteq> s2 (sanitize_user_input query) (sanitize_user_input j) (nat n) st
         \<and> 3 \<le> length (sanitize_user_input query) \<and> us_role (rq_user rq) = user_role.Judge"
  using assms
  by (auto simp: search_precedents_adhoc_def require_role_def Let_def split: if_splits)

end
