(* ===== verification/Monitoring.thy ===== *)
theory Monitoring
  imports Reports "HOL-Library.AList" "HOL-Library.Product_Lexorder"
begin

text \<open>
  The figures of the system: the counters of \<open>api/middleware/metrics.py\<close> with their text, the price of a
  call (\<open>shared/cost.py\<close>) and the summary of costs (\<open>api/routes/cost.py\<close>), and the dashboard
  (\<open>api/routes/dashboard.py\<close>).
\<close>

section \<open>Metrics\<close>

definition histogram_buckets :: "rat list" where
  "histogram_buckets = [5/1000, 10/1000, 25/1000, 50/1000, 1/10, 1/4, 1/2, 1, 5/2, 5, 10]"

record duration_entry =
  de_sum :: rat
  de_count :: int
  de_buckets :: "(rat \<times> int) list"

record metrics =
  mt_requests :: "((string \<times> string \<times> string) \<times> int) list"
  mt_durations :: "((string \<times> string) \<times> duration_entry) list"
  mt_case_gauges :: "(string \<times> int) list"
  mt_case_cost :: "(string \<times> rat) list"
  mt_dropped :: "(string \<times> int) list"

definition new_metrics :: metrics where
  "new_metrics = \<lparr>mt_requests = [], mt_durations = [], mt_case_gauges = [], mt_case_cost = [], mt_dropped = []\<rparr>"

text \<open>\<open>d[k] += 1\<close> on a \<open>defaultdict(int)\<close>.\<close>

definition count_up :: "'k \<Rightarrow> ('k \<times> int) list \<Rightarrow> ('k \<times> int) list" where
  "count_up k d = AList.update k ((case map_of d k of None \<Rightarrow> 0 | Some n \<Rightarrow> n) + 1) d"

definition inc_request :: "string \<Rightarrow> string \<Rightarrow> int \<Rightarrow> metrics \<Rightarrow> metrics" where
  "inc_request meth path status m = m\<lparr>mt_requests := count_up (meth, path, str_of_int status) (mt_requests m)\<rparr>"

definition empty_entry :: duration_entry where
  "empty_entry = \<lparr>de_sum = 0, de_count = 0, de_buckets = map (\<lambda>b. (b, 0)) histogram_buckets\<rparr>"

definition add_duration :: "rat \<Rightarrow> duration_entry \<Rightarrow> duration_entry" where
  "add_duration d e =
     \<lparr>de_sum = de_sum e + d, de_count = de_count e + 1,
      de_buckets = map (\<lambda>(b, n). (b, if d \<le> b then n + 1 else n)) (de_buckets e)\<rparr>"

definition observe_duration :: "string \<Rightarrow> string \<Rightarrow> rat \<Rightarrow> metrics \<Rightarrow> metrics" where
  "observe_duration meth path d m =
     (let e = (case map_of (mt_durations m) (meth, path) of None \<Rightarrow> empty_entry | Some e \<Rightarrow> e)
      in m\<lparr>mt_durations := AList.update (meth, path) (add_duration d e) (mt_durations m)\<rparr>)"

definition set_case_gauge :: "string \<Rightarrow> int \<Rightarrow> metrics \<Rightarrow> metrics" where
  "set_case_gauge status n m = m\<lparr>mt_case_gauges := AList.update status n (mt_case_gauges m)\<rparr>"

definition set_case_cost :: "string \<Rightarrow> rat \<Rightarrow> metrics \<Rightarrow> metrics" where
  "set_case_cost cid usd m = m\<lparr>mt_case_cost := AList.update cid usd (mt_case_cost m)\<rparr>"

definition inc_stream_publish_dropped :: "string \<Rightarrow> metrics \<Rightarrow> metrics" where
  "inc_stream_publish_dropped phase m = m\<lparr>mt_dropped := count_up phase (mt_dropped m)\<rparr>"

definition get_stream_publish_dropped :: "string \<Rightarrow> metrics \<Rightarrow> int" where
  "get_stream_publish_dropped phase m = (case map_of (mt_dropped m) phase of None \<Rightarrow> 0 | Some n \<Rightarrow> n)"

text \<open>A request with the time it took; one whose handler raises leaves the middleware with the exception.\<close>

record http_exchange =
  he_method :: string
  he_path :: string
  he_duration :: rat
  he_status :: "int option"

definition metrics_dispatch :: "http_exchange \<Rightarrow> metrics \<Rightarrow> metrics" where
  "metrics_dispatch h m =
     (if he_path h = ''/metrics'' then m
      else case he_status h of
             None \<Rightarrow> m
           | Some s \<Rightarrow> observe_duration (he_method h) (he_path h) (he_duration h)
                         (inc_request (he_method h) (he_path h) s m))"

text \<open>\<open>float_str\<close> and \<open>fixed6\<close> are \<open>str\<close> and the format \<open>.6f\<close> of a float.\<close>

definition sorted_items :: "('k :: linorder \<times> 'v) list \<Rightarrow> ('k \<times> 'v) list" where
  "sorted_items d = sort_key fst d"

definition metric_block :: "string \<Rightarrow> string \<Rightarrow> string \<Rightarrow> string list \<Rightarrow> string list" where
  "metric_block name help kind lines =
     (if lines = [] then []
      else (''# HELP '' @ name @ '' '' @ help) # (''# TYPE '' @ name @ '' '' @ kind) # lines)"

definition quoted :: "string \<Rightarrow> string" where "quoted s = CHR 0x22 # s @ [CHR 0x22]"

definition request_line :: "(string \<times> string \<times> string) \<times> int \<Rightarrow> string" where
  "request_line r = (case r of ((meth, path, st), n) \<Rightarrow>
     ''http_requests_total{method='' @ quoted meth @ '',path='' @ quoted path @ '',status='' @ quoted st @ ''} ''
     @ str_of_int n)"

definition duration_lines :: "(rat \<Rightarrow> string) \<Rightarrow> (rat \<Rightarrow> string) \<Rightarrow> (string \<times> string) \<times> duration_entry \<Rightarrow> string list" where
  "duration_lines float_str fixed6 r = (case r of ((meth, path), e) \<Rightarrow>
     let labels = ''method='' @ quoted meth @ '',path='' @ quoted path; name = ''http_request_duration_seconds''
     in map (\<lambda>(b, n). name @ ''_bucket{'' @ labels @ '',le='' @ quoted (float_str b) @ ''} '' @ str_of_int n)
            (sorted_items (de_buckets e))
        @ [name @ ''_bucket{'' @ labels @ '',le='' @ quoted ''+Inf'' @ ''} '' @ str_of_int (de_count e),
           name @ ''_sum{'' @ labels @ ''} '' @ fixed6 (de_sum e),
           name @ ''_count{'' @ labels @ ''} '' @ str_of_int (de_count e)])"

definition gauge_line :: "string \<Rightarrow> string \<Rightarrow> ('v \<Rightarrow> string) \<Rightarrow> string \<times> 'v \<Rightarrow> string" where
  "gauge_line name label shown r = name @ ''{'' @ label @ ''='' @ quoted (fst r) @ ''} '' @ shown (snd r)"

definition render_metrics :: "(rat \<Rightarrow> string) \<Rightarrow> (rat \<Rightarrow> string) \<Rightarrow> metrics \<Rightarrow> string" where
  "render_metrics float_str fixed6 m = join_with newline
     (metric_block ''http_requests_total'' ''Total HTTP requests.'' ''counter''
        (map request_line (sorted_items (mt_requests m)))
      @ metric_block ''http_request_duration_seconds'' ''HTTP request duration in seconds.'' ''histogram''
        (concat (map (duration_lines float_str fixed6) (sorted_items (mt_durations m))))
      @ metric_block ''active_cases_total'' ''Active cases by status.'' ''gauge''
        (map (gauge_line ''active_cases_total'' ''status'' str_of_int) (sorted_items (mt_case_gauges m)))
      @ metric_block ''verdict_council_case_cost_usd'' ''Cumulative LLM cost per case (USD).'' ''gauge''
        (map (gauge_line ''verdict_council_case_cost_usd'' ''case_id'' fixed6) (sorted_items (mt_case_cost m)))
      @ metric_block ''pipeline_stream_publish_dropped_total''
          ''Stream events dropped by the fire-and-forget publisher.'' ''counter''
        (map (gauge_line ''pipeline_stream_publish_dropped_total'' ''phase'' str_of_int) (sorted_items (mt_dropped m)))
      @ [[]])"

section \<open>Costs\<close>

record price =
  px_input :: "rat option"
  px_output :: "rat option"

text \<open>\<open>Decimal(str(v))\<close>; the rows of the price file that are no dictionaries or have no rate are skipped.\<close>

definition rate_of :: "(string \<Rightarrow> rat option) \<Rightarrow> pyval \<Rightarrow> rat option result" where
  "rate_of parse v = (case v of
     PNone \<Rightarrow> Inr None | PInt i \<Rightarrow> Inr (Some (of_int i)) | PFloat x \<Rightarrow> Inr (Some x)
   | PStr s \<Rightarrow> (case parse s of None \<Rightarrow> Inl (OtherError ''InvalidOperation'') | Some x \<Rightarrow> Inr (Some x))
   | _ \<Rightarrow> Inl (OtherError ''InvalidOperation''))"

fun load_prices :: "(string \<Rightarrow> rat option) \<Rightarrow> pydict \<Rightarrow> price dict result" where
  "load_prices parse [] = Inr []"
| "load_prices parse ((model, PDict rates) # rows) =
     bind_result (rate_of parse (pget rates ''input'')) (\<lambda>i.
     bind_result (rate_of parse (pget rates ''output'')) (\<lambda>out.
     bind_result (load_prices parse rows) (\<lambda>ps.
       Inr (if i = None \<and> out = None then ps else (model, \<lparr>px_input = i, px_output = out\<rparr>) # ps))))"
| "load_prices parse (_ # rows) = load_prices parse rows"

text \<open>A count of tokens that cannot be read is no tokens.\<close>

definition coerce_int :: "(string \<Rightarrow> int option) \<Rightarrow> pyval \<Rightarrow> int" where
  "coerce_int parse v = (case v of
     PInt i \<Rightarrow> i | PBool b \<Rightarrow> (if b then 1 else 0) | PFloat x \<Rightarrow> py_int_of x
   | PStr s \<Rightarrow> (case parse s of None \<Rightarrow> 0 | Some i \<Rightarrow> i) | _ \<Rightarrow> 0)"

definition token_cost :: "int \<Rightarrow> rat option \<Rightarrow> rat" where
  "token_cost n rate = (case rate of None \<Rightarrow> 0 | Some r \<Rightarrow> if n = 0 then 0 else of_int n / 1000 * r)"

definition quantize6 :: "rat \<Rightarrow> rat" where
  "quantize6 r = of_int (round_half_even (r * 1000000)) / 1000000"

definition calc_cost :: "(string \<Rightarrow> int option) \<Rightarrow> price dict \<Rightarrow> string option \<Rightarrow> pydict option \<Rightarrow> rat option" where
  "calc_cost parse prices model usage =
     (if \<not> non_empty model then None
      else case map_of prices (the model) of
        None \<Rightarrow> None
      | Some rates \<Rightarrow>
          (case usage of
             None \<Rightarrow> None
           | Some u \<Rightarrow>
               (let prompt = coerce_int parse (py_or (pget u ''prompt_tokens'') (pget u ''input_tokens''));
                    completion = coerce_int parse (py_or (pget u ''completion_tokens'') (pget u ''output_tokens''))
                in if prompt = 0 \<and> completion = 0 then None
                   else Some (quantize6 (token_cost prompt (px_input rates) + token_cost completion (px_output rates))))))"

record cost_view =
  cv_case :: "uuid option"
  cv_total :: rat
  cv_count :: nat
  cv_from :: "int option"
  cv_to :: "int option"

definition in_cost_window :: "int option \<Rightarrow> int option \<Rightarrow> audit_row \<Rightarrow> bool" where
  "in_cost_window a b r \<longleftrightarrow> given_bound a (\<lambda>t. t \<le> ae_timestamp (al_entry r)) \<and> given_bound b (\<lambda>t. ae_timestamp (al_entry r) < t)"

definition row_cost :: "audit_row \<Rightarrow> rat" where
  "row_cost r = (case ae_cost_usd (al_entry r) of None \<Rightarrow> 0 | Some x \<Rightarrow> x)"

definition made_by :: "uuid \<Rightarrow> database \<Rightarrow> audit_row \<Rightarrow> bool" where
  "made_by u db r \<longleftrightarrow> list_ex (\<lambda>c. ca_id c = al_case r \<and> ca_created_by c = u) (db_cases db)"

definition window_rows :: "(audit_row \<Rightarrow> bool) \<Rightarrow> int option \<Rightarrow> int option \<Rightarrow> database \<Rightarrow> audit_row list" where
  "window_rows P a b db = filter (\<lambda>r. P r \<and> in_cost_window a b r) (db_audit db)"

definition cost_summary ::
  "request \<Rightarrow> uuid option \<Rightarrow> int option \<Rightarrow> int option \<Rightarrow> database \<Rightarrow> metrics \<Rightarrow> (cost_view \<times> metrics) result" where
  "cost_summary rq cid a b db m =
     bind_result (require_role [user_role.Judge, user_role.Admin] rq) (\<lambda>_.
     bind_result
       (case cid of
          Some k \<Rightarrow>
            (case find_case k db of
               None \<Rightarrow> Inl not_found
             | Some c \<Rightarrow> if us_role (rq_user rq) = user_role.Judge \<and> ca_created_by c \<noteq> us_id (rq_user rq)
                         then Inl not_found else Inr (\<lambda>r. al_case r = k))
        | None \<Rightarrow> Inr (if us_role (rq_user rq) = user_role.Judge then made_by (us_id (rq_user rq)) db else (\<lambda>_. True)))
       (\<lambda>P. let rows = window_rows P a b db; total = sum_list (map row_cost rows)
            in Inr (\<lparr>cv_case = cid, cv_total = total, cv_count = length rows, cv_from = a, cv_to = b\<rparr>,
                    case cid of None \<Rightarrow> m | Some k \<Rightarrow> set_case_cost k total m)))"

section \<open>The dashboard\<close>

record dashboard =
  ds_total_cases :: nat
  ds_by_status :: "(string \<times> nat) list"
  ds_by_domain :: "(string \<times> nat) list"
  ds_escalation_rate :: rat
  ds_recent :: "pydict list"
  ds_pair_status :: pydict

text \<open>\<open>GROUP BY\<close>, the groups in the order they first appear; the shown values are dictionaries.\<close>

definition grouped :: "('r \<Rightarrow> 'k) \<Rightarrow> 'r list \<Rightarrow> ('k \<times> nat) list" where
  "grouped key rs = map (\<lambda>k. (k, length (filter (\<lambda>r. key r = k) rs))) (remdups (map key rs))"

definition recent_case :: "(int \<Rightarrow> string) \<Rightarrow> (int \<Rightarrow> string) \<Rightarrow> case_row \<Rightarrow> pydict" where
  "recent_case isodate isoformat c =
     [(''id'', PStr (ca_id c)), (''title'', opt_str (ca_title c)), (''domain'', PStr (domain_value (ca_domain c))),
      (''status'', PStr (status_value (ca_status c))),
      (''filed_date'', opt_str (map_option isodate (ca_filed_date c))),
      (''created_at'', PStr (isoformat (ca_created_at c)))]"

definition get_dashboard_stats :: "(int \<Rightarrow> string) \<Rightarrow> (int \<Rightarrow> string) \<Rightarrow> pydict \<Rightarrow> database \<Rightarrow> dashboard" where
  "get_dashboard_stats isodate isoformat pair_status db =
     (let cs = db_cases db; total = length cs;
          escalated = length (filter (\<lambda>c. ca_status c = S_escalated) cs)
      in \<lparr>ds_total_cases = total,
          ds_by_status = map (\<lambda>(s, n). (status_value s, n)) (grouped ca_status cs),
          ds_by_domain = map (\<lambda>(d, n). (domain_value d, n)) (grouped ca_domain cs),
          ds_escalation_rate =
            (if total = 0 then 0
             else of_int (round_half_even (of_nat escalated / of_nat total * 100 * 100)) / 100),
          ds_recent = map (recent_case isodate isoformat) (take 10 (sort_key (\<lambda>c. - ca_created_at c) cs)),
          ds_pair_status = pair_status\<rparr>)"

section \<open>What the histograms say\<close>

text \<open>The durations recorded for one method and path, and the entry they call for.\<close>

definition durations_of :: "string \<times> string \<Rightarrow> http_exchange list \<Rightarrow> rat list" where
  "durations_of k hs = map he_duration (filter (\<lambda>h. (he_method h, he_path h) = k \<and> he_path h \<noteq> ''/metrics''
                                                \<and> he_status h \<noteq> None) hs)"

definition entry_for :: "rat list \<Rightarrow> duration_entry" where
  "entry_for ds = \<lparr>de_sum = sum_list ds, de_count = int (length ds),
     de_buckets = map (\<lambda>b. (b, int (length (filter (\<lambda>d. d \<le> b) ds)))) histogram_buckets\<rparr>"

lemma entry_for_Nil: "entry_for [] = empty_entry"
  by (simp add: entry_for_def empty_entry_def)

lemma add_duration_entry: "add_duration d (entry_for ds) = entry_for (ds @ [d])"
  by (simp add: add_duration_def entry_for_def)

lemma mt_durations_inc [simp]: "mt_durations (inc_request a b c m) = mt_durations m"
  by (simp add: inc_request_def)

lemma durations_of_snoc:
  "durations_of k (hs @ [h]) = durations_of k hs
     @ (if (he_method h, he_path h) = k \<and> he_path h \<noteq> ''/metrics'' \<and> he_status h \<noteq> None then [he_duration h] else [])"
  by (simp add: durations_of_def)

lemma dispatch_durations:
  "map_of (mt_durations (metrics_dispatch h m)) k
     = (if (he_method h, he_path h) = k \<and> he_path h \<noteq> ''/metrics'' \<and> he_status h \<noteq> None
        then Some (add_duration (he_duration h)
               (case map_of (mt_durations m) k of None \<Rightarrow> empty_entry | Some e \<Rightarrow> e))
        else map_of (mt_durations m) k)"
  by (auto simp: metrics_dispatch_def observe_duration_def Let_def update_conv split: option.splits)

text \<open>C28: After any number of requests the histogram of a method and path is that of the durations it answered
  with: every bucket counts those up to its bound, the count and the sum are theirs, and a path nobody asked
  for has none.\<close>

theorem histograms_count_the_durations:
  "map_of (mt_durations (fold metrics_dispatch hs new_metrics)) k
     = (if durations_of k hs = [] then None else Some (entry_for (durations_of k hs)))"
proof (induction hs rule: rev_induct)
  case Nil
  then show ?case by (simp add: new_metrics_def durations_of_def)
next
  case (snoc h hs)
  then show ?case
    by (auto simp: dispatch_durations durations_of_snoc add_duration_entry simp flip: entry_for_Nil)
qed

text \<open>So the buckets grow with their bounds and none counts more than the last.\<close>

lemma buckets_are_cumulative:
  assumes "b1 \<le> (b2 :: rat)"
  shows "length (filter (\<lambda>d. d \<le> b1) ds) \<le> length (filter (\<lambda>d. d \<le> b2) ds)"
  using assms by (induction ds) auto

text \<open>A request whose handler raises is in no counter, although it is answered with the status 500.\<close>

lemma raised_requests_are_not_counted: "he_status h = None \<Longrightarrow> metrics_dispatch h m = m"
  by (simp add: metrics_dispatch_def)

section \<open>What the costs say\<close>

lemma round_half_even_near: "\<bar>of_int (round_half_even r) - r\<bar> \<le> 1 / 2"
proof -
  have b: "of_int (floor r) \<le> r" "r < of_int (floor r) + 1" by linarith+
  let ?d = "r - of_int (floor r)"
  consider "?d < 1 / 2" | "?d > 1 / 2" | "?d = 1 / 2" by linarith
  then show ?thesis
    by cases (use b in \<open>auto simp: round_half_even_def Let_def abs_le_iff\<close>)
qed

lemma quantize6_near: "\<bar>quantize6 r - r\<bar> \<le> 1 / 2000000"
  using round_half_even_near [of "r * 1000000"] by (simp add: quantize6_def abs_le_iff field_simps)

lemma quantize6_nonneg: "0 \<le> r \<Longrightarrow> 0 \<le> quantize6 r"
  using round_half_even_bounds [of 0 "r * 1000000" "ceiling (r * 1000000)"] by (simp add: quantize6_def)

lemma token_cost_nonneg: "0 \<le> n \<Longrightarrow> (\<And>r. rate = Some r \<Longrightarrow> 0 \<le> r) \<Longrightarrow> 0 \<le> token_cost n rate"
  by (auto simp: token_cost_def split: option.split)

text \<open>The cost of a call of a known model is the price of its tokens up to half a millionth of a dollar,
  and never negative; unknown models, missing counts and calls without tokens have no cost at all.\<close>

lemma cost_is_the_price_of_the_tokens:
  assumes "map_of prices model = Some p" "model \<noteq> []" "0 \<le> n" "0 \<le> k" "n + k > 0"
    and "px_input p = Some i" "px_output p = Some out" "0 \<le> i" "0 \<le> out"
  shows "\<exists>c. calc_cost parse prices (Some model) (Some [(''prompt_tokens'', PInt n), (''completion_tokens'', PInt k)]) = Some c
     \<and> \<bar>c - (of_int n * i + of_int k * out) / 1000\<bar> \<le> 1 / 2000000 \<and> 0 \<le> c"
proof -
  let ?t = "token_cost n (Some i) + token_cost k (Some out)"
  have t: "?t = (of_int n * i + of_int k * out) / 1000" by (auto simp: token_cost_def field_simps)
  have "calc_cost parse prices (Some model) (Some [(''prompt_tokens'', PInt n), (''completion_tokens'', PInt k)])
      = Some (quantize6 ?t)"
    using assms by (auto simp: calc_cost_def non_empty_def coerce_int_def py_or_def pget_def Let_def)
  moreover have "0 \<le> ?t" using assms(3,4,8,9) by (auto simp: token_cost_def)
  ultimately show ?thesis
    using quantize6_near [of ?t] quantize6_nonneg [of ?t] unfolding t by blast
qed

definition sample_prices :: "price dict" where
  "sample_prices = [(''gpt-5'', \<lparr>px_input = Some (3/100), px_output = Some (12/100)\<rparr>),
     (''text-embedding-3-large'', \<lparr>px_input = Some (13/100000), px_output = None\<rparr>)]"

lemma cost_is_the_price_of_the_tokens_witness:
  "\<exists>c. calc_cost (\<lambda>_. None) sample_prices (Some ''gpt-5'') (Some [(''prompt_tokens'', PInt 1000), (''completion_tokens'', PInt 500)]) = Some c
     \<and> \<bar>c - (of_int 1000 * (3/100) + of_int 500 * (12/100)) / 1000\<bar> \<le> 1 / 2000000 \<and> 0 \<le> c"
  by (rule cost_is_the_price_of_the_tokens [where p = "\<lparr>px_input = Some (3/100), px_output = Some (12/100)\<rparr>"])
    (simp_all add: sample_prices_def)

lemma unpriced_calls:
  "map_of prices model = None \<Longrightarrow> calc_cost parse prices (Some model) u = None"
  "calc_cost parse prices None u = None" "calc_cost parse prices m None = None"
  by (simp_all add: calc_cost_def non_empty_def split: option.split)

lemma in_cost_window_split:
  assumes "given_bound a (\<lambda>t. t \<le> b)" "given_bound c (\<lambda>t. b \<le> t)"
  shows "in_cost_window a c r \<longleftrightarrow> in_cost_window a (Some b) r \<or> in_cost_window (Some b) c r"
    and "\<not> (in_cost_window a (Some b) r \<and> in_cost_window (Some b) c r)"
  using assms by (auto simp: in_cost_window_def given_bound_def split: option.splits)

lemma window_split:
  assumes "given_bound a (\<lambda>t. t \<le> b)" "given_bound c (\<lambda>t. b \<le> t)"
  shows "mset (window_rows P a c db) = mset (window_rows P a (Some b) db) + mset (window_rows P (Some b) c db)"
  unfolding window_rows_def
  by (rule split_filter) (use in_cost_window_split [OF assms] in blast)+

text \<open>Two adjoining windows of the cost summary add up, in dollars and in rows, for every user and case: no
  row is counted twice and none is lost at the boundary.\<close>

lemma cost_windows_add_up:
  assumes "cost_summary rq cid a c db m = Inr (v, m1)"
    and "given_bound a (\<lambda>t. t \<le> b)" "given_bound c (\<lambda>t. b \<le> t)"
  shows "\<exists>v1 v2 m2 m3. cost_summary rq cid a (Some b) db m = Inr (v1, m2) \<and> cost_summary rq cid (Some b) c db m = Inr (v2, m3)
     \<and> cv_total v = cv_total v1 + cv_total v2 \<and> cv_count v = cv_count v1 + cv_count v2"
proof -
  obtain P where P: "\<And>a b. cost_summary rq cid a b db m
      = Inr (\<lparr>cv_case = cid, cv_total = sum_list (map row_cost (window_rows P a b db)),
              cv_count = length (window_rows P a b db), cv_from = a, cv_to = b\<rparr>,
             case cid of None \<Rightarrow> m | Some k \<Rightarrow> set_case_cost k (sum_list (map row_cost (window_rows P a b db))) m)"
    using assms(1) by (auto simp: cost_summary_def bind_result_Inr Let_def)
  have s: "sum_list (map row_cost xs) = sum_mset (image_mset row_cost (mset xs))" for xs
    by (metis mset_map sum_mset_sum_list)
  have "length (window_rows P a c db) = size (mset (window_rows P a c db))" by simp
  then show ?thesis
    using assms(1) window_split [OF assms(2,3), of P db] by (auto simp: P s simp del: size_mset simp flip: size_mset)
qed

definition cost_database :: database where
  "cost_database = (let row = (\<lambda>t x. (audit_of ''c1'' t ''intake'' ''llm'' []));
       priced = (\<lambda>t x. (row t x)\<lparr>al_entry := (al_entry (row t x))\<lparr>ae_cost_usd := Some x\<rparr>\<rparr>)
     in database1\<lparr>db_audit := [priced 10 (1/2), priced 20 (1/4), row 25 (0 :: rat), priced 30 1]\<rparr>)"

lemma cost_windows_add_up_witness:
  "\<exists>v v1 v2 m1 m2 m3. cost_summary judge1 (Some ''c1'') (Some 10) (Some 30) cost_database new_metrics = Inr (v, m1)
     \<and> cost_summary judge1 (Some ''c1'') (Some 10) (Some 20) cost_database new_metrics = Inr (v1, m2)
     \<and> cost_summary judge1 (Some ''c1'') (Some 20) (Some 30) cost_database new_metrics = Inr (v2, m3)
     \<and> cv_total v = cv_total v1 + cv_total v2 \<and> cv_count v = 3 \<and> cv_count v1 + cv_count v2 = 3"
proof -
  have f: "find_case ''c1'' cost_database = Some case_row1" "ca_created_by case_row1 = us_id (rq_user judge1)"
    by (simp_all add: cost_database_def Let_def find_case_def database1_def case_row1_def judge1_def)
  have n: "length (window_rows (\<lambda>r. al_case r = ''c1'') (Some 10) (Some 30) cost_database) = 3"
    by (simp add: window_rows_def cost_database_def Let_def audit_of_def in_cost_window_def given_bound_def)
  have q: "require_role [user_role.Judge, user_role.Admin] judge1 = Inr ()"
    by (simp add: require_role_def judge1_def)
  obtain v m1 where v: "cost_summary judge1 (Some ''c1'') (Some 10) (Some 30) cost_database new_metrics = Inr (v, m1)"
    and c: "cv_count v = 3"
    by (simp add: cost_summary_def q f n Let_def)
  have b: "given_bound (Some 10) (\<lambda>t. t \<le> (20 :: int))" "given_bound (Some 30) (\<lambda>t. (20 :: int) \<le> t)"
    by (simp_all add: given_bound_def)
  show ?thesis using cost_windows_add_up [OF v b] v c by fastforce
qed

text \<open>A window sets the gauge that \<open>/metrics\<close> calls the cumulative cost of the case.\<close>

lemma window_overwrites_the_gauge:
  assumes "cost_summary rq (Some k) a b db m = Inr (v, m')"
  shows "map_of (mt_case_cost m') k = Some (sum_list (map row_cost (window_rows (\<lambda>r. al_case r = k) a b db)))"
  using assms
  by (auto simp: cost_summary_def bind_result_Inr Let_def set_case_cost_def update_conv split: option.splits if_splits)

section \<open>What the dashboard says\<close>

lemma sum_grouped: "sum_list (map snd (grouped key rs)) = length rs"
proof -
  have "sum_list (map snd (grouped key rs)) = (\<Sum>k \<in> key ` set rs. length (filter (\<lambda>r. key r = k) rs))"
    by (simp add: grouped_def comp_def sum_list_distinct_conv_sum_set)
  also have "\<dots> = length rs"
  proof -
    have "(\<Sum>k \<in> A. length (filter (\<lambda>r. key r = k) rs)) = length (filter (\<lambda>r. key r \<in> A) rs)" if "finite A" for A
      using that
    proof (induction rs)
      case (Cons r rs)
      have "(\<Sum>k \<in> A. length (filter (\<lambda>r. key r = k) (r # rs)))
          = (\<Sum>k \<in> A. (if key r = k then 1 else 0) + length (filter (\<lambda>r. key r = k) rs))"
        by (rule sum.cong) simp_all
      then show ?case using Cons by (simp add: sum.distrib)
    qed simp
    then show ?thesis by simp
  qed
  finally show ?thesis .
qed

text \<open>The counts by status and those by domain each add up to the number of cases, and the share of
  escalated cases is a percentage.\<close>

lemma dashboard_adds_up:
  "(let d = get_dashboard_stats isodate isoformat pair db
    in sum_list (map snd (ds_by_status d)) = ds_total_cases d \<and> sum_list (map snd (ds_by_domain d)) = ds_total_cases d
       \<and> 0 \<le> ds_escalation_rate d \<and> ds_escalation_rate d \<le> 100 \<and> length (ds_recent d) = min 10 (ds_total_cases d))"
proof -
  let ?n = "length (db_cases db)" and ?e = "length (filter (\<lambda>c. ca_status c = S_escalated) (db_cases db))"
  have "of_nat ?e / of_nat ?n * 100 * 100 \<le> (of_int 10000 :: rat)" if "?n \<noteq> 0"
    using that length_filter_le [of "\<lambda>c. ca_status c = S_escalated" "db_cases db"]
    by (simp add: field_simps)
  then have r: "0 \<le> round_half_even (of_nat ?e / of_nat ?n * 100 * 100)
      \<and> round_half_even (of_nat ?e / of_nat ?n * 100 * 100) \<le> 10000" if "?n \<noteq> 0"
    using that round_half_even_bounds [of 0 "of_nat ?e / of_nat ?n * 100 * 100" 10000] by simp
  have m: "map snd (map (\<lambda>(s, n). (f s, n)) xs) = map snd xs" for f :: "'a \<Rightarrow> string" and xs :: "('a \<times> nat) list"
    by (simp add: case_prod_unfold)
  show ?thesis
    using r by (simp add: get_dashboard_stats_def Let_def m sum_grouped comp_def case_prod_unfold min.commute)
qed

end
