(* ===== verification/Streaming.thy ===== *)
theory Streaming
  imports Monitoring Access
begin

text \<open>
  How the events of a run reach the browser: publication with the copy in the event log, the
  cancellation flag and the subscription (\<open>services/pipeline_events.py\<close>), the bridges from the graph and
  from the agents (\<open>pipeline/graph/runner_stream_adapter.py\<close>, \<open>middleware/sse_bridge.py\<close>,
  \<open>middleware/audit.py\<close>), the batching of tokens and the bounded publisher
  (\<open>pipeline/graph/agents/stream_coalescer.py\<close>), and the stream the browser reads (\<open>api/routes/cases.py\<close>).
\<close>

section \<open>Events and their log\<close>

text \<open>Dates become their text, so that what is stored is JSON.\<close>

record date_texts =
  dt_date :: "int \<Rightarrow> string"
  dt_datetime :: "int \<Rightarrow> string"

fun json_safe :: "date_texts \<Rightarrow> pyval \<Rightarrow> pyval" where
  "json_safe dt (PDate i) = PStr (dt_date dt i)"
| "json_safe dt (PDateTime i) = PStr (dt_datetime dt i)"
| "json_safe dt (PDict d) = PDict (map (\<lambda>kv. (fst kv, json_safe dt (snd kv))) d)"
| "json_safe dt (PList vs) = PList (map (json_safe dt) vs)"
| "json_safe dt v = v"

fun is_json :: "pyval \<Rightarrow> bool" where
  "is_json (PDate i) = False"
| "is_json (PDateTime i) = False"
| "is_json (PDict d) = list_all (\<lambda>kv. is_json (snd kv)) d"
| "is_json (PList vs) = list_all is_json vs"
| "is_json v = True"

text \<open>
  What the time of a publication supplies: whether Redis and the database answer, the clock, the active
  trace, the key of a new row, and the readers of times, numbers and keys.
\<close>

record publish_env =
  pe_redis :: bool
  pe_db :: bool
  pe_now :: int
  pe_trace :: "string option"
  pe_row_id :: uuid
  pe_dates :: date_texts
  pe_parse_ts :: "string \<Rightarrow> int option"
  pe_parse_int :: "string \<Rightarrow> int option"
  pe_valid_key :: "string \<Rightarrow> bool"
  pe_rep :: "pyval \<Rightarrow> string"

text \<open>What the subscribers of the channels were sent, and the table of events.\<close>

record telemetry =
  tl_sent :: "(uuid \<times> pydict) list"
  tl_rows :: "logged_event list"

text \<open>\<open>int(v)\<close>.\<close>

definition int_of_value :: "(string \<Rightarrow> int option) \<Rightarrow> pyval \<Rightarrow> int option" where
  "int_of_value parse v = (case v of
     PInt i \<Rightarrow> Some i | PBool b \<Rightarrow> Some (if b then 1 else 0) | PFloat x \<Rightarrow> Some (py_int_of x)
   | PStr s \<Rightarrow> parse s | _ \<Rightarrow> None)"

text \<open>A column of text takes text or nothing; whatever fails is logged and the row is lost.\<close>

definition tee_row :: "publish_env \<Rightarrow> uuid \<Rightarrow> pydict \<Rightarrow> logged_event option" where
  "tee_row pe cid payload =
     (case (case pget payload ''ts'' of
              PStr s \<Rightarrow> pe_parse_ts pe s | PDateTime t \<Rightarrow> Some t | _ \<Rightarrow> Some (pe_now pe)) of
        None \<Rightarrow> None
      | Some ts \<Rightarrow>
          (case int_of_value (pe_parse_int pe) (pget_def payload ''schema_version'' (PInt 1)) of
             None \<Rightarrow> None
           | Some v \<Rightarrow>
               if \<not> pe_valid_key pe cid \<or> \<not> text_or_none (pget payload ''agent'') \<or> \<not> pe_db pe then None
               else Some \<lparr>er_id = pe_row_id pe, er_case = cid,
                     er_kind = py_str (pe_rep pe) (pget_def payload ''kind'' (PStr ''unknown'')),
                     er_schema_version = v,
                     er_agent = (case pget payload ''agent'' of PStr a \<Rightarrow> Some a | _ \<Rightarrow> None), er_ts = ts,
                     er_payload = map (\<lambda>kv. (fst kv, json_safe (pe_dates pe) (snd kv))) payload\<rparr>))"

definition tee_write :: "publish_env \<Rightarrow> uuid \<Rightarrow> pydict \<Rightarrow> telemetry \<Rightarrow> telemetry" where
  "tee_write pe cid payload tm =
     (case tee_row pe cid payload of None \<Rightarrow> tm | Some r \<Rightarrow> tm\<lparr>tl_rows := tl_rows tm @ [r]\<rparr>)"

definition send_event :: "publish_env \<Rightarrow> uuid \<Rightarrow> pydict \<Rightarrow> telemetry \<Rightarrow> telemetry" where
  "send_event pe cid payload tm =
     (if pe_redis pe then tee_write pe cid payload (tm\<lparr>tl_sent := tl_sent tm @ [(cid, payload)]\<rparr>) else tm)"

definition trace_value :: "publish_env \<Rightarrow> pyval" where
  "trace_value pe = opt_str (pe_trace pe)"

record progress_event =
  pv_case :: uuid
  pv_agent :: string
  pv_phase :: string
  pv_step :: "int option"
  pv_total :: int
  pv_ts :: int
  pv_error :: "string option"
  pv_detail :: "pydict option"
  pv_trace_id :: "string option"

definition dump_progress :: "date_texts \<Rightarrow> progress_event \<Rightarrow> pydict" where
  "dump_progress dt e =
     [(''kind'', PStr ''progress''), (''schema_version'', PInt 1), (''case_id'', PStr (pv_case e)),
      (''agent'', PStr (pv_agent e)), (''phase'', PStr (pv_phase e)), (''step'', dump_opt PInt (pv_step e)),
      (''total'', PInt (pv_total e)), (''ts'', PStr (dt_datetime dt (pv_ts e))), (''error'', opt_str (pv_error e)),
      (''detail'', dump_opt PDict (pv_detail e)), (''trace_id'', opt_str (pv_trace_id e))]"

definition publish_progress :: "publish_env \<Rightarrow> progress_event \<Rightarrow> telemetry \<Rightarrow> telemetry" where
  "publish_progress pe e tm =
     (let e' = (if pv_trace_id e = None \<and> non_empty (pe_trace pe) then e\<lparr>pv_trace_id := pe_trace pe\<rparr> else e)
      in send_event pe (pv_case e) (dump_progress (pe_dates pe) e') tm)"

text \<open>\<open>{"kind": "agent", "schema_version": 1, **event}\<close>.\<close>

definition publish_agent_event :: "publish_env \<Rightarrow> uuid \<Rightarrow> pydict \<Rightarrow> telemetry \<Rightarrow> telemetry" where
  "publish_agent_event pe cid event tm =
     (let stamped = dict_merge [(''kind'', PStr ''agent''), (''schema_version'', PInt 1)] event;
          stamped' = (if dict_has ''trace_id'' stamped then stamped
                      else dict_set ''trace_id'' (trace_value pe) stamped)
      in send_event pe cid stamped' tm)"

definition publish_narration :: "publish_env \<Rightarrow> uuid \<Rightarrow> string \<Rightarrow> string \<Rightarrow> int \<Rightarrow> telemetry \<Rightarrow> telemetry" where
  "publish_narration pe cid agent content chunk_index tm =
     send_event pe cid
       [(''kind'', PStr ''narration''), (''schema_version'', PInt 1), (''case_id'', PStr cid),
        (''agent'', PStr agent), (''content'', PStr content), (''chunk_index'', PInt chunk_index),
        (''ts'', PStr (dt_datetime (pe_dates pe) (pe_now pe))), (''trace_id'', trace_value pe)] tm"

section \<open>Cancellation\<close>

text \<open>A flag per case with the time it expires, in seconds; a failure of Redis reads as no flag.\<close>

definition cancel_key_ttl :: rat where "cancel_key_ttl = 86400"

type_synonym cancel_flags = "uuid \<Rightarrow> rat option"

definition set_cancel_flag :: "bool \<Rightarrow> rat \<Rightarrow> uuid \<Rightarrow> cancel_flags \<Rightarrow> cancel_flags" where
  "set_cancel_flag up now cid fl = (if up then fl(cid \<mapsto> now + cancel_key_ttl) else fl)"

definition check_cancel_flag :: "bool \<Rightarrow> rat \<Rightarrow> uuid \<Rightarrow> cancel_flags \<Rightarrow> bool" where
  "check_cancel_flag up now cid fl \<longleftrightarrow> up \<and> (case fl cid of None \<Rightarrow> False | Some t \<Rightarrow> now < t)"

definition clear_cancel_flag :: "bool \<Rightarrow> uuid \<Rightarrow> cancel_flags \<Rightarrow> cancel_flags" where
  "clear_cancel_flag up cid fl = (if up then fl(cid := None) else fl)"

section \<open>Subscription\<close>

text \<open>The phase is looked up in a set, so it has to have a hash.\<close>

definition is_terminal_event :: "pydict \<Rightarrow> bool result" where
  "is_terminal_event d =
     (let agent = pget d ''agent''; phase = pget d ''phase''
      in if pget d ''kind'' = PStr ''interrupt'' then Inr True
         else if agent \<notin> {PStr ''hearing-governance'', PStr ''pipeline''} then Inr False
         else if unhashable phase then Inl (OtherError ''TypeError'')
         else if agent = PStr ''hearing-governance'' then Inr (phase \<in> {PStr ''completed'', PStr ''failed''})
         else Inr (phase \<in> {PStr ''terminal'', PStr ''awaiting_review'', PStr ''cancelled''}))"

text \<open>
  What a subscription yields of the messages of its channel, and whether it is still open, was closed by a
  terminal event, or fails because a JSON text is no object. Other notices of Redis are skipped.
\<close>

datatype channel_message = Notice | Data string

datatype subscription_end = Still_open | Closed_by_event | Failed

fun subscribe :: "(string \<Rightarrow> pyval option) \<Rightarrow> channel_message list \<Rightarrow> string list \<times> subscription_end" where
  "subscribe loads [] = ([], Still_open)"
| "subscribe loads (Notice # ms) = subscribe loads ms"
| "subscribe loads (Data s # ms) =
     (let continue = (case subscribe loads ms of (ss, e) \<Rightarrow> (s # ss, e))
      in case loads s of
           None \<Rightarrow> continue
         | Some v \<Rightarrow> (case v of
             PDict d \<Rightarrow> (case is_terminal_event d of
                 Inl _ \<Rightarrow> ([s], Failed) | Inr t \<Rightarrow> if t then ([s], Closed_by_event) else continue)
           | _ \<Rightarrow> ([s], Failed)))"

section \<open>Bridges\<close>

text \<open>\<open>validate\<close> is the validation of a chunk as a progress event.\<close>

definition coerce_progress :: "(pydict \<Rightarrow> progress_event option) \<Rightarrow> pyval \<Rightarrow> progress_event option" where
  "coerce_progress validate chunk = (case chunk of
     PDict d \<Rightarrow> if pget d ''kind'' = PStr ''progress'' then validate d else None
   | _ \<Rightarrow> None)"

definition dispatch_chunk ::
  "(pydict \<Rightarrow> progress_event option) \<Rightarrow> publish_env \<Rightarrow> uuid \<Rightarrow> pyval \<Rightarrow> telemetry \<Rightarrow> telemetry" where
  "dispatch_chunk validate pe cid chunk tm =
     (case coerce_progress validate chunk of
        Some e \<Rightarrow> publish_progress pe e tm
      | None \<Rightarrow>
          (case chunk of
             PDict d \<Rightarrow> if pget d ''kind'' \<in> {PStr ''agent'', PStr ''narration''}
                        then publish_agent_event pe cid d tm else tm
           | _ \<Rightarrow> tm))"

text \<open>The chunks of a run with the environment of each, and the exception the run ends with, if any.\<close>

definition stream_to_sse ::
  "(pydict \<Rightarrow> progress_event option) \<Rightarrow> uuid \<Rightarrow> (publish_env \<times> pyval) list \<times> exn option \<Rightarrow> telemetry
   \<Rightarrow> telemetry \<times> exn option" where
  "stream_to_sse validate cid run tm =
     (fold (\<lambda>(pe, chunk). dispatch_chunk validate pe cid chunk) (fst run) tm, snd run)"

definition state_field :: "(pyval \<Rightarrow> string) \<Rightarrow> pydict \<Rightarrow> string \<Rightarrow> string" where
  "state_field rep state name = py_str rep (pget_def state name (PStr []))"

text \<open>The text of a tool's result, with its content and artifact, and the handler's exception otherwise.\<close>

record tool_outcome =
  to_content :: string
  to_artifact :: tool_message

definition sse_tool_emitter ::
  "(pyval \<Rightarrow> string) \<Rightarrow> publish_env \<Rightarrow> publish_env \<Rightarrow> pydict \<Rightarrow> pydict \<Rightarrow> exn + tool_outcome \<Rightarrow> telemetry
   \<Rightarrow> (exn + tool_outcome) \<times> telemetry" where
  "sse_tool_emitter rep pe1 pe2 state tool_call reply tm =
     (let cid = state_field rep state ''case_id''; agent = state_field rep state ''agent_name'';
          name = pget_def tool_call ''name'' (PStr []);
          tm1 = publish_agent_event pe1 cid
            [(''case_id'', PStr cid), (''agent'', PStr agent), (''event'', PStr ''tool_call''), (''tool_name'', name),
             (''args'', pget_def tool_call ''args'' (PDict [])),
             (''ts'', PStr (dt_datetime (pe_dates pe1) (pe_now pe1)))] tm
      in case reply of
           Inl e \<Rightarrow> (Inl e, tm1)
         | Inr r \<Rightarrow> (Inr r, publish_agent_event pe2 cid
             [(''case_id'', PStr cid), (''agent'', PStr agent), (''event'', PStr ''tool_result''), (''tool_name'', name),
              (''result'', PStr (take 1000 (to_content r))),
              (''ts'', PStr (dt_datetime (pe_dates pe2) (pe_now pe2)))] tm1))"

text \<open>The usage a message of the model carries; other messages are \<open>None\<close>.\<close>

definition extract_token_usage :: "pydict option list \<Rightarrow> pydict option" where
  "extract_token_usage messages =
     (case filter (\<lambda>m. m \<noteq> None) (rev messages) of
        Some meta # _ \<Rightarrow>
          if meta = [] then None
          else Some [(''prompt_tokens'', pget_def meta ''input_tokens'' (PInt 0)),
                     (''completion_tokens'', pget_def meta ''output_tokens'' (PInt 0)),
                     (''total_tokens'', pget_def meta ''total_tokens'' (PInt 0))]
      | _ \<Rightarrow> None)"

definition token_usage_emitter ::
  "(pyval \<Rightarrow> string) \<Rightarrow> publish_env \<Rightarrow> pydict \<Rightarrow> exn + pydict option list \<Rightarrow> telemetry \<Rightarrow> telemetry" where
  "token_usage_emitter rep pe state reply tm =
     (case reply of
        Inl e \<Rightarrow> tm
      | Inr messages \<Rightarrow>
          (case extract_token_usage messages of
             None \<Rightarrow> tm
           | Some usage \<Rightarrow>
               let cid = state_field rep state ''case_id''
               in publish_agent_event pe cid
                    [(''case_id'', PStr cid), (''agent'', PStr (state_field rep state ''agent_name'')),
                     (''event'', PStr ''token_usage''), (''usage'', PDict usage),
                     (''ts'', PStr (dt_datetime (pe_dates pe) (pe_now pe)))] tm))"

text \<open>One audit row per tool call that returned; a failed write is logged only.\<close>

definition append_audit_entry ::
  "bool \<Rightarrow> int \<Rightarrow> uuid \<Rightarrow> string \<Rightarrow> string \<Rightarrow> pydict option \<Rightarrow> pydict option \<Rightarrow> database \<Rightarrow> database" where
  "append_audit_entry up now cid agent action inp out db =
     (if up \<and> find_case cid db \<noteq> None \<and> length agent \<le> 100 \<and> length action \<le> 255
      then (let row = audit_of cid now agent action [];
                e = (al_entry row)\<lparr>ae_input_payload := inp, ae_output_payload := out\<rparr>
            in add_audit (row\<lparr>al_entry := e\<rparr>) db)
      else db)"

definition audit_tool_call ::
  "(pyval \<Rightarrow> string) \<Rightarrow> bool \<Rightarrow> int \<Rightarrow> pydict \<Rightarrow> pydict \<Rightarrow> exn + tool_outcome \<Rightarrow> database \<Rightarrow> database" where
  "audit_tool_call rep up now state tool_call reply db =
     (case reply of
        Inl e \<Rightarrow> db
      | Inr r \<Rightarrow> append_audit_entry up now (state_field rep state ''case_id'') (state_field rep state ''agent_name'')
          ''tool_call''
          (Some [(''tool_name'', pget_def tool_call ''name'' (PStr [])),
                 (''args'', pget_def tool_call ''args'' (PDict []))])
          (Some [(''tool_result'', PStr (take 2000 (to_content r))),
                 (''source_ids'', PList (map PStr (source_ids_from_artifact rep (to_artifact r))))]) db)"

section \<open>Batching of tokens\<close>

text \<open>\<open>clock\<close> is \<open>time.monotonic\<close>, which the coalescer reads once or twice per delta.\<close>

record coalescer =
  co_buf :: "string list"
  co_chars :: nat
  co_first :: "rat option"
  co_reads :: nat

record coalescer_config =
  cc_window :: rat
  cc_max_chars :: nat

definition default_coalescing :: coalescer_config where
  "default_coalescing = \<lparr>cc_window = 5 / 100, cc_max_chars = 64\<rparr>"

definition new_coalescer :: coalescer where
  "new_coalescer = \<lparr>co_buf = [], co_chars = 0, co_first = None, co_reads = 0\<rparr>"

text \<open>The new state and what is emitted.\<close>

definition co_flush :: "coalescer \<Rightarrow> coalescer \<times> string list" where
  "co_flush c = (if co_buf c = [] then (c, [])
                 else (c\<lparr>co_buf := [], co_chars := 0, co_first := None\<rparr>, [concat (co_buf c)]))"

definition co_feed :: "coalescer_config \<Rightarrow> (nat \<Rightarrow> rat) \<Rightarrow> string \<Rightarrow> coalescer \<Rightarrow> coalescer \<times> string list" where
  "co_feed cfg clock delta c =
     (if delta = [] then (c, [])
      else let (first, n) = (case co_first c of None \<Rightarrow> (clock (co_reads c), co_reads c + 1) | Some t \<Rightarrow> (t, co_reads c));
               c1 = c\<lparr>co_buf := co_buf c @ [delta], co_chars := co_chars c + length delta,
                      co_first := Some first, co_reads := n\<rparr>
           in if cc_max_chars cfg \<le> co_chars c1 then co_flush c1
              else if cc_window cfg \<le> clock n - first then co_flush (c1\<lparr>co_reads := n + 1\<rparr>)
              else (c1\<lparr>co_reads := n + 1\<rparr>, []))"

definition co_close :: "coalescer \<Rightarrow> coalescer \<times> string list" where
  "co_close = co_flush"

text \<open>A caller feeds deltas and flushes at boundaries.\<close>

datatype coalescer_call = Feed string | Flush

definition co_call :: "coalescer_config \<Rightarrow> (nat \<Rightarrow> rat) \<Rightarrow> coalescer_call \<Rightarrow> coalescer \<Rightarrow> coalescer \<times> string list" where
  "co_call cfg clock x c = (case x of Feed s \<Rightarrow> co_feed cfg clock s c | Flush \<Rightarrow> co_flush c)"

fun co_calls ::
  "coalescer_config \<Rightarrow> (nat \<Rightarrow> rat) \<Rightarrow> coalescer_call list \<Rightarrow> coalescer \<Rightarrow> coalescer \<times> string list" where
  "co_calls cfg clock [] c = (c, [])"
| "co_calls cfg clock (x # xs) c =
     (let (c1, es) = co_call cfg clock x c; (c2, fs) = co_calls cfg clock xs c1 in (c2, es @ fs))"

fun fed_text :: "coalescer_call list \<Rightarrow> string" where
  "fed_text [] = []"
| "fed_text (Feed s # xs) = s @ fed_text xs"
| "fed_text (Flush # xs) = fed_text xs"

section \<open>The bounded publisher\<close>

text \<open>
  The queue, whether the drain task runs and whether it was closed, and what was delivered. The drain task
  takes one event at a time; a delivery that fails is logged and the event is gone.
\<close>

record 'e publisher =
  pb_queue :: "'e list"
  pb_size :: nat
  pb_phase :: string
  pb_started :: bool
  pb_closed :: bool
  pb_delivered :: "'e list"

definition new_publisher :: "nat \<Rightarrow> string \<Rightarrow> 'e publisher" where
  "new_publisher n phase =
     \<lparr>pb_queue = [], pb_size = n, pb_phase = phase, pb_started = False, pb_closed = False, pb_delivered = []\<rparr>"

definition pb_start :: "'e publisher \<Rightarrow> 'e publisher" where
  "pb_start p = p\<lparr>pb_started := True\<rparr>"

text \<open>A queue of size zero has no bound.\<close>

definition pb_submit :: "'e \<Rightarrow> 'e publisher \<times> metrics \<Rightarrow> bool \<times> 'e publisher \<times> metrics" where
  "pb_submit e s =
     (let (p, m) = s
      in if pb_closed p then (False, p, m)
         else if pb_size p > 0 \<and> length (pb_queue p) \<ge> pb_size p
         then (False, p, inc_stream_publish_dropped (pb_phase p) m)
         else (True, p\<lparr>pb_queue := pb_queue p @ [e]\<rparr>, m))"

definition pb_drain :: "('e \<Rightarrow> bool) \<Rightarrow> 'e publisher \<Rightarrow> 'e publisher" where
  "pb_drain delivered p =
     (case pb_queue p of
        [] \<Rightarrow> p
      | e # q \<Rightarrow> if pb_started p
                 then p\<lparr>pb_queue := q, pb_delivered := pb_delivered p @ (if delivered e then [e] else [])\<rparr> else p)"

text \<open>Closing waits until the queue is empty, if there is a task to empty it.\<close>

definition pb_close :: "('e \<Rightarrow> bool) \<Rightarrow> 'e publisher \<Rightarrow> 'e publisher" where
  "pb_close delivered p =
     (if pb_closed p then p
      else if \<not> pb_started p then p\<lparr>pb_closed := True\<rparr>
      else p\<lparr>pb_closed := True, pb_queue := [], pb_delivered := pb_delivered p @ filter delivered (pb_queue p)\<rparr>)"

datatype 'e publisher_call = Start | Submit 'e | Drain | Close

definition pb_call ::
  "('e \<Rightarrow> bool) \<Rightarrow> 'e publisher_call \<Rightarrow> 'e publisher \<times> metrics \<Rightarrow> 'e publisher \<times> metrics" where
  "pb_call delivered x s = (case x of
     Start \<Rightarrow> (pb_start (fst s), snd s) | Submit e \<Rightarrow> snd (pb_submit e s)
   | Drain \<Rightarrow> (pb_drain delivered (fst s), snd s) | Close \<Rightarrow> (pb_close delivered (fst s), snd s))"

text \<open>The events a sequence of calls has accepted, and how many it dropped for want of room.\<close>

fun accepted :: "('e \<Rightarrow> bool) \<Rightarrow> 'e publisher_call list \<Rightarrow> 'e publisher \<times> metrics \<Rightarrow> 'e list" where
  "accepted delivered [] s = []"
| "accepted delivered (x # xs) s =
     (case x of Submit e \<Rightarrow> if fst (pb_submit e s) then [e] else [] | _ \<Rightarrow> [])
     @ accepted delivered xs (pb_call delivered x s)"

section \<open>The stream of a case\<close>

definition sse_frame :: "string \<Rightarrow> string \<Rightarrow> string" where
  "sse_frame name payload = ''event: '' @ name @ newline @ ''data: '' @ payload @ newline @ newline"

text \<open>The first frame: the status of the case, and the question of an agent that waits for the judge.\<close>

definition snapshot_event :: "string \<Rightarrow> case_row \<Rightarrow> pydict" where
  "snapshot_event ts c =
     [(''kind'', PStr ''progress''), (''schema_version'', PInt 1), (''case_id'', PStr (ca_id c)),
      (''agent'', PStr ''pipeline''), (''phase'', PStr ''case.status''), (''ts'', PStr ts),
      (''detail'', PDict [(''status'', PStr (status_value (ca_status c))), (''gate_state'', dump_opt PDict (ca_gate_state c))])]"

definition chat_snapshot :: "string \<Rightarrow> uuid \<Rightarrow> pydict \<Rightarrow> pydict" where
  "chat_snapshot ts cid chat =
     [(''kind'', PStr ''interrupt''), (''schema_version'', PInt 1), (''case_id'', PStr cid),
      (''agent'', py_or (pget chat ''agent'') (PStr ''synthesis'')), (''question'', pget chat ''question''),
      (''interrupt_id'', pget chat ''interrupt_id''), (''ts'', PStr ts)]"

definition watchdog_event :: "string \<Rightarrow> uuid \<Rightarrow> pydict" where
  "watchdog_event ts cid =
     [(''kind'', PStr ''progress''), (''schema_version'', PInt 1), (''case_id'', PStr cid), (''agent'', PStr ''pipeline''),
      (''phase'', PStr ''terminal''), (''ts'', PStr ts),
      (''detail'', PDict [(''reason'', PStr ''watchdog_timeout''), (''stopped_at'', PStr ''sse-stream'')])]"

definition heartbeat_event :: "string \<Rightarrow> string option \<Rightarrow> pydict" where
  "heartbeat_event ts trace =
     [(''kind'', PStr ''heartbeat''), (''schema_version'', PInt 1), (''ts'', PStr ts), (''trace_id'', opt_str trace)]"

definition auth_expiring_event :: "string \<Rightarrow> pydict" where
  "auth_expiring_event expires =
     [(''kind'', PStr ''auth_expiring''), (''schema_version'', PInt 1), (''expires_at'', PStr expires)]"

text \<open>
  One turn of the generator's loop: whether the browser left, the seconds since the start, and what the wait
  on the queue ended with: a payload and whether it was the last, or the time-out and whether the
  subscription has ended, with the time and the seconds left of the session.
\<close>

datatype stream_wait = Got string bool | Timed_out bool string "string option" "(rat \<times> string) option"

record stream_turn =
  tn_gone :: bool
  tn_elapsed :: rat
  tn_now :: string
  tn_wait :: stream_wait

record stream_config =
  sc_watchdog :: rat
  sc_heartbeat :: rat

definition event_kind :: "(pyval \<Rightarrow> string) \<Rightarrow> (string \<Rightarrow> pyval option) \<Rightarrow> string \<Rightarrow> string" where
  "event_kind rep loads payload = (case loads payload of
     Some (PDict d) \<Rightarrow> py_str rep (pget_def d ''kind'' (PStr ''progress'')) | _ \<Rightarrow> ''progress'')"

definition warns_of_expiry :: "stream_config \<Rightarrow> rat \<Rightarrow> bool" where
  "warns_of_expiry cfg secs_left \<longleftrightarrow> 0 < secs_left \<and> secs_left \<le> 2 * sc_heartbeat cfg + 60"

fun event_generator ::
  "(pyval \<Rightarrow> string) \<Rightarrow> (string \<Rightarrow> pyval option) \<Rightarrow> (pyval \<Rightarrow> string) \<Rightarrow> stream_config \<Rightarrow> uuid
   \<Rightarrow> stream_turn list \<Rightarrow> string list" where
  "event_generator rep loads dumps cfg cid [] = []"
| "event_generator rep loads dumps cfg cid (t # ts) =
     (if tn_gone t then []
      else if sc_watchdog cfg \<le> tn_elapsed t
      then [sse_frame ''progress'' (dumps (PDict (watchdog_event (tn_now t) cid)))]
      else (case tn_wait t of
              Got payload final \<Rightarrow>
                sse_frame (event_kind rep loads payload) payload
                # (if final then [] else event_generator rep loads dumps cfg cid ts)
            | Timed_out ended now trace expiry \<Rightarrow>
                if ended then []
                else sse_frame ''heartbeat'' (dumps (PDict (heartbeat_event now trace)))
                     # (case expiry of
                          None \<Rightarrow> []
                        | Some (secs_left, expires) \<Rightarrow>
                            if warns_of_expiry cfg secs_left
                            then [sse_frame ''auth_expiring'' (dumps (PDict (auth_expiring_event expires)))] else [])
                     @ event_generator rep loads dumps cfg cid ts))"

text \<open>\<open>pending_chat\<close> is the question that waits in the thread of the case; a failure of that look-up is none.\<close>

definition stream_pipeline_status ::
  "(pyval \<Rightarrow> string) \<Rightarrow> (string \<Rightarrow> pyval option) \<Rightarrow> (pyval \<Rightarrow> string) \<Rightarrow> stream_config \<Rightarrow> request \<Rightarrow> string
   \<Rightarrow> uuid \<Rightarrow> pydict option \<Rightarrow> database \<Rightarrow> stream_turn list \<Rightarrow> string list result" where
  "stream_pipeline_status rep loads dumps cfg rq now cid pending_chat db turns =
     bind_result (load_case_for_export rq cid db) (\<lambda>c.
       Inr (sse_frame ''progress'' (dumps (PDict (snapshot_event now c)))
            # (case pending_chat of None \<Rightarrow> []
               | Some chat \<Rightarrow> [sse_frame ''interrupt'' (dumps (PDict (chat_snapshot now cid chat)))])
            @ event_generator rep loads dumps cfg cid turns))"

text \<open>The stream of the intake: frames without a name, and the extraction first when there is one.\<close>

definition intake_snapshot :: "string \<Rightarrow> case_row \<Rightarrow> pydict list" where
  "intake_snapshot ts c = (case ca_intake_extraction c of
     None \<Rightarrow> []
   | Some x \<Rightarrow> [[(''type'', PStr (if ca_status c = S_awaiting_intake_confirmation then ''done'' else ''status'')),
                (''phase'', PStr ''reconnect_snapshot''), (''extraction'', PDict x), (''ts'', PStr ts)]])"

definition data_frame :: "string \<Rightarrow> string" where
  "data_frame payload = ''data: '' @ payload @ newline @ newline"

fun intake_generator :: "(pyval \<Rightarrow> string) \<Rightarrow> stream_config \<Rightarrow> stream_turn list \<Rightarrow> string list" where
  "intake_generator dumps cfg [] = []"
| "intake_generator dumps cfg (t # ts) =
     (if tn_gone t then []
      else if sc_watchdog cfg \<le> tn_elapsed t
      then [data_frame (dumps (PDict [(''type'', PStr ''error''), (''message'', PStr ''watchdog_timeout''),
                                      (''ts'', PStr (tn_now t))]))]
      else (case tn_wait t of
              Got payload final \<Rightarrow> data_frame payload # (if final then [] else intake_generator dumps cfg ts)
            | Timed_out ended now trace expiry \<Rightarrow>
                if ended then []
                else sse_frame ''heartbeat'' (dumps (PDict (heartbeat_event now trace)))
                     # intake_generator dumps cfg ts))"

definition stream_intake_events ::
  "(pyval \<Rightarrow> string) \<Rightarrow> stream_config \<Rightarrow> request \<Rightarrow> string \<Rightarrow> uuid \<Rightarrow> database \<Rightarrow> stream_turn list
   \<Rightarrow> string list result" where
  "stream_intake_events dumps cfg rq now cid db turns =
     bind_result (load_case_for_export rq cid db) (\<lambda>c.
       Inr (map (data_frame \<circ> dumps \<circ> PDict) (intake_snapshot now c) @ intake_generator dumps cfg turns))"

section \<open>Properties of the log and of subscriptions\<close>

lemma json_safe_is_json: "is_json (json_safe dt v)"
  by (induction dt v rule: json_safe.induct) (auto simp: list_all_iff)

lemma json_safe_id: "is_json v \<Longrightarrow> json_safe dt v = v"
  by (induction dt v rule: json_safe.induct) (auto simp: list_all_iff map_idI)

text \<open>A published event is either seen by the subscribers and tried for the log, or, without Redis, neither;
  what is logged is the event with its dates as text and so always JSON, and the log only grows.\<close>

lemma event_log_is_json:
  assumes "send_event pe cid payload tm = tm'" "list_all (\<lambda>r. list_all (\<lambda>kv. is_json (snd kv)) (er_payload r)) (tl_rows tm)"
  shows "list_all (\<lambda>r. list_all (\<lambda>kv. is_json (snd kv)) (er_payload r)) (tl_rows tm')
     \<and> (\<exists>new. tl_rows tm' = tl_rows tm @ new \<and> length new \<le> 1)
     \<and> tl_sent tm' = (if pe_redis pe then tl_sent tm @ [(cid, payload)] else tl_sent tm)
     \<and> (if pe_redis pe then True else tm' = tm)"
proof -
  have "list_all (\<lambda>kv. is_json (snd kv)) (er_payload r)" if "tee_row pe cid payload = Some r" for r
    using that
    by (auto simp: tee_row_def Let_def list_all_iff json_safe_is_json split: option.splits if_splits)
  then show ?thesis
    using assms by (auto simp: send_event_def tee_write_def split: option.splits)
qed

lemma event_log_is_json_witness:
  "\<exists>tm'. send_event \<lparr>pe_redis = True, pe_db = True, pe_now = 5, pe_trace = None, pe_row_id = ''e1'',
       pe_dates = \<lparr>dt_date = (\<lambda>_. ''d''), dt_datetime = (\<lambda>_. ''t'')\<rparr>, pe_parse_ts = (\<lambda>_. Some 7),
       pe_parse_int = (\<lambda>_. None), pe_valid_key = (\<lambda>_. True), pe_rep = (\<lambda>_. [])\<rparr> ''c1''
       [(''kind'', PStr ''agent''), (''due'', PDate 3)] \<lparr>tl_sent = [], tl_rows = []\<rparr> = tm'
     \<and> length (tl_rows tm') = 1 \<and> list_all (\<lambda>r. list_all (\<lambda>kv. is_json (snd kv)) (er_payload r)) (tl_rows tm')"
proof -
  let ?pe = "\<lparr>pe_redis = True, pe_db = True, pe_now = 5, pe_trace = None, pe_row_id = ''e1'',
       pe_dates = \<lparr>dt_date = (\<lambda>_. ''d''), dt_datetime = (\<lambda>_. ''t'')\<rparr>, pe_parse_ts = (\<lambda>_. Some 7),
       pe_parse_int = (\<lambda>_. None), pe_valid_key = (\<lambda>_. True), pe_rep = (\<lambda>_. [])\<rparr>"
  obtain tm' where t: "send_event ?pe ''c1'' [(''kind'', PStr ''agent''), (''due'', PDate 3)] \<lparr>tl_sent = [], tl_rows = []\<rparr> = tm'"
    by blast
  have "length (tl_rows tm') = 1"
    unfolding t [symmetric]
    by (simp add: send_event_def tee_write_def tee_row_def pget_def pget_def_def int_of_value_def text_or_none_def)
  then show ?thesis using t event_log_is_json [OF t] by auto
qed

text \<open>The messages a subscriber is given before the one that closes the stream.\<close>

definition closes :: "(string \<Rightarrow> pyval option) \<Rightarrow> string \<Rightarrow> bool" where
  "closes loads s \<longleftrightarrow> (case loads s of
     None \<Rightarrow> False | Some (PDict d) \<Rightarrow> is_terminal_event d \<noteq> Inr False | Some _ \<Rightarrow> True)"

fun payloads :: "channel_message list \<Rightarrow> string list" where
  "payloads [] = []"
| "payloads (Notice # ms) = payloads ms"
| "payloads (Data s # ms) = s # payloads ms"

lemma subscribe_data:
  "closes loads s \<Longrightarrow> fst (subscribe loads (Data s # ms)) = [s] \<and> snd (subscribe loads (Data s # ms)) \<noteq> Still_open"
  "\<not> closes loads s \<Longrightarrow> subscribe loads (Data s # ms) = (s # fst (subscribe loads ms), snd (subscribe loads ms))"
proof -
  show "closes loads s \<Longrightarrow> fst (subscribe loads (Data s # ms)) = [s] \<and> snd (subscribe loads (Data s # ms)) \<noteq> Still_open"
  proof (cases "loads s")
    case (Some v)
    assume "closes loads s"
    then show ?thesis using Some
    proof (cases v)
      case (PDict d)
      then show ?thesis using \<open>closes loads s\<close> Some
        by (cases "is_terminal_event d") (auto simp: closes_def)
    qed (simp_all add: closes_def)
  qed (simp add: closes_def)
  show "\<not> closes loads s \<Longrightarrow> subscribe loads (Data s # ms) = (s # fst (subscribe loads ms), snd (subscribe loads ms))"
  proof (cases "loads s")
    case (Some v)
    assume "\<not> closes loads s"
    then show ?thesis using Some by (cases v) (simp_all add: closes_def case_prod_unfold)
  qed (simp add: case_prod_unfold)
qed

declare subscribe.simps(3) [simp del]

text \<open>A subscriber gets every payload of the channel in order, up to and including the first that closes the
  stream, and nothing after it; the stream stays open exactly as long as none does.\<close>

lemma subscription_ends_at_the_first_closing_event:
  "fst (subscribe loads ms)
     = takeWhile (\<lambda>s. \<not> closes loads s) (payloads ms) @ take 1 (dropWhile (\<lambda>s. \<not> closes loads s) (payloads ms))
   \<and> (snd (subscribe loads ms) = Still_open \<longleftrightarrow> \<not> list_ex (closes loads) (payloads ms))"
proof (induction loads ms rule: subscribe.induct)
  case (3 loads s ms)
  then show ?case
    using subscribe_data [of loads s ms] by (cases "closes loads s") auto
qed auto

text \<open>The agents of the pipeline are \<open>intake\<close> to \<open>audit\<close>: no event of one of them closes the stream.\<close>

lemma agents_never_close_the_stream:
  assumes "pget d ''agent'' = PStr a" "a \<in> set pipeline_agent_order" "pget d ''kind'' \<noteq> PStr ''interrupt''"
  shows "is_terminal_event d = Inr False"
proof -
  have "a \<noteq> ''hearing-governance'' \<and> a \<noteq> ''pipeline''" using assms(2) by (auto simp: pipeline_agent_order_def)
  then show ?thesis using assms by (simp add: is_terminal_event_def Let_def)
qed

text \<open>A flag that was set is seen for a day, unless it is cleared; without Redis nobody sees it.\<close>

lemma cancel_flag_lifetime:
  "check_cancel_flag True later cid (set_cancel_flag True now cid fl) \<longleftrightarrow> later < now + 86400"
  "\<not> check_cancel_flag True later cid (clear_cancel_flag True cid fl)"
  "\<not> check_cancel_flag False later cid fl"
  by (simp_all add: check_cancel_flag_def set_cancel_flag_def clear_cancel_flag_def cancel_key_ttl_def)

text \<open>A tool call is announced before it runs, and its result after; one that fails stays announced only.\<close>

lemma failed_tool_stays_announced:
  assumes "pe_redis pe1"
  shows "sse_tool_emitter rep pe1 pe2 state call (Inl e) tm = (Inl e, tm')
     \<Longrightarrow> length (tl_sent tm') = length (tl_sent tm) + 1"
  using assms
  by (auto simp: sse_tool_emitter_def publish_agent_event_def send_event_def tee_write_def Let_def split: option.splits)

section \<open>Properties of the coalescer\<close>

definition co_ok :: "coalescer_config \<Rightarrow> coalescer \<Rightarrow> bool" where
  "co_ok cfg c \<longleftrightarrow> co_chars c = length (concat (co_buf c)) \<and> co_chars c < cc_max_chars cfg \<and> [] \<notin> set (co_buf c)
     \<and> (co_first c = None \<longleftrightarrow> co_buf c = [])"

lemma co_flush_ok: "0 < cc_max_chars cfg \<Longrightarrow> co_flush c = (c', es) \<Longrightarrow> co_buf c' = [] \<and> concat es = concat (co_buf c)"
  by (auto simp: co_flush_def split: if_splits)

lemma co_call_ok:
  assumes "co_ok cfg c" "0 < cc_max_chars cfg" "co_call cfg clock x c = (c', es)"
  shows "co_ok cfg c' \<and> concat es @ concat (co_buf c') = concat (co_buf c) @ fed_text [x] \<and> [] \<notin> set es"
proof (cases x)
  case Flush
  then show ?thesis using assms by (cases "co_buf c") (auto simp: co_call_def co_ok_def co_flush_def split: if_splits)
next
  case (Feed s)
  then show ?thesis using assms
    by (auto simp: co_call_def co_feed_def co_ok_def co_flush_def Let_def split: if_splits option.splits prod.splits)
qed

text \<open>
  What the agent node relies on: a buffer that is fed pieces and flushed, and gives back what it was fed, in
  order, sooner or later.
\<close>

locale text_buffer =
  fixes ok :: "'b \<Rightarrow> bool" and held :: "'b \<Rightarrow> string"
    and put :: "string \<Rightarrow> 'b \<Rightarrow> 'b \<times> string list" and drain :: "'b \<Rightarrow> 'b \<times> string list"
  assumes put_keeps: "ok b \<Longrightarrow> put t b = (b', es) \<Longrightarrow> ok b' \<and> concat es @ held b' = held b @ t"
    and drain_gives: "ok b \<Longrightarrow> drain b = (b', es) \<Longrightarrow> ok b' \<and> held b' = [] \<and> concat es = held b"

fun buffer_calls ::
  "(string \<Rightarrow> 'b \<Rightarrow> 'b \<times> string list) \<Rightarrow> ('b \<Rightarrow> 'b \<times> string list) \<Rightarrow> coalescer_call list \<Rightarrow> 'b
   \<Rightarrow> 'b \<times> string list" where
  "buffer_calls put drain [] b = (b, [])"
| "buffer_calls put drain (x # xs) b =
     (let (b1, es) = (case x of Feed s \<Rightarrow> put s b | Flush \<Rightarrow> drain b); (b2, fs) = buffer_calls put drain xs b1
      in (b2, es @ fs))"

context text_buffer
begin

lemma calls_keep_the_text:
  assumes "ok b" "buffer_calls put drain xs b = (b', es)"
  shows "ok b' \<and> concat es @ held b' = held b @ fed_text xs"
  using assms
proof (induction xs arbitrary: b es)
  case (Cons x xs)
  obtain b1 es1 where one: "(case x of Feed s \<Rightarrow> put s b | Flush \<Rightarrow> drain b) = (b1, es1)" by fastforce
  obtain es2 where rest: "buffer_calls put drain xs b1 = (b', es2)" "es = es1 @ es2"
    using Cons.prems(2) one by (auto split: prod.splits)
  have "ok b1 \<and> concat es1 @ held b1 = held b @ fed_text [x]"
    using one put_keeps [OF Cons.prems(1)] drain_gives [OF Cons.prems(1)] by (cases x) auto
  moreover have "fed_text (x # xs) = fed_text [x] @ fed_text xs" by (cases x) simp_all
  ultimately show ?case using Cons.IH [OF _ rest(1)] rest(2) by auto
qed simp

end

interpretation coalescing: text_buffer
  "\<lambda>c. co_ok cfg c \<and> 0 < cc_max_chars cfg" "\<lambda>c. concat (co_buf c)" "co_feed cfg clock" co_flush
  for cfg clock
proof
  show "co_ok cfg b \<and> 0 < cc_max_chars cfg \<Longrightarrow> co_feed cfg clock t b = (b', es)
      \<Longrightarrow> (co_ok cfg b' \<and> 0 < cc_max_chars cfg) \<and> concat es @ concat (co_buf b') = concat (co_buf b) @ t" for b t b' es
    using co_call_ok [of cfg b clock "Feed t" b' es] by (simp add: co_call_def)
  show "co_ok cfg b \<and> 0 < cc_max_chars cfg \<Longrightarrow> co_flush b = (b', es)
      \<Longrightarrow> (co_ok cfg b' \<and> 0 < cc_max_chars cfg) \<and> concat (co_buf b') = [] \<and> concat es = concat (co_buf b)" for b b' es
    using co_call_ok [of cfg b undefined Flush b' es] co_flush_ok [of cfg b b' es] by (simp add: co_call_def)
qed

lemma co_calls_buffer: "co_calls cfg clock xs c = buffer_calls (co_feed cfg clock) co_flush xs c"
  by (induction xs arbitrary: c) (simp_all add: co_call_def)

lemma emitted_pieces_are_not_empty:
  "co_ok cfg c1 \<Longrightarrow> 0 < cc_max_chars cfg \<Longrightarrow> co_calls cfg clock xs c1 = (c, es) \<Longrightarrow> [] \<notin> set es"
proof (induction xs arbitrary: c1 es)
  case (Cons x xs)
  obtain c2 es1 where one: "co_call cfg clock x c1 = (c2, es1)" by fastforce
  obtain es2 where rest: "co_calls cfg clock xs c2 = (c, es2)" "es = es1 @ es2"
    using Cons.prems(3) one by (auto split: prod.splits)
  then show ?case using co_call_ok [OF Cons.prems(1,2) one] Cons.IH [OF _ Cons.prems(2) rest(1)] by auto
qed simp

text \<open>Whatever is fed and flushed in whatever order and time, the emitted pieces and the rest in the buffer are
  together the text that was fed; no piece is empty, and less than the cap of characters is ever held back.\<close>

lemma coalescer_loses_nothing:
  assumes "co_calls cfg clock xs new_coalescer = (c, es)" "0 < cc_max_chars cfg"
  shows "concat es @ concat (co_buf c) = fed_text xs \<and> [] \<notin> set es
     \<and> length (concat (co_buf c)) < cc_max_chars cfg \<and> concat (snd (co_close c)) = concat (co_buf c)"
proof -
  have ok: "co_ok cfg new_coalescer" using assms(2) by (simp add: co_ok_def new_coalescer_def)
  have "co_ok cfg c \<and> concat es @ concat (co_buf c) = fed_text xs"
    using coalescing.calls_keep_the_text [of cfg new_coalescer clock xs c es] ok assms
    by (simp add: co_calls_buffer new_coalescer_def)
  then show ?thesis
    using emitted_pieces_are_not_empty [OF ok assms(2,1)] by (auto simp: co_ok_def co_close_def co_flush_def)
qed

lemma coalescer_loses_nothing_witness:
  "\<exists>c es. co_calls default_coalescing (\<lambda>n. of_nat n / 1000) [Feed ''The '', Feed ''light'', Flush, Feed '' was''] new_coalescer = (c, es)
     \<and> concat es @ concat (co_buf c) = ''The light was''"
proof -
  obtain c es where c: "co_calls default_coalescing (\<lambda>n. of_nat n / 1000) [Feed ''The '', Feed ''light'', Flush, Feed '' was'']
      new_coalescer = (c, es)" by fastforce
  show ?thesis using coalescer_loses_nothing [OF c] c by (simp add: default_coalescing_def)
qed

section \<open>Properties of the publisher\<close>

lemma pb_call_accepted:
  assumes "pb_size p > 0" "length (pb_queue p) \<le> pb_size p" "pb_call delivered x (p, m) = (p', m')"
  shows "pb_size p' = pb_size p \<and> length (pb_queue p') \<le> pb_size p'
     \<and> pb_delivered p' @ filter delivered (pb_queue p')
       = pb_delivered p @ filter delivered (pb_queue p)
         @ filter delivered (case x of Submit e \<Rightarrow> if fst (pb_submit e (p, m)) then [e] else [] | _ \<Rightarrow> [])"
  using assms
  by (cases x) (auto simp: pb_call_def pb_start_def pb_submit_def pb_drain_def pb_close_def Let_def
      split: if_splits list.splits)

text \<open>The publisher never holds more events than its queue may, and what it has delivered, followed by what it
  still holds, is what it accepted, in order, without the deliveries that failed; nothing is delivered twice.\<close>

lemma publisher_keeps_order_and_bound:
  assumes "0 < n"
    and "fold (pb_call delivered) xs (new_publisher n phase, m) = (p, m')"
  shows "length (pb_queue p) \<le> n
     \<and> pb_delivered p @ filter delivered (pb_queue p) = filter delivered (accepted delivered xs (new_publisher n phase, m))"
proof -
  have gen: "fold (pb_call delivered) xs (p1, m1) = (p, m') \<Longrightarrow> pb_size p1 = n \<Longrightarrow> length (pb_queue p1) \<le> n
      \<Longrightarrow> length (pb_queue p) \<le> n \<and> pb_delivered p @ filter delivered (pb_queue p)
          = pb_delivered p1 @ filter delivered (pb_queue p1) @ filter delivered (accepted delivered xs (p1, m1))" for p1 m1
  proof (induction xs arbitrary: p1 m1)
    case (Cons x xs)
    obtain p2 m2 where one: "pb_call delivered x (p1, m1) = (p2, m2)" by fastforce
    note h = pb_call_accepted [of p1 delivered x m1 p2 m2]
    show ?case using Cons.IH [of p2 m2] Cons.prems h one assms(1) by auto
  qed simp
  show ?thesis using gen [OF assms(2)] by (simp add: new_publisher_def)
qed

lemma publisher_keeps_order_and_bound_witness:
  "\<exists>p m. fold (pb_call (\<lambda>_. True)) [Submit 1, Submit 2, Submit 3, Start, Drain] (new_publisher 2 ''intake'', new_metrics) = (p, m)
     \<and> pb_delivered p @ pb_queue p = [1 :: nat, 2] \<and> length (pb_queue p) \<le> 2"
proof -
  obtain p m where f: "fold (pb_call (\<lambda>_. True)) [Submit (1 :: nat), Submit 2, Submit 3, Start, Drain]
      (new_publisher 2 ''intake'', new_metrics) = (p, m)" by fastforce
  have "accepted (\<lambda>_. True) [Submit (1 :: nat), Submit 2, Submit 3, Start, Drain] (new_publisher 2 ''intake'', new_metrics) = [1, 2]"
    by (simp add: pb_call_def pb_submit_def pb_start_def pb_drain_def new_publisher_def)
  then show ?thesis using publisher_keeps_order_and_bound [OF _ f] f by simp
qed

end
