(* ===== verification/Agent_Node.thy ===== *)
theory Agent_Node
  imports Streaming
begin

text \<open>
  The node an agent runs in (\<open>pipeline/graph/agents/factory.py\<close>, with the tools of
  \<open>pipeline/graph/tools.py\<close>): its tools, the slice of the state it is shown, and the stream of its answer
  with the events it publishes, the fallback when the stream fails, and the structuring pass of a
  conversational phase. What the language model and its framework deliver is an argument: the items of the
  stream, the exception it ends with, and the answers of the other calls.
\<close>

section \<open>Tools\<close>

definition phase_tool_names :: "string list dict" where
  "phase_tool_names =
     [(''intake'', [''parse_document'']), (''synthesis'', [''search_precedents'', ''generate_questions'']), (''audit'', [])]"

definition research_tool_names :: "string list dict" where
  "research_tool_names =
     [(''evidence'', [''parse_document'']), (''facts'', [''parse_document'']), (''witnesses'', [''parse_document'']),
      (''law'', [''search_legal_rules'', ''search_precedents''])]"

definition tool_aliases :: "string dict" where
  "tool_aliases = [(''search_legal_rules'', ''search_domain_guidance'')]"

definition legacy_agent_tools :: "string list dict" where
  "legacy_agent_tools =
     [(''case-processing'', [''parse_document'']), (''complexity-routing'', []),
      (''evidence-analysis'', [''parse_document'', ''cross_reference'']), (''fact-reconstruction'', [''timeline_construct'']),
      (''witness-analysis'', [''generate_questions'']),
      (''legal-knowledge'', [''search_precedents'', ''search_domain_guidance'']),
      (''argument-construction'', [''confidence_calc'']), (''hearing-analysis'', []), (''hearing-governance'', [])]"

text \<open>The tools, in the order they are registered, for a legacy agent or for all.\<close>

definition registered_tools :: "string list" where
  "registered_tools = [''parse_document'', ''cross_reference'', ''timeline_construct'', ''generate_questions'',
     ''confidence_calc'', ''search_precedents'', ''search_domain_guidance'']"

definition make_tools :: "string option \<Rightarrow> string list" where
  "make_tools agent = (case agent of
     None \<Rightarrow> registered_tools
   | Some a \<Rightarrow> filter (\<lambda>n. n \<in> set (case map_of legacy_agent_tools a of None \<Rightarrow> [] | Some ns \<Rightarrow> ns)) registered_tools)"

definition filter_tools :: "string list \<Rightarrow> string list" where
  "filter_tools allowed =
     (if allowed = [] then []
      else filter (\<lambda>n. n \<in> set (make_tools None))
             (map (\<lambda>n. case map_of tool_aliases n of None \<Rightarrow> n | Some t \<Rightarrow> t) allowed))"

text \<open>The two search tools: the store of the case is theirs, never the model's to name.\<close>

definition dict_items :: "pyval \<Rightarrow> exn + pydict list" where
  "dict_items v = (case v of
     PList vs \<Rightarrow> if list_all (\<lambda>x. case x of PDict _ \<Rightarrow> True | _ \<Rightarrow> False) vs
                 then Inr (map (\<lambda>x. case x of PDict d \<Rightarrow> d | _ \<Rightarrow> []) vs) else Inl attribute_error
   | _ \<Rightarrow> Inl type_error)"

definition search_precedents_tool ::
  "(pyval \<Rightarrow> string) \<Rightarrow> (string \<Rightarrow> string) \<Rightarrow> (pyval \<Rightarrow> string)
   \<Rightarrow> (string \<Rightarrow> string \<Rightarrow> nat \<Rightarrow> string option \<Rightarrow> exn + search_result) \<Rightarrow> string option
   \<Rightarrow> string \<Rightarrow> string \<Rightarrow> nat \<Rightarrow> pydict option \<Rightarrow> (exn + string \<times> citation_doc list) \<times> pydict option" where
  "search_precedents_tool dumps sha rep find_precedents store query domain max_results meta =
     (case find_precedents query domain max_results store of
        Inl e \<Rightarrow> (Inl e, meta)
      | Inr r \<Rightarrow>
          (case sr_metadata r of
             PDict md \<Rightarrow>
               let meta' = record_calls meta [md]
               in (case dict_items (sr_precedents r) of
                     Inl e \<Rightarrow> (Inl e, meta')
                   | Inr ps \<Rightarrow> (Inr (dumps (sr_precedents r), map (precedent_to_document sha rep) ps), meta'))
           | _ \<Rightarrow> (Inl attribute_error, meta)))"

definition search_domain_guidance_tool ::
  "(pyval \<Rightarrow> string) \<Rightarrow> (string \<Rightarrow> string) \<Rightarrow> (pyval \<Rightarrow> string) \<Rightarrow> (string \<Rightarrow> int \<Rightarrow> exn + output_item list)
   \<Rightarrow> string option \<Rightarrow> int \<Rightarrow> exn + string \<times> citation_doc list" where
  "search_domain_guidance_tool dumps sha rep reply store max_results =
     (if \<not> non_empty store then Inl guidance_unavailable
      else case search_domain_guidance reply (the store) max_results of
             Inl e \<Rightarrow> Inl e
           | Inr gs \<Rightarrow> Inr (dumps (PList (map PDict gs)), map (guidance_to_document sha rep) gs))"

section \<open>What an agent is shown\<close>

definition resolve_model :: "string \<Rightarrow> string" where
  "resolve_model phase_or_scope = (if phase_or_scope = ''intake'' then ''gpt-5-mini'' else ''gpt-5'')"

text \<open>How the case and the outputs of earlier phases are dumped.\<close>

record dumpers =
  du_case :: "case_state \<Rightarrow> pydict"
  du_intake :: "intake_output \<Rightarrow> pyval"
  du_research :: "research_output \<Rightarrow> pyval"
  du_synthesis :: "synthesis_output \<Rightarrow> pyval"

definition build_phase_input_payload :: "dumpers \<Rightarrow> string \<Rightarrow> graph_state \<Rightarrow> pydict" where
  "build_phase_input_payload du phase s =
     (let c = du_case du (gs_case s)
      in [(''case_id'', pget c ''case_id''), (''domain'', pget c ''domain''),
          (''parties'', py_or (pget c ''parties'') (PList []))]
         @ (if phase \<noteq> ''intake'' then [(''case_metadata'', py_or (pget c ''case_metadata'') (PDict []))] else [])
         @ (if phase \<noteq> ''audit''
            then [(''raw_documents'', py_or (pget c ''raw_documents'') (PList [])),
                  (''intake_extraction'', pget c ''intake_extraction'')] else [])
         @ (if starts_with ''research-'' phase \<or> phase \<in> {''synthesis'', ''audit''}
            then [(''intake_output'', dump_opt (du_intake du) (gs_intake_output s))] else [])
         @ (if phase \<in> {''synthesis'', ''audit''}
            then [(''research_output'', dump_opt (du_research du) (gs_research_output s))] else [])
         @ (if phase = ''audit''
            then [(''synthesis_output'', dump_opt (du_synthesis du) (gs_synthesis_output s))] else []))"

text \<open>\<open>raw\<close> is the environment variable, \<open>intake\<close> when it is not set.\<close>

definition split_commas :: "string \<Rightarrow> string list" where
  "split_commas s = foldr (\<lambda>c acc. if c = CHR '','' then [] # acc else (c # hd acc) # tl acc) s [[]]"

definition conversational_phases :: "string option \<Rightarrow> string list" where
  "conversational_phases raw =
     filter (\<lambda>p. p \<noteq> []) (map py_strip (split_commas (case raw of None \<Rightarrow> ''intake'' | Some s \<Rightarrow> s)))"

definition is_phase_conversational :: "string option \<Rightarrow> string \<Rightarrow> bool" where
  "is_phase_conversational raw phase \<longleftrightarrow> phase \<noteq> ''audit'' \<and> phase \<in> set (conversational_phases raw)"

record node_spec =
  sp_name :: string
  sp_tools :: "string list"
  sp_strict :: bool
  sp_conversational :: bool

definition make_phase_node :: "string option \<Rightarrow> string \<Rightarrow> node_spec result" where
  "make_phase_node raw phase = (case map_of phase_tool_names phase of
     None \<Rightarrow> Inl ValueError
   | Some ts \<Rightarrow> Inr \<lparr>sp_name = phase, sp_tools = ts, sp_strict = (phase = ''audit''),
                    sp_conversational = is_phase_conversational raw phase\<rparr>)"

definition make_research_subagent :: "string \<Rightarrow> node_spec result" where
  "make_research_subagent scope = (case map_of research_tool_names scope of
     None \<Rightarrow> Inl ValueError
   | Some ts \<Rightarrow> Inr \<lparr>sp_name = ''research-'' @ scope, sp_tools = ts, sp_strict = False, sp_conversational = False\<rparr>)"

section \<open>The stream of an answer\<close>

text \<open>
  Messages: a chunk with its content and its pieces of tool calls, a whole message of the model, the result
  of a tool, or another; a values item is the state of the agent so far.
\<close>

datatype stream_message = Chunk pyval "pydict list" | Ai_message | Tool_result | Other_message

record agent_result =
  an_structured :: structured
  an_messages :: "tool_message list"

datatype stream_item = Message stream_message | Values agent_result

definition no_result :: agent_result where
  "no_result = \<lparr>an_structured = St_none, an_messages = []\<rparr>"

text \<open>The texts of the parts of a message are strings, as the client of the model makes them.\<close>

definition text_of_value :: "pyval \<Rightarrow> string" where
  "text_of_value v = (case v of PStr s \<Rightarrow> s | _ \<Rightarrow> [])"

definition part_text :: "pyval \<Rightarrow> string" where
  "part_text p = (case p of
     PDict d \<Rightarrow> if pget d ''type'' = PStr ''text'' then text_of_value (pget d ''text'') else []
   | PStr s \<Rightarrow> s | _ \<Rightarrow> [])"

definition chunk_text :: "pyval \<Rightarrow> pydict list \<Rightarrow> string" where
  "chunk_text content tool_chunks =
     (let s = (case content of PStr s \<Rightarrow> s | PList ps \<Rightarrow> concat (map part_text ps) | _ \<Rightarrow> [])
      in if s \<noteq> [] then s else concat (map (\<lambda>tc. text_of_value (pget tc ''args'')) tool_chunks))"

text \<open>The prose a conversational node hands to the coalescer; text parts that are bare strings are not.\<close>

definition prose_pieces :: "pyval \<Rightarrow> string list" where
  "prose_pieces content = (case content of
     PStr s \<Rightarrow> [s]
   | PList ps \<Rightarrow> concat (map (\<lambda>p. case p of
       PDict d \<Rightarrow> if pget d ''type'' = PStr ''text'' then [text_of_value (pget d ''text'')] else [] | _ \<Rightarrow> []) ps)
   | _ \<Rightarrow> [])"

record node_env =
  ne_new_id :: "nat \<Rightarrow> string"
  ne_clock :: "nat \<Rightarrow> rat"
  ne_stamp :: "nat \<Rightarrow> string"

record stream_run =
  sn_result :: agent_result
  sn_ids :: nat
  sn_coalescer :: coalescer
  sn_events :: "pydict list"

definition emit_event :: "node_env \<Rightarrow> string \<Rightarrow> string \<Rightarrow> pydict \<Rightarrow> stream_run \<Rightarrow> stream_run" where
  "emit_event env cid agent body st =
     st\<lparr>sn_events := sn_events st @ [[(''case_id'', PStr cid), (''agent'', PStr agent)] @ body
           @ [(''ts'', PStr (ne_stamp env (length (sn_events st))))]]\<rparr>"

definition token_fields :: "string \<Rightarrow> string \<Rightarrow> string \<Rightarrow> pydict" where
  "token_fields phase message_id text =
     [(''phase'', PStr phase), (''event'', PStr ''llm_token''), (''message_id'', PStr message_id), (''delta'', PStr text)]"

definition emit_tokens :: "node_env \<Rightarrow> string \<Rightarrow> string \<Rightarrow> string list \<Rightarrow> stream_run \<Rightarrow> stream_run" where
  "emit_tokens env cid phase texts st =
     fold (\<lambda>t st. emit_event env cid phase (token_fields phase (ne_new_id env (sn_ids st)) t) st) texts st"

definition feed_piece :: "node_env \<Rightarrow> string \<Rightarrow> string \<Rightarrow> string \<Rightarrow> stream_run \<Rightarrow> stream_run" where
  "feed_piece env cid phase text st =
     (let (c, es) = co_feed default_coalescing (ne_clock env) text (sn_coalescer st)
      in emit_tokens env cid phase es (st\<lparr>sn_coalescer := c\<rparr>))"

definition flush_tokens :: "node_env \<Rightarrow> string \<Rightarrow> string \<Rightarrow> stream_run \<Rightarrow> stream_run" where
  "flush_tokens env cid phase st =
     (let (c, es) = co_flush (sn_coalescer st) in emit_tokens env cid phase es (st\<lparr>sn_coalescer := c\<rparr>))"

definition tool_delta :: "node_env \<Rightarrow> string \<Rightarrow> string \<Rightarrow> pydict \<Rightarrow> stream_run \<Rightarrow> stream_run" where
  "tool_delta env cid phase tc st =
     (let args_delta = py_or (pget tc ''args'') (PStr [])
      in if truthy args_delta \<or> truthy (pget tc ''name'')
         then emit_event env cid phase
                [(''phase'', PStr phase), (''event'', PStr ''tool_call_delta''),
                 (''tool_call_id'', py_or (pget tc ''id'') (PStr [])), (''name'', py_or (pget tc ''name'') (PStr [])),
                 (''args_delta'', args_delta)] st
         else st)"

text \<open>A chunk is a message of the model too, so every message but the others flushes first.\<close>

definition conversational_message :: "node_env \<Rightarrow> string \<Rightarrow> string \<Rightarrow> stream_message \<Rightarrow> stream_run \<Rightarrow> stream_run" where
  "conversational_message env cid phase msg st =
     (case msg of
        Chunk content tcs \<Rightarrow>
          fold (feed_piece env cid phase) (prose_pieces content)
            (fold (tool_delta env cid phase) tcs (flush_tokens env cid phase st))
      | Ai_message \<Rightarrow> flush_tokens env cid phase st
      | Tool_result \<Rightarrow> (let st1 = flush_tokens env cid phase st in st1\<lparr>sn_ids := sn_ids st1 + 1\<rparr>)
      | Other_message \<Rightarrow> st)"

definition plain_message :: "node_env \<Rightarrow> string \<Rightarrow> string \<Rightarrow> stream_message \<Rightarrow> stream_run \<Rightarrow> stream_run" where
  "plain_message env cid phase msg st =
     (case msg of
        Chunk content tcs \<Rightarrow>
          if chunk_text content tcs = [] then st
          else emit_event env cid phase [(''event'', PStr ''llm_chunk''), (''delta'', PStr (chunk_text content tcs))] st
      | _ \<Rightarrow> st)"

definition stream_item_step :: "node_env \<Rightarrow> string \<Rightarrow> node_spec \<Rightarrow> stream_item \<Rightarrow> stream_run \<Rightarrow> stream_run" where
  "stream_item_step env cid sp item st =
     (case item of
        Values r \<Rightarrow> st\<lparr>sn_result := r\<rparr>
      | Message msg \<Rightarrow> if sp_conversational sp then conversational_message env cid (sp_name sp) msg st
                      else plain_message env cid (sp_name sp) msg st)"

definition start_run :: stream_run where
  "start_run = \<lparr>sn_result = no_result, sn_ids = 0, sn_coalescer = new_coalescer, sn_events = []\<rparr>"

section \<open>A run of the node\<close>

text \<open>
  The calls of the model: the stream, the call without a stream, and the structuring pass.
\<close>

datatype agent_call = Streamed | Invoked | Structured_pass

record model_answers =
  ma_items :: "stream_item list"
  ma_failure :: "exn option"
  ma_invoke :: "exn + agent_result"
  ma_structure :: "tool_message list \<Rightarrow> exn + structured"
  ma_dump :: "structured \<Rightarrow> pydict"

fun class_name :: "exn \<Rightarrow> string" where
  "class_name (Exn cs) = (case cs of [] \<Rightarrow> [] | c # _ \<Rightarrow> c)"

definition agent_failed_fields :: "exn \<Rightarrow> pydict" where
  "agent_failed_fields e = [(''event'', PStr ''agent_failed''), (''error_class'', PStr (class_name e))]"

definition stream_answer ::
  "node_env \<Rightarrow> string \<Rightarrow> node_spec \<Rightarrow> model_answers \<Rightarrow> (exn + stream_run) \<times> pydict list \<times> agent_call list" where
  "stream_answer env cid sp ma =
     (let st = fold (stream_item_step env cid sp) (ma_items ma) start_run
      in case ma_failure ma of
           None \<Rightarrow> (let st' = (if sp_conversational sp then flush_tokens env cid (sp_name sp) st else st)
                    in (Inr st', sn_events st', [Streamed]))
         | Some e \<Rightarrow>
             if ma_items ma = []
             then (case ma_invoke ma of
                     Inl e' \<Rightarrow> (Inl e', sn_events st, [Streamed, Invoked])
                   | Inr r \<Rightarrow> (Inr (st\<lparr>sn_result := r\<rparr>), sn_events st, [Streamed, Invoked]))
             else (Inl e, sn_events (emit_event env cid (sp_name sp) (agent_failed_fields e) st), [Streamed]))"

definition structure_answer ::
  "node_env \<Rightarrow> string \<Rightarrow> node_spec \<Rightarrow> model_answers \<Rightarrow> stream_run \<Rightarrow> (exn + stream_run) \<times> pydict list \<times> agent_call list" where
  "structure_answer env cid sp ma st =
     (if \<not> sp_conversational sp then (Inr st, sn_events st, [])
      else case ma_structure ma (an_messages (sn_result st)) of
             Inl e \<Rightarrow> (Inl e, sn_events st, [Structured_pass])
           | Inr a \<Rightarrow>
               (let st1 = st\<lparr>sn_result := (sn_result st)\<lparr>an_structured := a\<rparr>\<rparr>;
                    st2 = (if a = St_none then st1
                           else emit_event env cid (sp_name sp)
                             [(''phase'', PStr (sp_name sp)), (''event'', PStr ''structured_artifact''),
                              (''artifact'', PDict (ma_dump ma a))] st1)
                in (Inr st2, sn_events st2, [Structured_pass])))"

definition run_node ::
  "(pyval \<Rightarrow> string) \<Rightarrow> node_env \<Rightarrow> node_spec \<Rightarrow> model_answers \<Rightarrow> graph_state
   \<Rightarrow> (exn + node_result) \<times> pydict list \<times> agent_call list" where
  "run_node rep env sp ma s =
     (let cid = cs_case_id (gs_case s)
      in case stream_answer env cid sp ma of
           (Inl e, evs, calls) \<Rightarrow> (Inl e, evs, calls)
         | (Inr st, evs, calls) \<Rightarrow>
             (case structure_answer env cid sp ma st of
                (Inl e, evs', calls') \<Rightarrow> (Inl e, evs', calls @ calls')
              | (Inr st', evs', calls') \<Rightarrow>
                  (Inr (node_update rep (sp_name sp) (an_structured (sn_result st')) (an_messages (sn_result st')) s),
                   evs', calls @ calls')))"

section \<open>Safety of the run\<close>

definition is_token :: "pydict \<Rightarrow> bool" where
  "is_token ev \<longleftrightarrow> pget ev ''event'' = PStr ''llm_token''"

definition tokens_of :: "pydict list \<Rightarrow> string list" where
  "tokens_of evs = map (\<lambda>ev. text_of_value (pget ev ''delta'')) (filter is_token evs)"


definition steady_env :: node_env where
  "steady_env = \<lparr>ne_new_id = digits_of, ne_clock = (\<lambda>n. of_nat n / 1000), ne_stamp = (\<lambda>_. ''t'')\<rparr>"

definition talking_intake :: node_spec where
  "talking_intake = \<lparr>sp_name = ''intake'', sp_tools = [''parse_document''], sp_strict = False, sp_conversational = True\<rparr>"

definition broken_stream :: model_answers where
  "broken_stream = \<lparr>ma_items = [Message (Chunk (PStr ''The '') []), Message (Chunk (PStr ''case'') [])],
     ma_failure = Some (Exn [''APIConnectionError'', ''Exception'']), ma_invoke = Inl type_error,
     ma_structure = (\<lambda>_. Inl type_error), ma_dump = (\<lambda>_. [])\<rparr>"


section \<open>The prose of a conversational phase\<close>

lemma emit_event_simps [simp]:
  "sn_events (emit_event env cid a body st) = sn_events st @ [[(''case_id'', PStr cid), (''agent'', PStr a)] @ body
     @ [(''ts'', PStr (ne_stamp env (length (sn_events st))))]]"
  "sn_coalescer (emit_event env cid a body st) = sn_coalescer st"
  "sn_result (emit_event env cid a body st) = sn_result st" "sn_ids (emit_event env cid a body st) = sn_ids st"
  by (simp_all add: emit_event_def)

lemma tokens_of_append [simp]: "tokens_of (a @ b) = tokens_of a @ tokens_of b"
  by (simp add: tokens_of_def)

lemma emit_tokens_simps [simp]:
  "tokens_of (sn_events (emit_tokens env cid ph ts st)) = tokens_of (sn_events st) @ ts"
  "sn_coalescer (emit_tokens env cid ph ts st) = sn_coalescer st"
  by (induction ts arbitrary: st)
    (simp_all add: emit_tokens_def tokens_of_def is_token_def token_fields_def pget_def text_of_value_def)

definition shown_text :: "stream_run \<Rightarrow> string" where
  "shown_text st = concat (tokens_of (sn_events st)) @ concat (co_buf (sn_coalescer st))"

definition stream_ok :: "stream_run \<Rightarrow> bool" where
  "stream_ok st \<longleftrightarrow> co_ok default_coalescing (sn_coalescer st)"

lemma cap_positive [simp]: "0 < cc_max_chars default_coalescing"
  by (simp add: default_coalescing_def)

lemma feed_piece_shown:
  assumes "stream_ok st"
  shows "stream_ok (feed_piece env cid ph t st) \<and> shown_text (feed_piece env cid ph t st) = shown_text st @ t"
proof -
  obtain c es where c: "co_feed default_coalescing (ne_clock env) t (sn_coalescer st) = (c, es)" by fastforce
  then show ?thesis using coalescing.put_keeps [OF _ c] assms
    by (simp add: stream_ok_def shown_text_def feed_piece_def)
qed

lemma flush_tokens_shown:
  assumes "stream_ok st"
  shows "stream_ok (flush_tokens env cid ph st) \<and> shown_text (flush_tokens env cid ph st) = shown_text st
     \<and> co_buf (sn_coalescer (flush_tokens env cid ph st)) = []"
proof -
  obtain c es where c: "co_flush (sn_coalescer st) = (c, es)" by fastforce
  then show ?thesis using coalescing.drain_gives [OF _ c, of default_coalescing] co_flush_ok [OF cap_positive c] assms
    by (simp add: stream_ok_def shown_text_def flush_tokens_def)
qed

lemma tool_delta_shown:
  "stream_ok (tool_delta env cid ph tc st) = stream_ok st" "shown_text (tool_delta env cid ph tc st) = shown_text st"
  by (simp_all add: tool_delta_def stream_ok_def shown_text_def Let_def tokens_of_def is_token_def pget_def)

lemma fold_tool_delta_shown:
  "stream_ok (fold (tool_delta env cid ph) tcs st) = stream_ok st"
  "shown_text (fold (tool_delta env cid ph) tcs st) = shown_text st"
  by (induction tcs arbitrary: st) (simp_all add: tool_delta_shown)

lemma fold_feed_shown:
  "stream_ok st \<Longrightarrow> stream_ok (fold (feed_piece env cid ph) ts st)
     \<and> shown_text (fold (feed_piece env cid ph) ts st) = shown_text st @ concat ts"
  by (induction ts arbitrary: st) (simp_all add: feed_piece_shown)

fun prose_of :: "stream_item list \<Rightarrow> string" where
  "prose_of [] = []"
| "prose_of (Message (Chunk content tcs) # is) = concat (prose_pieces content) @ prose_of is"
| "prose_of (_ # is) = prose_of is"

lemma item_step_shown:
  assumes "stream_ok st" "sp_conversational sp"
  shows "stream_ok (stream_item_step env cid sp item st)
     \<and> shown_text (stream_item_step env cid sp item st) = shown_text st @ prose_of [item]"
proof (cases item)
  case (Values r)
  then show ?thesis using assms by (simp add: stream_item_step_def stream_ok_def shown_text_def)
next
  case (Message msg)
  note f = flush_tokens_shown [OF assms(1), of env cid "sp_name sp"]
  show ?thesis
  proof (cases msg)
    case (Chunk content tcs)
    then show ?thesis using f assms(2) Message
      by (simp add: stream_item_step_def conversational_message_def fold_feed_shown fold_tool_delta_shown)
  next
    case Tool_result
    then show ?thesis using f assms(2) Message
      by (auto simp: stream_item_step_def conversational_message_def Let_def stream_ok_def shown_text_def)
  qed (use f assms Message in \<open>simp_all add: stream_item_step_def conversational_message_def\<close>)
qed

lemma items_shown:
  "stream_ok st \<Longrightarrow> sp_conversational sp \<Longrightarrow> stream_ok (fold (stream_item_step env cid sp) is st)
     \<and> shown_text (fold (stream_item_step env cid sp) is st) = shown_text st @ prose_of is"
proof (induction "is" arbitrary: st)
  case (Cons i "is")
  have "prose_of (i # is) = prose_of [i] @ prose_of is" by (cases "[i]" rule: prose_of.cases) simp_all
  then show ?case using item_step_shown [OF Cons.prems, of env cid i] Cons.IH Cons.prems(2) by simp
qed simp

lemma start_run_shown: "stream_ok start_run" "shown_text start_run = []"
  by (simp_all add: start_run_def stream_ok_def shown_text_def co_ok_def new_coalescer_def default_coalescing_def tokens_of_def)

lemma stream_answer_tokens:
  assumes "sp_conversational sp" "ma_failure ma = None"
  shows "\<exists>st. stream_answer env cid sp ma = (Inr st, sn_events st, [Streamed])
     \<and> concat (tokens_of (sn_events st)) = prose_of (ma_items ma)"
  using items_shown [OF start_run_shown(1) assms(1), of env cid "ma_items ma"] start_run_shown(2) assms
    flush_tokens_shown [of "fold (stream_item_step env cid sp) (ma_items ma) start_run" env cid "sp_name sp"]
  by (auto simp: stream_answer_def shown_text_def Let_def)

lemma structure_answer_tokens:
  "structure_answer env cid sp ma st = (r, evs, calls) \<Longrightarrow> tokens_of evs = tokens_of (sn_events st)"
  by (auto simp: structure_answer_def Let_def tokens_of_def is_token_def pget_def split: if_splits sum.splits)

lemma run_node_tokens:
  assumes "run_node rep env sp ma s = (r, evs, calls)"
    and "stream_answer env (cs_case_id (gs_case s)) sp ma = (Inr st, sn_events st, [Streamed])"
  shows "tokens_of evs = tokens_of (sn_events st)"
  using assms structure_answer_tokens [of env "cs_case_id (gs_case s)" sp ma st]
  by (auto simp: run_node_def split: sum.splits prod.splits)


definition whole_stream :: model_answers where
  "whole_stream = broken_stream\<lparr>ma_items := ma_items broken_stream
     @ [Message Tool_result, Message (Chunk (PList [PDict [(''type'', PStr ''text''), (''text'', PStr '' closes'')]]) [])],
     ma_failure := None\<rparr>"


text \<open>
  Every chunk is a message of the model and so flushes what was held back: tokens are never batched, and as
  many events are published and logged as chunks arrive.
\<close>

lemma feed_unbatched:
  assumes "co_buf (sn_coalescer st) = []" "stream_ok st" "t \<noteq> []"
  shows "tokens_of (sn_events (feed_piece env cid ph t st)) @ co_buf (sn_coalescer (feed_piece env cid ph t st))
           = tokens_of (sn_events st) @ [t]
         \<and> length (co_buf (sn_coalescer (feed_piece env cid ph t st))) \<le> 1"
  using assms
  by (auto simp: feed_piece_def co_feed_def co_flush_def Let_def stream_ok_def co_ok_def split: option.splits prod.splits)

lemma flush_unbatched:
  assumes "length (co_buf (sn_coalescer st)) \<le> 1"
  shows "tokens_of (sn_events (flush_tokens env cid ph st)) = tokens_of (sn_events st) @ co_buf (sn_coalescer st)"
proof (cases "co_buf (sn_coalescer st)")
  case (Cons b bs)
  then show ?thesis using assms by (simp add: flush_tokens_def co_flush_def)
qed (simp add: flush_tokens_def co_flush_def)

lemma tokens_are_never_batched:
  assumes "run_node rep env sp ma s = (r, evs, calls)" "sp_conversational sp" "ma_failure ma = None"
    and "ma_items ma = map (\<lambda>t. Message (Chunk (PStr t) [])) ts" "[] \<notin> set ts"
  shows "tokens_of evs = ts"
proof -
  let ?cid = "cs_case_id (gs_case s)"
  let ?ok = "\<lambda>st. stream_ok st \<and> length (co_buf (sn_coalescer st)) \<le> 1"
  let ?run = "\<lambda>ts st. fold (stream_item_step env ?cid sp) (map (\<lambda>t. Message (Chunk (PStr t) [])) ts) st"
  have step: "?ok st \<Longrightarrow> t \<noteq> [] \<Longrightarrow> ?ok (?run [t] st)
      \<and> tokens_of (sn_events (?run [t] st)) @ co_buf (sn_coalescer (?run [t] st))
        = tokens_of (sn_events st) @ co_buf (sn_coalescer st) @ [t]" for st t
    using flush_tokens_shown [of st env ?cid "sp_name sp"] flush_unbatched [of st env ?cid "sp_name sp"] assms(2)
      feed_unbatched [of "flush_tokens env ?cid (sp_name sp) st" t env ?cid "sp_name sp"]
      feed_piece_shown [of "flush_tokens env ?cid (sp_name sp) st" env ?cid "sp_name sp" t]
    by (simp add: stream_item_step_def conversational_message_def prose_pieces_def)
  have all: "?ok st \<Longrightarrow> [] \<notin> set ts \<Longrightarrow> ?ok (?run ts st)
      \<and> tokens_of (sn_events (?run ts st)) @ co_buf (sn_coalescer (?run ts st))
        = tokens_of (sn_events st) @ co_buf (sn_coalescer st) @ ts" for st
  proof (induction ts arbitrary: st)
    case (Cons t ts)
    have "?ok (?run [t] st)" and e: "tokens_of (sn_events (?run [t] st)) @ co_buf (sn_coalescer (?run [t] st))
        = tokens_of (sn_events st) @ co_buf (sn_coalescer st) @ [t]"
      using step [OF Cons.prems(1), of t] Cons.prems(2) by auto
    from Cons.IH [OF this(1)] Cons.prems(2) e show ?case by simp
  qed simp
  let ?fin = "?run ts start_run"
  have e: "?ok ?fin" "tokens_of (sn_events ?fin) @ co_buf (sn_coalescer ?fin) = ts"
    using all [of start_run] assms(5) start_run_shown
    by (auto simp: start_run_def new_coalescer_def tokens_of_def)
  let ?st = "flush_tokens env ?cid (sp_name sp) ?fin"
  have "stream_answer env ?cid sp ma = (Inr ?st, sn_events ?st, [Streamed])"
    using assms(2-4) by (simp add: stream_answer_def Let_def)
  from run_node_tokens [OF assms(1) this] show ?thesis using e flush_unbatched [of ?fin env ?cid "sp_name sp"] by simp
qed

section \<open>Scopes\<close>

text \<open>The tools of every phase and scope are registered, and the audit has none.\<close>

lemma phase_tools_exist:
  "list_all (\<lambda>(p, ts). length (filter_tools ts) = length ts) (phase_tool_names @ research_tool_names)"
  "filter_tools [] = []"
  by code_simp (simp add: filter_tools_def)

text \<open>The audit is never conversational, whatever the environment says.\<close>

lemma audit_is_never_conversational: "\<not> is_phase_conversational raw ''audit''"
  by (simp add: is_phase_conversational_def)

text \<open>The intake sees no case metadata, the audit no documents, and only the audit sees the synthesis.\<close>

lemma payload_scopes:
  "map_of (build_phase_input_payload du ''intake'' s) ''case_metadata'' = None"
  "map_of (build_phase_input_payload du ''audit'' s) ''raw_documents'' = None"
  "p \<noteq> ''audit'' \<Longrightarrow> map_of (build_phase_input_payload du p s) ''synthesis_output'' = None"
  by (simp_all add: build_phase_input_payload_def Let_def starts_with_def map_add_def)

end
