(* ===== verification/Prompt_Registry.thy ===== *)
theory Prompt_Registry
  imports Agent_Node
begin

text \<open>
  Where an agent's system prompt comes from (\<open>pipeline/graph/prompt_registry.py\<close>): the latest commit at the
  prompt service, remembered per process, or a local file; and what a correction of the judge does to it. The
  service is an argument with its own state.
\<close>

section \<open>The prompt service\<close>

record 'h hub_ops =
  ho_pull :: "'h \<Rightarrow> string \<Rightarrow> string option"
  ho_push :: "'h \<Rightarrow> string \<Rightarrow> string \<Rightarrow> 'h"

text \<open>The latest commit of a prompt is what is pulled; a commit concerns one prompt.\<close>

locale prompt_hub =
  fixes pull :: "'h \<Rightarrow> string \<Rightarrow> string option" and push :: "'h \<Rightarrow> string \<Rightarrow> string \<Rightarrow> 'h"
  assumes pull_pushed: "pull (push h i t) i = Some t"
    and pull_other: "i \<noteq> j \<Longrightarrow> pull (push h i t) j = pull h j"

text \<open>
  What a look-up finds: whether there is a key for the service, whether a pull and a push come through, and
  the local files. A text the template syntax refuses (an unbalanced brace) is a push that does not come through.
\<close>

record prompt_env =
  pn_key :: bool
  pn_pull_up :: bool
  pn_push_up :: bool
  pn_files :: "string \<Rightarrow> string option"

record 'h prompt_state =
  pr_hub :: 'h
  pr_cache :: "string \<Rightarrow> string option option"

definition phase_to_prompt_id :: "string dict" where
  "phase_to_prompt_id =
     [(''intake'', ''vc-intake''), (''research-evidence'', ''vc-research-evidence''),
      (''research-facts'', ''vc-research-facts''), (''research-witnesses'', ''vc-research-witnesses''),
      (''research-law'', ''vc-research-law''), (''synthesis'', ''vc-synthesis''), (''audit'', ''vc-audit'')]"

definition phase_to_file :: "string dict" where
  "phase_to_file =
     [(''intake'', ''intake.md''), (''research-evidence'', ''research-evidence.md''),
      (''research-facts'', ''research-facts.md''), (''research-witnesses'', ''research-witnesses.md''),
      (''research-law'', ''research-law.md''), (''synthesis'', ''synthesis.md''), (''audit'', ''audit.md'')]"

text \<open>
  The cache holds the answer of the first look-up, also when that is nothing; with seven prompts and room for
  64 it never forgets.
\<close>

definition resolve_from_langsmith ::
  "'h hub_ops \<Rightarrow> prompt_env \<Rightarrow> string \<Rightarrow> 'h prompt_state \<Rightarrow> string option \<times> 'h prompt_state" where
  "resolve_from_langsmith ops env i st =
     (case pr_cache st i of
        Some r \<Rightarrow> (r, st)
      | None \<Rightarrow>
          let r = (if pn_key env \<and> pn_pull_up env then ho_pull ops (pr_hub st) i else None)
          in (r, st\<lparr>pr_cache := (pr_cache st)(i \<mapsto> r)\<rparr>))"

definition resolve_from_local :: "prompt_env \<Rightarrow> string \<Rightarrow> string result" where
  "resolve_from_local env filename =
     (case pn_files env filename of None \<Rightarrow> Inl (OtherError ''FileNotFoundError'') | Some t \<Rightarrow> Inr t)"

definition push_correction ::
  "'h hub_ops \<Rightarrow> prompt_env \<Rightarrow> string \<Rightarrow> string \<Rightarrow> 'h prompt_state \<Rightarrow> 'h prompt_state result" where
  "push_correction ops env i t st =
     (if pn_push_up env then Inr (st\<lparr>pr_hub := ho_push ops (pr_hub st) i t\<rparr>)
      else Inl (OtherError ''LangSmithError''))"

definition corrected_prompt :: "string \<Rightarrow> string \<Rightarrow> string" where
  "corrected_prompt base c =
     base @ newline @ newline @ ''Additional instructions from judge:'' @ newline @ c"

definition get_prompt ::
  "'h hub_ops \<Rightarrow> prompt_env \<Rightarrow> string \<Rightarrow> string option \<Rightarrow> 'h prompt_state \<Rightarrow> string result \<times> 'h prompt_state" where
  "get_prompt ops env phase corrections st =
     (case (map_of phase_to_prompt_id phase, map_of phase_to_file phase) of
        (Some i, Some f) \<Rightarrow>
          (let (found, st1) = resolve_from_langsmith ops env i st
           in case (case found of Some t \<Rightarrow> Inr t | None \<Rightarrow> resolve_from_local env f) of
                Inl e \<Rightarrow> (Inl e, st1)
              | Inr base \<Rightarrow>
                  if \<not> non_empty corrections then (Inr base, st1)
                  else let t = corrected_prompt base (the corrections)
                       in (case push_correction ops env i t st1 of
                             Inl e \<Rightarrow> (Inl e, st1)
                           | Inr st2 \<Rightarrow> (Inr t, st2\<lparr>pr_cache := (\<lambda>_. None)\<rparr>)))
      | _ \<Rightarrow> (Inl (KeyErr phase), st))"

text \<open>The prompt of a node: the corrections are those the state of the case has for the phase.\<close>

definition node_prompt ::
  "(pyval \<Rightarrow> string) \<Rightarrow> 'h hub_ops \<Rightarrow> prompt_env \<Rightarrow> string \<Rightarrow> graph_state \<Rightarrow> 'h prompt_state
   \<Rightarrow> string result \<times> 'h prompt_state" where
  "node_prompt rep ops env phase s st =
     (let v = node_corrections phase s
      in get_prompt ops env phase (if truthy v then Some (py_str rep v) else None) st)"

section \<open>A service in memory\<close>

definition map_hub :: "(string \<Rightarrow> string option) hub_ops" where
  "map_hub = \<lparr>ho_pull = (\<lambda>h i. h i), ho_push = (\<lambda>h i t. h(i \<mapsto> t))\<rparr>"

interpretation memory_hub: prompt_hub "ho_pull map_hub" "ho_push map_hub"
  by unfold_locales (simp_all add: map_hub_def)

section \<open>Corrections\<close>

text \<open>Every phase has its own prompt and file.\<close>

lemma prompt_tables:
  "map fst phase_to_prompt_id = map fst phase_to_file" "distinct (map snd phase_to_prompt_id)"
  "distinct (map fst phase_to_prompt_id)"
  by code_simp+

lemma phase_cases:
  assumes "map_of phase_to_prompt_id p = Some i"
  shows "\<exists>f. map_of phase_to_file p = Some f"
  using assms prompt_tables(1) by (metis map_of_eq_None_iff not_None_eq set_map)

text \<open>A look-up without a correction, by any case, with the service up.\<close>

definition service_up :: "prompt_env \<Rightarrow> bool" where
  "service_up env \<longleftrightarrow> pn_key env \<and> pn_pull_up env"

fun look_ups :: "'h hub_ops \<Rightarrow> (prompt_env \<times> string) list \<Rightarrow> 'h prompt_state \<Rightarrow> 'h prompt_state" where
  "look_ups ops [] st = st"
| "look_ups ops ((env, phase) # qs) st = look_ups ops qs (snd (get_prompt ops env phase None st))"

text \<open>What a later look-up will find: the answer remembered, or the latest commit.\<close>

definition settled :: "'h hub_ops \<Rightarrow> string \<Rightarrow> string option \<Rightarrow> 'h prompt_state \<Rightarrow> bool" where
  "settled ops i r st \<longleftrightarrow> pr_cache st i = Some r \<or> pr_cache st i = None \<and> ho_pull ops (pr_hub st) i = r"

lemma settled_resolve:
  assumes "settled ops i r st" "service_up env \<or> pr_cache st i \<noteq> None"
  shows "fst (resolve_from_langsmith ops env i st) = r"
  using assms by (auto simp: settled_def resolve_from_langsmith_def service_up_def Let_def split: option.splits)

lemma resolve_frame:
  "pr_hub (snd (resolve_from_langsmith ops env i st)) = pr_hub st"
  "j \<noteq> i \<Longrightarrow> pr_cache (snd (resolve_from_langsmith ops env i st)) j = pr_cache st j"
  "pr_cache st j \<noteq> None \<Longrightarrow> pr_cache (snd (resolve_from_langsmith ops env i st)) j = pr_cache st j"
  "pr_cache (snd (resolve_from_langsmith ops env i st)) i = Some (fst (resolve_from_langsmith ops env i st))"
  by (auto simp: resolve_from_langsmith_def Let_def split: option.splits)

lemma get_prompt_plain:
  "snd (get_prompt ops env phase None st)
     = (case map_of phase_to_prompt_id phase of None \<Rightarrow> st | Some i \<Rightarrow> snd (resolve_from_langsmith ops env i st))"
  using phase_cases [of phase]
  by (auto simp: get_prompt_def non_empty_def Let_def case_prod_unfold split: option.splits sum.splits)

lemma settled_look_up:
  assumes "settled ops i r st" "service_up env \<or> pr_cache st i \<noteq> None"
  shows "settled ops i r (snd (get_prompt ops env phase None st))"
proof (cases "map_of phase_to_prompt_id phase")
  case None
  then show ?thesis using assms(1) by (simp add: get_prompt_plain)
next
  case (Some j)
  let ?st = "snd (resolve_from_langsmith ops env j st)"
  have "settled ops i r ?st"
  proof (cases "j = i")
    case True
    then show ?thesis using settled_resolve [OF assms] resolve_frame(4) [of ops env i st] by (simp add: settled_def)
  next
    case False
    then show ?thesis using assms(1) by (simp add: settled_def resolve_frame(1) resolve_frame(2) [of i j])
  qed
  then show ?thesis by (simp add: get_prompt_plain Some)
qed

lemma settled_look_ups:
  "settled ops i r st \<Longrightarrow> \<forall>q \<in> set qs. service_up (fst q) \<Longrightarrow> settled ops i r (look_ups ops qs st)"
  by (induction ops qs st rule: look_ups.induct) (simp_all add: settled_look_up)

lemma get_prompt_settled:
  assumes "settled ops i (Some t) st" "map_of phase_to_prompt_id phase = Some i" "service_up env"
  shows "fst (get_prompt ops env phase None st) = Inr t"
    and "pn_push_up env \<Longrightarrow> c \<noteq> [] \<Longrightarrow> fst (get_prompt ops env phase (Some c) st) = Inr (corrected_prompt t c)"
proof -
  obtain f where f: "map_of phase_to_file phase = Some f" using phase_cases [OF assms(2)] by blast
  have r: "fst (resolve_from_langsmith ops env i st) = Some t" using settled_resolve [OF assms(1)] assms(3) by blast
  show "fst (get_prompt ops env phase None st) = Inr t"
    by (simp add: get_prompt_def assms(2) f non_empty_def Let_def case_prod_unfold r)
  show "fst (get_prompt ops env phase (Some c) st) = Inr (corrected_prompt t c)" if "pn_push_up env" "c \<noteq> []"
    using that by (simp add: get_prompt_def assms(2) f non_empty_def Let_def case_prod_unfold r push_correction_def)
qed

lemma corrected_state:
  assumes "get_prompt ops env phase (Some c) st = (Inr t, st')" "c \<noteq> []"
  shows "\<exists>i base h. map_of phase_to_prompt_id phase = Some i \<and> t = corrected_prompt base c
     \<and> pr_cache st' = (\<lambda>_. None) \<and> pr_hub st' = ho_push ops h i t"
proof (cases "map_of phase_to_prompt_id phase")
  case None
  then show ?thesis using assms by (simp add: get_prompt_def)
next
  case (Some i)
  obtain f where f: "map_of phase_to_file phase = Some f" using phase_cases [OF Some] by blast
  obtain found st1 where r: "resolve_from_langsmith ops env i st = (found, st1)" by fastforce
  obtain base where b: "(case found of Some t \<Rightarrow> Inr t | None \<Rightarrow> resolve_from_local env f) = Inr base"
    using assms by (cases "case found of Some t \<Rightarrow> Inr t | None \<Rightarrow> resolve_from_local env f")
      (auto simp: get_prompt_def Some f r)
  have "t = corrected_prompt base c \<and> pr_cache st' = (\<lambda>_. None) \<and> pr_hub st' = ho_push ops (pr_hub st1) i t"
    using assms by (auto simp: get_prompt_def Some f r b non_empty_def push_correction_def Let_def split: if_splits)
  then show ?thesis using Some by blast
qed

text \<open>C29: A correction the judge gives for the rerun of one case becomes the prompt of its phase for every case:
  any number of look-ups later, with the service answering, the node of another case without any correction is
  given the corrected prompt, and a correction of a third case is appended to it.\<close>

theorem correction_becomes_everyones_prompt:
  assumes "prompt_hub (ho_pull ops) (ho_push ops)"
    and "node_prompt rep ops env phase s st = (Inr t, st')" "node_corrections phase s = PStr c" "c \<noteq> []"
    and "\<forall>q \<in> set qs. service_up (fst q)" "service_up env2" "pn_push_up env2"
    and "node_corrections phase s2 = PNone" "node_corrections phase s3 = PStr c3" "c3 \<noteq> []"
  shows "(\<exists>base. t = corrected_prompt base c)
     \<and> fst (node_prompt rep ops env2 phase s2 (look_ups ops qs st')) = Inr t
     \<and> fst (node_prompt rep ops env2 phase s3 (look_ups ops qs st')) = Inr (corrected_prompt t c3)"
proof -
  have g: "get_prompt ops env phase (Some c) st = (Inr t, st')"
    using assms(2-4) by (simp add: node_prompt_def)
  obtain i base h where i: "map_of phase_to_prompt_id phase = Some i" and t: "t = corrected_prompt base c"
    and st': "pr_cache st' = (\<lambda>_. None)" "pr_hub st' = ho_push ops h i t"
    using corrected_state [OF g assms(4)] by blast
  have "settled ops i (Some t) st'"
    using prompt_hub.pull_pushed [OF assms(1)] by (simp add: settled_def st')
  from settled_look_ups [OF this assms(5)] show ?thesis
    using get_prompt_settled [OF _ i assms(6)] assms(7-10) t by (simp add: node_prompt_def) blast
qed

definition good_env :: prompt_env where
  "good_env = \<lparr>pn_key = True, pn_pull_up = True, pn_push_up = True, pn_files = (\<lambda>_. None)\<rparr>"

definition first_prompts :: "(string \<Rightarrow> string option) prompt_state" where
  "first_prompts = \<lparr>pr_hub = (\<lambda>_. None)(''vc-audit'' \<mapsto> ''Audit.''), pr_cache = (\<lambda>_. None)\<rparr>"

theorem correction_becomes_everyones_prompt_witness:
  "\<exists>t st'. node_prompt (\<lambda>_. []) map_hub good_env ''audit''
         (empty_state\<lparr>gs_extra_instructions := [(''audit'', PStr ''Look again.'')]\<rparr>) first_prompts = (Inr t, st')
     \<and> fst (node_prompt (\<lambda>_. []) map_hub good_env ''audit'' (empty_state\<lparr>gs_extra_instructions := []\<rparr>)
              (look_ups map_hub [(good_env, ''intake'')] st')) = Inr t"
proof -
  have m: "map_of phase_to_prompt_id ''audit'' = Some ''vc-audit''" "map_of phase_to_file ''audit'' = Some ''audit.md''"
    by code_simp+
  have n: "node_corrections ''audit'' (empty_state\<lparr>gs_extra_instructions := [(''audit'', PStr c)]\<rparr>) = PStr c" for c
    by (simp add: node_corrections_def pget_def)
  have none: "node_corrections ''audit'' (empty_state\<lparr>gs_extra_instructions := []\<rparr>) = PNone"
    by (simp add: node_corrections_def pget_def)
  obtain t st' where g: "node_prompt (\<lambda>_. []) map_hub good_env ''audit''
      (empty_state\<lparr>gs_extra_instructions := [(''audit'', PStr ''Look again.'')]\<rparr>) first_prompts = (Inr t, st')"
    by (simp add: node_prompt_def n get_prompt_def m resolve_from_langsmith_def push_correction_def good_env_def
        first_prompts_def map_hub_def non_empty_def Let_def)
  have up: "\<forall>q \<in> set [(good_env, ''intake'')]. service_up (fst q)" "service_up good_env" "pn_push_up good_env"
    by (simp_all add: service_up_def good_env_def)
  show ?thesis
    using correction_becomes_everyones_prompt [OF memory_hub.prompt_hub_axioms g n _ up none n [of "''More.''"]] g by blast
qed

section \<open>Outages\<close>

lemma cached_stays: "pr_cache st i = Some r \<Longrightarrow> pr_cache (look_ups ops qs st) i = Some r"
proof (induction ops qs st rule: look_ups.induct)
  case (2 ops env phase qs st)
  have "pr_cache (snd (get_prompt ops env phase None st)) i = Some r"
    using "2.prems" by (simp add: get_prompt_plain resolve_frame(3) split: option.split)
  then show ?case using "2.IH" by simp
qed simp

text \<open>A look-up during an outage is remembered as an answer: however often the phase is asked for afterwards
  without a correction, and whatever the service then has, the local file is used, until a correction clears
  the cache.\<close>

lemma missed_pull_is_remembered:
  assumes "map_of phase_to_prompt_id phase = Some i" "map_of phase_to_file phase = Some f" "pr_cache st i = None"
    and "\<not> service_up env" "pn_files env2 f = Some local"
  shows "fst (get_prompt ops env2 phase None (look_ups ops ((env, phase) # qs) st)) = Inr local"
proof -
  let ?st = "snd (get_prompt ops env phase None st)"
  have "pr_cache ?st i = Some None"
    using assms(1,3,4) by (auto simp: get_prompt_plain resolve_from_langsmith_def service_up_def Let_def)
  then have "pr_cache (look_ups ops qs ?st) i = Some None" by (rule cached_stays)
  then show ?thesis
    using assms(2,5)
    by (simp add: get_prompt_def assms(1) resolve_from_langsmith_def resolve_from_local_def non_empty_def)
qed

lemma missed_pull_is_remembered_witness:
  "fst (get_prompt map_hub (good_env\<lparr>pn_files := (\<lambda>_. Some ''old'')\<rparr>) ''audit'' None
      (look_ups map_hub [(good_env\<lparr>pn_pull_up := False\<rparr>, ''audit''), (good_env, ''audit'')] first_prompts)) = Inr ''old''"
proof -
  have m: "map_of phase_to_prompt_id ''audit'' = Some ''vc-audit''" "map_of phase_to_file ''audit'' = Some ''audit.md''"
    by code_simp+
  show ?thesis
    by (rule missed_pull_is_remembered [OF m]) (simp_all add: first_prompts_def service_up_def good_env_def)
qed

text \<open>Without the service a correction is no prompt at all: the node fails, although the local file is there.\<close>

lemma correction_needs_the_service:
  assumes "map_of phase_to_prompt_id phase = Some i" "\<not> pn_push_up env" "c \<noteq> []"
  shows "\<exists>e. fst (get_prompt ops env phase (Some c) st) = Inl e"
  using assms phase_cases [OF assms(1)]
  by (auto simp: get_prompt_def push_correction_def non_empty_def Let_def case_prod_unfold split: option.splits sum.splits)

end
