(* ===== verification/Operator_Scripts.thy ===== *)
theory Operator_Scripts
  imports Domains Prompt_Registry
begin

text \<open>
  The operators' scripts under \<open>scripts/\<close> (not \<open>src/\<close>): the seeding of the saver's threads from the legacy
  checkpoints (\<open>migrate_in_flight_cases.py\<close>), the push and the pull of the prompts
  (\<open>migrate_prompts_to_langsmith.py\<close>, \<open>pull_prompts_from_langsmith.py\<close>), the demo accounts (\<open>seed_users.py\<close>,
  \<open>reset_passwords.py\<close>) and the provisioning of the domains' stores (\<open>provision_domain_stores.py\<close>). What they
  print is a list of lines; the saver, the prompt service and the vector stores are arguments.
\<close>

section \<open>Cases in flight\<close>

text \<open>A legacy checkpoint with the time of its last write, and one read into a state.\<close>

record dated_checkpoint = checkpoint_row +
  ck_updated_at :: int

record checkpoint_read =
  cr_case :: uuid
  cr_run :: string
  cr_agent :: string
  cr_updated_at :: int
  cr_state :: case_state

record migration_plan =
  mp_thread :: string
  mp_run :: string
  mp_agent :: string
  mp_updated_at :: int
  mp_state :: case_state

definition terminal_statuses :: "case_status list" where
  "terminal_statuses = [S_closed, S_failed]"

text \<open>
  The selection joins the cases and orders by case and, within one, newest first; each state is validated, and
  one that is refused ends the script.
\<close>

definition in_flight :: "case_row list \<Rightarrow> dated_checkpoint list \<Rightarrow> dated_checkpoint list" where
  "in_flight cases cks =
     sort_key (\<lambda>k. (ck_case k, - ck_updated_at k))
       (filter (\<lambda>k. \<exists>c \<in> set cases. ca_id c = ck_case k \<and> ca_status c \<notin> set terminal_statuses) cks)"

fun read_rows :: "(pyval \<Rightarrow> case_state option) \<Rightarrow> dated_checkpoint list \<Rightarrow> checkpoint_read list result" where
  "read_rows validate [] = Inr []"
| "read_rows validate (k # ks) =
     (case validate (ck_state k) of
        None \<Rightarrow> Inl (OtherError ''ValidationError'')
      | Some s \<Rightarrow>
          bind_result (read_rows validate ks) (\<lambda>rs.
            Inr (\<lparr>cr_case = ck_case k, cr_run = ck_run k, cr_agent = ck_agent k,
                  cr_updated_at = ck_updated_at k, cr_state = s\<rparr> # rs)))"

text \<open>The latest row of each case: a later one takes its place, an equally old one does not.\<close>

fun latest_rows :: "checkpoint_read list \<Rightarrow> checkpoint_read dict \<Rightarrow> checkpoint_read dict" where
  "latest_rows [] latest = latest"
| "latest_rows (r # rs) latest =
     latest_rows rs
       (case map_of latest (cr_case r) of
          None \<Rightarrow> dict_set (cr_case r) r latest
        | Some old \<Rightarrow> if cr_updated_at old < cr_updated_at r then dict_set (cr_case r) r latest else latest)"

definition plan_of :: "string \<times> checkpoint_read \<Rightarrow> migration_plan" where
  "plan_of = (\<lambda>(t, r). \<lparr>mp_thread = t, mp_run = cr_run r, mp_agent = cr_agent r,
     mp_updated_at = cr_updated_at r, mp_state = cr_state r\<rparr>)"

definition plan_migrations :: "checkpoint_read list \<Rightarrow> (string \<Rightarrow> bool) \<Rightarrow> migration_plan list" where
  "plan_migrations rows already_migrated =
     sort_key mp_thread (map plan_of (filter (\<lambda>(t, _). \<not> already_migrated t) (latest_rows rows [])))"

definition left_arrow :: string where "left_arrow = [CHR 0xE2, CHR 0x86, CHR 0x90]"

definition render_dry_run_report :: "(int \<Rightarrow> string) \<Rightarrow> migration_plan list \<Rightarrow> nat \<Rightarrow> nat \<Rightarrow> string" where
  "render_dry_run_report isoformat plans total_rows skipped =
     join_with newline
       ([''Dry-run plan for migrate_in_flight_cases'',
         ''  rows scanned: '' @ str_of_int (int total_rows),
         ''  to migrate: '' @ str_of_int (int (length plans)),
         ''  skipped: '' @ str_of_int (int skipped) @ '' (already in saver)'',
         [],
         ''Planned writes (thread_id '' @ left_arrow @ '' latest run_id @ agent / updated_at):'']
        @ map (\<lambda>p. ''  '' @ mp_thread p @ '' '' @ left_arrow @ '' '' @ mp_run p @ '' @ '' @ mp_agent p @ '' / ''
                    @ isoformat (mp_updated_at p)) plans) @ newline"

text \<open>
  The saver: the state of the case in a thread, if the saver has a snapshot of it, and the write of a seed.
\<close>

record 's saver_ops =
  so_values :: "'s \<Rightarrow> string \<Rightarrow> case_state option"
  so_seed :: "'s \<Rightarrow> string \<Rightarrow> case_state \<Rightarrow> 's"

definition saver_has_thread :: "'s saver_ops \<Rightarrow> 's \<Rightarrow> string \<Rightarrow> bool" where
  "saver_has_thread ops sv t = (so_values ops sv t \<noteq> None)"

definition migrate_one :: "'s saver_ops \<Rightarrow> 's \<Rightarrow> migration_plan \<Rightarrow> 's" where
  "migrate_one ops sv p = so_seed ops sv (mp_thread p) (mp_state p)"

text \<open>What the saver is asked before the plan: once per case, in the order of the rows.\<close>

fun seen_threads :: "'s saver_ops \<Rightarrow> 's \<Rightarrow> checkpoint_read list \<Rightarrow> bool dict \<Rightarrow> bool dict" where
  "seen_threads ops sv [] seen = seen"
| "seen_threads ops sv (r # rs) seen =
     seen_threads ops sv rs
       (if dict_has (cr_case r) seen then seen else dict_set (cr_case r) (saver_has_thread ops sv (cr_case r)) seen)"

text \<open>The run: exit code, what is printed, and the saver. \<open>checkpointer\<close> is the setting.\<close>

definition migrate_in_flight ::
  "(int \<Rightarrow> string) \<Rightarrow> 's saver_ops \<Rightarrow> string \<Rightarrow> bool \<Rightarrow> checkpoint_read list \<Rightarrow> 's \<Rightarrow> int \<times> string list \<times> 's" where
  "migrate_in_flight isoformat ops checkpointer dry_run rows sv =
     (if dry_run
      then (0, [render_dry_run_report isoformat (plan_migrations rows (\<lambda>_. False)) (length rows) 0], sv)
      else if checkpointer = ''disabled''
      then (2, [''ERROR: settings.langgraph_checkpointer is '' @ quote ''disabled''], sv)
      else let seen = seen_threads ops sv rows [];
               plans = plan_migrations rows (\<lambda>t. case map_of seen t of None \<Rightarrow> False | Some b \<Rightarrow> b);
               skipped = length (filter snd seen)
           in (0, render_dry_run_report isoformat plans (length rows) skipped
                    # map (\<lambda>p. ''  migrated: '' @ mp_thread p) plans,
               foldl (migrate_one ops) sv plans))"

definition run_migration ::
  "(int \<Rightarrow> string) \<Rightarrow> (pyval \<Rightarrow> case_state option) \<Rightarrow> 's saver_ops \<Rightarrow> string \<Rightarrow> bool
   \<Rightarrow> case_row list \<Rightarrow> dated_checkpoint list \<Rightarrow> 's \<Rightarrow> (int \<times> string list \<times> 's) result" where
  "run_migration isoformat validate ops checkpointer dry_run cases cks sv =
     bind_result (read_rows validate (in_flight cases cks)) (\<lambda>rows.
       Inr (migrate_in_flight isoformat ops checkpointer dry_run rows sv))"


text \<open>The newest row of a case, the first of those written at the same time.\<close>

definition newest_row :: "checkpoint_read list \<Rightarrow> string \<Rightarrow> checkpoint_read option" where
  "newest_row rows t =
     find (\<lambda>r. cr_case r = t \<and> list_all (\<lambda>r'. cr_case r' = t \<longrightarrow> cr_updated_at r' \<le> cr_updated_at r) rows) rows"

fun newest_of :: "checkpoint_read option \<Rightarrow> checkpoint_read list \<Rightarrow> checkpoint_read option" where
  "newest_of x [] = x"
| "newest_of None (r # rs) = newest_of (Some r) rs"
| "newest_of (Some x) (r # rs) = newest_of (Some (if cr_updated_at x < cr_updated_at r then r else x)) rs"

lemma latest_rows_newest:
  "map_of (latest_rows rows latest) t = newest_of (map_of latest t) (filter (\<lambda>r. cr_case r = t) rows)"
  by (induction rows latest rule: latest_rows.induct) (auto split: option.split)

abbreviation newest_in :: "checkpoint_read list \<Rightarrow> checkpoint_read \<Rightarrow> bool" where
  "newest_in rs r \<equiv> list_all (\<lambda>r'. cr_updated_at r' \<le> cr_updated_at r) rs"

lemma find_newest_cons:
  assumes "q \<in> set rs" "cr_updated_at r \<le> cr_updated_at q"
  shows "find (newest_in (r # rs)) rs = find (newest_in rs) rs"
proof (rule find_cong [OF refl])
  fix c assume "c \<in> set rs"
  show "newest_in (r # rs) c = newest_in rs c" using assms by (force simp: list_all_iff)
qed

lemma newest_of_Some:
  "newest_of (Some x) rs = (if newest_in rs x then Some x else find (newest_in rs) rs)"
proof (induction rs arbitrary: x)
  case (Cons r rs)
  show ?case
  proof (cases "cr_updated_at x < cr_updated_at r")
    case True
    then have "find (newest_in (r # rs)) rs = find (newest_in rs) rs" if "\<not> newest_in rs r"
      using that find_newest_cons [of _ rs r] by (fastforce simp: list_all_iff)
    with True show ?thesis by (simp add: Cons.IH)
  next
    case False
    show ?thesis
    proof (cases "newest_in rs x")
      case no: False
      then obtain q where q: "q \<in> set rs" "cr_updated_at x < cr_updated_at q" by (auto simp: list_all_iff not_le)
      with False have "\<not> newest_in rs r" by (fastforce simp: list_all_iff)
      moreover have "find (newest_in (r # rs)) rs = find (newest_in rs) rs"
        by (rule find_newest_cons [OF q(1)]) (use q False in simp)
      ultimately show ?thesis using False no by (simp add: Cons.IH)
    qed (use False in \<open>simp add: Cons.IH\<close>)
  qed
qed simp

lemma newest_of_None: "newest_of None rs = find (newest_in rs) rs"
proof (cases rs)
  case (Cons r rs')
  have "find (newest_in (r # rs')) rs' = find (newest_in rs') rs'" if "\<not> newest_in rs' r"
    using that find_newest_cons [of _ rs' r] by (fastforce simp: list_all_iff)
  then show ?thesis by (simp add: Cons newest_of_Some)
qed simp

lemma find_of_filter: "find P (filter Q xs) = find (\<lambda>x. Q x \<and> P x) xs"
  by (induction xs) auto

lemma newest_in_filter: "newest_in (filter Q rs) r = list_all (\<lambda>r'. Q r' \<longrightarrow> cr_updated_at r' \<le> cr_updated_at r) rs"
  by (induction rs) auto

lemma latest_row_is_newest: "map_of (latest_rows rows []) t = newest_row rows t"
  by (simp add: latest_rows_newest newest_of_None newest_row_def find_of_filter newest_in_filter)

lemma latest_rows_keys:
  "distinct (map fst latest) \<Longrightarrow> distinct (map fst (latest_rows rows latest))"
  by (induction rows latest rule: latest_rows.induct) (auto split: option.split)


lemma plans_distinct: "distinct (map mp_thread (plan_migrations rows f))"
proof -
  define ps where "ps = filter (\<lambda>(t, _). \<not> f t) (latest_rows rows [])"
  have "distinct (map fst ps)"
    unfolding ps_def by (rule distinct_map_filter) (rule latest_rows_keys, simp)
  moreover have "map fst ps = map mp_thread (map plan_of ps)" by (simp add: plan_of_def case_prod_beta)
  ultimately have "distinct (map mp_thread (map plan_of ps))" by simp
  then show ?thesis
    by (simp only: plan_migrations_def ps_def [symmetric] distinct_map [of mp_thread] set_sort distinct_sort)
qed

lemma plans_set:
  "p \<in> set (plan_migrations rows f) \<longleftrightarrow>
     (\<exists>r. newest_row rows (mp_thread p) = Some r \<and> \<not> f (mp_thread p) \<and> p = plan_of (mp_thread p, r))"
proof -
  have d: "distinct (map fst (latest_rows rows []))" by (rule latest_rows_keys) simp
  have "mp_thread (plan_of (t, r)) = t" for t r by (simp add: plan_of_def)
  then show ?thesis
    by (auto simp: plan_migrations_def latest_row_is_newest [symmetric] d image_iff split: prod.splits)
qed

lemma dict_has_map: "dict_has k d \<longleftrightarrow> map_of d k \<noteq> None"
  by (simp add: dict_has_def map_of_eq_None_iff)

lemma seen_threads_map:
  "map_of (seen_threads ops sv rows seen) t =
     (case map_of seen t of
        Some b \<Rightarrow> Some b
      | None \<Rightarrow> if t \<in> cr_case ` set rows then Some (saver_has_thread ops sv t) else None)"
  by (induction ops sv rows seen rule: seen_threads.induct)
    (auto simp: dict_has_map split: option.split)

lemma seeded_by_plans:
  assumes "\<And>s t c. so_values ops (so_seed ops s t c) t = Some c"
    "\<And>s t u c. u \<noteq> t \<Longrightarrow> so_values ops (so_seed ops s t c) u = so_values ops s u"
    "distinct (map mp_thread ps)"
  shows "so_values ops (foldl (migrate_one ops) sv ps) t =
    (case find (\<lambda>p. mp_thread p = t) ps of None \<Rightarrow> so_values ops sv t | Some p \<Rightarrow> Some (mp_state p))"
  using assms(3)
proof (induction ps arbitrary: sv)
  case (Cons p ps)
  have "find (\<lambda>p. mp_thread p = t) ps = None" if "mp_thread p = t"
    using Cons.prems that unfolding find_None_iff by (metis distinct.simps(2) image_eqI list.set_map list.simps(9))
  then show ?case using Cons by (auto simp: migrate_one_def assms(1,2) split: option.split)
qed simp

lemma find_distinct_key:
  "distinct (map f xs) \<Longrightarrow> x \<in> set xs \<Longrightarrow> find (\<lambda>y. f y = f x) xs = Some x"
  by (induction xs) (auto simp: image_iff)

lemma newest_row_case: "newest_row rows t = Some r \<Longrightarrow> cr_case r = t \<and> r \<in> set rows"
  by (auto simp: newest_row_def find_Some_iff)

text \<open>What a real run leaves in the saver.\<close>

lemma migrated_threads:
  assumes "\<And>s t c. so_values ops (so_seed ops s t c) t = Some c"
    "\<And>s t u c. u \<noteq> t \<Longrightarrow> so_values ops (so_seed ops s t c) u = so_values ops s u"
    "migrate_in_flight isoformat ops cp False rows sv = (0, out, sv')"
  shows "so_values ops sv' t =
    (case so_values ops sv t of Some c \<Rightarrow> Some c | None \<Rightarrow> map_option cr_state (newest_row rows t))"
proof -
  let ?f = "\<lambda>t. case map_of (seen_threads ops sv rows []) t of None \<Rightarrow> False | Some b \<Rightarrow> b"
  let ?ps = "plan_migrations rows ?f"
  from assms(3) have sv': "sv' = foldl (migrate_one ops) sv ?ps"
    by (auto simp: migrate_in_flight_def Let_def split: if_splits)
  have f: "?f u \<longleftrightarrow> u \<in> cr_case ` set rows \<and> so_values ops sv u \<noteq> None" for u
    by (auto simp: seen_threads_map saver_has_thread_def)
  show ?thesis
  proof (cases "newest_row rows t")
    case None
    then have "find (\<lambda>p. mp_thread p = t) ?ps = None" by (auto simp: find_None_iff plans_set)
    with None show ?thesis by (simp add: sv' seeded_by_plans [OF assms(1,2) plans_distinct] split: option.split)
  next
    case (Some r)
    with newest_row_case have t: "t \<in> cr_case ` set rows" by blast
    show ?thesis
    proof (cases "so_values ops sv t")
      case None
      let ?p = "plan_of (t, r)"
      have p: "mp_thread ?p = t" "mp_state ?p = cr_state r" by (simp_all add: plan_of_def)
      have "?p \<in> set ?ps" unfolding plans_set p(1) f using None Some by simp
      from find_distinct_key [OF plans_distinct this] show ?thesis
        by (simp add: sv' seeded_by_plans [OF assms(1,2) plans_distinct] p None Some)
    next
      case (Some c)
      have "p \<notin> set ?ps" if "mp_thread p = t" for p unfolding plans_set that f using t Some by simp
      then have "find (\<lambda>p. mp_thread p = t) ?ps = None" by (auto simp: find_None_iff)
      with Some show ?thesis by (simp add: sv' seeded_by_plans [OF assms(1,2) plans_distinct])
    qed
  qed
qed

text \<open>C34: A run of the cut-over seeds every case in flight that the saver does not know yet with the state of its
  newest checkpoint, leaves every thread the saver knows as it was, and touches no other; a second run over the
  same rows writes nothing.\<close>

theorem cutover_seeds_each_case_once:
  assumes "\<And>s t c. so_values ops (so_seed ops s t c) t = Some c"
    "\<And>s t u c. u \<noteq> t \<Longrightarrow> so_values ops (so_seed ops s t c) u = so_values ops s u"
    "migrate_in_flight isoformat ops cp False rows sv = (0, out, sv')"
  shows "(\<lambda>t. so_values ops sv' t) =
      (\<lambda>t. case so_values ops sv t of Some c \<Rightarrow> Some c | None \<Rightarrow> map_option cr_state (newest_row rows t))
    \<and> snd (snd (migrate_in_flight isoformat ops cp False rows sv')) = sv'"
proof
  note after = migrated_threads [OF assms]
  then show "(\<lambda>t. so_values ops sv' t) =
      (\<lambda>t. case so_values ops sv t of Some c \<Rightarrow> Some c | None \<Rightarrow> map_option cr_state (newest_row rows t))"
    by blast
  let ?f = "\<lambda>t. case map_of (seen_threads ops sv' rows []) t of None \<Rightarrow> False | Some b \<Rightarrow> b"
  have "?f t" if r: "newest_row rows t = Some r" for t r
  proof -
    from newest_row_case [OF r] have "t \<in> cr_case ` set rows" by blast
    moreover have "so_values ops sv' t \<noteq> None" using r by (simp add: after split: option.split)
    ultimately show ?thesis by (simp add: seen_threads_map saver_has_thread_def)
  qed
  then have "p \<notin> set (plan_migrations rows ?f)" for p by (auto simp: plans_set)
  then have "plan_migrations rows ?f = []" by (meson last_in_set)
  then show "snd (snd (migrate_in_flight isoformat ops cp False rows sv')) = sv'"
    by (simp add: migrate_in_flight_def Let_def)
qed

definition map_saver :: "(string \<Rightarrow> case_state option) saver_ops" where
  "map_saver = \<lparr>so_values = (\<lambda>s t. s t), so_seed = (\<lambda>s t c. s(t \<mapsto> c))\<rparr>"

theorem cutover_seeds_each_case_once_witness:
  "let c = new_case_state ''c1'' ''r2'';
       rows = [\<lparr>cr_case = ''c1'', cr_run = ''r1'', cr_agent = ''intake'', cr_updated_at = 1, cr_state = new_case_state ''c1'' ''r1''\<rparr>,
               \<lparr>cr_case = ''c1'', cr_run = ''r2'', cr_agent = ''audit'', cr_updated_at = 2, cr_state = c\<rparr>];
       sv' = snd (snd (migrate_in_flight (\<lambda>_. []) map_saver ''postgres'' False rows (\<lambda>_. None)))
   in so_values map_saver sv' ''c1'' = Some c
      \<and> snd (snd (migrate_in_flight (\<lambda>_. []) map_saver ''postgres'' False rows sv')) = sv'"
proof -
  define c where "c = new_case_state ''c1'' ''r2''"
  define rows where "rows = [\<lparr>cr_case = ''c1'', cr_run = ''r1'', cr_agent = ''intake'', cr_updated_at = 1,
      cr_state = new_case_state ''c1'' ''r1''\<rparr>,
    \<lparr>cr_case = ''c1'', cr_run = ''r2'', cr_agent = ''audit'', cr_updated_at = 2, cr_state = c\<rparr>]"
  define sv where "sv = (\<lambda>_ :: string. None :: case_state option)"
  obtain out sv' where r: "migrate_in_flight (\<lambda>_. []) map_saver ''postgres'' False rows sv = (0, out, sv')"
    by (auto simp: migrate_in_flight_def Let_def)
  have "(\<lambda>t. so_values map_saver sv' t) =
      (\<lambda>t. case so_values map_saver sv t of Some c \<Rightarrow> Some c | None \<Rightarrow> map_option cr_state (newest_row rows t))
    \<and> snd (snd (migrate_in_flight (\<lambda>_. []) map_saver ''postgres'' False rows sv')) = sv'"
    by (rule cutover_seeds_each_case_once [OF _ _ r]) (simp_all add: map_saver_def)
  moreover have "newest_row rows ''c1'' = Some \<lparr>cr_case = ''c1'', cr_run = ''r2'', cr_agent = ''audit'', cr_updated_at = 2, cr_state = c\<rparr>"
    by (simp add: newest_row_def rows_def)
  ultimately have "so_values map_saver sv' ''c1'' = Some c
      \<and> snd (snd (migrate_in_flight (\<lambda>_. []) map_saver ''postgres'' False rows sv')) = sv'"
    by (simp add: fun_eq_iff map_saver_def sv_def)
  moreover have "sv' = snd (snd (migrate_in_flight (\<lambda>_. []) map_saver ''postgres'' False rows sv))" by (simp add: r)
  ultimately show ?thesis unfolding c_def rows_def sv_def Let_def by simp
qed


section \<open>Prompts pushed and pulled\<close>

text \<open>
  The files and the prompts they are kept under. The text of a commit is its first system message; a template
  without one, like a prompt that is not found, is no content. \<open>up\<close> is the service answering.
\<close>

definition prompt_files :: "string dict" where
  "prompt_files =
     [(''intake.md'', ''vc-intake''), (''research-evidence.md'', ''vc-research-evidence''),
      (''research-facts.md'', ''vc-research-facts''), (''research-witnesses.md'', ''vc-research-witnesses''),
      (''research-law.md'', ''vc-research-law''), (''synthesis.md'', ''vc-synthesis''), (''audit.md'', ''vc-audit'')]"

definition remote_content :: "'h hub_ops \<Rightarrow> bool \<Rightarrow> 'h \<Rightarrow> string \<Rightarrow> string option result" where
  "remote_content ops up h i = (if up then Inr (ho_pull ops h i) else Inl (OtherError ''LangSmithError''))"

definition load_local :: "(string \<Rightarrow> string option) \<Rightarrow> string \<Rightarrow> string result" where
  "load_local files f =
     (case files f of None \<Rightarrow> Inl (OtherError ''FileNotFoundError'') | Some t \<Rightarrow> Inr t)"

definition push_one ::
  "'h hub_ops \<Rightarrow> bool \<Rightarrow> bool \<Rightarrow> (string \<Rightarrow> string option) \<Rightarrow> string \<Rightarrow> string \<Rightarrow> 'h \<Rightarrow> (string \<times> 'h) result" where
  "push_one ops up dry_run files i f h =
     bind_result (load_local files f) (\<lambda>content.
     bind_result (remote_content ops up h i) (\<lambda>remote.
       case remote of
         None \<Rightarrow> Inr (''created'', if dry_run then h else ho_push ops h i content)
       | Some r \<Rightarrow>
           if py_strip r = py_strip content then Inr (''unchanged'', h)
           else Inr (''updated'', if dry_run then h else ho_push ops h i content)))"

definition padded :: "nat \<Rightarrow> string \<Rightarrow> string" where
  "padded n s = s @ replicate (n - length s) CHR 0x20"

definition report_line :: "bool \<Rightarrow> nat \<Rightarrow> string \<Rightarrow> string \<Rightarrow> string \<Rightarrow> string" where
  "report_line dry_run n action i f =
     (if dry_run then ''[dry-run]'' else ''         '') @ '' '' @ padded n action @ '' '' @ i @ ''  ('' @ f @ '')''"

text \<open>The loop of \<open>main\<close>: an exception ends it, with what was pushed before.\<close>

fun push_loop ::
  "'h hub_ops \<Rightarrow> bool \<Rightarrow> bool \<Rightarrow> (string \<Rightarrow> string option) \<Rightarrow> string dict \<Rightarrow> 'h \<Rightarrow> string list result \<times> 'h" where
  "push_loop ops up dry_run files [] h = (Inr [], h)"
| "push_loop ops up dry_run files ((f, i) # fs) h =
     (case push_one ops up dry_run files i f h of
        Inl e \<Rightarrow> (Inl e, h)
      | Inr (action, h') \<Rightarrow>
          (case push_loop ops up dry_run files fs h' of
             (Inl e, h'') \<Rightarrow> (Inl e, h'')
           | (Inr ls, h'') \<Rightarrow> (Inr (report_line dry_run 10 action i f # ls), h'')))"

definition key_missing :: string where
  "key_missing = ''ERROR: LANGSMITH_API_KEY is not set''"

definition push_prompts ::
  "'h hub_ops \<Rightarrow> bool \<Rightarrow> bool \<Rightarrow> bool \<Rightarrow> (string \<Rightarrow> string option) \<Rightarrow> 'h \<Rightarrow> (int \<times> string list) result \<times> 'h" where
  "push_prompts ops key up dry_run files h =
     (if \<not> key
      then (Inr (1, [key_missing @ ''. Add it to .env or export it before running.'']), h)
      else case push_loop ops up dry_run files prompt_files h of
             (Inl e, h') \<Rightarrow> (Inl e, h')
           | (Inr ls, h') \<Rightarrow> (Inr (0, ls), h'))"

definition pull_one ::
  "'h hub_ops \<Rightarrow> bool \<Rightarrow> bool \<Rightarrow> 'h \<Rightarrow> string \<Rightarrow> string \<Rightarrow> (string \<Rightarrow> string option)
   \<Rightarrow> (string \<times> (string \<Rightarrow> string option)) result" where
  "pull_one ops up dry_run h i f files =
     bind_result (remote_content ops up h i) (\<lambda>remote.
       case remote of
         None \<Rightarrow> Inr (''missing'', files)
       | Some r \<Rightarrow>
           let content = (case files f of None \<Rightarrow> [] | Some t \<Rightarrow> t)
           in if py_strip content = py_strip r then Inr (''unchanged'', files)
              else if dry_run then Inr (''would-update'', files)
              else Inr (if content \<noteq> [] then ''updated'' else ''created'', files(f \<mapsto> r)))"

fun pull_loop ::
  "'h hub_ops \<Rightarrow> bool \<Rightarrow> bool \<Rightarrow> 'h \<Rightarrow> string dict \<Rightarrow> (string \<Rightarrow> string option)
   \<Rightarrow> string list result \<times> (string \<Rightarrow> string option)" where
  "pull_loop ops up dry_run h [] files = (Inr [], files)"
| "pull_loop ops up dry_run h ((f, i) # fs) files =
     (case pull_one ops up dry_run h i f files of
        Inl e \<Rightarrow> (Inl e, files)
      | Inr (action, files') \<Rightarrow>
          (case pull_loop ops up dry_run h fs files' of
             (Inl e, files'') \<Rightarrow> (Inl e, files'')
           | (Inr ls, files'') \<Rightarrow> (Inr (report_line dry_run 13 action i f # ls), files'')))"

definition pull_prompts ::
  "'h hub_ops \<Rightarrow> bool \<Rightarrow> bool \<Rightarrow> bool \<Rightarrow> 'h \<Rightarrow> (string \<Rightarrow> string option)
   \<Rightarrow> (int \<times> string list) result \<times> (string \<Rightarrow> string option)" where
  "pull_prompts ops key up dry_run h files =
     (if \<not> key then (Inr (1, [key_missing @ ''.'']), files)
      else case pull_loop ops up dry_run h prompt_files files of
             (Inl e, files') \<Rightarrow> (Inl e, files')
           | (Inr ls, files') \<Rightarrow> (Inr (0, ls), files'))"

text \<open>A file and the latest commit of its prompt agree up to space around them.\<close>

definition in_step :: "'h hub_ops \<Rightarrow> (string \<Rightarrow> string option) \<Rightarrow> 'h \<Rightarrow> string \<times> string \<Rightarrow> bool" where
  "in_step ops files h = (\<lambda>(f, i).
     case (files f, ho_pull ops h i) of (Some t, Some r) \<Rightarrow> py_strip r = py_strip t | _ \<Rightarrow> False)"

lemma push_one_in_step:
  assumes "prompt_hub (ho_pull ops) (ho_push ops)" "push_one ops up False files i f h = Inr (a, h')"
  shows "in_step ops files h' (f, i)" "j \<noteq> i \<Longrightarrow> ho_pull ops h' j = ho_pull ops h j"
  using assms prompt_hub.pull_pushed [OF assms(1)] prompt_hub.pull_other [OF assms(1)]
  by (auto simp: push_one_def load_local_def remote_content_def in_step_def bind_result_def
      split: option.splits if_splits sum.splits)

lemma push_loop_Cons:
  assumes "push_loop ops up dry files ((f, i) # fs) h = (Inr ls, h')"
  obtains a h1 ls' where "push_one ops up dry files i f h = Inr (a, h1)" "push_loop ops up dry files fs h1 = (Inr ls', h')"
  using assms by (auto split: sum.splits prod.splits)

lemma push_loop_in_step:
  assumes "prompt_hub (ho_pull ops) (ho_push ops)"
  shows "push_loop ops up False files fs h = (Inr ls, h') \<Longrightarrow> distinct (map snd fs)
    \<Longrightarrow> list_all (in_step ops files h') fs \<and> (\<forall>j. j \<notin> set (map snd fs) \<longrightarrow> ho_pull ops h' j = ho_pull ops h j)"
proof (induction fs arbitrary: h ls)
  case (Cons x fs)
  obtain f i where x: "x = (f, i)" by (cases x)
  from Cons.prems(1) obtain a h1 ls' where o: "push_one ops up False files i f h = Inr (a, h1)"
    "push_loop ops up False files fs h1 = (Inr ls', h')"
    unfolding x by (rule push_loop_Cons)
  from Cons.IH [OF o(2)] Cons.prems(2) have ih: "list_all (in_step ops files h') fs"
    "j \<notin> set (map snd fs) \<Longrightarrow> ho_pull ops h' j = ho_pull ops h1 j" for j
    by simp_all
  from ih(2) [of i] Cons.prems(2) have "ho_pull ops h' i = ho_pull ops h1 i" by (simp add: x)
  with push_one_in_step(1) [OF assms o(1)] have "in_step ops files h' (f, i)"
    by (auto simp: in_step_def split: option.splits)
  with ih push_one_in_step(2) [OF assms o(1)] show ?case by (simp add: x)
qed simp

lemma push_in_step:
  assumes "in_step ops files h (f, i)"
  shows "push_one ops True dry files i f h = Inr (''unchanged'', h)"
  using assms by (auto simp: push_one_def load_local_def remote_content_def in_step_def split: option.splits)

lemma push_loop_again:
  "list_all (in_step ops files h) fs \<Longrightarrow> push_loop ops True dry files fs h
     = (Inr (map (\<lambda>(f, i). report_line dry 10 ''unchanged'' i f) fs), h)"
  by (induction fs) (auto simp: push_in_step)

lemma pull_in_step:
  assumes "in_step ops files h (f, i)"
  shows "pull_one ops True dry h i f files = Inr (''unchanged'', files)"
  using assms by (auto simp: pull_one_def remote_content_def in_step_def split: option.splits)

lemma pull_loop_again:
  "list_all (in_step ops files h) fs \<Longrightarrow> pull_loop ops True dry h fs files
     = (Inr (map (\<lambda>(f, i). report_line dry 13 ''unchanged'' i f) fs), files)"
  by (induction fs) (auto simp: pull_in_step)

text \<open>
  A push that comes through leaves every file and its prompt in step: pushing again commits nothing and
  pulling writes no file.
\<close>

lemma pushed_prompts_stay_in_step:
  assumes "prompt_hub (ho_pull ops) (ho_push ops)" "push_prompts ops True up False files h = (Inr out, h')"
  shows "list_all (in_step ops files h') prompt_files
    \<and> snd (push_prompts ops True True dry files h') = h' \<and> snd (pull_prompts ops True True dry h' files) = files"
proof -
  from assms(2) obtain ls where l: "push_loop ops up False files prompt_files h = (Inr ls, h')"
    by (auto simp: push_prompts_def split: prod.splits sum.splits)
  have "list_all (in_step ops files h') prompt_files"
    using push_loop_in_step [OF assms(1) l] by (simp add: prompt_files_def)
  then show ?thesis
    by (simp add: push_prompts_def pull_prompts_def push_loop_again pull_loop_again)
qed

text \<open>The scripts and the registry of the running program keep the same table.\<close>

lemma scripts_follow_the_registry:
  "map_of phase_to_prompt_id p = Some i \<Longrightarrow> map_of phase_to_file p = Some f \<Longrightarrow> map_of prompt_files f = Some i"
  by (auto simp: phase_to_prompt_id_def phase_to_file_def prompt_files_def split: if_splits)

section \<open>Demo accounts\<close>

definition judge_id :: uuid where "judge_id = ''00000000-0000-4000-a000-000000000001''"
definition admin_id :: uuid where "admin_id = ''00000000-0000-4000-a000-000000000002''"

definition demo_users :: "(uuid \<times> string \<times> string \<times> user_role \<times> string) list" where
  "demo_users =
     [(judge_id, ''Judge Sarah Chen'', ''judge@verdictcouncil.sg'', user_role.Judge, ''password''),
      (admin_id, ''Admin Marcus Lee'', ''admin@verdictcouncil.sg'', user_role.Admin, ''admin123'')]"

definition change_account :: "uuid \<Rightarrow> (account \<Rightarrow> account) \<Rightarrow> account list \<Rightarrow> account list" where
  "change_account i f us = map (\<lambda>u. if ac_id u = i then f u else u) us"

text \<open>
  By primary key first, then by email; an email of several rows is an exception. The check of a hash that is
  none raises too. Each hash takes its salt from \<open>salt\<close>.
\<close>

definition existing_account :: "uuid \<Rightarrow> string \<Rightarrow> account list \<Rightarrow> account option result" where
  "existing_account i email us =
     (case find (\<lambda>u. ac_id u = i) us of
        Some u \<Rightarrow> Inr (Some u)
      | None \<Rightarrow> scalar_one_or_none (filter (\<lambda>u. ac_email u = email) us))"

definition refresh_account ::
  "crypto \<Rightarrow> nat \<Rightarrow> string \<Rightarrow> string \<Rightarrow> user_role \<Rightarrow> string \<Rightarrow> account \<Rightarrow> (bool \<times> account) result" where
  "refresh_account cy salt name email role password u =
     (case cy_check cy password (ac_password_hash u) of
        None \<Rightarrow> Inl (OtherError ''ValueError'')
      | Some ok \<Rightarrow>
          Inr (ac_email u \<noteq> email \<or> ac_name u \<noteq> name \<or> ac_role u \<noteq> role \<or> \<not> ok,
               u\<lparr>ac_email := email, ac_name := name, ac_role := role,
                 ac_password_hash := (if ok then ac_password_hash u else cy_bcrypt cy salt password)\<rparr>))"

text \<open>One account, with how many were inserted and updated.\<close>

definition seed_one ::
  "crypto \<Rightarrow> nat \<Rightarrow> uuid \<times> string \<times> string \<times> user_role \<times> string \<Rightarrow> account list
   \<Rightarrow> (nat \<times> nat \<times> account list) result" where
  "seed_one cy salt = (\<lambda>(i, name, email, role, password) us.
     bind_result (existing_account i email us) (\<lambda>found.
       case found of
         None \<Rightarrow>
           Inr (1, 0, us @ [\<lparr>ac_id = i, ac_name = name, ac_email = email, ac_role = role,
                            ac_password_hash = cy_bcrypt cy salt password\<rparr>])
       | Some u \<Rightarrow>
           bind_result (refresh_account cy salt name email role password u) (\<lambda>(changed, u').
             Inr (0, if changed then 1 else 0, change_account (ac_id u) (\<lambda>_. u') us))))"

fun seed_loop ::
  "crypto \<Rightarrow> nat \<Rightarrow> (uuid \<times> string \<times> string \<times> user_role \<times> string) list \<Rightarrow> account list
   \<Rightarrow> (nat \<times> nat \<times> account list) result" where
  "seed_loop cy salt [] us = Inr (0, 0, us)"
| "seed_loop cy salt (d # ds) us =
     bind_result (seed_one cy salt d us) (\<lambda>(n, m, us1).
     bind_result (seed_loop cy (salt + 1) ds us1) (\<lambda>(n', m', us2). Inr (n + n', m + m', us2)))"

text \<open>One transaction: an exception leaves the table as it was.\<close>

definition seed_users :: "crypto \<Rightarrow> nat \<Rightarrow> account list \<Rightarrow> string result \<times> account list" where
  "seed_users cy salt us =
     (case seed_loop cy salt demo_users us of
        Inl e \<Rightarrow> (Inl e, us)
      | Inr (inserted, updated, us') \<Rightarrow>
          (Inr (''Seed users: '' @ str_of_int (int inserted) @ '' inserted, '' @ str_of_int (int updated)
                @ '' updated, '' @ str_of_int (int (length demo_users) - int inserted - int updated)
                @ '' already current.''), us'))"

text \<open>\<open>reset_passwords.py\<close>: by id only; name and role are left alone.\<close>

definition password_resets :: "(uuid \<times> string \<times> string) list" where
  "password_resets =
     [(judge_id, ''judge@verdictcouncil.sg'', ''password''), (admin_id, ''admin@verdictcouncil.sg'', ''admin123'')]"

definition reset_passwords :: "crypto \<Rightarrow> nat \<Rightarrow> account list \<Rightarrow> account list" where
  "reset_passwords cy salt us =
     foldl (\<lambda>us (n, i, email, password). change_account i
        (\<lambda>u. u\<lparr>ac_email := email, ac_password_hash := cy_bcrypt cy (salt + n) password\<rparr>) us)
       us (zip [0..<length password_resets] password_resets)"

text \<open>Accounts that are current stay as they are, hash included, however often the script runs.\<close>

definition current_account :: "crypto \<Rightarrow> account list \<Rightarrow> uuid \<times> string \<times> string \<times> user_role \<times> string \<Rightarrow> bool" where
  "current_account cy us = (\<lambda>(i, name, email, role, password).
     case find (\<lambda>u. ac_id u = i) us of
       None \<Rightarrow> False
     | Some u \<Rightarrow> ac_name u = name \<and> ac_email u = email \<and> ac_role u = role
                \<and> cy_check cy password (ac_password_hash u) = Some True)"

lemma change_same_account:
  assumes "distinct (map ac_id us)" "find (\<lambda>u. ac_id u = i) us = Some u"
  shows "change_account i (\<lambda>_. u) us = us"
  unfolding change_account_def
proof (rule map_idI)
  fix v assume v: "v \<in> set us"
  from assms(2) have "u \<in> set us" "ac_id u = i" by (auto simp: find_Some_iff)
  with assms(1) v show "(if ac_id v = i then u else v) = v"
    by (metis distinct_map inj_onD)
qed

lemma seed_current:
  assumes "distinct (map ac_id us)" "current_account cy us d"
  shows "seed_one cy salt d us = Inr (0, 0, us)"
proof -
  obtain i name email role password where d: "d = (i, name, email, role, password)" by (metis prod_cases5)
  from assms(2) obtain u where u: "find (\<lambda>u. ac_id u = i) us = Some u" "ac_name u = name" "ac_email u = email"
    "ac_role u = role" "cy_check cy password (ac_password_hash u) = Some True"
    by (auto simp: current_account_def d split: option.splits)
  then have "refresh_account cy salt name email role password u = Inr (False, u)" "ac_id u = i"
    by (auto simp: refresh_account_def find_Some_iff)
  with u(1) change_same_account [OF assms(1) u(1)] show ?thesis
    by (simp add: seed_one_def d existing_account_def)
qed

lemma seed_users_again:
  assumes "distinct (map ac_id us)" "list_all (current_account cy us) demo_users"
  shows "snd (seed_users cy salt us) = us"
proof -
  have "list_all (current_account cy us) ds \<Longrightarrow> seed_loop cy n ds us = Inr (0, 0, us)" for n ds
    by (induction ds arbitrary: n) (simp_all add: seed_current [OF assms(1)])
  with assms(2) show ?thesis by (simp add: seed_users_def)
qed

section \<open>Provisioning the domains' stores\<close>

text \<open>
  The columns of provisioning beside those of \<open>domain_record\<close>. The listing of the vector stores with their
  metadata is \<open>pv_stores\<close>, the creation \<open>pv_create\<close>; both may raise. \<open>pv_interferes\<close> is what other workers do to
  the table between the first reading and the lock for a domain.
\<close>

record provisioned_domain = domain_record +
  dm_provisioning_attempts :: nat
  dm_provisioning_started_at :: "int option"

record store_listing =
  sl_id :: string
  sl_metadata :: "string dict option"

record 'w provision_env =
  pv_stores :: "'w \<Rightarrow> exn + store_listing list"
  pv_create :: "string \<Rightarrow> string dict \<Rightarrow> 'w \<Rightarrow> (exn + string) \<times> 'w"
  pv_namespace :: string
  pv_now :: int
  pv_interferes :: "uuid \<Rightarrow> provisioned_domain list \<Rightarrow> provisioned_domain list"

definition list_stores_by_domain_code ::
  "'w provision_env \<Rightarrow> string \<Rightarrow> 'w \<Rightarrow> exn + string list" where
  "list_stores_by_domain_code env code w =
     (case pv_stores env w of
        Inl e \<Rightarrow> Inl e
      | Inr ss \<Rightarrow>
          Inr (map sl_id (filter (\<lambda>s.
            let meta = (case sl_metadata s of None \<Rightarrow> [] | Some m \<Rightarrow> m)
            in map_of meta ''domain_code'' = Some code \<and> map_of meta ''env'' = Some (pv_namespace env)) ss)))"

definition change_provisioned ::
  "uuid \<Rightarrow> (provisioned_domain \<Rightarrow> provisioned_domain) \<Rightarrow> provisioned_domain list \<Rightarrow> provisioned_domain list" where
  "change_provisioned i f ds = map (\<lambda>d. if do_id d = i then f d else d) ds"

text \<open>
  One domain: the row is read again; a store that carries the domain's tag is adopted, else one is made. The
  attempt is flushed, not committed, before the call, so an exception rolls it back. The advisory lock in front of
  the reading is keyed on a hash that Python salts per process; what another run does after the reading is not
  modelled.
\<close>

definition provision_one ::
  "'w provision_env \<Rightarrow> uuid \<Rightarrow> provisioned_domain list \<times> 'w \<Rightarrow> exn option \<times> provisioned_domain list \<times> 'w" where
  "provision_one env i = (\<lambda>(ds0, w).
     let ds = pv_interferes env i ds0 in
     case find (\<lambda>d. do_id d = i) ds of
       None \<Rightarrow> (None, ds, w)
     | Some d \<Rightarrow>
         if non_empty (do_vector_store_id d) then (None, ds, w)
         else
           let finish = (\<lambda>k n. change_provisioned i (\<lambda>r. r\<lparr>do_vector_store_id := Some k, do_is_active := True,
                  dm_provisioning_attempts := n, dm_provisioning_started_at := None\<rparr>) ds)
           in case list_stores_by_domain_code env (do_code d) w of
                Inl e \<Rightarrow> (Some e, ds, w)
              | Inr (k # _) \<Rightarrow> (None, finish k (dm_provisioning_attempts d), w)
              | Inr [] \<Rightarrow>
                  (case pv_create env (''domain-'' @ do_code d @ ''-'' @ pv_namespace env)
                          [(''domain_code'', do_code d), (''env'', pv_namespace env)] w of
                     (Inl e, w') \<Rightarrow> (Some e, ds, w')
                   | (Inr k, w') \<Rightarrow> (None, finish k (dm_provisioning_attempts d + 1), w')))"

fun provision_loop ::
  "'w provision_env \<Rightarrow> uuid list \<Rightarrow> provisioned_domain list \<times> 'w \<Rightarrow> exn option \<times> provisioned_domain list \<times> 'w" where
  "provision_loop env [] s = (None, s)"
| "provision_loop env (i # is) s =
     (case provision_one env i s of
        (Some e, s') \<Rightarrow> (Some e, s')
      | (None, s') \<Rightarrow> provision_loop env is s')"

text \<open>The domains without a store at the first reading; a row another transaction holds is skipped.\<close>

definition provision ::
  "'w provision_env \<Rightarrow> (uuid \<Rightarrow> bool) \<Rightarrow> bool \<Rightarrow> provisioned_domain list \<times> 'w
   \<Rightarrow> exn option \<times> provisioned_domain list \<times> 'w" where
  "provision env locked dry_run s =
     (let pending = map do_id (filter (\<lambda>d. do_vector_store_id d = None \<and> \<not> locked (do_id d)) (fst s))
      in if dry_run then (None, s) else provision_loop env pending s)"

text \<open>A failed creation leaves no trace in the row: the count of attempts stays what it was.\<close>

lemma failed_provisioning_counts_nothing:
  assumes "provision_one env i (ds, w) = (Some e, ds', w')"
  shows "ds' = pv_interferes env i ds"
  using assms
  by (auto simp: provision_one_def Let_def split: option.splits if_splits sum.splits list.splits prod.splits)

text \<open>A store that carries the domain's tag is adopted: nothing is created.\<close>

lemma tagged_store_is_adopted:
  assumes "list_stores_by_domain_code env (do_code d) w = Inr (k # ks)"
    "find (\<lambda>d. do_id d = i) (pv_interferes env i ds) = Some d" "do_vector_store_id d = None"
  shows "provision_one env i (ds, w) =
    (None, change_provisioned i (\<lambda>r. r\<lparr>do_vector_store_id := Some k, do_is_active := True,
       dm_provisioning_attempts := dm_provisioning_attempts d, dm_provisioning_started_at := None\<rparr>)
       (pv_interferes env i ds), w)"
  using assms by (simp add: provision_one_def Let_def non_empty_def)

end
