(* ===== verification/Routing.thy ===== *)
theory Routing
  imports Access
begin

text \<open>
  The endpoints of the application as \<open>api/app.py\<close> mounts them: the routers of \<open>api/routes\<close> in their order, the
  search of the framework for the route of a request, the check of the session and of the role before a
  handler runs, and the smoke test of the paths the frontend calls (\<open>scripts/smoke_frontend_contract.py\<close>).
\<close>

section \<open>Routes\<close>

datatype segment = Lit string | Par

datatype access_rule = Open | Signed_in | Roles "user_role list"

record route =
  rt_method :: string
  rt_path :: "segment list"
  rt_handler :: string
  rt_access :: access_rule

definition rt_of :: "string \<Rightarrow> segment list \<Rightarrow> string \<Rightarrow> access_rule \<Rightarrow> route" where
  "rt_of m p h a = \<lparr>rt_method = m, rt_path = p, rt_handler = h, rt_access = a\<rparr>"

text \<open>\<open>include_router(router, prefix=...)\<close>.\<close>

definition mounted :: "string list \<Rightarrow> route list \<Rightarrow> route list" where
  "mounted prefix rs = map (\<lambda>r. r\<lparr>rt_path := map Lit prefix @ rt_path r\<rparr>) rs"

definition auth_router :: "route list" where
  "auth_router =
   [rt_of ''POST'' [Lit ''register''] ''register'' Open,
    rt_of ''POST'' [Lit ''login''] ''login'' Open,
    rt_of ''POST'' [Lit ''logout''] ''logout'' Open,
    rt_of ''GET'' [Lit ''session''] ''session_info'' Signed_in,
    rt_of ''POST'' [Lit ''extend''] ''extend_session'' Signed_in,
    rt_of ''POST'' [Lit ''request-reset''] ''request_password_reset'' Open,
    rt_of ''POST'' [Lit ''verify-reset''] ''verify_password_reset'' Open,
    rt_of ''GET'' [Lit ''me''] ''me'' Signed_in]"

definition cases_router :: "route list" where
  "cases_router =
   [rt_of ''POST'' [Lit ''''] ''create_case'' (Roles [Judge]),
    rt_of ''POST'' [Lit ''draft''] ''create_case_draft'' (Roles [Judge]),
    rt_of ''POST'' [Par, Lit ''confirm''] ''confirm_case_intake'' (Roles [Judge]),
    rt_of ''POST'' [Par, Lit ''intake'', Lit ''extract''] ''trigger_intake_extraction'' (Roles [Judge]),
    rt_of ''POST'' [Par, Lit ''intake'', Lit ''message''] ''send_intake_message'' (Roles [Judge]),
    rt_of ''GET'' [Par, Lit ''intake'', Lit ''stream''] ''stream_intake_events'' Signed_in,
    rt_of ''GET'' [Lit ''''] ''list_cases'' Signed_in,
    rt_of ''GET'' [Par] ''get_case'' Signed_in,
    rt_of ''GET'' [Par, Lit ''report.pdf''] ''export_case_report_pdf'' Signed_in,
    rt_of ''GET'' [Par, Lit ''hearing-pack''] ''export_hearing_pack'' Signed_in,
    rt_of ''GET'' [Par, Lit ''events''] ''list_pipeline_events'' Signed_in,
    rt_of ''GET'' [Par, Lit ''status'', Lit ''stream''] ''stream_pipeline_status'' Signed_in,
    rt_of ''POST'' [Par, Lit ''process''] ''process_case'' Signed_in,
    rt_of ''POST'' [Par, Lit ''cancel''] ''cancel_case_pipeline'' (Roles [Judge]),
    rt_of ''POST'' [Par, Lit ''restart''] ''restart_case_pipeline'' (Roles [Judge]),
    rt_of ''POST'' [Par, Lit ''gates'', Par, Lit ''advance''] ''advance_gate'' (Roles [Judge]),
    rt_of ''POST'' [Par, Lit ''gates'', Par, Lit ''rerun''] ''rerun_gate'' (Roles [Judge]),
    rt_of ''POST'' [Par, Lit ''respond''] ''respond_to_gate'' (Roles [Judge]),
    rt_of ''POST'' [Par, Lit ''decision''] ''record_decision'' (Roles [Judge]),
    rt_of ''PATCH'' [Par, Lit ''suggested-questions''] ''update_suggested_questions'' (Roles [Judge])]"

definition case_data_router :: "route list" where
  "case_data_router =
   [rt_of ''POST'' [Par, Lit ''documents''] ''upload_documents'' Signed_in,
    rt_of ''POST'' [Par, Lit ''supplementary-documents''] ''upload_supplementary_documents'' Signed_in,
    rt_of ''GET'' [Par, Lit ''status''] ''get_pipeline_status'' Signed_in,
    rt_of ''GET'' [Par, Lit ''evidence''] ''get_case_evidence'' Signed_in,
    rt_of ''GET'' [Par, Lit ''timeline''] ''get_case_timeline'' Signed_in,
    rt_of ''GET'' [Par, Lit ''witnesses''] ''get_case_witnesses'' Signed_in,
    rt_of ''GET'' [Par, Lit ''statutes''] ''get_case_statutes'' Signed_in,
    rt_of ''GET'' [Par, Lit ''precedents''] ''get_case_precedents'' Signed_in,
    rt_of ''GET'' [Par, Lit ''arguments''] ''get_case_arguments'' Signed_in,
    rt_of ''GET'' [Par, Lit ''hearing-analysis''] ''get_case_hearing_analysis'' Signed_in]"

definition what_if_router :: "route list" where
  "what_if_router =
   [rt_of ''POST'' [Par, Lit ''what-if''] ''submit_whatif_scenario'' (Roles [Judge]),
    rt_of ''GET'' [Par, Lit ''what-if'', Par] ''get_whatif_result'' (Roles [Judge]),
    rt_of ''POST'' [Par, Lit ''stability''] ''trigger_stability_score'' (Roles [Judge]),
    rt_of ''GET'' [Par, Lit ''stability''] ''get_stability_score'' (Roles [Judge])]"

definition judge_router :: "route list" where
  "judge_router =
   [rt_of ''PATCH'' [Par, Lit ''facts'', Par, Lit ''dispute''] ''dispute_fact'' (Roles [Judge]),
    rt_of ''GET'' [Par, Lit ''evidence-gaps''] ''get_evidence_gaps'' (Roles [Judge]),
    rt_of ''GET'' [Par, Lit ''fairness-audit''] ''get_fairness_audit'' (Roles [Judge]),
    rt_of ''GET'' [Par, Lit ''evidence-dashboard''] ''get_evidence_dashboard'' (Roles [Judge]),
    rt_of ''GET'' [Par, Lit ''jurisdiction''] ''get_jurisdiction_validation'' (Roles [Judge])]"

definition hearing_notes_router :: "route list" where
  "hearing_notes_router =
   [rt_of ''POST'' [Par, Lit ''hearing-notes''] ''create_hearing_note'' (Roles [Judge]),
    rt_of ''GET'' [Par, Lit ''hearing-notes''] ''list_hearing_notes'' (Roles [Judge]),
    rt_of ''PATCH'' [Par, Lit ''hearing-notes'', Par] ''update_hearing_note'' (Roles [Judge]),
    rt_of ''POST'' [Par, Lit ''hearing-notes'', Par, Lit ''lock''] ''lock_hearing_note'' (Roles [Judge]),
    rt_of ''DELETE'' [Par, Lit ''hearing-notes'', Par] ''delete_hearing_note'' (Roles [Judge])]"

definition hearing_pack_router :: "route list" where
  "hearing_pack_router =
   [rt_of ''POST'' [Par, Lit ''hearing-pack''] ''generate_hearing_pack'' (Roles [Judge]),
    rt_of ''GET'' [Par, Lit ''hearing-pack.md''] ''get_hearing_pack_markdown'' (Roles [Judge])]"

definition reopen_requests_router :: "route list" where
  "reopen_requests_router =
   [rt_of ''POST'' [Par, Lit ''reopen-request''] ''create_reopen_request'' (Roles [Judge, Admin]),
    rt_of ''GET'' [Par, Lit ''reopen-requests''] ''list_reopen_requests'' (Roles [Judge, Admin]),
    rt_of ''PATCH'' [Par, Lit ''reopen-requests'', Par, Lit ''review''] ''review_reopen_request'' (Roles [Judge, Admin])]"

definition audit_router :: "route list" where
  "audit_router =
   [rt_of ''GET'' [Par, Lit ''audit''] ''list_audit_logs'' (Roles [Judge, Admin])]"

definition cost_router :: "route list" where
  "cost_router =
   [rt_of ''GET'' [Lit ''summary''] ''cost_summary'' (Roles [Judge, Admin])]"

definition dashboard_router :: "route list" where
  "dashboard_router =
   [rt_of ''GET'' [Lit ''stats''] ''get_stats'' Signed_in]"

definition health_router :: "route list" where
  "health_router =
   [rt_of ''GET'' [Lit ''pair''] ''pair_health'' Signed_in,
    rt_of ''POST'' [Lit ''pair'', Lit ''probe''] ''pair_probe'' Signed_in]"

definition precedent_search_router :: "route list" where
  "precedent_search_router =
   [rt_of ''POST'' [Lit ''search''] ''search_precedents_adhoc'' (Roles [Judge])]"

definition knowledge_base_router :: "route list" where
  "knowledge_base_router =
   [rt_of ''GET'' [Lit ''status''] ''get_knowledge_base_status'' (Roles [Judge]),
    rt_of ''POST'' [Lit ''initialize''] ''initialize_knowledge_base'' (Roles [Judge]),
    rt_of ''POST'' [Lit ''documents''] ''upload_knowledge_base_document'' (Roles [Judge]),
    rt_of ''GET'' [Lit ''documents''] ''list_knowledge_base_documents'' (Roles [Judge]),
    rt_of ''DELETE'' [Lit ''documents'', Par] ''delete_knowledge_base_document'' (Roles [Judge]),
    rt_of ''POST'' [Lit ''search''] ''search_knowledge_base'' (Roles [Judge])]"

definition documents_router :: "route list" where
  "documents_router =
   [rt_of ''GET'' [Par, Lit ''excerpt''] ''get_document_excerpt'' (Roles [Judge])]"

definition admin_router :: "route list" where
  "admin_router =
   [rt_of ''POST'' [Lit ''vector-stores'', Lit ''refresh''] ''refresh_vector_store'' (Roles [Admin]),
    rt_of ''POST'' [Lit ''users'', Par, Par] ''manage_user_action'' (Roles [Admin]),
    rt_of ''POST'' [Lit ''cost-config''] ''set_cost_config'' (Roles [Admin])]"

definition domains_router :: "route list" where
  "domains_router =
   [rt_of ''GET'' [Lit ''''] ''list_active_domains'' Signed_in,
    rt_of ''GET'' [Lit ''capabilities''] ''get_domain_capabilities'' Signed_in,
    rt_of ''GET'' [Lit ''admin''] ''list_domains_admin'' (Roles [Admin]),
    rt_of ''POST'' [Lit ''admin''] ''create_domain'' (Roles [Admin]),
    rt_of ''GET'' [Lit ''admin'', Par] ''get_domain_admin'' (Roles [Admin]),
    rt_of ''PATCH'' [Lit ''admin'', Par] ''update_domain'' (Roles [Admin]),
    rt_of ''DELETE'' [Lit ''admin'', Par] ''retire_domain'' (Roles [Admin]),
    rt_of ''GET'' [Lit ''admin'', Par, Lit ''documents''] ''list_domain_documents'' (Roles [Admin]),
    rt_of ''POST'' [Lit ''admin'', Par, Lit ''documents''] ''upload_domain_document'' (Roles [Admin]),
    rt_of ''DELETE'' [Lit ''admin'', Par, Lit ''documents'', Par] ''delete_domain_document'' (Roles [Admin])]"

definition pipeline_router :: "route list" where
  "pipeline_router =
   [rt_of ''GET'' [Lit ''manifest''] ''get_pipeline_manifest'' Open]"

definition api_routes :: "route list" where
  "api_routes =
mounted [''api'', ''v1'', ''auth''] auth_router @ mounted [''api'', ''v1'', ''cases''] cases_router @ mounted [''api'', ''v1'', ''cases''] case_data_router @ mounted [''api'', ''v1'', ''cases''] what_if_router @ mounted [''api'', ''v1'', ''cases''] judge_router @ mounted [''api'', ''v1'', ''cases''] hearing_notes_router @ mounted [''api'', ''v1'', ''cases''] hearing_pack_router @ mounted [''api'', ''v1'', ''cases''] reopen_requests_router @ mounted [''api'', ''v1'', ''audit''] audit_router @ mounted [''api'', ''v1'', ''cost''] cost_router @ mounted [''api'', ''v1'', ''dashboard''] dashboard_router @ mounted [''api'', ''v1'', ''health''] health_router @ mounted [''api'', ''v1'', ''precedents''] precedent_search_router @ mounted [''api'', ''v1'', ''knowledge-base''] knowledge_base_router @ mounted [''api'', ''v1'', ''documents''] documents_router @ mounted [''api'', ''v1'', ''admin''] admin_router @ mounted [''api'', ''v1'', ''domains''] domains_router @ mounted [''api'', ''v1'', ''pipeline''] pipeline_router"

text \<open>The routes of the program, with the metrics last.\<close>

definition app_routes :: "route list" where
  "app_routes = api_routes @ [rt_of ''GET'' [Lit ''metrics''] ''metrics_endpoint'' Open]"

section \<open>Finding the route of a request\<close>

text \<open>A path is the list of its pieces between slashes; a parameter takes one piece that is not empty.\<close>

fun matches_path :: "segment list \<Rightarrow> string list \<Rightarrow> bool" where
  "matches_path [] [] = True"
| "matches_path (Lit s # ps) (x # xs) = (s = x \<and> matches_path ps xs)"
| "matches_path (Par # ps) (x # xs) = (x \<noteq> [] \<and> matches_path ps xs)"
| "matches_path _ _ = False"

datatype routed = Found route | Method_not_allowed | Redirected "string list" | No_route

definition other_slash :: "string list \<Rightarrow> string list" where
  "other_slash xs = (if xs \<noteq> [] \<and> last xs = [] then rev (dropWhile (\<lambda>x. x = []) (rev xs)) else xs @ [[]])"

text \<open>
  The first route with the method and the path; else, when the path alone has a route, the method is refused;
  else a path that lacks or has too many slashes at its end is redirected.
\<close>

definition resolve :: "route list \<Rightarrow> string \<Rightarrow> string list \<Rightarrow> routed" where
  "resolve rs meth xs =
     (case find (\<lambda>r. matches_path (rt_path r) xs \<and> rt_method r = meth) rs of
        Some r \<Rightarrow> Found r
      | None \<Rightarrow>
          if list_ex (\<lambda>r. matches_path (rt_path r) xs) rs then Method_not_allowed
          else if xs \<noteq> [[]] \<and> list_ex (\<lambda>r. matches_path (rt_path r) (other_slash xs)) rs then Redirected (other_slash xs)
          else No_route)"

section \<open>The check before a handler\<close>

definition check_access :: "crypto \<Rightarrow> int \<Rightarrow> string option \<Rightarrow> access \<Rightarrow> access_rule \<Rightarrow> account option result" where
  "check_access cy now token st rule = (case rule of
     Open \<Rightarrow> Inr None
   | Signed_in \<Rightarrow> bind_result (authenticate_token cy now token st) (\<lambda>a. Inr (Some a))
   | Roles roles \<Rightarrow> bind_result (authenticate_token cy now token st) (\<lambda>a.
       if ac_role a \<in> set roles then Inr (Some a)
       else Inl (HttpError 403 (''Role '' @ quote (role_value (ac_role a)) @ '' not permitted''))))"

text \<open>What a request comes to: a handler with the user it runs for, or the answer of the framework.\<close>

datatype reached = Handler route "account option" | Refused py_error | Redirect "string list"

definition reach :: "crypto \<Rightarrow> int \<Rightarrow> string option \<Rightarrow> access \<Rightarrow> string \<Rightarrow> string list \<Rightarrow> reached" where
  "reach cy now token st meth xs = (case resolve app_routes meth xs of
     Found r \<Rightarrow> (case check_access cy now token st (rt_access r) of
                   Inl e \<Rightarrow> Refused e | Inr a \<Rightarrow> Handler r a)
   | Method_not_allowed \<Rightarrow> Refused (HttpError 405 ''Method Not Allowed'')
   | Redirected ys \<Rightarrow> Redirect ys
   | No_route \<Rightarrow> Refused (HttpError 404 ''Not Found''))"

section \<open>No two routes overlap\<close>

fun overlap :: "segment list \<Rightarrow> segment list \<Rightarrow> bool" where
  "overlap [] [] = True"
| "overlap (Lit s # ps) (Lit t # qs) = (s = t \<and> overlap ps qs)"
| "overlap (Lit s # ps) (Par # qs) = (s \<noteq> [] \<and> overlap ps qs)"
| "overlap (Par # ps) (Lit t # qs) = (t \<noteq> [] \<and> overlap ps qs)"
| "overlap (Par # ps) (Par # qs) = overlap ps qs"
| "overlap _ _ = False"

lemma matches_overlap: "matches_path ps xs \<Longrightarrow> matches_path qs xs \<Longrightarrow> overlap ps qs"
  by (induction ps qs arbitrary: xs rule: overlap.induct) (case_tac [!] xs, auto)

definition apart :: "route \<Rightarrow> route \<Rightarrow> bool" where
  "apart r q \<longleftrightarrow> rt_method r \<noteq> rt_method q \<or> \<not> overlap (rt_path r) (rt_path q)"

lemma first_of_apart_routes:
  assumes "sorted_wrt apart rs" "r \<in> set rs" "matches_path (rt_path r) xs"
  shows "find (\<lambda>q. matches_path (rt_path q) xs \<and> rt_method q = rt_method r) rs = Some r"
  using assms
proof (induction rs)
  case (Cons q rs)
  then show ?case using matches_overlap [of "rt_path q" xs "rt_path r"] by (auto simp: apart_def)
qed simp

lemma routes_apart: "sorted_wrt apart app_routes"
  by code_simp


section \<open>Every endpoint, and who reaches it\<close>

text \<open>C37: every endpoint of the program is reached, and by every path of its shape: no route that is listed before
  it takes a request away from it, whatever the values of the parameters, so the order of the routers does not matter.\<close>

lemma every_endpoint_is_reached:
  assumes "r \<in> set app_routes" "matches_path (rt_path r) xs"
  shows "resolve app_routes (rt_method r) xs = Found r"
  using first_of_apart_routes [OF routes_apart assms] by (simp add: resolve_def)

lemma every_endpoint_is_reached_witness:
  "resolve app_routes ''GET'' [''api'', ''v1'', ''domains'', ''admin'', ''d7'']
     = Found (rt_of ''GET'' [Lit ''api'', Lit ''v1'', Lit ''domains'', Lit ''admin'', Par] ''get_domain_admin'' (Roles [Admin]))"
  using every_endpoint_is_reached [of "rt_of ''GET'' [Lit ''api'', Lit ''v1'', Lit ''domains'', Lit ''admin'', Par] ''get_domain_admin''
      (Roles [Admin])" "[''api'', ''v1'', ''domains'', ''admin'', ''d7'']"]
  by (simp add: app_routes_def api_routes_def mounted_def domains_router_def rt_of_def)

definition open_handlers :: "string list" where
  "open_handlers = [''register'', ''login'', ''logout'', ''request_password_reset'', ''verify_password_reset'',
     ''get_pipeline_manifest'', ''metrics_endpoint'']"

lemma open_routes: "list_all (\<lambda>r. rt_access r = Open \<longleftrightarrow> rt_handler r \<in> set open_handlers) app_routes"
  by code_simp

definition admin_path :: "segment list \<Rightarrow> bool" where
  "admin_path p \<longleftrightarrow> take 3 p = map Lit [''api'', ''v1'', ''admin''] \<or> take 4 p = map Lit [''api'', ''v1'', ''domains'', ''admin'']"

lemma admin_routes: "list_all (\<lambda>r. rt_access r = Roles [Admin] \<longleftrightarrow> admin_path (rt_path r)) app_routes"
  by code_simp

text \<open>No route asks for the role of a senior judge.\<close>

lemma no_route_for_senior_judges:
  "list_all (\<lambda>r. case rt_access r of Roles roles \<Rightarrow> Senior_judge \<notin> set roles | _ \<Rightarrow> True) app_routes"
  by code_simp

lemma resolve_found: "resolve rs m xs = Found r \<Longrightarrow> r \<in> set rs \<and> matches_path (rt_path r) xs \<and> rt_method r = m"
  by (auto simp: resolve_def dest!: find_Some_in split: option.splits if_splits)

lemma check_access_cases:
  "check_access cy now token st rule = Inr x \<Longrightarrow>
     (x = None \<and> rule = Open)
     \<or> (\<exists>a. x = Some a \<and> rule \<noteq> Open \<and> authenticate_token cy now token st = Inr a
          \<and> (\<forall>roles. rule = Roles roles \<longrightarrow> ac_role a \<in> set roles))"
  by (auto simp: check_access_def bind_result_Inr split: access_rule.splits if_splits)


section \<open>The paths the frontend calls\<close>

record smoke_check =
  sk_method :: string
  sk_path :: "string list"
  sk_expected :: "int list"
  sk_allow_404 :: bool

abbreviation seen :: "string list \<Rightarrow> smoke_check" where
  "seen p \<equiv> \<lparr>sk_method = ''GET'', sk_path = [''api'', ''v1''] @ p, sk_expected = [200], sk_allow_404 = False\<rparr>"

abbreviation seen_or_404 :: "string list \<Rightarrow> smoke_check" where
  "seen_or_404 p \<equiv> \<lparr>sk_method = ''GET'', sk_path = [''api'', ''v1''] @ p, sk_expected = [200], sk_allow_404 = True\<rparr>"

text \<open>The query of a path takes no part in the choice of the route and is left out.\<close>

definition build_checks :: "string \<Rightarrow> smoke_check list" where
  "build_checks case_id =
     [seen [''auth'', ''me''], seen [''auth'', ''session''], seen [''dashboard'', ''stats''], seen [''cases'', ''''],
      seen [''escalated-cases'', ''''], seen [''senior-inbox'', ''''], seen [''cases'', case_id],
      seen [''cases'', case_id, ''status''], seen [''cases'', case_id, ''evidence''], seen [''cases'', case_id, ''witnesses''],
      seen [''cases'', case_id, ''arguments''], seen [''cases'', case_id, ''precedents''], seen [''cases'', case_id, ''statutes''],
      seen [''cases'', case_id, ''deliberation''], seen [''cases'', case_id, ''timeline''],
      seen [''cases'', case_id, ''evidence-gaps''], seen [''cases'', case_id, ''stability''],
      seen [''cases'', case_id, ''fairness-audit''], seen [''cases'', case_id, ''hearing-notes''],
      seen [''cases'', case_id, ''reopen-requests''], seen [''audit'', case_id, ''audit''],
      seen_or_404 [''cases'', case_id, ''verdict''], seen_or_404 [''cases'', case_id, ''what-if''],
      seen [''health'', ''pair''], seen [''knowledge-base'', ''status'']]"

text \<open>The answer of the server: its status and text, or nothing on an error of the transport.\<close>

definition run_check :: "(smoke_check \<Rightarrow> (int \<times> string) option) \<Rightarrow> smoke_check \<Rightarrow> bool" where
  "run_check server c = (case server c of
     None \<Rightarrow> False
   | Some (status, text) \<Rightarrow> status \<in> set (sk_expected c) \<union> (if sk_allow_404 c then {404} else {}))"

definition smoke_failures :: "(smoke_check \<Rightarrow> (int \<times> string) option) \<Rightarrow> string \<Rightarrow> smoke_check list" where
  "smoke_failures server case_id = filter (\<lambda>c. \<not> run_check server c) (build_checks case_id)"

definition smoke_main :: "bool \<Rightarrow> (smoke_check \<Rightarrow> (int \<times> string) option) \<Rightarrow> string \<Rightarrow> nat" where
  "smoke_main logged_in server case_id =
     (if \<not> logged_in then 2 else if smoke_failures server case_id \<noteq> [] then 1 else 0)"

text \<open>A server that serves the routes of the program answers what has no route as the framework does.\<close>

definition serves_routes :: "(smoke_check \<Rightarrow> (int \<times> string) option) \<Rightarrow> smoke_check \<Rightarrow> bool" where
  "serves_routes server c \<longleftrightarrow>
     (case server c of None \<Rightarrow> True | Some (status, text) \<Rightarrow>
        (case resolve app_routes (sk_method c) (sk_path c) of
           Found r \<Rightarrow> True | Method_not_allowed \<Rightarrow> status = 405 | Redirected _ \<Rightarrow> status = 307 | No_route \<Rightarrow> status = 404))"

lemma stale_paths:
  "resolve app_routes ''GET'' [''api'', ''v1'', ''escalated-cases'', ''''] = No_route"
  "resolve app_routes ''GET'' [''api'', ''v1'', ''senior-inbox'', ''''] = No_route"
  by code_simp+

text \<open>The smoke test of the paths the frontend calls cannot pass: whatever case and whatever answers, it ends
  with an error as long as the server serves the routes of the program, since some of the paths have no route.\<close>

lemma smoke_contract_cannot_pass:
  assumes "list_all (serves_routes server) (build_checks case_id)"
  shows "smoke_main logged_in server case_id \<noteq> 0"
proof -
  let ?c = "seen [''escalated-cases'', '''']"
  have c: "?c \<in> set (build_checks case_id)" by (simp add: build_checks_def)
  then have "serves_routes server ?c" using assms by (simp add: list_all_iff)
  then have "\<not> run_check server ?c"
    using stale_paths(1) by (auto simp: serves_routes_def run_check_def split: option.splits)
  then have "smoke_failures server case_id \<noteq> []"
    using c unfolding smoke_failures_def filter_empty_conv by blast
  then show ?thesis by (simp add: smoke_main_def)
qed



lemma smoke_contract_cannot_pass_witness: "smoke_main True (\<lambda>_. None) ''10000000-0000-4000-a000-000000000002'' \<noteq> 0"
  by (rule smoke_contract_cannot_pass) (simp add: list_all_iff serves_routes_def)

end
