(* ===== verification/Worker_Process.thy ===== *)
theory Worker_Process
  imports Worker
begin

text \<open>
  The process of a worker around its tasks: the two loops of \<open>workers/dispatcher.py\<close>, round by round with their
  errors, its start and its end, the checkpointer that lives as long as the process
  (\<open>pipeline/graph/checkpointer.py\<close>, the lifespan of \<open>api/app.py\<close>, the factories of \<open>builder.py\<close>), and the
  command line of the watchdog (\<open>services/stuck_case_watchdog.py\<close>).
\<close>

section \<open>The dispatcher's loop\<close>

text \<open>
  A loop runs with the errors it has had in a row, or its task is over: cancelled, or ended by an exception that
  left it.
\<close>

datatype loop_state = Looping nat | Loop_cancelled | Loop_ended py_error

text \<open>
  \<open>2.0 * 2 ** (n - 1)\<close>, at most 30: the power is an \<open>int\<close>, and the product first makes a float of it, which
  raises \<open>OverflowError\<close> from \<open>2 ** 1024\<close> on. The expression is evaluated in the handler of the round's exception,
  so its own exception leaves the loop.
\<close>

definition error_backoff :: "nat \<Rightarrow> nat option" where
  "error_backoff consecutive_errors =
     (if 1024 \<le> consecutive_errors - 1 then None else Some (min (2 * 2 ^ (consecutive_errors - 1)) 30))"

text \<open>What a round meets: the queue's answers, whether the database answers, the rows others have locked, the time.\<close>

record 'q round_env =
  ro_enqueue :: "'q arq_enqueue"
  ro_db :: bool
  ro_locked :: "uuid set"
  ro_now :: int

record 'q dispatch_process =
  dp_loop :: loop_state
  dp_queue :: 'q
  dp_jobs :: job_table
  dp_slept :: "nat list"

definition round_outcome :: "'q round_env \<Rightarrow> 'q \<Rightarrow> job_table \<Rightarrow> 'q \<times> job_table \<times> nat result" where
  "round_outcome ro q jobs =
     (if ro_db ro then dispatch_batch (ro_enqueue ro) (ro_locked ro) (ro_now ro) q jobs
      else (q, jobs, Inl (OtherError ''OperationalError'')))"

definition dispatcher_round :: "'q round_env \<Rightarrow> 'q dispatch_process \<Rightarrow> 'q dispatch_process" where
  "dispatcher_round ro p = (case dp_loop p of
     Looping n \<Rightarrow>
       (case round_outcome ro (dp_queue p) (dp_jobs p) of
          (q', jobs', Inr m) \<Rightarrow>
            p\<lparr>dp_loop := Looping 0, dp_queue := q', dp_jobs := jobs', dp_slept := dp_slept p @ (if m = 0 then [1] else [])\<rparr>
        | (q', jobs', Inl e) \<Rightarrow>
            (case error_backoff (n + 1) of
               None \<Rightarrow> p\<lparr>dp_loop := Loop_ended (OtherError ''OverflowError''), dp_queue := q', dp_jobs := jobs'\<rparr>
             | Some s \<Rightarrow> p\<lparr>dp_loop := Looping (n + 1), dp_queue := q', dp_jobs := jobs', dp_slept := dp_slept p @ [s]\<rparr>))
   | _ \<Rightarrow> p)"

text \<open>The recovery's loop: a failed round is logged, and every round sleeps a minute.\<close>

definition stuck_recovery_round :: "'q round_env \<Rightarrow> job_table \<Rightarrow> job_table \<times> uuid list" where
  "stuck_recovery_round ro jobs =
     (if ro_db ro then recover_stuck_jobs (ro_now ro) stuck_threshold_seconds jobs else (jobs, []))"

section \<open>An outage of the dispatcher\<close>

lemma round_when_over: "\<nexists>n. dp_loop p = Looping n \<Longrightarrow> dispatcher_round ro p = p"
  by (cases "dp_loop p") (simp_all add: dispatcher_round_def)

lemma rounds_when_over: "\<nexists>n. dp_loop p = Looping n \<Longrightarrow> fold dispatcher_round ros p = p"
  by (induction ros) (simp_all add: round_when_over)

lemma round_in_outage:
  "\<not> ro_db ro \<Longrightarrow> dp_loop p = Looping n \<Longrightarrow> n < 1024 \<Longrightarrow>
     dispatcher_round ro p = p\<lparr>dp_loop := Looping (n + 1), dp_slept := dp_slept p @ [min (2 * 2 ^ n) 30]\<rparr>"
  "\<not> ro_db ro \<Longrightarrow> dp_loop p = Looping 1024 \<Longrightarrow>
     dispatcher_round ro p = p\<lparr>dp_loop := Loop_ended (OtherError ''OverflowError'')\<rparr>"
  by (simp_all add: dispatcher_round_def round_outcome_def error_backoff_def)

lemma rounds_in_outage:
  assumes "list_all (\<lambda>ro. \<not> ro_db ro) ros" "dp_loop p = Looping n" "n + length ros \<le> 1024"
  shows "fold dispatcher_round ros p
     = p\<lparr>dp_loop := Looping (n + length ros),
         dp_slept := dp_slept p @ map (\<lambda>k. min (2 * 2 ^ k) 30) [n ..< n + length ros]\<rparr>"
  using assms
proof (induction ros arbitrary: p n)
  case (Cons ro ros)
  have one: "dispatcher_round ro p = p\<lparr>dp_loop := Looping (n + 1), dp_slept := dp_slept p @ [min (2 * 2 ^ n) 30]\<rparr>"
    using Cons.prems by (intro round_in_outage(1)) auto
  have "[n ..< n + length (ro # ros)] = n # [n + 1 ..< n + 1 + length ros]" by (simp add: upt_rec)
  then show ?case
    using Cons.IH [of "p\<lparr>dp_loop := Looping (n + 1), dp_slept := dp_slept p @ [min (2 * 2 ^ n) 30]\<rparr>" "n + 1"] Cons.prems
    by (simp add: one)
qed simp

text \<open>C38: an outage of 1025 rounds ends the dispatcher for good. Through 1024 failed rounds it keeps going, asleep for
  at most half a minute between two of them; the next failure overflows the computation of the pause in the handler
  of the error and ends the task, and from then on no round, however healthy, takes a job from the table.\<close>

theorem outage_ends_the_dispatcher:
  assumes "list_all (\<lambda>ro. \<not> ro_db ro) outage" "dp_loop p = Looping 0"
  shows "(length outage \<le> 1024 \<longrightarrow> dp_loop (fold dispatcher_round outage p) = Looping (length outage))
     \<and> (1024 < length outage \<longrightarrow>
          dp_loop (fold dispatcher_round (outage @ later) p) = Loop_ended (OtherError ''OverflowError'')
          \<and> dp_jobs (fold dispatcher_round (outage @ later) p) = dp_jobs p
          \<and> dp_queue (fold dispatcher_round (outage @ later) p) = dp_queue p)"
proof (intro conjI impI)
  show "dp_loop (fold dispatcher_round outage p) = Looping (length outage)" if "length outage \<le> 1024"
    using rounds_in_outage [OF assms] that by simp
next
  assume long: "1024 < length outage"
  define a where "a = take 1024 outage"
  obtain ro rest where o: "outage = a @ ro # rest"
    using long id_take_nth_drop [of 1024 outage] by (auto simp: a_def)
  have la: "length a = 1024" using long by (simp add: a_def)
  have pre: "list_all (\<lambda>ro. \<not> ro_db ro) a" "\<not> ro_db ro" using assms(1) o by simp_all
  define p1 where "p1 = fold dispatcher_round a p"
  have p1: "dp_loop p1 = Looping 1024" "dp_jobs p1 = dp_jobs p" "dp_queue p1 = dp_queue p"
    using rounds_in_outage [OF pre(1) assms(2)] la by (simp_all add: p1_def)
  have p2: "dispatcher_round ro p1 = p1\<lparr>dp_loop := Loop_ended (OtherError ''OverflowError'')\<rparr>"
    by (rule round_in_outage(2) [OF pre(2) p1(1)])
  have "fold dispatcher_round (outage @ later) p = fold dispatcher_round (rest @ later) (dispatcher_round ro p1)"
    by (simp add: o p1_def)
  also have "\<dots> = p1\<lparr>dp_loop := Loop_ended (OtherError ''OverflowError'')\<rparr>"
    unfolding p2 by (rule rounds_when_over) simp
  finally have f: "fold dispatcher_round (outage @ later) p = p1\<lparr>dp_loop := Loop_ended (OtherError ''OverflowError'')\<rparr>" .
  show "dp_loop (fold dispatcher_round (outage @ later) p) = Loop_ended (OtherError ''OverflowError'')"
    "dp_jobs (fold dispatcher_round (outage @ later) p) = dp_jobs p"
    "dp_queue (fold dispatcher_round (outage @ later) p) = dp_queue p"
    unfolding f by (simp_all add: p1)
qed

text \<open>The 1024 pauses add up to 8 hours and a half.\<close>

lemma outage_that_ends_the_dispatcher: "sum_list (map (\<lambda>k. min (2 * 2 ^ k) 30) [0 ..< 1024]) = (30630 :: nat)"
proof -
  let ?f = "\<lambda>k :: nat. min (2 * 2 ^ k) (30 :: nat)"
  have flat: "sum_list (map (\<lambda>_. 30) xs) = 30 * length xs" for xs :: "nat list" by (induction xs) simp_all
  have "map ?f [4 ..< 1024] = map (\<lambda>_. 30) [4 ..< 1024]"
  proof (rule map_cong [OF refl])
    fix k :: nat assume "k \<in> set [4 ..< 1024]"
    then have "4 \<le> k" by (simp only: set_upt atLeastLessThan_iff)
    then have "(2 :: nat) ^ 4 \<le> 2 ^ k" by (rule power_increasing) simp
    then show "?f k = 30" by simp
  qed
  then have "sum_list (map ?f [4 ..< 1024]) = 30 * (1024 - 4)" by (simp only: flat length_upt)
  moreover have "sum_list (map ?f [0 ..< 4]) = 30" by (simp add: upt_rec)
  moreover have "[0 ..< 1024] = [0 ..< 4] @ [4 ..< (1024 :: nat)]"
    using upt_add_eq_append [of 0 4 1020] by (simp only: add_0 le0 numeral_plus_numeral add_num_simps)
  ultimately show ?thesis by (simp only: map_append sum_list_append)
qed

definition down :: "nat round_env" where
  "down = \<lparr>ro_enqueue = (\<lambda>q task jid. Inr (q + 1)), ro_db = False, ro_locked = {}, ro_now = 0\<rparr>"

theorem outage_ends_the_dispatcher_witness:
  "dp_loop (fold dispatcher_round (replicate 1025 down @ [down\<lparr>ro_db := True\<rparr>])
     \<lparr>dp_loop = Looping 0, dp_queue = 0, dp_jobs = [], dp_slept = []\<rparr>) = Loop_ended (OtherError ''OverflowError'')"
proof -
  let ?p = "\<lparr>dp_loop = Looping 0, dp_queue = 0, dp_jobs = [], dp_slept = []\<rparr>"
  have "list_all (\<lambda>ro. \<not> ro_db ro) (replicate 1025 down)" by (simp add: list_all_iff down_def)
  then have "1024 < length (replicate 1025 down) \<longrightarrow>
      dp_loop (fold dispatcher_round (replicate 1025 down @ [down\<lparr>ro_db := True\<rparr>]) ?p) = Loop_ended (OtherError ''OverflowError'')"
    using outage_ends_the_dispatcher [of "replicate 1025 down" ?p "[down\<lparr>ro_db := True\<rparr>]"] unfolding dispatch_process.simps by blast
  then show ?thesis by (rule mp) (unfold length_replicate, simp)
qed


section \<open>The checkpointer and the factories of the graph\<close>

text \<open>The state of a process: the installed saver, and what the start-up hook keeps in its context.\<close>

record 's process_state =
  pc_saver :: "'s option"
  pc_saver_open :: bool
  pc_dispatcher :: "loop_state option"
  pc_recovery :: "loop_state option"

definition new_process :: "'s process_state" where
  "new_process = \<lparr>pc_saver = None, pc_saver_open = False, pc_dispatcher = None, pc_recovery = None\<rparr>"

definition set_checkpointer :: "'s option \<Rightarrow> 's process_state \<Rightarrow> 's process_state" where
  "set_checkpointer saver p = p\<lparr>pc_saver := saver\<rparr>"

text \<open>\<open>opened\<close> is the outcome of the connection and of \<open>setup()\<close>; the saver is cleared however the lifetime ends.\<close>

definition enter_checkpointer :: "py_error + 's \<Rightarrow> 's process_state \<Rightarrow> 's process_state result" where
  "enter_checkpointer opened p = (case opened of Inl e \<Rightarrow> Inl e | Inr s \<Rightarrow> Inr (set_checkpointer (Some s) p))"

definition exit_checkpointer :: "'s process_state \<Rightarrow> 's process_state" where
  "exit_checkpointer p = set_checkpointer None p"

text \<open>The lifetime of the API, around what happens in it.\<close>

definition app_lifespan ::
  "string \<Rightarrow> py_error + 's \<Rightarrow> ('s process_state \<Rightarrow> 's process_state) \<Rightarrow> 's process_state \<Rightarrow> 's process_state result" where
  "app_lifespan mode opened serve p =
     (if mode = ''disabled'' then Inr (serve p)
      else bind_result (enter_checkpointer opened p) (\<lambda>p1. Inr (exit_checkpointer (serve p1))))"

record 's compiled_graph =
  cg_nodes :: "string list"
  cg_edges :: "string dict"
  cg_saver :: "'s option"

definition build_graph :: "'s option \<Rightarrow> 's process_state \<Rightarrow> 's compiled_graph" where
  "build_graph checkpointer p =
     \<lparr>cg_nodes = graph_nodes, cg_edges = graph_edges,
      cg_saver = (case checkpointer of None \<Rightarrow> pc_saver p | Some s \<Rightarrow> Some s)\<rparr>"

definition make_graph :: "'s compiled_graph" where
  "make_graph = \<lparr>cg_nodes = graph_nodes, cg_edges = graph_edges, cg_saver = None\<rparr>"

section \<open>Start and end of a worker\<close>

definition worker_functions :: "string list" where
  "worker_functions = [''run_case_pipeline_job'', ''run_whatif_scenario_job'', ''run_stability_computation_job'',
     ''run_gate_job'', ''run_intake_extraction_job'', ''run_document_parse_job'']"

definition job_timeout :: int where "job_timeout = 900"
definition max_jobs :: nat where "max_jobs = 10"
definition reconciliation_minutes :: "nat list" where "reconciliation_minutes = [0, 10, 20, 30, 40, 50]"

definition startup :: "string \<Rightarrow> py_error + 's \<Rightarrow> 's process_state \<Rightarrow> 's process_state result" where
  "startup mode opened p =
     bind_result (if mode = ''disabled'' then Inr p
                  else bind_result (enter_checkpointer opened p) (\<lambda>q. Inr (q\<lparr>pc_saver_open := True\<rparr>)))
       (\<lambda>q. Inr (q\<lparr>pc_dispatcher := Some (Looping 0), pc_recovery := Some (Looping 0)\<rparr>))"

text \<open>A task that is over is not cancelled; what it ended with is logged, and so is a failure to close the saver.\<close>

definition cancel_loop :: "loop_state \<Rightarrow> loop_state" where
  "cancel_loop l = (case l of Looping n \<Rightarrow> Loop_cancelled | _ \<Rightarrow> l)"

definition shutdown :: "'s process_state \<Rightarrow> 's process_state" where
  "shutdown p =
     (let q = p\<lparr>pc_dispatcher := map_option cancel_loop (pc_dispatcher p),
                pc_recovery := map_option cancel_loop (pc_recovery p)\<rparr>
      in if pc_saver_open q then exit_checkpointer q else q)"

text \<open>Every type of job has a task the worker knows, and a job still within its time limit is never taken for stuck.\<close>

lemma every_job_type_has_a_task: "task_by_job_type t \<in> set worker_functions"
  by (cases t) (simp_all add: worker_functions_def)

lemma running_jobs_are_not_stuck: "job_timeout < stuck_threshold_seconds"
  by (simp add: job_timeout_def stuck_threshold_seconds_def)

text \<open>A saver is installed exactly between start and end: the graphs of the runner use it, those of the command line
  never do, a start that fails starts no loop, and after the end no loop runs and no saver is left.\<close>

lemma saver_lives_with_the_process:
  assumes "pc_saver p = None" "mode \<noteq> ''disabled''"
  shows "startup mode (Inl e) p = Inl e"
    and "\<exists>q. startup mode (Inr s) p = Inr q \<and> cg_saver (build_graph None q) = Some s \<and> cg_saver make_graph = None
           \<and> pc_saver (shutdown q) = None
           \<and> pc_dispatcher (shutdown q) = Some Loop_cancelled \<and> pc_recovery (shutdown q) = Some Loop_cancelled"
  using assms
  by (simp_all add: startup_def enter_checkpointer_def exit_checkpointer_def set_checkpointer_def build_graph_def make_graph_def
      shutdown_def cancel_loop_def Let_def)

lemma lifespan_clears_the_saver:
  "mode \<noteq> ''disabled'' \<Longrightarrow> app_lifespan mode (Inr s) serve p = Inr q \<Longrightarrow> pc_saver q = None"
  by (auto simp: app_lifespan_def enter_checkpointer_def exit_checkpointer_def set_checkpointer_def)

section \<open>The watchdog's command line\<close>

text \<open>\<open>--threshold-seconds\<close> and \<open>--dry-run\<close>; the line it logs and its exit code.\<close>

definition watchdog_main :: "int option \<Rightarrow> bool \<Rightarrow> int \<Rightarrow> database \<Rightarrow> database \<times> string \<times> nat" where
  "watchdog_main threshold dry_run now db =
     (case find_and_mark_stuck_cases now (case threshold of None \<Rightarrow> default_threshold_seconds | Some s \<Rightarrow> s) dry_run db of
        (db', ids) \<Rightarrow> (db', ''watchdog complete: '' @ (if dry_run then ''would-mark'' else ''marked'') @ '' ''
                              @ str_of_int (int (length ids)) @ '' case(s)'', 0))"

lemma dry_run_changes_nothing: "fst (watchdog_main threshold True now db) = db"
  by (simp add: watchdog_main_def find_and_mark_stuck_cases_def Let_def)

end
