(* ===== verification/Event_Schema.thy ===== *)
theory Event_Schema
  imports Agent_Node "HOL-Library.Monad_Syntax"
begin

text \<open>
  The schema of the events a browser receives (\<open>api/schemas/pipeline_events.py\<close>): one record per event
  class, its JSON form, the validation of a payload against each class of the union, the recorded wire
  fixtures (\<open>scripts/capture_sse_goldens.py\<close>), and what of the events the program sends fits the union.
  The readers of keys, times and decimal text are Pydantic's.
\<close>

named_theorems event_defs \<open>readers and dumps of the event classes\<close>

section \<open>Readers of fields\<close>

record event_readers =
  rd_uuid :: "pyval \<Rightarrow> uuid option"
  rd_datetime :: "pyval \<Rightarrow> int option"
  rd_int :: "string \<Rightarrow> int option"

text \<open>A required field, a field with a default, and a field that may be \<open>null\<close>, which is also its default.\<close>

definition required :: "pydict \<Rightarrow> string \<Rightarrow> (pyval \<Rightarrow> 'a option) \<Rightarrow> 'a option" where
  "required d k rd = (case map_of d k of None \<Rightarrow> None | Some v \<Rightarrow> rd v)"

definition defaulted :: "pydict \<Rightarrow> string \<Rightarrow> 'a \<Rightarrow> (pyval \<Rightarrow> 'a option) \<Rightarrow> 'a option" where
  "defaulted d k dflt rd = (case map_of d k of None \<Rightarrow> Some dflt | Some v \<Rightarrow> rd v)"

definition nullable :: "(pyval \<Rightarrow> 'a option) \<Rightarrow> pyval \<Rightarrow> 'a option option" where
  "nullable rd v = (if v = PNone then Some None else map_option Some (rd v))"

definition optional :: "pydict \<Rightarrow> string \<Rightarrow> (pyval \<Rightarrow> 'a option) \<Rightarrow> 'a option option" where
  "optional d k rd = defaulted d k None (nullable rd)"

definition read_str :: "pyval \<Rightarrow> string option" where
  "read_str v = (case v of PStr s \<Rightarrow> Some s | _ \<Rightarrow> None)"

definition read_dict :: "pyval \<Rightarrow> pydict option" where
  "read_dict v = (case v of PDict d \<Rightarrow> Some d | _ \<Rightarrow> None)"

fun read_strs :: "pyval \<Rightarrow> string list option" where
  "read_strs (PList vs) = those (map read_str vs)"
| "read_strs _ = None"

text \<open>An \<open>int\<close> field takes a truth value, a whole float and decimal text as well.\<close>

definition lax_int :: "event_readers \<Rightarrow> pyval \<Rightarrow> int option" where
  "lax_int r v = (case v of
     PInt i \<Rightarrow> Some i | PBool b \<Rightarrow> Some (if b then 1 else 0)
   | PFloat x \<Rightarrow> if of_int \<lfloor>x\<rfloor> = x then Some \<lfloor>x\<rfloor> else None
   | PStr s \<Rightarrow> rd_int r s | _ \<Rightarrow> None)"

definition read_step :: "event_readers \<Rightarrow> pyval \<Rightarrow> int option" where
  "read_step r v = (case lax_int r v of Some i \<Rightarrow> if 1 \<le> i \<and> i \<le> 9 then Some i else None | None \<Rightarrow> None)"

definition literal :: "string list \<Rightarrow> pyval \<Rightarrow> string option" where
  "literal options v = (case v of PStr s \<Rightarrow> if s \<in> set options then Some s else None | _ \<Rightarrow> None)"

definition version_one :: "pyval \<Rightarrow> unit option" where
  "version_one v = (if v = PInt 1 then Some () else None)"

text \<open>The tag of a class, \<open>kind\<close>, and \<open>schema_version\<close> have defaults in every class.\<close>

definition tagged :: "string \<Rightarrow> pydict \<Rightarrow> unit option" where
  "tagged kind d =
     do { _ \<leftarrow> defaulted d ''kind'' kind (literal [kind]); defaulted d ''schema_version'' () version_one }"

section \<open>The classes of the union\<close>

definition progress_phases :: "string list" where
  "progress_phases = [''started'', ''completed'', ''failed'', ''terminal'', ''awaiting_review'', ''cancelled'']"

definition agent_event_names :: "string list" where
  "agent_event_names = [''thinking'', ''tool_call'', ''tool_result'', ''llm_response'', ''agent_completed'']"

definition gate_ids :: "string list" where "gate_ids = [''gate1'', ''gate2'', ''gate3'', ''gate4'']"

record agent_event =
  gv_case :: string
  gv_agent :: string
  gv_event :: string
  gv_content :: "string option"
  gv_tool_name :: "string option"
  gv_args :: "pydict option"
  gv_result :: "string option"
  gv_ts :: string
  gv_trace_id :: "string option"

record agent_failed_event =
  fv_case :: string
  fv_agent :: string
  fv_error_class :: string
  fv_ts :: string
  fv_trace_id :: "string option"

record llm_token_event =
  tv_case :: string
  tv_agent :: string
  tv_phase :: string
  tv_message_id :: string
  tv_delta :: string
  tv_ts :: string
  tv_trace_id :: "string option"

record tool_call_delta_event =
  dv_case :: string
  dv_agent :: string
  dv_phase :: string
  dv_tool_call_id :: string
  dv_name :: string
  dv_args_delta :: string
  dv_ts :: string
  dv_trace_id :: "string option"

record structured_artifact_event =
  sv_case :: string
  sv_agent :: string
  sv_phase :: string
  sv_artifact :: pydict
  sv_ts :: string
  sv_trace_id :: "string option"

record narration_event =
  nv_case :: string
  nv_agent :: string
  nv_content :: string
  nv_chunk_index :: int
  nv_ts :: string
  nv_trace_id :: "string option"

record awaiting_input_event =
  wv_case :: uuid
  wv_agent :: string
  wv_question :: string
  wv_interrupt_id :: string
  wv_ts :: int
  wv_trace_id :: "string option"

record agent_resumed_event =
  rv_case :: string
  rv_agent :: string
  rv_interrupt_id :: string
  rv_ts :: string
  rv_trace_id :: "string option"

record interrupt_event =
  iv_case :: uuid
  iv_gate :: string
  iv_actions :: "string list"
  iv_phase_output :: "pydict option"
  iv_audit_summary :: "pydict option"
  iv_trace_id :: "string option"
  iv_ts :: int

record heartbeat_event_frame =
  hv_ts :: int
  hv_trace_id :: "string option"

datatype event_frame =
    Progress_frame progress_event
  | Agent_frame agent_event
  | Failed_frame agent_failed_event
  | Token_frame llm_token_event
  | Delta_frame tool_call_delta_event
  | Artifact_frame structured_artifact_event
  | Narration_frame narration_event
  | Awaiting_frame awaiting_input_event
  | Resumed_frame agent_resumed_event
  | Interrupt_frame interrupt_event
  | Heartbeat_frame heartbeat_event_frame
  | Expiry_frame int


section \<open>Validation and dump of each class\<close>

definition read_progress :: "event_readers \<Rightarrow> pydict \<Rightarrow> progress_event option" where
  "read_progress r d = do {
     _ \<leftarrow> tagged ''progress'' d;
     c \<leftarrow> required d ''case_id'' (rd_uuid r);
     a \<leftarrow> required d ''agent'' read_str;
     p \<leftarrow> required d ''phase'' (literal progress_phases);
     step \<leftarrow> optional d ''step'' (read_step r);
     total \<leftarrow> defaulted d ''total'' 9 (lax_int r);
     ts \<leftarrow> required d ''ts'' (rd_datetime r);
     err \<leftarrow> optional d ''error'' read_str;
     det \<leftarrow> optional d ''detail'' read_dict;
     tr \<leftarrow> optional d ''trace_id'' read_str;
     Some \<lparr>pv_case = c, pv_agent = a, pv_phase = p, pv_step = step, pv_total = total, pv_ts = ts, pv_error = err,
           pv_detail = det, pv_trace_id = tr\<rparr> }"

definition read_agent :: "pydict \<Rightarrow> agent_event option" where
  "read_agent d = do {
     _ \<leftarrow> tagged ''agent'' d;
     c \<leftarrow> required d ''case_id'' read_str;
     a \<leftarrow> required d ''agent'' read_str;
     e \<leftarrow> required d ''event'' (literal agent_event_names);
     con \<leftarrow> optional d ''content'' read_str;
     tool \<leftarrow> optional d ''tool_name'' read_str;
     args \<leftarrow> optional d ''args'' read_dict;
     res \<leftarrow> optional d ''result'' read_str;
     ts \<leftarrow> required d ''ts'' read_str;
     tr \<leftarrow> optional d ''trace_id'' read_str;
     Some \<lparr>gv_case = c, gv_agent = a, gv_event = e, gv_content = con, gv_tool_name = tool, gv_args = args,
           gv_result = res, gv_ts = ts, gv_trace_id = tr\<rparr> }"

definition read_agent_failed :: "pydict \<Rightarrow> agent_failed_event option" where
  "read_agent_failed d = do {
     _ \<leftarrow> tagged ''agent'' d;
     c \<leftarrow> required d ''case_id'' read_str;
     a \<leftarrow> required d ''agent'' read_str;
     _ \<leftarrow> required d ''event'' (literal [''agent_failed'']);
     cls \<leftarrow> required d ''error_class'' read_str;
     ts \<leftarrow> required d ''ts'' read_str;
     tr \<leftarrow> optional d ''trace_id'' read_str;
     Some \<lparr>fv_case = c, fv_agent = a, fv_error_class = cls, fv_ts = ts, fv_trace_id = tr\<rparr> }"

definition read_llm_token :: "pydict \<Rightarrow> llm_token_event option" where
  "read_llm_token d = do {
     _ \<leftarrow> tagged ''agent'' d;
     c \<leftarrow> required d ''case_id'' read_str;
     a \<leftarrow> required d ''agent'' read_str;
     ph \<leftarrow> required d ''phase'' read_str;
     _ \<leftarrow> required d ''event'' (literal [''llm_token'']);
     m \<leftarrow> required d ''message_id'' read_str;
     del \<leftarrow> required d ''delta'' read_str;
     ts \<leftarrow> required d ''ts'' read_str;
     tr \<leftarrow> optional d ''trace_id'' read_str;
     Some \<lparr>tv_case = c, tv_agent = a, tv_phase = ph, tv_message_id = m, tv_delta = del, tv_ts = ts, tv_trace_id = tr\<rparr> }"

definition read_tool_call_delta :: "pydict \<Rightarrow> tool_call_delta_event option" where
  "read_tool_call_delta d = do {
     _ \<leftarrow> tagged ''agent'' d;
     c \<leftarrow> required d ''case_id'' read_str;
     a \<leftarrow> required d ''agent'' read_str;
     ph \<leftarrow> required d ''phase'' read_str;
     _ \<leftarrow> required d ''event'' (literal [''tool_call_delta'']);
     i \<leftarrow> required d ''tool_call_id'' read_str;
     n \<leftarrow> required d ''name'' read_str;
     del \<leftarrow> required d ''args_delta'' read_str;
     ts \<leftarrow> required d ''ts'' read_str;
     tr \<leftarrow> optional d ''trace_id'' read_str;
     Some \<lparr>dv_case = c, dv_agent = a, dv_phase = ph, dv_tool_call_id = i, dv_name = n, dv_args_delta = del,
           dv_ts = ts, dv_trace_id = tr\<rparr> }"

definition read_structured_artifact :: "pydict \<Rightarrow> structured_artifact_event option" where
  "read_structured_artifact d = do {
     _ \<leftarrow> tagged ''agent'' d;
     c \<leftarrow> required d ''case_id'' read_str;
     a \<leftarrow> required d ''agent'' read_str;
     ph \<leftarrow> required d ''phase'' read_str;
     _ \<leftarrow> required d ''event'' (literal [''structured_artifact'']);
     art \<leftarrow> required d ''artifact'' read_dict;
     ts \<leftarrow> required d ''ts'' read_str;
     tr \<leftarrow> optional d ''trace_id'' read_str;
     Some \<lparr>sv_case = c, sv_agent = a, sv_phase = ph, sv_artifact = art, sv_ts = ts, sv_trace_id = tr\<rparr> }"

definition read_narration :: "event_readers \<Rightarrow> pydict \<Rightarrow> narration_event option" where
  "read_narration r d = do {
     _ \<leftarrow> tagged ''narration'' d;
     c \<leftarrow> required d ''case_id'' read_str;
     a \<leftarrow> required d ''agent'' read_str;
     con \<leftarrow> required d ''content'' read_str;
     i \<leftarrow> defaulted d ''chunk_index'' 0 (lax_int r);
     ts \<leftarrow> required d ''ts'' read_str;
     tr \<leftarrow> optional d ''trace_id'' read_str;
     Some \<lparr>nv_case = c, nv_agent = a, nv_content = con, nv_chunk_index = i, nv_ts = ts, nv_trace_id = tr\<rparr> }"

definition read_awaiting_input :: "event_readers \<Rightarrow> pydict \<Rightarrow> awaiting_input_event option" where
  "read_awaiting_input r d = do {
     _ \<leftarrow> tagged ''interrupt'' d;
     c \<leftarrow> required d ''case_id'' (rd_uuid r);
     a \<leftarrow> required d ''agent'' read_str;
     q \<leftarrow> required d ''question'' read_str;
     i \<leftarrow> required d ''interrupt_id'' read_str;
     ts \<leftarrow> required d ''ts'' (rd_datetime r);
     tr \<leftarrow> optional d ''trace_id'' read_str;
     Some \<lparr>wv_case = c, wv_agent = a, wv_question = q, wv_interrupt_id = i, wv_ts = ts, wv_trace_id = tr\<rparr> }"

definition read_agent_resumed :: "pydict \<Rightarrow> agent_resumed_event option" where
  "read_agent_resumed d = do {
     _ \<leftarrow> tagged ''agent'' d;
     c \<leftarrow> required d ''case_id'' read_str;
     a \<leftarrow> required d ''agent'' read_str;
     _ \<leftarrow> required d ''event'' (literal [''agent_resumed'']);
     i \<leftarrow> required d ''interrupt_id'' read_str;
     ts \<leftarrow> required d ''ts'' read_str;
     tr \<leftarrow> optional d ''trace_id'' read_str;
     Some \<lparr>rv_case = c, rv_agent = a, rv_interrupt_id = i, rv_ts = ts, rv_trace_id = tr\<rparr> }"

definition read_interrupt :: "event_readers \<Rightarrow> pydict \<Rightarrow> interrupt_event option" where
  "read_interrupt r d = do {
     _ \<leftarrow> tagged ''interrupt'' d;
     c \<leftarrow> required d ''case_id'' (rd_uuid r);
     g \<leftarrow> required d ''gate'' (literal gate_ids);
     as \<leftarrow> required d ''actions'' read_strs;
     po \<leftarrow> optional d ''phase_output'' read_dict;
     au \<leftarrow> optional d ''audit_summary'' read_dict;
     tr \<leftarrow> optional d ''trace_id'' read_str;
     ts \<leftarrow> required d ''ts'' (rd_datetime r);
     Some \<lparr>iv_case = c, iv_gate = g, iv_actions = as, iv_phase_output = po, iv_audit_summary = au, iv_trace_id = tr,
           iv_ts = ts\<rparr> }"

definition read_heartbeat :: "event_readers \<Rightarrow> pydict \<Rightarrow> heartbeat_event_frame option" where
  "read_heartbeat r d = do {
     _ \<leftarrow> tagged ''heartbeat'' d;
     ts \<leftarrow> required d ''ts'' (rd_datetime r);
     tr \<leftarrow> optional d ''trace_id'' read_str;
     Some \<lparr>hv_ts = ts, hv_trace_id = tr\<rparr> }"

definition read_auth_expiring :: "event_readers \<Rightarrow> pydict \<Rightarrow> int option" where
  "read_auth_expiring r d = do { _ \<leftarrow> tagged ''auth_expiring'' d; required d ''expires_at'' (rd_datetime r) }"

fun somes :: "'a option list \<Rightarrow> 'a list" where
  "somes [] = []"
| "somes (x # xs) = (case x of None \<Rightarrow> [] | Some y \<Rightarrow> [y]) @ somes xs"

text \<open>The members of the union that accept a payload, in the order the union lists them.\<close>

definition event_members :: "event_readers \<Rightarrow> pydict \<Rightarrow> event_frame list" where
  "event_members r d = somes
     [map_option Progress_frame (read_progress r d), map_option Agent_frame (read_agent d),
      map_option Failed_frame (read_agent_failed d), map_option Token_frame (read_llm_token d),
      map_option Delta_frame (read_tool_call_delta d), map_option Artifact_frame (read_structured_artifact d),
      map_option Narration_frame (read_narration r d), map_option Awaiting_frame (read_awaiting_input r d),
      map_option Resumed_frame (read_agent_resumed d), map_option Interrupt_frame (read_interrupt r d),
      map_option Heartbeat_frame (read_heartbeat r d), map_option Expiry_frame (read_auth_expiring r d)]"

text \<open>The JSON form of an event, \<open>model_dump(mode="json")\<close>.\<close>

fun dump_event :: "date_texts \<Rightarrow> event_frame \<Rightarrow> pydict" where
  "dump_event dt (Progress_frame e) = dump_progress dt e"
| "dump_event dt (Agent_frame e) =
     [(''kind'', PStr ''agent''), (''schema_version'', PInt 1), (''case_id'', PStr (gv_case e)),
      (''agent'', PStr (gv_agent e)), (''event'', PStr (gv_event e)), (''content'', opt_str (gv_content e)),
      (''tool_name'', opt_str (gv_tool_name e)), (''args'', dump_opt PDict (gv_args e)),
      (''result'', opt_str (gv_result e)), (''ts'', PStr (gv_ts e)), (''trace_id'', opt_str (gv_trace_id e))]"
| "dump_event dt (Failed_frame e) =
     [(''kind'', PStr ''agent''), (''schema_version'', PInt 1), (''case_id'', PStr (fv_case e)),
      (''agent'', PStr (fv_agent e)), (''event'', PStr ''agent_failed''), (''error_class'', PStr (fv_error_class e)),
      (''ts'', PStr (fv_ts e)), (''trace_id'', opt_str (fv_trace_id e))]"
| "dump_event dt (Token_frame e) =
     [(''kind'', PStr ''agent''), (''schema_version'', PInt 1), (''case_id'', PStr (tv_case e)),
      (''agent'', PStr (tv_agent e)), (''phase'', PStr (tv_phase e)), (''event'', PStr ''llm_token''),
      (''message_id'', PStr (tv_message_id e)), (''delta'', PStr (tv_delta e)), (''ts'', PStr (tv_ts e)),
      (''trace_id'', opt_str (tv_trace_id e))]"
| "dump_event dt (Delta_frame e) =
     [(''kind'', PStr ''agent''), (''schema_version'', PInt 1), (''case_id'', PStr (dv_case e)),
      (''agent'', PStr (dv_agent e)), (''phase'', PStr (dv_phase e)), (''event'', PStr ''tool_call_delta''),
      (''tool_call_id'', PStr (dv_tool_call_id e)), (''name'', PStr (dv_name e)),
      (''args_delta'', PStr (dv_args_delta e)), (''ts'', PStr (dv_ts e)), (''trace_id'', opt_str (dv_trace_id e))]"
| "dump_event dt (Artifact_frame e) =
     [(''kind'', PStr ''agent''), (''schema_version'', PInt 1), (''case_id'', PStr (sv_case e)),
      (''agent'', PStr (sv_agent e)), (''phase'', PStr (sv_phase e)), (''event'', PStr ''structured_artifact''),
      (''artifact'', PDict (sv_artifact e)), (''ts'', PStr (sv_ts e)), (''trace_id'', opt_str (sv_trace_id e))]"
| "dump_event dt (Narration_frame e) =
     [(''kind'', PStr ''narration''), (''schema_version'', PInt 1), (''case_id'', PStr (nv_case e)),
      (''agent'', PStr (nv_agent e)), (''content'', PStr (nv_content e)), (''chunk_index'', PInt (nv_chunk_index e)),
      (''ts'', PStr (nv_ts e)), (''trace_id'', opt_str (nv_trace_id e))]"
| "dump_event dt (Awaiting_frame e) =
     [(''kind'', PStr ''interrupt''), (''schema_version'', PInt 1), (''case_id'', PStr (wv_case e)),
      (''agent'', PStr (wv_agent e)), (''question'', PStr (wv_question e)), (''interrupt_id'', PStr (wv_interrupt_id e)),
      (''ts'', PStr (dt_datetime dt (wv_ts e))), (''trace_id'', opt_str (wv_trace_id e))]"
| "dump_event dt (Resumed_frame e) =
     [(''kind'', PStr ''agent''), (''schema_version'', PInt 1), (''case_id'', PStr (rv_case e)),
      (''agent'', PStr (rv_agent e)), (''event'', PStr ''agent_resumed''), (''interrupt_id'', PStr (rv_interrupt_id e)),
      (''ts'', PStr (rv_ts e)), (''trace_id'', opt_str (rv_trace_id e))]"
| "dump_event dt (Interrupt_frame e) =
     [(''kind'', PStr ''interrupt''), (''schema_version'', PInt 1), (''case_id'', PStr (iv_case e)),
      (''gate'', PStr (iv_gate e)), (''actions'', dump_strs (iv_actions e)),
      (''phase_output'', dump_opt PDict (iv_phase_output e)), (''audit_summary'', dump_opt PDict (iv_audit_summary e)),
      (''trace_id'', opt_str (iv_trace_id e)), (''ts'', PStr (dt_datetime dt (iv_ts e)))]"
| "dump_event dt (Heartbeat_frame e) =
     [(''kind'', PStr ''heartbeat''), (''schema_version'', PInt 1), (''ts'', PStr (dt_datetime dt (hv_ts e))),
      (''trace_id'', opt_str (hv_trace_id e))]"
| "dump_event dt (Expiry_frame t) =
     [(''kind'', PStr ''auth_expiring''), (''schema_version'', PInt 1), (''expires_at'', PStr (dt_datetime dt t))]"

fun frame_kind :: "event_frame \<Rightarrow> string" where
  "frame_kind (Progress_frame _) = ''progress''"
| "frame_kind (Narration_frame _) = ''narration''"
| "frame_kind (Awaiting_frame _) = ''interrupt''"
| "frame_kind (Interrupt_frame _) = ''interrupt''"
| "frame_kind (Heartbeat_frame _) = ''heartbeat''"
| "frame_kind (Expiry_frame _) = ''auth_expiring''"
| "frame_kind _ = ''agent''"

text \<open>What the types of the fields promise of an event: its literals, its bound on \<open>step\<close>, its keys in canonical form.\<close>

fun event_ok :: "(uuid \<Rightarrow> bool) \<Rightarrow> event_frame \<Rightarrow> bool" where
  "event_ok canonical (Progress_frame e) \<longleftrightarrow> canonical (pv_case e) \<and> pv_phase e \<in> set progress_phases
     \<and> (case pv_step e of None \<Rightarrow> True | Some i \<Rightarrow> 1 \<le> i \<and> i \<le> 9)"
| "event_ok canonical (Agent_frame e) \<longleftrightarrow> gv_event e \<in> set agent_event_names"
| "event_ok canonical (Awaiting_frame e) \<longleftrightarrow> canonical (wv_case e)"
| "event_ok canonical (Interrupt_frame e) \<longleftrightarrow> canonical (iv_case e) \<and> iv_gate e \<in> set gate_ids"
| "event_ok canonical _ \<longleftrightarrow> True"


section \<open>Properties of the schema\<close>

lemmas reading =
  required_def defaulted_def optional_def nullable_def read_str_def read_dict_def lax_int_def read_step_def
  literal_def version_one_def tagged_def dump_opt_def opt_str_def dump_strs_def

lemma those_strs: "those (map read_str (map PStr xs)) = Some xs"
  by (induction xs) (simp_all add: read_str_def)

lemma optional_dumps [event_defs]:
  "map_of d k = Some (opt_str x) \<Longrightarrow> optional d k read_str = Some x"
  "map_of d k = Some (dump_opt PDict y) \<Longrightarrow> optional d k read_dict = Some y"
  by (auto simp: reading split: option.splits)

lemma required_dumps [event_defs]:
  "map_of d k = Some (PStr s) \<Longrightarrow> required d k read_str = Some s"
  "map_of d k = Some (PDict e) \<Longrightarrow> required d k read_dict = Some e"
  "map_of d k = Some (PStr s) \<Longrightarrow> s \<in> set options \<Longrightarrow> required d k (literal options) = Some s"
  "map_of d k = Some (dump_strs xs) \<Longrightarrow> required d k read_strs = Some xs"
  using those_strs [of xs] by (simp_all add: reading)

text \<open>A payload is refused by the classes of another tag, and by those of another event name.\<close>

lemma tagged_of [event_defs]:
  "map_of d ''kind'' = Some (PStr k) \<Longrightarrow> map_of d ''schema_version'' = Some (PInt 1) \<Longrightarrow> tagged k d = Some ()"
  by (simp add: reading)

lemma tagged_other [event_defs]: "map_of d ''kind'' = Some v \<Longrightarrow> v \<noteq> PStr k \<Longrightarrow> tagged k d = None"
  by (auto simp: reading split: pyval.splits)

lemma literal_other [event_defs]:
  "map_of d k = Some v \<Longrightarrow> v \<notin> PStr ` set options \<Longrightarrow> required d k (literal options) = None"
  by (auto simp: reading split: pyval.splits)

lemma required_absent [event_defs]: "map_of d k = None \<Longrightarrow> required d k rd = None"
  by (simp add: required_def)

lemmas readers =
  read_progress_def read_agent_def read_agent_failed_def read_llm_token_def read_tool_call_delta_def
  read_structured_artifact_def read_narration_def read_awaiting_input_def read_agent_resumed_def read_interrupt_def
  read_heartbeat_def read_auth_expiring_def


lemma required_parsed [event_defs]:
  "map_of d k = Some v \<Longrightarrow> required d k (rd_uuid r) = rd_uuid r v"
  "map_of d k = Some v \<Longrightarrow> required d k (rd_datetime r) = rd_datetime r v"
  by (simp_all add: required_def)

lemma numbers_dump [event_defs]:
  "map_of d k = Some (PInt i) \<Longrightarrow> defaulted d k dflt (lax_int r) = Some i"
  "map_of d k = Some (dump_opt PInt x) \<Longrightarrow> (case x of None \<Rightarrow> True | Some i \<Rightarrow> 1 \<le> i \<and> i \<le> 9)
   \<Longrightarrow> optional d k (read_step r) = Some x"
  by (auto simp: reading split: option.splits)

lemmas member_defs = event_members_def readers event_defs progress_phases_def agent_event_names_def gate_ids_def

text \<open>A payload that names its kind is accepted by one class at most, unless it is a pause of a gate and a
  question of an agent at once: for all others it makes no difference in which order the union is tried.\<close>

lemma members_by_kind:
  assumes "map_of d ''kind'' = Some v"
  shows "v = PStr ''progress'' \<Longrightarrow> event_members r d = somes [map_option Progress_frame (read_progress r d)]"
    and "v = PStr ''narration'' \<Longrightarrow> event_members r d = somes [map_option Narration_frame (read_narration r d)]"
    and "v = PStr ''heartbeat'' \<Longrightarrow> event_members r d = somes [map_option Heartbeat_frame (read_heartbeat r d)]"
    and "v = PStr ''auth_expiring'' \<Longrightarrow> event_members r d = somes [map_option Expiry_frame (read_auth_expiring r d)]"
    and "v = PStr ''interrupt'' \<Longrightarrow> event_members r d = somes
      [map_option Awaiting_frame (read_awaiting_input r d), map_option Interrupt_frame (read_interrupt r d)]"
    and "v = PStr ''agent'' \<Longrightarrow> event_members r d = somes
      [map_option Agent_frame (read_agent d), map_option Failed_frame (read_agent_failed d),
       map_option Token_frame (read_llm_token d), map_option Delta_frame (read_tool_call_delta d),
       map_option Artifact_frame (read_structured_artifact d), map_option Resumed_frame (read_agent_resumed d)]"
    and "v \<notin> PStr ` set [''progress'', ''narration'', ''heartbeat'', ''auth_expiring'', ''interrupt'', ''agent''] \<Longrightarrow> event_members r d = []"
  using assms by (simp_all add: event_members_def readers tagged_other)

text \<open>Events with the tag \<open>agent\<close> are told apart by their name.\<close>

lemma agent_readers:
  "pget d ''event'' \<notin> PStr ` set agent_event_names \<Longrightarrow> read_agent d = None"
  "pget d ''event'' \<noteq> PStr ''agent_failed'' \<Longrightarrow> read_agent_failed d = None"
  "pget d ''event'' \<noteq> PStr ''llm_token'' \<Longrightarrow> read_llm_token d = None"
  "pget d ''event'' \<noteq> PStr ''tool_call_delta'' \<Longrightarrow> read_tool_call_delta d = None"
  "pget d ''event'' \<noteq> PStr ''structured_artifact'' \<Longrightarrow> read_structured_artifact d = None"
  "pget d ''event'' \<noteq> PStr ''agent_resumed'' \<Longrightarrow> read_agent_resumed d = None"
proof -
  have none: "required d ''event'' (literal L) = None" if "pget d ''event'' \<notin> PStr ` set L" for L
    using that by (auto simp: reading pget_def split: option.splits pyval.splits)
  show "pget d ''event'' \<notin> PStr ` set agent_event_names \<Longrightarrow> read_agent d = None"
    by (simp add: read_agent_def none)
  show "pget d ''event'' \<noteq> PStr ''agent_failed'' \<Longrightarrow> read_agent_failed d = None"
    using none [of "[''agent_failed'']"] by (simp add: read_agent_failed_def)
  show "pget d ''event'' \<noteq> PStr ''llm_token'' \<Longrightarrow> read_llm_token d = None"
    using none [of "[''llm_token'']"] by (simp add: read_llm_token_def)
  show "pget d ''event'' \<noteq> PStr ''tool_call_delta'' \<Longrightarrow> read_tool_call_delta d = None"
    using none [of "[''tool_call_delta'']"] by (simp add: read_tool_call_delta_def)
  show "pget d ''event'' \<noteq> PStr ''structured_artifact'' \<Longrightarrow> read_structured_artifact d = None"
    using none [of "[''structured_artifact'']"] by (simp add: read_structured_artifact_def)
  show "pget d ''event'' \<noteq> PStr ''agent_resumed'' \<Longrightarrow> read_agent_resumed d = None"
    using none [of "[''agent_resumed'']"] by (simp add: read_agent_resumed_def)
qed

lemma agent_members:
  assumes "map_of d ''kind'' = Some (PStr ''agent'')"
  shows "pget d ''event'' \<in> PStr ` set agent_event_names \<Longrightarrow> event_members r d = somes [map_option Agent_frame (read_agent d)]"
    and "pget d ''event'' = PStr ''agent_failed'' \<Longrightarrow> event_members r d = somes [map_option Failed_frame (read_agent_failed d)]"
    and "pget d ''event'' = PStr ''llm_token'' \<Longrightarrow> event_members r d = somes [map_option Token_frame (read_llm_token d)]"
    and "pget d ''event'' = PStr ''tool_call_delta'' \<Longrightarrow> event_members r d = somes [map_option Delta_frame (read_tool_call_delta d)]"
    and "pget d ''event'' = PStr ''structured_artifact'' \<Longrightarrow>
      event_members r d = somes [map_option Artifact_frame (read_structured_artifact d)]"
    and "pget d ''event'' = PStr ''agent_resumed'' \<Longrightarrow> event_members r d = somes [map_option Resumed_frame (read_agent_resumed d)]"
    and "pget d ''event'' \<notin> PStr ` set (agent_event_names @ [''agent_failed'', ''llm_token'', ''tool_call_delta'',
           ''structured_artifact'', ''agent_resumed'']) \<Longrightarrow> event_members r d = []"
  unfolding members_by_kind(6) [OF assms refl]
  by (auto simp: agent_readers agent_event_names_def)

lemma agent_single:
  assumes "map_of d ''kind'' = Some (PStr ''agent'')"
  shows "length (event_members r d) \<le> 1"
proof -
  consider "pget d ''event'' \<in> PStr ` set agent_event_names" | "pget d ''event'' = PStr ''agent_failed''"
    | "pget d ''event'' = PStr ''llm_token''" | "pget d ''event'' = PStr ''tool_call_delta''"
    | "pget d ''event'' = PStr ''structured_artifact''" | "pget d ''event'' = PStr ''agent_resumed''"
    | "pget d ''event'' \<notin> PStr ` set (agent_event_names @ [''agent_failed'', ''llm_token'', ''tool_call_delta'',
         ''structured_artifact'', ''agent_resumed''])" by auto
  then show ?thesis using agent_members [OF assms, of r] by cases (simp_all split: option.split)
qed

lemma interrupt_members:
  assumes "map_of d ''kind'' = Some (PStr ''interrupt'')" "\<not> (dict_has ''gate'' d \<and> dict_has ''question'' d)"
  shows "length (event_members r d) \<le> 1"
proof -
  have "read_awaiting_input r d = None \<or> read_interrupt r d = None"
    using assms(2)
    by (auto simp: dict_has_map_of read_awaiting_input_def read_interrupt_def required_absent Option.bind_eq_None_conv)
  then show ?thesis unfolding members_by_kind(5) [OF assms(1) refl]
    by (cases "read_awaiting_input r d"; cases "read_interrupt r d") simp_all
qed

lemma one_event_one_member:
  assumes "dict_has ''kind'' d" "\<not> (dict_has ''gate'' d \<and> dict_has ''question'' d)"
  shows "length (event_members r d) \<le> 1"
proof -
  obtain v where v: "map_of d ''kind'' = Some v" using assms(1) by (auto simp: dict_has_map_of)
  have single: "length (somes [y]) \<le> 1" for y :: "event_frame option" by (cases y) simp_all
  consider "v = PStr ''agent''" | "v = PStr ''interrupt''" | "v = PStr ''progress''" | "v = PStr ''narration''"
    | "v = PStr ''heartbeat''" | "v = PStr ''auth_expiring''"
    | "v \<notin> PStr ` set [''progress'', ''narration'', ''heartbeat'', ''auth_expiring'', ''interrupt'', ''agent'']" by auto
  then show ?thesis
    using members_by_kind [OF v, of r] single agent_single [of d r] interrupt_members [of d r] assms(2) v
    by cases (simp_all split: option.split)
qed


lemma event_schema_of_progress:
  assumes "\<And>t. rd_datetime r (PStr (dt_datetime dt t)) = Some t" "\<And>c. canonical c \<Longrightarrow> rd_uuid r (PStr c) = Some c"
    and "event_ok canonical (Progress_frame p)"
  shows "read_progress r (dump_progress dt p) = Some p" "event_members r (dump_progress dt p) = [Progress_frame p]"
proof -
  show r: "read_progress r (dump_progress dt p) = Some p"
    using assms(3) by (simp add: read_progress_def event_defs dump_progress_def assms(1,2))
  show "event_members r (dump_progress dt p) = [Progress_frame p]"
    using members_by_kind(1) [of "dump_progress dt p" _ r] r by (simp add: dump_progress_def)
qed


section \<open>The events of an agent node\<close>

text \<open>What \<open>publish_agent_event\<close> puts on the wire for an event of an agent.\<close>

definition stamped :: "string option \<Rightarrow> pydict \<Rightarrow> pydict" where
  "stamped trace event =
     (let s = dict_merge [(''kind'', PStr ''agent''), (''schema_version'', PInt 1)] event
      in if dict_has ''trace_id'' s then s else dict_set ''trace_id'' (opt_str trace) s)"

lemma publish_sends_stamped:
  "publish_agent_event pe cid event = send_event pe cid (stamped (pe_trace pe) event)"
  by (simp add: fun_eq_iff publish_agent_event_def stamped_def trace_value_def Let_def)

abbreviation framed :: "string \<Rightarrow> string \<Rightarrow> pydict \<Rightarrow> string \<Rightarrow> pydict" where
  "framed cid agent body ts \<equiv> [(''case_id'', PStr cid), (''agent'', PStr agent)] @ body @ [(''ts'', PStr ts)]"

text \<open>An event fits if one class of the union accepts it; an \<open>llm_chunk\<close> is the exception.\<close>

definition event_fits :: "event_readers \<Rightarrow> string option \<Rightarrow> bool \<Rightarrow> pydict \<Rightarrow> bool" where
  "event_fits r trace chunks ev \<longleftrightarrow>
     (if pget ev ''event'' = PStr ''llm_chunk'' then chunks \<and> event_members r (stamped trace ev) = []
      else length (event_members r (stamped trace ev)) = 1)"

lemmas frame_simps = event_fits_def stamped_def dict_has_def pget_def

lemma token_fits: "event_fits r tr ch (framed cid a (token_fields ph m t) ts)"
  by (simp add: frame_simps token_fields_def agent_members(3) read_llm_token_def event_defs)

lemma chunk_misfits: "event_fits r tr True (framed cid a [(''event'', PStr ''llm_chunk''), (''delta'', PStr t)] ts)"
  by (simp add: frame_simps agent_members(7) agent_event_names_def)

lemma failure_fits: "event_fits r tr ch (framed cid a (agent_failed_fields e) ts)"
  by (simp add: frame_simps agent_failed_fields_def agent_members(2) read_agent_failed_def event_defs)

lemma artifact_fits:
  "event_fits r tr ch (framed cid a [(''phase'', PStr ph), (''event'', PStr ''structured_artifact''), (''artifact'', PDict art)] ts)"
  by (simp add: frame_simps agent_members(5) read_structured_artifact_def event_defs)

lemma delta_fits:
  "event_fits r tr ch (framed cid a [(''phase'', PStr ph), (''event'', PStr ''tool_call_delta''), (''tool_call_id'', PStr i),
     (''name'', PStr n), (''args_delta'', PStr x)] ts)"
  by (simp add: frame_simps agent_members(4) read_tool_call_delta_def event_defs)

text \<open>The pieces of a tool call carry text or nothing, as the client of the model makes them.\<close>

definition typed_piece :: "pydict \<Rightarrow> bool" where
  "typed_piece tc \<longleftrightarrow> list_all (\<lambda>k. text_or_none (pget tc k)) [''id'', ''name'', ''args'']"

fun typed_item :: "stream_item \<Rightarrow> bool" where
  "typed_item (Message (Chunk content tcs)) = list_all typed_piece tcs"
| "typed_item _ = True"

lemma py_or_text: "text_or_none v \<Longrightarrow> \<exists>s. py_or v (PStr []) = PStr s"
  by (cases v) (auto simp: text_or_none_def py_or_def)

definition run_fits :: "event_readers \<Rightarrow> string option \<Rightarrow> bool \<Rightarrow> stream_run \<Rightarrow> bool" where
  "run_fits r tr ch st \<longleftrightarrow> list_all (event_fits r tr ch) (sn_events st)"

lemma emit_fits:
  "run_fits r tr ch (emit_event env cid a body st) \<longleftrightarrow>
     run_fits r tr ch st \<and> event_fits r tr ch (framed cid a body (ne_stamp env (length (sn_events st))))"
  by (simp add: run_fits_def)

lemma fold_keeps: "(\<And>x st. x \<in> set xs \<Longrightarrow> Q st \<Longrightarrow> Q (f x st)) \<Longrightarrow> Q st \<Longrightarrow> Q (fold f xs st)"
  by (induction xs arbitrary: st) simp_all

lemma run_fits_updates [simp]:
  "run_fits r tr ch (st\<lparr>sn_coalescer := c\<rparr>) = run_fits r tr ch st"
  "run_fits r tr ch (st\<lparr>sn_ids := i\<rparr>) = run_fits r tr ch st"
  "run_fits r tr ch (st\<lparr>sn_result := x\<rparr>) = run_fits r tr ch st"
  by (simp_all add: run_fits_def)

lemma tokens_fit: "run_fits r tr ch st \<Longrightarrow> run_fits r tr ch (emit_tokens env cid ph ts st)"
  unfolding emit_tokens_def by (rule fold_keeps) (simp_all only: emit_fits token_fits simp_thms)

lemma flush_fits: "run_fits r tr ch st \<Longrightarrow> run_fits r tr ch (flush_tokens env cid ph st)"
  by (simp add: flush_tokens_def tokens_fit split: prod.split)

lemma feed_fits: "run_fits r tr ch st \<Longrightarrow> run_fits r tr ch (feed_piece env cid ph t st)"
  by (simp add: feed_piece_def tokens_fit split: prod.split)

lemma tool_delta_fits:
  assumes "run_fits r tr ch st" "typed_piece tc"
  shows "run_fits r tr ch (tool_delta env cid ph tc st)"
proof -
  obtain i n x where t: "py_or (pget tc ''id'') (PStr []) = PStr i" "py_or (pget tc ''name'') (PStr []) = PStr n"
      "py_or (pget tc ''args'') (PStr []) = PStr x"
    using assms(2) py_or_text by (fastforce simp: typed_piece_def)
  show ?thesis unfolding tool_delta_def Let_def t using assms(1) delta_fits emit_fits by simp
qed

lemma item_fits:
  assumes "run_fits r tr (\<not> sp_conversational sp) st" "typed_item item"
  shows "run_fits r tr (\<not> sp_conversational sp) (stream_item_step env cid sp item st)"
proof (cases item)
  case (Message msg)
  note flushed = flush_fits [OF assms(1)]
  show ?thesis
  proof (cases msg)
    case (Chunk content tcs)
    have "run_fits r tr ch (fold (feed_piece env cid ph) ts st')" if "run_fits r tr ch st'" for ch ph ts st'
      using that by (intro fold_keeps [where Q = "run_fits r tr ch" and f = "feed_piece env cid ph"] feed_fits)
    moreover have "run_fits r tr ch (fold (tool_delta env cid ph) tcs st')" if "run_fits r tr ch st'" for ch ph st'
      using that assms(2) Message Chunk
      by (intro fold_keeps [where Q = "run_fits r tr ch" and f = "tool_delta env cid ph"] tool_delta_fits) (simp_all add: list_all_iff)
    ultimately show ?thesis using assms(1) Message Chunk flushed chunk_misfits [of r tr]
      by (cases "sp_conversational sp")
        (simp_all add: stream_item_step_def conversational_message_def plain_message_def emit_fits)
  qed (use assms Message flushed in \<open>cases "sp_conversational sp";
      simp add: stream_item_step_def conversational_message_def plain_message_def Let_def\<close>)+
qed (use assms in \<open>simp add: stream_item_step_def\<close>)

lemma answer_fits:
  assumes "stream_answer env cid sp ma = (x, evs, calls)" "list_all typed_item (ma_items ma)"
  shows "list_all (event_fits r tr (\<not> sp_conversational sp)) evs
     \<and> (case x of Inl e \<Rightarrow> True | Inr st \<Rightarrow> run_fits r tr (\<not> sp_conversational sp) st)"
proof -
  have start: "run_fits r tr c start_run" for c by (simp add: run_fits_def start_run_def)
  have "run_fits r tr (\<not> sp_conversational sp) (fold (stream_item_step env cid sp) (ma_items ma) start_run)"
    by (rule fold_keeps) (use assms(2) start item_fits in \<open>simp_all add: list_all_iff\<close>)
  then show ?thesis
    using assms(1) flush_fits failure_fits emit_fits
    by (auto simp: stream_answer_def Let_def run_fits_def split: if_splits option.splits sum.splits)
qed

lemma structure_fits:
  assumes "structure_answer env cid sp ma st = (x, evs, calls)" "run_fits r tr (\<not> sp_conversational sp) st"
  shows "list_all (event_fits r tr (\<not> sp_conversational sp)) evs"
  using assms artifact_fits
  by (auto simp: structure_answer_def Let_def run_fits_def split: if_splits sum.splits)



section \<open>The frames of the status stream\<close>

definition reads_times :: "event_readers \<Rightarrow> string \<Rightarrow> bool" where
  "reads_times r ts \<longleftrightarrow> rd_datetime r (PStr ts) \<noteq> None"

text \<open>The first frame of every stream is a \<open>progress\<close> payload whose phase, \<open>case.status\<close>, the schema does not know;
  the time-out, the heartbeat, the warning of expiry and the question of an agent are in the schema.\<close>

lemma first_frame_is_outside_the_schema: "event_members r (snapshot_event ts c) = []"
  by (simp add: snapshot_event_def members_by_kind(1) read_progress_def progress_phases_def literal_other image_iff
      split: option.split option.split_asm bind_split)

lemma other_frames_fit:
  assumes "reads_times r ts"
  shows "length (event_members r (heartbeat_event ts trace)) = 1"
    and "length (event_members r (auth_expiring_event ts)) = 1"
    and "rd_uuid r (PStr cid) \<noteq> None \<Longrightarrow> length (event_members r (watchdog_event ts cid)) = 1"
    and "rd_uuid r (PStr cid) \<noteq> None \<Longrightarrow> text_or_none (pget chat ''agent'') \<Longrightarrow> pget chat ''question'' = PStr q
      \<Longrightarrow> pget chat ''interrupt_id'' = PStr i \<Longrightarrow> length (event_members r (chat_snapshot ts cid chat)) = 1"
proof -
  obtain t where t: "rd_datetime r (PStr ts) = Some t" using assms by (auto simp: reads_times_def)
  show "length (event_members r (heartbeat_event ts trace)) = 1"
    by (simp add: heartbeat_event_def members_by_kind(3) read_heartbeat_def event_defs t)
  show "length (event_members r (auth_expiring_event ts)) = 1"
    by (simp add: auth_expiring_event_def members_by_kind(4) read_auth_expiring_def event_defs t)
  have absent: "map_of d k = None \<Longrightarrow> optional d k rd = Some None"
    "map_of d k = None \<Longrightarrow> defaulted d k x rd' = Some x" for d k x and rd :: "pyval \<Rightarrow> 'x option" and rd' :: "pyval \<Rightarrow> 'y option"
    by (simp_all add: optional_def defaulted_def)
  have detail: "map_of d k = Some (PDict e) \<Longrightarrow> optional d k read_dict = Some (Some e)" for d k e
    by (simp add: reading)
  show "length (event_members r (watchdog_event ts cid)) = 1" if key: "rd_uuid r (PStr cid) \<noteq> None"
    using key
    by (auto simp: watchdog_event_def members_by_kind(1) read_progress_def progress_phases_def event_defs t absent detail
        optional_def defaulted_def nullable_def read_dict_def)
  show "length (event_members r (chat_snapshot ts cid chat)) = 1"
    if key: "rd_uuid r (PStr cid) \<noteq> None" and a: "text_or_none (pget chat ''agent'')"
      and q: "pget chat ''question'' = PStr q" "pget chat ''interrupt_id'' = PStr i"
  proof -
    obtain s where s: "py_or (pget chat ''agent'') (PStr ''synthesis'') = PStr s"
      using a that by (cases "pget chat ''agent''") (force simp: py_or_def text_or_none_def split: if_splits)+
    show ?thesis using key
      by (auto simp: chat_snapshot_def s q members_by_kind(5) read_awaiting_input_def read_interrupt_def event_defs t
          optional_def defaulted_def nullable_def)
  qed
qed

section \<open>The adapter and the terminal node\<close>

text \<open>The adapter of the run, over the schema, hands on every progress chunk it can read just as it was made.\<close>

lemma adapter_hands_on_progress:
  assumes "\<And>t. rd_datetime r (PStr (dt_datetime dt t)) = Some t" "\<And>c. canonical c \<Longrightarrow> rd_uuid r (PStr c) = Some c"
    and "event_ok canonical (Progress_frame e)"
  shows "dispatch_chunk (read_progress r) pe cid (PDict (dump_progress dt e)) = publish_progress pe e"
proof -
  have "read_progress r (dump_progress dt e) = Some e"
    using event_schema_of_progress(1) [OF assms] .
  moreover have "pget (dump_progress dt e) ''kind'' = PStr ''progress''" by (simp add: dump_progress_def pget_def)
  ultimately show ?thesis by (simp add: fun_eq_iff dispatch_chunk_def coerce_progress_def)
qed

text \<open>\<open>nodes/terminal.py\<close>: the last event of a halted run; a payload the schema refuses raises.\<close>

definition terminal_payload :: "uuid \<Rightarrow> pydict \<Rightarrow> int \<Rightarrow> pydict" where
  "terminal_payload cid halt now =
     [(''case_id'', PStr cid), (''agent'', PStr ''pipeline''), (''phase'', PStr ''terminal''), (''step'', PNone),
      (''total'', PInt 9), (''ts'', PDateTime now), (''error'', pget halt ''error''),
      (''detail'', PDict [(''reason'', pget_def halt ''reason'' (PStr ''unknown'')),
                          (''stopped_at'', pget_def halt ''stopped_at'' (PStr ''unknown''))])]"

definition terminal_node :: "event_readers \<Rightarrow> publish_env \<Rightarrow> graph_state \<Rightarrow> telemetry \<Rightarrow> telemetry result" where
  "terminal_node r pe s tm =
     (let halt = (case gs_halt s of None \<Rightarrow> [] | Some h \<Rightarrow> h)
      in case read_progress r (terminal_payload (cs_case_id (gs_case s)) halt (pe_now pe)) of
           None \<Rightarrow> Inl ValueError
         | Some e \<Rightarrow> Inr (publish_progress pe e tm))"

text \<open>With Redis, a halted run tells its subscribers that it is over, and why.\<close>

lemma terminal_node_closes_the_stream:
  assumes "terminal_node r pe s tm = Inr tm'" "pe_redis pe"
  shows "\<exists>d. tl_sent tm' = tl_sent tm @ [(the (rd_uuid r (PStr (cs_case_id (gs_case s)))), d)]
     \<and> is_terminal_event d = Inr True
     \<and> pget d ''detail'' = PDict [(''reason'', pget_def (case gs_halt s of None \<Rightarrow> [] | Some h \<Rightarrow> h) ''reason'' (PStr ''unknown'')),
          (''stopped_at'', pget_def (case gs_halt s of None \<Rightarrow> [] | Some h \<Rightarrow> h) ''stopped_at'' (PStr ''unknown''))]"
proof -
  let ?h = "case gs_halt s of None \<Rightarrow> [] | Some h \<Rightarrow> h"
  obtain e where e: "read_progress r (terminal_payload (cs_case_id (gs_case s)) ?h (pe_now pe)) = Some e"
      "tm' = publish_progress pe e tm"
    using assms(1) by (auto simp: terminal_node_def Let_def split: option.splits)
  have f: "rd_uuid r (PStr (cs_case_id (gs_case s))) = Some (pv_case e)" "pv_agent e = ''pipeline''" "pv_phase e = ''terminal''"
      "pv_detail e = Some [(''reason'', pget_def ?h ''reason'' (PStr ''unknown'')), (''stopped_at'', pget_def ?h ''stopped_at'' (PStr ''unknown''))]"
    using e(1)
    by (auto simp: read_progress_def terminal_payload_def Option.bind_eq_Some_conv reading split: if_splits)
  define e' where "e' = (if pv_trace_id e = None \<and> non_empty (pe_trace pe) then e\<lparr>pv_trace_id := pe_trace pe\<rparr> else e)"
  have keep: "pv_case e' = pv_case e" "pv_agent e' = ''pipeline''" "pv_phase e' = ''terminal''" "pv_detail e' = pv_detail e"
    using f by (simp_all add: e'_def)
  have sent: "tl_sent tm' = tl_sent tm @ [(pv_case e, dump_progress (pe_dates pe) e')]"
    unfolding e(2) publish_progress_def Let_def e'_def [symmetric]
    using assms(2) by (simp add: send_event_def tee_write_def split: option.split)
  have "is_terminal_event (dump_progress (pe_dates pe) e') = Inr True"
    by (simp add: is_terminal_event_def dump_progress_def pget_def keep Let_def unhashable_def)
  moreover have "pget (dump_progress (pe_dates pe) e') ''detail'' = dump_opt PDict (pv_detail e)"
    by (simp add: dump_progress_def pget_def keep)
  ultimately show ?thesis using sent f by (auto simp: dump_opt_def)
qed


section \<open>Recorded wire fixtures\<close>

text \<open>The pinned values of the fixtures; the time as Pydantic and as \<open>isoformat\<close> write it are arguments.\<close>

definition frozen_ts :: int where "frozen_ts = 1777118400000000"
definition frozen_expiry :: int where "frozen_expiry = 1777122000000000"
definition frozen_case_id :: uuid where "frozen_case_id = ''11111111-1111-1111-1111-111111111111''"
definition frozen_trace_id :: string where "frozen_trace_id = ''0af7651916cd43dd8448eb211c80319c''"

text \<open>The writers: \<open>model_dump_json\<close>, \<open>json.dumps\<close>, \<open>json.loads\<close> and the texts of times.\<close>

record json_writers =
  jw_model :: "pydict \<Rightarrow> string"
  jw_dumps :: "pydict \<Rightarrow> string"
  jw_loads :: "string \<Rightarrow> pydict"
  jw_texts :: date_texts
  jw_iso :: "int \<Rightarrow> string"

definition wire_fixture :: "string \<Rightarrow> string \<Rightarrow> string \<Rightarrow> string \<Rightarrow> string \<Rightarrow> pydict" where
  "wire_fixture kind scenario cls publisher payload =
     [(''event_type'', PStr kind), (''scenario'', PStr scenario), (''pydantic_class'', PStr cls),
      (''publisher'', PStr publisher), (''wire_payload'', PStr payload), (''sse_frame'', PStr (sse_frame kind payload))]"

definition by_progress :: string where "by_progress = ''publish_progress (services/pipeline_events.py)''"
definition by_agent :: string where "by_agent = ''publish_agent_event (services/pipeline_events.py)''"

definition golden_progress :: "string \<Rightarrow> string \<Rightarrow> int option \<Rightarrow> pydict option \<Rightarrow> progress_event" where
  "golden_progress agent phase step detail =
     \<lparr>pv_case = frozen_case_id, pv_agent = agent, pv_phase = phase, pv_step = step, pv_total = 9, pv_ts = frozen_ts,
      pv_error = None, pv_detail = detail, pv_trace_id = Some frozen_trace_id\<rparr>"

definition progress_fixture :: "json_writers \<Rightarrow> string \<Rightarrow> progress_event \<Rightarrow> pydict" where
  "progress_fixture jw scenario e =
     wire_fixture ''progress'' scenario ''PipelineProgressEvent'' by_progress (jw_model jw (dump_progress (jw_texts jw) e))"

definition fixture_progress_agent_started :: "json_writers \<Rightarrow> pydict" where
  "fixture_progress_agent_started jw =
     progress_fixture jw ''agent_started'' (golden_progress ''evidence-analysis'' ''started'' (Some 3) None)"

definition fixture_progress_agent_completed :: "json_writers \<Rightarrow> pydict" where
  "fixture_progress_agent_completed jw =
     progress_fixture jw ''agent_completed'' (golden_progress ''evidence-analysis'' ''completed'' (Some 3) None)"

definition halted_detail :: pydict where
  "halted_detail = [(''reason'', PStr ''completed''), (''stopped_at'', PStr ''hearing-governance'')]"

definition fixture_progress_pipeline_terminal :: "json_writers \<Rightarrow> pydict" where
  "fixture_progress_pipeline_terminal jw =
     progress_fixture jw ''pipeline_terminal'' (golden_progress ''pipeline'' ''terminal'' None (Some halted_detail))"

text \<open>\<open>_agent_event\<close>: what the publisher stamps on the event of an agent.\<close>

definition golden_agent_event :: "json_writers \<Rightarrow> pydict \<Rightarrow> pydict" where
  "golden_agent_event jw extra = dict_merge
     [(''kind'', PStr ''agent''), (''schema_version'', PInt 1), (''case_id'', PStr frozen_case_id),
      (''ts'', PStr (jw_iso jw frozen_ts)), (''trace_id'', PStr frozen_trace_id)] extra"

definition agent_fixture :: "json_writers \<Rightarrow> string \<Rightarrow> pydict \<Rightarrow> pydict" where
  "agent_fixture jw scenario extra =
     wire_fixture ''agent'' scenario ''AgentEvent'' by_agent (jw_dumps jw (golden_agent_event jw extra))"

text \<open>The arrow and the dot of the model's line, as UTF-8.\<close>

definition model_line :: string where
  "model_line = [CHR 0xE2, CHR 0x86, CHR 0x92] @ '' gpt-5 '' @ [CHR 0xC2, CHR 0xB7] @ '' tools=2''"

definition golden_thinking :: "string \<Rightarrow> pydict" where
  "golden_thinking agent = [(''agent'', PStr agent), (''event'', PStr ''thinking''), (''content'', PStr model_line)]"

definition golden_tool_call :: "string \<Rightarrow> pydict \<Rightarrow> pydict" where
  "golden_tool_call tool args =
     [(''agent'', PStr ''legal-knowledge''), (''event'', PStr ''tool_call''), (''tool_name'', PStr tool), (''args'', PDict args)]"

definition golden_tool_result :: "string \<Rightarrow> string \<Rightarrow> pydict" where
  "golden_tool_result tool reply =
     [(''agent'', PStr ''legal-knowledge''), (''event'', PStr ''tool_result''), (''tool_name'', PStr tool), (''result'', PStr reply)]"

definition golden_llm_response :: "string \<Rightarrow> string \<Rightarrow> pydict" where
  "golden_llm_response agent text =
     [(''agent'', PStr agent), (''event'', PStr ''llm_response''), (''content'', PStr text)]"

definition fixture_agent_thinking :: "json_writers \<Rightarrow> pydict" where
  "fixture_agent_thinking jw = agent_fixture jw ''thinking'' (golden_thinking ''evidence-analysis'')"

definition found_precedent :: string where
  "found_precedent = ''[{'' @ quote ''case_name'' @ '': '' @ quote ''Smith v Jones'' @ '', '' @ quote ''year'' @ '': 2018, ''
     @ quote ''score'' @ '': 0.83}]''"

definition fixture_agent_tool_call :: "json_writers \<Rightarrow> pydict" where
  "fixture_agent_tool_call jw = agent_fixture jw ''tool_call''
     (golden_tool_call ''search_precedents'' [(''query'', PStr ''fair use of copyrighted material''), (''top_k'', PInt 3)])"

definition fixture_agent_tool_result :: "json_writers \<Rightarrow> pydict" where
  "fixture_agent_tool_result jw = agent_fixture jw ''tool_result'' (golden_tool_result ''search_precedents'' found_precedent)"

definition fixture_agent_llm_response :: "json_writers \<Rightarrow> pydict" where
  "fixture_agent_llm_response jw = agent_fixture jw ''llm_response''
     (golden_llm_response ''evidence-analysis'' ''Identified 3 supporting exhibits and 1 contradiction.'')"

definition golden_narration :: "json_writers \<Rightarrow> pydict" where
  "golden_narration jw =
     [(''kind'', PStr ''narration''), (''schema_version'', PInt 1), (''case_id'', PStr frozen_case_id),
      (''agent'', PStr ''argument-construction''),
      (''content'', PStr (''Drafting the prosecution'' @ [CHR 0x27]
         @ ''s opening based on the analyzed evidence and witness testimony.'')),
      (''chunk_index'', PInt 0), (''ts'', PStr (jw_iso jw frozen_ts)), (''trace_id'', PStr frozen_trace_id)]"

definition fixture_narration :: "json_writers \<Rightarrow> pydict" where
  "fixture_narration jw = wire_fixture ''narration'' ''single_chunk'' ''NarrationEvent''
     ''publish_narration (services/pipeline_events.py)'' (jw_dumps jw (golden_narration jw))"

text \<open>The two frames that the stream writes itself carry the form of their class as well.\<close>

definition inline_fixture :: "string \<Rightarrow> string \<Rightarrow> string \<Rightarrow> string \<Rightarrow> string \<Rightarrow> pydict" where
  "inline_fixture kind scenario cls payload model_payload =
     [(''event_type'', PStr kind), (''scenario'', PStr scenario), (''pydantic_class'', PStr cls),
      (''publisher'', PStr ''inline in cases.py SSE generator (no Redis hop)''), (''wire_payload'', PStr payload),
      (''wire_payload_via_pydantic'', PStr model_payload), (''sse_frame'', PStr (sse_frame kind payload))]"

definition fixture_heartbeat :: "json_writers \<Rightarrow> pydict" where
  "fixture_heartbeat jw = inline_fixture ''heartbeat'' ''idle_keepalive'' ''HeartbeatEvent''
     (jw_dumps jw (heartbeat_event (jw_iso jw frozen_ts) (Some frozen_trace_id)))
     (jw_model jw (dump_event (jw_texts jw) (Heartbeat_frame \<lparr>hv_ts = frozen_ts, hv_trace_id = Some frozen_trace_id\<rparr>)))"

definition fixture_auth_expiring :: "json_writers \<Rightarrow> pydict" where
  "fixture_auth_expiring jw = inline_fixture ''auth_expiring'' ''session_60s_warning'' ''AuthExpiringEvent''
     (jw_dumps jw (auth_expiring_event (jw_iso jw frozen_expiry)))
     (jw_model jw (dump_event (jw_texts jw) (Expiry_frame frozen_expiry)))"

text \<open>Two sequences: an agent with two tool calls, and the start of the four agents of the second gate.\<close>

definition sequence_fixture :: "string \<Rightarrow> string \<Rightarrow> string \<Rightarrow> string \<Rightarrow> (pydict \<Rightarrow> string) \<Rightarrow> pydict list \<Rightarrow> pydict" where
  "sequence_fixture kind scenario cls publisher dumps evs =
     [(''event_type'', PStr kind), (''scenario'', PStr scenario), (''pydantic_class'', PStr cls),
      (''publisher'', PStr publisher), (''sequence'', PList (map PDict evs)),
      (''sse_frame_concatenated'', PStr (concat (map (sse_frame kind \<circ> dumps) evs)))]"

definition multi_tool_call_bodies :: "pydict list" where
  "multi_tool_call_bodies =
     [golden_thinking ''legal-knowledge'',
      golden_tool_call ''search_precedents'' [(''query'', PStr ''negligence threshold''), (''top_k'', PInt 5)],
      golden_tool_result ''search_precedents'' ''[3 results]'',
      golden_tool_call ''search_domain_guidance'' [(''query'', PStr ''small claims threshold limits'')],
      golden_tool_result ''search_domain_guidance'' ''[1 result]'',
      golden_llm_response ''legal-knowledge'' ''Two relevant precedents and the SCT threshold both apply.'']"

definition fixture_scenario_multi_tool_call :: "json_writers \<Rightarrow> pydict" where
  "fixture_scenario_multi_tool_call jw = sequence_fixture ''agent'' ''multi_tool_call'' ''AgentEvent'' by_agent (jw_dumps jw)
     (map (golden_agent_event jw) multi_tool_call_bodies)"

definition fanout_agents :: "(int \<times> string) list" where
  "fanout_agents = zip [3, 4, 5, 6] [''evidence-analysis'', ''fact-reconstruction'', ''witness-analysis'', ''legal-knowledge'']"

definition fanout_events :: "progress_event list" where
  "fanout_events = map (\<lambda>(i, a). golden_progress a ''started'' (Some i) None) fanout_agents"

definition fixture_scenario_gate2_fanout :: "json_writers \<Rightarrow> pydict" where
  "fixture_scenario_gate2_fanout jw =
     sequence_fixture ''progress'' ''gate2_fanout'' ''PipelineProgressEvent'' by_progress (jw_dumps jw)
       (map (\<lambda>e. jw_loads jw (jw_model jw (dump_progress (jw_texts jw) e))) fanout_events)"

definition wire_fixtures :: "(string \<times> (json_writers \<Rightarrow> pydict)) list" where
  "wire_fixtures =
     [(''progress_agent_started'', fixture_progress_agent_started), (''progress_agent_completed'', fixture_progress_agent_completed),
      (''progress_pipeline_terminal'', fixture_progress_pipeline_terminal), (''agent_thinking'', fixture_agent_thinking),
      (''agent_tool_call'', fixture_agent_tool_call), (''agent_tool_result'', fixture_agent_tool_result),
      (''agent_llm_response'', fixture_agent_llm_response), (''narration'', fixture_narration),
      (''heartbeat'', fixture_heartbeat), (''auth_expiring'', fixture_auth_expiring),
      (''scenario_multi_tool_call'', fixture_scenario_multi_tool_call),
      (''scenario_gate2_fanout'', fixture_scenario_gate2_fanout)]"

text \<open>\<open>main\<close>: each fixture in a file of its name; \<open>json.dumps(fixture, indent=2)\<close> is an argument.\<close>

definition write_fixtures :: "(pydict \<Rightarrow> string) \<Rightarrow> json_writers \<Rightarrow> (string \<times> string) list" where
  "write_fixtures indented jw = map (\<lambda>(name, f). (name @ ''.json'', indented (f jw) @ newline)) wire_fixtures"


text \<open>The class each recorded payload belongs to.\<close>

fun class_of_event :: "event_frame \<Rightarrow> string" where
  "class_of_event (Progress_frame _) = ''PipelineProgressEvent''"
| "class_of_event (Agent_frame _) = ''AgentEvent''"
| "class_of_event (Failed_frame _) = ''AgentFailedEvent''"
| "class_of_event (Token_frame _) = ''LlmTokenEvent''"
| "class_of_event (Delta_frame _) = ''ToolCallDeltaEvent''"
| "class_of_event (Artifact_frame _) = ''StructuredArtifactEvent''"
| "class_of_event (Narration_frame _) = ''NarrationEvent''"
| "class_of_event (Awaiting_frame _) = ''AgentAwaitingInputEvent''"
| "class_of_event (Resumed_frame _) = ''AgentResumedEvent''"
| "class_of_event (Interrupt_frame _) = ''InterruptEvent''"
| "class_of_event (Heartbeat_frame _) = ''HeartbeatEvent''"
| "class_of_event (Expiry_frame _) = ''AuthExpiringEvent''"

definition belongs_to :: "event_readers \<Rightarrow> string \<Rightarrow> pydict \<Rightarrow> bool" where
  "belongs_to r cls d \<longleftrightarrow> map class_of_event (event_members r d) = [cls]"

lemma golden_progress_belongs:
  assumes "\<And>t. rd_datetime r (PStr (dt_datetime dt t)) = Some t" "rd_uuid r (PStr frozen_case_id) = Some frozen_case_id"
    and "phase \<in> set progress_phases" "case step of None \<Rightarrow> True | Some i \<Rightarrow> 1 \<le> i \<and> i \<le> 9"
  shows "belongs_to r ''PipelineProgressEvent'' (dump_progress dt (golden_progress a phase step det))"
  using event_schema_of_progress [OF assms(1), of "\<lambda>c. c = frozen_case_id" "golden_progress a phase step det"] assms(2-4)
  by (simp add: belongs_to_def golden_progress_def)

lemma golden_agent_belongs:
  "belongs_to r ''AgentEvent'' (golden_agent_event jw (golden_thinking a))"
  "belongs_to r ''AgentEvent'' (golden_agent_event jw (golden_tool_call t args))"
  "belongs_to r ''AgentEvent'' (golden_agent_event jw (golden_tool_result t s))"
  "belongs_to r ''AgentEvent'' (golden_agent_event jw (golden_llm_response a s))"
  by (simp_all add: belongs_to_def golden_agent_event_def golden_thinking_def golden_tool_call_def golden_tool_result_def
      golden_llm_response_def agent_members(1) pget_def agent_event_names_def read_agent_def event_defs
      optional_def defaulted_def nullable_def read_str_def read_dict_def)

lemma sequences_belong:
  assumes "\<And>t. rd_datetime r (PStr (dt_datetime dt t)) = Some t" "rd_uuid r (PStr frozen_case_id) = Some frozen_case_id"
  shows "list_all (belongs_to r ''AgentEvent'') (map (golden_agent_event jw) multi_tool_call_bodies)"
    and "list_all (\<lambda>e. belongs_to r ''PipelineProgressEvent'' (dump_progress dt e)) fanout_events"
proof -
  show "list_all (belongs_to r ''AgentEvent'') (map (golden_agent_event jw) multi_tool_call_bodies)"
    by (simp add: multi_tool_call_bodies_def golden_agent_belongs)
  show "list_all (\<lambda>e. belongs_to r ''PipelineProgressEvent'' (dump_progress dt e)) fanout_events"
    by (simp add: fanout_events_def fanout_agents_def golden_progress_belongs assms progress_phases_def)
qed

section \<open>Witnesses\<close>

definition plain_readers :: event_readers where
  "plain_readers = \<lparr>rd_uuid = read_str, rd_datetime = (\<lambda>v. case v of PStr s \<Rightarrow> Some (read_int s) | _ \<Rightarrow> None), rd_int = (\<lambda>_. None)\<rparr>"

definition plain_texts :: date_texts where
  "plain_texts = \<lparr>dt_date = write_int, dt_datetime = write_int\<rparr>"


definition short_answer :: model_answers where
  "short_answer = \<lparr>ma_items = [Message (Chunk (PStr ''The '') [])], ma_failure = None, ma_invoke = Inl type_error,
     ma_structure = (\<lambda>_. Inl type_error), ma_dump = (\<lambda>_. [])\<rparr>"

definition silent_audit :: node_spec where
  "silent_audit = \<lparr>sp_name = ''audit'', sp_tools = [], sp_strict = True, sp_conversational = False\<rparr>"


end
