(* ===== verification/Application.thy ===== *)
theory Application
  imports Routing Worker_Process Event_Schema Domains
begin

text \<open>
  The application around the handlers: a request through the middleware of \<open>api/app.py\<close> and the session of
  \<open>api/deps.py\<close>, the generated schema, the settings (\<open>shared/config.py\<close>), the correlation of the logs
  (\<open>shared/logging.py\<close>), the start of the classifier (\<open>shared/sanitization.py\<close>), the manifest of the pipeline,
  and the small endpoints and services (health, administration, mail of password resets).
\<close>

section \<open>The session of a request\<close>

text \<open>
  \<open>get_db\<close>: the handler works in a session; when it returns, the session is committed. A commit that fails because
  the transaction is invalid or the database refuses it is rolled back and logged; every other exception, of the
  handler or of the commit, rolls back and goes on to the client.
\<close>

datatype commit_outcome = Committed | Commit_refused | Commit_raised py_error

definition get_db :: "commit_outcome \<Rightarrow> ('db \<Rightarrow> ('db \<times> 'r) result) \<Rightarrow> 'db \<Rightarrow> 'db \<times> 'r result" where
  "get_db commit handler db = (case handler db of
     Inl e \<Rightarrow> (db, Inl e)
   | Inr (db', reply) \<Rightarrow> (case commit of
       Committed \<Rightarrow> (db', Inr reply)
     | Commit_refused \<Rightarrow> (db, Inr reply)
     | Commit_raised e \<Rightarrow> (db, Inl e)))"

text \<open>The user of a stream, looked up in a session that is closed before the stream starts.\<close>

definition get_current_user_for_stream :: "crypto \<Rightarrow> int \<Rightarrow> string option \<Rightarrow> access \<Rightarrow> account result" where
  "get_current_user_for_stream cy now token st = authenticate_token cy now token st"

section \<open>A request through the middleware\<close>

text \<open>The order in which \<open>create_app\<close> adds the middleware; the last added runs first.\<close>

definition added_middleware :: "string list" where
  "added_middleware = [''CORSMiddleware'', ''MetricsMiddleware'', ''RateLimitMiddleware'', ''TraceContextMiddleware'']"

definition middleware_order :: "string list" where "middleware_order = rev added_middleware"

lemma csrf_is_not_installed: "''CSRFMiddleware'' \<notin> set middleware_order"
  by (simp add: middleware_order_def added_middleware_def)

record 'db application =
  ap_limiter :: limiter
  ap_metrics :: metrics
  ap_db :: 'db

record rate_settings =
  rs_enabled :: bool
  rs_per_minute :: nat

text \<open>
  A request as it arrives: the trace the instrumentation opened for it, the clock and the headers, the time its
  handling takes, and how the commit of its session ends.
\<close>

record http_request =
  hq_method :: string
  hq_path :: string
  hq_trace :: "string option"
  hq_now :: rat
  hq_headers :: client_headers
  hq_duration :: rat
  hq_commit :: commit_outcome

text \<open>The status of an error: an \<open>HTTPException\<close> is answered inside the middleware, every other leaves it.\<close>

fun error_status :: "py_error \<Rightarrow> int option" where
  "error_status (HttpError n msg) = Some (int n)"
| "error_status _ = None"

text \<open>
  \<open>handler\<close> is the endpoint with its dependencies, over the trace the first middleware put into the request; it
  gives the new contents of the database and the status of its reply. Answers of CORS to a preflight are left out.
\<close>

datatype http_answer = Answered int | Crashed

definition serve_request ::
  "rate_settings \<Rightarrow> (string option \<Rightarrow> 'db \<Rightarrow> ('db \<times> int) result) \<Rightarrow> http_request \<Rightarrow> 'db application
   \<Rightarrow> 'db application \<times> http_answer" where
  "serve_request rs handler rq ap =
     (case dispatch_request (rs_enabled rs) (rs_per_minute rs) (hq_now rq, hq_headers rq) (ap_limiter ap) of
        (Too_many_requests retry, lim2) \<Rightarrow> (ap\<lparr>ap_limiter := lim2\<rparr>, Answered 429)
      | (Index_error, lim2) \<Rightarrow> (ap\<lparr>ap_limiter := lim2\<rparr>, Crashed)
      | (Passed_on, lim2) \<Rightarrow>
          (case get_db (hq_commit rq) (handler (hq_trace rq)) (ap_db ap) of
             (db, outcome) \<Rightarrow>
               (let status = (case outcome of Inr s \<Rightarrow> Some s | Inl e \<Rightarrow> error_status e);
                    met = metrics_dispatch \<lparr>he_method = hq_method rq, he_path = hq_path rq,
                            he_duration = hq_duration rq, he_status = status\<rparr> (ap_metrics ap)
                in (ap\<lparr>ap_limiter := lim2, ap_metrics := met, ap_db := db\<rparr>,
                    case status of Some s \<Rightarrow> Answered s | None \<Rightarrow> Crashed))))"

definition admitted :: "rate_settings \<Rightarrow> http_request \<Rightarrow> 'db application \<Rightarrow> bool" where
  "admitted rs rq ap \<longleftrightarrow>
     fst (dispatch_request (rs_enabled rs) (rs_per_minute rs) (hq_now rq, hq_headers rq) (ap_limiter ap)) = Passed_on"



definition free_rates :: rate_settings where "free_rates = \<lparr>rs_enabled = False, rs_per_minute = 600\<rparr>"

definition plain_request :: "commit_outcome \<Rightarrow> http_request" where
  "plain_request commit = \<lparr>hq_method = ''POST'', hq_path = ''/api/v1/cases/'', hq_trace = None, hq_now = 0,
     hq_headers = \<lparr>ch_real_ip = None, ch_forwarded_for = None, ch_host = Some ''10.0.0.1''\<rparr>, hq_duration = 1, hq_commit = commit\<rparr>"

definition counting_application :: "nat application" where
  "counting_application = \<lparr>ap_limiter = new_limiter 0, ap_metrics = new_metrics, ap_db = 7\<rparr>"


section \<open>The generated schema\<close>

text \<open>
  The document of FastAPI, an argument: the paths with their operations, and the rest. An operation has its
  responses by status code. The document is built once.
\<close>

record api_operation =
  op_method :: string
  op_responses :: "string dict option"

record api_document =
  ad_paths :: "(string \<times> api_operation list) list"
  ad_security_schemes :: "string list"
  ad_security :: "string list"

definition rate_limit_response :: string where
  "rate_limit_response = ''Rate limit exceeded (60 requests/minute per client IP)''"

definition with_429 :: "api_operation \<Rightarrow> api_operation" where
  "with_429 o1 = (case op_responses o1 of
     None \<Rightarrow> o1 | Some rs \<Rightarrow> o1\<lparr>op_responses := Some (dict_set ''429'' rate_limit_response rs)\<rparr>)"

definition custom_openapi :: "api_document \<Rightarrow> api_document option \<Rightarrow> api_document" where
  "custom_openapi doc built = (case built of
     Some d \<Rightarrow> d
   | None \<Rightarrow> doc\<lparr>ad_paths := map (\<lambda>(p, ops). (p, map with_429 ops)) (ad_paths doc),
                       ad_security_schemes := [''cookieAuth''], ad_security := [''cookieAuth'']\<rparr>)"

text \<open>Every operation with responses has the answer of the limiter among them, and no other response is lost.\<close>

lemma every_operation_documents_429:
  assumes "(p, ops) \<in> set (ad_paths (custom_openapi doc None))" "o1 \<in> set ops" "op_responses o1 = Some rs"
  shows "map_of rs ''429'' = Some rate_limit_response"
  using assms by (auto simp: custom_openapi_def with_429_def split: option.splits)

lemma schema_is_built_once: "custom_openapi g2 (Some (custom_openapi g1 None)) = custom_openapi g1 None"
  by (simp add: custom_openapi_def)

text \<open>\<open>export_openapi.py\<close> and \<open>export_sse_schema.py\<close> write a document, \<open>check_sse_schema.py\<close> compares.\<close>

definition exported :: "('d \<Rightarrow> string) \<Rightarrow> 'd \<Rightarrow> string" where
  "exported indented d = indented d @ newline"

definition check_snapshot :: "string option \<Rightarrow> string \<Rightarrow> nat" where
  "check_snapshot found expected = (case found of None \<Rightarrow> 1 | Some s \<Rightarrow> if s = expected then 0 else 1)"

lemma exported_snapshot_passes: "check_snapshot (Some (exported j d)) (exported j d) = 0"
  by (simp add: check_snapshot_def)

section \<open>Settings\<close>

record settings =
  st_jwt_secret :: string
  st_cookie_secure :: bool
  st_reset_token_ttl_minutes :: int
  st_password_reset_base_url :: string
  st_frontend_origins :: string
  st_smtp_host :: string
  st_smtp_port :: int
  st_smtp_username :: string
  st_smtp_password :: string
  st_smtp_from_address :: string
  st_pair_api_key :: "string option"
  st_vector_store_id :: string
  st_domain_uploads_enabled :: bool
  st_langgraph_checkpointer :: string
  st_rate_limit_enabled :: bool
  st_rate_limit_per_minute :: nat

definition default_settings :: settings where
  "default_settings =
     \<lparr>st_jwt_secret = ''change-me-in-production'', st_cookie_secure = True, st_reset_token_ttl_minutes = 30,
      st_password_reset_base_url = ''http://localhost:5173/reset-password'',
      st_frontend_origins = ''http://localhost:5173,http://localhost:3000,http://127.0.0.1:5173'',
      st_smtp_host = [], st_smtp_port = 587, st_smtp_username = [], st_smtp_password = [],
      st_smtp_from_address = ''no-reply@verdictcouncil.local'', st_pair_api_key = None, st_vector_store_id = [],
      st_domain_uploads_enabled = True, st_langgraph_checkpointer = ''postgres'',
      st_rate_limit_enabled = False, st_rate_limit_per_minute = 600\<rparr>"

definition cors_origins_list :: "settings \<Rightarrow> string list" where
  "cors_origins_list st = filter (\<lambda>x. x \<noteq> []) (map py_strip (split_commas (st_frontend_origins st)))"

datatype settings_notice = Default_secret | Insecure_cookie | Pair_disabled

definition model_post_init :: "settings \<Rightarrow> settings_notice list" where
  "model_post_init st =
     (if st_jwt_secret st = ''change-me-in-production'' then [Default_secret] else [])
     @ (if \<not> st_cookie_secure st then [Insecure_cookie] else [])
     @ (if st_pair_api_key st = None then [Pair_disabled] else [])"

text \<open>The default secret is only warned about: a process with it starts and signs its tokens with it.\<close>

lemma default_settings_warn:
  "model_post_init default_settings = [Default_secret, Pair_disabled]"
  "cors_origins_list default_settings = [''http://localhost:5173'', ''http://localhost:3000'', ''http://127.0.0.1:5173'']"
  by (simp add: model_post_init_def default_settings_def) code_simp

lemma origins_are_trimmed: "x \<in> set (cors_origins_list st) \<Longrightarrow> x \<noteq> []"
  by (simp add: cors_origins_list_def)

section \<open>Correlation of the logs\<close>

record log_context =
  lc_case_id :: "string option"
  lc_run_id :: "string option"

definition set_correlation_ids :: "string option \<Rightarrow> string option \<Rightarrow> log_context \<Rightarrow> log_context" where
  "set_correlation_ids case_id run_id ctx =
     (let ctx1 = (if case_id = None then ctx else ctx\<lparr>lc_case_id := case_id\<rparr>)
      in if run_id = None then ctx1 else ctx1\<lparr>lc_run_id := run_id\<rparr>)"

record log_record =
  lr_ts :: string
  lr_level :: string
  lr_logger :: string
  lr_message :: string
  lr_exc_info :: "string option"
  lr_case_id :: string
  lr_run_id :: string

definition or_dash :: "string option \<Rightarrow> string" where
  "or_dash v = (case v of Some (c # cs) \<Rightarrow> c # cs | _ \<Rightarrow> ''-'')"

definition correlation_filter :: "log_context \<Rightarrow> log_record \<Rightarrow> bool \<times> log_record" where
  "correlation_filter ctx r = (True, r\<lparr>lr_case_id := or_dash (lc_case_id ctx), lr_run_id := or_dash (lc_run_id ctx)\<rparr>)"

definition json_format :: "(pyval \<Rightarrow> string) \<Rightarrow> log_record \<Rightarrow> string" where
  "json_format dumps r = dumps (PDict
     ([(''ts'', PStr (lr_ts r)), (''level'', PStr (lr_level r)), (''logger'', PStr (lr_logger r)),
       (''case_id'', PStr (lr_case_id r)), (''run_id'', PStr (lr_run_id r)), (''msg'', PStr (lr_message r))]
      @ (case lr_exc_info r of None \<Rightarrow> [] | Some t \<Rightarrow> [(''exc_info'', PStr t)])))"

definition line_format :: "log_record \<Rightarrow> string" where
  "line_format r = lr_ts r @ '' ['' @ lr_level r @ ''] [case='' @ lr_case_id r @ '' run='' @ lr_run_id r @ ''] ''
     @ lr_logger r @ '': '' @ lr_message r"

text \<open>\<open>getattr(logging, level.upper(), logging.INFO)\<close> over the names of the levels.\<close>

definition log_levels :: "int dict" where
  "log_levels = [(''CRITICAL'', 50), (''FATAL'', 50), (''ERROR'', 40), (''WARNING'', 30), (''WARN'', 30), (''INFO'', 20),
     (''DEBUG'', 10), (''NOTSET'', 0)]"

definition setup_logging :: "string \<Rightarrow> string list \<times> int" where
  "setup_logging level =
     ([''stdout'', ''logs/pipeline.jsonl''],
      case map_of log_levels (map upper_char level) of Some n \<Rightarrow> n | None \<Rightarrow> 20)"

text \<open>An identifier that is not given keeps its value, and every line carries both, a dash for what is not known.\<close>

lemma correlation_is_kept:
  "lc_case_id (set_correlation_ids None run_id ctx) = lc_case_id ctx"
  "lc_run_id (set_correlation_ids case_id None ctx) = lc_run_id ctx"
  "snd (correlation_filter ctx r) = r' \<Longrightarrow> lr_case_id r' \<noteq> [] \<and> lr_run_id r' \<noteq> [] \<and> lr_message r' = lr_message r"
proof -
  have dash: "or_dash v \<noteq> []" for v by (auto simp: or_dash_def split: option.split list.split)
  show "lc_case_id (set_correlation_ids None run_id ctx) = lc_case_id ctx"
    "lc_run_id (set_correlation_ids case_id None ctx) = lc_run_id ctx"
    by (simp_all add: set_correlation_ids_def Let_def)
  show "snd (correlation_filter ctx r) = r' \<Longrightarrow> lr_case_id r' \<noteq> [] \<and> lr_run_id r' \<noteq> [] \<and> lr_message r' = lr_message r"
    using dash by (auto simp: correlation_filter_def)
qed

section \<open>The start of the classifier\<close>

text \<open>The scanner is made on the first use, once; a failure to make it is remembered for good.\<close>

record 'x scanner_slot =
  sl_scanner :: "'x option"
  sl_init_failed :: bool

definition empty_slot :: "'x scanner_slot" where "empty_slot = \<lparr>sl_scanner = None, sl_init_failed = False\<rparr>"

definition get_scanner :: "string + 'x \<Rightarrow> 'x scanner_slot \<Rightarrow> 'x result \<times> 'x scanner_slot" where
  "get_scanner init sl =
     (if sl_init_failed sl then (Inl (RuntimeErr ''PromptInjection scanner failed to initialise; uploads blocked.''), sl)
      else case sl_scanner sl of
             Some s \<Rightarrow> (Inr s, sl)
           | None \<Rightarrow> (case init of
               Inr s \<Rightarrow> (Inr s, sl\<lparr>sl_scanner := Some s\<rparr>)
             | Inl msg \<Rightarrow> (Inl (RuntimeErr (''PromptInjection scanner init failed: '' @ msg)), sl\<lparr>sl_init_failed := True\<rparr>)))"

fun scanner_calls :: "(string + 'x) list \<Rightarrow> 'x scanner_slot \<Rightarrow> 'x result list" where
  "scanner_calls [] sl = []"
| "scanner_calls (i # is) sl = (let (r, sl') = get_scanner i sl in r # scanner_calls is sl')"

lemma scanner_settled:
  "sl_init_failed sl \<Longrightarrow> list_all (\<lambda>r. case r of Inl _ \<Rightarrow> True | Inr _ \<Rightarrow> False) (scanner_calls is sl)"
  "\<not> sl_init_failed sl \<Longrightarrow> sl_scanner sl = Some s \<Longrightarrow> list_all (\<lambda>r. r = Inr s) (scanner_calls is sl)"
  by (induction "is") (simp_all add: get_scanner_def)

text \<open>The first call decides: the same scanner serves all later ones, or none of them is ever served.\<close>

lemma first_scanner_call_decides:
  "scanner_calls (i # is) empty_slot = r # rs \<Longrightarrow>
     (case r of Inr s \<Rightarrow> list_all (\<lambda>x. x = Inr s) rs | Inl e \<Rightarrow> list_all (\<lambda>x. case x of Inl _ \<Rightarrow> True | Inr _ \<Rightarrow> False) rs)"
  using scanner_settled(1) [of "empty_slot\<lparr>sl_init_failed := True\<rparr>" "is"]
    scanner_settled(2) [of "empty_slot\<lparr>sl_scanner := Some s\<rparr>" s "is" for s]
  by (cases i) (auto simp: get_scanner_def empty_slot_def)

section \<open>The manifest of the pipeline\<close>

text \<open>An agent without a label, a gate or a layer would fail the import.\<close>

definition manifest_agent :: "string \<Rightarrow> pydict option" where
  "manifest_agent a = do {
     l \<leftarrow> map_of agent_labels a; g \<leftarrow> map_of agent_gate a; layer \<leftarrow> map_of gate_labels g;
     Some [(''id'', PStr a), (''label'', PStr l), (''gate'', PStr g), (''layer'', PStr layer)] }"

definition manifest_gate :: "string \<times> string list \<Rightarrow> pydict option" where
  "manifest_gate ga = do {
     l \<leftarrow> map_of gate_labels (fst ga);
     Some [(''id'', PStr (fst ga)), (''label'', PStr l), (''agents'', dump_strs (snd ga))] }"

definition manifest_dict :: "pydict option" where
  "manifest_dict = do {
     agents \<leftarrow> those (map manifest_agent pipeline_agent_order);
     gates \<leftarrow> those (map manifest_gate manifest_gate_agents);
     Some [(''agents'', PList (map PDict agents)), (''gates'', PList (map PDict gates)),
           (''edges'', PList (map (\<lambda>(s, t). PDict [(''source'', PStr s), (''target'', PStr t)]) pipeline_edges)),
           (''legacy_alias_map'', PDict (map (\<lambda>(k, v). (k, PStr v)) legacy_agent_ids))] }"

definition get_pipeline_manifest :: pydict where "get_pipeline_manifest = the manifest_dict"

lemma manifest_loads: "manifest_dict \<noteq> None"
  by code_simp

section \<open>Small endpoints\<close>

definition pair_breaker :: breaker_config where "pair_breaker = \<lparr>bc_threshold = 3, bc_timeout = 60\<rparr>"

text \<open>The status of the breaker, and a probe of the service that moves it.\<close>

definition pair_health :: "bool \<Rightarrow> breaker_keys \<Rightarrow> pydict" where
  "pair_health up keys = get_status pair_breaker ''pair_search'' up keys"

definition pair_probe ::
  "settings \<Rightarrow> bool \<times> rat \<Rightarrow> exn \<times> string + int \<Rightarrow> breaker_keys \<Rightarrow> (exn + pydict) \<times> breaker_keys" where
  "pair_probe st rec probe keys = check_pair_health pair_breaker (st_pair_api_key st \<noteq> None) rec probe keys"

definition refresh_vector_store :: "settings \<Rightarrow> request \<Rightarrow> string option \<Rightarrow> admin_event list \<Rightarrow> (admin_event list \<times> pydict) result" where
  "refresh_vector_store st rq store events =
     bind_result (require_role [Admin] rq) (\<lambda>_.
       let name = (case store of Some (c # cs) \<Rightarrow> c # cs
                   | _ \<Rightarrow> if st_vector_store_id st \<noteq> [] then st_vector_store_id st else ''default'')
       in Inr (events @ [\<lparr>ad_actor = us_id (rq_user rq), ad_action = ''vector_store_refresh_requested'',
                          ad_payload = [(''store'', PStr name)]\<rparr>],
               [(''message'', PStr ''Vector store refresh request recorded''), (''store'', PStr name),
                (''status'', PStr ''queued'')]))"

definition get_domain_capabilities :: "settings \<Rightarrow> pydict" where
  "get_domain_capabilities st = [(''uploads_enabled'', PBool (st_domain_uploads_enabled st))]"

text \<open>The profile of the user; the hash of the password is not part of it.\<close>

definition me :: "account \<Rightarrow> pydict" where
  "me u = [(''id'', PStr (ac_id u)), (''name'', PStr (ac_name u)), (''email'', PStr (ac_email u)),
           (''role'', PStr (role_value (ac_role u)))]"

text \<open>A request of a refresh is recorded for its administrator, and only recorded.\<close>

lemma refresh_is_recorded:
  assumes "refresh_vector_store st rq store events = Inr (events', reply)"
  shows "us_role (rq_user rq) = Admin \<and> length events' = Suc (length events) \<and> take (length events) events' = events
     \<and> ad_actor (last events') = us_id (rq_user rq)"
  using assms by (auto simp: refresh_vector_store_def bind_result_Inr require_role_def Let_def split: if_splits)

lemma probe_without_a_key_moves_nothing:
  "st_pair_api_key st = None \<Longrightarrow> snd (pair_probe st rec probe keys) = keys"
  by (simp add: pair_probe_def check_pair_health_def)

section \<open>Mail of password resets\<close>

record mail =
  ml_host :: "string \<times> int"
  ml_login :: "(string \<times> string) option"
  ml_from :: string
  ml_to :: string
  ml_subject :: string
  ml_body :: string

definition reset_link :: "settings \<Rightarrow> string \<Rightarrow> string" where
  "reset_link st token = st_password_reset_base_url st @ ''?token='' @ token"

definition send_password_reset_email :: "settings \<Rightarrow> string \<Rightarrow> string \<Rightarrow> mail option" where
  "send_password_reset_email st email token =
     (if st_smtp_host st = [] then None
      else Some \<lparr>ml_host = (st_smtp_host st, st_smtp_port st),
             ml_login = (if st_smtp_username st = [] then None else Some (st_smtp_username st, st_smtp_password st)),
             ml_from = st_smtp_from_address st, ml_to = email, ml_subject = ''VerdictCouncil Password Reset'',
             ml_body = ''A password reset was requested for your VerdictCouncil account.'' @ newline @ newline
               @ ''Reset link: '' @ reset_link st token @ newline @ newline
               @ ''This link expires in '' @ str_of_int (st_reset_token_ttl_minutes st) @ '' minutes.'' @ newline
               @ ''If you did not request this, you can ignore this email.''\<rparr>)"

lemma no_mail_by_default: "send_password_reset_email default_settings email token = None"
  by (simp add: send_password_reset_email_def default_settings_def)

section \<open>Further helpers\<close>

text \<open>\<open>shared/audit.py\<close>: an entry of the audit log of a case, stamped with the time.\<close>

definition append_case_audit :: "int \<Rightarrow> audit_entry \<Rightarrow> case_state \<Rightarrow> case_state" where
  "append_case_audit now e s = s\<lparr>cs_audit_log := cs_audit_log s @ [e\<lparr>ae_timestamp := now\<rparr>]\<rparr>"

text \<open>\<open>persist_case_results._items_from\<close>: the dictionaries of a list, or of the first list under the keys.\<close>

definition dicts_in :: "pyval list \<Rightarrow> pydict list" where
  "dicts_in vs = concat (map (\<lambda>v. case v of PDict d \<Rightarrow> [d] | _ \<Rightarrow> []) vs)"

fun first_list :: "pydict \<Rightarrow> string list \<Rightarrow> pydict list" where
  "first_list d [] = []"
| "first_list d (k # ks) = (case pget d k of PList vs \<Rightarrow> dicts_in vs | _ \<Rightarrow> first_list d ks)"

definition items_from :: "pyval \<Rightarrow> string list \<Rightarrow> pydict list" where
  "items_from container keys = (case container of
     PList vs \<Rightarrow> dicts_in vs | PDict d \<Rightarrow> first_list d keys | _ \<Rightarrow> [])"

text \<open>\<open>gates._current_trace_id\<close>: no span, an invalid one or a failure of the tracer give no identifier.\<close>

definition gate_trace_id :: "py_error + span_context option \<Rightarrow> string option" where
  "gate_trace_id active = (case active of
     Inr (Some c) \<Rightarrow> if context_is_valid c then Some (hex_pad 32 (unat (sx_trace_id c))) else None
   | _ \<Rightarrow> None)"

lemma gate_trace_agrees: "gate_trace_id (Inr (Some c)) = current_trace_id c"
  by (simp add: gate_trace_id_def current_trace_id_def)

end
