(* ===== verification/Tool_Inputs.thy ===== *)
theory Tool_Inputs
  imports Event_Schema Tools Document_Parse
begin

text \<open>
  The arguments a model gives to the tools, as \<open>pipeline/graph/tools.py\<close> reads them: one input schema per tool
  with its defaults and bounds, and the wrappers that hand the arguments on. Arguments a schema refuses never
  reach a tool. The texts of numbers are Pydantic's to read.
\<close>

section \<open>Readers\<close>

record number_readers =
  nr_int :: "string \<Rightarrow> int option"
  nr_float :: "string \<Rightarrow> rat option"

definition read_number :: "number_readers \<Rightarrow> pyval \<Rightarrow> int option" where
  "read_number nr v = lax_int \<lparr>rd_uuid = (\<lambda>_. None), rd_datetime = (\<lambda>_. None), rd_int = nr_int nr\<rparr> v"

definition read_float :: "number_readers \<Rightarrow> pyval \<Rightarrow> rat option" where
  "read_float nr v = (case v of
     PFloat x \<Rightarrow> Some x | PInt i \<Rightarrow> Some (of_int i) | PBool b \<Rightarrow> Some (if b then 1 else 0) | PStr s \<Rightarrow> nr_float nr s | _ \<Rightarrow> None)"

definition true_words :: "string list" where "true_words = [''1'', ''on'', ''t'', ''true'', ''y'', ''yes'']"
definition false_words :: "string list" where "false_words = [''0'', ''off'', ''f'', ''false'', ''n'', ''no'']"

text \<open>A \<open>bool\<close> field takes 0 and 1 and the usual words as well.\<close>

definition read_bool :: "pyval \<Rightarrow> bool option" where
  "read_bool v = (case v of
     PBool b \<Rightarrow> Some b
   | PInt i \<Rightarrow> if i = 0 then Some False else if i = 1 then Some True else None
   | PFloat x \<Rightarrow> if x = 0 then Some False else if x = 1 then Some True else None
   | PStr s \<Rightarrow> if py_lower s \<in> set true_words then Some True else if py_lower s \<in> set false_words then Some False else None
   | _ \<Rightarrow> None)"

definition read_list :: "(pyval \<Rightarrow> 'a option) \<Rightarrow> pyval \<Rightarrow> 'a list option" where
  "read_list rd v = (case v of PList vs \<Rightarrow> those (map rd vs) | _ \<Rightarrow> None)"

definition bounded_by :: "int \<Rightarrow> int option \<Rightarrow> int option" where
  "bounded_by bound v = (case v of Some i \<Rightarrow> if i \<le> bound then Some i else None | None \<Rightarrow> None)"

section \<open>Input schemas\<close>

definition parse_document_input :: "pydict \<Rightarrow> (string \<times> bool \<times> bool) option" where
  "parse_document_input d = do {
     f \<leftarrow> required d ''file_id'' read_str;
     t \<leftarrow> defaulted d ''extract_tables'' True read_bool;
     o1 \<leftarrow> defaulted d ''ocr_enabled'' False read_bool;
     Some (f, t, o1) }"

definition cross_reference_input :: "pydict \<Rightarrow> (pydict list \<times> string) option" where
  "cross_reference_input d = do {
     segs \<leftarrow> required d ''segments'' (read_list read_dict);
     c \<leftarrow> required d ''check_type'' read_str;
     Some (segs, c) }"

definition timeline_construct_input :: "pydict \<Rightarrow> pydict list option" where
  "timeline_construct_input d = required d ''events'' (read_list read_dict)"

definition generate_questions_input ::
  "number_readers \<Rightarrow> pydict \<Rightarrow> (string \<times> string list \<times> string list option \<times> int) option" where
  "generate_questions_input nr d = do {
     a \<leftarrow> required d ''argument_summary'' read_str;
     w \<leftarrow> required d ''weaknesses'' (read_list read_str);
     t \<leftarrow> optional d ''question_types'' (read_list read_str);
     m \<leftarrow> defaulted d ''max_questions'' 5 (read_number nr);
     Some (a, w, t, m) }"

definition confidence_calc_input ::
  "number_readers \<Rightarrow> pydict \<Rightarrow> (string list \<times> string list \<times> int list \<times> rat list) option" where
  "confidence_calc_input nr d = do {
     e \<leftarrow> required d ''evidence_strengths'' (read_list read_str);
     f \<leftarrow> required d ''fact_statuses'' (read_list read_str);
     w \<leftarrow> required d ''witness_scores'' (read_list (read_number nr));
     p \<leftarrow> required d ''precedent_similarities'' (read_list (read_float nr));
     Some (e, f, w, p) }"

definition search_precedents_input :: "number_readers \<Rightarrow> pydict \<Rightarrow> (string \<times> string \<times> int) option" where
  "search_precedents_input nr d = do {
     q \<leftarrow> required d ''query'' read_str;
     dom \<leftarrow> defaulted d ''domain'' ''small_claims'' read_str;
     m \<leftarrow> defaulted d ''max_results'' 5 (read_number nr);
     Some (q, dom, m) }"

definition search_domain_guidance_input :: "number_readers \<Rightarrow> pydict \<Rightarrow> (string \<times> int) option" where
  "search_domain_guidance_input nr d = do {
     q \<leftarrow> required d ''query'' read_str;
     m \<leftarrow> defaulted d ''max_results'' 25 (\<lambda>v. bounded_by 50 (read_number nr v));
     Some (q, m) }"

section \<open>Wrappers\<close>

text \<open>A refused call is answered with the error of the validation; \<open>run\<close> is the tool.\<close>

definition tool_call :: "'a option \<Rightarrow> ('a \<Rightarrow> exn + 'b) \<Rightarrow> exn + 'b" where
  "tool_call args run = (case args of None \<Rightarrow> Inl (Exn [''ValidationError'', ''ValueError'', ''Exception'']) | Some a \<Rightarrow> run a)"

definition cross_reference_tool ::
  "(nat \<Rightarrow> pydict list \<times> string \<Rightarrow> exn + pydict) \<Rightarrow> pydict \<Rightarrow> exn + pydict" where
  "cross_reference_tool client d =
     tool_call (cross_reference_input d) (\<lambda>(segs, c). cross_reference client (Some segs) c)"

definition timeline_construct_tool :: "date_lib \<Rightarrow> pydict \<Rightarrow> exn + pydict list" where
  "timeline_construct_tool dl d = tool_call (timeline_construct_input d) (timeline_construct dl)"

definition generate_questions_tool ::
  "number_readers \<Rightarrow> (nat \<Rightarrow> question_prompt \<Rightarrow> exn + pydict) \<Rightarrow> pydict \<Rightarrow> exn + pydict list" where
  "generate_questions_tool nr client d =
     tool_call (generate_questions_input nr d) (\<lambda>(a, w, t, m). generate_questions client a w t m)"

definition confidence_calc_tool :: "number_readers \<Rightarrow> float_lib \<Rightarrow> pydict \<Rightarrow> exn + confidence_result" where
  "confidence_calc_tool nr fl d =
     tool_call (confidence_calc_input nr d) (\<lambda>(e, f, w, p). Inr (confidence_calc fl e f (map of_int w) p))"

definition parse_document_tool ::
  "'w openai_files \<Rightarrow> (string \<Rightarrow> exn + bool) option \<Rightarrow> pydict \<Rightarrow> 'w \<Rightarrow> (exn + parsed_document) \<times> 'w" where
  "parse_document_tool files classifier d w =
     (case parse_document_input d of
        None \<Rightarrow> (Inl (Exn [''ValidationError'', ''ValueError'', ''Exception'']), w)
      | Some (f, t, o1) \<Rightarrow> parse_document files classifier f t o1 w)"

section \<open>What passes\<close>

text \<open>A guidance search asks for 50 results at most; one of precedents may ask for any number, zero and less included.\<close>

lemma guidance_is_bounded:
  "search_domain_guidance_input nr d = Some (q, m) \<Longrightarrow> m \<le> 50"
  by (auto simp: search_domain_guidance_input_def defaulted_def bounded_by_def Option.bind_eq_Some_conv split: option.splits if_splits)

lemma precedents_are_not:
  "search_precedents_input nr [(''query'', PStr q), (''max_results'', PInt m)] = Some (q, ''small_claims'', m)"
  by (simp add: search_precedents_input_def required_def defaulted_def read_str_def read_number_def lax_int_def)

text \<open>Whole numbers only: a fraction among the credibility scores refuses the whole call.\<close>

lemma fractional_score_is_refused:
  assumes "map_of d ''witness_scores'' = Some (PList ws)" "PFloat x \<in> set ws" "of_int \<lfloor>x\<rfloor> \<noteq> x"
  shows "confidence_calc_tool nr fl d = Inl (Exn [''ValidationError'', ''ValueError'', ''Exception''])"
proof -
  have "read_number nr (PFloat x) = None" using assms(3) by (simp add: read_number_def lax_int_def)
  then have "those (map (read_number nr) ws) = None" using assms(2) by (induction ws) (auto split: option.split)
  then have "confidence_calc_input nr d = None"
    using assms(1) by (auto simp: confidence_calc_input_def required_def read_list_def Option.bind_eq_None_conv)
  then show ?thesis by (simp add: confidence_calc_tool_def tool_call_def)
qed

end
