(* ===== verification/Spec2Isabelle.thy ===== *)
theory Spec2Isabelle
  imports Whatif_Api Reviews Schema_Tools Operator_Scripts Application Tool_Inputs
begin

text \<open>
  VerdictCouncil's backend runs a case through a pipeline of language-model agents that a judge
  reviews at four gates. This development models the part of it that decides what happens: the
  graph and its reducers, the review gates, the outbox that carries requests to the worker, the
  tables the results are stored in, the HTTP handlers of the judge, and what guards them: sessions,
  sanitization, limits and retries; and the migrations and scripts around it. Paths are under \<open>src/src/\<close> unless
  said otherwise.

  \<^bold>\<open>How the parts interact.\<close> A request of the judge (\<open>Case_Api\<close>) changes the status of a case and
  inserts a job row in one transaction. The dispatcher (\<open>Outbox\<close>) claims pending rows, hands their
  keys to the queue and marks them dispatched. The worker (\<open>Worker\<close>) runs a dispatched job: the
  first run of the graph, or the resumption of its checkpointed thread with the judge's answer
  (\<open>Resume\<close>). The graph (\<open>Pipeline_Graph\<close>, \<open>Pipeline_Exec\<close>, \<open>Runner\<close>) runs agents, merges what
  their branches return (\<open>Case_State\<close>, \<open>Research\<close>) and pauses at the next gate (\<open>Gates\<close>). The worker
  stores the state of the case (\<open>Persist\<close>, \<open>Database\<close>), publishes the interrupt and writes the
  status the judge's next request will find. \<open>System\<close> puts the three processes into one step
  relation.

  \<^bold>\<open>Theories.\<close>

  \<^item> \<open>Prelude\<close>: Python values and dictionaries in insertion order, truthiness, equality, strings,
    the result type, and the lemma collections.
  \<^item> \<open>Case_State\<close> (\<open>shared/case_state.py\<close>, \<open>pipeline/graph/state.py\<close>): the case model and the reducers
    of the graph's channels. Locales \<open>keyed_reducer\<close> and \<open>monotone_reducer\<close> state what a channel may
    assume of its reducer, interpreted on the three dictionary reducers. The lemmas show that a
    replayed update changes nothing, that an update never loses what is stored, and that branches
    with different keys commute.
  \<^item> \<open>Schemas\<close>, \<open>Citations\<close> (\<open>pipeline/graph/schemas.py\<close>, \<open>citation_provenance.py\<close>,
    \<open>output_validator.py\<close>): the agents' outputs with their validators; source ids and the
    suppression of unsupported citations.
  \<^item> \<open>Graph_State\<close>, \<open>Research\<close> (\<open>agents/factory.py\<close>, \<open>research.py\<close>): the update a node returns, its
    mirror on the case, the research fan-out and its join.
  \<^item> \<open>Gates\<close> (\<open>nodes/gates.py\<close>): the payload of a pause and the command of an apply node.
  \<^item> \<open>Pipeline_Graph\<close>, \<open>Pipeline_Exec\<close>, \<open>Runner\<close> (\<open>builder.py\<close>, \<open>runner.py\<close>): the topology, the
    step relation with its trace, an executor that runs to the next pause, sessions of decisions.
    The invariant ties the position to the gates passed; the executor needs at most eight steps to
    a pause, so the fuel \<open>step_limit\<close> of eight is never exhausted.
  \<^item> \<open>Resume\<close> (\<open>resume.py\<close>): resume values, pending interrupts, send-back, cancellation. The
    checkpointed graph is a record of operations; the locale \<open>gate_thread\<close> holds the laws the
    functions rely on, interpreted on the executor's threads (\<open>pipeline\<close>).
  \<^item> \<open>Trace_Context\<close> (\<open>api/trace_propagation.py\<close>): W3C trace headers over words of 128, 64 and 8 bits.
  \<^item> \<open>Outbox\<close> (\<open>models/pipeline_job.py\<close>, \<open>workers/outbox.py\<close>, \<open>dispatcher.py\<close>, the wrapper of \<open>tasks.py\<close>):
    the job table and its SQL statements, the dispatcher's rounds, the task wrapper. Locale
    \<open>job_store\<close>, interpreted on the table.
  \<^item> \<open>Database\<close>, \<open>Persist\<close> (\<open>models/case.py\<close>, \<open>models/audit.py\<close>, \<open>db/pipeline_state.py\<close>,
    \<open>db/persist_case_results.py\<close>): rows, checkpoints with their retries and version gate, and the
    transaction that replaces the child rows of a case.
  \<^item> \<open>Worker\<close> (\<open>_run_case_pipeline\<close> of \<open>api/routes/cases.py\<close>, \<open>workers/tasks.py\<close>,
    \<open>services/pipeline_events.py\<close>, \<open>services/stuck_case_watchdog.py\<close>): the jobs and the watchdog.
  \<^item> \<open>Case_Api\<close> (\<open>api/routes/cases.py\<close>, \<open>api/schemas/resume.py\<close>, \<open>api/deps.py\<close>): the handlers that
    start, restart, cancel, advance, rerun, halt and send back a case, chat replies, decisions and
    edits of questions.
  \<^item> \<open>Case_View\<close> (\<open>api/routes/cases.py\<close>, \<open>pipeline/manifest.py\<close>): summaries and details of a case
    (jurisdiction findings, progress, escalation reason) and the list with its filters and pages. The
    lemmas show that serialised cases fit their schema and that the pages partition the rows.
  \<^item> \<open>Sanitization\<close>, \<open>Document_Parse\<close> (\<open>shared/sanitization.py\<close>, \<open>pipeline/guardrails.py\<close>,
    \<open>tools/parse_document.py\<close>, \<open>services/document_parse.py\<close>): the injection patterns as a matcher, the
    cleaning of text and of parsed documents, and the job that stores them. No pattern matches cleaned
    text.
  \<^item> \<open>Intake\<close> (\<open>api/routes/cases.py\<close>, \<open>services/intake_extraction.py\<close>, \<open>services/intake_events.py\<close>):
    creation, drafts, extraction, corrections, confirmation; intake steps are added to \<open>System\<close> and
    keep its invariant.
  \<^item> \<open>Case_Data\<close> (\<open>api/routes/case_data.py\<close>, \<open>documents.py\<close>): uploads, pipeline status, sub-resources.
  \<^item> \<open>Reviews\<close> (\<open>api/routes/reopen_requests.py\<close>, \<open>hearing_notes.py\<close>, \<open>judge.py\<close>): reopen requests, notes
    and their locks, disputed facts, evidence gaps and dashboard, fairness audit.
  \<^item> \<open>Access\<close> (\<open>api/routes/auth.py\<close>, \<open>admin.py\<close>, \<open>api/deps.py\<close>, \<open>api/middleware/csrf.py\<close>): accounts,
    sessions, password resets, revocation. The clock of \<open>quiet_step\<close> never goes back.
  \<^item> \<open>Resilience\<close>, \<open>Precedent_Search\<close>, \<open>Tools\<close> (\<open>shared/circuit_breaker.py\<close>, \<open>shared/retry.py\<close>,
    \<open>api/middleware/rate_limit.py\<close>, \<open>tools/\<close>, \<open>pipeline/graph/tools.py\<close>): the breaker refines an automaton, a
    retried call is made at most three times (\<open>max_retries\<close> two), the limiter's window of sixty seconds
    refines the full history of requests; the agents' tools.
  \<^item> \<open>Whatif\<close>, \<open>Whatif_Api\<close> (\<open>services/whatif/\<close>, \<open>api/routes/what_if.py\<close>, \<open>models/what_if.py\<close>): modifications,
    forks, diffs, stability scores and the endpoints. A fork is driven for at most eight rounds; five are
    enough, since it passes one gate in each.
  \<^item> \<open>Knowledge_Base\<close>, \<open>Domains\<close> (\<open>services/knowledge_base.py\<close>, \<open>api/routes/knowledge_base.py\<close>,
    \<open>api/routes/domains.py\<close>, \<open>workers/domain_reconciliation.py\<close>): the stores of judges and domains, the
    administration of domains, the ingestion of a document as stages between two commits, reconciliation. An
    indexed document was sanitized, over all interleavings of requests, stages and reconciliations.
  \<^item> \<open>Reports\<close> (\<open>api/routes/hearing_pack.py\<close>, \<open>services/hearing_pack.py\<close>, \<open>services/case_report_data.py\<close>,
    \<open>api/routes/audit.py\<close>, \<open>api/routes/precedent_search.py\<close>): hearing pack and its markdown, archive, event
    log, audit trail, ad hoc search.
  \<^item> \<open>Monitoring\<close> (\<open>api/middleware/metrics.py\<close>, \<open>shared/cost.py\<close>, \<open>api/routes/cost.py\<close>,
    \<open>api/routes/dashboard.py\<close>): counters, histograms, costs, dashboard. A histogram refines the list of the
    durations it was fed.
  \<^item> \<open>Streaming\<close>, \<open>Agent_Node\<close> (\<open>services/pipeline_events.py\<close>, \<open>runner_stream_adapter.py\<close>,
    \<open>middleware/sse_bridge.py\<close>, \<open>agents/stream_coalescer.py\<close>, \<open>agents/factory.py\<close>, \<open>graph/tools.py\<close>):
    publication and subscription, the batching of tokens, the bounded publisher, the two event streams of the
    API; the node of an agent with its tools, payload, stream, fallback and structuring pass. The locale
    \<open>text_buffer\<close> is what the node relies on, interpreted on the coalescer.
  \<^item> \<open>Prompt_Registry\<close> (\<open>pipeline/graph/prompt_registry.py\<close>): the prompt of a node, its cache and the
    corrections of the judge. The locale \<open>prompt_hub\<close> holds the laws of the prompt service, interpreted on a
    service in memory.
  \<^item> \<open>Schema_Engine\<close>, \<open>Migrations\<close>, \<open>Migration_Run\<close>, \<open>Model_Schema\<close>, \<open>Schema_Tools\<close> (\<open>alembic/\<close>, \<open>src/models/\<close>,
    \<open>scripts/reset_db.py\<close>, \<open>scripts/fix_missing_columns.py\<close>, beside \<open>src/src/\<close>): the statements of the migrations,
    every upgrade and downgrade, the chain and its run in one transaction, the tables of the models. The locale
    \<open>schema_engine\<close> holds the documented effect of the statements, interpreted on a catalogue of tables, rows,
    indexes and types. Downgrades of creations restore; the swaps of types in 0016 and 0017 cannot succeed; the
    models and the migrations declare the same columns but for two named differences.
  \<^item> \<open>Operator_Scripts\<close> (\<open>scripts/\<close>): the seeding of the saver from the legacy checkpoints, the push and the pull
    of the prompts, the demo accounts, the provisioning of the domains' stores.
  \<^item> \<open>Event_Schema\<close> (\<open>api/schemas/pipeline_events.py\<close>, \<open>nodes/terminal.py\<close>, \<open>scripts/capture_sse_goldens.py\<close>): the
    classes of the events, their validation and JSON form, the recorded fixtures. An event that was written is
    read back by its class alone; of what the agents publish, the chunks of plain mode are in no class.
  \<^item> \<open>Tool_Inputs\<close> (\<open>pipeline/graph/tools.py\<close>): the input schemas of the tools and their wrappers.
  \<^item> \<open>Routing\<close> (\<open>api/app.py\<close>, the decorators of \<open>api/routes/\<close>, \<open>scripts/smoke_frontend_contract.py\<close>): the table of
    routes with their access rules and the search for the route of a request. No two routes overlap, and only
    seven endpoints run without a session.
  \<^item> \<open>Worker_Process\<close> (\<open>workers/dispatcher.py\<close>, \<open>worker_settings.py\<close>, \<open>pipeline/graph/checkpointer.py\<close>): the
    loops round by round, start and end of a worker, the saver of the process. The 1024 of the outage is the
    largest power of two a float holds.
  \<^item> \<open>Application\<close> (\<open>api/app.py\<close>, \<open>api/deps.py\<close>, \<open>shared/\<close>, \<open>services/mailer.py\<close>, small endpoints): a request through
    the middleware and the session of the database, settings, logging, the documented schema, the classifier's
    start, mail of password resets.
  \<^item> \<open>System\<close>: requests, dispatcher and worker as steps on one world. The invariant says that a case
    has at most one live pipeline job, only while it is processing, and that a case awaiting a gate
    has a thread paused at that gate.

  \<^bold>\<open>Conventions.\<close> JSON values and dictionaries are \<open>pyval\<close> and \<open>pydict\<close>; identifiers and enumeration
  columns that only travel are text; numbers of Python are \<open>int\<close> and \<open>rat\<close>. A raise is \<open>Inl\<close> of a
  \<open>py_error\<close>, an HTTP error among them. A handler's error means its transaction was rolled back, so
  the state is the old one. Times are microseconds.

  \<^bold>\<open>Parameters.\<close> Code that is not the program's is an argument: the answers of the agents
  (\<open>agents\<close>, with \<open>well_behaved\<close> for agents that answer their schema), LangGraph's coercion and
  serialisation (\<open>environment\<close>), tokens and hashes (\<open>crypto\<close>, with \<open>crypto_ok\<close> for their laws), the
  file service and the extractor of the intake (\<open>openai_files\<close>, \<open>extractor\<close>), the vector stores (\<open>vector_service\<close>), the items of a model's stream and
  its other answers (\<open>model_answers\<close>), what a publication finds (\<open>publish_env\<close>), the order of a query's rows
  (\<open>row_order\<close>), date and number parsing (\<open>parsers\<close>), the answers of the database to a
  checkpoint write, the queue (\<open>arq_enqueue\<close>), and the values of a request.
  \<open>drives_pipeline\<close> says that a runtime uses the executor's threads,
  \<open>runs_leave_live_threads\<close> that no checkpoint row violates a constraint and that a run of an old
  thread leaves a live one without writing the status of the case; both hold of \<open>plain_runtime\<close>.

  \<^bold>\<open>Limits.\<close> In \<open>System\<close> requests on one case do not overlap and the watchdog does not run:
  \<open>overlapping_advances_skip_a_review\<close> shows what an overlap does. A worker that dies inside a run
  leaves the thread as it was.

  \<^bold>\<open>Not modelled.\<close> The texts of the prompts (data for the language model), the calls
  of the models beyond their answers, what FastAPI, SQLAlchemy and the instrumentation do between the modelled
  steps (CORS headers, connection pools, spans), the rendering of PDF files, and what is outside the running
  program: evaluation, demo records and observability code.
\<close>

end
